(* ===== verification/Prelude.thy ===== *)
theory Prelude
  imports Main "HOL-Library.AList" "HOL-Library.Multiset" "HOL-Library.Code_Target_Nat"
begin

text \<open>
  Shared vocabulary of the development.  TypeScript code that may throw is a value of the sum
  type \<open>'e + 'a\<close> (\<open>Inl\<close> is the thrown error); code that also mutates its object is a function of
  type \<open>('s, 'e, 'a) method\<close>, which returns the outcome together with the state the object is left
  in, also when it throws.  A JavaScript \<open>Map\<close> with string keys is an association list in
  insertion order (\<open>jsmap\<close>), because the code iterates over \<open>values()\<close>.
  The theory holds the combinators, their weakest-precondition rules, the laws of maps and the
  interface of a transition system, from which the components get their reachability theorems.
\<close>

named_theorems wp_simps \<open>weakest preconditions of the combinators\<close>
named_theorems outcome_simps \<open>when a fallible computation succeeds\<close>

section \<open>Fallible computations\<close>

definition ensure :: "bool \<Rightarrow> 'e \<Rightarrow> 'e + unit" where
  "ensure b e = (if b then Inr () else Inl e)"

definition ebind :: "'e + 'a \<Rightarrow> ('a \<Rightarrow> 'e + 'b) \<Rightarrow> 'e + 'b" where
  "ebind m k = (case m of Inl e \<Rightarrow> Inl e | Inr x \<Rightarrow> k x)"

fun checks :: "('e + unit) list \<Rightarrow> 'e + unit" where
  "checks [] = Inr ()"
| "checks (c # cs) = (case c of Inl e \<Rightarrow> Inl e | Inr _ \<Rightarrow> checks cs)"

fun emap :: "('a \<Rightarrow> 'e + 'b) \<Rightarrow> 'a list \<Rightarrow> 'e + 'b list" where
  "emap f [] = Inr []"
| "emap f (x # xs) = (case f x of Inl e \<Rightarrow> Inl e | Inr y \<Rightarrow>
     (case emap f xs of Inl e \<Rightarrow> Inl e | Inr ys \<Rightarrow> Inr (y # ys)))"

text \<open>\<open>some\<close> and \<open>filter\<close> with a predicate that may throw: left to right, \<open>some\<close> stops at the first hit.\<close>

fun esome :: "('a \<Rightarrow> 'e + bool) \<Rightarrow> 'a list \<Rightarrow> 'e + bool" where
  "esome p [] = Inr False"
| "esome p (x # xs) = (case p x of Inl e \<Rightarrow> Inl e | Inr b \<Rightarrow> if b then Inr True else esome p xs)"

fun efilter :: "('a \<Rightarrow> 'e + bool) \<Rightarrow> 'a list \<Rightarrow> 'e + 'a list" where
  "efilter p [] = Inr []"
| "efilter p (x # xs) = (case p x of Inl e \<Rightarrow> Inl e | Inr b \<Rightarrow>
     (case efilter p xs of Inl e \<Rightarrow> Inl e | Inr ys \<Rightarrow> Inr (if b then x # ys else ys)))"

definition succeeds :: "'e + 'a \<Rightarrow> bool" where
  "succeeds m = (case m of Inl _ \<Rightarrow> False | Inr _ \<Rightarrow> True)"

lemma ensure_Inr [simp, outcome_simps]: "ensure b e = Inr u \<longleftrightarrow> b"
  by (simp add: ensure_def)

lemma ensure_Inl [simp]: "ensure b e = Inl e' \<longleftrightarrow> \<not> b \<and> e' = e"
  by (auto simp: ensure_def)

lemma ensure_simps [simp]: "ensure True e = Inr ()" "ensure False e = Inl e"
  by (simp_all add: ensure_def)

lemma ebind_simps [simp]: "ebind (Inr x) k = k x" "ebind (Inl e) k = Inl e"
  by (simp_all add: ebind_def)

lemma ebind_Inr [outcome_simps]:
  "ebind m k = Inr y \<longleftrightarrow> (\<exists>x. m = Inr x \<and> k x = Inr y)"
  by (auto simp: ebind_def split: sum.splits)

lemma checks_Cons_Inr [outcome_simps]:
  "checks (c # cs) = Inr u \<longleftrightarrow> c = Inr () \<and> checks cs = Inr ()"
  by (auto split: sum.splits)

lemma checks_Nil_Inr [outcome_simps]: "checks [] = Inr u \<longleftrightarrow> True"
  by simp

lemma checks_Inr: "checks cs = Inr u \<longleftrightarrow> (\<forall>c \<in> set cs. c = Inr ())"
  by (induction cs) (auto split: sum.splits)

lemma checks_Inl: "checks cs = Inl e \<Longrightarrow> Inl e \<in> set cs"
  by (induction cs) (auto split: sum.splits)

declare checks.simps(2) [simp del]

lemma ebind_Inl: "ebind m k = Inl e \<longleftrightarrow> m = Inl e \<or> (\<exists>x. m = Inr x \<and> k x = Inl e)"
  by (auto simp: ebind_def split: sum.splits)

lemma checks_map_Inr [outcome_simps]:
  "checks (map f xs) = Inr u \<longleftrightarrow> (\<forall>x \<in> set xs. f x = Inr ())"
  by (auto simp: checks_Inr)

lemma checks_append_Inr [outcome_simps]:
  "checks (xs @ ys) = Inr u \<longleftrightarrow> checks xs = Inr () \<and> checks ys = Inr ()"
  by (auto simp: checks_Inr)

lemma case_unit_Inr [outcome_simps]:
  "(case m of Inl e \<Rightarrow> Inl e | Inr u \<Rightarrow> k) = Inr y \<longleftrightarrow> m = Inr () \<and> k = Inr y"
  by (auto split: sum.splits)

lemma emap_Inr_nth:
  "emap f xs = Inr ys \<Longrightarrow> length ys = length xs \<and> (\<forall>i < length xs. f (xs ! i) = Inr (ys ! i))"
  by (induction xs arbitrary: ys) (auto split: sum.splits simp: nth_Cons')

lemma emap_Cons_Inr [outcome_simps]:
  "emap f (x # xs) = Inr zs \<longleftrightarrow> (\<exists>y ys. f x = Inr y \<and> emap f xs = Inr ys \<and> zs = y # ys)"
  by (auto split: sum.splits)

lemma emap_Nil_Inr [outcome_simps]: "emap f [] = Inr zs \<longleftrightarrow> zs = []"
  by auto

lemma emap_cong [fundef_cong]:
  "xs = ys \<Longrightarrow> (\<And>x. x \<in> set ys \<Longrightarrow> f x = g x) \<Longrightarrow> emap f xs = emap g ys"
  by (induction ys arbitrary: xs) (auto split: sum.splits)

lemma emap_all: "(\<And>x. x \<in> set xs \<Longrightarrow> f x = Inr (g x)) \<Longrightarrow> emap f xs = Inr (map g xs)"
  by (induction xs) auto

lemma emap_length: "emap f xs = Inr ys \<Longrightarrow> length ys = length xs"
  using emap_Inr_nth by blast

lemma emap_Inr_map: "emap f xs = Inr ys \<Longrightarrow> (\<And>x y. x \<in> set xs \<Longrightarrow> f x = Inr y \<Longrightarrow> y = g x) \<Longrightarrow> ys = map g xs"
  by (induction xs arbitrary: ys) (auto split: sum.splits)

lemma emap_Inr_mem: "emap f xs = Inr ys \<Longrightarrow> x \<in> set xs \<Longrightarrow> \<exists>y. f x = Inr y"
  by (induction xs arbitrary: ys) (auto split: sum.splits)

lemma emap_append_Inr: "emap f (xs @ ys) = Inr zs \<longleftrightarrow> (\<exists>us vs. emap f xs = Inr us \<and> emap f ys = Inr vs \<and> zs = us @ vs)"
  by (induction xs arbitrary: zs) (auto simp: emap_Cons_Inr simp del: emap.simps(2))

lemma esome_True: "esome p xs = Inr True \<Longrightarrow> \<exists>x \<in> set xs. p x = Inr True"
  by (induction xs) (auto split: sum.splits if_splits)

lemma esome_False: "esome p xs = Inr False \<Longrightarrow> \<forall>x \<in> set xs. p x = Inr False"
  by (induction xs) (auto split: sum.splits if_splits)

lemma efilter_Inr: "efilter p xs = Inr ys \<Longrightarrow> ys = filter (\<lambda>x. p x = Inr True) xs \<and> (\<forall>x \<in> set xs. succeeds (p x))"
  by (induction xs arbitrary: ys) (auto split: sum.splits simp: succeeds_def)

lemma succeeds_iff: "succeeds m \<longleftrightarrow> (\<exists>x. m = Inr x)"
  by (auto simp: succeeds_def split: sum.splits)

lemma succeeds_simps [simp]: "succeeds (Inr x)" "\<not> succeeds (Inl e)"
  by (simp_all add: succeeds_def)

section \<open>Methods: outcome and state\<close>

type_synonym ('s, 'e, 'a) "method" = "'s \<Rightarrow> ('e + 'a) \<times> 's"

definition ret :: "'a \<Rightarrow> ('s, 'e, 'a) method" where
  "ret x s = (Inr x, s)"

text \<open>A read-only computation on the object, which may throw.\<close>

definition reads :: "('s \<Rightarrow> 'e + 'a) \<Rightarrow> ('s, 'e, 'a) method" where
  "reads f s = (f s, s)"

definition modify :: "('s \<Rightarrow> 's) \<Rightarrow> ('s, 'e, unit) method" where
  "modify f s = (Inr (), f s)"

text \<open>A computation that returns the new state of the object, or throws and leaves it as it was.\<close>

definition updates :: "('s \<Rightarrow> 'e + 's) \<Rightarrow> ('s, 'e, unit) method" where
  "updates f s = (case f s of Inl e \<Rightarrow> (Inl e, s) | Inr s' \<Rightarrow> (Inr (), s'))"

definition andThen :: "('s, 'e, 'a) method \<Rightarrow> ('a \<Rightarrow> ('s, 'e, 'b) method) \<Rightarrow> ('s, 'e, 'b) method" where
  "andThen m k s = (case m s of (Inl e, s') \<Rightarrow> (Inl e, s') | (Inr x, s') \<Rightarrow> k x s')"

text \<open>\<open>try { m } catch (error) { h; throw error }\<close>\<close>

definition onError :: "('s, 'e, 'a) method \<Rightarrow> ('s \<Rightarrow> 's) \<Rightarrow> ('s, 'e, 'a) method" where
  "onError m h s = (case m s of (Inl e, s') \<Rightarrow> (Inl e, h s') | (Inr x, s') \<Rightarrow> (Inr x, s'))"

text \<open>\<open>try { m } finally { h }\<close>\<close>

definition finallyDo :: "('s, 'e, 'a) method \<Rightarrow> ('s \<Rightarrow> 's) \<Rightarrow> ('s, 'e, 'a) method" where
  "finallyDo m h s = (case m s of (r, s') \<Rightarrow> (r, h s'))"

definition wp :: "('s, 'e, 'a) method \<Rightarrow> ('e + 'a \<Rightarrow> 's \<Rightarrow> bool) \<Rightarrow> 's \<Rightarrow> bool" where
  "wp m Q s = (case m s of (r, s') \<Rightarrow> Q r s')"

lemma wp_ret [wp_simps]: "wp (ret x) Q s = Q (Inr x) s"
  by (simp add: wp_def ret_def)

lemma wp_reads [wp_simps]: "wp (reads f) Q s = Q (f s) s"
  by (simp add: wp_def reads_def)

lemma wp_modify [wp_simps]: "wp (modify f) Q s = Q (Inr ()) (f s)"
  by (simp add: wp_def modify_def)

lemma wp_updates [wp_simps]:
  "wp (updates f) Q s = (case f s of Inl e \<Rightarrow> Q (Inl e) s | Inr s' \<Rightarrow> Q (Inr ()) s')"
  by (auto simp: wp_def updates_def split: sum.splits)

lemma wp_andThen [wp_simps]:
  "wp (andThen m k) Q s = wp m (\<lambda>r s'. case r of Inl e \<Rightarrow> Q (Inl e) s' | Inr x \<Rightarrow> wp (k x) Q s') s"
  by (auto simp: wp_def andThen_def split: prod.splits sum.splits)

lemma wp_onError [wp_simps]:
  "wp (onError m h) Q s = wp m (\<lambda>r s'. case r of Inl e \<Rightarrow> Q (Inl e) (h s') | Inr x \<Rightarrow> Q (Inr x) s') s"
  by (auto simp: wp_def onError_def split: prod.splits sum.splits)

lemma wp_finallyDo [wp_simps]: "wp (finallyDo m h) Q s = wp m (\<lambda>r s'. Q r (h s')) s"
  by (auto simp: wp_def finallyDo_def split: prod.splits)

lemma wp_mono: "wp m Q s \<Longrightarrow> (\<And>r s'. Q r s' \<Longrightarrow> R r s') \<Longrightarrow> wp m R s"
  by (auto simp: wp_def split: prod.splits)

lemma wpD: "wp m Q s \<Longrightarrow> m s = (r, s') \<Longrightarrow> Q r s'"
  by (simp add: wp_def)

lemma wpI: "(\<And>r s'. m s = (r, s') \<Longrightarrow> Q r s') \<Longrightarrow> wp m Q s"
  by (simp add: wp_def split: prod.splits)

section \<open>JavaScript maps with string keys\<close>

type_synonym 'v jsmap = "(string \<times> 'v) list"

abbreviation mget :: "'v jsmap \<Rightarrow> string \<Rightarrow> 'v option" where
  "mget m k \<equiv> map_of m k"

definition mhas :: "'v jsmap \<Rightarrow> string \<Rightarrow> bool" where
  "mhas m k = (mget m k \<noteq> None)"

definition mset_at :: "'v jsmap \<Rightarrow> string \<Rightarrow> 'v \<Rightarrow> 'v jsmap" where
  "mset_at m k v = AList.update k v m"

definition mdelete :: "'v jsmap \<Rightarrow> string \<Rightarrow> 'v jsmap" where
  "mdelete m k = AList.delete k m"

definition mvalues :: "'v jsmap \<Rightarrow> 'v list" where
  "mvalues m = map snd m"

definition mkeys :: "'v jsmap \<Rightarrow> string list" where
  "mkeys m = map fst m"

text \<open>No key occurs twice: what every JavaScript map satisfies.\<close>

definition jsmap_ok :: "'v jsmap \<Rightarrow> bool" where
  "jsmap_ok m = distinct (map fst m)"

lemma jsmap_ok_simps [simp]:
  "jsmap_ok []"
  "jsmap_ok m \<Longrightarrow> jsmap_ok (mset_at m k v)"
  "jsmap_ok m \<Longrightarrow> jsmap_ok (mdelete m k)"
  by (simp_all add: jsmap_ok_def mset_at_def mdelete_def distinct_update distinct_delete)

lemma mget_mset_at [simp]: "mget (mset_at m k v) k' = (if k' = k then Some v else mget m k')"
  by (simp add: mset_at_def update_conv')

lemma mget_mdelete [simp]: "mget (mdelete m k) k' = (if k' = k then None else mget m k')"
  by (simp add: mdelete_def delete_conv')

lemma mset_at_fresh: "\<not> mhas m k \<Longrightarrow> mset_at m k v = m @ [(k, v)]"
  by (induction m) (auto simp: mhas_def mset_at_def split: if_splits)

lemma mhas_iff: "mhas m k \<longleftrightarrow> (\<exists>v. mget m k = Some v)"
  by (auto simp: mhas_def)

lemma mvalues_iff: "jsmap_ok m \<Longrightarrow> v \<in> set (mvalues m) \<longleftrightarrow> (\<exists>k. mget m k = Some v)"
  by (force simp: jsmap_ok_def mvalues_def dest: map_of_SomeD intro: map_of_is_SomeI)

lemma mvalues_mset_fresh [simp]: "\<not> mhas m k \<Longrightarrow> mvalues (mset_at m k v) = mvalues m @ [v]"
  by (simp add: mset_at_fresh mvalues_def)

text \<open>Every record is stored under the key its own fields give.\<close>

definition keyed_by :: "('v \<Rightarrow> string) \<Rightarrow> 'v jsmap \<Rightarrow> bool" where
  "keyed_by f m = (\<forall>k v. mget m k = Some v \<longrightarrow> k = f v)"

lemma keyed_by_Nil [simp]: "keyed_by f []"
  by (simp add: keyed_by_def)

lemma keyed_by_mset_at [simp]: "keyed_by f m \<Longrightarrow> k = f v \<Longrightarrow> keyed_by f (mset_at m k v)"
  by (auto simp: keyed_by_def)

lemma keyed_by_mdelete [simp]: "keyed_by f m \<Longrightarrow> keyed_by f (mdelete m k)"
  by (auto simp: keyed_by_def)

lemma keyed_byD: "keyed_by f m \<Longrightarrow> mget m k = Some v \<Longrightarrow> k = f v"
  by (auto simp: keyed_by_def)

section \<open>Stable sorting by a comparator\<close>

text \<open>\<open>Array.prototype.sort(compare)\<close> is stable; \<open>le x y\<close> is \<open>compare(x, y) <= 0\<close>.\<close>

fun insert_by :: "('a \<Rightarrow> 'a \<Rightarrow> bool) \<Rightarrow> 'a \<Rightarrow> 'a list \<Rightarrow> 'a list" where
  "insert_by le x [] = [x]"
| "insert_by le x (y # ys) = (if le x y then x # y # ys else y # insert_by le x ys)"

definition sort_by :: "('a \<Rightarrow> 'a \<Rightarrow> bool) \<Rightarrow> 'a list \<Rightarrow> 'a list" where
  "sort_by le xs = foldr (insert_by le) xs []"

lemma sort_by_simps [simp]: "sort_by le [] = []" "sort_by le (x # xs) = insert_by le x (sort_by le xs)"
  by (simp_all add: sort_by_def)

lemma mset_insert_by [simp]: "mset (insert_by le x xs) = add_mset x (mset xs)"
  by (induction xs) auto

lemma mset_sort_by [simp]: "mset (sort_by le xs) = mset xs"
  by (induction xs) auto

lemma set_insert_by [simp]: "set (insert_by le x xs) = insert x (set xs)"
  by (induction xs) auto

lemma set_sort_by [simp]: "set (sort_by le xs) = set xs"
  by (induction xs) auto

lemma length_sort_by [simp]: "length (sort_by le xs) = length xs"
  by (metis mset_sort_by size_mset)

lemma sort_by_Nil_iff [simp]: "sort_by le xs = [] \<longleftrightarrow> xs = []"
  by (metis length_0_conv length_sort_by)

lemma insert_by_map:
  assumes "\<And>x y. le' (f x) (f y) \<longleftrightarrow> le x y"
  shows "map f (insert_by le x xs) = insert_by le' (f x) (map f xs)"
  by (induction xs) (auto simp: assms)

lemma sort_by_map:
  assumes "\<And>x y. le' (f x) (f y) \<longleftrightarrow> le x y"
  shows "sort_by le' (map f xs) = map f (sort_by le xs)"
  by (induction xs) (auto simp: insert_by_map [of le' f le, OF assms])

lemma sort_by_id: "sorted_wrt le xs \<Longrightarrow> sort_by le xs = xs"
proof (induction xs)
  case (Cons x xs)
  then show ?case by (cases xs) auto
qed simp

lemma sorted_insert_by:
  assumes "\<And>x y. le x y \<or> le y x" "\<And>x y z. le x y \<Longrightarrow> le y z \<Longrightarrow> le x z" "sorted_wrt le xs"
  shows "sorted_wrt le (insert_by le x xs)"
  using assms(3)
proof (induction xs)
  case (Cons y ys)
  show ?case
  proof (cases "le x y")
    case True
    with Cons.prems show ?thesis by (auto intro: assms(2))
  next
    case False
    with assms(1) have "le y x" by blast
    with False Cons show ?thesis by auto
  qed
qed simp

lemma sorted_sort_by:
  assumes "\<And>x y. le x y \<or> le y x" "\<And>x y z. le x y \<Longrightarrow> le y z \<Longrightarrow> le x z"
  shows "sorted_wrt le (sort_by le xs)"
proof (induction xs)
  case (Cons x xs)
  then show ?case using sorted_insert_by [of le "sort_by le xs" x] assms by simp
qed simp

lemma hd_sort_by_least:
  assumes "\<And>x y. le x y \<or> le y x" "\<And>x y z. le x y \<Longrightarrow> le y z \<Longrightarrow> le x z"
    and "sort_by le xs = y # ys" "x \<in> set xs"
  shows "le y x"
proof -
  have "sorted_wrt le (y # ys)" using sorted_sort_by [of le xs] assms(1-3) by metis
  moreover have "x \<in> set (y # ys)" using assms(3,4) set_sort_by [of le xs] by simp
  ultimately show ?thesis using assms(1) [of y y] by auto
qed

section \<open>Interface of a transition system\<close>

text \<open>
  A component whose operations keep an invariant.  The client fact is that every state the
  component can reach satisfies it, for runs of any length.
\<close>

inductive reach :: "('s \<Rightarrow> bool) \<Rightarrow> ('s \<Rightarrow> 's \<Rightarrow> bool) \<Rightarrow> 's \<Rightarrow> bool"
  for init :: "'s \<Rightarrow> bool" and step :: "'s \<Rightarrow> 's \<Rightarrow> bool" where
  reach_init: "init s \<Longrightarrow> reach init step s"
| reach_step: "reach init step s \<Longrightarrow> step s t \<Longrightarrow> reach init step t"

inductive_cases reach_cases [consumes 1]: "reach init step s"

locale invariant_system =
  fixes init :: "'s \<Rightarrow> bool"
    and step :: "'s \<Rightarrow> 's \<Rightarrow> bool"
    and inv :: "'s \<Rightarrow> bool"
  assumes init_inv: "init s \<Longrightarrow> inv s"
    and step_inv: "inv s \<Longrightarrow> step s t \<Longrightarrow> inv t"
begin

lemma reach_inv: "reach init step s \<Longrightarrow> inv s"
  by (induction rule: reach.induct) (auto intro: init_inv step_inv)

lemma steps_inv: "step\<^sup>*\<^sup>* s t \<Longrightarrow> inv s \<Longrightarrow> inv t"
  by (induction rule: rtranclp_induct) (auto intro: step_inv)

lemma reach_steps: "step\<^sup>*\<^sup>* s t \<Longrightarrow> reach init step s \<Longrightarrow> reach init step t"
  by (induction rule: rtranclp_induct) (auto intro: reach.intros)

end

section \<open>Interface of an append-only log\<close>

text \<open>
  A log accepts batches of entries, each entry with a tag (its idempotency key).  The provider
  promises that an accepted batch is appended as it is and that no tag is stored twice; the client
  gets that history is never rewritten and that a repeated entry is refused.
\<close>

locale append_only_log =
  fixes append_all :: "'c \<Rightarrow> 'x \<Rightarrow> 'v list \<Rightarrow> 'l \<Rightarrow> 'e + 'l"
    and entries :: "'l \<Rightarrow> 'v list"
    and invar :: "'l \<Rightarrow> bool"
    and tag :: "'v \<Rightarrow> 't"
  assumes append_entries: "invar l \<Longrightarrow> append_all c x vs l = Inr l' \<Longrightarrow> entries l' = entries l @ vs"
    and append_invar: "invar l \<Longrightarrow> append_all c x vs l = Inr l' \<Longrightarrow> invar l'"
    and invar_tags: "invar l \<Longrightarrow> distinct (map tag (entries l))"
begin

text \<open>Histories: any number of batches, the refused ones leaving the log as it is.\<close>

inductive history :: "'l \<Rightarrow> 'l \<Rightarrow> bool" where
  history_refl: "history l l"
| history_append: "history l l' \<Longrightarrow> append_all c x vs l' = Inr l'' \<Longrightarrow> history l l''"

lemma history_invar: "history l l' \<Longrightarrow> invar l \<Longrightarrow> invar l'"
  by (induction rule: history.induct) (auto intro: append_invar)

lemma history_extends: "history l l' \<Longrightarrow> invar l \<Longrightarrow> \<exists>vs. entries l' = entries l @ vs"
proof (induction rule: history.induct)
  case (history_append l l' c x vs l'')
  moreover from this have "entries l'' = entries l' @ vs"
    using history_invar append_entries by blast
  ultimately show ?case by auto
qed simp

lemma replay_refused:
  assumes "invar l" "v \<in> set (entries l)" "tag w = tag v" "w \<in> set vs"
  shows "\<not> succeeds (append_all c x vs l)"
proof
  assume "succeeds (append_all c x vs l)"
  then obtain l' where a: "append_all c x vs l = Inr l'" by (auto simp: succeeds_iff)
  with assms(1) have "distinct (map tag (entries l @ vs))"
    using append_entries append_invar invar_tags by metis
  with assms(2-4) show False
    by (metis (mono_tags, lifting) disjoint_iff distinct_append image_eqI list.set_map map_append)
qed

end

section \<open>Interface of a status table\<close>

text \<open>
  The transition tables of the code map each status to the statuses it may move to.  A terminal
  status has no successor; a run through the table never leaves it.
\<close>

fun table_path :: "('t \<Rightarrow> 't list) \<Rightarrow> 't list \<Rightarrow> bool" where
  "table_path nxt [] = True"
| "table_path nxt [x] = True"
| "table_path nxt (x # y # zs) = (y \<in> set (nxt x) \<and> table_path nxt (y # zs))"

locale status_table =
  fixes nxt :: "'t \<Rightarrow> 't list"
    and active :: "'t \<Rightarrow> bool"
  assumes active_iff: "active x \<longleftrightarrow> nxt x \<noteq> []"
begin

lemma terminal_absorbing: "\<not> active x \<Longrightarrow> y \<notin> set (nxt x)"
  by (simp add: active_iff)

lemma step_from_active: "y \<in> set (nxt x) \<Longrightarrow> active x"
  by (auto simp: active_iff)

lemma path_butlast_active: "table_path nxt xs \<Longrightarrow> x \<in> set (butlast xs) \<Longrightarrow> active x"
proof (induction xs)
  case (Cons a xs)
  then show ?case
    by (cases xs) (auto intro: step_from_active)
qed simp

end

end
