(* ===== verification/Js_Text.thy ===== *)
theory Js_Text
  imports Prelude "HOL-Library.Char_ord" "HOL-Library.List_Lexorder"
begin

text \<open>
  What the sources use of the JavaScript standard library on strings, numbers and JSON values.
  A string is a list of UTF-16 code units below 256 (\<open>char\<close>), so \<open>length\<close> is \<open>String.length\<close> and
  the order of \<open>Char_ord\<close> and \<open>List_Lexorder\<close> is the code-unit order of \<open><\<close> and of \<open>sort()\<close>.
  The main results: the composite map key \<open>JSON.stringify([workspaceId, id])\<close> is injective, and
  \<open>isSafeInteger\<close> bounds what the code may add up without rounding.
\<close>

section \<open>Characters and strings\<close>

definition code_unit :: "char \<Rightarrow> nat" where
  "code_unit c = of_char c"

definition isWhiteSpace :: "char \<Rightarrow> bool" where
  "isWhiteSpace c = (c \<in> {CHR 0x09, CHR 0x0A, CHR 0x0B, CHR 0x0C, CHR 0x0D, CHR 0x20, CHR 0xA0})"

text \<open>\<open>\p{Cc}\<close>\<close>

definition isControl :: "char \<Rightarrow> bool" where
  "isControl c = (code_unit c < 32 \<or> 127 \<le> code_unit c \<and> code_unit c \<le> 159)"

definition trim :: "string \<Rightarrow> string" where
  "trim s = rev (dropWhile isWhiteSpace (rev (dropWhile isWhiteSpace s)))"

lemma trim_Nil_iff: "trim s = [] \<longleftrightarrow> (\<forall>c \<in> set s. isWhiteSpace c)"
proof -
  have "trim s = [] \<longleftrightarrow> (\<forall>c \<in> set (dropWhile isWhiteSpace s). isWhiteSpace c)"
    by (simp add: trim_def dropWhile_eq_Nil_conv)
  also have "\<dots> \<longleftrightarrow> (\<forall>c \<in> set s. isWhiteSpace c)"
    by (metis (no_types, lifting) dropWhile_eq_Nil_conv empty_iff hd_dropWhile list.set(1)
        list.set_sel(1) set_dropWhileD)
  finally show ?thesis .
qed

text \<open>\<open>value.trim().length === 0 || value.length > maximum\<close>, negated: the recurring text guard.\<close>

definition nonBlankUpTo :: "nat \<Rightarrow> string \<Rightarrow> bool" where
  "nonBlankUpTo n s = (trim s \<noteq> [] \<and> length s \<le> n)"

lemma nonBlankUpTo_nonempty: "nonBlankUpTo n s \<Longrightarrow> s \<noteq> [] \<and> length s \<le> n"
  by (auto simp: nonBlankUpTo_def trim_def)

text \<open>\<open>Buffer.byteLength(s, 'utf8')\<close>: two bytes from U+0080 to U+07FF.\<close>

definition utf8Length :: "string \<Rightarrow> nat" where
  "utf8Length s = sum_list (map (\<lambda>c. if code_unit c < 128 then 1 else 2) s)"

lemma utf8Length_append [simp]: "utf8Length (s @ t) = utf8Length s + utf8Length t"
  by (simp add: utf8Length_def)

lemma utf8Length_bounds: "length s \<le> utf8Length s" "utf8Length s \<le> 2 * length s"
  by (induction s) (auto simp: utf8Length_def)

text \<open>Optional strings: \<open>undefined\<close> and the empty string are both falsy.\<close>

definition truthy :: "string option \<Rightarrow> bool" where
  "truthy v = (case v of None \<Rightarrow> False | Some s \<Rightarrow> s \<noteq> [])"

lemma truthy_iff: "truthy v \<longleftrightarrow> (\<exists>s. v = Some s \<and> s \<noteq> [])"
  by (auto simp: truthy_def split: option.splits)

lemma truthy_simps [simp]: "\<not> truthy None" "truthy (Some s) \<longleftrightarrow> s \<noteq> []"
  by (simp_all add: truthy_def)

section \<open>Numbers\<close>

definition MAX_SAFE_INTEGER :: int where
  "MAX_SAFE_INTEGER = 9007199254740991"

text \<open>
  Typed numeric fields are \<open>int\<close>: every one of them passes \<open>Number.isSafeInteger\<close> before it is
  used in arithmetic, and the values it rejects (fractions, \<open>NaN\<close>, magnitudes above \<open>2^53 - 1\<close>)
  are represented by the integers outside the safe range.
\<close>

definition isSafeInteger :: "int \<Rightarrow> bool" where
  "isSafeInteger n = (- MAX_SAFE_INTEGER \<le> n \<and> n \<le> MAX_SAFE_INTEGER)"

text \<open>
  The result of \<open>+\<close> on two doubles that hold integers \<open>a\<close>, \<open>b\<close> with \<open>\<bar>a + b\<bar> \<le> 2^54\<close>: exact up to
  \<open>2^53\<close>, and above it rounded to the nearest even multiple of two (ties to even significand).
\<close>

definition double_round :: "int \<Rightarrow> int" where
  "double_round x = (if \<bar>x\<bar> \<le> 2 ^ 53 then x
     else if x mod 4 = 1 then x - 1 else if x mod 4 = 3 then x + 1 else x)"

text \<open>
  Guards of the form \<open>sum > limit\<close> with a safe limit decide the same for the rounded sum as for
  the exact one: this is why the model may add on \<open>int\<close>.
\<close>

lemma double_round_guard:
  assumes "isSafeInteger limit"
  shows "double_round x > limit \<longleftrightarrow> x > limit"
  using assms by (auto simp: double_round_def isSafeInteger_def MAX_SAFE_INTEGER_def)

lemma isSafeInteger_bounds: "isSafeInteger n \<Longrightarrow> n \<le> MAX_SAFE_INTEGER"
  by (simp add: isSafeInteger_def)

section \<open>Decimal texts\<close>

definition digit_char :: "nat \<Rightarrow> char" where
  "digit_char n = char_of (48 + n)"

definition digit_val :: "char \<Rightarrow> nat option" where
  "digit_val c = (let k = code_unit c in if 48 \<le> k \<and> k \<le> 57 then Some (k - 48) else None)"

lemma digit_val_char [simp]: "n < 10 \<Longrightarrow> digit_val (digit_char n) = Some n"
  by (simp add: digit_val_def digit_char_def code_unit_def Let_def)

fun nat_text :: "nat \<Rightarrow> string" where
  "nat_text n = (if n < 10 then [digit_char n] else nat_text (n div 10) @ [digit_char (n mod 10)])"

declare nat_text.simps [simp del]

definition int_text :: "int \<Rightarrow> string" where
  "int_text i = (if i < 0 then CHR ''-'' # nat_text (nat (- i)) else nat_text (nat i))"

section \<open>JSON values\<close>

text \<open>
  A value of type \<open>unknown\<close>.  A number is a safe integer, another finite number (carried as its
  decimal rendering) or not finite; \<open>JOpaque\<close> stands for functions, symbols and objects whose
  prototype is not \<open>Object.prototype\<close>.  Object fields are in \<open>Object.entries\<close> order.
\<close>

datatype js_number = SafeInt int | OtherFinite string | NonFinite

datatype json =
    JNull
  | JBool bool
  | JNum js_number
  | JStr string
  | JArr "json list"
  | JObj "(string \<times> json) list"
  | JUndefined
  | JOpaque

type_synonym json_record = "(string \<times> json) list"

definition hex_digit :: "nat \<Rightarrow> char" where
  "hex_digit n = ''0123456789abcdef'' ! n"

definition json_escape :: "char \<Rightarrow> string" where
  "json_escape c =
     (if c = CHR 0x22 then [CHR 0x5C, CHR 0x22]
      else if c = CHR 0x5C then [CHR 0x5C, CHR 0x5C]
      else if c = CHR 0x08 then [CHR 0x5C, CHR ''b'']
      else if c = CHR 0x0C then [CHR 0x5C, CHR ''f'']
      else if c = CHR 0x0A then [CHR 0x5C, CHR ''n'']
      else if c = CHR 0x0D then [CHR 0x5C, CHR ''r'']
      else if c = CHR 0x09 then [CHR 0x5C, CHR ''t'']
      else if code_unit c < 32
        then [CHR 0x5C, CHR ''u'', CHR ''0'', CHR ''0'',
              hex_digit (code_unit c div 16), hex_digit (code_unit c mod 16)]
      else [c])"

definition json_quote :: "string \<Rightarrow> string" where
  "json_quote s = CHR 0x22 # concat (map json_escape s) @ [CHR 0x22]"

fun join_with :: "string \<Rightarrow> string list \<Rightarrow> string" where
  "join_with sep [] = []"
| "join_with sep [x] = x"
| "join_with sep (x # y # zs) = x @ sep @ join_with sep (y # zs)"

text \<open>The names that every object literal inherits.\<close>

definition OBJECT_PROTOTYPE :: "string list" where
  "OBJECT_PROTOTYPE = [''constructor'', ''__defineGetter__'', ''__defineSetter__'', ''hasOwnProperty'', ''__lookupGetter__'',
     ''__lookupSetter__'', ''isPrototypeOf'', ''propertyIsEnumerable'', ''toString'', ''valueOf'', ''__proto__'', ''toLocaleString'']"

text \<open>\<open>JSON.stringify\<close>; the arguments in the sources have passed a check without opaque values.\<close>

fun json_text :: "json \<Rightarrow> string" where
  "json_text JNull = ''null''"
| "json_text (JBool b) = (if b then ''true'' else ''false'')"
| "json_text (JNum (SafeInt i)) = int_text i"
| "json_text (JNum (OtherFinite t)) = t"
| "json_text (JNum NonFinite) = ''null''"
| "json_text (JStr s) = json_quote s"
| "json_text (JArr xs) = CHR ''['' # join_with '','' (map json_text xs) @ '']''"
| "json_text (JObj kvs) = CHR ''{'' # join_with '',''
     (map (\<lambda>(k, v). json_quote k @ '':'' @ json_text v)
       (filter (\<lambda>(k, v). v \<noteq> JUndefined) kvs)) @ ''}''"
| "json_text JUndefined = ''null''"
| "json_text JOpaque = ''null''"

section \<open>The composite map key\<close>

definition key :: "string \<Rightarrow> string \<Rightarrow> string" where
  "key workspaceId i = json_text (JArr [JStr workspaceId, JStr i])"

definition key3 :: "string \<Rightarrow> string \<Rightarrow> string \<Rightarrow> string" where
  "key3 a b c = json_text (JArr [JStr a, JStr b, JStr c])"

lemma hex_digit_inj: "m < 16 \<Longrightarrow> n < 16 \<Longrightarrow> hex_digit m = hex_digit n \<longleftrightarrow> m = n"
  unfolding hex_digit_def by (rule nth_eq_iff_index_eq) auto

lemma json_escape_nonempty: "\<exists>d ds. json_escape c = d # ds \<and> d \<noteq> CHR 0x22"
  by (simp add: json_escape_def)

lemma json_escape_backslash: "json_escape (CHR 0x5C) \<noteq> [CHR 0x5C]"
  by (simp add: json_escape_def)

lemma json_escape_plain_or_backslash:
  "json_escape c = [c] \<and> c \<noteq> CHR 0x5C \<or> (\<exists>ds. json_escape c = CHR 0x5C # ds)"
  by (simp add: json_escape_def)

lemma json_escape_control:
  assumes "code_unit c < 32" "code_unit d < 32"
    and "hex_digit (code_unit c div 16) = hex_digit (code_unit d div 16)"
    and "hex_digit (code_unit c mod 16) = hex_digit (code_unit d mod 16)"
  shows "c = d"
proof -
  have "code_unit c div 16 = code_unit d div 16" "code_unit c mod 16 = code_unit d mod 16"
    using assms by (auto simp: hex_digit_inj)
  then have "code_unit c = code_unit d" by (metis div_mult_mod_eq)
  then show ?thesis by (simp add: code_unit_def)
qed

lemma json_escape_decodable:
  assumes "json_escape c @ r = json_escape d @ r'"
  shows "c = d \<and> r = r'"
proof (cases "json_escape c = [c] \<or> json_escape d = [d]")
  case True
  with assms show ?thesis
    using json_escape_plain_or_backslash [of c] json_escape_plain_or_backslash [of d]
    by (auto simp: json_escape_backslash)
next
  case False
  with assms show ?thesis
    by (auto simp: json_escape_def dest: json_escape_control split: if_splits)
qed

lemma json_escapes_decodable:
  "concat (map json_escape s) @ CHR 0x22 # r = concat (map json_escape s') @ CHR 0x22 # r'
   \<Longrightarrow> s = s' \<and> r = r'"
proof (induction s arbitrary: s')
  case Nil
  show ?case
  proof (cases s')
    case Nil
    with Nil.prems show ?thesis by simp
  next
    case (Cons d t)
    with Nil.prems show ?thesis
      using json_escape_nonempty [of d] by auto
  qed
next
  case (Cons c s)
  show ?case
  proof (cases s')
    case Nil
    with Cons.prems show ?thesis
      using json_escape_nonempty [of c] by auto
  next
    case (Cons d t)
    with Cons.prems json_escape_decodable
    have "c = d" "concat (map json_escape s) @ CHR 0x22 # r = concat (map json_escape t) @ CHR 0x22 # r'"
      by auto
    with Cons.IH Cons show ?thesis by auto
  qed
qed

lemma json_quote_inj [simp]: "json_quote s = json_quote s' \<longleftrightarrow> s = s'"
  using json_escapes_decodable [of s "[]" s' "[]"] by (auto simp: json_quote_def)

lemma json_quote_decodable: "json_quote s @ r = json_quote s' @ r' \<longleftrightarrow> s = s' \<and> r = r'"
  using json_escapes_decodable [of s r s' r'] by (auto simp: json_quote_def)

text \<open>Distinct (workspace, id) pairs never share a map slot, whatever characters they hold.\<close>

lemma key_inj [simp]: "key a b = key c d \<longleftrightarrow> a = c \<and> b = d"
  by (auto simp: key_def json_quote_decodable dest: json_quote_decodable [THEN iffD1])

lemma key3_inj [simp]: "key3 a b c = key3 a' b' c' \<longleftrightarrow> a = a' \<and> b = b' \<and> c = c'"
  by (auto simp: key3_def json_quote_decodable dest: json_quote_decodable [THEN iffD1])

section \<open>Sets of identifiers\<close>

text \<open>
  \<open>[...new Set(xs)].sort()\<close>: the default order of strings is the lexicographic order of their code
  units.  Both arrays are compared element by element.
\<close>

definition normalizedIds :: "string list \<Rightarrow> string list" where
  "normalizedIds xs = sort_by (\<le>) (remdups xs)"

definition sameIds :: "string list \<Rightarrow> string list \<Rightarrow> bool" where
  "sameIds left right =
     (let normalizedLeft = normalizedIds left; normalizedRight = normalizedIds right
      in length left = length normalizedLeft \<and>
         length right = length normalizedRight \<and>
         length normalizedLeft = length normalizedRight \<and>
         (\<forall>(l, r) \<in> set (zip normalizedLeft normalizedRight). l = r))"

lemma normalizedIds_sort: "normalizedIds xs = sort (remdups xs)"
proof -
  have "insert_by (\<le>) x ys = insort x ys" for x and ys :: "string list" by (induction ys) auto
  then have "sort_by (\<le>) ys = sort ys" for ys :: "string list" by (induction ys) auto
  then show ?thesis by (simp add: normalizedIds_def)
qed

lemma sameIds_iff: "sameIds left right \<longleftrightarrow> distinct left \<and> distinct right \<and> set left = set right"
proof -
  have "length xs = length (normalizedIds xs) \<longleftrightarrow> distinct xs" for xs :: "string list"
    unfolding normalizedIds_sort by (metis length_sort length_remdups_eq remdups_id_iff_distinct)
  moreover have "normalizedIds left = normalizedIds right \<longleftrightarrow> set left = set right"
    unfolding normalizedIds_sort by (metis set_sort set_remdups sorted_list_of_set_sort_remdups)
  ultimately show ?thesis
    by (auto simp: sameIds_def Let_def list_eq_iff_zip_eq)
qed

end
