(* ===== verification/Contracts.thy ===== *)
theory Contracts
  imports Js_Text
begin

text \<open>
  The data of \<open>packages/agent-control-plane/src/contracts.ts\<close>: interfaces as records (each field with
  a prefix for its record), string unions as datatypes with the text of each member.  A value of a
  TypeScript union type is one of its members; optional fields are \<open>option\<close>.
\<close>

type_synonym EntityId = string
type_synonym AuthorityLevel = int

record WorkspaceContext =
  cx_workspaceId :: EntityId
  cx_principalId :: EntityId

datatype RuntimeConnectionStatus = CONNECTED | PARTIAL | DEGRADED | DISCONNECTED | NOT_CONFIGURED

fun connectionStatusText :: "RuntimeConnectionStatus \<Rightarrow> string" where
  "connectionStatusText CONNECTED = ''CONNECTED''"
| "connectionStatusText PARTIAL = ''PARTIAL''"
| "connectionStatusText DEGRADED = ''DEGRADED''"
| "connectionStatusText DISCONNECTED = ''DISCONNECTED''"
| "connectionStatusText NOT_CONFIGURED = ''NOT_CONFIGURED''"

record Runtime =
  rt_id :: EntityId
  rt_workspaceId :: EntityId
  rt_name :: string
  rt_adapterKind :: string
  rt_createdAt :: string

record RegistrationProof =
  rp_connectionId :: EntityId
  rp_runtimeId :: EntityId
  rp_principalId :: EntityId
  rp_observedAt :: string

record CapabilityExchangeProof =
  cep_connectionId :: EntityId
  cep_runtimeId :: EntityId
  cep_principalId :: EntityId
  cep_capabilityIds :: "EntityId list"
  cep_observedAt :: string

record HeartbeatProof =
  hp_connectionId :: EntityId
  hp_principalId :: EntityId
  hp_heartbeatId :: EntityId
  hp_observedAt :: string

record TaskRoundTripProof =
  trp_connectionId :: EntityId
  trp_principalId :: EntityId
  trp_taskId :: EntityId
  trp_runId :: EntityId
  trp_resultEventId :: EntityId
  trp_completedAt :: string

record RuntimeConnection =
  conn_id :: EntityId
  conn_workspaceId :: EntityId
  conn_runtimeId :: EntityId
  conn_status :: RuntimeConnectionStatus
  conn_credentialReference :: "string option"
  conn_authenticatedPrincipalId :: "EntityId option"
  conn_registrationProof :: "RegistrationProof option"
  conn_capabilityExchangeProof :: "CapabilityExchangeProof option"
  conn_heartbeatProof :: "HeartbeatProof option"
  conn_taskRoundTripProof :: "TaskRoundTripProof option"

record Capability =
  cap_id :: EntityId
  cap_workspaceId :: EntityId
  cap_name :: string
  cap_version :: string

record AgentCapability =
  acap_id :: EntityId
  acap_workspaceId :: EntityId
  acap_agentId :: EntityId
  acap_capabilityId :: EntityId

record Agent =
  ag_id :: EntityId
  ag_workspaceId :: EntityId
  ag_runtimeId :: EntityId
  ag_name :: string
  ag_role :: string
  ag_authorityLevel :: AuthorityLevel
  ag_maxConcurrentRuns :: int
  ag_createdAt :: string

record Tool =
  tool_id :: EntityId
  tool_workspaceId :: EntityId
  tool_name :: string
  tool_version :: string

record ToolGrant =
  tg_id :: EntityId
  tg_workspaceId :: EntityId
  tg_agentId :: EntityId
  tg_toolId :: EntityId
  tg_scopes :: "string list"
  tg_expiresAt :: "string option"

record CostLimit =
  cl_currency :: string
  cl_maximumMinorUnits :: int
  cl_maximumComputeUnits :: int

datatype TaskKind = RepositoryReview | QualityVerify | DocumentationPrepare | RuntimeHealthCheck
  | BusinessResearch

fun taskKindText :: "TaskKind \<Rightarrow> string" where
  "taskKindText RepositoryReview = ''repository.review''"
| "taskKindText QualityVerify = ''quality.verify''"
| "taskKindText DocumentationPrepare = ''documentation.prepare''"
| "taskKindText RuntimeHealthCheck = ''runtime.health.check''"
| "taskKindText BusinessResearch = ''business.research''"

record AuthorityGrant =
  auth_id :: EntityId
  auth_workspaceId :: EntityId
  auth_agentId :: EntityId
  auth_level :: AuthorityLevel
  auth_actionClasses :: "TaskKind list"
  auth_costLimit :: CostLimit
  auth_maxConcurrentRuns :: int
  auth_expiresAt :: "string option"

datatype TaskStatus = T_READY | T_RUNNING | T_BLOCKED | T_COMPLETED | T_FAILED | T_CANCELLED

fun taskStatusText :: "TaskStatus \<Rightarrow> string" where
  "taskStatusText T_READY = ''READY''"
| "taskStatusText T_RUNNING = ''RUNNING''"
| "taskStatusText T_BLOCKED = ''BLOCKED''"
| "taskStatusText T_COMPLETED = ''COMPLETED''"
| "taskStatusText T_FAILED = ''FAILED''"
| "taskStatusText T_CANCELLED = ''CANCELLED''"

record ControlPlaneTask =
  task_id :: EntityId
  task_workspaceId :: EntityId
  task_assignedAgentId :: EntityId
  task_kind :: TaskKind
  task_input :: json_record
  task_requiredCapabilityIds :: "EntityId list"
  task_requiredToolIds :: "EntityId list"
  task_requiredAuthorityLevel :: AuthorityLevel
  task_costLimit :: CostLimit
  task_status :: TaskStatus
  task_createdAt :: string

datatype RunStatus = R_QUEUED | R_RUNNING | R_PAUSED | R_COMPLETED | R_FAILED | R_CANCELLED

fun runStatusText :: "RunStatus \<Rightarrow> string" where
  "runStatusText R_QUEUED = ''QUEUED''"
| "runStatusText R_RUNNING = ''RUNNING''"
| "runStatusText R_PAUSED = ''PAUSED''"
| "runStatusText R_COMPLETED = ''COMPLETED''"
| "runStatusText R_FAILED = ''FAILED''"
| "runStatusText R_CANCELLED = ''CANCELLED''"

record AgentRun =
  run_id :: EntityId
  run_workspaceId :: EntityId
  run_taskId :: EntityId
  run_agentId :: EntityId
  run_runtimeConnectionId :: EntityId
  run_status :: RunStatus
  run_externalRunId :: "string option"
  run_adapterRegistrationId :: "EntityId option"
  run_startedAt :: "string option"
  run_completedAt :: "string option"

record ControlPlaneEvent =
  ev_id :: EntityId
  ev_workspaceId :: EntityId
  ev_runId :: "EntityId option"
  ev_type :: string
  ev_occurredAt :: string
  ev_actorId :: EntityId
  ev_idempotencyKey :: string
  ev_payload :: json_record

datatype HeartbeatHealth = HEALTHY | H_DEGRADED | UNHEALTHY

fun healthText :: "HeartbeatHealth \<Rightarrow> string" where
  "healthText HEALTHY = ''HEALTHY''"
| "healthText H_DEGRADED = ''DEGRADED''"
| "healthText UNHEALTHY = ''UNHEALTHY''"

record Heartbeat =
  hb_id :: EntityId
  hb_workspaceId :: EntityId
  hb_runtimeConnectionId :: EntityId
  hb_principalId :: EntityId
  hb_observedAt :: string
  hb_sequence :: int
  hb_health :: HeartbeatHealth

record UsageRecord =
  us_id :: EntityId
  us_workspaceId :: EntityId
  us_runId :: EntityId
  us_taskId :: EntityId
  us_provider :: "string option"
  us_model :: "string option"
  us_computeUnits :: "int option"
  us_costMinorUnits :: "int option"
  us_currency :: "string option"
  us_recordedAt :: string

record RuntimeTaskEnvelope =
  env_runId :: EntityId
  env_taskId :: EntityId
  env_workspaceId :: EntityId
  env_kind :: TaskKind
  env_input :: json_record
  env_capabilityIds :: "EntityId list"
  env_tools :: "(EntityId \<times> string list) list"
  env_authorityLevel :: AuthorityLevel
  env_costLimit :: CostLimit

text \<open>
  The branded interfaces \<open>RuntimeDispatchPermit\<close> and \<open>ValidatedRuntimeDispatch\<close> have the same
  fields; the brand exists for the type checker only.  \<open>runtimePrincipalId\<close> is filled from an
  optional field with a non-null assertion, so it is an option here.
\<close>

record RuntimeDispatchPermit =
  dp_dispatchId :: EntityId
  dp_connectionId :: EntityId
  dp_adapterRegistrationId :: EntityId
  dp_runtimePrincipalId :: "EntityId option"
  dp_envelope :: RuntimeTaskEnvelope

record RuntimeCancellationPermit =
  cn_cancellationId :: EntityId
  cn_connectionId :: EntityId
  cn_adapterRegistrationId :: EntityId
  cn_runtimePrincipalId :: "EntityId option"
  cn_runId :: EntityId
  cn_externalRunId :: string

end
