(* ===== verification/Js_Regex.thy ===== *)
theory Js_Regex
  imports Js_Text
begin

text \<open>
  The fragment of JavaScript regular expressions the sources use: literals (with or without the
  \<open>i\<close> flag), character classes, bounded and unbounded repetition of a class, sequence,
  alternative, \<open>^\<close>, \<open>$\<close> and \<open>\b\<close>.  \<open>RegExp.test\<close> looks for a match at any offset.  The matcher
  returns every position a match can end at, each as the character before it and the rest of the
  subject, so no choice of backtracking order is involved.
\<close>

type_synonym char_class = "char \<Rightarrow> bool"

datatype regex =
    Lit string
  | LitI string
  | Cls char_class
  | Rep nat "nat option" char_class
  | Seq regex regex
  | Alt regex regex
  | Bol
  | Eol
  | WordBoundary

definition ascii_lower :: "char \<Rightarrow> char" where
  "ascii_lower c = (if CHR ''A'' \<le> c \<and> c \<le> CHR ''Z'' then char_of (code_unit c + 32) else c)"

definition rng :: "char \<Rightarrow> char \<Rightarrow> char_class" where
  "rng a b c = (a \<le> c \<and> c \<le> b)"

definition one_of :: "string \<Rightarrow> char_class" where
  "one_of cs c = (c \<in> set cs)"

definition cls_or :: "char_class \<Rightarrow> char_class \<Rightarrow> char_class" where
  "cls_or p q c = (p c \<or> q c)"

definition isUpper :: char_class where "isUpper = rng (CHR ''A'') (CHR ''Z'')"
definition isLower :: char_class where "isLower = rng (CHR ''a'') (CHR ''z'')"
definition isDigit :: char_class where "isDigit = rng (CHR ''0'') (CHR ''9'')"
definition isAlnum :: char_class where "isAlnum = cls_or isUpper (cls_or isLower isDigit)"
definition isWord :: char_class where "isWord = cls_or isAlnum (one_of ''_'')"

text \<open>The dot: everything but a line terminator.\<close>

definition isDot :: char_class where
  "isDot c = (c \<noteq> CHR 0x0A \<and> c \<noteq> CHR 0x0D)"

lemmas class_defs = rng_def one_of_def cls_or_def isUpper_def isLower_def isDigit_def isAlnum_def
  isWord_def isDot_def

type_synonym position = "char option \<times> string"

fun prefix_end :: "(char \<Rightarrow> char \<Rightarrow> bool) \<Rightarrow> string \<Rightarrow> position \<Rightarrow> position list" where
  "prefix_end eq [] p = [p]"
| "prefix_end eq (w # ws) (b, []) = []"
| "prefix_end eq (w # ws) (b, c # cs) = (if eq w c then prefix_end eq ws (Some c, cs) else [])"

text \<open>All ends of between \<open>lo\<close> and \<open>hi\<close> characters of a class.\<close>

fun rep_ends :: "nat \<Rightarrow> nat option \<Rightarrow> char_class \<Rightarrow> char option \<Rightarrow> string \<Rightarrow> position list" where
  "rep_ends lo hi p b [] = (if lo = 0 then [(b, [])] else [])"
| "rep_ends lo hi p b (c # cs) =
     (if lo = 0 then [(b, c # cs)] else []) @
     (if p c \<and> hi \<noteq> Some 0 then rep_ends (lo - 1) (map_option (\<lambda>h. h - 1) hi) p (Some c) cs else [])"

definition at_boundary :: "position \<Rightarrow> bool" where
  "at_boundary q = (case q of (b, s) \<Rightarrow>
     (case b of None \<Rightarrow> False | Some c \<Rightarrow> isWord c) \<noteq> (case s of [] \<Rightarrow> False | c # _ \<Rightarrow> isWord c))"

fun ends :: "regex \<Rightarrow> position \<Rightarrow> position list" where
  "ends (Lit w) q = prefix_end (=) w q"
| "ends (LitI w) q = prefix_end (\<lambda>a b. ascii_lower a = ascii_lower b) w q"
| "ends (Cls p) q = (case q of (b, s) \<Rightarrow> rep_ends 1 (Some 1) p b s)"
| "ends (Rep lo hi p) q = (case q of (b, s) \<Rightarrow> rep_ends lo hi p b s)"
| "ends (Seq r1 r2) q = concat (map (ends r2) (ends r1 q))"
| "ends (Alt r1 r2) q = ends r1 q @ ends r2 q"
| "ends Bol q = (if fst q = None then [q] else [])"
| "ends Eol q = (if snd q = [] then [q] else [])"
| "ends WordBoundary q = (if at_boundary q then [q] else [])"

fun search_from :: "regex \<Rightarrow> char option \<Rightarrow> string \<Rightarrow> bool" where
  "search_from r b [] = (ends r (b, []) \<noteq> [])"
| "search_from r b (c # cs) = (ends r (b, c # cs) \<noteq> [] \<or> search_from r (Some c) cs)"

definition regex_test :: "regex \<Rightarrow> string \<Rightarrow> bool" where
  "regex_test r s = search_from r None s"

abbreviation opt :: "char_class \<Rightarrow> regex" where
  "opt p \<equiv> Rep 0 (Some 1) p"

abbreviation star :: "char_class \<Rightarrow> regex" where
  "star p \<equiv> Rep 0 None p"

fun seqs :: "regex list \<Rightarrow> regex" where
  "seqs [] = Lit []"
| "seqs [r] = r"
| "seqs (r # s # rs) = Seq r (seqs (s # rs))"

fun alts :: "regex list \<Rightarrow> regex" where
  "alts [] = Cls (\<lambda>_. False)"
| "alts [r] = r"
| "alts (r # s # rs) = Alt r (alts (s # rs))"

section \<open>Anchored expressions\<close>

lemma rep_ends_iff:
  "(b', t) \<in> set (rep_ends lo hi p b s) \<longleftrightarrow>
   (\<exists>u. s = u @ t \<and> (\<forall>c \<in> set u. p c) \<and> lo \<le> length u \<and> (\<forall>h. hi = Some h \<longrightarrow> length u \<le> h) \<and>
     b' = (if u = [] then b else Some (last u)))"
proof (induction s arbitrary: lo hi b)
  case Nil
  then show ?case by auto
next
  case (Cons c cs)
  show ?case (is "?l = ?r")
  proof
    assume ?l
    then consider (stop) "lo = 0" "b' = b" "t = c # cs"
      | (go) "p c" "hi \<noteq> Some 0"
          "(b', t) \<in> set (rep_ends (lo - 1) (map_option (\<lambda>h. h - 1) hi) p (Some c) cs)"
      by (auto split: if_splits)
    then show ?r
    proof cases
      case stop
      then show ?thesis by (intro exI [of _ "[]"]) simp
    next
      case go
      then obtain u where u: "cs = u @ t" "\<forall>c \<in> set u. p c" "lo - 1 \<le> length u"
        "\<forall>h. map_option (\<lambda>h. h - 1) hi = Some h \<longrightarrow> length u \<le> h"
        "b' = (if u = [] then Some c else Some (last u))"
        unfolding Cons.IH by auto
      with go(1,2) have "\<forall>h. hi = Some h \<longrightarrow> length (c # u) \<le> h"
        by (cases hi) auto
      with u go(1) show ?thesis
        by (intro exI [of _ "c # u"]) auto
    qed
  next
    assume ?r
    then obtain u where u: "c # cs = u @ t" "\<forall>c \<in> set u. p c" "lo \<le> length u"
      "\<forall>h. hi = Some h \<longrightarrow> length u \<le> h" "b' = (if u = [] then b else Some (last u))"
      by blast
    show ?l
    proof (cases u)
      case Nil
      with u show ?thesis by auto
    next
      case (Cons d v)
      with u have "(b', t) \<in> set (rep_ends (lo - 1) (map_option (\<lambda>h. h - 1) hi) p (Some c) cs)"
        by (subst Cons.IH, intro exI [of _ v], cases hi) auto
      with u Cons show ?thesis by auto
    qed
  qed
qed

lemma search_from_Some_Bol: "\<not> search_from (Seq Bol r) (Some b) s"
  by (induction s arbitrary: b) auto

lemma search_from_Bol: "search_from (Seq Bol r) None s \<longleftrightarrow> ends r (None, s) \<noteq> []"
  by (cases s) (auto simp: search_from_Some_Bol)

text \<open>\<open>/^[p][q]{lo,hi}$/\<close>: the shape of the reference, digest and code checks.\<close>

definition anchored :: "char_class \<Rightarrow> char_class \<Rightarrow> nat \<Rightarrow> nat \<Rightarrow> regex" where
  "anchored p q lo hi = seqs [Bol, Cls p, Rep lo (Some hi) q, Eol]"

text \<open>\<open>/^[p]{n}$/\<close>\<close>

definition exactly :: "nat \<Rightarrow> char_class \<Rightarrow> regex" where
  "exactly n p = seqs [Bol, Rep n (Some n) p, Eol]"

lemma ends_class_iff: "(b', t) \<in> set (rep_ends 1 (Some 1) p b s) \<longleftrightarrow> (\<exists>c. s = c # t \<and> p c \<and> b' = Some c)"
proof -
  have "(\<exists>u. s = u @ t \<and> (\<forall>c \<in> set u. p c) \<and> length u = 1 \<and> b' = Some (last u)) \<longleftrightarrow>
    (\<exists>c. s = c # t \<and> p c \<and> b' = Some c)"
    by (auto simp: length_Suc_conv)
  then show ?thesis
    by (auto simp: rep_ends_iff dest: le_antisym)
qed

lemma concat_map_nonempty: "concat (map f xs) \<noteq> [] \<longleftrightarrow> (\<exists>x \<in> set xs. f x \<noteq> [])"
  by auto

lemma ends_Eol_nonempty: "ends Eol q \<noteq> [] \<longleftrightarrow> snd q = []"
  by simp

lemma ends_rep_Eol:
  "concat (map (ends Eol) (rep_ends lo (Some hi) q b s)) \<noteq> [] \<longleftrightarrow>
   (\<forall>c \<in> set s. q c) \<and> lo \<le> length s \<and> length s \<le> hi"
proof -
  have "concat (map (ends Eol) (rep_ends lo (Some hi) q b s)) \<noteq> [] \<longleftrightarrow>
    (\<exists>b'. (b', []) \<in> set (rep_ends lo (Some hi) q b s))"
    unfolding concat_map_nonempty ends_Eol_nonempty by force
  also have "\<dots> \<longleftrightarrow> (\<forall>c \<in> set s. q c) \<and> lo \<le> length s \<and> length s \<le> hi"
    by (auto simp: rep_ends_iff)
  finally show ?thesis .
qed

lemma regex_test_exactly: "regex_test (exactly n p) s \<longleftrightarrow> length s = n \<and> (\<forall>c \<in> set s. p c)"
  using ends_rep_Eol [of n n p None s]
  by (auto simp: regex_test_def exactly_def search_from_Bol)

lemma regex_test_anchored:
  "regex_test (anchored p q lo hi) s \<longleftrightarrow>
   (\<exists>c cs. s = c # cs \<and> p c \<and> (\<forall>d \<in> set cs. q d) \<and> lo \<le> length cs \<and> length cs \<le> hi)"
proof -
  have "regex_test (anchored p q lo hi) s \<longleftrightarrow>
    (\<exists>b t. (b, t) \<in> set (rep_ends 1 (Some 1) p None s) \<and>
      concat (map (ends Eol) (rep_ends lo (Some hi) q b t)) \<noteq> [])"
    unfolding regex_test_def anchored_def seqs.simps search_from_Bol ends.simps(5)
      concat_map_nonempty ends.simps(3,4) by (simp add: Bex_def split_paired_Ex)
  also have "\<dots> \<longleftrightarrow> (\<exists>c cs. s = c # cs \<and> p c \<and> (\<forall>d \<in> set cs. q d) \<and> lo \<le> length cs \<and> length cs \<le> hi)"
    unfolding ends_rep_Eol ends_class_iff by auto
  finally show ?thesis .
qed

section \<open>Unanchored literals\<close>

lemma prefix_end_Lit: "prefix_end (=) w (b, s) \<noteq> [] \<longleftrightarrow> (\<exists>t. s = w @ t)"
proof (induction w arbitrary: b s)
  case (Cons c w)
  then show ?case by (cases s) auto
qed simp

lemma regex_test_Lit: "regex_test (Lit w) s \<longleftrightarrow> (\<exists>u t. s = u @ w @ t)"
proof -
  have "search_from (Lit w) b s \<longleftrightarrow> (\<exists>u t. s = u @ w @ t)" for b
  proof (induction s arbitrary: b)
    case Nil
    then show ?case by (auto simp: prefix_end_Lit)
  next
    case (Cons c s)
    then show ?case
      by (auto simp: prefix_end_Lit Cons_eq_append_conv)
  qed
  then show ?thesis by (simp add: regex_test_def)
qed

lemma search_from_Alt: "search_from (Alt r q) b s \<longleftrightarrow> search_from r b s \<or> search_from q b s"
  by (induction s arbitrary: b) auto

lemma regex_test_Alt [simp]: "regex_test (Alt r q) s \<longleftrightarrow> regex_test r s \<or> regex_test q s"
  by (simp add: regex_test_def search_from_Alt)

end
