(* ===== verification/Js_Date.thy ===== *)
theory Js_Date
  imports Js_Text
begin

text \<open>
  \<open>Date\<close> as the sources use it: time values are integers of milliseconds, \<open>toISOString\<close> follows the
  definitions of ECMA-262 (Day, YearFromTime, MonthFromTime, DateFromTime) and throws a
  \<open>RangeError\<close> outside \<open>\<plusminus>8.64e15\<close>.  \<open>Date.parse\<close> is defined here on the strings \<open>toISOString\<close> can
  produce; on every other string its result depends on the engine and is a parameter.  The main
  result is the round trip, and that the canonical-timestamp test of the code accepts exactly the
  strings \<open>toISOString\<close> produces.
\<close>

section \<open>Days, years and months\<close>

definition msPerDay :: int where
  "msPerDay = 86400000"

definition MAX_TIME :: int where
  "MAX_TIME = 8640000000000000"

definition dayFromYear :: "int \<Rightarrow> int" where
  "dayFromYear y = 365 * (y - 1970) + (y - 1969) div 4 - (y - 1901) div 100 + (y - 1601) div 400"

definition leapYear :: "int \<Rightarrow> bool" where
  "leapYear y = (y mod 4 = 0 \<and> (y mod 100 \<noteq> 0 \<or> y mod 400 = 0))"

text \<open>The year a day falls in: an estimate by the mean year length, corrected by one.\<close>

definition yearFromDay :: "int \<Rightarrow> int" where
  "yearFromDay d = (let y = 1970 + (400 * d) div 146097
     in if dayFromYear (y + 1) \<le> d then y + 1 else if d < dayFromYear y then y - 1 else y)"

definition monthLengths :: "bool \<Rightarrow> int list" where
  "monthLengths leap = [31, if leap then 29 else 28, 31, 30, 31, 30, 31, 31, 30, 31, 30, 31]"

text \<open>Month (counted from 1) and day of month of a day within the year.\<close>

fun splitMonths :: "int list \<Rightarrow> int \<Rightarrow> int \<Rightarrow> int \<times> int" where
  "splitMonths [] m d = (m, d + 1)"
| "splitMonths (l # ls) m d = (if d < l then (m, d + 1) else splitMonths ls (m + 1) (d - l))"

definition civilFromDay :: "int \<Rightarrow> int \<times> int \<times> int" where
  "civilFromDay d = (let y = yearFromDay d in (y, splitMonths (monthLengths (leapYear y)) 1 (d - dayFromYear y)))"

definition dayFromCivil :: "int \<Rightarrow> int \<Rightarrow> int \<Rightarrow> int" where
  "dayFromCivil y m d = dayFromYear y + sum_list (take (nat (m - 1)) (monthLengths (leapYear y))) + d - 1"

lemma div_next:
  fixes z n :: int
  assumes "0 < n"
  shows "(z + 1) div n = z div n + (if (z + 1) mod n = 0 then 1 else 0)"
proof -
  have z: "z + 1 = n * (z div n) + (z mod n + 1)" by (simp add: algebra_simps)
  have r: "0 \<le> z mod n" "z mod n < n" using assms by auto
  show ?thesis
  proof (cases "z mod n + 1 = n")
    case True
    then have "z + 1 = n * (z div n + 1)" using z by (simp add: algebra_simps)
    then have "(z + 1) div n = z div n + 1" "(z + 1) mod n = 0" using assms by auto
    then show ?thesis by simp
  next
    case False
    then have "(z + 1) div n = z div n" "(z + 1) mod n = z mod n + 1"
      using int_div_pos_eq [OF z] int_mod_pos_eq [OF z] r by auto
    then show ?thesis using r by simp
  qed
qed

lemma leap_count:
  fixes a b c a' b' c' :: int
  assumes "a' = a + (if p then 1 else 0)" "b' = b + (if q then 1 else 0)"
    and "c' = c + (if r then 1 else 0)" "r \<longrightarrow> q" "q \<longrightarrow> p"
  shows "365 * (y + 1 - 1970) + a' - b' + c' =
    365 * (y - 1970) + a - b + c + (if p \<and> (\<not> q \<or> r) then 366 else 365)"
  using assms by (cases p; cases q; cases r) simp_all

lemma dayFromYear_Suc: "dayFromYear (y + 1) = dayFromYear y + (if leapYear y then 366 else 365)"
proof -
  have m: "(y - 1968) mod 4 = y mod 4" "(y - 1900) mod 100 = y mod 100" "(y - 1600) mod 400 = y mod 400"
    using mod_mult_self1 [of y "-492" 4] mod_mult_self1 [of y "-19" 100] mod_mult_self1 [of y "-4" 400]
    by simp_all
  have e: "y - 1969 + 1 = y - 1968" "y + 1 - 1969 = y - 1968" "y - 1901 + 1 = y - 1900"
    "y + 1 - 1901 = y - 1900" "y - 1601 + 1 = y - 1600" "y + 1 - 1601 = y - 1600"
    by simp_all
  have "(y + 1 - 1969) div 4 = (y - 1969) div 4 + (if y mod 4 = 0 then 1 else 0)"
    unfolding e by (rule div_next [of 4 "y - 1969", OF zero_less_numeral, unfolded e m])
  moreover have "(y + 1 - 1901) div 100 = (y - 1901) div 100 + (if y mod 100 = 0 then 1 else 0)"
    unfolding e by (rule div_next [of 100 "y - 1901", OF zero_less_numeral, unfolded e m])
  moreover have "(y + 1 - 1601) div 400 = (y - 1601) div 400 + (if y mod 400 = 0 then 1 else 0)"
    unfolding e by (rule div_next [of 400 "y - 1601", OF zero_less_numeral, unfolded e m])
  moreover have "y mod 400 = 0 \<longrightarrow> y mod 100 = 0" "y mod 100 = 0 \<longrightarrow> y mod 4 = 0"
    using dvd_trans [of 100 400 y] dvd_trans [of 4 100 y] by (simp_all add: mod_eq_0_iff_dvd)
  ultimately show ?thesis
    unfolding dayFromYear_def leapYear_def by (rule leap_count)
qed

lemma int_div_bounds:
  fixes z n :: int
  assumes "0 < n"
  shows "n * (z div n) \<le> z" "z < n * (z div n) + n"
  using assms by (simp_all add: mult.commute pos_mod_bound minus_mod_eq_mult_div [symmetric])

lemma yearFromDay_bounds: "dayFromYear (yearFromDay d) \<le> d \<and> d < dayFromYear (yearFromDay d + 1)"
proof -
  define y where "y = 1970 + (400 * d) div 146097"
  have y: "146097 * (y - 1970) \<le> 400 * d" "400 * d < 146097 * (y - 1970) + 146097"
    using int_div_bounds [of 146097 "400 * d"] unfolding y_def by auto
  have "dayFromYear (y - 1) \<le> d"
    using y int_div_bounds [of 4 "y - 1970"] int_div_bounds [of 100 "y - 1902"]
      int_div_bounds [of 400 "y - 1602"]
    unfolding dayFromYear_def by (simp add: algebra_simps)
  moreover have "d < dayFromYear (y + 2)"
    using y int_div_bounds [of 4 "y - 1967"] int_div_bounds [of 100 "y - 1899"]
      int_div_bounds [of 400 "y - 1599"]
    unfolding dayFromYear_def by (simp add: algebra_simps)
  ultimately show ?thesis
    unfolding yearFromDay_def Let_def y_def [symmetric] by (auto simp: add.commute)
qed

lemma dayFromYear_mono: "y \<le> y' \<Longrightarrow> dayFromYear y \<le> dayFromYear y'"
proof (induction "nat (y' - y)" arbitrary: y')
  case 0
  then show ?case by simp
next
  case (Suc n)
  then have "n = nat (y' - 1 - y)" "y \<le> y' - 1" by auto
  with Suc.hyps(1) have "dayFromYear y \<le> dayFromYear (y' - 1)" by blast
  then show ?case using dayFromYear_Suc [of "y' - 1"] by (auto split: if_splits)
qed

lemma yearFromDay_unique:
  assumes "dayFromYear y \<le> d" "d < dayFromYear (y + 1)"
  shows "yearFromDay d = y"
proof (rule ccontr)
  assume "yearFromDay d \<noteq> y"
  then have "yearFromDay d + 1 \<le> y \<or> y + 1 \<le> yearFromDay d" by linarith
  then show False
    using assms yearFromDay_bounds [of d] dayFromYear_mono by (meson dual_order.strict_trans1 linorder_not_less)
qed

text \<open>Splitting a day of the year into month and day loses nothing.\<close>

lemma splitMonths_sum:
  assumes "splitMonths ls m d = (m', d')" "0 \<le> d" "d < sum_list ls"
  shows "m \<le> m' \<and> nat (m' - m) < length ls \<and>
    d = sum_list (take (nat (m' - m)) ls) + d' - 1 \<and> 1 \<le> d' \<and> d' \<le> ls ! nat (m' - m)"
  using assms
proof (induction ls m d rule: splitMonths.induct)
  case (2 l ls m d)
  show ?case
  proof (cases "d < l")
    case False
    with 2 have IH: "m + 1 \<le> m' \<and> nat (m' - (m + 1)) < length ls \<and>
      d - l = sum_list (take (nat (m' - (m + 1))) ls) + d' - 1 \<and> 1 \<le> d' \<and> d' \<le> ls ! nat (m' - (m + 1))"
      by auto
    then have "nat (m' - m) = Suc (nat (m' - (m + 1)))" by linarith
    with IH show ?thesis by auto
  qed (use 2 in auto)
qed auto

lemma sum_monthLengths: "sum_list (monthLengths leap) = (if leap then 366 else 365)"
  by (simp add: monthLengths_def)

lemma length_monthLengths [simp]: "length (monthLengths leap) = 12"
  by (simp add: monthLengths_def)

lemma monthLengths_le: "i < 12 \<Longrightarrow> monthLengths leap ! i \<le> 31"
  unfolding monthLengths_def by (auto simp: nth_Cons' numeral_eq_Suc less_Suc_eq)

lemma civil_roundtrip:
  assumes "civilFromDay day = (y, m, d)"
  shows "dayFromCivil y m d = day \<and> 1 \<le> m \<and> m \<le> 12 \<and> 1 \<le> d \<and> d \<le> monthLengths (leapYear y) ! nat (m - 1)"
proof -
  have y: "y = yearFromDay day"
    and split: "splitMonths (monthLengths (leapYear y)) 1 (day - dayFromYear y) = (m, d)"
    using assms by (auto simp: civilFromDay_def Let_def)
  have "0 \<le> day - dayFromYear y" "day - dayFromYear y < sum_list (monthLengths (leapYear y))"
    using yearFromDay_bounds [of day] dayFromYear_Suc [of y] y
    by (auto simp: sum_monthLengths)
  from splitMonths_sum [OF split this] show ?thesis
    by (auto simp: dayFromCivil_def)
qed

section \<open>ISO texts\<close>

fun pad :: "nat \<Rightarrow> nat \<Rightarrow> string" where
  "pad 0 n = []"
| "pad (Suc k) n = pad k (n div 10) @ [digit_char (n mod 10)]"

fun undigits :: "string \<Rightarrow> nat \<Rightarrow> nat option" where
  "undigits [] acc = Some acc"
| "undigits (c # cs) acc = (case digit_val c of None \<Rightarrow> None | Some v \<Rightarrow> undigits cs (10 * acc + v))"

lemma length_pad [simp]: "length (pad k n) = k"
  by (induction k arbitrary: n) auto

lemma undigits_append:
  "undigits (s @ t) acc = (case undigits s acc of None \<Rightarrow> None | Some v \<Rightarrow> undigits t v)"
  by (induction s arbitrary: acc) (auto split: option.splits)

lemma undigits_pad: "n < 10 ^ k \<Longrightarrow> undigits (pad k n) 0 = Some n"
proof (induction k arbitrary: n)
  case (Suc k)
  then have "n div 10 < 10 ^ k" by (simp add: less_mult_imp_div_less mult.commute)
  with Suc.IH show ?case by (simp add: undigits_append)
qed simp

definition yearText :: "int \<Rightarrow> string" where
  "yearText y = (if 0 \<le> y \<and> y \<le> 9999 then pad 4 (nat y)
     else if 0 < y then CHR ''+'' # pad 6 (nat y) else CHR ''-'' # pad 6 (nat (- y)))"

definition clockText :: "nat \<Rightarrow> nat \<Rightarrow> nat \<Rightarrow> nat \<Rightarrow> nat \<Rightarrow> nat \<Rightarrow> string" where
  "clockText m d h mi sec ms = ''-'' @ pad 2 m @ ''-'' @ pad 2 d @ ''T'' @
     pad 2 h @ '':'' @ pad 2 mi @ '':'' @ pad 2 sec @ ''.'' @ pad 3 ms @ ''Z''"

definition restText :: "int \<Rightarrow> int \<Rightarrow> int \<Rightarrow> string" where
  "restText m d ms = clockText (nat m) (nat d) (nat (ms div 3600000)) (nat (ms div 60000 mod 60))
     (nat (ms div 1000 mod 60)) (nat (ms mod 1000))"

definition isoText :: "int \<Rightarrow> string" where
  "isoText t = (case civilFromDay (t div msPerDay) of (y, m, d) \<Rightarrow>
     yearText y @ restText m d (t mod msPerDay))"

text \<open>\<open>new Date(t).toISOString()\<close>; \<open>None\<close> is the \<open>RangeError\<close>.\<close>

definition toISOString :: "int \<Rightarrow> string option" where
  "toISOString t = (if \<bar>t\<bar> \<le> MAX_TIME then Some (isoText t) else None)"

text \<open>\<open>Date.parse\<close> on the texts of \<open>toISOString\<close>.\<close>

definition field :: "string \<Rightarrow> nat \<Rightarrow> nat \<Rightarrow> nat option" where
  "field s i n = (if i + n \<le> length s then undigits (take n (drop i s)) 0 else None)"

definition parseRest :: "int \<Rightarrow> string \<Rightarrow> int option" where
  "parseRest y s = (case (field s 1 2, field s 4 2, field s 7 2, field s 10 2, field s 13 2, field s 16 3) of
     (Some m, Some d, Some h, Some mi, Some sec, Some ms) \<Rightarrow>
       (if length s = 20 \<and> s ! 0 = CHR ''-'' \<and> s ! 3 = CHR ''-'' \<and> s ! 6 = CHR ''T'' \<and> s ! 9 = CHR '':'' \<and>
           s ! 12 = CHR '':'' \<and> s ! 15 = CHR ''.'' \<and> s ! 19 = CHR ''Z'' \<and>
           1 \<le> m \<and> m \<le> 12 \<and> 1 \<le> d \<and> int d \<le> monthLengths (leapYear y) ! (m - 1) \<and>
           h \<le> 23 \<and> mi \<le> 59 \<and> sec \<le> 59
        then Some (dayFromCivil y (int m) (int d) * msPerDay +
               (int h * 3600000 + int mi * 60000 + int sec * 1000 + int ms))
        else None)
     | _ \<Rightarrow> None)"

definition parseIso :: "string \<Rightarrow> int option" where
  "parseIso s = (case (case s of
       [] \<Rightarrow> None
     | c # cs \<Rightarrow>
         if c = CHR ''+'' then map_option (\<lambda>y. (int y, drop 6 cs)) (field cs 0 6)
         else if c = CHR ''-'' then (case field cs 0 6 of
           None \<Rightarrow> None | Some y \<Rightarrow> if y = 0 then None else Some (- int y, drop 6 cs))
         else map_option (\<lambda>y. (int y, drop 4 s)) (field s 0 4)) of
     None \<Rightarrow> None
   | Some (y, rest) \<Rightarrow> (case parseRest y rest of
       None \<Rightarrow> None | Some t \<Rightarrow> if \<bar>t\<bar> \<le> MAX_TIME then Some t else None))"

definition dateParse :: "(string \<Rightarrow> int option) \<Rightarrow> string \<Rightarrow> int option" where
  "dateParse other s = (case parseIso s of Some t \<Rightarrow> Some t | None \<Rightarrow> other s)"

section \<open>Round trip\<close>

lemma pad2: "pad 2 n = [digit_char (n div 10 mod 10), digit_char (n mod 10)]"
  by (simp add: numeral_2_eq_2)

lemma pad3: "pad 3 n = [digit_char (n div 10 div 10 mod 10), digit_char (n div 10 mod 10), digit_char (n mod 10)]"
  using pad.simps(2) [of 2 n] by (simp add: pad2)

lemma pad4: "pad 4 n = pad 3 (n div 10) @ [digit_char (n mod 10)]"
  using pad.simps(2) [of 3 n] by simp

lemma clockText_fields:
  "field (clockText m d h mi sec ms) 1 2 = undigits (pad 2 m) 0"
  "field (clockText m d h mi sec ms) 4 2 = undigits (pad 2 d) 0"
  "field (clockText m d h mi sec ms) 7 2 = undigits (pad 2 h) 0"
  "field (clockText m d h mi sec ms) 10 2 = undigits (pad 2 mi) 0"
  "field (clockText m d h mi sec ms) 13 2 = undigits (pad 2 sec) 0"
  "field (clockText m d h mi sec ms) 16 3 = undigits (pad 3 ms) 0"
  by (simp_all add: field_def clockText_def pad2 pad3)

lemma clockText_shape:
  "length (clockText m d h mi sec ms) = 20"
  "clockText m d h mi sec ms ! 0 = CHR ''-''" "clockText m d h mi sec ms ! 3 = CHR ''-''"
  "clockText m d h mi sec ms ! 6 = CHR ''T''" "clockText m d h mi sec ms ! 9 = CHR '':''"
  "clockText m d h mi sec ms ! 12 = CHR '':''" "clockText m d h mi sec ms ! 15 = CHR ''.''"
  "clockText m d h mi sec ms ! 19 = CHR ''Z''"
  by (simp_all add: clockText_def pad2 pad3)

lemma time_of_day_split:
  fixes ms :: int
  shows "ms div 3600000 * 3600000 + ms div 60000 mod 60 * 60000 + ms div 1000 mod 60 * 1000 + ms mod 1000 = ms"
proof -
  have q: "ms div 60000 = ms div 1000 div 60" "ms div 3600000 = ms div 60000 div 60"
    using zdiv_zmult2_eq [of 60 ms 1000] zdiv_zmult2_eq [of 60 ms 60000] by simp_all
  have "ms = ms div 1000 * 1000 + ms mod 1000"
    "ms div 1000 = ms div 60000 * 60 + ms div 1000 mod 60"
    "ms div 60000 = ms div 3600000 * 60 + ms div 60000 mod 60"
    unfolding q by (simp_all only: div_mult_mod_eq)
  then show ?thesis by linarith
qed

lemma time_of_day_bounds:
  fixes ms :: int
  assumes "0 \<le> ms" "ms < msPerDay"
  shows "0 \<le> ms div 3600000" "ms div 3600000 \<le> 23" "0 \<le> ms div 60000 mod 60" "ms div 60000 mod 60 \<le> 59"
    "0 \<le> ms div 1000 mod 60" "ms div 1000 mod 60 \<le> 59" "0 \<le> ms mod 1000" "ms mod 1000 < 1000"
  using assms pos_mod_bound [of 60 "ms div 60000"] pos_mod_bound [of 60 "ms div 1000"]
    int_div_bounds [of 3600000 ms]
  by (simp_all add: msPerDay_def pos_imp_zdiv_nonneg_iff)

lemma parseRest_clockText:
  assumes "1 \<le> m" "m \<le> 12" "1 \<le> d" "int d \<le> monthLengths (leapYear y) ! (m - 1)"
    "h \<le> 23" "mi \<le> 59" "sec \<le> 59" "ms < 1000"
  shows "parseRest y (clockText m d h mi sec ms) = Some (dayFromCivil y (int m) (int d) * msPerDay +
    (int h * 3600000 + int mi * 60000 + int sec * 1000 + int ms))"
proof -
  have "d \<le> 31" using assms(1,2,4) monthLengths_le [of "m - 1" "leapYear y"] by linarith
  then have "undigits (pad 2 m) 0 = Some m" "undigits (pad 2 d) 0 = Some d" "undigits (pad 2 h) 0 = Some h"
    "undigits (pad 2 mi) 0 = Some mi" "undigits (pad 2 sec) 0 = Some sec" "undigits (pad 3 ms) 0 = Some ms"
    using assms by (simp_all add: undigits_pad)
  then show ?thesis
    unfolding parseRest_def clockText_fields using assms clockText_shape by simp
qed

lemma parseRest_ints:
  assumes "1 \<le> m" "m \<le> 12" "1 \<le> d" "d \<le> monthLengths (leapYear y) ! nat (m - 1)"
    "0 \<le> h" "h \<le> 23" "0 \<le> mi" "mi \<le> 59" "0 \<le> sec" "sec \<le> 59" "0 \<le> ms" "ms < 1000"
  shows "parseRest y (clockText (nat m) (nat d) (nat h) (nat mi) (nat sec) (nat ms)) =
    Some (dayFromCivil y m d * msPerDay + (h * 3600000 + mi * 60000 + sec * 1000 + ms))"
proof -
  have "nat m - 1 = nat (m - 1)" using assms(1) by (simp add: nat_diff_distrib)
  then show ?thesis
    using parseRest_clockText [of "nat m" "nat d" y "nat h" "nat mi" "nat sec" "nat ms"] assms
    by simp
qed

lemma parseRest_restText:
  assumes "1 \<le> m" "m \<le> 12" "1 \<le> d" "d \<le> monthLengths (leapYear y) ! nat (m - 1)" "0 \<le> ms" "ms < msPerDay"
  shows "parseRest y (restText m d ms) = Some (dayFromCivil y m d * msPerDay + ms)"
  unfolding restText_def
  using parseRest_ints [OF assms(1-4) time_of_day_bounds [OF assms(5,6)]]
  by (simp only: time_of_day_split)

lemma year_digits:
  assumes "\<bar>t\<bar> \<le> MAX_TIME"
  shows "\<bar>yearFromDay (t div msPerDay)\<bar> < 1000000"
proof -
  define day where "day = t div msPerDay"
  have "- 100000001 \<le> day" "day \<le> 100000000"
    using assms int_div_bounds [of msPerDay t] unfolding day_def by (auto simp: MAX_TIME_def msPerDay_def)
  moreover have "dayFromYear 1000000 = 364522972" "dayFromYear (- 999999) = - 365961662"
    by (simp_all add: dayFromYear_def)
  ultimately show ?thesis
    using yearFromDay_bounds [of day] dayFromYear_mono [of 1000000 "yearFromDay day"]
      dayFromYear_mono [of "yearFromDay day + 1" "- 999999"]
    unfolding day_def [symmetric] by linarith
qed

lemma parse_yearText:
  assumes "\<bar>y\<bar> < 1000000" "parseRest y rest = Some t" "\<bar>t\<bar> \<le> MAX_TIME"
  shows "parseIso (yearText y @ rest) = Some t"
proof -
  have plain: "\<exists>c cs. pad 4 n = c # cs \<and> length cs = 3 \<and> c \<noteq> CHR ''+'' \<and> c \<noteq> CHR ''-''" for n
  proof -
    have "digit_char (k mod 10) \<noteq> CHR ''+'' \<and> digit_char (k mod 10) \<noteq> CHR ''-''" for k
      using digit_val_char [of "k mod 10"]
      by (auto simp: digit_val_def code_unit_def Let_def split: if_splits)
    then show ?thesis by (simp add: pad4 pad3)
  qed
  consider "0 \<le> y" "y \<le> 9999" | "9999 < y" | "y < 0" by linarith
  then show ?thesis
  proof cases
    case 1
    then have "field (yearText y @ rest) 0 4 = Some (nat y)"
      by (simp add: yearText_def field_def undigits_pad)
    with 1 assms plain [of "nat y"] show ?thesis
      by (auto simp: parseIso_def yearText_def)
  next
    case 2
    with assms show ?thesis
      by (simp add: parseIso_def yearText_def field_def undigits_pad)
  next
    case 3
    with assms show ?thesis
      by (simp add: parseIso_def yearText_def field_def undigits_pad)
  qed
qed

theorem parseIso_isoText: "\<bar>t\<bar> \<le> MAX_TIME \<Longrightarrow> parseIso (isoText t) = Some t"
proof -
  assume t: "\<bar>t\<bar> \<le> MAX_TIME"
  obtain y m d where civ: "civilFromDay (t div msPerDay) = (y, m, d)" by (metis prod_cases3)
  have y: "y = yearFromDay (t div msPerDay)" using civ by (simp add: civilFromDay_def Let_def)
  have "parseRest y (restText m d (t mod msPerDay)) = Some (dayFromCivil y m d * msPerDay + t mod msPerDay)"
    using civil_roundtrip [OF civ] by (intro parseRest_restText) (auto simp: msPerDay_def)
  also have "dayFromCivil y m d * msPerDay + t mod msPerDay = t"
    using civil_roundtrip [OF civ] by simp
  finally show ?thesis
    using parse_yearText year_digits [OF t] t y by (simp add: isoText_def civ)
qed

text \<open>
  The test \<open>Number.isFinite(Date.parse(s)) \<and> new Date(Date.parse(s)).toISOString() === s\<close>, for any
  behaviour of the engine on the strings the language leaves open.
\<close>

definition canonicalTimestamp :: "(string \<Rightarrow> int option) \<Rightarrow> string \<Rightarrow> bool" where
  "canonicalTimestamp other s = (case dateParse other s of
     None \<Rightarrow> False | Some t \<Rightarrow> toISOString t = Some s)"

definition isCanonicalIso :: "string \<Rightarrow> bool" where
  "isCanonicalIso s = (case parseIso s of None \<Rightarrow> False | Some t \<Rightarrow> isoText t = s)"

lemma parseIso_range: "parseIso s = Some t \<Longrightarrow> \<bar>t\<bar> \<le> MAX_TIME"
  by (auto simp: parseIso_def split: option.splits prod.splits if_splits)

lemma isCanonicalIso_iff: "isCanonicalIso s \<longleftrightarrow> (\<exists>t. \<bar>t\<bar> \<le> MAX_TIME \<and> s = isoText t)"
  by (auto simp: isCanonicalIso_def parseIso_isoText dest: parseIso_range split: option.splits)

lemma canonicalTimestamp_eq: "canonicalTimestamp other s = isCanonicalIso s"
  by (auto simp: canonicalTimestamp_def isCanonicalIso_def dateParse_def toISOString_def parseIso_isoText
      dest: parseIso_range split: option.splits if_splits)

lemma isCanonicalIso_isoText [simp]: "\<bar>t\<bar> \<le> MAX_TIME \<Longrightarrow> isCanonicalIso (isoText t)"
  by (auto simp: isCanonicalIso_iff)

end
