(* ===== verification/Events.thy ===== *)
theory Events
  imports Contracts Js_Regex Js_Date
begin

text \<open>
  \<open>packages/agent-control-plane/src/events.ts\<close>: the operational event log.  An event is accepted only
  under a capability that binds the authenticated principal to its actor kind, only with safe
  references and with the facts its type allows, and only once per id and per idempotency key.
\<close>

section \<open>Errors of the package\<close>

text \<open>
  The error classes of \<open>events.ts\<close> and \<open>control-plane.ts\<close> with their messages, the \<open>RangeError\<close> of
  \<open>toISOString\<close> and what an adapter promise is rejected with.
\<close>

datatype error =
    OperationalEventPolicyError string
  | DuplicateOperationalEventError string
  | ControlPlanePolicyError string
  | CrossWorkspaceAccessError string
  | DuplicateEventError string
  | CostLimitExceededError string
  | RangeError string
  | AdapterError string

section \<open>Event types and facts\<close>

datatype OperationalActorKind = HUMAN | AGENT | RUNTIME | SYSTEM

datatype EventSource = CONTROL_PLANE | AI_COO | AGENT_FACTORY

fun sourceText :: "EventSource \<Rightarrow> string" where
  "sourceText CONTROL_PLANE = ''CONTROL_PLANE''"
| "sourceText AI_COO = ''AI_COO''"
| "sourceText AGENT_FACTORY = ''AGENT_FACTORY''"

lemma sourceText_inj [simp]: "sourceText a = sourceText b \<longleftrightarrow> a = b"
  by (cases a; cases b) auto

datatype OperationalEventType =
    ObjectiveCreated | ProjectCreated | TaskCreated | TaskReady | TaskBlocked | TaskAssigned
  | TaskRetryReady | TaskFailed | TaskStopped | TaskCompleted | TaskStatusChanged
  | RunCreated | RunStatusChanged | RunProgress | RunCompleted | RunFailed
  | ArtifactCreated | ApprovalRequested | ApprovalPermitIssued | ApprovalPermitClaimed
  | UsageRecorded | CostLedgerRecorded | AgentCreated | AgentLifecycleChanged
  | RuntimeConnectionUpdated | RuntimeHeartbeatRecorded | EventRecorded

datatype ObservableFact = FText string | FNum int | FBool bool | FList "string list"

record OperationalEvent =
  oe_id :: EntityId
  oe_workspaceId :: EntityId
  oe_type :: OperationalEventType
  oe_source :: EventSource
  oe_actorKind :: OperationalActorKind
  oe_actorId :: EntityId
  oe_subjectType :: string
  oe_subjectId :: EntityId
  oe_occurredAt :: string
  oe_idempotencyKey :: string
  oe_correlationId :: "EntityId option"
  oe_facts :: "(string \<times> ObservableFact) list"

datatype FactKind = REFERENCE | REFERENCE_LIST | CODE | INTEGER | BOOLEAN

fun FACT_POLICIES :: "OperationalEventType \<Rightarrow> (string \<times> FactKind) list" where
  "FACT_POLICIES ObjectiveCreated = [(''titleLength'', INTEGER)]"
| "FACT_POLICIES ProjectCreated = [(''titleLength'', INTEGER)]"
| "FACT_POLICIES TaskCreated = [(''titleLength'', INTEGER), (''kind'', CODE), (''status'', CODE),
     (''requiredAuthorityLevel'', INTEGER)]"
| "FACT_POLICIES TaskReady = [(''dependencyIds'', REFERENCE_LIST)]"
| "FACT_POLICIES TaskBlocked = [(''dependencyIds'', REFERENCE_LIST)]"
| "FACT_POLICIES TaskAssigned = [(''agentId'', REFERENCE), (''runtimeId'', REFERENCE), (''attempt'', INTEGER)]"
| "FACT_POLICIES TaskRetryReady = [(''failureCodeDigest'', CODE), (''attempt'', INTEGER)]"
| "FACT_POLICIES TaskFailed = [(''failureCodeDigest'', CODE), (''attempt'', INTEGER)]"
| "FACT_POLICIES TaskStopped = [(''failureCodeDigest'', CODE), (''attempt'', INTEGER)]"
| "FACT_POLICIES TaskCompleted = [(''artifactIds'', REFERENCE_LIST)]"
| "FACT_POLICIES TaskStatusChanged = [(''previousStatus'', CODE), (''nextStatus'', CODE)]"
| "FACT_POLICIES RunCreated = [(''taskId'', REFERENCE), (''agentId'', REFERENCE), (''status'', CODE)]"
| "FACT_POLICIES RunStatusChanged = [(''previousStatus'', CODE), (''nextStatus'', CODE), (''taskId'', REFERENCE)]"
| "FACT_POLICIES RunProgress = [(''payloadFieldCount'', INTEGER), (''payloadBytes'', INTEGER)]"
| "FACT_POLICIES RunCompleted = [(''previousStatus'', CODE), (''nextStatus'', CODE), (''taskId'', REFERENCE)]"
| "FACT_POLICIES RunFailed = [(''previousStatus'', CODE), (''nextStatus'', CODE), (''taskId'', REFERENCE)]"
| "FACT_POLICIES ArtifactCreated = [(''taskId'', REFERENCE), (''runId'', REFERENCE), (''kind'', CODE)]"
| "FACT_POLICIES ApprovalRequested = [(''dependencyIds'', REFERENCE_LIST), (''taskId'', REFERENCE), (''runId'', REFERENCE)]"
| "FACT_POLICIES ApprovalPermitIssued = [(''taskId'', REFERENCE), (''runId'', REFERENCE)]"
| "FACT_POLICIES ApprovalPermitClaimed = [(''taskId'', REFERENCE), (''runId'', REFERENCE)]"
| "FACT_POLICIES UsageRecorded = [(''taskId'', REFERENCE), (''runId'', REFERENCE), (''computeUnits'', INTEGER),
     (''costMinorUnits'', INTEGER), (''currency'', CODE), (''taskCostUsedMinorUnits'', INTEGER),
     (''taskComputeUsed'', INTEGER)]"
| "FACT_POLICIES CostLedgerRecorded = [(''taskId'', REFERENCE), (''runId'', REFERENCE), (''usageId'', REFERENCE),
     (''receiptId'', REFERENCE), (''currency'', CODE), (''costMinorUnits'', INTEGER),
     (''workspaceCostUsedMinorUnits'', INTEGER), (''workspaceCostLimitMinorUnits'', INTEGER),
     (''taskCostUsedMinorUnits'', INTEGER), (''taskCostLimitMinorUnits'', INTEGER),
     (''workspacePolicyId'', REFERENCE)]"
| "FACT_POLICIES AgentCreated = [(''lifecycle'', CODE)]"
| "FACT_POLICIES AgentLifecycleChanged = [(''lifecycle'', CODE), (''reasonPresent'', BOOLEAN)]"
| "FACT_POLICIES RuntimeConnectionUpdated = [(''status'', CODE), (''runtimeId'', REFERENCE)]"
| "FACT_POLICIES RuntimeHeartbeatRecorded = [(''connectionId'', REFERENCE), (''sequence'', INTEGER), (''health'', CODE)]"
| "FACT_POLICIES EventRecorded = [(''payloadFieldCount'', INTEGER), (''payloadBytes'', INTEGER)]"

section \<open>Patterns\<close>

definition SAFE_REFERENCE :: regex where
  "SAFE_REFERENCE = anchored isAlnum (cls_or isAlnum (one_of '':._/-'')) 0 255"

definition SAFE_SUBJECT_TYPE :: regex where
  "SAFE_SUBJECT_TYPE = anchored isUpper isAlnum 0 63"

definition PRIVATE_FACT_KEYS :: regex where
  "PRIVATE_FACT_KEYS = alts
    [seqs [LitI ''chain'', opt isDot, LitI ''of'', opt isDot, LitI ''thought''],
     seqs [LitI ''private'', opt isDot, LitI ''reasoning''],
     LitI ''prompt'', LitI ''transcript'', LitI ''password'', LitI ''secret'', LitI ''token'',
     LitI ''credential'', seqs [LitI ''api'', opt isDot, LitI ''key'']]"

definition PRIVATE_FACT_VALUE :: regex where
  "PRIVATE_FACT_VALUE = alts
    [seqs [Lit ''-----BEGIN '', star (cls_or isUpper (one_of '' '')), Lit ''PRIVATE KEY-----''],
     seqs [WordBoundary, Lit ''Bearer'', Rep 1 None isWhiteSpace,
           Rep 12 None (cls_or isAlnum (one_of ''._~+/=-''))],
     seqs [WordBoundary, alts [Lit ''sk'', seqs [Lit ''gh'', Cls (one_of ''opusr'')], Lit ''github_pat''],
           Lit ''_'', Rep 12 None (cls_or isAlnum (one_of ''_-''))]]"

definition PRIVATE_FACT_TEXT :: regex where
  "PRIVATE_FACT_TEXT = (let sep = opt (one_of ''-_. '') in alts
    [seqs [LitI ''chain'', sep, LitI ''of'', sep, LitI ''thought''],
     seqs [LitI ''private'', sep, LitI ''reasoning''],
     LitI ''password'', LitI ''credential'', seqs [LitI ''api'', sep, LitI ''key''],
     LitI ''transcript'', LitI ''prompt''])"

definition privateText :: "string \<Rightarrow> bool" where
  "privateText s = (regex_test PRIVATE_FACT_VALUE s \<or> regex_test PRIVATE_FACT_TEXT s)"

section \<open>Validation\<close>

definition boundedText :: "string \<Rightarrow> string \<Rightarrow> nat \<Rightarrow> error + unit" where
  "boundedText value fld maximum =
     ensure (nonBlankUpTo maximum value) (OperationalEventPolicyError (fld @ '' must be non-empty and bounded''))"

definition safeReference :: "string \<Rightarrow> string \<Rightarrow> error + unit" where
  "safeReference value fld = checks
     [boundedText value fld 256,
      ensure (regex_test SAFE_REFERENCE value \<and> \<not> regex_test PRIVATE_FACT_VALUE value \<and>
              \<not> regex_test PRIVATE_FACT_TEXT value)
        (OperationalEventPolicyError (fld @ '' must be a safe non-sensitive reference''))]"

definition subjectTypeCode :: "string \<Rightarrow> error + unit" where
  "subjectTypeCode value = checks
     [boundedText value ''event.subjectType'' 64,
      ensure (regex_test SAFE_SUBJECT_TYPE value \<and> \<not> regex_test PRIVATE_FACT_VALUE value \<and>
              \<not> regex_test PRIVATE_FACT_TEXT value)
        (OperationalEventPolicyError ''event.subjectType must be a safe non-sensitive subject code'')]"

definition validateFactValue :: "FactKind \<Rightarrow> ObservableFact \<Rightarrow> error + unit" where
  "validateFactValue kind value = (case value of
     FText t \<Rightarrow> checks
       [ensure (length t \<le> 2048) (OperationalEventPolicyError ''Event fact is too large''),
        ensure (\<not> regex_test PRIVATE_FACT_VALUE t \<and> \<not> regex_test PRIVATE_FACT_TEXT t)
          (OperationalEventPolicyError ''Secret-like event fact values are forbidden''),
        ensure (\<not> ((kind = REFERENCE \<or> kind = CODE) \<and> \<not> regex_test SAFE_REFERENCE t))
          (OperationalEventPolicyError ''Event fact must be a safe reference or code''),
        ensure (\<not> (kind \<noteq> REFERENCE \<and> kind \<noteq> CODE))
          (OperationalEventPolicyError ''Event fact has the wrong value kind'')]
   | FNum n \<Rightarrow>
       ensure (isSafeInteger n \<and> 0 \<le> n \<and> kind = INTEGER)
         (OperationalEventPolicyError ''Numeric event facts must be non-negative safe integers'')
   | FBool b \<Rightarrow>
       ensure (kind = BOOLEAN) (OperationalEventPolicyError ''Event fact has the wrong value kind'')
   | FList items \<Rightarrow> checks
       (ensure (kind = REFERENCE_LIST \<and> length items \<le> 32)
          (OperationalEventPolicyError ''Event fact has an unsupported value'')
        # map (\<lambda>item. checks
            [ensure (regex_test SAFE_REFERENCE item)
               (OperationalEventPolicyError ''Event fact list must contain safe references''),
             ensure (\<not> regex_test PRIVATE_FACT_VALUE item \<and> \<not> regex_test PRIVATE_FACT_TEXT item)
               (OperationalEventPolicyError ''Secret-like event fact values are forbidden'')]) items))"

definition validateFact :: "OperationalEventType \<Rightarrow> string \<times> ObservableFact \<Rightarrow> error + unit" where
  "validateFact type entry = (case entry of (name, value) \<Rightarrow>
     ebind (boundedText name ''fact name'' 128) (\<lambda>_.
     ebind (ensure (\<not> regex_test PRIVATE_FACT_KEYS name)
       (OperationalEventPolicyError ''Private or secret-bearing event facts are forbidden'')) (\<lambda>_.
     case map_of (FACT_POLICIES type) name of
       None \<Rightarrow> Inl (OperationalEventPolicyError ''Event fact is not allowed for this type'')
     | Some kind \<Rightarrow> validateFactValue kind value)))"

fun factJson :: "ObservableFact \<Rightarrow> json" where
  "factJson (FText t) = JStr t"
| "factJson (FNum n) = JNum (SafeInt n)"
| "factJson (FBool b) = JBool b"
| "factJson (FList items) = JArr (map JStr items)"

definition factsJson :: "(string \<times> ObservableFact) list \<Rightarrow> json" where
  "factsJson facts = JObj (map (\<lambda>(name, value). (name, factJson value)) facts)"

definition validateFacts :: "OperationalEventType \<Rightarrow> (string \<times> ObservableFact) list \<Rightarrow> error + unit" where
  "validateFacts type facts = checks
     [ensure (length facts \<le> 32) (OperationalEventPolicyError ''Event has too many facts''),
      checks (map (validateFact type) facts),
      ensure (utf8Length (json_text (factsJson facts)) \<le> 32 * 1024)
        (OperationalEventPolicyError ''Event facts exceed the UTF-8 size limit'')]"

section \<open>Capabilities\<close>

record PrincipalBinding =
  pb_workspaceId :: EntityId
  pb_principalId :: EntityId
  pb_actorKind :: OperationalActorKind
  pb_authorityLevel :: "int option"

record EventCapability =
  ec_source :: EventSource
  ec_principalActorKinds :: "OperationalActorKind jsmap"
  ec_principalAuthorityLevels :: "int jsmap"

definition bindingKey :: "PrincipalBinding \<Rightarrow> string" where
  "bindingKey b = key (pb_workspaceId b) (pb_principalId b)"

definition newCapability :: "EventSource \<Rightarrow> PrincipalBinding list \<Rightarrow> EventCapability" where
  "newCapability source bindings =
     \<lparr>ec_source = source,
      ec_principalActorKinds =
        foldl (\<lambda>m b. mset_at m (bindingKey b) (pb_actorKind b)) [] bindings,
      ec_principalAuthorityLevels =
        foldl (\<lambda>m b. case pb_authorityLevel b of None \<Rightarrow> m | Some l \<Rightarrow> mset_at m (bindingKey b) l) [] bindings\<rparr>"

fun issueLoop :: "PrincipalBinding list \<Rightarrow> string set \<Rightarrow> error + unit" where
  "issueLoop [] keys = Inr ()"
| "issueLoop (binding # rest) keys = (case checks
     [safeReference (pb_workspaceId binding) ''capability workspaceId'',
      safeReference (pb_principalId binding) ''capability principalId'',
      ensure (case pb_authorityLevel binding of None \<Rightarrow> True | Some l \<Rightarrow> 0 \<le> l \<and> l \<le> 4)
        (OperationalEventPolicyError ''Unsupported capability authority level''),
      ensure (bindingKey binding \<notin> keys)
        (OperationalEventPolicyError ''Duplicate capability principal binding'')] of
     Inl e \<Rightarrow> Inl e
   | Inr _ \<Rightarrow> issueLoop rest (insert (bindingKey binding) keys))"

definition issue :: "EventSource \<Rightarrow> PrincipalBinding list \<Rightarrow> error + EventCapability" where
  "issue source bindings =
     ebind (ensure (bindings \<noteq> [] \<and> length bindings \<le> 64)
       (OperationalEventPolicyError ''Capability bindings must be non-empty and bounded'')) (\<lambda>_.
     ebind (issueLoop bindings {}) (\<lambda>_. Inr (newCapability source bindings)))"

definition contextKey :: "WorkspaceContext \<Rightarrow> string" where
  "contextKey cx = key (cx_workspaceId cx) (cx_principalId cx)"

definition actorKindFor :: "EventCapability \<Rightarrow> WorkspaceContext \<Rightarrow> error + OperationalActorKind" where
  "actorKindFor capability cx = (case mget (ec_principalActorKinds capability) (contextKey cx) of
     None \<Rightarrow> Inl (OperationalEventPolicyError ''No trusted workspace principal binding exists'')
   | Some actorKind \<Rightarrow> Inr actorKind)"

definition assertSource :: "EventCapability \<Rightarrow> EventSource \<Rightarrow> error + unit" where
  "assertSource capability source = ensure (source = ec_source capability)
     (OperationalEventPolicyError ''Event source does not match its trusted capability'')"

definition authorityLevelFor :: "EventCapability \<Rightarrow> WorkspaceContext \<Rightarrow> error + int" where
  "authorityLevelFor capability cx =
     ebind (actorKindFor capability cx) (\<lambda>_.
     case mget (ec_principalAuthorityLevels capability) (contextKey cx) of
       None \<Rightarrow> Inl (OperationalEventPolicyError ''No trusted principal authority binding exists'')
     | Some level \<Rightarrow> Inr level)"

definition assertBinding :: "EventCapability \<Rightarrow> WorkspaceContext \<Rightarrow> OperationalEvent \<Rightarrow> error + unit" where
  "assertBinding capability cx event =
     ebind (assertSource capability (oe_source event)) (\<lambda>_.
     ebind (actorKindFor capability cx) (\<lambda>kind.
     ensure (kind = oe_actorKind event)
       (OperationalEventPolicyError ''Event actor kind does not match its trusted principal binding'')))"

definition validateOperationalEvent ::
    "EventCapability \<Rightarrow> WorkspaceContext \<Rightarrow> OperationalEvent \<Rightarrow> error + unit" where
  "validateOperationalEvent capability cx event = checks
     [assertBinding capability cx event,
      ensure (cx_workspaceId cx = oe_workspaceId event)
        (OperationalEventPolicyError ''Cross-workspace event denied''),
      ensure (cx_principalId cx = oe_actorId event)
        (OperationalEventPolicyError ''Event actor must match the authenticated principal''),
      safeReference (oe_id event) ''event.id'',
      safeReference (oe_workspaceId event) ''event.workspaceId'',
      safeReference (oe_actorId event) ''event.actorId'',
      subjectTypeCode (oe_subjectType event),
      safeReference (oe_subjectId event) ''event.subjectId'',
      safeReference (oe_idempotencyKey event) ''event.idempotencyKey'',
      (case oe_correlationId event of None \<Rightarrow> Inr () | Some c \<Rightarrow> safeReference c ''event.correlationId''),
      ensure (isCanonicalIso (oe_occurredAt event))
        (OperationalEventPolicyError ''Event occurredAt must be an ISO timestamp''),
      validateFacts (oe_type event) (oe_facts event)]"

section \<open>The in-memory log\<close>

record EventLog =
  log_events :: "OperationalEvent jsmap"
  log_idempotencyKeys :: "string set"

definition emptyLog :: EventLog where
  "emptyLog = \<lparr>log_events = [], log_idempotencyKeys = {}\<rparr>"

definition eventKey :: "OperationalEvent \<Rightarrow> string" where
  "eventKey event = key (oe_workspaceId event) (oe_id event)"

definition idempotencyKeyOf :: "OperationalEvent \<Rightarrow> string" where
  "idempotencyKeyOf event = key3 (oe_workspaceId event) (sourceText (oe_source event)) (oe_idempotencyKey event)"

text \<open>The first loop of \<open>appendBatch\<close>: nothing is stored before every event has passed.\<close>

fun checkBatch :: "EventCapability \<Rightarrow> WorkspaceContext \<Rightarrow> EventLog \<Rightarrow> string set \<Rightarrow> string set \<Rightarrow>
    OperationalEvent list \<Rightarrow> error + unit" where
  "checkBatch capability cx log batchEventKeys batchIdempotencyKeys [] = Inr ()"
| "checkBatch capability cx log batchEventKeys batchIdempotencyKeys (event # events) =
     (case checks
        [validateOperationalEvent capability cx event,
         ensure (\<not> mhas (log_events log) (eventKey event) \<and> eventKey event \<notin> batchEventKeys)
           (DuplicateOperationalEventError ''Duplicate workspace event ID''),
         ensure (idempotencyKeyOf event \<notin> log_idempotencyKeys log \<and> idempotencyKeyOf event \<notin> batchIdempotencyKeys)
           (DuplicateOperationalEventError ''Duplicate workspace event idempotency key'')] of
        Inl e \<Rightarrow> Inl e
      | Inr _ \<Rightarrow> checkBatch capability cx log (insert (eventKey event) batchEventKeys)
          (insert (idempotencyKeyOf event) batchIdempotencyKeys) events)"

definition storeEvent :: "EventLog \<Rightarrow> OperationalEvent \<Rightarrow> EventLog" where
  "storeEvent log event = log\<lparr>log_events := mset_at (log_events log) (eventKey event) event,
     log_idempotencyKeys := insert (idempotencyKeyOf event) (log_idempotencyKeys log)\<rparr>"

definition appendBatch :: "EventCapability \<Rightarrow> WorkspaceContext \<Rightarrow> OperationalEvent list \<Rightarrow> EventLog \<Rightarrow> error + EventLog" where
  "appendBatch capability cx events log =
     ebind (ensure (events \<noteq> [] \<and> length events \<le> 64)
       (OperationalEventPolicyError ''Event batch must be non-empty and bounded'')) (\<lambda>_.
     ebind (checkBatch capability cx log {} {} events) (\<lambda>_.
     Inr (foldl storeEvent log events)))"

definition appendEvents :: "EventCapability \<Rightarrow> WorkspaceContext \<Rightarrow> OperationalEvent \<Rightarrow> EventLog \<Rightarrow> error + EventLog" where
  "appendEvents capability cx event log = appendBatch capability cx [event] log"

text \<open>
  \<open>list\<close> orders by \<open>localeCompare\<close>, whose collation depends on the host: it is a parameter, with
  \<open>leq a b\<close> for \<open>a.localeCompare(b) <= 0\<close>.
\<close>

definition eventBefore :: "(string \<Rightarrow> string \<Rightarrow> bool) \<Rightarrow> OperationalEvent \<Rightarrow> OperationalEvent \<Rightarrow> bool" where
  "eventBefore leq left right =
     (if leq (oe_occurredAt left) (oe_occurredAt right) \<and> leq (oe_occurredAt right) (oe_occurredAt left)
      then leq (oe_id left) (oe_id right)
      else leq (oe_occurredAt left) (oe_occurredAt right))"

definition listEvents :: "(string \<Rightarrow> string \<Rightarrow> bool) \<Rightarrow> WorkspaceContext \<Rightarrow> EventLog \<Rightarrow> OperationalEvent list" where
  "listEvents leq cx log = sort_by (eventBefore leq)
     (filter (\<lambda>event. oe_workspaceId event = cx_workspaceId cx) (mvalues (log_events log)))"

section \<open>What the checks guarantee\<close>

lemma boundedText_Inr [outcome_simps]: "boundedText v f n = Inr u \<longleftrightarrow> nonBlankUpTo n v"
  by (simp add: boundedText_def)

text \<open>A safe reference: one to 256 characters of a small ASCII alphabet, no credential-like text.\<close>

definition isSafeReference :: "string \<Rightarrow> bool" where
  "isSafeReference s = (regex_test SAFE_REFERENCE s \<and> \<not> privateText s)"

lemma SAFE_REFERENCE_iff:
  "regex_test SAFE_REFERENCE s \<longleftrightarrow>
   (\<exists>c cs. s = c # cs \<and> isAlnum c \<and> (\<forall>d \<in> set cs. isAlnum d \<or> d \<in> set '':._/-'') \<and> length cs \<le> 255)"
  by (simp add: SAFE_REFERENCE_def regex_test_anchored cls_or_def one_of_def)

lemma isAlnum_not_space: "isAlnum c \<Longrightarrow> \<not> isWhiteSpace c"
  by (auto simp: class_defs isWhiteSpace_def less_eq_char_def)

lemma nonBlank_of_safe: "regex_test SAFE_REFERENCE s \<Longrightarrow> nonBlankUpTo 256 s"
proof -
  assume "regex_test SAFE_REFERENCE s"
  then obtain c cs where "s = c # cs" "isAlnum c" "length cs \<le> 255"
    unfolding SAFE_REFERENCE_iff by blast
  moreover from this have "trim s \<noteq> []"
    using isAlnum_not_space [of c] trim_Nil_iff [of s] by simp
  ultimately show ?thesis by (simp add: nonBlankUpTo_def)
qed

lemma safeReference_Inr [outcome_simps]: "safeReference v f = Inr u \<longleftrightarrow> isSafeReference v"
  using nonBlank_of_safe
  by (auto simp: safeReference_def isSafeReference_def privateText_def outcome_simps)

lemma subjectTypeCode_Inr [outcome_simps]:
  "subjectTypeCode v = Inr u \<longleftrightarrow> nonBlankUpTo 64 v \<and> regex_test SAFE_SUBJECT_TYPE v \<and> \<not> privateText v"
  by (auto simp: subjectTypeCode_def privateText_def outcome_simps)

text \<open>What a fact of each kind may hold.\<close>

fun factAllowed :: "FactKind \<Rightarrow> ObservableFact \<Rightarrow> bool" where
  "factAllowed kind (FText t) =
     ((kind = REFERENCE \<or> kind = CODE) \<and> length t \<le> 2048 \<and> isSafeReference t)"
| "factAllowed kind (FNum n) = (kind = INTEGER \<and> 0 \<le> n \<and> n \<le> MAX_SAFE_INTEGER)"
| "factAllowed kind (FBool b) = (kind = BOOLEAN)"
| "factAllowed kind (FList items) =
     (kind = REFERENCE_LIST \<and> length items \<le> 32 \<and> (\<forall>item \<in> set items. isSafeReference item))"

lemma validateFactValue_Inr [outcome_simps]: "validateFactValue kind value = Inr u \<longleftrightarrow> factAllowed kind value"
  by (cases "value")
     (auto simp: validateFactValue_def outcome_simps isSafeReference_def privateText_def isSafeInteger_def
       MAX_SAFE_INTEGER_def)

lemma validateFact_Inr [outcome_simps]:
  "validateFact type (name, value) = Inr u \<longleftrightarrow>
   nonBlankUpTo 128 name \<and> \<not> regex_test PRIVATE_FACT_KEYS name \<and>
   (\<exists>kind. map_of (FACT_POLICIES type) name = Some kind \<and> factAllowed kind value)"
  by (auto simp: validateFact_def outcome_simps split: option.splits)

definition factsAllowed :: "OperationalEventType \<Rightarrow> (string \<times> ObservableFact) list \<Rightarrow> bool" where
  "factsAllowed type facts = (length facts \<le> 32 \<and>
     (\<forall>(name, value) \<in> set facts. nonBlankUpTo 128 name \<and> \<not> regex_test PRIVATE_FACT_KEYS name \<and>
        (\<exists>kind. map_of (FACT_POLICIES type) name = Some kind \<and> factAllowed kind value)) \<and>
     utf8Length (json_text (factsJson facts)) \<le> 32768)"

lemma validateFacts_Inr [outcome_simps]: "validateFacts type facts = Inr u \<longleftrightarrow> factsAllowed type facts"
  by (auto simp: validateFacts_def factsAllowed_def outcome_simps)

definition eventClean :: "OperationalEvent \<Rightarrow> bool" where
  "eventClean event \<longleftrightarrow>
     isSafeReference (oe_id event) \<and> isSafeReference (oe_workspaceId event) \<and>
     isSafeReference (oe_actorId event) \<and>
     (nonBlankUpTo 64 (oe_subjectType event) \<and> regex_test SAFE_SUBJECT_TYPE (oe_subjectType event) \<and>
      \<not> privateText (oe_subjectType event)) \<and>
     isSafeReference (oe_subjectId event) \<and> isSafeReference (oe_idempotencyKey event) \<and>
     (case oe_correlationId event of None \<Rightarrow> True | Some c \<Rightarrow> isSafeReference c) \<and>
     isCanonicalIso (oe_occurredAt event) \<and> factsAllowed (oe_type event) (oe_facts event)"

lemma assertBinding_Inr [outcome_simps]:
  "assertBinding capability cx event = Inr u \<longleftrightarrow> oe_source event = ec_source capability \<and>
   mget (ec_principalActorKinds capability) (contextKey cx) = Some (oe_actorKind event)"
  by (auto simp: assertBinding_def assertSource_def actorKindFor_def outcome_simps split: option.splits)

text \<open>An event is admissible exactly when its origin is bound by the capability and it is clean.\<close>

lemma validateOperationalEvent_Inr [outcome_simps]:
  "validateOperationalEvent capability cx event = Inr u \<longleftrightarrow>
   oe_source event = ec_source capability \<and>
   mget (ec_principalActorKinds capability) (contextKey cx) = Some (oe_actorKind event) \<and>
   oe_workspaceId event = cx_workspaceId cx \<and> oe_actorId event = cx_principalId cx \<and> eventClean event"
  by (cases "oe_correlationId event")
     (auto simp: validateOperationalEvent_def eventClean_def outcome_simps)

section \<open>The log keeps its invariant\<close>

definition logEntries :: "EventLog \<Rightarrow> OperationalEvent list" where
  "logEntries log = mvalues (log_events log)"

definition logOk :: "EventLog \<Rightarrow> bool" where
  "logOk log \<longleftrightarrow> jsmap_ok (log_events log) \<and> keyed_by eventKey (log_events log) \<and>
     log_idempotencyKeys log = idempotencyKeyOf ` set (logEntries log) \<and>
     distinct (map eventKey (logEntries log)) \<and> distinct (map idempotencyKeyOf (logEntries log)) \<and>
     (\<forall>event \<in> set (logEntries log). eventClean event)"

lemma logOk_empty [simp]: "logOk emptyLog"
  by (simp add: logOk_def emptyLog_def logEntries_def mvalues_def)

definition batchFresh :: "EventLog \<Rightarrow> OperationalEvent list \<Rightarrow> bool" where
  "batchFresh log events \<longleftrightarrow>
     (\<forall>event \<in> set events. \<not> mhas (log_events log) (eventKey event) \<and>
        idempotencyKeyOf event \<notin> log_idempotencyKeys log) \<and>
     distinct (map eventKey events) \<and> distinct (map idempotencyKeyOf events)"

lemma checkBatch_Inr:
  "checkBatch capability cx log K I events = Inr () \<longleftrightarrow>
   (\<forall>event \<in> set events. validateOperationalEvent capability cx event = Inr () \<and>
      eventKey event \<notin> K \<and> idempotencyKeyOf event \<notin> I) \<and> batchFresh log events"
proof (induction events arbitrary: K I)
  case (Cons event events)
  have "checkBatch capability cx log K I (event # events) = Inr () \<longleftrightarrow>
    validateOperationalEvent capability cx event = Inr () \<and>
    (\<not> mhas (log_events log) (eventKey event) \<and> eventKey event \<notin> K) \<and>
    (idempotencyKeyOf event \<notin> log_idempotencyKeys log \<and> idempotencyKeyOf event \<notin> I) \<and>
    checkBatch capability cx log (insert (eventKey event) K) (insert (idempotencyKeyOf event) I) events = Inr ()"
    unfolding checkBatch.simps(2) case_unit_Inr checks_Cons_Inr ensure_Inr checks_Nil_Inr by simp
  also have "\<dots> \<longleftrightarrow> (\<forall>e \<in> set (event # events). validateOperationalEvent capability cx e = Inr () \<and>
      eventKey e \<notin> K \<and> idempotencyKeyOf e \<notin> I) \<and> batchFresh log (event # events)"
    unfolding Cons.IH by (auto simp: batchFresh_def) (metis image_eqI)+
  finally show ?case .
qed (simp add: batchFresh_def)

lemma storeEvents_entries:
  "batchFresh log events \<Longrightarrow> logEntries (foldl storeEvent log events) = logEntries log @ events \<and>
   log_idempotencyKeys (foldl storeEvent log events) =
     log_idempotencyKeys log \<union> idempotencyKeyOf ` set events"
proof (induction events arbitrary: log)
  case (Cons event events)
  have fresh: "\<not> mhas (log_events log) (eventKey event)" using Cons.prems by (simp add: batchFresh_def)
  have "\<forall>e \<in> set events. eventKey e \<noteq> eventKey event \<and> idempotencyKeyOf e \<noteq> idempotencyKeyOf event"
    using Cons.prems by (metis (no_types, lifting) batchFresh_def distinct.simps(2) image_eqI list.map(2)
        list.set_map)
  with Cons.prems have "batchFresh (storeEvent log event) events"
    by (auto simp: batchFresh_def storeEvent_def mhas_def)
  from Cons.IH [OF this] fresh show ?case
    by (auto simp: storeEvent_def logEntries_def)
qed simp

lemma storeEvents_map:
  "jsmap_ok (log_events log) \<Longrightarrow> keyed_by eventKey (log_events log) \<Longrightarrow>
   jsmap_ok (log_events (foldl storeEvent log events)) \<and>
   keyed_by eventKey (log_events (foldl storeEvent log events))"
  by (induction events arbitrary: log) (auto simp: storeEvent_def)

lemma appendBatch_Inr:
  "appendBatch capability cx events log = Inr log' \<longleftrightarrow>
   events \<noteq> [] \<and> length events \<le> 64 \<and> batchFresh log events \<and>
   (\<forall>event \<in> set events. validateOperationalEvent capability cx event = Inr ()) \<and>
   log' = foldl storeEvent log events"
  by (auto simp: appendBatch_def outcome_simps checkBatch_Inr)

lemma mhas_entries:
  assumes "logOk log"
  shows "mhas (log_events log) k \<longleftrightarrow> k \<in> eventKey ` set (logEntries log)"
proof -
  have "mhas (log_events log) k \<longleftrightarrow> (\<exists>v. mget (log_events log) k = Some v)" by (rule mhas_iff)
  also have "\<dots> \<longleftrightarrow> (\<exists>v k'. mget (log_events log) k' = Some v \<and> k = eventKey v)"
    using assms by (metis (no_types, lifting) keyed_byD logOk_def)
  also have "\<dots> \<longleftrightarrow> (\<exists>v \<in> set (logEntries log). k = eventKey v)"
    using assms unfolding logOk_def logEntries_def by (metis mvalues_iff)
  finally show ?thesis by blast
qed

lemma appendBatch_logOk:
  assumes ok: "logOk log" and a: "appendBatch capability cx events log = Inr log'"
  shows "logOk log' \<and> logEntries log' = logEntries log @ events"
proof -
  have fresh: "batchFresh log events" and log': "log' = foldl storeEvent log events"
    and valid: "\<forall>event \<in> set events. eventClean event"
    using a by (auto simp: appendBatch_Inr outcome_simps)
  have new: "eventKey ` set events \<inter> eventKey ` set (logEntries log) = {}"
    "idempotencyKeyOf ` set events \<inter> idempotencyKeyOf ` set (logEntries log) = {}"
    using fresh ok mhas_entries [OF ok] by (auto simp: batchFresh_def logOk_def)
  show ?thesis
    using ok valid fresh new storeEvents_entries [OF fresh] storeEvents_map [of log events]
    by (auto simp: logOk_def log' batchFresh_def)
qed

interpretation elog: append_only_log appendBatch logEntries logOk idempotencyKeyOf
proof unfold_locales
  fix l :: EventLog and c x vs l'
  assume l: "logOk l"
  then show "distinct (map idempotencyKeyOf (logEntries l))" by (simp add: logOk_def)
  assume "appendBatch c x vs l = Inr l'"
  with l appendBatch_logOk show "logEntries l' = logEntries l @ vs" "logOk l'" by blast+
qed

end
