(* ===== verification/Control_Plane_Policy.thy ===== *)
theory Control_Plane_Policy
  imports Events
begin

text \<open>
  The first half of \<open>packages/agent-control-plane/src/control-plane.ts\<close>: the state of
  \<open>InMemoryControlPlane\<close>, the payload and text checks, the task-kind policies, the transition tables
  and the private read-only methods that decide whether a task, a connection or a grant is
  acceptable.  The public methods are in \<open>Control_Plane\<close>.
\<close>

section \<open>Task kinds and transition tables\<close>

record TaskKindPolicy =
  tkp_inputKeys :: "string list"
  tkp_capabilityNames :: "string list"
  tkp_tools :: "(string \<times> string) list"
  tkp_authorityLevel :: int

fun TASK_POLICIES :: "TaskKind \<Rightarrow> TaskKindPolicy" where
  "TASK_POLICIES BusinessResearch =
     \<lparr>tkp_inputKeys = [''instructionReference''], tkp_capabilityNames = [''business.research''],
      tkp_tools = [(''research.readonly'', ''read'')], tkp_authorityLevel = 1\<rparr>"
| "TASK_POLICIES RepositoryReview =
     \<lparr>tkp_inputKeys = [''repository'', ''ref'', ''pullRequestUrl''], tkp_capabilityNames = [''repository.review''],
      tkp_tools = [(''git.readonly'', ''read'')], tkp_authorityLevel = 1\<rparr>"
| "TASK_POLICIES QualityVerify =
     \<lparr>tkp_inputKeys = [''target'', ''checks''], tkp_capabilityNames = [''quality.verify''],
      tkp_tools = [(''quality.runner'', ''verify'')], tkp_authorityLevel = 3\<rparr>"
| "TASK_POLICIES DocumentationPrepare =
     \<lparr>tkp_inputKeys = [''document'', ''evidenceIds''], tkp_capabilityNames = [''documentation.prepare''],
      tkp_tools = [(''documents.workspace'', ''write'')], tkp_authorityLevel = 2\<rparr>"
| "TASK_POLICIES RuntimeHealthCheck =
     \<lparr>tkp_inputKeys = [''connectionId''], tkp_capabilityNames = [''runtime.health''],
      tkp_tools = [(''runtime.health'', ''observe'')], tkp_authorityLevel = 0\<rparr>"

fun TASK_TRANSITIONS :: "TaskStatus \<Rightarrow> TaskStatus list" where
  "TASK_TRANSITIONS T_READY = [T_RUNNING, T_BLOCKED, T_CANCELLED]"
| "TASK_TRANSITIONS T_RUNNING = [T_BLOCKED, T_COMPLETED, T_FAILED, T_CANCELLED]"
| "TASK_TRANSITIONS T_BLOCKED = [T_READY, T_CANCELLED]"
| "TASK_TRANSITIONS T_COMPLETED = []"
| "TASK_TRANSITIONS T_FAILED = []"
| "TASK_TRANSITIONS T_CANCELLED = []"

fun RUN_TRANSITIONS :: "RunStatus \<Rightarrow> RunStatus list" where
  "RUN_TRANSITIONS R_QUEUED = [R_RUNNING, R_CANCELLED]"
| "RUN_TRANSITIONS R_RUNNING = [R_PAUSED, R_COMPLETED, R_FAILED, R_CANCELLED]"
| "RUN_TRANSITIONS R_PAUSED = [R_RUNNING, R_CANCELLED]"
| "RUN_TRANSITIONS R_COMPLETED = []"
| "RUN_TRANSITIONS R_FAILED = []"
| "RUN_TRANSITIONS R_CANCELLED = []"

text \<open>\<open>['QUEUED', 'RUNNING', 'PAUSED'].includes(run.status)\<close>\<close>

definition activeStatus :: "RunStatus \<Rightarrow> bool" where
  "activeStatus st = (st \<in> {R_QUEUED, R_RUNNING, R_PAUSED})"

section \<open>State\<close>

record AdapterRegistration =
  ar_registrationId :: EntityId
  ar_adapterKind :: string

text \<open>
  Constructor options.  \<open>cfg_dateParse\<close> is \<open>Date.parse\<close> of the engine on the strings the language
  leaves implementation-defined.
\<close>

record ControlPlaneConfig =
  cfg_heartbeatFreshnessMs :: int
  cfg_authorityPrincipals :: "EntityId set"
  cfg_plannerPrincipals :: "EntityId set"
  cfg_dateParse :: "string \<Rightarrow> int option"

text \<open>
  The private fields of \<open>InMemoryControlPlane\<close>.  Sink and capability are configured together, so
  they are one optional pair.
\<close>

record ControlPlane =
  cp_config :: ControlPlaneConfig
  cp_events :: "(EventLog \<times> EventCapability) option"
  cp_runtimes :: "Runtime jsmap"
  cp_runtimeAdapters :: "AdapterRegistration jsmap"
  cp_agents :: "Agent jsmap"
  cp_capabilities :: "Capability jsmap"
  cp_agentCapabilities :: "AgentCapability jsmap"
  cp_tools :: "Tool jsmap"
  cp_toolGrants :: "ToolGrant jsmap"
  cp_authorityGrants :: "AuthorityGrant jsmap"
  cp_connections :: "RuntimeConnection jsmap"
  cp_heartbeats :: "Heartbeat jsmap"
  cp_tasks :: "ControlPlaneTask jsmap"
  cp_runs :: "AgentRun jsmap"
  cp_eventsById :: "ControlPlaneEvent jsmap"
  cp_eventIdempotency :: "EntityId jsmap"
  cp_usage :: "UsageRecord jsmap"
  cp_dispatches :: "RuntimeDispatchPermit jsmap"
  cp_cancellations :: "RuntimeCancellationPermit jsmap"
  cp_dispatchedRuns :: "string set"
  cp_claimedDispatchRuns :: "string set"
  cp_inFlightDispatchAdapters :: "EntityId jsmap"
  cp_cancelledRuns :: "string set"
  cp_successfulCancellations :: "string set"

text \<open>
  What the injected clock and the id factories return during one call.  A call between two awaits
  runs to completion, and its readings of the clock are taken to be one value.
\<close>

record CallEnv =
  ce_now :: int
  ce_eventId :: string
  ce_uuid :: string

section \<open>Checks on payloads and texts\<close>

definition assertWorkspace :: "WorkspaceContext \<Rightarrow> EntityId \<Rightarrow> error + unit" where
  "assertWorkspace cx workspaceId = ensure (cx_workspaceId cx = workspaceId)
     (CrossWorkspaceAccessError ''Resource is outside the authenticated workspace'')"

fun assertSafeValue :: "json \<Rightarrow> nat \<Rightarrow> error + unit" where
  "assertSafeValue v depth = (if 8 < depth
     then Inl (ControlPlanePolicyError ''Payload exceeds the maximum nesting depth'')
     else (case v of
       JNull \<Rightarrow> Inr ()
     | JStr _ \<Rightarrow> Inr ()
     | JBool _ \<Rightarrow> Inr ()
     | JNum (SafeInt _) \<Rightarrow> Inr ()
     | JNum (OtherFinite _) \<Rightarrow> Inr ()
     | JNum NonFinite \<Rightarrow> Inl (ControlPlanePolicyError ''Payload must contain only JSON-safe values'')
     | JArr items \<Rightarrow> checks (map (\<lambda>item. assertSafeValue item (depth + 1)) items)
     | JObj members \<Rightarrow> checks (map (\<lambda>(_, item). assertSafeValue item (depth + 1)) members)
     | JUndefined \<Rightarrow> Inl (ControlPlanePolicyError ''Payload must contain only JSON-safe values'')
     | JOpaque \<Rightarrow> Inl (ControlPlanePolicyError ''Payload must contain only JSON-safe values'')))"

declare assertSafeValue.simps [simp del]

definition assertBoundedRecord :: "json_record \<Rightarrow> error + unit" where
  "assertBoundedRecord r = checks
     [assertSafeValue (JObj r) 0,
      ensure (utf8Length (json_text (JObj r)) \<le> 64 * 1024) (ControlPlanePolicyError ''Payload exceeds 64 KiB'')]"

definition assertString :: "json \<Rightarrow> string \<Rightarrow> error + unit" where
  "assertString v fld = ensure (case v of JStr s \<Rightarrow> nonBlankUpTo 2048 s | _ \<Rightarrow> False)
     (ControlPlanePolicyError (fld @ '' must be a non-empty bounded string''))"

definition assertStringArray :: "json \<Rightarrow> string \<Rightarrow> error + unit" where
  "assertStringArray v fld = (case v of
     JArr items \<Rightarrow> if length items \<le> 32 then checks (map (\<lambda>item. assertString item fld) items)
       else Inl (ControlPlanePolicyError (fld @ '' must be an array with at most 32 entries''))
   | _ \<Rightarrow> Inl (ControlPlanePolicyError (fld @ '' must be an array with at most 32 entries'')))"

definition jfield :: "json_record \<Rightarrow> string \<Rightarrow> json" where
  "jfield r name = (case map_of r name of None \<Rightarrow> JUndefined | Some v \<Rightarrow> v)"

definition OWNER_INSTRUCTION :: regex where
  "OWNER_INSTRUCTION = seqs [Bol, Lit ''slack:Ev'', Rep 1 (Some 100) isAlnum, Eol]"

definition assertOptionalString :: "json \<Rightarrow> string \<Rightarrow> error + unit" where
  "assertOptionalString v fld = (if v \<noteq> JUndefined then assertString v fld else Inr ())"

definition assertTaskInput :: "ControlPlaneTask \<Rightarrow> error + unit" where
  "assertTaskInput task = (let input = task_input task; policy = TASK_POLICIES (task_kind task) in checks
     ([assertBoundedRecord input] @
      map (\<lambda>(inputKey, _). ensure (inputKey \<in> set (tkp_inputKeys policy))
        (ControlPlanePolicyError (''Input field '' @ inputKey @ '' is not allowed for '' @ taskKindText (task_kind task))))
        input @
      (case task_kind task of
         RepositoryReview \<Rightarrow>
           [assertString (jfield input ''repository'') ''repository'',
            assertOptionalString (jfield input ''ref'') ''ref'',
            assertOptionalString (jfield input ''pullRequestUrl'') ''pullRequestUrl'']
       | QualityVerify \<Rightarrow>
           [assertString (jfield input ''target'') ''target'',
            assertStringArray (jfield input ''checks'') ''checks'']
       | DocumentationPrepare \<Rightarrow>
           [assertString (jfield input ''document'') ''document'',
            assertStringArray (jfield input ''evidenceIds'') ''evidenceIds'']
       | BusinessResearch \<Rightarrow>
           [assertString (jfield input ''instructionReference'') ''instructionReference'',
            ensure (case jfield input ''instructionReference'' of JStr s \<Rightarrow> regex_test OWNER_INSTRUCTION s | _ \<Rightarrow> False)
              (ControlPlanePolicyError ''Research requires a stored owner instruction reference'')]
       | RuntimeHealthCheck \<Rightarrow>
           [assertString (jfield input ''connectionId'') ''connectionId''])))"

definition assertNonNegativeInteger :: "int \<Rightarrow> string \<Rightarrow> error + unit" where
  "assertNonNegativeInteger n fld = ensure (isSafeInteger n \<and> 0 \<le> n)
     (ControlPlanePolicyError (fld @ '' must be a non-negative integer''))"

definition parsedTime :: "ControlPlane \<Rightarrow> string \<Rightarrow> string \<Rightarrow> error + int" where
  "parsedTime s v fld = (case dateParse (cfg_dateParse (cp_config s)) v of
     None \<Rightarrow> Inl (ControlPlanePolicyError (fld @ '' must be an ISO timestamp''))
   | Some t \<Rightarrow> Inr t)"

definition isExpired :: "ControlPlane \<Rightarrow> string option \<Rightarrow> int \<Rightarrow> error + bool" where
  "isExpired s expiresAt now = (case expiresAt of
     None \<Rightarrow> Inr False
   | Some v \<Rightarrow> ebind (parsedTime s v ''expiresAt'') (\<lambda>t. Inr (t \<le> now)))"

section \<open>Private read-only methods\<close>

definition require :: "'v jsmap \<Rightarrow> WorkspaceContext \<Rightarrow> EntityId \<Rightarrow> string \<Rightarrow> error + 'v" where
  "require records cx i label = (case mget records (key (cx_workspaceId cx) i) of
     None \<Rightarrow> Inl (ControlPlanePolicyError (label @ '' not found in the authenticated workspace''))
   | Some r \<Rightarrow> Inr r)"

definition isAuthorizer :: "ControlPlane \<Rightarrow> WorkspaceContext \<Rightarrow> bool" where
  "isAuthorizer s cx = (cx_principalId cx \<in> cfg_authorityPrincipals (cp_config s))"

definition assertAuthorizer :: "ControlPlane \<Rightarrow> WorkspaceContext \<Rightarrow> error + unit" where
  "assertAuthorizer s cx = ensure (isAuthorizer s cx)
     (ControlPlanePolicyError ''Principal is not authorized to issue grants'')"

definition assertCostLimit :: "CostLimit \<Rightarrow> error + unit" where
  "assertCostLimit limit = checks
     [assertString (JStr (cl_currency limit)) ''currency'',
      assertNonNegativeInteger (cl_maximumMinorUnits limit) ''maximumMinorUnits'',
      assertNonNegativeInteger (cl_maximumComputeUnits limit) ''maximumComputeUnits'']"

definition proofsPresent :: "RuntimeConnection \<Rightarrow> bool list" where
  "proofsPresent c = [conn_registrationProof c \<noteq> None, conn_capabilityExchangeProof c \<noteq> None,
     conn_heartbeatProof c \<noteq> None, conn_taskRoundTripProof c \<noteq> None]"

text \<open>The correlation of the stored round trip; \<open>False\<close> where a reference is missing.\<close>

definition roundTripCorrelated :: "ControlPlane \<Rightarrow> RuntimeConnection \<Rightarrow> TaskRoundTripProof \<Rightarrow> bool" where
  "roundTripCorrelated s c roundTrip = (let k = key (conn_workspaceId c) in
     case (mget (cp_tasks s) (k (trp_taskId roundTrip)), mget (cp_runs s) (k (trp_runId roundTrip)),
           mget (cp_eventsById s) (k (trp_resultEventId roundTrip))) of
       (Some task, Some run, Some event) \<Rightarrow>
         (case mget (cp_agents s) (k (run_agentId run)) of
            None \<Rightarrow> False
          | Some agent \<Rightarrow>
              run_taskId run = task_id task \<and> task_assignedAgentId task = ag_id agent \<and>
              ag_runtimeId agent = conn_runtimeId c \<and> run_runtimeConnectionId run = conn_id c \<and>
              run_status run = R_COMPLETED \<and> ev_runId event = Some (run_id run) \<and>
              ev_type event = ''run.completed'' \<and> Some (ev_actorId event) = conn_authenticatedPrincipalId c)
     | _ \<Rightarrow> False)"

definition deriveConnectionStatus :: "ControlPlane \<Rightarrow> int \<Rightarrow> WorkspaceContext \<Rightarrow> EntityId \<Rightarrow> error + RuntimeConnectionStatus" where
  "deriveConnectionStatus s now cx connectionId =
     ebind (require (cp_connections s) cx connectionId ''Runtime connection'') (\<lambda>c.
     if \<not> truthy (conn_credentialReference c) \<or> \<not> truthy (conn_authenticatedPrincipalId c) then Inr NOT_CONFIGURED
     else if \<not> (\<exists>p \<in> set (proofsPresent c). p) then Inr DISCONNECTED
     else if \<not> (\<forall>p \<in> set (proofsPresent c). p) then Inr PARTIAL
     else (case mget (cp_heartbeats s) (key (conn_workspaceId c) (hp_heartbeatId (the (conn_heartbeatProof c)))) of
       None \<Rightarrow> Inr PARTIAL
     | Some heartbeat \<Rightarrow>
         if hb_runtimeConnectionId heartbeat \<noteq> conn_id c then Inr PARTIAL
         else if hb_health heartbeat \<noteq> HEALTHY then Inr DEGRADED
         else ebind (parsedTime s (hb_observedAt heartbeat) ''heartbeat.observedAt'') (\<lambda>observed.
           let age = now - observed in
           if age < - 30000 \<or> age > cfg_heartbeatFreshnessMs (cp_config s) then Inr DEGRADED
           else if \<not> roundTripCorrelated s c (the (conn_taskRoundTripProof c)) then Inr PARTIAL
           else Inr CONNECTED)))"

definition findUnique :: "('v \<Rightarrow> EntityId) \<Rightarrow> ('v \<Rightarrow> string) \<Rightarrow> 'v list \<Rightarrow> EntityId \<Rightarrow> string \<Rightarrow> string \<Rightarrow> error + 'v" where
  "findUnique workspaceOf nameOf records workspaceId name label =
     (case filter (\<lambda>r. workspaceOf r = workspaceId \<and> nameOf r = name) records of
        [r] \<Rightarrow> Inr r
      | _ \<Rightarrow> Inl (ControlPlanePolicyError (label @ '' '' @ name @ '' must resolve uniquely in the workspace'')))"

record TaskRequirements =
  req_capabilityIds :: "EntityId list"
  req_tools :: "(EntityId \<times> string) list"
  req_authorityLevel :: int

definition deriveTaskRequirements :: "ControlPlane \<Rightarrow> ControlPlaneTask \<Rightarrow> error + TaskRequirements" where
  "deriveTaskRequirements s task = (let policy = TASK_POLICIES (task_kind task) in
     ebind (emap (\<lambda>name. ebind (findUnique cap_workspaceId cap_name (mvalues (cp_capabilities s))
         (task_workspaceId task) name ''Capability'') (\<lambda>c. Inr (cap_id c))) (tkp_capabilityNames policy)) (\<lambda>capabilityIds.
     ebind (emap (\<lambda>(name, scope). ebind (findUnique tool_workspaceId tool_name (mvalues (cp_tools s))
         (task_workspaceId task) name ''Tool'') (\<lambda>t. Inr (tool_id t, scope))) (tkp_tools policy)) (\<lambda>tools.
     Inr \<lparr>req_capabilityIds = capabilityIds, req_tools = tools, req_authorityLevel = tkp_authorityLevel policy\<rparr>)))"

definition grantApplies :: "ControlPlane \<Rightarrow> int \<Rightarrow> ControlPlaneTask \<Rightarrow> AuthorityGrant \<Rightarrow> error + bool" where
  "grantApplies s now task grant =
     (if auth_workspaceId grant = task_workspaceId task \<and> auth_agentId grant = task_assignedAgentId task \<and>
         auth_level grant \<ge> task_requiredAuthorityLevel task \<and> task_kind task \<in> set (auth_actionClasses grant)
      then ebind (isExpired s (auth_expiresAt grant) now) (\<lambda>expired. Inr (\<not> expired \<and>
        cl_currency (auth_costLimit grant) = cl_currency (task_costLimit task) \<and>
        cl_maximumMinorUnits (auth_costLimit grant) \<ge> cl_maximumMinorUnits (task_costLimit task) \<and>
        cl_maximumComputeUnits (auth_costLimit grant) \<ge> cl_maximumComputeUnits (task_costLimit task)))
      else Inr False)"

definition requireApplicableAuthorityGrant :: "ControlPlane \<Rightarrow> int \<Rightarrow> ControlPlaneTask \<Rightarrow> error + AuthorityGrant" where
  "requireApplicableAuthorityGrant s now task =
     ebind (efilter (grantApplies s now task) (mvalues (cp_authorityGrants s))) (\<lambda>candidates.
     case sort_by (\<lambda>left right. auth_level left \<le> auth_level right) candidates of
       [] \<Rightarrow> Inl (ControlPlanePolicyError ''No stored authority grant permits this task'')
     | grant # _ \<Rightarrow> Inr grant)"

definition capabilityGranted :: "ControlPlane \<Rightarrow> ControlPlaneTask \<Rightarrow> Agent \<Rightarrow> EntityId \<Rightarrow> bool" where
  "capabilityGranted s task agent capabilityId = (\<exists>grant \<in> set (mvalues (cp_agentCapabilities s)).
     acap_workspaceId grant = task_workspaceId task \<and> acap_agentId grant = ag_id agent \<and>
     acap_capabilityId grant = capabilityId)"

definition toolGranted :: "ControlPlane \<Rightarrow> int \<Rightarrow> ControlPlaneTask \<Rightarrow> Agent \<Rightarrow> EntityId \<times> string \<Rightarrow> error + bool" where
  "toolGranted s now task agent required = (case required of (toolId, scope) \<Rightarrow>
     esome (\<lambda>grant.
       if tg_workspaceId grant = task_workspaceId task \<and> tg_agentId grant = ag_id agent \<and>
          tg_toolId grant = toolId \<and> scope \<in> set (tg_scopes grant)
       then ebind (isExpired s (tg_expiresAt grant) now) (\<lambda>expired. Inr (\<not> expired))
       else Inr False) (mvalues (cp_toolGrants s)))"

definition validateCurrentTaskPolicy ::
    "ControlPlane \<Rightarrow> int \<Rightarrow> WorkspaceContext \<Rightarrow> ControlPlaneTask \<Rightarrow> error + (Agent \<times> AuthorityGrant)" where
  "validateCurrentTaskPolicy s now cx task =
     ebind (assertTaskInput task) (\<lambda>_.
     ebind (assertCostLimit (task_costLimit task)) (\<lambda>_.
     ebind (require (cp_agents s) cx (task_assignedAgentId task) ''Agent'') (\<lambda>agent.
     ebind (deriveTaskRequirements s task) (\<lambda>requirements.
     ebind (ensure (sameIds (task_requiredCapabilityIds task) (req_capabilityIds requirements) \<and>
         sameIds (task_requiredToolIds task) (map fst (req_tools requirements)) \<and>
         task_requiredAuthorityLevel task = req_authorityLevel requirements)
       (ControlPlanePolicyError
         ''Task capability, tool, and authority requirements must exactly match task-kind policy'')) (\<lambda>_.
     ebind (ensure (task_requiredAuthorityLevel task \<le> ag_authorityLevel agent)
       (ControlPlanePolicyError ''Task exceeds the agent authority ceiling'')) (\<lambda>_.
     ebind (checks (map (\<lambda>capabilityId.
         ebind (require (cp_capabilities s) cx capabilityId ''Capability'') (\<lambda>_.
         ensure (capabilityGranted s task agent capabilityId)
           (ControlPlanePolicyError (''Agent lacks capability '' @ capabilityId)))) (req_capabilityIds requirements))) (\<lambda>_.
     ebind (checks (map (\<lambda>required.
         ebind (toolGranted s now task agent required) (\<lambda>granted. ensure granted
           (ControlPlanePolicyError (''Agent lacks '' @ snd required @ '' scope for '' @ fst required))))
         (req_tools requirements))) (\<lambda>_.
     ebind (requireApplicableAuthorityGrant s now task) (\<lambda>authority.
     Inr (agent, authority))))))))))"

definition assertConnectionCanRunTask ::
    "ControlPlane \<Rightarrow> int \<Rightarrow> WorkspaceContext \<Rightarrow> RuntimeConnection \<Rightarrow> ControlPlaneTask \<Rightarrow> error + unit" where
  "assertConnectionCanRunTask s now cx c task =
     ebind (deriveConnectionStatus s now cx (conn_id c)) (\<lambda>status.
     let bootstrapRoundTrip = (task_kind task = RuntimeHealthCheck \<and> status = PARTIAL \<and>
           conn_registrationProof c \<noteq> None \<and> conn_capabilityExchangeProof c \<noteq> None \<and> conn_heartbeatProof c \<noteq> None);
         exchanged = (case conn_capabilityExchangeProof c of None \<Rightarrow> [] | Some p \<Rightarrow> cep_capabilityIds p) in
     checks (ensure (status = CONNECTED \<or> bootstrapRoundTrip)
         (ControlPlanePolicyError ''Run requires a connected runtime or a bounded health-check bootstrap'')
       # map (\<lambda>capabilityId. ensure (capabilityId \<in> set exchanged)
           (ControlPlanePolicyError (''Runtime did not exchange required capability '' @ capabilityId)))
         (task_requiredCapabilityIds task)))"

definition taskUsage :: "ControlPlane \<Rightarrow> EntityId \<Rightarrow> EntityId \<Rightarrow> UsageRecord list" where
  "taskUsage s workspaceId taskId =
     filter (\<lambda>r. us_workspaceId r = workspaceId \<and> us_taskId r = taskId) (mvalues (cp_usage s))"

definition orZero :: "int option \<Rightarrow> int" where
  "orZero v = (case v of None \<Rightarrow> 0 | Some n \<Rightarrow> n)"

definition totalCost :: "UsageRecord list \<Rightarrow> int" where
  "totalCost records = foldl (\<lambda>sum r. sum + orZero (us_costMinorUnits r)) 0 records"

definition totalCompute :: "UsageRecord list \<Rightarrow> int" where
  "totalCompute records = foldl (\<lambda>sum r. sum + orZero (us_computeUnits r)) 0 records"

definition assertRemainingTaskBudget :: "ControlPlane \<Rightarrow> ControlPlaneTask \<Rightarrow> error + unit" where
  "assertRemainingTaskBudget s task = (let used = taskUsage s (task_workspaceId task) (task_id task) in
     ensure (\<not> (totalCost used \<ge> cl_maximumMinorUnits (task_costLimit task) \<or>
                totalCompute used \<ge> cl_maximumComputeUnits (task_costLimit task)))
       (CostLimitExceededError ''Task budget is exhausted''))"

definition assertTaskOperator :: "ControlPlane \<Rightarrow> int \<Rightarrow> WorkspaceContext \<Rightarrow> ControlPlaneTask \<Rightarrow> error + unit" where
  "assertTaskOperator s now cx task =
     (if isAuthorizer s cx then Inr () else
      ebind (require (cp_agents s) cx (task_assignedAgentId task) ''Task agent'') (\<lambda>agent.
      ebind (esome (\<lambda>c.
          if conn_workspaceId c = task_workspaceId task \<and> conn_runtimeId c = ag_runtimeId agent \<and>
             conn_authenticatedPrincipalId c = Some (cx_principalId cx)
          then ebind (deriveConnectionStatus s now cx (conn_id c)) (\<lambda>st. Inr (st = CONNECTED))
          else Inr False) (mvalues (cp_connections s))) (\<lambda>boundRuntime.
      ensure boundRuntime (ControlPlanePolicyError ''Task transition requires an authorizer or bound runtime''))))"

text \<open>An authorizer or the principal the connection is bound to.\<close>

definition operatesConnection :: "ControlPlane \<Rightarrow> WorkspaceContext \<Rightarrow> RuntimeConnection \<Rightarrow> bool" where
  "operatesConnection s cx c = (isAuthorizer s cx \<or> Some (cx_principalId cx) = conn_authenticatedPrincipalId c)"

definition assertConnectionOperator ::
    "ControlPlane \<Rightarrow> WorkspaceContext \<Rightarrow> RuntimeConnection \<Rightarrow> string \<Rightarrow> error + unit" where
  "assertConnectionOperator s cx c action = ensure (operatesConnection s cx c)
     (ControlPlanePolicyError (action @ '' requires an authorizer or the bound runtime principal''))"

definition validateRegistrationProof :: "ControlPlane \<Rightarrow> RuntimeConnection \<Rightarrow> error + unit" where
  "validateRegistrationProof s c = (case conn_registrationProof c of
     None \<Rightarrow> Inr ()
   | Some p \<Rightarrow>
       ebind (ensure (rp_connectionId p = conn_id c \<and> Some (rp_principalId p) = conn_authenticatedPrincipalId c \<and>
           rp_runtimeId p = conn_runtimeId c)
         (ControlPlanePolicyError ''Registration proof is not correlated to the runtime connection'')) (\<lambda>_.
       ebind (parsedTime s (rp_observedAt p) ''registrationProof.observedAt'') (\<lambda>_. Inr ())))"

definition validateCapabilityProof :: "ControlPlane \<Rightarrow> WorkspaceContext \<Rightarrow> RuntimeConnection \<Rightarrow> error + unit" where
  "validateCapabilityProof s cx c = (case conn_capabilityExchangeProof c of
     None \<Rightarrow> Inr ()
   | Some p \<Rightarrow>
       ebind (ensure (cep_connectionId p = conn_id c \<and> Some (cep_principalId p) = conn_authenticatedPrincipalId c \<and>
           cep_runtimeId p = conn_runtimeId c)
         (ControlPlanePolicyError ''Capability proof is not correlated to the runtime connection'')) (\<lambda>_.
       ebind (parsedTime s (cep_observedAt p) ''capabilityExchangeProof.observedAt'') (\<lambda>_.
       checks (map (\<lambda>capabilityId. ebind (require (cp_capabilities s) cx capabilityId ''Runtime capability'') (\<lambda>_. Inr ()))
         (cep_capabilityIds p)))))"

definition validateHeartbeatProof :: "ControlPlane \<Rightarrow> WorkspaceContext \<Rightarrow> RuntimeConnection \<Rightarrow> error + unit" where
  "validateHeartbeatProof s cx c = (case conn_heartbeatProof c of
     None \<Rightarrow> Inr ()
   | Some p \<Rightarrow>
       ebind (ensure (hp_connectionId p = conn_id c \<and> Some (hp_principalId p) = conn_authenticatedPrincipalId c)
         (ControlPlanePolicyError ''Heartbeat proof is not correlated to the runtime connection'')) (\<lambda>_.
       ebind (require (cp_heartbeats s) cx (hp_heartbeatId p) ''Heartbeat proof'') (\<lambda>heartbeat.
       ensure (hb_runtimeConnectionId heartbeat = conn_id c \<and>
           Some (hb_principalId heartbeat) = conn_authenticatedPrincipalId c \<and> hb_observedAt heartbeat = hp_observedAt p)
         (ControlPlanePolicyError ''Heartbeat proof does not match the stored heartbeat''))))"

definition validateTaskProof :: "ControlPlane \<Rightarrow> WorkspaceContext \<Rightarrow> RuntimeConnection \<Rightarrow> error + unit" where
  "validateTaskProof s cx c = (case conn_taskRoundTripProof c of
     None \<Rightarrow> Inr ()
   | Some p \<Rightarrow>
       ebind (ensure (trp_connectionId p = conn_id c \<and> Some (trp_principalId p) = conn_authenticatedPrincipalId c)
         (ControlPlanePolicyError ''Task proof is not correlated to the runtime connection'')) (\<lambda>_.
       ebind (parsedTime s (trp_completedAt p) ''taskRoundTripProof.completedAt'') (\<lambda>_.
       ebind (require (cp_tasks s) cx (trp_taskId p) ''Task proof task'') (\<lambda>task.
       ebind (require (cp_runs s) cx (trp_runId p) ''Task proof run'') (\<lambda>run.
       ebind (require (cp_agents s) cx (run_agentId run) ''Task proof agent'') (\<lambda>agent.
       ebind (require (cp_eventsById s) cx (trp_resultEventId p) ''Task proof result event'') (\<lambda>event.
       ensure (run_taskId run = task_id task \<and> run_runtimeConnectionId run = conn_id c \<and>
           task_assignedAgentId task = ag_id agent \<and> ag_runtimeId agent = conn_runtimeId c \<and>
           ev_runId event = Some (run_id run) \<and> Some (ev_actorId event) = conn_authenticatedPrincipalId c \<and>
           ev_type event = ''run.completed'')
         (ControlPlanePolicyError ''Task proof references are not a correlated result''))))))))"

definition validateConnectionProofs :: "ControlPlane \<Rightarrow> WorkspaceContext \<Rightarrow> RuntimeConnection \<Rightarrow> error + unit" where
  "validateConnectionProofs s cx c = checks
     [ensure (\<not> ((truthy (conn_credentialReference c) \<or> conn_registrationProof c \<noteq> None) \<and>
                 \<not> truthy (conn_authenticatedPrincipalId c)))
        (ControlPlanePolicyError ''Runtime evidence requires an authenticated principal''),
      validateRegistrationProof s c,
      validateCapabilityProof s cx c,
      validateHeartbeatProof s cx c,
      validateTaskProof s cx c]"

end
