(* ===== verification/Control_Plane.thy ===== *)
theory Control_Plane
  imports Control_Plane_Policy
begin

text \<open>
  The public methods of \<open>InMemoryControlPlane\<close> (\<open>control-plane.ts\<close>), each a \<open>method\<close> on the state of
  the plane: checks in the order of the source, then the operational event, then the update, with
  the rollbacks of \<open>catch\<close> and \<open>finally\<close>.  The two asynchronous methods are split at their \<open>await\<close>:
  the part before the adapter call ends in a pending call, the part after it takes the adapter's
  answer.
\<close>

section \<open>Construction\<close>

record ControlPlaneOptions =
  opt_eventSink :: "EventLog option"
  opt_eventCapability :: "EventCapability option"
  opt_heartbeatFreshnessMs :: "int option"
  opt_authorityPrincipals :: "EntityId list option"
  opt_plannerPrincipals :: "EntityId list option"

definition listOrEmpty :: "'a list option \<Rightarrow> 'a list" where
  "listOrEmpty v = (case v of None \<Rightarrow> [] | Some xs \<Rightarrow> xs)"

definition newControlPlane :: "(string \<Rightarrow> int option) \<Rightarrow> ControlPlaneOptions \<Rightarrow> error + ControlPlane" where
  "newControlPlane engineDateParse options =
     ebind (ensure ((opt_eventSink options \<noteq> None) = (opt_eventCapability options \<noteq> None))
       (ControlPlanePolicyError ''Event sink and trusted capability must be configured together'')) (\<lambda>_.
     Inr \<lparr>cp_config =
         \<lparr>cfg_heartbeatFreshnessMs = (case opt_heartbeatFreshnessMs options of None \<Rightarrow> 5 * 60 * 1000 | Some n \<Rightarrow> n),
          cfg_authorityPrincipals = set (listOrEmpty (opt_authorityPrincipals options)),
          cfg_plannerPrincipals = set (listOrEmpty (opt_plannerPrincipals options)),
          cfg_dateParse = engineDateParse\<rparr>,
       cp_events = (case (opt_eventSink options, opt_eventCapability options) of
           (Some sink, Some capability) \<Rightarrow> Some (sink, capability) | _ \<Rightarrow> None),
       cp_runtimes = [], cp_runtimeAdapters = [], cp_agents = [], cp_capabilities = [],
       cp_agentCapabilities = [], cp_tools = [], cp_toolGrants = [], cp_authorityGrants = [],
       cp_connections = [], cp_heartbeats = [], cp_tasks = [], cp_runs = [], cp_eventsById = [],
       cp_eventIdempotency = [], cp_usage = [], cp_dispatches = [], cp_cancellations = [],
       cp_dispatchedRuns = {}, cp_claimedDispatchRuns = {}, cp_inFlightDispatchAdapters = [],
       cp_cancelledRuns = {}, cp_successfulCancellations = {}\<rparr>)"

section \<open>Operational events of the plane\<close>

definition isoNow :: "CallEnv \<Rightarrow> error + string" where
  "isoNow env = (case toISOString (ce_now env) of
     None \<Rightarrow> Inl (RangeError ''Invalid time value'') | Some t \<Rightarrow> Inr t)"

definition ifTruthy :: "string option \<Rightarrow> string option" where
  "ifTruthy v = (if truthy v then v else None)"

definition emitOperationalEvent :: "CallEnv \<Rightarrow> WorkspaceContext \<Rightarrow> OperationalEventType \<Rightarrow> string \<Rightarrow>
    EntityId \<Rightarrow> (string \<times> ObservableFact) list \<Rightarrow> EntityId option \<Rightarrow> (ControlPlane, error, unit) method" where
  "emitOperationalEvent env cx type subjectType subjectId facts correlationId = updates (\<lambda>s.
     case cp_events s of
       None \<Rightarrow> Inr s
     | Some (sink, capability) \<Rightarrow>
         ebind (actorKindFor capability cx) (\<lambda>actorKind.
         ebind (isoNow env) (\<lambda>now.
         ebind (appendEvents capability cx
           \<lparr>oe_id = ce_eventId env, oe_workspaceId = cx_workspaceId cx, oe_type = type,
            oe_source = CONTROL_PLANE, oe_actorKind = actorKind, oe_actorId = cx_principalId cx,
            oe_subjectType = subjectType, oe_subjectId = subjectId, oe_occurredAt = now,
            oe_idempotencyKey = ce_eventId env, oe_correlationId = ifTruthy correlationId,
            oe_facts = facts\<rparr> sink) (\<lambda>sink'.
         Inr (s\<lparr>cp_events := Some (sink', capability)\<rparr>)))))"

section \<open>Registry\<close>

definition putRuntime :: "WorkspaceContext \<Rightarrow> Runtime \<Rightarrow> (ControlPlane, error, unit) method" where
  "putRuntime cx runtime =
     andThen (reads (\<lambda>s. checks [assertWorkspace cx (rt_workspaceId runtime), assertAuthorizer s cx])) (\<lambda>_.
     modify (\<lambda>s. s\<lparr>cp_runtimes := mset_at (cp_runtimes s) (key (rt_workspaceId runtime) (rt_id runtime)) runtime\<rparr>))"

definition hasActiveBoundRun :: "ControlPlane \<Rightarrow> WorkspaceContext \<Rightarrow> EntityId \<Rightarrow> EntityId \<Rightarrow> bool" where
  "hasActiveBoundRun s cx registrationId runtimeId = (\<exists>run \<in> set (mvalues (cp_runs s)).
     run_workspaceId run = cx_workspaceId cx \<and> run_adapterRegistrationId run = Some registrationId \<and>
     activeStatus (run_status run) \<and>
     (case mget (cp_connections s) (key (run_workspaceId run) (run_runtimeConnectionId run)) of
        None \<Rightarrow> False | Some c \<Rightarrow> conn_runtimeId c = runtimeId))"

definition registerRuntimeAdapter :: "CallEnv \<Rightarrow> WorkspaceContext \<Rightarrow> EntityId \<Rightarrow> string \<Rightarrow> (ControlPlane, error, unit) method" where
  "registerRuntimeAdapter env cx runtimeId adapterKind =
     andThen (reads (\<lambda>s.
       ebind (assertAuthorizer s cx) (\<lambda>_.
       ebind (require (cp_runtimes s) cx runtimeId ''Runtime'') (\<lambda>runtime.
       ebind (ensure (adapterKind = rt_adapterKind runtime)
         (ControlPlanePolicyError ''Adapter kind does not match the registered runtime'')) (\<lambda>_.
       ebind (case mget (cp_runtimeAdapters s) (key (cx_workspaceId cx) (rt_id runtime)) of
           None \<Rightarrow> Inr ()
         | Some previous \<Rightarrow>
             ensure (\<not> (ar_registrationId previous \<in> set (mvalues (cp_inFlightDispatchAdapters s)) \<or>
                        hasActiveBoundRun s cx (ar_registrationId previous) (rt_id runtime)))
               (ControlPlanePolicyError
                 ''Cannot replace an adapter with in-flight dispatches or active bound runs'')) (\<lambda>_.
       Inr (key (cx_workspaceId cx) (rt_id runtime)))))))) (\<lambda>adapterKey.
     modify (\<lambda>s. s\<lparr>cp_runtimeAdapters := mset_at (cp_runtimeAdapters s) adapterKey
       \<lparr>ar_registrationId = ce_uuid env, ar_adapterKind = adapterKind\<rparr>\<rparr>))"

definition putCapability :: "WorkspaceContext \<Rightarrow> Capability \<Rightarrow> (ControlPlane, error, unit) method" where
  "putCapability cx capability =
     andThen (reads (\<lambda>s. checks [assertWorkspace cx (cap_workspaceId capability), assertAuthorizer s cx])) (\<lambda>_.
     modify (\<lambda>s. s\<lparr>cp_capabilities :=
       mset_at (cp_capabilities s) (key (cap_workspaceId capability) (cap_id capability)) capability\<rparr>))"

definition putTool :: "WorkspaceContext \<Rightarrow> Tool \<Rightarrow> (ControlPlane, error, unit) method" where
  "putTool cx tool =
     andThen (reads (\<lambda>s. checks [assertWorkspace cx (tool_workspaceId tool), assertAuthorizer s cx])) (\<lambda>_.
     modify (\<lambda>s. s\<lparr>cp_tools := mset_at (cp_tools s) (key (tool_workspaceId tool) (tool_id tool)) tool\<rparr>))"

definition positiveSafe :: "int \<Rightarrow> bool" where
  "positiveSafe n = (isSafeInteger n \<and> \<not> n < 1)"

definition putAgent :: "WorkspaceContext \<Rightarrow> Agent \<Rightarrow> (ControlPlane, error, unit) method" where
  "putAgent cx agent =
     andThen (reads (\<lambda>s.
       ebind (assertWorkspace cx (ag_workspaceId agent)) (\<lambda>_.
       ebind (assertAuthorizer s cx) (\<lambda>_.
       ebind (require (cp_runtimes s) cx (ag_runtimeId agent) ''Runtime'') (\<lambda>_.
       ensure (positiveSafe (ag_maxConcurrentRuns agent))
         (ControlPlanePolicyError ''Agent maxConcurrentRuns must be a positive integer'')))))) (\<lambda>_.
     modify (\<lambda>s. s\<lparr>cp_agents := mset_at (cp_agents s) (key (ag_workspaceId agent) (ag_id agent)) agent\<rparr>))"

definition getAgent :: "ControlPlane \<Rightarrow> WorkspaceContext \<Rightarrow> EntityId \<Rightarrow> Agent option" where
  "getAgent s cx agentId = mget (cp_agents s) (key (cx_workspaceId cx) agentId)"

definition grantAgentCapability :: "WorkspaceContext \<Rightarrow> AgentCapability \<Rightarrow> (ControlPlane, error, unit) method" where
  "grantAgentCapability cx grant =
     andThen (reads (\<lambda>s.
       ebind (assertWorkspace cx (acap_workspaceId grant)) (\<lambda>_.
       ebind (assertAuthorizer s cx) (\<lambda>_.
       ebind (require (cp_agents s) cx (acap_agentId grant) ''Agent'') (\<lambda>_.
       ebind (require (cp_capabilities s) cx (acap_capabilityId grant) ''Capability'') (\<lambda>_. Inr ())))))) (\<lambda>_.
     modify (\<lambda>s. s\<lparr>cp_agentCapabilities :=
       mset_at (cp_agentCapabilities s) (key (acap_workspaceId grant) (acap_id grant)) grant\<rparr>))"

definition grantTool :: "WorkspaceContext \<Rightarrow> ToolGrant \<Rightarrow> (ControlPlane, error, unit) method" where
  "grantTool cx grant =
     andThen (reads (\<lambda>s.
       ebind (assertWorkspace cx (tg_workspaceId grant)) (\<lambda>_.
       ebind (assertAuthorizer s cx) (\<lambda>_.
       ebind (require (cp_agents s) cx (tg_agentId grant) ''Agent'') (\<lambda>_.
       ebind (require (cp_tools s) cx (tg_toolId grant) ''Tool'') (\<lambda>_.
       ensure (length (tg_scopes grant) \<noteq> 0) (ControlPlanePolicyError ''Tool grant requires a scope''))))))) (\<lambda>_.
     modify (\<lambda>s. s\<lparr>cp_toolGrants :=
       mset_at (cp_toolGrants s) (key (tg_workspaceId grant) (tg_id grant)) grant\<rparr>))"

definition grantAuthority :: "WorkspaceContext \<Rightarrow> AuthorityGrant \<Rightarrow> (ControlPlane, error, unit) method" where
  "grantAuthority cx grant =
     andThen (reads (\<lambda>s.
       ebind (assertWorkspace cx (auth_workspaceId grant)) (\<lambda>_.
       ebind (assertAuthorizer s cx) (\<lambda>_.
       ebind (require (cp_agents s) cx (auth_agentId grant) ''Agent'') (\<lambda>agent.
       ebind (ensure (\<not> auth_level grant > ag_authorityLevel agent)
         (ControlPlanePolicyError ''Authority grant exceeds the agent authority ceiling'')) (\<lambda>_.
       ebind (assertCostLimit (auth_costLimit grant)) (\<lambda>_.
       ensure (positiveSafe (auth_maxConcurrentRuns grant))
         (ControlPlanePolicyError ''Authority maxConcurrentRuns must be a positive integer'')))))))) (\<lambda>_.
     modify (\<lambda>s. s\<lparr>cp_authorityGrants :=
       mset_at (cp_authorityGrants s) (key (auth_workspaceId grant) (auth_id grant)) grant\<rparr>))"

section \<open>Connections and heartbeats\<close>

definition CREDENTIAL_REFERENCE :: regex where
  "CREDENTIAL_REFERENCE = seqs [Bol, alts [Lit ''secret'', Lit ''vault'', Lit ''envref''], Lit ''://'']"

definition sameBinding :: "RuntimeConnection \<Rightarrow> RuntimeConnection \<Rightarrow> bool" where
  "sameBinding c previous = (conn_runtimeId c = conn_runtimeId previous \<and>
     conn_authenticatedPrincipalId c = conn_authenticatedPrincipalId previous \<and>
     conn_credentialReference c = conn_credentialReference previous)"

definition connectionHasActiveRun :: "ControlPlane \<Rightarrow> RuntimeConnection \<Rightarrow> bool" where
  "connectionHasActiveRun s c = (\<exists>run \<in> set (mvalues (cp_runs s)).
     run_workspaceId run = conn_workspaceId c \<and> run_runtimeConnectionId run = conn_id c \<and>
     activeStatus (run_status run))"

text \<open>Everything \<open>putConnection\<close> checks before it stores the connection.\<close>

definition connectionAcceptable :: "ControlPlane \<Rightarrow> WorkspaceContext \<Rightarrow> RuntimeConnection \<Rightarrow> error + unit" where
  "connectionAcceptable s cx c =
     (let previous = mget (cp_connections s) (key (conn_workspaceId c) (conn_id c)) in
     ebind (assertWorkspace cx (conn_workspaceId c)) (\<lambda>_.
     ebind (case previous of
         None \<Rightarrow> ensure (isAuthorizer s cx)
           (ControlPlanePolicyError ''Initial connection provisioning requires an authorizer'')
       | Some p \<Rightarrow> if isAuthorizer s cx then Inr () else checks
           [ensure (Some (cx_principalId cx) = conn_authenticatedPrincipalId p)
              (ControlPlanePolicyError ''Connection update requires its existing runtime principal''),
            ensure (sameBinding c p)
              (ControlPlanePolicyError ''Runtime identity and credential binding require authorizer rotation'')]) (\<lambda>_.
     ebind (case previous of
         None \<Rightarrow> Inr ()
       | Some p \<Rightarrow> ensure (\<not> (\<not> sameBinding c p \<and> connectionHasActiveRun s c))
           (ControlPlanePolicyError
             ''Cannot rotate connection identity while it has active or in-flight runs'')) (\<lambda>_.
     ebind (require (cp_runtimes s) cx (conn_runtimeId c) ''Runtime'') (\<lambda>_.
     ebind (case conn_credentialReference c of
         None \<Rightarrow> Inr ()
       | Some reference \<Rightarrow> ensure (reference = [] \<or> regex_test CREDENTIAL_REFERENCE reference)
           (ControlPlanePolicyError ''Runtime credentials must be stored as secret references'')) (\<lambda>_.
     validateConnectionProofs s cx c))))))"

text \<open>The \<open>catch\<close> blocks: the previous connection is put back, or the new one removed.\<close>

definition restoreConnection :: "string \<Rightarrow> RuntimeConnection option \<Rightarrow> ControlPlane \<Rightarrow> ControlPlane" where
  "restoreConnection connectionKey previous s = s\<lparr>cp_connections := (case previous of
     Some p \<Rightarrow> mset_at (cp_connections s) connectionKey p
   | None \<Rightarrow> mdelete (cp_connections s) connectionKey)\<rparr>"

definition putConnection :: "CallEnv \<Rightarrow> WorkspaceContext \<Rightarrow> RuntimeConnection \<Rightarrow> (ControlPlane, error, unit) method" where
  "putConnection env cx c =
     (let connectionKey = key (conn_workspaceId c) (conn_id c) in
     andThen (reads (\<lambda>s. ebind (connectionAcceptable s cx c) (\<lambda>_.
       Inr (mget (cp_connections s) connectionKey)))) (\<lambda>previous.
     andThen (modify (\<lambda>s. s\<lparr>cp_connections := mset_at (cp_connections s) connectionKey c\<rparr>)) (\<lambda>_.
     andThen (onError (reads (\<lambda>s.
         if conn_status c = CONNECTED
         then ebind (deriveConnectionStatus s (ce_now env) cx (conn_id c)) (\<lambda>status.
           ensure (status = CONNECTED)
             (ControlPlanePolicyError ''CONNECTED requires fresh correlated runtime evidence''))
         else Inr ())) (restoreConnection connectionKey previous)) (\<lambda>_.
     onError (emitOperationalEvent env cx RuntimeConnectionUpdated ''RuntimeConnection'' (conn_id c)
         [(''status'', FText (connectionStatusText (conn_status c))), (''runtimeId'', FText (conn_runtimeId c))] None)
       (restoreConnection connectionKey previous)))))"

definition highestSequence :: "ControlPlane \<Rightarrow> EntityId \<Rightarrow> EntityId \<Rightarrow> int" where
  "highestSequence s workspaceId connectionId = foldl (\<lambda>highest candidate. max highest (hb_sequence candidate)) (- 1)
     (filter (\<lambda>candidate. hb_workspaceId candidate = workspaceId \<and> hb_runtimeConnectionId candidate = connectionId)
       (mvalues (cp_heartbeats s)))"

definition recordHeartbeat :: "CallEnv \<Rightarrow> WorkspaceContext \<Rightarrow> Heartbeat \<Rightarrow> (ControlPlane, error, unit) method" where
  "recordHeartbeat env cx heartbeat =
     andThen (reads (\<lambda>s.
       ebind (assertWorkspace cx (hb_workspaceId heartbeat)) (\<lambda>_.
       ebind (require (cp_connections s) cx (hb_runtimeConnectionId heartbeat) ''Runtime connection'') (\<lambda>c.
       ebind (ensure (Some (hb_principalId heartbeat) = conn_authenticatedPrincipalId c \<and>
           cx_principalId cx = hb_principalId heartbeat)
         (ControlPlanePolicyError ''Heartbeat principal is not bound to the runtime connection'')) (\<lambda>_.
       ebind (ensure (isSafeInteger (hb_sequence heartbeat) \<and>
           \<not> hb_sequence heartbeat \<le> highestSequence s (hb_workspaceId heartbeat) (hb_runtimeConnectionId heartbeat))
         (ControlPlanePolicyError ''Heartbeat sequence must increase monotonically'')) (\<lambda>_.
       ebind (ensure (\<not> mhas (cp_heartbeats s) (key (hb_workspaceId heartbeat) (hb_id heartbeat)))
         (ControlPlanePolicyError ''Duplicate heartbeat ID'')) (\<lambda>_.
       ebind (parsedTime s (hb_observedAt heartbeat) ''heartbeat.observedAt'') (\<lambda>_. Inr ())))))))) (\<lambda>_.
     andThen (emitOperationalEvent env cx RuntimeHeartbeatRecorded ''Heartbeat'' (hb_id heartbeat)
       [(''connectionId'', FText (hb_runtimeConnectionId heartbeat)), (''sequence'', FNum (hb_sequence heartbeat)),
        (''health'', FText (healthText (hb_health heartbeat)))] (Some (hb_runtimeConnectionId heartbeat))) (\<lambda>_.
     modify (\<lambda>s. s\<lparr>cp_heartbeats :=
       mset_at (cp_heartbeats s) (key (hb_workspaceId heartbeat) (hb_id heartbeat)) heartbeat\<rparr>)))"

section \<open>Tasks\<close>

definition jsonString :: "json \<Rightarrow> string" where
  "jsonString v = (case v of JStr s \<Rightarrow> s | _ \<Rightarrow> [])"

definition createTask :: "CallEnv \<Rightarrow> WorkspaceContext \<Rightarrow> ControlPlaneTask \<Rightarrow> (ControlPlane, error, unit) method" where
  "createTask env cx task =
     andThen (reads (\<lambda>s.
       ebind (assertWorkspace cx (task_workspaceId task)) (\<lambda>_.
       ebind (ensure (isAuthorizer s cx \<or> cx_principalId cx \<in> cfg_plannerPrincipals (cp_config s))
         (ControlPlanePolicyError ''Task creation requires an authorized planner'')) (\<lambda>_.
       ebind (ensure (task_status task = T_READY) (ControlPlanePolicyError ''New tasks must start READY'')) (\<lambda>_.
       ebind (validateCurrentTaskPolicy s (ce_now env) cx task) (\<lambda>_.
       ebind (if task_kind task = RuntimeHealthCheck
           then ebind (require (cp_connections s) cx (jsonString (jfield (task_input task) ''connectionId''))
             ''Runtime connection'') (\<lambda>_. Inr ())
           else Inr ()) (\<lambda>_.
       ensure (\<not> mhas (cp_tasks s) (key (task_workspaceId task) (task_id task)))
         (ControlPlanePolicyError ''Duplicate task ID'')))))))) (\<lambda>_.
     andThen (emitOperationalEvent env cx TaskCreated ''Task'' (task_id task)
       [(''kind'', FText (taskKindText (task_kind task))), (''status'', FText (taskStatusText (task_status task))),
        (''requiredAuthorityLevel'', FNum (task_requiredAuthorityLevel task))] None) (\<lambda>_.
     modify (\<lambda>s. s\<lparr>cp_tasks := mset_at (cp_tasks s) (key (task_workspaceId task) (task_id task)) task\<rparr>)))"

definition getTask :: "ControlPlane \<Rightarrow> WorkspaceContext \<Rightarrow> EntityId \<Rightarrow> ControlPlaneTask option" where
  "getTask s cx taskId = mget (cp_tasks s) (key (cx_workspaceId cx) taskId)"

definition getRun :: "ControlPlane \<Rightarrow> WorkspaceContext \<Rightarrow> EntityId \<Rightarrow> AgentRun option" where
  "getRun s cx runId = mget (cp_runs s) (key (cx_workspaceId cx) runId)"

definition taskHasActiveRun :: "ControlPlane \<Rightarrow> EntityId \<Rightarrow> EntityId \<Rightarrow> bool" where
  "taskHasActiveRun s workspaceId taskId = (\<exists>run \<in> set (mvalues (cp_runs s)).
     run_workspaceId run = workspaceId \<and> run_taskId run = taskId \<and> activeStatus (run_status run))"

definition illegalTaskTransition :: "TaskStatus \<Rightarrow> TaskStatus \<Rightarrow> error" where
  "illegalTaskTransition current next = ControlPlanePolicyError
     (''Illegal task transition '' @ taskStatusText current @ '' -> '' @ taskStatusText next)"

definition transitionTaskRecord :: "ControlPlaneTask \<Rightarrow> TaskStatus \<Rightarrow> (ControlPlane, error, unit) method" where
  "transitionTaskRecord task next =
     andThen (reads (\<lambda>s. ensure (next \<in> set (TASK_TRANSITIONS (task_status task)))
       (illegalTaskTransition (task_status task) next))) (\<lambda>_.
     modify (\<lambda>s. s\<lparr>cp_tasks := mset_at (cp_tasks s) (key (task_workspaceId task) (task_id task))
       (task\<lparr>task_status := next\<rparr>)\<rparr>))"

definition transitionTask :: "CallEnv \<Rightarrow> WorkspaceContext \<Rightarrow> EntityId \<Rightarrow> TaskStatus \<Rightarrow> (ControlPlane, error, unit) method" where
  "transitionTask env cx taskId next =
     andThen (reads (\<lambda>s.
       ebind (require (cp_tasks s) cx taskId ''Task'') (\<lambda>task.
       ebind (assertTaskOperator s (ce_now env) cx task) (\<lambda>_.
       ebind (ensure (\<not> (next = T_RUNNING \<or> next = T_COMPLETED))
         (ControlPlanePolicyError (taskStatusText next @ '' task state requires a valid run lifecycle''))) (\<lambda>_.
       ebind (ensure (\<not> taskHasActiveRun s (task_workspaceId task) (task_id task))
         (ControlPlanePolicyError ''An active task may transition only through its run'')) (\<lambda>_.
       Inr task)))))) (\<lambda>task.
     andThen (emitOperationalEvent env cx TaskStatusChanged ''Task'' (task_id task)
       [(''previousStatus'', FText (taskStatusText (task_status task))), (''nextStatus'', FText (taskStatusText next))]
       (Some (task_id task))) (\<lambda>_.
     transitionTaskRecord task next))"

section \<open>Runs\<close>

definition activeRunCount :: "ControlPlane \<Rightarrow> EntityId \<Rightarrow> EntityId \<Rightarrow> nat" where
  "activeRunCount s workspaceId agentId = length (filter (\<lambda>candidate.
     run_workspaceId candidate = workspaceId \<and> run_agentId candidate = agentId \<and>
     activeStatus (run_status candidate)) (mvalues (cp_runs s)))"

definition startRun :: "CallEnv \<Rightarrow> WorkspaceContext \<Rightarrow> AgentRun \<Rightarrow> (ControlPlane, error, unit) method" where
  "startRun env cx run =
     andThen (reads (\<lambda>s.
       ebind (assertWorkspace cx (run_workspaceId run)) (\<lambda>_.
       ebind (ensure (run_status run = R_QUEUED) (ControlPlanePolicyError ''New runs must start QUEUED'')) (\<lambda>_.
       ebind (ensure (run_externalRunId run = None \<and> run_adapterRegistrationId run = None \<and>
           run_startedAt run = None \<and> run_completedAt run = None)
         (ControlPlanePolicyError ''New runs cannot pre-bind external ownership or lifecycle timestamps'')) (\<lambda>_.
       ebind (require (cp_tasks s) cx (run_taskId run) ''Task'') (\<lambda>task.
       ebind (validateCurrentTaskPolicy s (ce_now env) cx task) (\<lambda>(agent, authority).
       ebind (require (cp_connections s) cx (run_runtimeConnectionId run) ''Runtime connection'') (\<lambda>c.
       ebind (ensure (operatesConnection s cx c)
         (ControlPlanePolicyError ''Run start requires an authorizer or the bound runtime'')) (\<lambda>_.
       ebind (ensure (\<not> mhas (cp_runs s) (key (run_workspaceId run) (run_id run)))
         (ControlPlanePolicyError ''Duplicate run ID'')) (\<lambda>_.
       ebind (ensure (task_status task = T_READY \<and> task_assignedAgentId task = ag_id agent \<and>
           run_agentId run = ag_id agent \<and> conn_runtimeId c = ag_runtimeId agent)
         (ControlPlanePolicyError ''Run references do not match a ready task, agent, and runtime'')) (\<lambda>_.
       ebind (assertConnectionCanRunTask s (ce_now env) cx c task) (\<lambda>_.
       ebind (assertRemainingTaskBudget s task) (\<lambda>_.
       ebind (ensure (\<not> taskHasActiveRun s (run_workspaceId run) (task_id task))
         (ControlPlanePolicyError ''Task already has an active run'')) (\<lambda>_.
       ensure (\<not> int (activeRunCount s (run_workspaceId run) (ag_id agent)) \<ge>
           min (ag_maxConcurrentRuns agent) (auth_maxConcurrentRuns authority))
         (ControlPlanePolicyError ''Agent concurrency limit reached''))))))))))))))) (\<lambda>_.
     andThen (emitOperationalEvent env cx RunCreated ''Run'' (run_id run)
       [(''taskId'', FText (run_taskId run)), (''agentId'', FText (run_agentId run)),
        (''status'', FText (runStatusText (run_status run)))] (Some (run_taskId run))) (\<lambda>_.
     modify (\<lambda>s. s\<lparr>cp_runs := mset_at (cp_runs s) (key (run_workspaceId run) (run_id run)) run\<rparr>)))"

section \<open>Dispatch\<close>

definition currentEnvelope :: "ControlPlane \<Rightarrow> AgentRun \<Rightarrow> ControlPlaneTask \<Rightarrow> error + RuntimeTaskEnvelope" where
  "currentEnvelope s run task =
     ebind (deriveTaskRequirements s task) (\<lambda>requirements. Inr
       \<lparr>env_runId = run_id run, env_taskId = task_id task, env_workspaceId = task_workspaceId task,
        env_kind = task_kind task, env_input = task_input task,
        env_capabilityIds = task_requiredCapabilityIds task,
        env_tools = map (\<lambda>(toolId, scope). (toolId, [scope])) (req_tools requirements),
        env_authorityLevel = task_requiredAuthorityLevel task, env_costLimit = task_costLimit task\<rparr>)"

definition mintDispatch :: "CallEnv \<Rightarrow> WorkspaceContext \<Rightarrow> EntityId \<Rightarrow> (ControlPlane, error, RuntimeDispatchPermit) method" where
  "mintDispatch env cx runId =
     andThen (reads (\<lambda>s.
       ebind (require (cp_runs s) cx runId ''Dispatch run'') (\<lambda>run.
       ebind (ensure (run_status run = R_QUEUED) (ControlPlanePolicyError ''Only a queued run may dispatch'')) (\<lambda>_.
       ebind (ensure (key (run_workspaceId run) (run_id run) \<notin> cp_dispatchedRuns s)
         (ControlPlanePolicyError ''Run already has a policy-minted dispatch'')) (\<lambda>_.
       ebind (require (cp_connections s) cx (run_runtimeConnectionId run) ''Dispatch connection'') (\<lambda>c.
       ebind (assertConnectionOperator s cx c ''Dispatch'') (\<lambda>_.
       ebind (case mget (cp_runtimeAdapters s) (key (cx_workspaceId cx) (conn_runtimeId c)) of
           None \<Rightarrow> Inl (ControlPlanePolicyError ''Runtime adapter is not registered'')
         | Some registration \<Rightarrow> Inr registration) (\<lambda>registration.
       ebind (require (cp_tasks s) cx (run_taskId run) ''Dispatch task'') (\<lambda>task.
       ebind (currentEnvelope s run task) (\<lambda>envelope.
       Inr (run, task, \<lparr>dp_dispatchId = ce_uuid env, dp_connectionId = conn_id c,
         dp_adapterRegistrationId = ar_registrationId registration,
         dp_runtimePrincipalId = conn_authenticatedPrincipalId c, dp_envelope = envelope\<rparr>)))))))))))
     (\<lambda>(run, task, dispatch).
     andThen (modify (\<lambda>s. s\<lparr>
       cp_dispatches := mset_at (cp_dispatches s) (key (task_workspaceId task) (dp_dispatchId dispatch)) dispatch,
       cp_dispatchedRuns := insert (key (run_workspaceId run) (run_id run)) (cp_dispatchedRuns s)\<rparr>)) (\<lambda>_.
     ret dispatch))"

definition adapterRegistrationAt :: "ControlPlane \<Rightarrow> WorkspaceContext \<Rightarrow> EntityId \<Rightarrow> EntityId option" where
  "adapterRegistrationAt s cx runtimeId =
     map_option ar_registrationId (mget (cp_runtimeAdapters s) (key (cx_workspaceId cx) runtimeId))"

text \<open>The body of the \<open>try\<close> block of \<open>#claimDispatch\<close>.\<close>

definition dispatchStillValid :: "ControlPlane \<Rightarrow> int \<Rightarrow> WorkspaceContext \<Rightarrow> RuntimeDispatchPermit \<Rightarrow> error + unit" where
  "dispatchStillValid s now cx stored =
     ebind (require (cp_runs s) cx (env_runId (dp_envelope stored)) ''Dispatch run'') (\<lambda>run.
     ebind (require (cp_tasks s) cx (env_taskId (dp_envelope stored)) ''Dispatch task'') (\<lambda>task.
     ebind (require (cp_connections s) cx (dp_connectionId stored) ''Dispatch connection'') (\<lambda>c.
     ebind (ensure (run_status run = R_QUEUED \<and> task_status task = T_READY \<and> run_taskId run = task_id task \<and>
         run_runtimeConnectionId run = conn_id c \<and>
         Some (dp_adapterRegistrationId stored) = adapterRegistrationAt s cx (conn_runtimeId c) \<and>
         dp_runtimePrincipalId stored = conn_authenticatedPrincipalId c \<and>
         Some (cx_principalId cx) = conn_authenticatedPrincipalId c)
       (ControlPlanePolicyError ''Dispatch permit is stale or no longer owned'')) (\<lambda>_.
     ebind (currentEnvelope s run task) (\<lambda>expectedEnvelope.
     ebind (ensure (dp_envelope stored = expectedEnvelope)
       (ControlPlanePolicyError ''Dispatch permit no longer matches current task policy'')) (\<lambda>_.
     ebind (validateCurrentTaskPolicy s now cx task) (\<lambda>(agent, authority).
     ebind (ensure (run_agentId run = ag_id agent \<and> conn_runtimeId c = ag_runtimeId agent)
       (ControlPlanePolicyError ''Dispatch no longer matches its agent and runtime'')) (\<lambda>_.
     ebind (assertConnectionCanRunTask s now cx c task) (\<lambda>_.
     ebind (assertRemainingTaskBudget s task) (\<lambda>_.
     ensure (\<not> int (activeRunCount s (run_workspaceId run) (ag_id agent)) >
         min (ag_maxConcurrentRuns agent) (auth_maxConcurrentRuns authority))
       (ControlPlanePolicyError ''Dispatch exceeds the current concurrency budget'')))))))))))"

definition claimDispatch :: "CallEnv \<Rightarrow> WorkspaceContext \<Rightarrow> RuntimeDispatchPermit \<Rightarrow>
    (ControlPlane, error, RuntimeDispatchPermit) method" where
  "claimDispatch env cx dispatch =
     (let dispatchKey = key (cx_workspaceId cx) (dp_dispatchId dispatch) in
     andThen (reads (\<lambda>s. case mget (cp_dispatches s) dispatchKey of
         None \<Rightarrow> Inl (ControlPlanePolicyError ''Dispatch is not a policy-minted runtime envelope'')
       | Some stored \<Rightarrow>
           if Some (cx_principalId cx) = dp_runtimePrincipalId stored \<and> stored = dispatch then Inr stored
           else Inl (ControlPlanePolicyError ''Dispatch is not a policy-minted runtime envelope''))) (\<lambda>stored.
     let runKey = key (cx_workspaceId cx) (env_runId (dp_envelope stored)) in
     andThen (onError (reads (\<lambda>s. dispatchStillValid s (ce_now env) cx stored))
       (\<lambda>s. s\<lparr>cp_dispatches := mdelete (cp_dispatches s) dispatchKey,
              cp_dispatchedRuns := cp_dispatchedRuns s - {runKey}\<rparr>)) (\<lambda>_.
     andThen (modify (\<lambda>s. s\<lparr>cp_dispatches := mdelete (cp_dispatches s) dispatchKey,
       cp_claimedDispatchRuns := insert runKey (cp_claimedDispatchRuns s),
       cp_inFlightDispatchAdapters :=
         mset_at (cp_inFlightDispatchAdapters s) runKey (dp_adapterRegistrationId stored)\<rparr>)) (\<lambda>_.
     ret stored))))"

text \<open>
  \<open>executeDispatch\<close> up to \<open>await adapter.start(context, validated)\<close>: the locals that live across the
  await are the pending start.
\<close>

record PendingStart =
  ps_context :: WorkspaceContext
  ps_validated :: RuntimeDispatchPermit
  ps_runId :: EntityId
  ps_runKey :: string
  ps_registrationId :: EntityId

definition beginDispatch :: "CallEnv \<Rightarrow> WorkspaceContext \<Rightarrow> RuntimeDispatchPermit \<Rightarrow> (ControlPlane, error, PendingStart) method" where
  "beginDispatch env cx dispatch =
     andThen (claimDispatch env cx dispatch) (\<lambda>validated.
     reads (\<lambda>s.
       ebind (require (cp_runs s) cx (env_runId (dp_envelope validated)) ''Dispatch run'') (\<lambda>run.
       ebind (require (cp_connections s) cx (run_runtimeConnectionId run) ''Dispatch connection'') (\<lambda>c.
       ebind (require (cp_runtimes s) cx (conn_runtimeId c) ''Dispatch runtime'') (\<lambda>runtime.
       ebind (ensure (adapterRegistrationAt s cx (rt_id runtime) = Some (dp_adapterRegistrationId validated))
         (ControlPlanePolicyError ''Dispatch adapter registration is stale'')) (\<lambda>_.
       Inr \<lparr>ps_context = cx, ps_validated = validated, ps_runId = run_id run,
            ps_runKey = key (run_workspaceId run) (run_id run),
            ps_registrationId = dp_adapterRegistrationId validated\<rparr>))))))"

definition bindExternalRun :: "WorkspaceContext \<Rightarrow> EntityId \<Rightarrow> string \<Rightarrow> EntityId \<Rightarrow> (ControlPlane, error, unit) method" where
  "bindExternalRun cx runId externalRunId adapterRegistrationId =
     andThen (reads (\<lambda>s.
       ebind (assertString (JStr externalRunId) ''externalRunId'') (\<lambda>_.
       ebind (require (cp_runs s) cx runId ''External run'') (\<lambda>run.
       ebind (require (cp_connections s) cx (run_runtimeConnectionId run) ''External run connection'') (\<lambda>c.
       ebind (ensure (Some (cx_principalId cx) = conn_authenticatedPrincipalId c)
         (ControlPlanePolicyError ''External run binding requires the authenticated runtime principal'')) (\<lambda>_.
       ebind (ensure (key (run_workspaceId run) (run_id run) \<in> cp_claimedDispatchRuns s)
         (ControlPlanePolicyError ''External run binding requires a claimed dispatch'')) (\<lambda>_.
       ebind (ensure (mget (cp_inFlightDispatchAdapters s) (key (run_workspaceId run) (run_id run)) =
           Some adapterRegistrationId)
         (ControlPlanePolicyError ''External run binding requires its in-flight adapter'')) (\<lambda>_.
       ebind (ensure (adapterRegistrationAt s cx (conn_runtimeId c) = Some adapterRegistrationId)
         (ControlPlanePolicyError ''External run adapter registration is stale'')) (\<lambda>_.
       ebind (ensure (activeStatus (run_status run))
         (ControlPlanePolicyError ''Only an active run may bind an external run'')) (\<lambda>_.
       ebind (ensure (\<not> (truthy (run_externalRunId run) \<and> run_externalRunId run \<noteq> Some externalRunId))
         (ControlPlanePolicyError ''External run is already bound'')) (\<lambda>_.
       ebind (ensure (\<not> (\<exists>candidate \<in> set (mvalues (cp_runs s)).
           run_workspaceId candidate = run_workspaceId run \<and> run_id candidate \<noteq> run_id run \<and>
           run_runtimeConnectionId candidate = conn_id c \<and> run_externalRunId candidate = Some externalRunId))
         (ControlPlanePolicyError ''External run is already bound to another run'')) (\<lambda>_.
       Inr run)))))))))))) (\<lambda>run.
     modify (\<lambda>s. s\<lparr>cp_runs := mset_at (cp_runs s) (key (run_workspaceId run) (run_id run))
       (run\<lparr>run_externalRunId := Some externalRunId, run_adapterRegistrationId := Some adapterRegistrationId\<rparr>)\<rparr>))"

text \<open>
  \<open>executeDispatch\<close> after the await.  The answer is the rejection of the adapter's promise or the
  value of \<open>result.externalRunId\<close>.
\<close>

definition settleDispatch :: "PendingStart \<Rightarrow> error + json \<Rightarrow> (ControlPlane, error, string) method" where
  "settleDispatch pending answer =
     finallyDo
       (andThen (reads (\<lambda>_. ebind answer (\<lambda>v. ebind (assertString v ''externalRunId'') (\<lambda>_. Inr (jsonString v)))))
         (\<lambda>externalRunId.
         andThen (bindExternalRun (ps_context pending) (ps_runId pending) externalRunId (ps_registrationId pending))
           (\<lambda>_. ret externalRunId)))
       (\<lambda>s. s\<lparr>cp_inFlightDispatchAdapters := mdelete (cp_inFlightDispatchAdapters s) (ps_runKey pending)\<rparr>)"

section \<open>Cancellation\<close>

definition mintCancellation :: "CallEnv \<Rightarrow> WorkspaceContext \<Rightarrow> EntityId \<Rightarrow> (ControlPlane, error, RuntimeCancellationPermit) method" where
  "mintCancellation env cx runId =
     andThen (reads (\<lambda>s.
       ebind (require (cp_runs s) cx runId ''Cancellation run'') (\<lambda>run.
       ebind (ensure (activeStatus (run_status run) \<and> truthy (run_externalRunId run) \<and>
           truthy (run_adapterRegistrationId run))
         (ControlPlanePolicyError ''Cancellation requires an active bound external run'')) (\<lambda>_.
       ebind (ensure (key (run_workspaceId run) (run_id run) \<notin> cp_cancelledRuns s)
         (ControlPlanePolicyError ''Run already has a policy-minted cancellation'')) (\<lambda>_.
       ebind (require (cp_connections s) cx (run_runtimeConnectionId run) ''Cancellation connection'') (\<lambda>c.
       ebind (assertConnectionOperator s cx c ''Cancellation'') (\<lambda>_.
       ebind (case adapterRegistrationAt s cx (conn_runtimeId c) of
           None \<Rightarrow> Inl (ControlPlanePolicyError ''Runtime adapter is not registered'')
         | Some registrationId \<Rightarrow> ensure (Some registrationId = run_adapterRegistrationId run)
             (ControlPlanePolicyError ''Originating runtime adapter is no longer registered'')) (\<lambda>_.
       Inr (run, \<lparr>cn_cancellationId = ce_uuid env, cn_connectionId = conn_id c,
         cn_adapterRegistrationId = the (run_adapterRegistrationId run),
         cn_runtimePrincipalId = conn_authenticatedPrincipalId c, cn_runId = run_id run,
         cn_externalRunId = the (run_externalRunId run)\<rparr>)))))))))
     (\<lambda>(run, cancellation).
     andThen (modify (\<lambda>s. s\<lparr>
       cp_cancellations :=
         mset_at (cp_cancellations s) (key (run_workspaceId run) (cn_cancellationId cancellation)) cancellation,
       cp_cancelledRuns := insert (key (run_workspaceId run) (run_id run)) (cp_cancelledRuns s)\<rparr>)) (\<lambda>_.
     ret cancellation))"

text \<open>The body of the \<open>try\<close> block of \<open>#claimCancellation\<close>.\<close>

definition cancellationStillValid :: "ControlPlane \<Rightarrow> WorkspaceContext \<Rightarrow> RuntimeCancellationPermit \<Rightarrow> error + unit" where
  "cancellationStillValid s cx stored =
     ebind (require (cp_runs s) cx (cn_runId stored) ''Cancellation run'') (\<lambda>run.
     ebind (require (cp_connections s) cx (cn_connectionId stored) ''Cancellation connection'') (\<lambda>c.
     ensure (activeStatus (run_status run) \<and> run_runtimeConnectionId run = conn_id c \<and>
         truthy (run_externalRunId run) \<and>
         run_adapterRegistrationId run = Some (cn_adapterRegistrationId stored) \<and>
         run_externalRunId run = Some (cn_externalRunId stored) \<and>
         Some (cn_adapterRegistrationId stored) = adapterRegistrationAt s cx (conn_runtimeId c) \<and>
         cn_runtimePrincipalId stored = conn_authenticatedPrincipalId c \<and>
         Some (cx_principalId cx) = conn_authenticatedPrincipalId c)
       (ControlPlanePolicyError ''Cancellation permit is stale or no longer owned'')))"

definition claimCancellation :: "WorkspaceContext \<Rightarrow> RuntimeCancellationPermit \<Rightarrow>
    (ControlPlane, error, RuntimeCancellationPermit) method" where
  "claimCancellation cx cancellation =
     (let cancellationKey = key (cx_workspaceId cx) (cn_cancellationId cancellation) in
     andThen (reads (\<lambda>s. case mget (cp_cancellations s) cancellationKey of
         None \<Rightarrow> Inl (ControlPlanePolicyError ''Cancellation is not bound to this runtime and run'')
       | Some stored \<Rightarrow>
           if Some (cx_principalId cx) = cn_runtimePrincipalId stored \<and> stored = cancellation then Inr stored
           else Inl (ControlPlanePolicyError ''Cancellation is not bound to this runtime and run''))) (\<lambda>stored.
     let runKey = key (cx_workspaceId cx) (cn_runId stored) in
     andThen (onError (reads (\<lambda>s. cancellationStillValid s cx stored))
       (\<lambda>s. s\<lparr>cp_cancellations := mdelete (cp_cancellations s) cancellationKey,
              cp_cancelledRuns := cp_cancelledRuns s - {runKey}\<rparr>)) (\<lambda>_.
     andThen (modify (\<lambda>s. s\<lparr>cp_cancellations := mdelete (cp_cancellations s) cancellationKey\<rparr>)) (\<lambda>_.
     ret stored))))"

text \<open>\<open>executeCancellation\<close> up to \<open>await adapter.cancel(context, validated)\<close>, and after it.\<close>

record PendingCancellation =
  pc_context :: WorkspaceContext
  pc_validated :: RuntimeCancellationPermit
  pc_runKey :: string

definition beginCancellation :: "WorkspaceContext \<Rightarrow> RuntimeCancellationPermit \<Rightarrow> (ControlPlane, error, PendingCancellation) method" where
  "beginCancellation cx cancellation =
     andThen (claimCancellation cx cancellation) (\<lambda>validated.
     let runKey = key (cx_workspaceId cx) (cn_runId validated) in
     onError (reads (\<lambda>s.
         ebind (require (cp_runs s) cx (cn_runId validated) ''Cancellation run'') (\<lambda>run.
         ebind (require (cp_connections s) cx (run_runtimeConnectionId run) ''Cancellation connection'') (\<lambda>c.
         ebind (require (cp_runtimes s) cx (conn_runtimeId c) ''Cancellation runtime'') (\<lambda>runtime.
         ebind (ensure (adapterRegistrationAt s cx (rt_id runtime) = Some (cn_adapterRegistrationId validated))
           (ControlPlanePolicyError ''Cancellation adapter registration is stale'')) (\<lambda>_.
         Inr \<lparr>pc_context = cx, pc_validated = validated, pc_runKey = runKey\<rparr>))))))
       (\<lambda>s. s\<lparr>cp_cancelledRuns := cp_cancelledRuns s - {runKey}\<rparr>))"

definition settleCancellation :: "PendingCancellation \<Rightarrow> error + unit \<Rightarrow> (ControlPlane, error, unit) method" where
  "settleCancellation pending answer =
     onError (andThen (reads (\<lambda>_. answer)) (\<lambda>_.
         modify (\<lambda>s. s\<lparr>cp_successfulCancellations := insert (pc_runKey pending) (cp_successfulCancellations s)\<rparr>)))
       (\<lambda>s. s\<lparr>cp_cancelledRuns := cp_cancelledRuns s - {pc_runKey pending}\<rparr>)"

section \<open>Run transitions\<close>

text \<open>The task status a run transition entails; the later assignments of the source win.\<close>

definition taskNextFor :: "RunStatus \<Rightarrow> RunStatus \<Rightarrow> TaskStatus option" where
  "taskNextFor current next =
     (if next = R_CANCELLED then Some T_CANCELLED
      else if next = R_FAILED then Some T_FAILED
      else if next = R_COMPLETED then Some T_COMPLETED
      else if current = R_QUEUED \<and> next = R_RUNNING then Some T_RUNNING
      else None)"

definition runEventType :: "RunStatus \<Rightarrow> OperationalEventType" where
  "runEventType next = (if next = R_COMPLETED then RunCompleted
     else if next = R_FAILED then RunFailed else RunStatusChanged)"

definition updatedRun :: "AgentRun \<Rightarrow> RunStatus \<Rightarrow> string \<Rightarrow> AgentRun" where
  "updatedRun run next now = run\<lparr>run_status := next,
     run_startedAt := (if next = R_RUNNING \<and> \<not> truthy (run_startedAt run) then Some now else run_startedAt run),
     run_completedAt := (if next \<in> {R_COMPLETED, R_FAILED, R_CANCELLED} then Some now else run_completedAt run)\<rparr>"

definition transitionRun :: "CallEnv \<Rightarrow> WorkspaceContext \<Rightarrow> EntityId \<Rightarrow> RunStatus \<Rightarrow> (ControlPlane, error, unit) method" where
  "transitionRun env cx runId next =
     andThen (reads (\<lambda>s.
       ebind (require (cp_runs s) cx runId ''Run'') (\<lambda>run.
       let runKey = key (run_workspaceId run) (run_id run) in
       ebind (ensure (\<not> mhas (cp_inFlightDispatchAdapters s) runKey)
         (ControlPlanePolicyError ''Run cannot transition while adapter start is in flight'')) (\<lambda>_.
       ebind (require (cp_connections s) cx (run_runtimeConnectionId run) ''Runtime connection'') (\<lambda>c.
       ebind (ensure (operatesConnection s cx c)
         (ControlPlanePolicyError ''Run transition requires an authorizer or the bound runtime'')) (\<lambda>_.
       ebind (ensure (next \<in> set (RUN_TRANSITIONS (run_status run)))
         (ControlPlanePolicyError (''Illegal run transition '' @ runStatusText (run_status run) @ '' -> '' @
            runStatusText next))) (\<lambda>_.
       ebind (ensure (\<not> (next = R_CANCELLED \<and> truthy (run_externalRunId run) \<and>
           runKey \<notin> cp_successfulCancellations s))
         (ControlPlanePolicyError
           ''A bound external run requires successful adapter cancellation before terminal transition'')) (\<lambda>_.
       ebind (ensure (\<not> (run_status run = R_QUEUED \<and> next = R_RUNNING \<and>
           (runKey \<notin> cp_claimedDispatchRuns s \<or> \<not> truthy (run_externalRunId run))))
         (ControlPlanePolicyError
           ''A queued run requires a claimed dispatch and bound external run before starting'')) (\<lambda>_.
       ebind (require (cp_tasks s) cx (run_taskId run) ''Run task'') (\<lambda>task.
       ebind (case taskNextFor (run_status run) next of
           None \<Rightarrow> Inr ()
         | Some taskNext \<Rightarrow> ensure (taskNext \<in> set (TASK_TRANSITIONS (task_status task)))
             (illegalTaskTransition (task_status task) taskNext)) (\<lambda>_.
       ebind (isoNow env) (\<lambda>now.
       Inr (run, task, now))))))))))))) (\<lambda>(run, task, now).
     andThen (emitOperationalEvent env cx (runEventType next) ''Run'' (run_id run)
       [(''previousStatus'', FText (runStatusText (run_status run))), (''nextStatus'', FText (runStatusText next)),
        (''taskId'', FText (run_taskId run))] (Some (run_taskId run))) (\<lambda>_.
     modify (\<lambda>s. s\<lparr>
       cp_runs := mset_at (cp_runs s) (key (run_workspaceId run) (run_id run)) (updatedRun run next now),
       cp_tasks := (case taskNextFor (run_status run) next of
           None \<Rightarrow> cp_tasks s
         | Some taskNext \<Rightarrow> mset_at (cp_tasks s) (key (task_workspaceId task) (task_id task))
             (task\<lparr>task_status := taskNext\<rparr>))\<rparr>)))"

section \<open>Events and usage\<close>

text \<open>The argument of \<open>eventSink.append\<close> in \<open>appendEvent\<close>.\<close>

definition recordedEvent :: "ControlPlaneEvent \<Rightarrow> OperationalActorKind \<Rightarrow> OperationalEvent" where
  "recordedEvent event actorKind = (let bound = truthy (ev_runId event) in
     \<lparr>oe_id = ev_id event, oe_workspaceId = ev_workspaceId event,
      oe_type = (if bound then RunProgress else EventRecorded), oe_source = CONTROL_PLANE,
      oe_actorKind = actorKind, oe_actorId = ev_actorId event,
      oe_subjectType = (if bound then ''Run'' else ''ControlPlaneEvent''),
      oe_subjectId = (case ev_runId event of Some runId \<Rightarrow> runId | None \<Rightarrow> ev_id event),
      oe_occurredAt = ev_occurredAt event, oe_idempotencyKey = ev_idempotencyKey event,
      oe_correlationId = ifTruthy (ev_runId event),
      oe_facts = [(''payloadFieldCount'', FNum (int (length (ev_payload event)))),
                  (''payloadBytes'', FNum (int (utf8Length (json_text (JObj (ev_payload event))))))]\<rparr>)"

definition appendEvent :: "WorkspaceContext \<Rightarrow> ControlPlaneEvent \<Rightarrow> (ControlPlane, error, unit) method" where
  "appendEvent cx event =
     (let eventIdKey = key (ev_workspaceId event) (ev_id event);
          idempotencyKey = key (ev_workspaceId event) (ev_idempotencyKey event) in
     andThen (reads (\<lambda>s.
       ebind (assertWorkspace cx (ev_workspaceId event)) (\<lambda>_.
       ebind (ensure (cx_principalId cx = ev_actorId event)
         (ControlPlanePolicyError ''Event actor must match the authenticated principal'')) (\<lambda>_.
       ebind (assertBoundedRecord (ev_payload event)) (\<lambda>_.
       ebind (ensure (\<not> mhas (cp_eventsById s) eventIdKey) (DuplicateEventError ''Duplicate workspace event ID'')) (\<lambda>_.
       ebind (ensure (\<not> mhas (cp_eventIdempotency s) idempotencyKey)
         (DuplicateEventError ''Duplicate workspace event idempotency key'')) (\<lambda>_.
       if truthy (ev_runId event) then
         ebind (require (cp_runs s) cx (the (ev_runId event)) ''Run'') (\<lambda>run.
         ebind (require (cp_connections s) cx (run_runtimeConnectionId run) ''Event runtime connection'') (\<lambda>c.
         ensure (Some (ev_actorId event) = conn_authenticatedPrincipalId c)
           (ControlPlanePolicyError ''Run event actor does not own the runtime connection'')))
       else Inr ()))))))) (\<lambda>_.
     andThen (updates (\<lambda>s. case cp_events s of
         None \<Rightarrow> Inr s
       | Some (sink, capability) \<Rightarrow>
           ebind (if truthy (ev_runId event) then Inr RUNTIME else actorKindFor capability cx) (\<lambda>actorKind.
           ebind (appendEvents capability cx (recordedEvent event actorKind) sink) (\<lambda>sink'.
           Inr (s\<lparr>cp_events := Some (sink', capability)\<rparr>))))) (\<lambda>_.
     modify (\<lambda>s. s\<lparr>cp_eventsById := mset_at (cp_eventsById s) eventIdKey event,
       cp_eventIdempotency := mset_at (cp_eventIdempotency s) idempotencyKey (ev_id event)\<rparr>))))"

definition optionalFact :: "string \<Rightarrow> ('a \<Rightarrow> ObservableFact) \<Rightarrow> 'a option \<Rightarrow> (string \<times> ObservableFact) list" where
  "optionalFact name f v = (case v of None \<Rightarrow> [] | Some x \<Rightarrow> [(name, f x)])"

definition recordUsage :: "CallEnv \<Rightarrow> WorkspaceContext \<Rightarrow> UsageRecord \<Rightarrow> (ControlPlane, error, unit) method" where
  "recordUsage env cx usage =
     (let usageKey = key (us_workspaceId usage) (us_id usage) in
     andThen (reads (\<lambda>s.
       ebind (assertWorkspace cx (us_workspaceId usage)) (\<lambda>_.
       ebind (ensure (\<not> mhas (cp_usage s) usageKey) (DuplicateEventError ''Duplicate workspace usage record'')) (\<lambda>_.
       ebind (require (cp_tasks s) cx (us_taskId usage) ''Usage task'') (\<lambda>task.
       ebind (require (cp_runs s) cx (us_runId usage) ''Usage run'') (\<lambda>run.
       ebind (require (cp_connections s) cx (run_runtimeConnectionId run) ''Runtime connection'') (\<lambda>c.
       ebind (ensure (operatesConnection s cx c)
         (ControlPlanePolicyError ''Usage requires an authorizer or the bound runtime'')) (\<lambda>_.
       ebind (ensure (run_taskId run = task_id task)
         (ControlPlanePolicyError ''Usage run does not belong to task'')) (\<lambda>_.
       ebind (case us_costMinorUnits usage of None \<Rightarrow> Inr () | Some cost \<Rightarrow> assertNonNegativeInteger cost ''Usage cost'') (\<lambda>_.
       ebind (case us_computeUnits usage of None \<Rightarrow> Inr () | Some units \<Rightarrow> assertNonNegativeInteger units ''Compute usage'') (\<lambda>_.
       ebind (ensure (\<not> (us_costMinorUnits usage \<noteq> None \<and>
           us_currency usage \<noteq> Some (cl_currency (task_costLimit task))))
         (ControlPlanePolicyError ''Usage currency must match the task cost limit currency'')) (\<lambda>_.
       let prior = taskUsage s (us_workspaceId usage) (us_taskId usage) in
       ebind (case us_costMinorUnits usage of
           None \<Rightarrow> Inr ()
         | Some cost \<Rightarrow> ensure (\<not> double_round (totalCost prior + cost) > cl_maximumMinorUnits (task_costLimit task))
             (CostLimitExceededError ''Usage would exceed the task cost limit'')) (\<lambda>_.
       case us_computeUnits usage of
           None \<Rightarrow> Inr ()
         | Some units \<Rightarrow> ensure (\<not> double_round (totalCompute prior + units) > cl_maximumComputeUnits (task_costLimit task))
             (CostLimitExceededError ''Usage would exceed the task compute limit'')))))))))))))) (\<lambda>_.
     andThen (emitOperationalEvent env cx UsageRecorded ''UsageRecord'' (us_id usage)
       ([(''taskId'', FText (us_taskId usage)), (''runId'', FText (us_runId usage))] @
        optionalFact ''computeUnits'' FNum (us_computeUnits usage) @
        optionalFact ''costMinorUnits'' FNum (us_costMinorUnits usage) @
        optionalFact ''currency'' FText (us_currency usage)) (Some (us_runId usage))) (\<lambda>_.
     modify (\<lambda>s. s\<lparr>cp_usage := mset_at (cp_usage s) usageKey usage\<rparr>))))"

end
