(* ===== verification/Control_Plane_Effects.thy ===== *)
theory Control_Plane_Effects
  imports Control_Plane
begin

text \<open>
  An abstract specification of the control plane: a relation \<open>effect\<close> whose rules say which records
  a call may write, who may make it and under which conditions, and the proof that every method of
  \<open>Control_Plane\<close> refines it.  The invariants are proved over the rules, not over the methods.
\<close>

section \<open>Stores\<close>

text \<open>A map that holds each record once, under the key of its own fields.\<close>

definition storeOk :: "('v \<Rightarrow> string) \<Rightarrow> 'v jsmap \<Rightarrow> bool" where
  "storeOk f m = (jsmap_ok m \<and> keyed_by f m)"

lemma storeOk_simps [simp]:
  "storeOk f []"
  "storeOk f m \<Longrightarrow> k = f v \<Longrightarrow> storeOk f (mset_at m k v)"
  "storeOk f m \<Longrightarrow> storeOk f (mdelete m k)"
  by (simp_all add: storeOk_def)

lemma storeOk_get: "storeOk f m \<Longrightarrow> mget m k = Some v \<Longrightarrow> f v = k"
  by (auto simp: storeOk_def dest: keyed_byD)

lemma storeOk_values: "storeOk f m \<Longrightarrow> v \<in> set (mvalues m) \<longleftrightarrow> mget m (f v) = Some v"
  by (auto simp: storeOk_def mvalues_iff dest: keyed_byD)

lemma mset_at_restore: "jsmap_ok m \<Longrightarrow> mget m k = Some p \<Longrightarrow> mset_at (mset_at m k c) k p = m"
  by (induction m) (auto simp: mset_at_def jsmap_ok_def)

lemma mdelete_restore: "mget m k = None \<Longrightarrow> mdelete (mset_at m k c) k = m"
  by (induction m) (auto simp: mset_at_def mdelete_def split: if_splits)

abbreviation runtimeKey :: "Runtime \<Rightarrow> string" where "runtimeKey x \<equiv> key (rt_workspaceId x) (rt_id x)"
abbreviation capabilityKey :: "Capability \<Rightarrow> string" where "capabilityKey x \<equiv> key (cap_workspaceId x) (cap_id x)"
abbreviation toolKey :: "Tool \<Rightarrow> string" where "toolKey x \<equiv> key (tool_workspaceId x) (tool_id x)"
abbreviation agentKey :: "Agent \<Rightarrow> string" where "agentKey x \<equiv> key (ag_workspaceId x) (ag_id x)"
abbreviation agentCapabilityKey :: "AgentCapability \<Rightarrow> string" where
  "agentCapabilityKey x \<equiv> key (acap_workspaceId x) (acap_id x)"
abbreviation toolGrantKey :: "ToolGrant \<Rightarrow> string" where "toolGrantKey x \<equiv> key (tg_workspaceId x) (tg_id x)"
abbreviation authorityKey :: "AuthorityGrant \<Rightarrow> string" where "authorityKey x \<equiv> key (auth_workspaceId x) (auth_id x)"
abbreviation connectionKey :: "RuntimeConnection \<Rightarrow> string" where "connectionKey x \<equiv> key (conn_workspaceId x) (conn_id x)"
abbreviation heartbeatKey :: "Heartbeat \<Rightarrow> string" where "heartbeatKey x \<equiv> key (hb_workspaceId x) (hb_id x)"
abbreviation taskKey :: "ControlPlaneTask \<Rightarrow> string" where "taskKey x \<equiv> key (task_workspaceId x) (task_id x)"
abbreviation runKey :: "AgentRun \<Rightarrow> string" where "runKey x \<equiv> key (run_workspaceId x) (run_id x)"
abbreviation planeEventKey :: "ControlPlaneEvent \<Rightarrow> string" where "planeEventKey x \<equiv> key (ev_workspaceId x) (ev_id x)"
abbreviation usageKey :: "UsageRecord \<Rightarrow> string" where "usageKey x \<equiv> key (us_workspaceId x) (us_id x)"

text \<open>The task and the connection a run refers to, and the run a permit is for.\<close>

abbreviation runTaskKey :: "AgentRun \<Rightarrow> string" where "runTaskKey x \<equiv> key (run_workspaceId x) (run_taskId x)"
abbreviation runConnectionKey :: "AgentRun \<Rightarrow> string" where
  "runConnectionKey x \<equiv> key (run_workspaceId x) (run_runtimeConnectionId x)"
abbreviation permitRunKey :: "RuntimeDispatchPermit \<Rightarrow> string" where
  "permitRunKey d \<equiv> key (env_workspaceId (dp_envelope d)) (env_runId (dp_envelope d))"
abbreviation permitKey :: "RuntimeDispatchPermit \<Rightarrow> string" where
  "permitKey d \<equiv> key (env_workspaceId (dp_envelope d)) (dp_dispatchId d)"

definition storesOk :: "ControlPlane \<Rightarrow> bool" where
  "storesOk s \<longleftrightarrow>
     storeOk runtimeKey (cp_runtimes s) \<and> storeOk capabilityKey (cp_capabilities s) \<and>
     storeOk toolKey (cp_tools s) \<and> storeOk agentKey (cp_agents s) \<and>
     storeOk agentCapabilityKey (cp_agentCapabilities s) \<and> storeOk toolGrantKey (cp_toolGrants s) \<and>
     storeOk authorityKey (cp_authorityGrants s) \<and> storeOk connectionKey (cp_connections s) \<and>
     storeOk heartbeatKey (cp_heartbeats s) \<and> storeOk taskKey (cp_tasks s) \<and> storeOk runKey (cp_runs s) \<and>
     storeOk planeEventKey (cp_eventsById s) \<and> storeOk usageKey (cp_usage s) \<and>
     storeOk permitKey (cp_dispatches s) \<and>
     jsmap_ok (cp_runtimeAdapters s) \<and> jsmap_ok (cp_cancellations s) \<and> jsmap_ok (cp_inFlightDispatchAdapters s)"

text \<open>Where a record is found, its fields give the key.\<close>

lemma runtimes_get: "storesOk s \<Longrightarrow> mget (cp_runtimes s) k = Some x \<Longrightarrow> runtimeKey x = k"
  by (rule storeOk_get [where f = runtimeKey and m = "cp_runtimes s"]) (simp_all add: storesOk_def)

lemma agents_get: "storesOk s \<Longrightarrow> mget (cp_agents s) k = Some x \<Longrightarrow> agentKey x = k"
  by (rule storeOk_get [where f = agentKey and m = "cp_agents s"]) (simp_all add: storesOk_def)

lemma connections_get: "storesOk s \<Longrightarrow> mget (cp_connections s) k = Some x \<Longrightarrow> connectionKey x = k"
  by (rule storeOk_get [where f = connectionKey and m = "cp_connections s"]) (simp_all add: storesOk_def)

lemma heartbeats_get: "storesOk s \<Longrightarrow> mget (cp_heartbeats s) k = Some x \<Longrightarrow> heartbeatKey x = k"
  by (rule storeOk_get [where f = heartbeatKey and m = "cp_heartbeats s"]) (simp_all add: storesOk_def)

lemma tasks_get: "storesOk s \<Longrightarrow> mget (cp_tasks s) k = Some x \<Longrightarrow> taskKey x = k"
  by (rule storeOk_get [where f = taskKey and m = "cp_tasks s"]) (simp_all add: storesOk_def)

lemma runs_get: "storesOk s \<Longrightarrow> mget (cp_runs s) k = Some x \<Longrightarrow> runKey x = k"
  by (rule storeOk_get [where f = runKey and m = "cp_runs s"]) (simp_all add: storesOk_def)

lemma usage_get: "storesOk s \<Longrightarrow> mget (cp_usage s) k = Some x \<Longrightarrow> usageKey x = k"
  by (rule storeOk_get [where f = usageKey and m = "cp_usage s"]) (simp_all add: storesOk_def)

lemma dispatches_get: "storesOk s \<Longrightarrow> mget (cp_dispatches s) k = Some x \<Longrightarrow> permitKey x = k"
  by (rule storeOk_get [where f = permitKey and m = "cp_dispatches s"]) (simp_all add: storesOk_def)

lemma eventsById_get: "storesOk s \<Longrightarrow> mget (cp_eventsById s) k = Some x \<Longrightarrow> planeEventKey x = k"
  by (rule storeOk_get [where f = planeEventKey and m = "cp_eventsById s"]) (simp_all add: storesOk_def)

lemma runs_values: "storesOk s \<Longrightarrow> x \<in> set (mvalues (cp_runs s)) \<longleftrightarrow> mget (cp_runs s) (runKey x) = Some x"
  by (rule storeOk_values [where f = runKey]) (simp add: storesOk_def)

lemma heartbeats_values: "storesOk s \<Longrightarrow> x \<in> set (mvalues (cp_heartbeats s)) \<longleftrightarrow> mget (cp_heartbeats s) (heartbeatKey x) = Some x"
  by (rule storeOk_values [where f = heartbeatKey]) (simp add: storesOk_def)

lemma usage_values: "storesOk s \<Longrightarrow> x \<in> set (mvalues (cp_usage s)) \<longleftrightarrow> mget (cp_usage s) (usageKey x) = Some x"
  by (rule storeOk_values [where f = usageKey]) (simp add: storesOk_def)

lemma connections_values: "storesOk s \<Longrightarrow> x \<in> set (mvalues (cp_connections s)) \<longleftrightarrow> mget (cp_connections s) (connectionKey x) = Some x"
  by (rule storeOk_values [where f = connectionKey]) (simp add: storesOk_def)

lemma require_Inr [outcome_simps]:
  "require m cx i label = Inr v \<longleftrightarrow> mget m (key (cx_workspaceId cx) i) = Some v"
  by (auto simp: require_def split: option.splits)

lemma assertWorkspace_Inr [outcome_simps]: "assertWorkspace cx w = Inr u \<longleftrightarrow> cx_workspaceId cx = w"
  by (simp add: assertWorkspace_def)

lemma assertAuthorizer_Inr [outcome_simps]: "assertAuthorizer s cx = Inr u \<longleftrightarrow> isAuthorizer s cx"
  by (simp add: assertAuthorizer_def)

lemma assertConnectionOperator_Inr [outcome_simps]:
  "assertConnectionOperator s cx c action = Inr u \<longleftrightarrow> operatesConnection s cx c"
  by (simp add: assertConnectionOperator_def)

lemma assertNonNegativeInteger_Inr [outcome_simps]:
  "assertNonNegativeInteger n f = Inr u \<longleftrightarrow> isSafeInteger n \<and> 0 \<le> n"
  by (simp add: assertNonNegativeInteger_def)

lemma assertString_Inr [outcome_simps]:
  "assertString v f = Inr u \<longleftrightarrow> (\<exists>t. v = JStr t \<and> nonBlankUpTo 2048 t)"
  by (auto simp: assertString_def split: json.splits)

text \<open>Case analysis of methods by their first step.\<close>

lemma readsE [consumes 1, case_names failed passed]:
  assumes "andThen (reads f) k s = (r, t)"
  obtains e where "f s = Inl e" "r = Inl e" "t = s" | x where "f s = Inr x" "k x s = (r, t)"
  using assms by (cases "f s") (auto simp: andThen_def reads_def)

lemma updated_pair: "modify f s = (r, t) \<longleftrightarrow> r = Inr () \<and> t = f s"
  by (auto simp: modify_def)

lemma andThen_modify: "andThen (modify f) k s = k () (f s)"
  by (simp add: andThen_def modify_def)

lemma andThen_onError_reads:
  "andThen (onError (reads f) h) k s = (case f s of Inl e \<Rightarrow> (Inl e, h s) | Inr x \<Rightarrow> k x s)"
  by (auto simp: andThen_def onError_def reads_def split: sum.splits)

lemma ret_pair: "ret x s = (r, t) \<longleftrightarrow> r = Inr x \<and> t = s"
  by (auto simp: ret_def)

lemma reads_pair: "reads f s = (r, t) \<longleftrightarrow> r = f s \<and> t = s"
  by (auto simp: reads_def)

section \<open>The event log as the plane sees it\<close>

text \<open>Nothing is recorded, or one accepted batch is appended.\<close>

inductive logGrows :: "(EventLog \<times> EventCapability) option \<Rightarrow> (EventLog \<times> EventCapability) option \<Rightarrow> bool" where
  log_same: "logGrows l l"
| log_append: "appendBatch c cx batch sink = Inr sink' \<Longrightarrow> logGrows (Some (sink, capability)) (Some (sink', capability))"

lemma emit_cases:
  assumes "emitOperationalEvent env cx type st si facts cor s = (r, t)"
  obtains e where "r = Inl e" "t = s"
  | l where "r = Inr ()" "t = s\<lparr>cp_events := l\<rparr>" "logGrows (cp_events s) l"
proof (cases "cp_events s")
  case None
  with assms have "r = Inr ()" "t = s\<lparr>cp_events := cp_events s\<rparr>"
    by (auto simp: emitOperationalEvent_def updates_def)
  with that(2) show ?thesis by (blast intro: log_same)
next
  case (Some p)
  obtain sink capability where p: "p = (sink, capability)" by force
  show ?thesis
  proof (cases r)
    case (Inl e)
    with assms have "t = s" by (auto simp: emitOperationalEvent_def updates_def split: sum.splits)
    with Inl that(1) show ?thesis by blast
  next
    case (Inr u)
    with assms Some p obtain e sink' where "appendEvents capability cx e sink = Inr sink'"
      "t = s\<lparr>cp_events := Some (sink', capability)\<rparr>"
      by (auto simp: emitOperationalEvent_def updates_def outcome_simps split: sum.splits)
    with Some p Inr that(2) show ?thesis by (auto simp: appendEvents_def intro: log_append)
  qed
qed

section \<open>Abstract effects\<close>

text \<open>
  What a call of the plane may do to its state, as a relation: which records may be written, by
  whom and under which conditions.  The label says whether an adapter call begins or ends.
\<close>

datatype label = Quiet | Claimed string EntityId | Released string | CancelClaimed string | CancelReleased string

definition adapterFree :: "ControlPlane \<Rightarrow> WorkspaceContext \<Rightarrow> Runtime \<Rightarrow> bool" where
  "adapterFree s cx runtime = (\<forall>previous. mget (cp_runtimeAdapters s) (runtimeKey runtime) = Some previous \<longrightarrow>
     ar_registrationId previous \<notin> set (mvalues (cp_inFlightDispatchAdapters s)) \<and>
     \<not> hasActiveBoundRun s cx (ar_registrationId previous) (rt_id runtime))"

definition mayWriteConnection :: "ControlPlane \<Rightarrow> WorkspaceContext \<Rightarrow> RuntimeConnection \<Rightarrow> bool" where
  "mayWriteConnection s cx c = (case mget (cp_connections s) (connectionKey c) of
     None \<Rightarrow> isAuthorizer s cx
   | Some p \<Rightarrow> operatesConnection s cx p \<and> (isAuthorizer s cx \<or> sameBinding c p) \<and>
       (sameBinding c p \<or> \<not> connectionHasActiveRun s c))"

definition withinBudget :: "ControlPlane \<Rightarrow> ControlPlaneTask \<Rightarrow> UsageRecord \<Rightarrow> bool" where
  "withinBudget s task usage = (let prior = taskUsage s (us_workspaceId usage) (us_taskId usage) in
     (\<forall>cost. us_costMinorUnits usage = Some cost \<longrightarrow> isSafeInteger cost \<and> 0 \<le> cost \<and>
        us_currency usage = Some (cl_currency (task_costLimit task)) \<and>
        \<not> double_round (totalCost prior + cost) > cl_maximumMinorUnits (task_costLimit task)) \<and>
     (\<forall>units. us_computeUnits usage = Some units \<longrightarrow> isSafeInteger units \<and> 0 \<le> units \<and>
        \<not> double_round (totalCompute prior + units) > cl_maximumComputeUnits (task_costLimit task)))"

inductive effect :: "WorkspaceContext \<Rightarrow> label \<Rightarrow> ControlPlane \<Rightarrow> ControlPlane \<Rightarrow> bool" for cx where
  eff_none: "logGrows (cp_events s) l \<Longrightarrow> effect cx Quiet s (s\<lparr>cp_events := l\<rparr>)"
| eff_runtime: "isAuthorizer s cx \<Longrightarrow> rt_workspaceId x = cx_workspaceId cx \<Longrightarrow>
    effect cx Quiet s (s\<lparr>cp_runtimes := mset_at (cp_runtimes s) (runtimeKey x) x\<rparr>)"
| eff_adapter: "isAuthorizer s cx \<Longrightarrow> rt_workspaceId runtime = cx_workspaceId cx \<Longrightarrow>
    mget (cp_runtimes s) (runtimeKey runtime) = Some runtime \<Longrightarrow> adapterFree s cx runtime \<Longrightarrow>
    effect cx Quiet s (s\<lparr>cp_runtimeAdapters := mset_at (cp_runtimeAdapters s) (runtimeKey runtime) registration\<rparr>)"
| eff_capability: "isAuthorizer s cx \<Longrightarrow> cap_workspaceId x = cx_workspaceId cx \<Longrightarrow>
    effect cx Quiet s (s\<lparr>cp_capabilities := mset_at (cp_capabilities s) (capabilityKey x) x\<rparr>)"
| eff_tool: "isAuthorizer s cx \<Longrightarrow> tool_workspaceId x = cx_workspaceId cx \<Longrightarrow>
    effect cx Quiet s (s\<lparr>cp_tools := mset_at (cp_tools s) (toolKey x) x\<rparr>)"
| eff_agent: "isAuthorizer s cx \<Longrightarrow> ag_workspaceId x = cx_workspaceId cx \<Longrightarrow>
    mhas (cp_runtimes s) (key (ag_workspaceId x) (ag_runtimeId x)) \<Longrightarrow> positiveSafe (ag_maxConcurrentRuns x) \<Longrightarrow>
    effect cx Quiet s (s\<lparr>cp_agents := mset_at (cp_agents s) (agentKey x) x\<rparr>)"
| eff_agentCapability: "isAuthorizer s cx \<Longrightarrow> acap_workspaceId x = cx_workspaceId cx \<Longrightarrow>
    mhas (cp_agents s) (key (acap_workspaceId x) (acap_agentId x)) \<Longrightarrow>
    mhas (cp_capabilities s) (key (acap_workspaceId x) (acap_capabilityId x)) \<Longrightarrow>
    effect cx Quiet s (s\<lparr>cp_agentCapabilities := mset_at (cp_agentCapabilities s) (agentCapabilityKey x) x\<rparr>)"
| eff_toolGrant: "isAuthorizer s cx \<Longrightarrow> tg_workspaceId x = cx_workspaceId cx \<Longrightarrow>
    mhas (cp_agents s) (key (tg_workspaceId x) (tg_agentId x)) \<Longrightarrow>
    mhas (cp_tools s) (key (tg_workspaceId x) (tg_toolId x)) \<Longrightarrow> tg_scopes x \<noteq> [] \<Longrightarrow>
    effect cx Quiet s (s\<lparr>cp_toolGrants := mset_at (cp_toolGrants s) (toolGrantKey x) x\<rparr>)"
| eff_authority: "isAuthorizer s cx \<Longrightarrow> auth_workspaceId x = cx_workspaceId cx \<Longrightarrow>
    mget (cp_agents s) (key (auth_workspaceId x) (auth_agentId x)) = Some agent \<Longrightarrow>
    auth_level x \<le> ag_authorityLevel agent \<Longrightarrow> assertCostLimit (auth_costLimit x) = Inr () \<Longrightarrow>
    positiveSafe (auth_maxConcurrentRuns x) \<Longrightarrow>
    effect cx Quiet s (s\<lparr>cp_authorityGrants := mset_at (cp_authorityGrants s) (authorityKey x) x\<rparr>)"
| eff_connection: "conn_workspaceId c = cx_workspaceId cx \<Longrightarrow> mayWriteConnection s cx c \<Longrightarrow>
    mhas (cp_runtimes s) (key (conn_workspaceId c) (conn_runtimeId c)) \<Longrightarrow> logGrows (cp_events s) l \<Longrightarrow>
    effect cx Quiet s (s\<lparr>cp_connections := mset_at (cp_connections s) (connectionKey c) c, cp_events := l\<rparr>)"
| eff_heartbeat: "hb_workspaceId h = cx_workspaceId cx \<Longrightarrow>
    mget (cp_connections s) (key (hb_workspaceId h) (hb_runtimeConnectionId h)) = Some c \<Longrightarrow>
    conn_authenticatedPrincipalId c = Some (cx_principalId cx) \<Longrightarrow> hb_principalId h = cx_principalId cx \<Longrightarrow>
    \<not> mhas (cp_heartbeats s) (heartbeatKey h) \<Longrightarrow>
    highestSequence s (hb_workspaceId h) (hb_runtimeConnectionId h) < hb_sequence h \<Longrightarrow> logGrows (cp_events s) l \<Longrightarrow>
    effect cx Quiet s (s\<lparr>cp_events := l, cp_heartbeats := mset_at (cp_heartbeats s) (heartbeatKey h) h\<rparr>)"
| eff_task: "task_workspaceId x = cx_workspaceId cx \<Longrightarrow>
    isAuthorizer s cx \<or> cx_principalId cx \<in> cfg_plannerPrincipals (cp_config s) \<Longrightarrow> task_status x = T_READY \<Longrightarrow>
    validateCurrentTaskPolicy s now cx x = Inr granted \<Longrightarrow> \<not> mhas (cp_tasks s) (taskKey x) \<Longrightarrow>
    logGrows (cp_events s) l \<Longrightarrow>
    effect cx Quiet s (s\<lparr>cp_events := l, cp_tasks := mset_at (cp_tasks s) (taskKey x) x\<rparr>)"
| eff_taskMoved: "task_workspaceId x = cx_workspaceId cx \<Longrightarrow> mget (cp_tasks s) (taskKey x) = Some x \<Longrightarrow>
    assertTaskOperator s now cx x = Inr () \<Longrightarrow> \<not> taskHasActiveRun s (task_workspaceId x) (task_id x) \<Longrightarrow>
    next \<notin> {T_RUNNING, T_COMPLETED} \<Longrightarrow> next \<in> set (TASK_TRANSITIONS (task_status x)) \<Longrightarrow> logGrows (cp_events s) l \<Longrightarrow>
    effect cx Quiet s (s\<lparr>cp_events := l, cp_tasks := mset_at (cp_tasks s) (taskKey x) (x\<lparr>task_status := next\<rparr>)\<rparr>)"
| eff_run: "run_workspaceId x = cx_workspaceId cx \<Longrightarrow> run_status x = R_QUEUED \<Longrightarrow>
    run_externalRunId x = None \<Longrightarrow> run_adapterRegistrationId x = None \<Longrightarrow> run_startedAt x = None \<Longrightarrow>
    run_completedAt x = None \<Longrightarrow> mget (cp_tasks s) (runTaskKey x) = Some task \<Longrightarrow> task_status task = T_READY \<Longrightarrow>
    validateCurrentTaskPolicy s now cx task = Inr (agent, authority) \<Longrightarrow>
    run_agentId x = task_assignedAgentId task \<Longrightarrow>
    mget (cp_agents s) (key (run_workspaceId x) (run_agentId x)) = Some agent \<Longrightarrow>
    mget (cp_connections s) (runConnectionKey x) = Some c \<Longrightarrow> conn_runtimeId c = ag_runtimeId agent \<Longrightarrow>
    operatesConnection s cx c \<Longrightarrow> assertConnectionCanRunTask s now cx c task = Inr () \<Longrightarrow>
    assertRemainingTaskBudget s task = Inr () \<Longrightarrow> \<not> mhas (cp_runs s) (runKey x) \<Longrightarrow>
    \<not> taskHasActiveRun s (run_workspaceId x) (run_taskId x) \<Longrightarrow>
    int (activeRunCount s (run_workspaceId x) (run_agentId x)) <
      min (ag_maxConcurrentRuns agent) (auth_maxConcurrentRuns authority) \<Longrightarrow> logGrows (cp_events s) l \<Longrightarrow>
    effect cx Quiet s (s\<lparr>cp_events := l, cp_runs := mset_at (cp_runs s) (runKey x) x\<rparr>)"
| eff_minted: "run_workspaceId x = cx_workspaceId cx \<Longrightarrow> mget (cp_runs s) (runKey x) = Some x \<Longrightarrow>
    run_status x = R_QUEUED \<Longrightarrow> runKey x \<notin> cp_dispatchedRuns s \<Longrightarrow>
    mget (cp_connections s) (runConnectionKey x) = Some c \<Longrightarrow> operatesConnection s cx c \<Longrightarrow>
    permitRunKey d = runKey x \<Longrightarrow> dp_runtimePrincipalId d = conn_authenticatedPrincipalId c \<Longrightarrow>
    effect cx Quiet s (s\<lparr>cp_dispatches := mset_at (cp_dispatches s) (permitKey d) d,
      cp_dispatchedRuns := insert (runKey x) (cp_dispatchedRuns s)\<rparr>)"
| eff_dropped: "env_workspaceId (dp_envelope d) = cx_workspaceId cx \<Longrightarrow> mget (cp_dispatches s) (permitKey d) = Some d \<Longrightarrow>
    effect cx Quiet s (s\<lparr>cp_dispatches := mdelete (cp_dispatches s) (permitKey d),
      cp_dispatchedRuns := cp_dispatchedRuns s - {permitRunKey d}\<rparr>)"
| eff_claimed: "env_workspaceId (dp_envelope d) = cx_workspaceId cx \<Longrightarrow> mget (cp_dispatches s) (permitKey d) = Some d \<Longrightarrow>
    mget (cp_runs s) (permitRunKey d) = Some x \<Longrightarrow> run_status x = R_QUEUED \<Longrightarrow>
    mget (cp_connections s) (runConnectionKey x) = Some c \<Longrightarrow>
    conn_authenticatedPrincipalId c = Some (cx_principalId cx) \<Longrightarrow>
    adapterRegistrationAt s cx (conn_runtimeId c) = Some (dp_adapterRegistrationId d) \<Longrightarrow>
    dispatchStillValid s now cx d = Inr () \<Longrightarrow>
    effect cx (Claimed (permitRunKey d) (dp_adapterRegistrationId d)) s
      (s\<lparr>cp_dispatches := mdelete (cp_dispatches s) (permitKey d),
        cp_claimedDispatchRuns := insert (permitRunKey d) (cp_claimedDispatchRuns s),
        cp_inFlightDispatchAdapters :=
          mset_at (cp_inFlightDispatchAdapters s) (permitRunKey d) (dp_adapterRegistrationId d)\<rparr>)"
| eff_released: "k = key (cx_workspaceId cx) i \<Longrightarrow> effect cx (Released k) s
    (s\<lparr>cp_inFlightDispatchAdapters := mdelete (cp_inFlightDispatchAdapters s) k\<rparr>)"
| eff_bound: "run_workspaceId x = cx_workspaceId cx \<Longrightarrow> mget (cp_runs s) (runKey x) = Some x \<Longrightarrow>
    activeStatus (run_status x) \<Longrightarrow> runKey x \<in> cp_claimedDispatchRuns s \<Longrightarrow>
    mget (cp_inFlightDispatchAdapters s) (runKey x) = Some registrationId \<Longrightarrow>
    mget (cp_connections s) (runConnectionKey x) = Some c \<Longrightarrow>
    conn_authenticatedPrincipalId c = Some (cx_principalId cx) \<Longrightarrow>
    adapterRegistrationAt s cx (conn_runtimeId c) = Some registrationId \<Longrightarrow> nonBlankUpTo 2048 externalRunId \<Longrightarrow>
    \<not> (\<exists>candidate \<in> set (mvalues (cp_runs s)). run_workspaceId candidate = run_workspaceId x \<and>
        run_id candidate \<noteq> run_id x \<and> run_runtimeConnectionId candidate = run_runtimeConnectionId x \<and>
        run_externalRunId candidate = Some externalRunId) \<Longrightarrow>
    effect cx (Released (runKey x)) s
      (s\<lparr>cp_runs := mset_at (cp_runs s) (runKey x)
          (x\<lparr>run_externalRunId := Some externalRunId, run_adapterRegistrationId := Some registrationId\<rparr>),
        cp_inFlightDispatchAdapters := mdelete (cp_inFlightDispatchAdapters s) (runKey x)\<rparr>)"
| eff_cancelMinted: "run_workspaceId x = cx_workspaceId cx \<Longrightarrow> mget (cp_runs s) (runKey x) = Some x \<Longrightarrow>
    activeStatus (run_status x) \<Longrightarrow> truthy (run_externalRunId x) \<Longrightarrow> runKey x \<notin> cp_cancelledRuns s \<Longrightarrow>
    mget (cp_connections s) (runConnectionKey x) = Some c \<Longrightarrow> operatesConnection s cx c \<Longrightarrow> cn_runId cn = run_id x \<Longrightarrow>
    effect cx Quiet s (s\<lparr>
      cp_cancellations := mset_at (cp_cancellations s) (key (run_workspaceId x) (cn_cancellationId cn)) cn,
      cp_cancelledRuns := insert (runKey x) (cp_cancelledRuns s)\<rparr>)"
| eff_cancelDropped: "k = key (cx_workspaceId cx) (cn_cancellationId cn) \<Longrightarrow> mget (cp_cancellations s) k = Some cn \<Longrightarrow>
    effect cx Quiet s (s\<lparr>cp_cancellations := mdelete (cp_cancellations s) k,
      cp_cancelledRuns := cp_cancelledRuns s - {key (cx_workspaceId cx) (cn_runId cn)}\<rparr>)"
| eff_cancelClaimed: "k = key (cx_workspaceId cx) (cn_cancellationId cn) \<Longrightarrow> mget (cp_cancellations s) k = Some cn \<Longrightarrow>
    cancellationStillValid s cx cn = Inr () \<Longrightarrow>
    effect cx (CancelClaimed (key (cx_workspaceId cx) (cn_runId cn))) s
      (s\<lparr>cp_cancellations := mdelete (cp_cancellations s) k\<rparr>)"
| eff_cancelSucceeded: "k = key (cx_workspaceId cx) i \<Longrightarrow> effect cx (CancelReleased k) s
    (s\<lparr>cp_successfulCancellations := insert k (cp_successfulCancellations s)\<rparr>)"
| eff_cancelFailed: "k = key (cx_workspaceId cx) i \<Longrightarrow> effect cx (CancelReleased k) s
    (s\<lparr>cp_cancelledRuns := cp_cancelledRuns s - {k}\<rparr>)"
| eff_runMoved: "run_workspaceId x = cx_workspaceId cx \<Longrightarrow> mget (cp_runs s) (runKey x) = Some x \<Longrightarrow>
    \<not> mhas (cp_inFlightDispatchAdapters s) (runKey x) \<Longrightarrow> mget (cp_connections s) (runConnectionKey x) = Some c \<Longrightarrow>
    operatesConnection s cx c \<Longrightarrow> next \<in> set (RUN_TRANSITIONS (run_status x)) \<Longrightarrow>
    next = R_CANCELLED \<and> truthy (run_externalRunId x) \<longrightarrow> runKey x \<in> cp_successfulCancellations s \<Longrightarrow>
    run_status x = R_QUEUED \<and> next = R_RUNNING \<longrightarrow>
      runKey x \<in> cp_claimedDispatchRuns s \<and> truthy (run_externalRunId x) \<Longrightarrow>
    mget (cp_tasks s) (runTaskKey x) = Some task \<Longrightarrow> runTaskKey x = taskKey task \<Longrightarrow>
    (\<And>taskNext. taskNextFor (run_status x) next = Some taskNext \<Longrightarrow>
      taskNext \<in> set (TASK_TRANSITIONS (task_status task))) \<Longrightarrow> logGrows (cp_events s) l \<Longrightarrow>
    effect cx Quiet s (s\<lparr>cp_events := l, cp_runs := mset_at (cp_runs s) (runKey x) (updatedRun x next now),
      cp_tasks := (case taskNextFor (run_status x) next of None \<Rightarrow> cp_tasks s
        | Some taskNext \<Rightarrow> mset_at (cp_tasks s) (taskKey task) (task\<lparr>task_status := taskNext\<rparr>))\<rparr>)"
| eff_event: "ev_workspaceId e = cx_workspaceId cx \<Longrightarrow> ev_actorId e = cx_principalId cx \<Longrightarrow>
    \<not> mhas (cp_eventsById s) (planeEventKey e) \<Longrightarrow> k = key (ev_workspaceId e) (ev_idempotencyKey e) \<Longrightarrow>
    \<not> mhas (cp_eventIdempotency s) k \<Longrightarrow> assertBoundedRecord (ev_payload e) = Inr () \<Longrightarrow> logGrows (cp_events s) l \<Longrightarrow>
    effect cx Quiet s (s\<lparr>cp_events := l, cp_eventsById := mset_at (cp_eventsById s) (planeEventKey e) e,
      cp_eventIdempotency := mset_at (cp_eventIdempotency s) k (ev_id e)\<rparr>)"
| eff_usage: "us_workspaceId x = cx_workspaceId cx \<Longrightarrow> \<not> mhas (cp_usage s) (usageKey x) \<Longrightarrow>
    mget (cp_tasks s) (key (us_workspaceId x) (us_taskId x)) = Some task \<Longrightarrow>
    mget (cp_runs s) (key (us_workspaceId x) (us_runId x)) = Some run \<Longrightarrow> run_taskId run = us_taskId x \<Longrightarrow>
    mget (cp_connections s) (runConnectionKey run) = Some c \<Longrightarrow> operatesConnection s cx c \<Longrightarrow>
    withinBudget s task x \<Longrightarrow> logGrows (cp_events s) l \<Longrightarrow>
    effect cx Quiet s (s\<lparr>cp_events := l, cp_usage := mset_at (cp_usage s) (usageKey x) x\<rparr>)"

lemma effect_refl: "effect cx Quiet s s"
  using eff_none [OF log_same, where s = s] by simp

section \<open>Every method refines the effects\<close>

lemma emitE [consumes 1, case_names failed recorded]:
  assumes "andThen (emitOperationalEvent env cx type st si facts cor) k s = (r, t)"
  obtains e where "r = Inl e" "t = s"
  | l where "logGrows (cp_events s) l" "k () (s\<lparr>cp_events := l\<rparr>) = (r, t)"
proof -
  obtain r' t' where e: "emitOperationalEvent env cx type st si facts cor s = (r', t')" by force
  from e show ?thesis
    by (cases rule: emit_cases) (use assms e that in \<open>auto simp: andThen_def\<close>)
qed

lemma putRuntime_effect: "putRuntime cx x s = (r, t) \<Longrightarrow> effect cx Quiet s t"
  unfolding putRuntime_def
  by (erule readsE) (auto simp: updated_pair outcome_simps intro!: effect_refl eff_runtime)

lemma putCapability_effect: "putCapability cx x s = (r, t) \<Longrightarrow> effect cx Quiet s t"
  unfolding putCapability_def
  by (erule readsE) (auto simp: updated_pair outcome_simps intro!: effect_refl eff_capability)

lemma putTool_effect: "putTool cx x s = (r, t) \<Longrightarrow> effect cx Quiet s t"
  unfolding putTool_def
  by (erule readsE) (auto simp: updated_pair outcome_simps intro!: effect_refl eff_tool)

lemma putAgent_effect: "putAgent cx x s = (r, t) \<Longrightarrow> effect cx Quiet s t"
  unfolding putAgent_def
  by (erule readsE) (auto simp: updated_pair outcome_simps mhas_iff intro!: effect_refl eff_agent)

lemma grantAgentCapability_effect: "grantAgentCapability cx x s = (r, t) \<Longrightarrow> effect cx Quiet s t"
  unfolding grantAgentCapability_def
  by (erule readsE) (auto simp: updated_pair outcome_simps mhas_iff intro!: effect_refl eff_agentCapability)

lemma grantTool_effect: "grantTool cx x s = (r, t) \<Longrightarrow> effect cx Quiet s t"
  unfolding grantTool_def
  by (erule readsE) (auto simp: updated_pair outcome_simps mhas_iff intro!: effect_refl eff_toolGrant)

lemma grantAuthority_effect: "grantAuthority cx x s = (r, t) \<Longrightarrow> effect cx Quiet s t"
  unfolding grantAuthority_def
  by (erule readsE) (auto simp: updated_pair outcome_simps intro!: effect_refl intro: eff_authority)

lemma registerRuntimeAdapter_effect:
  assumes "registerRuntimeAdapter env cx runtimeId kind s = (r, t)" and ok: "storesOk s"
  shows "effect cx Quiet s t"
  using assms(1) unfolding registerRuntimeAdapter_def
proof (cases rule: readsE)
  case (passed adapterKey)
  then obtain runtime where runtime: "isAuthorizer s cx" "mget (cp_runtimes s) (key (cx_workspaceId cx) runtimeId) = Some runtime"
    and free: "case mget (cp_runtimeAdapters s) (key (cx_workspaceId cx) (rt_id runtime)) of None \<Rightarrow> True
      | Some previous \<Rightarrow> ar_registrationId previous \<notin> set (mvalues (cp_inFlightDispatchAdapters s)) \<and>
          \<not> hasActiveBoundRun s cx (ar_registrationId previous) (rt_id runtime)"
    and adapterKey: "adapterKey = key (cx_workspaceId cx) (rt_id runtime)"
    by (auto simp: outcome_simps split: option.splits)
  have k: "key (cx_workspaceId cx) runtimeId = runtimeKey runtime"
    using runtimes_get [OF ok runtime(2)] by (rule sym)
  with runtime free have "adapterFree s cx runtime"
    by (auto simp: adapterFree_def split: option.splits)
  moreover have "t = s\<lparr>cp_runtimeAdapters := mset_at (cp_runtimeAdapters s) (runtimeKey runtime)
      \<lparr>ar_registrationId = ce_uuid env, ar_adapterKind = kind\<rparr>\<rparr>"
    using passed(2) adapterKey k by (simp add: updated_pair)
  ultimately show ?thesis using runtime k by (auto intro: eff_adapter)
qed (simp add: effect_refl)

lemma recordHeartbeat_effect:
  assumes "recordHeartbeat env cx x s = (r, t)"
  shows "effect cx Quiet s t"
  using assms unfolding recordHeartbeat_def
proof (cases rule: readsE)
  case (passed u)
  from passed(2) show ?thesis
  proof (cases rule: emitE)
    case (recorded l)
    with passed(1) show ?thesis
      by (auto simp: updated_pair outcome_simps intro!: eff_heartbeat)
  qed (simp add: effect_refl)
qed (simp add: effect_refl)

lemma createTask_effect:
  assumes "createTask env cx x s = (r, t)"
  shows "effect cx Quiet s t"
  using assms unfolding createTask_def
proof (cases rule: readsE)
  case (passed u)
  from passed(2) show ?thesis
  proof (cases rule: emitE)
    case (recorded l)
    from passed(1) obtain granted where "cx_workspaceId cx = task_workspaceId x" "task_status x = T_READY"
      "isAuthorizer s cx \<or> cx_principalId cx \<in> cfg_plannerPrincipals (cp_config s)"
      "validateCurrentTaskPolicy s (ce_now env) cx x = Inr granted" "\<not> mhas (cp_tasks s) (taskKey x)"
      by (auto simp: outcome_simps)
    with recorded show ?thesis by (auto simp: updated_pair intro: eff_task)
  qed (simp add: effect_refl)
qed (simp add: effect_refl)

lemma transitionTask_effect:
  assumes "transitionTask env cx i next s = (r, t)" and ok: "storesOk s"
  shows "effect cx Quiet s t"
  using assms(1) unfolding transitionTask_def
proof (cases rule: readsE)
  case (passed task)
  then have task: "mget (cp_tasks s) (key (cx_workspaceId cx) i) = Some task"
    "assertTaskOperator s (ce_now env) cx task = Inr ()" "next \<notin> {T_RUNNING, T_COMPLETED}"
    "\<not> taskHasActiveRun s (task_workspaceId task) (task_id task)"
    by (auto simp: outcome_simps)
  have k: "key (cx_workspaceId cx) i = taskKey task"
    using tasks_get [OF ok task(1)] by (rule sym)
  from passed(2) show ?thesis
  proof (cases rule: emitE)
    case (recorded l)
    from recorded(2) show ?thesis unfolding transitionTaskRecord_def
    proof (cases rule: readsE)
      case (passed u)
      with recorded(1) task k show ?thesis by (auto simp: updated_pair intro: eff_taskMoved)
    next
      case (failed e)
      with recorded(1) show ?thesis by (auto intro: eff_none)
    qed
  qed (simp add: effect_refl)
qed (simp add: effect_refl)

lemma startRun_effect:
  assumes "startRun env cx x s = (r, t)" and ok: "storesOk s"
  shows "effect cx Quiet s t"
  using assms(1) unfolding startRun_def
proof (cases rule: readsE)
  case (passed u)
  from passed(2) show ?thesis
  proof (cases rule: emitE)
    case (recorded l)
    from passed(1) obtain task agent authority c where g: "cx_workspaceId cx = run_workspaceId x"
      "run_status x = R_QUEUED" "run_externalRunId x = None" "run_adapterRegistrationId x = None"
      "run_startedAt x = None" "run_completedAt x = None"
      "mget (cp_tasks s) (runTaskKey x) = Some task" "task_status task = T_READY"
      "validateCurrentTaskPolicy s (ce_now env) cx task = Inr (agent, authority)"
      "mget (cp_connections s) (runConnectionKey x) = Some c" "conn_runtimeId c = ag_runtimeId agent"
      "operatesConnection s cx c" "assertConnectionCanRunTask s (ce_now env) cx c task = Inr ()"
      "assertRemainingTaskBudget s task = Inr ()" "\<not> mhas (cp_runs s) (runKey x)"
      "task_assignedAgentId task = ag_id agent" "run_agentId x = ag_id agent"
      "\<not> taskHasActiveRun s (run_workspaceId x) (task_id task)"
      "int (activeRunCount s (run_workspaceId x) (ag_id agent)) < ag_maxConcurrentRuns agent"
      "int (activeRunCount s (run_workspaceId x) (ag_id agent)) < auth_maxConcurrentRuns authority"
      by (auto simp: outcome_simps not_le)
    moreover have "task_id task = run_taskId x" using tasks_get [OF ok g(7)] by simp
    moreover have "mget (cp_agents s) (key (run_workspaceId x) (run_agentId x)) = Some agent"
      using g(9,1,16,17) by (auto simp: validateCurrentTaskPolicy_def outcome_simps)
    ultimately show ?thesis
      using recorded by (auto simp: updated_pair intro: eff_run [where now = "ce_now env"])
  qed (simp add: effect_refl)
qed (simp add: effect_refl)

lemma mintDispatch_effect:
  assumes "mintDispatch env cx i s = (r, t)" and ok: "storesOk s"
  shows "effect cx Quiet s t"
  using assms(1) unfolding mintDispatch_def
proof (cases rule: readsE)
  case (passed u)
  from passed(1) obtain run c task envelope where g:
    "mget (cp_runs s) (key (cx_workspaceId cx) i) = Some run" "run_status run = R_QUEUED"
    "runKey run \<notin> cp_dispatchedRuns s"
    "mget (cp_connections s) (key (cx_workspaceId cx) (run_runtimeConnectionId run)) = Some c"
    "operatesConnection s cx c"
    "mget (cp_tasks s) (key (cx_workspaceId cx) (run_taskId run)) = Some task"
    "currentEnvelope s run task = Inr envelope" and u: "fst u = run" "fst (snd u) = task"
      "dp_dispatchId (snd (snd u)) = ce_uuid env" "dp_envelope (snd (snd u)) = envelope"
      "dp_runtimePrincipalId (snd (snd u)) = conn_authenticatedPrincipalId c"
    by (auto simp: outcome_simps split: option.splits)
  define d where "d = snd (snd u)"
  have w: "cx_workspaceId cx = run_workspaceId run" "task_workspaceId task = run_workspaceId run"
    using runs_get [OF ok g(1)] tasks_get [OF ok g(6)] by simp_all
  have e: "env_workspaceId envelope = run_workspaceId run" "env_runId envelope = run_id run"
    using g(7) w by (auto simp: currentEnvelope_def outcome_simps)
  have t: "t = s\<lparr>cp_dispatches := mset_at (cp_dispatches s) (permitKey d) d,
      cp_dispatchedRuns := insert (runKey run) (cp_dispatchedRuns s)\<rparr>"
    using passed(2) e w by (simp add: d_def u andThen_modify ret_pair case_prod_beta)
  show ?thesis unfolding t
    by (rule eff_minted [where c = c]) (use g w e runs_get [OF ok g(1)] in \<open>auto simp: d_def u\<close>)
qed (simp add: effect_refl)

lemma claimDispatch_effect:
  assumes "claimDispatch env cx dispatch s = (r, t)" and ok: "storesOk s"
  shows "(\<exists>e. r = Inl e) \<and> effect cx Quiet s t \<and> cp_inFlightDispatchAdapters t = cp_inFlightDispatchAdapters s \<or>
    r = Inr dispatch \<and> effect cx (Claimed (permitRunKey dispatch) (dp_adapterRegistrationId dispatch)) s t \<and>
    dispatchStillValid s (ce_now env) cx dispatch = Inr () \<and>
    env_workspaceId (dp_envelope dispatch) = cx_workspaceId cx"
  using assms(1) unfolding claimDispatch_def Let_def
proof (cases rule: readsE)
  case (passed stored)
  then have st: "stored = dispatch"
    and d: "mget (cp_dispatches s) (key (cx_workspaceId cx) (dp_dispatchId dispatch)) = Some dispatch"
    by (auto split: option.splits if_splits)
  have w: "cx_workspaceId cx = env_workspaceId (dp_envelope dispatch)"
    using dispatches_get [OF ok d] by simp
  show ?thesis
  proof (cases "dispatchStillValid s (ce_now env) cx dispatch")
    case (Inl e)
    then have "r = Inl e" and t: "t = s\<lparr>cp_dispatches := mdelete (cp_dispatches s) (permitKey dispatch),
        cp_dispatchedRuns := cp_dispatchedRuns s - {permitRunKey dispatch}\<rparr>"
      using passed(2) w by (auto simp: st andThen_def onError_def reads_def)
    moreover have "effect cx Quiet s t" unfolding t by (rule eff_dropped) (use d w in auto)
    ultimately show ?thesis by simp
  next
    case (Inr u)
    then have "r = Inr dispatch" and t: "t = s\<lparr>cp_dispatches := mdelete (cp_dispatches s) (permitKey dispatch),
        cp_claimedDispatchRuns := insert (permitRunKey dispatch) (cp_claimedDispatchRuns s),
        cp_inFlightDispatchAdapters := mset_at (cp_inFlightDispatchAdapters s) (permitRunKey dispatch)
          (dp_adapterRegistrationId dispatch)\<rparr>"
      using passed(2) w by (auto simp: st andThen_def onError_def reads_def modify_def ret_def)
    moreover obtain run c where g: "mget (cp_runs s) (permitRunKey dispatch) = Some run" "run_status run = R_QUEUED"
      "mget (cp_connections s) (key (cx_workspaceId cx) (dp_connectionId dispatch)) = Some c"
      "run_runtimeConnectionId run = conn_id c" "conn_authenticatedPrincipalId c = Some (cx_principalId cx)"
      "adapterRegistrationAt s cx (conn_runtimeId c) = Some (dp_adapterRegistrationId dispatch)"
      using Inr w by (auto simp: dispatchStillValid_def outcome_simps)
    moreover have "mget (cp_connections s) (runConnectionKey run) = Some c"
      using g(3,4) runs_get [OF ok g(1)] connections_get [OF ok g(3)] w by simp
    moreover have "effect cx (Claimed (permitRunKey dispatch) (dp_adapterRegistrationId dispatch)) s t"
      unfolding t
      by (rule eff_claimed [where x = run and c = c and now = "ce_now env"]) (use calculation d w Inr in auto)
    ultimately show ?thesis using Inr w by simp
  qed
qed (simp add: effect_refl)

text \<open>Every connection belongs to a registered runtime; a pending start is keyed by its run.\<close>

definition connectionsRooted :: "ControlPlane \<Rightarrow> bool" where
  "connectionsRooted s = (\<forall>k c. mget (cp_connections s) k = Some c \<longrightarrow>
     mhas (cp_runtimes s) (key (conn_workspaceId c) (conn_runtimeId c)))"

definition startOf :: "WorkspaceContext \<Rightarrow> RuntimeDispatchPermit \<Rightarrow> PendingStart" where
  "startOf cx d = \<lparr>ps_context = cx, ps_validated = d, ps_runId = env_runId (dp_envelope d),
     ps_runKey = permitRunKey d, ps_registrationId = dp_adapterRegistrationId d\<rparr>"

lemma beginDispatch_effect:
  assumes "beginDispatch env cx dispatch s = (r, t)" and ok: "storesOk s" and rooted: "connectionsRooted s"
  shows "(\<exists>e. r = Inl e) \<and> effect cx Quiet s t \<and> cp_inFlightDispatchAdapters t = cp_inFlightDispatchAdapters s \<or>
    r = Inr (startOf cx dispatch) \<and>
    effect cx (Claimed (permitRunKey dispatch) (dp_adapterRegistrationId dispatch)) s t \<and>
    env_workspaceId (dp_envelope dispatch) = cx_workspaceId cx"
proof -
  obtain r' t' where c: "claimDispatch env cx dispatch s = (r', t')" by force
  from claimDispatch_effect [OF c ok] show ?thesis
  proof (elim disjE conjE exE)
    assume v: "dispatchStillValid s (ce_now env) cx dispatch = Inr ()"
      and w: "env_workspaceId (dp_envelope dispatch) = cx_workspaceId cx" and r': "r' = Inr dispatch"
      and e: "effect cx (Claimed (permitRunKey dispatch) (dp_adapterRegistrationId dispatch)) s t'"
    from e have same: "cp_runs t' = cp_runs s" "cp_connections t' = cp_connections s" "cp_runtimes t' = cp_runtimes s"
      "cp_runtimeAdapters t' = cp_runtimeAdapters s"
      by (auto elim: effect.cases)
    from v obtain run cn where g: "mget (cp_runs s) (key (cx_workspaceId cx) (env_runId (dp_envelope dispatch))) = Some run"
      "mget (cp_connections s) (key (cx_workspaceId cx) (dp_connectionId dispatch)) = Some cn"
      "run_runtimeConnectionId run = conn_id cn"
      "adapterRegistrationAt s cx (conn_runtimeId cn) = Some (dp_adapterRegistrationId dispatch)"
      by (auto simp: dispatchStillValid_def outcome_simps)
    have k: "conn_id cn = dp_connectionId dispatch" "conn_workspaceId cn = cx_workspaceId cx"
      "run_workspaceId run = cx_workspaceId cx" "run_id run = env_runId (dp_envelope dispatch)"
      using connections_get [OF ok g(2)] runs_get [OF ok g(1)] by simp_all
    obtain rt where rt: "mget (cp_runtimes s) (key (cx_workspaceId cx) (conn_runtimeId cn)) = Some rt"
      using rooted g(2) k unfolding connectionsRooted_def mhas_iff by metis
    have "rt_id rt = conn_runtimeId cn" using runtimes_get [OF ok rt] by simp
    with assms(1) c r' have "r = Inr (startOf cx dispatch)" "t = t'"
      by (simp_all add: beginDispatch_def andThen_def reads_def require_def same g rt k w startOf_def
        adapterRegistrationAt_def [of t'] adapterRegistrationAt_def [of s, symmetric])
    with e w show ?thesis by simp
  next
    fix e assume "r' = Inl e" "effect cx Quiet s t'" "cp_inFlightDispatchAdapters t' = cp_inFlightDispatchAdapters s"
    with assms(1) c show ?thesis by (auto simp: beginDispatch_def andThen_def)
  qed
qed

lemma bindExternalRun_effect:
  assumes "bindExternalRun cx i externalRunId registrationId s = (r, t)" and ok: "storesOk s"
  shows "effect cx (Released (key (cx_workspaceId cx) i)) s
    (t\<lparr>cp_inFlightDispatchAdapters := mdelete (cp_inFlightDispatchAdapters t) (key (cx_workspaceId cx) i)\<rparr>)"
  using assms(1) unfolding bindExternalRun_def
proof (cases rule: readsE)
  case (passed run)
  from passed(1) obtain c where g: "mget (cp_runs s) (key (cx_workspaceId cx) i) = Some run"
    "nonBlankUpTo 2048 externalRunId"
    "mget (cp_connections s) (key (cx_workspaceId cx) (run_runtimeConnectionId run)) = Some c"
    "conn_authenticatedPrincipalId c = Some (cx_principalId cx)" "runKey run \<in> cp_claimedDispatchRuns s"
    "mget (cp_inFlightDispatchAdapters s) (runKey run) = Some registrationId"
    "adapterRegistrationAt s cx (conn_runtimeId c) = Some registrationId" "activeStatus (run_status run)"
    "\<not> (\<exists>candidate \<in> set (mvalues (cp_runs s)). run_workspaceId candidate = run_workspaceId run \<and>
       run_id candidate \<noteq> run_id run \<and> run_runtimeConnectionId candidate = conn_id c \<and>
       run_externalRunId candidate = Some externalRunId)"
    by (auto simp: outcome_simps)
  have k: "key (cx_workspaceId cx) i = runKey run" "conn_id c = run_runtimeConnectionId run"
    using runs_get [OF ok g(1)] connections_get [OF ok g(3)] by simp_all
  have t: "t = s\<lparr>cp_runs := mset_at (cp_runs s) (runKey run)
      (run\<lparr>run_externalRunId := Some externalRunId, run_adapterRegistrationId := Some registrationId\<rparr>)\<rparr>"
    using passed(2) by (simp add: updated_pair)
  have "effect cx (Released (runKey run)) s (s\<lparr>cp_runs := mset_at (cp_runs s) (runKey run)
      (run\<lparr>run_externalRunId := Some externalRunId, run_adapterRegistrationId := Some registrationId\<rparr>),
      cp_inFlightDispatchAdapters := mdelete (cp_inFlightDispatchAdapters s) (runKey run)\<rparr>)"
    by (rule eff_bound [where c = c]) (use g k in auto)
  with k show ?thesis by (simp add: t)
qed (auto intro: eff_released)

lemma settleDispatch_effect:
  assumes "settleDispatch p answer s = (r, t)" and ok: "storesOk s"
    and p: "ps_runKey p = key (cx_workspaceId (ps_context p)) (ps_runId p)"
  shows "effect (ps_context p) (Released (ps_runKey p)) s t"
proof -
  define body where "body = andThen (reads (\<lambda>_ :: ControlPlane. ebind answer (\<lambda>v. ebind (assertString v ''externalRunId'')
      (\<lambda>_. Inr (jsonString v))))) (\<lambda>externalRunId. andThen (bindExternalRun (ps_context p) (ps_runId p) externalRunId
      (ps_registrationId p)) (\<lambda>_. ret externalRunId))"
  obtain r' t' where b: "body s = (r', t')" by force
  have t: "t = t'\<lparr>cp_inFlightDispatchAdapters := mdelete (cp_inFlightDispatchAdapters t') (ps_runKey p)\<rparr>"
    using assms(1) b by (simp add: settleDispatch_def finallyDo_def flip: body_def)
  from b show ?thesis unfolding body_def
  proof (cases rule: readsE)
    case (passed ext)
    then obtain r'' where "bindExternalRun (ps_context p) (ps_runId p) ext (ps_registrationId p) s = (r'', t')"
      by (auto simp: andThen_def ret_def split: prod.splits sum.splits)
    from bindExternalRun_effect [OF this ok] show ?thesis by (simp add: t p)
  qed (simp add: t p eff_released)
qed

lemma mintCancellation_effect:
  assumes "mintCancellation env cx i s = (r, t)" and ok: "storesOk s"
  shows "effect cx Quiet s t"
  using assms(1) unfolding mintCancellation_def
proof (cases rule: readsE)
  case (passed u)
  from passed(1) obtain run c where g: "mget (cp_runs s) (key (cx_workspaceId cx) i) = Some run"
    "activeStatus (run_status run)" "truthy (run_externalRunId run)" "runKey run \<notin> cp_cancelledRuns s"
    "mget (cp_connections s) (key (cx_workspaceId cx) (run_runtimeConnectionId run)) = Some c"
    "operatesConnection s cx c" and u: "fst u = run" "cn_runId (snd u) = run_id run"
    by (auto simp: outcome_simps split: option.splits)
  have k: "key (cx_workspaceId cx) i = runKey run" using runs_get [OF ok g(1)] by simp
  have t: "t = s\<lparr>cp_cancellations :=
      mset_at (cp_cancellations s) (key (run_workspaceId run) (cn_cancellationId (snd u))) (snd u),
      cp_cancelledRuns := insert (runKey run) (cp_cancelledRuns s)\<rparr>"
    using passed(2) by (simp add: u andThen_modify ret_pair case_prod_beta)
  show ?thesis unfolding t
    by (rule eff_cancelMinted [where c = c]) (use g k u in auto)
qed (simp add: effect_refl)

definition cancellationOf :: "WorkspaceContext \<Rightarrow> RuntimeCancellationPermit \<Rightarrow> PendingCancellation" where
  "cancellationOf cx cn = \<lparr>pc_context = cx, pc_validated = cn, pc_runKey = key (cx_workspaceId cx) (cn_runId cn)\<rparr>"

lemma beginCancellation_effect:
  assumes "beginCancellation cx cn s = (r, t)"
  shows "(\<exists>e. r = Inl e) \<and> effect cx Quiet s t \<or>
    r = Inr (cancellationOf cx cn) \<and> effect cx (CancelClaimed (key (cx_workspaceId cx) (cn_runId cn))) s t"
proof -
  let ?k = "key (cx_workspaceId cx) (cn_cancellationId cn)"
  show ?thesis
  proof (cases "mget (cp_cancellations s) ?k = Some cn \<and> Some (cx_principalId cx) = cn_runtimePrincipalId cn")
    case False
    then have "claimCancellation cx cn s =
        (Inl (ControlPlanePolicyError ''Cancellation is not bound to this runtime and run''), s)"
      by (auto simp: claimCancellation_def Let_def andThen_def reads_def split: option.splits)
    then have "(\<exists>e. r = Inl e) \<and> t = s" using assms by (auto simp: beginCancellation_def andThen_def)
    then show ?thesis by (auto intro: effect_refl)
  next
    case True
    let ?dropped = "s\<lparr>cp_cancellations := mdelete (cp_cancellations s) ?k,
        cp_cancelledRuns := cp_cancelledRuns s - {key (cx_workspaceId cx) (cn_runId cn)}\<rparr>"
    have d: "effect cx Quiet s ?dropped" using True by (auto intro: eff_cancelDropped)
    show ?thesis
    proof (cases "cancellationStillValid s cx cn")
      case (Inl e)
      with True assms have "r = Inl e \<and> t = ?dropped"
        by (auto simp: beginCancellation_def claimCancellation_def Let_def andThen_def reads_def onError_def)
      with d show ?thesis by simp
    next
      case (Inr u)
      then have "effect cx (CancelClaimed (key (cx_workspaceId cx) (cn_runId cn))) s
          (s\<lparr>cp_cancellations := mdelete (cp_cancellations s) ?k\<rparr>)"
        using True by (auto intro: eff_cancelClaimed)
      with Inr True assms d show ?thesis
        by (auto simp: beginCancellation_def claimCancellation_def andThen_def reads_def onError_def modify_def
          ret_def Let_def cancellationOf_def ebind_def split: sum.splits)
    qed
  qed
qed

lemma settleCancellation_effect:
  assumes "settleCancellation p answer s = (r, t)" "pc_runKey p = key (cx_workspaceId (pc_context p)) i"
  shows "effect (pc_context p) (CancelReleased (pc_runKey p)) s t"
  using assms by (cases answer)
    (auto simp: settleCancellation_def onError_def andThen_def reads_def modify_def
      intro: eff_cancelSucceeded eff_cancelFailed)

lemma transitionRun_effect:
  assumes "transitionRun env cx i next s = (r, t)" and ok: "storesOk s"
  shows "effect cx Quiet s t"
  using assms(1) unfolding transitionRun_def
proof (cases rule: readsE)
  case (passed u)
  obtain run task now where u: "u = (run, task, now)" by (cases u) auto
  from passed(1) obtain c where g: "mget (cp_runs s) (key (cx_workspaceId cx) i) = Some run"
    "\<not> mhas (cp_inFlightDispatchAdapters s) (runKey run)"
    "mget (cp_connections s) (key (cx_workspaceId cx) (run_runtimeConnectionId run)) = Some c"
    "operatesConnection s cx c" "next \<in> set (RUN_TRANSITIONS (run_status run))"
    "next = R_CANCELLED \<and> truthy (run_externalRunId run) \<longrightarrow> runKey run \<in> cp_successfulCancellations s"
    "run_status run = R_QUEUED \<and> next = R_RUNNING \<longrightarrow>
      runKey run \<in> cp_claimedDispatchRuns s \<and> truthy (run_externalRunId run)"
    "mget (cp_tasks s) (key (cx_workspaceId cx) (run_taskId run)) = Some task"
    "(case taskNextFor (run_status run) next of None \<Rightarrow> Inr ()
         | Some taskNext \<Rightarrow> ensure (taskNext \<in> set (TASK_TRANSITIONS (task_status task)))
             (illegalTaskTransition (task_status task) taskNext)) = Inr ()"
    by (auto simp: u outcome_simps Let_def)
  have k: "key (cx_workspaceId cx) i = runKey run" using runs_get [OF ok g(1)] by simp
  have tk: "key (cx_workspaceId cx) (run_taskId run) = taskKey task" using tasks_get [OF ok g(8)] by simp
  from passed(2) show ?thesis unfolding u prod.case
  proof (cases rule: emitE)
    case (recorded l)
    then have t: "t = s\<lparr>cp_events := l, cp_runs := mset_at (cp_runs s) (runKey run) (updatedRun run next now),
      cp_tasks := (case taskNextFor (run_status run) next of None \<Rightarrow> cp_tasks s
        | Some taskNext \<Rightarrow> mset_at (cp_tasks s) (taskKey task) (task\<lparr>task_status := taskNext\<rparr>))\<rparr>"
      by (simp add: updated_pair cong: option.case_cong)
    show ?thesis unfolding t
      by (rule eff_runMoved [where c = c]) (use g k tk recorded in \<open>auto split: option.splits\<close>)
  qed (simp add: effect_refl)
qed (simp add: effect_refl)

lemma appendEvent_effect:
  assumes "appendEvent cx e s = (r, t)"
  shows "effect cx Quiet s t"
  using assms unfolding appendEvent_def Let_def
proof (cases rule: readsE)
  case (passed u)
  then have g: "cx_workspaceId cx = ev_workspaceId e" "cx_principalId cx = ev_actorId e"
    "assertBoundedRecord (ev_payload e) = Inr ()" "\<not> mhas (cp_eventsById s) (planeEventKey e)"
    "\<not> mhas (cp_eventIdempotency s) (key (ev_workspaceId e) (ev_idempotencyKey e))"
    by (auto simp: outcome_simps)
  have stored: "effect cx Quiet s (s\<lparr>cp_events := l, cp_eventsById := mset_at (cp_eventsById s) (planeEventKey e) e,
      cp_eventIdempotency :=
        mset_at (cp_eventIdempotency s) (key (ev_workspaceId e) (ev_idempotencyKey e)) (ev_id e)\<rparr>)"
    if "logGrows (cp_events s) l" for l
    by (rule eff_event) (use g that in auto)
  show ?thesis
  proof (cases "cp_events s")
    case None
    with passed(2) have "t = s\<lparr>cp_events := cp_events s, cp_eventsById := mset_at (cp_eventsById s) (planeEventKey e) e,
      cp_eventIdempotency :=
        mset_at (cp_eventIdempotency s) (key (ev_workspaceId e) (ev_idempotencyKey e)) (ev_id e)\<rparr>"
      by (auto simp: andThen_def updates_def modify_def)
    with stored [OF log_same] show ?thesis by simp
  next
    case (Some p)
    obtain sink capability where p: "p = (sink, capability)" by force
    let ?m = "ebind (if truthy (ev_runId e) then Inr RUNTIME else actorKindFor capability cx) (\<lambda>actorKind.
           appendEvents capability cx (recordedEvent e actorKind) sink)"
    show ?thesis
    proof (cases ?m)
      case (Inl err)
      with passed(2) Some p have "t = s"
        by (auto simp: andThen_def updates_def ebind_def split: sum.splits if_splits)
      then show ?thesis by (simp add: effect_refl)
    next
      case (Inr sink')
      then have "logGrows (cp_events s) (Some (sink', capability))"
        by (auto simp: Some p outcome_simps appendEvents_def intro: log_append split: if_splits)
      note st = stored [OF this]
      from Inr passed(2) have "t = s\<lparr>cp_events := Some (sink', capability),
        cp_eventsById := mset_at (cp_eventsById s) (planeEventKey e) e, cp_eventIdempotency :=
        mset_at (cp_eventIdempotency s) (key (ev_workspaceId e) (ev_idempotencyKey e)) (ev_id e)\<rparr>"
        by (auto simp: Some p andThen_def updates_def modify_def ebind_def split: sum.splits if_splits)
      with st show ?thesis by simp
    qed
  qed
qed (simp add: effect_refl)

lemma recordUsage_effect:
  assumes "recordUsage env cx x s = (r, t)" and ok: "storesOk s"
  shows "effect cx Quiet s t"
  using assms(1) unfolding recordUsage_def Let_def
proof (cases rule: readsE)
  case (passed u)
  from passed(1) obtain task run c where g: "cx_workspaceId cx = us_workspaceId x" "\<not> mhas (cp_usage s) (usageKey x)"
    "mget (cp_tasks s) (key (us_workspaceId x) (us_taskId x)) = Some task"
    "mget (cp_runs s) (key (us_workspaceId x) (us_runId x)) = Some run"
    "mget (cp_connections s) (key (us_workspaceId x) (run_runtimeConnectionId run)) = Some c"
    "operatesConnection s cx c" "run_taskId run = task_id task" "withinBudget s task x"
    by (auto simp: outcome_simps withinBudget_def Let_def split: option.splits)
  have k: "run_workspaceId run = us_workspaceId x" "task_id task = us_taskId x"
    using runs_get [OF ok g(4)] tasks_get [OF ok g(3)] by simp_all
  from passed(2) show ?thesis
  proof (cases rule: emitE)
    case (recorded l)
    then have t: "t = s\<lparr>cp_events := l, cp_usage := mset_at (cp_usage s) (usageKey x) x\<rparr>"
      by (simp add: updated_pair)
    show ?thesis unfolding t
      by (rule eff_usage [where task = task and run = run and c = c]) (use g k recorded in auto)
  qed (simp add: effect_refl)
qed (simp add: effect_refl)

lemma events_irrelevant:
  "parsedTime (s\<lparr>cp_events := l\<rparr>) = parsedTime s"
  "roundTripCorrelated (s\<lparr>cp_events := l\<rparr>) = roundTripCorrelated s"
  by (simp_all add: fun_eq_iff parsedTime_def roundTripCorrelated_def Let_def cong: option.case_cong)

lemma deriveConnectionStatus_events:
  "deriveConnectionStatus (s\<lparr>cp_events := l\<rparr>) = deriveConnectionStatus s"
  by (simp add: fun_eq_iff deriveConnectionStatus_def events_irrelevant cong: if_cong option.case_cong)

text \<open>A refused \<open>putConnection\<close> leaves the plane exactly as it was, whatever step refused it.\<close>

lemma putConnection_cases:
  assumes "putConnection env cx c s = (r, t)" and ok: "storesOk s"
  obtains e where "r = Inl e" "t = s"
  | l where "r = Inr ()" "connectionAcceptable s cx c = Inr ()" "logGrows (cp_events s) l"
      "conn_status c = CONNECTED \<Longrightarrow> deriveConnectionStatus t (ce_now env) cx (conn_id c) = Inr CONNECTED"
      "t = s\<lparr>cp_connections := mset_at (cp_connections s) (connectionKey c) c, cp_events := l\<rparr>"
proof -
  let ?k = "connectionKey c"
  let ?m = "s\<lparr>cp_connections := mset_at (cp_connections s) ?k c\<rparr>"
  have "jsmap_ok (cp_connections s)" using ok by (simp add: storesOk_def storeOk_def)
  then have restore: "restoreConnection ?k (mget (cp_connections s) ?k) ?m = s"
    by (auto simp: restoreConnection_def mset_at_restore mdelete_restore split: option.splits)
  from assms(1) show ?thesis unfolding putConnection_def Let_def
  proof (cases rule: readsE)
    case (passed previous)
    then have acc: "connectionAcceptable s cx c = Inr ()" and prev: "previous = mget (cp_connections s) ?k"
      by (auto simp: outcome_simps)
    define claim where "claim = (if conn_status c = CONNECTED
         then ebind (deriveConnectionStatus ?m (ce_now env) cx (conn_id c)) (\<lambda>status.
           ensure (status = CONNECTED)
             (ControlPlanePolicyError ''CONNECTED requires fresh correlated runtime evidence''))
         else Inr ())"
    obtain r' t' where e: "emitOperationalEvent env cx RuntimeConnectionUpdated ''RuntimeConnection'' (conn_id c)
         [(''status'', FText (connectionStatusText (conn_status c))), (''runtimeId'', FText (conn_runtimeId c))] None ?m
       = (r', t')" by force
    show ?thesis
    proof (cases claim)
      case (Inl err)
      with passed(2) restore have "r = Inl err" "t = s"
        by (simp_all add: prev andThen_modify andThen_onError_reads flip: claim_def)
      with that(1) show ?thesis by blast
    next
      case (Inr u)
      then have rt: "(r, t) = onError (emitOperationalEvent env cx RuntimeConnectionUpdated ''RuntimeConnection'' (conn_id c)
         [(''status'', FText (connectionStatusText (conn_status c))), (''runtimeId'', FText (conn_runtimeId c))] None)
         (restoreConnection ?k previous) ?m"
        using passed(2) by (simp add: andThen_modify andThen_onError_reads flip: claim_def)
      from e show ?thesis
      proof (cases rule: emit_cases)
        case (1 err)
        with rt e restore that(1) show ?thesis by (auto simp: onError_def prev)
      next
        case (2 l)
        have "deriveConnectionStatus t' n cx i = deriveConnectionStatus ?m n cx i" for n i
          by (simp only: 2(2) deriveConnectionStatus_events)
        moreover have "r = Inr ()" "t = t'" using rt e 2(1) by (auto simp: onError_def)
        ultimately show ?thesis using that(2) [of l] acc Inr 2 by (auto simp: claim_def outcome_simps split: if_splits)
      qed
    qed
  qed (use that(1) in blast)
qed

lemma putConnection_effect:
  assumes "putConnection env cx c s = (r, t)" and ok: "storesOk s"
  shows "effect cx Quiet s t"
  using assms
proof (cases rule: putConnection_cases)
  case (2 l)
  have "mayWriteConnection s cx c" "conn_workspaceId c = cx_workspaceId cx"
    "mhas (cp_runtimes s) (key (conn_workspaceId c) (conn_runtimeId c))"
    using 2(2) by (auto simp: connectionAcceptable_def outcome_simps mayWriteConnection_def operatesConnection_def
      mhas_iff Let_def split: option.splits if_splits)
  with 2(3) show ?thesis unfolding 2(5) by (intro eff_connection)
qed (simp add: effect_refl)

end
