(* ===== verification/Control_Plane_System.thy ===== *)
theory Control_Plane_System
  imports Control_Plane_Effects
begin

text \<open>
  The control plane in operation: any principal of any workspace calls any public method at any
  time with any arguments, adapters answer the pending starts and cancellations in any order and
  with any outcome, and other components append to the shared event log.  Calls run to completion
  between two awaits, so the interleavings are those of the JavaScript event loop.
\<close>

section \<open>Calls\<close>

datatype Call =
    PutRuntime Runtime
  | RegisterRuntimeAdapter EntityId string
  | PutCapability Capability
  | PutTool Tool
  | PutAgent Agent
  | GrantAgentCapability AgentCapability
  | GrantTool ToolGrant
  | GrantAuthority AuthorityGrant
  | PutConnection RuntimeConnection
  | RecordHeartbeat Heartbeat
  | CreateTask ControlPlaneTask
  | TransitionTask EntityId TaskStatus
  | StartRun AgentRun
  | MintDispatch EntityId
  | ExecuteDispatch RuntimeDispatchPermit
  | MintCancellation EntityId
  | ExecuteCancellation RuntimeCancellationPermit
  | TransitionRun EntityId RunStatus
  | AppendEvent ControlPlaneEvent
  | RecordUsage UsageRecord

datatype Reply = Done | Dispatch RuntimeDispatchPermit | Cancellation RuntimeCancellationPermit

record System =
  sys_plane :: ControlPlane
  sys_starts :: "PendingStart list"
  sys_cancellations :: "PendingCancellation list"

definition onPlane :: "('a \<Rightarrow> Reply) \<Rightarrow> (ControlPlane, error, 'a) method \<Rightarrow> (System, error, Reply) method" where
  "onPlane reply m S = (case m (sys_plane S) of (r, s') \<Rightarrow>
     (case r of Inl e \<Rightarrow> Inl e | Inr x \<Rightarrow> Inr (reply x), S\<lparr>sys_plane := s'\<rparr>))"

fun perform :: "CallEnv \<Rightarrow> WorkspaceContext \<Rightarrow> Call \<Rightarrow> (System, error, Reply) method" where
  "perform env cx (PutRuntime x) = onPlane (\<lambda>_. Done) (putRuntime cx x)"
| "perform env cx (RegisterRuntimeAdapter i kind) = onPlane (\<lambda>_. Done) (registerRuntimeAdapter env cx i kind)"
| "perform env cx (PutCapability x) = onPlane (\<lambda>_. Done) (putCapability cx x)"
| "perform env cx (PutTool x) = onPlane (\<lambda>_. Done) (putTool cx x)"
| "perform env cx (PutAgent x) = onPlane (\<lambda>_. Done) (putAgent cx x)"
| "perform env cx (GrantAgentCapability x) = onPlane (\<lambda>_. Done) (grantAgentCapability cx x)"
| "perform env cx (GrantTool x) = onPlane (\<lambda>_. Done) (grantTool cx x)"
| "perform env cx (GrantAuthority x) = onPlane (\<lambda>_. Done) (grantAuthority cx x)"
| "perform env cx (PutConnection x) = onPlane (\<lambda>_. Done) (putConnection env cx x)"
| "perform env cx (RecordHeartbeat x) = onPlane (\<lambda>_. Done) (recordHeartbeat env cx x)"
| "perform env cx (CreateTask x) = onPlane (\<lambda>_. Done) (createTask env cx x)"
| "perform env cx (TransitionTask i next) = onPlane (\<lambda>_. Done) (transitionTask env cx i next)"
| "perform env cx (StartRun x) = onPlane (\<lambda>_. Done) (startRun env cx x)"
| "perform env cx (MintDispatch i) = onPlane Dispatch (mintDispatch env cx i)"
| "perform env cx (ExecuteDispatch d) = (\<lambda>S. case beginDispatch env cx d (sys_plane S) of
     (Inl e, s') \<Rightarrow> (Inl e, S\<lparr>sys_plane := s'\<rparr>)
   | (Inr p, s') \<Rightarrow> (Inr Done, S\<lparr>sys_plane := s', sys_starts := sys_starts S @ [p]\<rparr>))"
| "perform env cx (MintCancellation i) = onPlane Cancellation (mintCancellation env cx i)"
| "perform env cx (ExecuteCancellation cn) = (\<lambda>S. case beginCancellation cx cn (sys_plane S) of
     (Inl e, s') \<Rightarrow> (Inl e, S\<lparr>sys_plane := s'\<rparr>)
   | (Inr p, s') \<Rightarrow> (Inr Done, S\<lparr>sys_plane := s', sys_cancellations := sys_cancellations S @ [p]\<rparr>))"
| "perform env cx (TransitionRun i next) = onPlane (\<lambda>_. Done) (transitionRun env cx i next)"
| "perform env cx (AppendEvent x) = onPlane (\<lambda>_. Done) (appendEvent cx x)"
| "perform env cx (RecordUsage x) = onPlane (\<lambda>_. Done) (recordUsage env cx x)"

section \<open>Steps of the system\<close>

inductive sysStep :: "System \<Rightarrow> System \<Rightarrow> bool" where
  step_call: "perform env cx call S = (r, T) \<Longrightarrow> sysStep S T"
| step_start: "p \<in> set (sys_starts S) \<Longrightarrow> settleDispatch p answer (sys_plane S) = (r, s') \<Longrightarrow>
    sysStep S (S\<lparr>sys_plane := s', sys_starts := remove1 p (sys_starts S)\<rparr>)"
| step_cancel: "p \<in> set (sys_cancellations S) \<Longrightarrow> settleCancellation p outcome (sys_plane S) = (r, s') \<Longrightarrow>
    sysStep S (S\<lparr>sys_plane := s', sys_cancellations := remove1 p (sys_cancellations S)\<rparr>)"
| step_sink: "cp_events (sys_plane S) = Some (sink, capability) \<Longrightarrow> appendBatch c cx batch sink = Inr sink' \<Longrightarrow>
    sysStep S (S\<lparr>sys_plane := (sys_plane S)\<lparr>cp_events := Some (sink', capability)\<rparr>\<rparr>)"

text \<open>A freshly constructed plane, its sink a log in a valid state.\<close>

definition sysInit :: "System \<Rightarrow> bool" where
  "sysInit S = ((\<exists>engine options. newControlPlane engine options = Inr (sys_plane S) \<and>
       (\<forall>sink. opt_eventSink options = Some sink \<longrightarrow> logOk sink)) \<and>
     sys_starts S = [] \<and> sys_cancellations S = [])"

abbreviation reachable :: "System \<Rightarrow> bool" where
  "reachable \<equiv> reach sysInit sysStep"

section \<open>Steps in terms of effects\<close>

inductive sysEffect :: "System \<Rightarrow> System \<Rightarrow> bool" where
  sys_quiet: "effect cx Quiet (sys_plane S) t \<Longrightarrow> sysEffect S (S\<lparr>sys_plane := t\<rparr>)"
| sys_claimed: "effect cx (Claimed (permitRunKey d) (dp_adapterRegistrationId d)) (sys_plane S) t \<Longrightarrow>
    env_workspaceId (dp_envelope d) = cx_workspaceId cx \<Longrightarrow>
    sysEffect S (S\<lparr>sys_plane := t, sys_starts := sys_starts S @ [startOf cx d]\<rparr>)"
| sys_released: "p \<in> set (sys_starts S) \<Longrightarrow> effect (ps_context p) (Released (ps_runKey p)) (sys_plane S) t \<Longrightarrow>
    sysEffect S (S\<lparr>sys_plane := t, sys_starts := remove1 p (sys_starts S)\<rparr>)"
| sys_cancelClaimed: "effect cx (CancelClaimed (key (cx_workspaceId cx) (cn_runId cn))) (sys_plane S) t \<Longrightarrow>
    sysEffect S (S\<lparr>sys_plane := t, sys_cancellations := sys_cancellations S @ [cancellationOf cx cn]\<rparr>)"
| sys_cancelReleased: "p \<in> set (sys_cancellations S) \<Longrightarrow>
    effect (pc_context p) (CancelReleased (pc_runKey p)) (sys_plane S) t \<Longrightarrow>
    sysEffect S (S\<lparr>sys_plane := t, sys_cancellations := remove1 p (sys_cancellations S)\<rparr>)"

text \<open>What pending calls carry from before their await.\<close>

definition pendingKeyed :: "System \<Rightarrow> bool" where
  "pendingKeyed S \<longleftrightarrow>
     (\<forall>p \<in> set (sys_starts S). ps_runKey p = key (cx_workspaceId (ps_context p)) (ps_runId p)) \<and>
     (\<forall>p \<in> set (sys_cancellations S).
        pc_runKey p = key (cx_workspaceId (pc_context p)) (cn_runId (pc_validated p)))"

lemma onPlane_quiet:
  assumes "onPlane reply m S = (r, T)" "\<And>r t. m (sys_plane S) = (r, t) \<Longrightarrow> effect cx Quiet (sys_plane S) t"
  shows "sysEffect S T"
proof -
  obtain r' t where m: "m (sys_plane S) = (r', t)" by force
  with assms(1) have "T = S\<lparr>sys_plane := t\<rparr>" by (simp add: onPlane_def)
  with assms(2) [OF m] sys_quiet show ?thesis by simp
qed

lemmas quiet_effects =
  putRuntime_effect putCapability_effect putTool_effect putAgent_effect grantAgentCapability_effect
  grantTool_effect grantAuthority_effect recordHeartbeat_effect createTask_effect appendEvent_effect

lemmas quiet_effects_stores =
  registerRuntimeAdapter_effect putConnection_effect transitionTask_effect startRun_effect
  mintDispatch_effect mintCancellation_effect transitionRun_effect recordUsage_effect

lemma perform_effect:
  assumes p: "perform env cx call S = (r, T)" and ok: "storesOk (sys_plane S)" and rooted: "connectionsRooted (sys_plane S)"
  shows "sysEffect S T"
proof (cases call)
  case (ExecuteDispatch d)
  obtain r' t where b: "beginDispatch env cx d (sys_plane S) = (r', t)" by force
  from beginDispatch_effect [OF b ok rooted] sys_claimed [of cx d S t] p b ExecuteDispatch show ?thesis
    by (auto intro: sys_quiet)
next
  case (ExecuteCancellation cn)
  obtain r' t where b: "beginCancellation cx cn (sys_plane S) = (r', t)" by force
  from beginCancellation_effect [OF b] p b ExecuteCancellation show ?thesis
    by (auto intro: sys_quiet sys_cancelClaimed)
qed (use p in \<open>auto elim!: onPlane_quiet intro: quiet_effects quiet_effects_stores [OF _ ok]\<close>)

lemma sysStep_effect:
  assumes "sysStep S T" and ok: "storesOk (sys_plane S)" and rooted: "connectionsRooted (sys_plane S)"
    and keyed: "pendingKeyed S"
  shows "sysEffect S T"
  using assms(1)
proof cases
  case (step_call env cx call r)
  with perform_effect ok rooted show ?thesis by blast
next
  case (step_start p answer r s')
  with keyed have "effect (ps_context p) (Released (ps_runKey p)) (sys_plane S) s'"
    by (intro settleDispatch_effect ok) (auto simp: pendingKeyed_def)
  with step_start sys_released show ?thesis by blast
next
  case (step_cancel p outcome r s')
  with keyed have "effect (pc_context p) (CancelReleased (pc_runKey p)) (sys_plane S) s'"
    by (intro settleCancellation_effect) (auto simp: pendingKeyed_def)
  with step_cancel sys_cancelReleased show ?thesis by blast
next
  case (step_sink sink capability c cx batch sink')
  then have "logGrows (cp_events (sys_plane S)) (Some (sink', capability))" by (auto intro: log_append)
  with step_sink sys_quiet eff_none show ?thesis by blast
qed

end
