(* ===== verification/Control_Plane_Invariants.thy ===== *)
theory Control_Plane_Invariants
  imports Control_Plane_System
begin

text \<open>
  The invariants of the control plane, each kept by every effect, and hence by every step of the
  system.  Each group is a definition over the fields it is about, so that the effects on other
  fields leave it alone by rewriting.
\<close>

lemma updatedRun_simps [simp]:
  "run_id (updatedRun x next now) = run_id x" "run_workspaceId (updatedRun x next now) = run_workspaceId x"
  "run_taskId (updatedRun x next now) = run_taskId x" "run_agentId (updatedRun x next now) = run_agentId x"
  "run_runtimeConnectionId (updatedRun x next now) = run_runtimeConnectionId x"
  "run_externalRunId (updatedRun x next now) = run_externalRunId x"
  "run_adapterRegistrationId (updatedRun x next now) = run_adapterRegistrationId x"
  "run_status (updatedRun x next now) = next"
  by (simp_all add: updatedRun_def)

lemma mhas_mset_at [simp]: "mhas (mset_at m k v) k' \<longleftrightarrow> k' = k \<or> mhas m k'"
  by (auto simp: mhas_def)

lemma mhas_Nil [simp]: "\<not> mhas [] k"
  by (simp add: mhas_def)

lemma mhasI: "mget m k = Some v \<Longrightarrow> mhas m k"
  by (simp add: mhas_def)

section \<open>Stores\<close>

lemma effect_storesOk:
  assumes "effect cx lab s t" "storesOk s"
  shows "storesOk t"
  using assms
proof (cases rule: effect.cases)
  case (eff_runMoved x c "next" task l now)
  with assms(2) show ?thesis by (auto simp: storesOk_def split: option.splits)
qed (simp_all add: storesOk_def)

section \<open>References\<close>

text \<open>Records are never removed, and what a record refers to exists.\<close>

definition refsOk :: "ControlPlane \<Rightarrow> bool" where
  "refsOk s \<longleftrightarrow>
     (\<forall>k x. mget (cp_agents s) k = Some x \<longrightarrow> mhas (cp_runtimes s) (key (ag_workspaceId x) (ag_runtimeId x))) \<and>
     (\<forall>k x. mget (cp_agentCapabilities s) k = Some x \<longrightarrow>
        mhas (cp_agents s) (key (acap_workspaceId x) (acap_agentId x)) \<and>
        mhas (cp_capabilities s) (key (acap_workspaceId x) (acap_capabilityId x))) \<and>
     (\<forall>k x. mget (cp_toolGrants s) k = Some x \<longrightarrow>
        mhas (cp_agents s) (key (tg_workspaceId x) (tg_agentId x)) \<and>
        mhas (cp_tools s) (key (tg_workspaceId x) (tg_toolId x))) \<and>
     (\<forall>k x. mget (cp_authorityGrants s) k = Some x \<longrightarrow>
        mhas (cp_agents s) (key (auth_workspaceId x) (auth_agentId x))) \<and>
     (\<forall>k x. mget (cp_heartbeats s) k = Some x \<longrightarrow>
        mhas (cp_connections s) (key (hb_workspaceId x) (hb_runtimeConnectionId x))) \<and>
     (\<forall>k x. mget (cp_tasks s) k = Some x \<longrightarrow>
        mhas (cp_agents s) (key (task_workspaceId x) (task_assignedAgentId x))) \<and>
     (\<forall>k x. mget (cp_runs s) k = Some x \<longrightarrow> mhas (cp_tasks s) (runTaskKey x) \<and>
        mhas (cp_agents s) (key (run_workspaceId x) (run_agentId x)) \<and> mhas (cp_connections s) (runConnectionKey x))"

text \<open>Usage belongs to an existing task, through a run of that task.\<close>

definition usageRefs :: "ControlPlane \<Rightarrow> bool" where
  "usageRefs s \<longleftrightarrow> (\<forall>k x. mget (cp_usage s) k = Some x \<longrightarrow>
     mhas (cp_tasks s) (key (us_workspaceId x) (us_taskId x)) \<and>
     (\<exists>run. mget (cp_runs s) (key (us_workspaceId x) (us_runId x)) = Some run \<and> run_taskId run = us_taskId x))"

lemma effect_rooted:
  assumes "effect cx lab s t" "connectionsRooted s"
  shows "connectionsRooted t"
  using assms by (cases rule: effect.cases) (auto simp: connectionsRooted_def)

lemma validateCurrentTaskPolicy_agent:
  "validateCurrentTaskPolicy s now cx task = Inr (agent, authority) \<Longrightarrow>
   mget (cp_agents s) (key (cx_workspaceId cx) (task_assignedAgentId task)) = Some agent"
  by (auto simp: validateCurrentTaskPolicy_def outcome_simps)

lemma validateCurrentTaskPolicy_cost:
  "validateCurrentTaskPolicy s now cx task = Inr granted \<Longrightarrow> assertCostLimit (task_costLimit task) = Inr ()"
  by (auto simp: validateCurrentTaskPolicy_def outcome_simps)

lemma refs_task: "refsOk s \<Longrightarrow> mget (cp_tasks s) k = Some x \<Longrightarrow>
    mhas (cp_agents s) (key (task_workspaceId x) (task_assignedAgentId x))"
  unfolding refsOk_def by blast

lemma refs_run: "refsOk s \<Longrightarrow> mget (cp_runs s) k = Some x \<Longrightarrow> mhas (cp_tasks s) (runTaskKey x) \<and>
    mhas (cp_agents s) (key (run_workspaceId x) (run_agentId x)) \<and> mhas (cp_connections s) (runConnectionKey x)"
  unfolding refsOk_def by blast

lemma effect_refsOk:
  assumes "effect cx lab s t" "refsOk s"
  shows "refsOk t"
  using assms
proof (cases rule: effect.cases)
  case (eff_task x now granted l)
  then have "mhas (cp_agents s) (key (task_workspaceId x) (task_assignedAgentId x))"
    using validateCurrentTaskPolicy_agent [of s now cx x "fst granted" "snd granted"] by (simp add: mhasI)
  with eff_task assms(2) show ?thesis unfolding refsOk_def by auto
next
  case (eff_taskMoved x now "next" l)
  with assms(2) refs_task [OF assms(2) eff_taskMoved(4)] show ?thesis unfolding refsOk_def by auto
next
  case (eff_run x task now agent authority c l)
  with assms(2) show ?thesis unfolding refsOk_def by (auto dest: mhasI)
next
  case (eff_bound x registrationId c externalRunId)
  with assms(2) refs_run [OF assms(2) eff_bound(4)] show ?thesis unfolding refsOk_def by auto
next
  case (eff_runMoved x c "next" task l now)
  with assms(2) refs_run [OF assms(2) eff_runMoved(4)] refs_task [OF assms(2) eff_runMoved(11)]
  show ?thesis unfolding refsOk_def by (auto split: option.splits)
qed (auto simp: refsOk_def dest: mhasI)

lemma usageRefs_runs:
  assumes "usageRefs s" "\<And>k run. mget (cp_runs s) k = Some run \<Longrightarrow>
      \<exists>run'. mget (cp_runs t) k = Some run' \<and> run_taskId run' = run_taskId run"
    "\<And>k. mhas (cp_tasks s) k \<Longrightarrow> mhas (cp_tasks t) k" "cp_usage t = cp_usage s"
  shows "usageRefs t"
  using assms unfolding usageRefs_def by metis

lemma effect_usageRefs:
  assumes "effect cx lab s t" "usageRefs s"
  shows "usageRefs t"
  using assms
proof (cases rule: effect.cases)
  case (eff_usage x task run c l)
  with assms(2) show ?thesis unfolding usageRefs_def by (auto dest: mhasI)
next
  case (eff_run x task now agent authority c l)
  with assms(2) show ?thesis by (elim usageRefs_runs) (auto simp: mhas_def)
next
  case (eff_bound x registrationId c externalRunId)
  with assms(2) show ?thesis by (elim usageRefs_runs) auto
next
  case (eff_runMoved x c "next" task l now)
  with assms(2) show ?thesis by (elim usageRefs_runs) (auto split: option.splits)
qed (auto simp: usageRefs_def dest: mhasI)

section \<open>Lifecycle of tasks and runs\<close>

fun taskStatusOf :: "RunStatus \<Rightarrow> TaskStatus" where
  "taskStatusOf R_QUEUED = T_READY"
| "taskStatusOf R_RUNNING = T_RUNNING"
| "taskStatusOf R_PAUSED = T_RUNNING"
| "taskStatusOf R_COMPLETED = T_COMPLETED"
| "taskStatusOf R_FAILED = T_FAILED"
| "taskStatusOf R_CANCELLED = T_CANCELLED"

interpretation runs: status_table RUN_TRANSITIONS activeStatus
proof
  show "activeStatus x \<longleftrightarrow> RUN_TRANSITIONS x \<noteq> []" for x
    by (cases x) (simp_all add: activeStatus_def)
qed

definition taskOpen :: "TaskStatus \<Rightarrow> bool" where
  "taskOpen st = (st \<in> {T_READY, T_RUNNING, T_BLOCKED})"

interpretation tasks: status_table TASK_TRANSITIONS taskOpen
proof
  show "taskOpen x \<longleftrightarrow> TASK_TRANSITIONS x \<noteq> []" for x
    by (cases x) (simp_all add: taskOpen_def)
qed

lemma taskStatusOf_active [simp]: "taskOpen (taskStatusOf st) \<longleftrightarrow> activeStatus st"
  by (cases st) (simp_all add: taskOpen_def activeStatus_def)

lemma taskStatusOf_READY [simp]: "T_READY = taskStatusOf st \<longleftrightarrow> st = R_QUEUED"
  by (cases st) simp_all

text \<open>A legal run transition entails a legal task transition, to the status the run's new one stands for.\<close>

lemma run_transition_task:
  assumes "next \<in> set (RUN_TRANSITIONS st)"
  shows "case taskNextFor st next of
      None \<Rightarrow> taskStatusOf next = taskStatusOf st
    | Some taskNext \<Rightarrow> taskNext = taskStatusOf next \<and> taskNext \<in> set (TASK_TRANSITIONS (taskStatusOf st))"
  using assms by (cases st) (auto simp: taskNextFor_def)

definition statusOk :: "ControlPlane \<Rightarrow> bool" where
  "statusOk s \<longleftrightarrow> (\<forall>k x. mget (cp_runs s) k = Some x \<longrightarrow>
     (\<exists>task. mget (cp_tasks s) (runTaskKey x) = Some task \<and> task_status task = taskStatusOf (run_status x)))"

definition oneRun :: "ControlPlane \<Rightarrow> bool" where
  "oneRun s \<longleftrightarrow> (\<forall>k x k' y. mget (cp_runs s) k = Some x \<longrightarrow> mget (cp_runs s) k' = Some y \<longrightarrow>
     runTaskKey x = runTaskKey y \<longrightarrow> k = k')"

definition taskDriven :: "ControlPlane \<Rightarrow> bool" where
  "taskDriven s \<longleftrightarrow> (\<forall>k task. mget (cp_tasks s) k = Some task \<longrightarrow>
     task_status task \<in> {T_RUNNING, T_COMPLETED, T_FAILED} \<longrightarrow>
     (\<exists>k' x. mget (cp_runs s) k' = Some x \<and> runTaskKey x = k))"

definition lifecycleOk :: "ControlPlane \<Rightarrow> bool" where
  "lifecycleOk s \<longleftrightarrow> statusOk s \<and> oneRun s \<and> taskDriven s"

lemma lifecycle_status:
  assumes "lifecycleOk s" "mget (cp_runs s) k = Some x" "mget (cp_tasks s) (runTaskKey x) = Some task"
  shows "task_status task = taskStatusOf (run_status x)"
  using assms by (fastforce simp: lifecycleOk_def statusOk_def)

lemma taskHasActiveRun_iff:
  assumes "storesOk s"
  shows "taskHasActiveRun s w i \<longleftrightarrow> (\<exists>k x. mget (cp_runs s) k = Some x \<and> runTaskKey x = key w i \<and> activeStatus (run_status x))"
proof -
  have "taskHasActiveRun s w i \<longleftrightarrow> (\<exists>x. mget (cp_runs s) (runKey x) = Some x \<and> runTaskKey x = key w i \<and> activeStatus (run_status x))"
    unfolding taskHasActiveRun_def by (auto simp: runs_values [OF assms])
  also have "\<dots> \<longleftrightarrow> (\<exists>k x. mget (cp_runs s) k = Some x \<and> runTaskKey x = key w i \<and> activeStatus (run_status x))"
    using runs_get [OF assms] by metis
  finally show ?thesis .
qed

text \<open>A task that may still move and has no active run has no run at all.\<close>

lemma no_run_of_idle_task:
  assumes "storesOk s" "lifecycleOk s" "mget (cp_tasks s) (taskKey x) = Some x"
    "\<not> taskHasActiveRun s (task_workspaceId x) (task_id x)" "next \<in> set (TASK_TRANSITIONS (task_status x))"
    "mget (cp_runs s) k = Some y"
  shows "runTaskKey y \<noteq> taskKey x"
proof
  assume y: "runTaskKey y = taskKey x"
  with assms lifecycle_status [OF assms(2,6)] have "task_status x = taskStatusOf (run_status y)" by metis
  with tasks.step_from_active [OF assms(5)] have "activeStatus (run_status y)" by simp
  with y assms(4,6) show False unfolding taskHasActiveRun_iff [OF assms(1)] by blast
qed

text \<open>A run rewritten in place with its task kept, while the task takes the status of the run.\<close>

lemma lifecycle_rewrite:
  assumes ok: "lifecycleOk s" and x: "mget (cp_runs s) k = Some x" "runTaskKey y = runTaskKey x"
    and task: "mget (cp_tasks s) (runTaskKey x) = Some task" "task_status task' = taskStatusOf (run_status y)"
    and runs: "cp_runs t = mset_at (cp_runs s) k y"
    and tasks: "\<And>k. mget (cp_tasks t) k = (if k = runTaskKey x then Some task' else mget (cp_tasks s) k)"
  shows "lifecycleOk t"
proof -
  have same: "\<exists>z'. mget (cp_runs s) k' = Some z' \<and> runTaskKey z' = runTaskKey z" if "mget (cp_runs t) k' = Some z" for k' z
    using that x runs by (auto split: if_splits)
  have one: "oneRun t" using ok same unfolding lifecycleOk_def oneRun_def by metis
  have "statusOk t" unfolding statusOk_def
  proof (intro allI impI)
    fix k' z assume z: "mget (cp_runs t) k' = Some z"
    show "\<exists>task. mget (cp_tasks t) (runTaskKey z) = Some task \<and> task_status task = taskStatusOf (run_status z)"
    proof (cases "k' = k")
      case True
      with z runs x(2) task(2) tasks show ?thesis by simp
    next
      case False
      with z have z': "mget (cp_runs s) k' = Some z" using runs by simp
      with False ok x(1) have "runTaskKey z \<noteq> runTaskKey x" unfolding lifecycleOk_def oneRun_def by blast
      moreover obtain tz where "mget (cp_tasks s) (runTaskKey z) = Some tz" "task_status tz = taskStatusOf (run_status z)"
        using ok z' unfolding lifecycleOk_def statusOk_def by blast
      ultimately show ?thesis using tasks by auto
    qed
  qed
  moreover have "taskDriven t" unfolding taskDriven_def
  proof (intro allI impI)
    fix k' tz assume tz: "mget (cp_tasks t) k' = Some tz" "task_status tz \<in> {T_RUNNING, T_COMPLETED, T_FAILED}"
    show "\<exists>k'' z. mget (cp_runs t) k'' = Some z \<and> runTaskKey z = k'"
    proof (cases "k' = runTaskKey x")
      case True
      with runs x(2) show ?thesis by auto
    next
      case False
      with tz(1) tasks have "mget (cp_tasks s) k' = Some tz" by simp
      with tz(2) ok obtain k'' z where z: "mget (cp_runs s) k'' = Some z" "runTaskKey z = k'"
        unfolding lifecycleOk_def taskDriven_def by blast
      with False x(1) have "mget (cp_runs t) k'' = Some z" using runs by auto
      with z(2) show ?thesis by blast
    qed
  qed
  ultimately show ?thesis using one unfolding lifecycleOk_def by blast
qed

lemma lifecycle_new_task:
  assumes ok: "lifecycleOk s" and new: "\<not> mhas (cp_tasks s) k" "task_status task = T_READY"
    and t: "cp_runs t = cp_runs s" "cp_tasks t = mset_at (cp_tasks s) k task"
  shows "lifecycleOk t"
proof -
  have "runTaskKey x \<noteq> k" if "mget (cp_runs s) k' = Some x" for k' x
    using ok that new(1) unfolding lifecycleOk_def statusOk_def mhas_def by (metis option.distinct(1))
  then have "statusOk t" using ok t unfolding lifecycleOk_def statusOk_def by fastforce
  moreover have "taskDriven t" using ok new(2) t unfolding lifecycleOk_def taskDriven_def by auto
  ultimately show ?thesis using ok t unfolding lifecycleOk_def oneRun_def by auto
qed

lemma lifecycle_moved_task:
  assumes ok: "lifecycleOk s" and x: "mget (cp_tasks s) (taskKey x) = Some x"
    and free: "\<And>k y. mget (cp_runs s) k = Some y \<Longrightarrow> runTaskKey y \<noteq> taskKey x"
    and "next": "next \<notin> {T_RUNNING, T_COMPLETED}" "next \<in> set (TASK_TRANSITIONS (task_status x))"
    and t: "cp_runs t = cp_runs s" "cp_tasks t = mset_at (cp_tasks s) (taskKey x) (x\<lparr>task_status := next\<rparr>)"
  shows "lifecycleOk t"
proof -
  have "task_status x \<noteq> T_RUNNING" using ok x free unfolding lifecycleOk_def taskDriven_def by blast
  with "next" have "next \<notin> {T_RUNNING, T_COMPLETED, T_FAILED}" by (cases "task_status x") auto
  then have "taskDriven t" using ok t free unfolding lifecycleOk_def taskDriven_def by auto
  moreover have "statusOk t" using ok t free unfolding lifecycleOk_def statusOk_def by fastforce
  ultimately show ?thesis using ok t unfolding lifecycleOk_def oneRun_def by auto
qed

lemma lifecycle_new_run:
  assumes ok: "lifecycleOk s" and new: "\<not> mhas (cp_runs s) k" "run_status x = R_QUEUED"
    and task: "mget (cp_tasks s) (runTaskKey x) = Some task" "task_status task = T_READY"
    and free: "\<And>k' y. mget (cp_runs s) k' = Some y \<Longrightarrow> runTaskKey y \<noteq> runTaskKey x"
    and t: "cp_runs t = mset_at (cp_runs s) k x" "cp_tasks t = cp_tasks s"
  shows "lifecycleOk t"
proof -
  have "statusOk t" using ok new(2) task t unfolding lifecycleOk_def statusOk_def by auto
  moreover have "oneRun t" using ok free unfolding lifecycleOk_def oneRun_def t mget_mset_at by (metis option.inject)
  moreover have "taskDriven t" unfolding taskDriven_def
  proof (intro allI impI)
    fix k' tz assume "mget (cp_tasks t) k' = Some tz" "task_status tz \<in> {T_RUNNING, T_COMPLETED, T_FAILED}"
    with ok t(2) obtain k'' z where z: "mget (cp_runs s) k'' = Some z" "runTaskKey z = k'"
      unfolding lifecycleOk_def taskDriven_def by metis
    with new(1) have "mget (cp_runs t) k'' = Some z" using t(1) by (auto simp: mhas_def)
    with z(2) show "\<exists>k'' z. mget (cp_runs t) k'' = Some z \<and> runTaskKey z = k'" by blast
  qed
  ultimately show ?thesis unfolding lifecycleOk_def by blast
qed

lemma effect_lifecycle:
  assumes e: "effect cx lab s t" and ok: "storesOk s" and life: "lifecycleOk s"
  shows "lifecycleOk t"
  using e
proof (cases rule: effect.cases)
  case (eff_task x now granted l)
  with life show ?thesis by (auto intro: lifecycle_new_task)
next
  case (eff_taskMoved x now "next" l)
  from no_run_of_idle_task [OF ok life eff_taskMoved(4,6,8)]
  show ?thesis by (intro lifecycle_moved_task [OF life eff_taskMoved(4) _ eff_taskMoved(7,8)])
    (auto simp: eff_taskMoved(2))
next
  case (eff_run x task now agent authority c l)
  have "runTaskKey y \<noteq> runTaskKey x" if y: "mget (cp_runs s) k' = Some y" for k' y
  proof
    assume k: "runTaskKey y = runTaskKey x"
    with y eff_run(9,10) lifecycle_status [OF life y] have "run_status y = R_QUEUED"
      by (metis taskStatusOf_READY)
    with y k eff_run(20) show False
      unfolding taskHasActiveRun_iff [OF ok] by (fastforce simp: activeStatus_def)
  qed
  with life eff_run show ?thesis by (auto intro!: lifecycle_new_run [OF life _ _ eff_run(9,10)])
next
  case (eff_bound x registrationId c externalRunId)
  obtain task where task: "mget (cp_tasks s) (runTaskKey x) = Some task" "task_status task = taskStatusOf (run_status x)"
    using life eff_bound(4) unfolding lifecycleOk_def statusOk_def by blast
  show ?thesis
    by (rule lifecycle_rewrite [OF life eff_bound(4) _ task(1)]) (use task in \<open>auto simp: eff_bound(2)\<close>)
next
  case (eff_runMoved x c "next" task l now)
  have st: "task_status task = taskStatusOf (run_status x)"
    using lifecycle_status [OF life eff_runMoved(4,11)] .
  show ?thesis
    by (rule lifecycle_rewrite [OF life eff_runMoved(4) _ eff_runMoved(11), where
        task' = "case taskNextFor (run_status x) next of None \<Rightarrow> task | Some n \<Rightarrow> task\<lparr>task_status := n\<rparr>"
        and y = "updatedRun x next now"])
      (use st run_transition_task [OF eff_runMoved(8)] eff_runMoved(11,12) in
        \<open>auto simp: eff_runMoved(2) split: option.splits\<close>)
qed (use life in \<open>simp_all add: lifecycleOk_def statusOk_def oneRun_def taskDriven_def\<close>)

section \<open>Budgets\<close>

definition limitOk :: "CostLimit \<Rightarrow> bool" where
  "limitOk limit \<longleftrightarrow> isSafeInteger (cl_maximumMinorUnits limit) \<and> 0 \<le> cl_maximumMinorUnits limit \<and>
     isSafeInteger (cl_maximumComputeUnits limit) \<and> 0 \<le> cl_maximumComputeUnits limit"

lemma assertCostLimit_limitOk: "assertCostLimit limit = Inr () \<Longrightarrow> limitOk limit"
  by (simp add: assertCostLimit_def outcome_simps limitOk_def)

lemma totals_append [simp]:
  "totalCost (xs @ [x]) = totalCost xs + orZero (us_costMinorUnits x)"
  "totalCompute (xs @ [x]) = totalCompute xs + orZero (us_computeUnits x)"
  "totalCost [] = 0" "totalCompute [] = 0"
  by (simp_all add: totalCost_def totalCompute_def)

definition withinLimits :: "CostLimit \<Rightarrow> UsageRecord list \<Rightarrow> bool" where
  "withinLimits limit used \<longleftrightarrow> limitOk limit \<and> totalCost used \<le> cl_maximumMinorUnits limit \<and>
     totalCompute used \<le> cl_maximumComputeUnits limit"

definition budgetOk :: "ControlPlane \<Rightarrow> bool" where
  "budgetOk s \<longleftrightarrow> (\<forall>k task. mget (cp_tasks s) k = Some task \<longrightarrow>
     withinLimits (task_costLimit task) (taskUsage s (task_workspaceId task) (task_id task)))"

lemma taskUsage_record:
  assumes "\<not> mhas (cp_usage s) k" "cp_usage t = mset_at (cp_usage s) k x"
  shows "taskUsage t w i = taskUsage s w i @ (if us_workspaceId x = w \<and> us_taskId x = i then [x] else [])"
  using assms by (simp add: taskUsage_def)

lemma unused_task:
  assumes "storesOk s" "usageRefs s" "\<not> mhas (cp_tasks s) (key w i)"
  shows "taskUsage s w i = []"
proof -
  have "us_workspaceId x \<noteq> w \<or> us_taskId x \<noteq> i" if "x \<in> set (mvalues (cp_usage s))" for x
    using assms(2,3) that unfolding usageRefs_def usage_values [OF assms(1)] by blast
  then show ?thesis unfolding taskUsage_def filter_empty_conv by blast
qed

lemma withinBudget_limits:
  assumes "withinBudget s task x" "withinLimits (task_costLimit task) (taskUsage s (us_workspaceId x) (us_taskId x))"
  shows "withinLimits (task_costLimit task) (taskUsage s (us_workspaceId x) (us_taskId x) @ [x])"
proof -
  define u where "u = taskUsage s (us_workspaceId x) (us_taskId x)"
  define l where "l = task_costLimit task"
  have l: "isSafeInteger (cl_maximumMinorUnits l)" "isSafeInteger (cl_maximumComputeUnits l)"
    "totalCost u \<le> cl_maximumMinorUnits l" "totalCompute u \<le> cl_maximumComputeUnits l"
    using assms(2) by (simp_all add: withinLimits_def limitOk_def l_def u_def)
  have b: "us_costMinorUnits x = Some c \<Longrightarrow> \<not> double_round (totalCost u + c) > cl_maximumMinorUnits l"
    "us_computeUnits x = Some c \<Longrightarrow> \<not> double_round (totalCompute u + c) > cl_maximumComputeUnits l" for c
    using assms(1) by (auto simp: withinBudget_def l_def u_def Let_def)
  have "totalCost u + orZero (us_costMinorUnits x) \<le> cl_maximumMinorUnits l"
    using b(1) l(3) unfolding double_round_guard [OF l(1)]
    by (cases "us_costMinorUnits x") (auto simp: orZero_def not_less)
  moreover have "totalCompute u + orZero (us_computeUnits x) \<le> cl_maximumComputeUnits l"
    using b(2) l(4) unfolding double_round_guard [OF l(2)]
    by (cases "us_computeUnits x") (auto simp: orZero_def not_less)
  ultimately show ?thesis using assms(2) by (simp add: withinLimits_def l_def u_def)
qed

lemma budget_frame:
  assumes "budgetOk s" "cp_usage t = cp_usage s"
    "\<And>k task. mget (cp_tasks t) k = Some task \<Longrightarrow> \<exists>k' task'. mget (cp_tasks s) k' = Some task' \<and>
      task_costLimit task' = task_costLimit task \<and> taskKey task' = taskKey task"
  shows "budgetOk t"
  unfolding budgetOk_def
proof (intro allI impI)
  fix k task assume "mget (cp_tasks t) k = Some task"
  with assms(3) obtain k' task' where "mget (cp_tasks s) k' = Some task'"
    "task_costLimit task' = task_costLimit task" "taskKey task' = taskKey task" by blast
  with assms(1,2) show "withinLimits (task_costLimit task) (taskUsage t (task_workspaceId task) (task_id task))"
    unfolding budgetOk_def taskUsage_def by (metis key_inj)
qed

lemma effect_budget:
  assumes e: "effect cx lab s t" and ok: "storesOk s" and refs: "usageRefs s" and budget: "budgetOk s"
  shows "budgetOk t"
  using e
proof (cases rule: effect.cases)
  case (eff_task x now granted l)
  have "taskUsage s (task_workspaceId x) (task_id x) = []" using unused_task [OF ok refs] eff_task by simp
  moreover have "limitOk (task_costLimit x)"
    using assertCostLimit_limitOk validateCurrentTaskPolicy_cost eff_task(6) by blast
  ultimately have "withinLimits (task_costLimit x) (taskUsage s (task_workspaceId x) (task_id x))"
    by (simp add: withinLimits_def limitOk_def)
  with budget eff_task(2) show ?thesis by (simp add: budgetOk_def taskUsage_def)
next
  case (eff_taskMoved x now "next" l)
  show ?thesis by (rule budget_frame [OF budget]) (use eff_taskMoved(2,4) in \<open>fastforce split: if_splits\<close>)+
next
  case (eff_runMoved x c "next" task l now)
  show ?thesis by (rule budget_frame [OF budget])
    (use eff_runMoved(2,11,12) in \<open>fastforce split: if_splits option.splits\<close>)+
next
  case (eff_usage x task run c l)
  have task: "taskKey task = key (us_workspaceId x) (us_taskId x)" using tasks_get [OF ok eff_usage(5)] .
  have u: "taskUsage t w i = taskUsage s w i @ (if us_workspaceId x = w \<and> us_taskId x = i then [x] else [])" for w i
    using taskUsage_record [OF eff_usage(4)] eff_usage(2) by simp
  show ?thesis unfolding budgetOk_def
  proof (intro allI impI)
    fix k tz assume tz: "mget (cp_tasks t) k = Some tz"
    then have tz': "mget (cp_tasks s) k = Some tz" using eff_usage(2) by simp
    then have b: "withinLimits (task_costLimit tz) (taskUsage s (task_workspaceId tz) (task_id tz))"
      using budget by (simp add: budgetOk_def)
    show "withinLimits (task_costLimit tz) (taskUsage t (task_workspaceId tz) (task_id tz))"
    proof (cases "us_workspaceId x = task_workspaceId tz \<and> us_taskId x = task_id tz")
      case True
      with tz' tasks_get [OF ok tz'] eff_usage(5) have "tz = task" by simp
      with True b withinBudget_limits [OF eff_usage(10)] show ?thesis by (simp add: u)
    qed (use b in \<open>auto simp: u\<close>)
  qed
qed (use budget in \<open>simp_all add: budgetOk_def taskUsage_def\<close>)

section \<open>Heartbeats\<close>

definition heartbeatsOf :: "ControlPlane \<Rightarrow> EntityId \<Rightarrow> EntityId \<Rightarrow> int list" where
  "heartbeatsOf s w c = map hb_sequence (filter (\<lambda>h. hb_workspaceId h = w \<and> hb_runtimeConnectionId h = c)
     (mvalues (cp_heartbeats s)))"

definition heartbeatsOk :: "ControlPlane \<Rightarrow> bool" where
  "heartbeatsOk s \<longleftrightarrow> (\<forall>w c. sorted_wrt (<) (heartbeatsOf s w c) \<and> (\<forall>n \<in> set (heartbeatsOf s w c). 0 \<le> n))"

lemma foldl_max_ge:
  fixes a :: int
  shows "a \<le> foldl (\<lambda>h x. max h (f x)) a xs \<and> (\<forall>x \<in> set xs. f x \<le> foldl (\<lambda>h x. max h (f x)) a xs)"
  by (induction xs rule: rev_induct) auto

lemma highestSequence_bounds:
  "- 1 \<le> highestSequence s w c \<and> (\<forall>n \<in> set (heartbeatsOf s w c). n \<le> highestSequence s w c)"
  unfolding highestSequence_def heartbeatsOf_def
  using foldl_max_ge [of "- 1" hb_sequence "filter (\<lambda>h. hb_workspaceId h = w \<and> hb_runtimeConnectionId h = c)
     (mvalues (cp_heartbeats s))"] by auto

lemma effect_heartbeats:
  assumes e: "effect cx lab s t" and hb: "heartbeatsOk s"
  shows "heartbeatsOk t"
  using e
proof (cases rule: effect.cases)
  case (eff_heartbeat h c l)
  have u: "heartbeatsOf t w i = heartbeatsOf s w i @
      (if hb_workspaceId h = w \<and> hb_runtimeConnectionId h = i then [hb_sequence h] else [])" for w i
    using eff_heartbeat(2,7) by (simp add: heartbeatsOf_def)
  show ?thesis
    using hb eff_heartbeat(8) highestSequence_bounds [of s "hb_workspaceId h" "hb_runtimeConnectionId h"]
    by (fastforce simp: heartbeatsOk_def u sorted_wrt_append)
qed (use hb in \<open>simp_all add: heartbeatsOk_def heartbeatsOf_def\<close>)

section \<open>Event logs\<close>

definition sinkOk :: "ControlPlane \<Rightarrow> bool" where
  "sinkOk s = (case cp_events s of None \<Rightarrow> True | Some (sink, _) \<Rightarrow> logOk sink)"

text \<open>The idempotency index knows every stored event, so no idempotency key is used twice.\<close>

definition idempotencyOk :: "ControlPlane \<Rightarrow> bool" where
  "idempotencyOk s \<longleftrightarrow> (\<forall>k e. mget (cp_eventsById s) k = Some e \<longrightarrow>
     mget (cp_eventIdempotency s) (key (ev_workspaceId e) (ev_idempotencyKey e)) = Some (ev_id e))"

lemma logGrows_ok:
  assumes "logGrows (Some (sink, c)) l'" "logOk sink"
  shows "\<exists>sink'. l' = Some (sink', c) \<and> logOk sink' \<and> elog.history sink sink'"
  using assms(1)
proof (cases rule: logGrows.cases)
  case (log_append c' cx batch sink')
  with assms(2) elog.history_append [OF elog.history_refl] elog.append_invar show ?thesis by blast
qed (use assms(2) in \<open>auto intro: elog.history_refl\<close>)

lemma effect_log: "effect cx lab s t \<Longrightarrow> logGrows (cp_events s) (cp_events t)"
  by (cases rule: effect.cases) (auto intro: log_same)

lemma effect_sinkOk:
  assumes "effect cx lab s t" "sinkOk s"
  shows "sinkOk t"
proof (cases "cp_events s")
  case None
  with effect_log [OF assms(1)] show ?thesis by (auto simp: sinkOk_def elim: logGrows.cases)
next
  case (Some p)
  with logGrows_ok [of "fst p" "snd p" "cp_events t"] effect_log [OF assms(1)] assms(2) show ?thesis
    by (auto simp: sinkOk_def split: prod.splits)
qed

lemma effect_idempotency:
  assumes e: "effect cx lab s t" and i: "idempotencyOk s"
  shows "idempotencyOk t"
  using e
proof (cases rule: effect.cases)
  case (eff_event e k l)
  with i show ?thesis unfolding idempotencyOk_def mhas_def by (auto; metis option.distinct(1))
qed (use i in \<open>simp_all add: idempotencyOk_def\<close>)

end
