(* ===== verification/Control_Plane_Permits.thy ===== *)
theory Control_Plane_Permits
  imports Control_Plane_Invariants
begin

text \<open>
  Permits and ownership: a dispatch permit exists only for a run that was not claimed, a run is
  bound to an external run only through its claimed dispatch, the adapter of an active run stays
  registered, and pending adapter calls correspond one to one to the in-flight markers.
\<close>

section \<open>Dispatch permits\<close>

definition permitsOk :: "ControlPlane \<Rightarrow> bool" where
  "permitsOk s \<longleftrightarrow>
     (\<forall>k d. mget (cp_dispatches s) k = Some d \<longrightarrow>
        permitRunKey d \<in> cp_dispatchedRuns s \<and> permitRunKey d \<notin> cp_claimedDispatchRuns s) \<and>
     (\<forall>k d k' d'. mget (cp_dispatches s) k = Some d \<longrightarrow> mget (cp_dispatches s) k' = Some d' \<longrightarrow>
        permitRunKey d = permitRunKey d' \<longrightarrow> k = k') \<and>
     cp_claimedDispatchRuns s \<subseteq> cp_dispatchedRuns s \<and> (\<forall>k \<in> cp_dispatchedRuns s. mhas (cp_runs s) k)"

lemma permitsD: "permitsOk s \<Longrightarrow> mget (cp_dispatches s) k = Some d \<Longrightarrow>
    permitRunKey d \<in> cp_dispatchedRuns s \<and> permitRunKey d \<notin> cp_claimedDispatchRuns s"
  unfolding permitsOk_def by blast

lemma permits_minted:
  assumes "permitsOk s" "k \<notin> cp_dispatchedRuns s" "mhas (cp_runs s) k" "permitRunKey d = k"
    "cp_dispatches t = mset_at (cp_dispatches s) p d" "cp_dispatchedRuns t = insert k (cp_dispatchedRuns s)"
    "cp_claimedDispatchRuns t = cp_claimedDispatchRuns s" "cp_runs t = cp_runs s"
  shows "permitsOk t"
proof -
  have other: "permitRunKey d' \<noteq> k" if "mget (cp_dispatches s) k' = Some d'" for k' d'
    using assms(1,2) that unfolding permitsOk_def by blast
  have "\<forall>k d. mget (cp_dispatches t) k = Some d \<longrightarrow>
        permitRunKey d \<in> cp_dispatchedRuns t \<and> permitRunKey d \<notin> cp_claimedDispatchRuns t"
    using assms(1,2,4) unfolding permitsOk_def assms(5-8) mget_mset_at by (metis insertCI option.inject subsetD)
  moreover have "\<forall>k d k' d'. mget (cp_dispatches t) k = Some d \<longrightarrow> mget (cp_dispatches t) k' = Some d' \<longrightarrow>
        permitRunKey d = permitRunKey d' \<longrightarrow> k = k'"
    using assms(1,4) other unfolding permitsOk_def assms(5) mget_mset_at by (metis option.inject)
  ultimately show ?thesis using assms(1,3) unfolding permitsOk_def assms(6-8) by auto
qed

lemma permits_removed:
  assumes "permitsOk s" "mget (cp_dispatches s) k = Some d"
    "cp_dispatches t = mdelete (cp_dispatches s) k" "cp_runs t = cp_runs s"
    "cp_dispatchedRuns t = cp_dispatchedRuns s - {permitRunKey d} \<and> cp_claimedDispatchRuns t = cp_claimedDispatchRuns s \<or>
     cp_dispatchedRuns t = cp_dispatchedRuns s \<and> cp_claimedDispatchRuns t = insert (permitRunKey d) (cp_claimedDispatchRuns s)"
  shows "permitsOk t"
proof -
  have d: "permitRunKey d \<in> cp_dispatchedRuns s" "permitRunKey d \<notin> cp_claimedDispatchRuns s"
    using assms(1,2) unfolding permitsOk_def by blast+
  have other: "mget (cp_dispatches s) k' = Some d' \<and> permitRunKey d' \<noteq> permitRunKey d"
    if "mget (cp_dispatches t) k' = Some d'" for k' d'
    using assms(1-3) that unfolding permitsOk_def by (metis (no_types, lifting) mget_mdelete option.distinct(1))
  have "permitRunKey d' \<in> cp_dispatchedRuns t \<and> permitRunKey d' \<notin> cp_claimedDispatchRuns t"
    if "mget (cp_dispatches t) k' = Some d'" for k' d'
  proof -
    have "permitRunKey d' \<in> cp_dispatchedRuns s" "permitRunKey d' \<notin> cp_claimedDispatchRuns s"
      using permitsD [OF assms(1) conjunct1 [OF other [OF that]]] by simp_all
    with assms(5) conjunct2 [OF other [OF that]] show ?thesis by (metis Diff_iff empty_iff insert_iff)
  qed
  moreover have "\<forall>k d k' d'. mget (cp_dispatches t) k = Some d \<longrightarrow> mget (cp_dispatches t) k' = Some d' \<longrightarrow>
        permitRunKey d = permitRunKey d' \<longrightarrow> k = k'"
    using assms(1) other unfolding permitsOk_def by metis
  moreover have "cp_claimedDispatchRuns t \<subseteq> cp_dispatchedRuns t" "\<forall>k \<in> cp_dispatchedRuns t. mhas (cp_runs t) k"
    using assms(1,4,5) d unfolding permitsOk_def by auto
  ultimately show ?thesis unfolding permitsOk_def by blast
qed

lemma permits_frame:
  assumes "permitsOk s" "cp_dispatches t = cp_dispatches s" "cp_dispatchedRuns t = cp_dispatchedRuns s"
    "cp_claimedDispatchRuns t = cp_claimedDispatchRuns s" "\<And>k. mhas (cp_runs s) k \<Longrightarrow> mhas (cp_runs t) k"
  shows "permitsOk t"
  using assms unfolding permitsOk_def by auto

lemma effect_permits:
  assumes e: "effect cx lab s t" and p: "permitsOk s"
  shows "permitsOk t"
  using e
proof (cases rule: effect.cases)
  case (eff_minted x c d)
  show ?thesis
    by (rule permits_minted [OF p eff_minted(6) mhasI [OF eff_minted(4)] eff_minted(9)]) (simp_all add: eff_minted(2))
next
  case (eff_dropped d)
  show ?thesis by (rule permits_removed [OF p eff_dropped(4)]) (simp_all add: eff_dropped(2))
next
  case (eff_claimed d x c now)
  show ?thesis by (rule permits_removed [OF p eff_claimed(4)]) (simp_all add: eff_claimed(2))
qed (rule permits_frame [OF p]; simp)+

section \<open>Bindings to external runs\<close>

definition boundOk :: "string set \<Rightarrow> string \<Rightarrow> AgentRun \<Rightarrow> bool" where
  "boundOk claimed k x \<longleftrightarrow>
     (run_externalRunId x = None \<longleftrightarrow> run_adapterRegistrationId x = None) \<and>
     (run_externalRunId x \<noteq> None \<longrightarrow> truthy (run_externalRunId x) \<and> k \<in> claimed) \<and>
     (run_status x \<in> {R_RUNNING, R_PAUSED, R_COMPLETED, R_FAILED} \<longrightarrow> run_externalRunId x \<noteq> None)"

definition bindingsOk :: "ControlPlane \<Rightarrow> bool" where
  "bindingsOk s \<longleftrightarrow> (\<forall>k x. mget (cp_runs s) k = Some x \<longrightarrow> boundOk (cp_claimedDispatchRuns s) k x)"

lemma bindingsD: "bindingsOk s \<Longrightarrow> mget (cp_runs s) k = Some x \<Longrightarrow> boundOk (cp_claimedDispatchRuns s) k x"
  by (simp add: bindingsOk_def)

lemma boundOk_mono: "boundOk claimed k x \<Longrightarrow> boundOk (insert k' claimed) k x"
  by (auto simp: boundOk_def)

definition inFlightOk :: "ControlPlane \<Rightarrow> bool" where
  "inFlightOk s \<longleftrightarrow> (\<forall>k. mhas (cp_inFlightDispatchAdapters s) k \<longrightarrow> k \<in> cp_claimedDispatchRuns s \<and>
     (\<exists>x. mget (cp_runs s) k = Some x \<and> run_status x = R_QUEUED \<and> run_externalRunId x = None))"

lemma nonBlank_truthy: "nonBlankUpTo n e \<Longrightarrow> truthy (Some e)"
  by (auto simp: nonBlankUpTo_def trim_def)

lemma boundOk_moved:
  assumes "boundOk claimed k x" "next \<in> set (RUN_TRANSITIONS (run_status x))"
    "run_status x = R_QUEUED \<and> next = R_RUNNING \<longrightarrow> truthy (run_externalRunId x)"
  shows "boundOk claimed k (updatedRun x next now)"
  using assms by (cases "run_status x") (auto simp: boundOk_def)

lemma effect_bindings:
  assumes e: "effect cx lab s t" and b: "bindingsOk s"
  shows "bindingsOk t"
  using e
proof (cases rule: effect.cases)
  case (eff_run x task now agent authority c l)
  have "boundOk (cp_claimedDispatchRuns s) (runKey x) x" using eff_run(4-6) by (simp add: boundOk_def)
  with b eff_run(2) show ?thesis by (simp add: bindingsOk_def)
next
  case (eff_bound x registrationId c externalRunId)
  let ?x = "x\<lparr>run_externalRunId := Some externalRunId, run_adapterRegistrationId := Some registrationId\<rparr>"
  have "boundOk (cp_claimedDispatchRuns s) (runKey x) ?x"
    using eff_bound(6) nonBlank_truthy [OF eff_bound(11)] by (simp add: boundOk_def)
  with b eff_bound(2) show ?thesis by (simp add: bindingsOk_def)
next
  case (eff_claimed d x c now)
  with b show ?thesis by (simp add: bindingsOk_def boundOk_mono)
next
  case (eff_runMoved x c "next" task l now)
  have "boundOk (cp_claimedDispatchRuns s) (runKey x) (updatedRun x next now)"
    using boundOk_moved [OF bindingsD [OF b eff_runMoved(4)] eff_runMoved(8)] eff_runMoved(10) by blast
  with b eff_runMoved(2) show ?thesis by (simp add: bindingsOk_def)
qed (use b in \<open>simp_all add: bindingsOk_def\<close>)

lemma effect_inFlight:
  assumes e: "effect cx lab s t" and i: "inFlightOk s" and b: "bindingsOk s" and p: "permitsOk s"
  shows "inFlightOk t"
  using e
proof (cases rule: effect.cases)
  case (eff_run x task now agent authority c l)
  with i show ?thesis unfolding inFlightOk_def by (auto simp: mhas_def)
next
  case (eff_claimed d x c now)
  have "permitRunKey d \<notin> cp_claimedDispatchRuns s" using p eff_claimed(4) unfolding permitsOk_def by blast
  with b eff_claimed(5) have "run_externalRunId x = None" unfolding bindingsOk_def boundOk_def by blast
  with i eff_claimed(5,6) show ?thesis unfolding inFlightOk_def eff_claimed(2) by simp
next
  case (eff_bound x registrationId c externalRunId)
  with i show ?thesis unfolding inFlightOk_def by (auto simp: mhas_def)
next
  case (eff_released k i')
  with i show ?thesis unfolding inFlightOk_def by (auto simp: mhas_def)
next
  case (eff_runMoved x c "next" task l now)
  with i show ?thesis unfolding inFlightOk_def by auto
qed (use i in \<open>simp_all add: inFlightOk_def\<close>)

section \<open>One external run per connection\<close>

definition externalUnique :: "ControlPlane \<Rightarrow> bool" where
  "externalUnique s \<longleftrightarrow> (\<forall>k x k' y. mget (cp_runs s) k = Some x \<longrightarrow> mget (cp_runs s) k' = Some y \<longrightarrow>
     runConnectionKey x = runConnectionKey y \<longrightarrow> run_externalRunId x \<noteq> None \<longrightarrow>
     run_externalRunId x = run_externalRunId y \<longrightarrow> k = k')"

lemma effect_external:
  assumes e: "effect cx lab s t" and ok: "storesOk s" and u: "externalUnique s"
  shows "externalUnique t"
  using e
proof (cases rule: effect.cases)
  case (eff_run x task now agent authority c l)
  with u show ?thesis unfolding externalUnique_def by (auto; metis)
next
  case (eff_bound x registrationId c externalRunId)
  have fresh: "k = runKey x" if "mget (cp_runs s) k = Some y" "runConnectionKey y = runConnectionKey x"
      "run_externalRunId y = Some externalRunId" for k y
    using that eff_bound(12) runs_get [OF ok that(1)] runs_values [OF ok] by (metis key_inj)
  from u fresh show ?thesis unfolding externalUnique_def eff_bound(2) by (auto; metis)
next
  case (eff_runMoved x c "next" task l now)
  with u show ?thesis unfolding externalUnique_def by (auto; metis)
qed (use u in \<open>simp_all add: externalUnique_def\<close>)

section \<open>Cancelled runs\<close>

definition cancelledBound :: "ControlPlane \<Rightarrow> bool" where
  "cancelledBound s \<longleftrightarrow> (\<forall>k x. mget (cp_runs s) k = Some x \<longrightarrow> run_status x = R_CANCELLED \<longrightarrow>
     run_externalRunId x \<noteq> None \<longrightarrow> k \<in> cp_successfulCancellations s)"

lemma effect_cancelled:
  assumes e: "effect cx lab s t" and b: "bindingsOk s" and c: "cancelledBound s"
  shows "cancelledBound t"
  using e
proof (cases rule: effect.cases)
  case (eff_bound x registrationId c' externalRunId)
  with c show ?thesis unfolding cancelledBound_def by (auto simp: activeStatus_def)
next
  case (eff_runMoved x c' "next" task l now)
  have "run_externalRunId x \<noteq> None \<longrightarrow> truthy (run_externalRunId x)"
    using bindingsD [OF b eff_runMoved(4)] unfolding boundOk_def by blast
  with c eff_runMoved(2,9) show ?thesis unfolding cancelledBound_def by auto
qed (use c in \<open>simp_all add: cancelledBound_def\<close>)

section \<open>Adapters of active runs\<close>

text \<open>The adapter registered for the runtime of a run's connection.\<close>

definition adapterFor :: "ControlPlane \<Rightarrow> AgentRun \<Rightarrow> EntityId option" where
  "adapterFor s x = (case mget (cp_connections s) (runConnectionKey x) of
     None \<Rightarrow> None
   | Some c \<Rightarrow> map_option ar_registrationId (mget (cp_runtimeAdapters s) (key (run_workspaceId x) (conn_runtimeId c))))"

text \<open>The adapter a run depends on: the one starting it, or the one that started it.\<close>

definition dependsOn :: "ControlPlane \<Rightarrow> string \<Rightarrow> AgentRun \<Rightarrow> EntityId \<Rightarrow> bool" where
  "dependsOn s k x r \<longleftrightarrow> mget (cp_runs s) k = Some x \<and> activeStatus (run_status x) \<and>
     (mget (cp_inFlightDispatchAdapters s) k = Some r \<or> run_adapterRegistrationId x = Some r)"

definition adaptersOk :: "ControlPlane \<Rightarrow> bool" where
  "adaptersOk s \<longleftrightarrow> (\<forall>k x r. dependsOn s k x r \<longrightarrow> adapterFor s x = Some r)"

lemma adaptersD: "adaptersOk s \<Longrightarrow> dependsOn s k x r \<Longrightarrow> adapterFor s x = Some r"
  unfolding adaptersOk_def by blast

lemma adapterFor_at:
  "mget (cp_connections s) (runConnectionKey x) = Some c \<Longrightarrow> run_workspaceId x = cx_workspaceId cx \<Longrightarrow>
   adapterFor s x = adapterRegistrationAt s cx (conn_runtimeId c)"
  by (simp add: adapterFor_def adapterRegistrationAt_def)

lemma adapterFor_cong:
  "cp_connections t = cp_connections s \<Longrightarrow> cp_runtimeAdapters t = cp_runtimeAdapters s \<Longrightarrow>
   runConnectionKey y = runConnectionKey x \<Longrightarrow> adapterFor t y = adapterFor s x"
  by (simp add: adapterFor_def cong: option.case_cong)

lemma active_on_connection:
  assumes "storesOk s" "mget (cp_runs s) k = Some x" "activeStatus (run_status x)" "runConnectionKey x = connectionKey c"
  shows "connectionHasActiveRun s c"
proof -
  have "x \<in> set (mvalues (cp_runs s))" using assms(1,2) runs_get [OF assms(1,2)] runs_values [OF assms(1)] by metis
  with assms(3,4) show ?thesis by (auto simp: connectionHasActiveRun_def)
qed

lemma mvalues_get: "mget m k = Some v \<Longrightarrow> v \<in> set (mvalues m)"
  by (force simp: mvalues_def dest: map_of_SomeD)

text \<open>An adapter in use is not replaced, and a connection in use keeps its runtime.\<close>

lemma adapter_kept:
  assumes ok: "storesOk s" and a: "adaptersOk s" and dep: "dependsOn s k x r"
    and runtime: "adapterFree s cx runtime" "rt_workspaceId runtime = cx_workspaceId cx"
    and c: "mget (cp_connections s) (runConnectionKey x) = Some c"
  shows "key (run_workspaceId x) (conn_runtimeId c) \<noteq> runtimeKey runtime"
proof
  assume k: "key (run_workspaceId x) (conn_runtimeId c) = runtimeKey runtime"
  have x: "mget (cp_runs s) k = Some x" "activeStatus (run_status x)" using dep by (auto simp: dependsOn_def)
  from adaptersD [OF a dep] c k obtain p where p: "mget (cp_runtimeAdapters s) (runtimeKey runtime) = Some p" "ar_registrationId p = r"
    by (auto simp: adapterFor_def)
  with runtime(1) have free: "r \<notin> set (mvalues (cp_inFlightDispatchAdapters s))"
    "\<not> hasActiveBoundRun s cx r (rt_id runtime)"
    by (auto simp: adapterFree_def)
  from free(1) dep have "run_adapterRegistrationId x = Some r" by (auto simp: dependsOn_def dest: mvalues_get)
  moreover have "x \<in> set (mvalues (cp_runs s))" using x(1) runs_get [OF ok x(1)] runs_values [OF ok] by metis
  ultimately have "hasActiveBoundRun s cx r (rt_id runtime)"
    using k c x(2) runtime(2) unfolding hasActiveBoundRun_def by (intro bexI [of _ x]) auto
  with free(2) show False by blast
qed

lemma adapters_frame:
  assumes a: "adaptersOk s" and dep: "\<And>k y r. dependsOn t k y r \<Longrightarrow> \<exists>x. dependsOn s k x r \<and> runConnectionKey y = runConnectionKey x"
    and same: "cp_connections t = cp_connections s" "cp_runtimeAdapters t = cp_runtimeAdapters s"
  shows "adaptersOk t"
  unfolding adaptersOk_def
proof (intro allI impI)
  fix k y r assume "dependsOn t k y r"
  with dep obtain x where "dependsOn s k x r" "runConnectionKey y = runConnectionKey x" by blast
  with adaptersD [OF a] adapterFor_cong [OF same] show "adapterFor t y = Some r" by metis
qed

lemma effect_adapters:
  assumes e: "effect cx lab s t" and ok: "storesOk s" and i: "inFlightOk s" and a: "adaptersOk s"
  shows "adaptersOk t"
  using e
proof (cases rule: effect.cases)
  case (eff_adapter runtime registration)
  show ?thesis unfolding adaptersOk_def
  proof (intro allI impI)
    fix k x r assume "dependsOn t k x r"
    then have dep: "dependsOn s k x r" by (simp add: dependsOn_def eff_adapter(2))
    then obtain c where c: "mget (cp_connections s) (runConnectionKey x) = Some c"
      using adaptersD [OF a dep] by (auto simp: adapterFor_def split: option.splits)
    from adapter_kept [OF ok a dep eff_adapter(6,4) c] adaptersD [OF a dep] c
    show "adapterFor t x = Some r" by (auto simp: adapterFor_def eff_adapter(2))
  qed
next
  case (eff_connection c l)
  show ?thesis unfolding adaptersOk_def
  proof (intro allI impI)
    fix k x r assume "dependsOn t k x r"
    then have dep: "dependsOn s k x r" by (simp add: dependsOn_def eff_connection(2))
    then obtain p where p: "mget (cp_connections s) (runConnectionKey x) = Some p"
      using adaptersD [OF a dep] by (auto simp: adapterFor_def split: option.splits)
    show "adapterFor t x = Some r"
    proof (cases "runConnectionKey x = connectionKey c")
      case True
      with active_on_connection [OF ok] dep have "connectionHasActiveRun s c" by (auto simp: dependsOn_def)
      with eff_connection(4) p True have "conn_runtimeId c = conn_runtimeId p"
        by (auto simp: mayWriteConnection_def sameBinding_def)
      with adaptersD [OF a dep] p True show ?thesis by (simp add: adapterFor_def eff_connection(2))
    qed (use adaptersD [OF a dep] p in \<open>auto simp: adapterFor_def eff_connection(2)\<close>)
  qed
next
  case (eff_run x task now agent authority c l)
  have "mget (cp_inFlightDispatchAdapters s) (runKey x) = None"
    using i eff_run(19) unfolding inFlightOk_def mhas_def by (metis option.distinct(1))
  then show ?thesis
    by (intro adapters_frame [OF a]) (use eff_run(6) in \<open>auto simp: dependsOn_def eff_run(2) split: if_splits\<close>)
next
  case (eff_claimed d x c now)
  show ?thesis unfolding adaptersOk_def
  proof (intro allI impI)
    fix k y r assume dep: "dependsOn t k y r"
    have same: "adapterFor t y = adapterFor s y" for y
      by (simp add: adapterFor_def eff_claimed(2) cong: option.case_cong)
    show "adapterFor t y = Some r"
    proof (cases "k = permitRunKey d \<and> r = dp_adapterRegistrationId d")
      case True
      with dep eff_claimed(2,5) have "y = x" by (auto simp: dependsOn_def)
      with True runs_get [OF ok eff_claimed(5)] adapterFor_at [OF eff_claimed(7), of cx] eff_claimed(3,9) show ?thesis
        by (simp add: same)
    next
      case False
      with dep have "dependsOn s k y r" by (auto simp: dependsOn_def eff_claimed(2) split: if_splits)
      with adaptersD [OF a] show ?thesis by (simp add: same)
    qed
  qed
next
  case (eff_released k i)
  show ?thesis by (rule adapters_frame [OF a]) (auto simp: dependsOn_def eff_released(2) split: if_splits)
next
  case (eff_bound x registrationId c externalRunId)
  show ?thesis
    by (rule adapters_frame [OF a])
       (use eff_bound(4,5,7) in \<open>auto simp: dependsOn_def eff_bound(2) split: if_splits\<close>)
next
  case (eff_runMoved x c "next" task l now)
  show ?thesis
    by (rule adapters_frame [OF a])
       (use eff_runMoved(4) runs.step_from_active [OF eff_runMoved(8)] in
         \<open>auto simp: dependsOn_def eff_runMoved(2) split: if_splits\<close>)
qed (use a in \<open>simp_all add: adaptersOk_def dependsOn_def adapterFor_def cong: option.case_cong\<close>)

section \<open>Pending starts\<close>

definition startOk :: "ControlPlane \<Rightarrow> PendingStart \<Rightarrow> bool" where
  "startOk s p \<longleftrightarrow> ps_runKey p = key (cx_workspaceId (ps_context p)) (ps_runId p) \<and>
     mget (cp_inFlightDispatchAdapters s) (ps_runKey p) = Some (ps_registrationId p) \<and>
     (\<exists>x c. mget (cp_runs s) (ps_runKey p) = Some x \<and> mget (cp_connections s) (runConnectionKey x) = Some c \<and>
        conn_authenticatedPrincipalId c = Some (cx_principalId (ps_context p)))"

definition startsOk :: "ControlPlane \<Rightarrow> PendingStart list \<Rightarrow> bool" where
  "startsOk s ps \<longleftrightarrow> distinct (map ps_runKey ps) \<and>
     (\<forall>k. mhas (cp_inFlightDispatchAdapters s) k \<longleftrightarrow> k \<in> ps_runKey ` set ps) \<and> (\<forall>p \<in> set ps. startOk s p)"

fun inFlightAfter :: "label \<Rightarrow> EntityId jsmap \<Rightarrow> EntityId jsmap" where
  "inFlightAfter (Claimed k r) m = mset_at m k r"
| "inFlightAfter (Released k) m = mdelete m k"
| "inFlightAfter _ m = m"

lemma effect_inFlight_after:
  "effect cx lab s t \<Longrightarrow> cp_inFlightDispatchAdapters t = inFlightAfter lab (cp_inFlightDispatchAdapters s)"
  by (cases rule: effect.cases) auto

lemma effect_run_kept:
  assumes "effect cx lab s t" "mget (cp_runs s) k = Some x"
  shows "\<exists>y. mget (cp_runs t) k = Some y \<and> runConnectionKey y = runConnectionKey x \<and> runTaskKey y = runTaskKey x"
  using assms
proof (cases rule: effect.cases)
  case (eff_run y task now agent authority c l)
  with assms(2) show ?thesis by (auto simp: mhas_def)
qed (use assms(2) in auto)

lemma effect_connection_kept:
  assumes e: "effect cx lab s t" and ok: "storesOk s" and x: "mget (cp_runs s) k = Some x" "activeStatus (run_status x)"
    and c: "mget (cp_connections s) (runConnectionKey x) = Some c"
  shows "\<exists>c'. mget (cp_connections t) (runConnectionKey x) = Some c' \<and> sameBinding c' c"
  using e
proof (cases rule: effect.cases)
  case (eff_connection c' l)
  show ?thesis
  proof (cases "runConnectionKey x = connectionKey c'")
    case True
    with active_on_connection [OF ok x] have "connectionHasActiveRun s c'" .
    with eff_connection(4) c True have "sameBinding c' c" by (auto simp: mayWriteConnection_def)
    with True eff_connection(2) show ?thesis by simp
  qed (use c eff_connection(2) in \<open>auto simp: sameBinding_def\<close>)
qed (use c in \<open>auto simp: sameBinding_def\<close>)

lemma startOk_kept:
  assumes e: "effect cx lab s t" and ok: "storesOk s" and i: "inFlightOk s" and p: "startOk s p"
    and same: "mget (cp_inFlightDispatchAdapters t) (ps_runKey p) = mget (cp_inFlightDispatchAdapters s) (ps_runKey p)"
  shows "startOk t p"
proof -
  from p obtain x c where x: "mget (cp_runs s) (ps_runKey p) = Some x"
    and c: "mget (cp_connections s) (runConnectionKey x) = Some c" "conn_authenticatedPrincipalId c = Some (cx_principalId (ps_context p))"
    by (auto simp: startOk_def)
  have "activeStatus (run_status x)"
    using p x i by (auto simp: startOk_def inFlightOk_def mhas_def activeStatus_def)
  with effect_connection_kept [OF e ok x _ c(1)] effect_run_kept [OF e x] c(2)
  show ?thesis using p same unfolding startOk_def sameBinding_def by metis
qed

lemma starts_quiet:
  assumes "effect cx lab s t" "storesOk s" "inFlightOk s" "startsOk s ps"
    "cp_inFlightDispatchAdapters t = cp_inFlightDispatchAdapters s"
  shows "startsOk t ps"
  using assms startOk_kept [OF assms(1-3)] by (simp add: startsOk_def)

lemma starts_claimed:
  assumes e: "effect cx (Claimed (permitRunKey d) (dp_adapterRegistrationId d)) s t"
    and ok: "storesOk s" and i: "inFlightOk s" and p: "permitsOk s" and st: "startsOk s ps"
  shows "startsOk t (ps @ [startOf cx d])"
  using e
proof (cases rule: effect.cases)
  case (eff_claimed d' x c now)
  have "permitRunKey d \<notin> cp_claimedDispatchRuns s" using permitsD [OF p eff_claimed(5)] eff_claimed(1) by simp
  with i have new: "\<not> mhas (cp_inFlightDispatchAdapters s) (permitRunKey d)" unfolding inFlightOk_def by blast
  have fl: "cp_inFlightDispatchAdapters t = mset_at (cp_inFlightDispatchAdapters s) (permitRunKey d) (dp_adapterRegistrationId d)"
    using effect_inFlight_after [OF e] by simp
  have "startOk t q" if "q \<in> set ps" for q
  proof (rule startOk_kept [OF e ok i])
    show "startOk s q" using st that by (simp add: startsOk_def)
    then show "mget (cp_inFlightDispatchAdapters t) (ps_runKey q) = mget (cp_inFlightDispatchAdapters s) (ps_runKey q)"
      using new by (auto simp: fl startOk_def mhas_def)
  qed
  moreover have "startOk t (startOf cx d)"
  proof -
    have "env_workspaceId (dp_envelope d) = cx_workspaceId cx" using eff_claimed(1,4) by simp
    moreover have "mget (cp_runs t) (permitRunKey d) = Some x" "mget (cp_connections t) (runConnectionKey x) = Some c"
      using eff_claimed(1,3,6,8) by simp_all
    ultimately show ?thesis using fl eff_claimed(9) by (simp add: startOk_def startOf_def)
  qed
  ultimately show ?thesis using st new by (auto simp: startsOk_def fl startOf_def)
qed

lemma starts_released:
  assumes e: "effect cx (Released (ps_runKey p)) s t" and ok: "storesOk s" and i: "inFlightOk s"
    and st: "startsOk s ps" and p: "p \<in> set ps"
  shows "startsOk t (remove1 p ps)"
proof -
  have fl: "cp_inFlightDispatchAdapters t = mdelete (cp_inFlightDispatchAdapters s) (ps_runKey p)"
    using effect_inFlight_after [OF e] by simp
  have d: "distinct (map ps_runKey ps)" "distinct ps" using st by (auto simp: startsOk_def distinct_map)
  have other: "ps_runKey q \<noteq> ps_runKey p" if "q \<in> set ps" "q \<noteq> p" for q
    using d(1) p that by (auto simp: distinct_map inj_on_def)
  have "startOk t q" if "q \<in> set (remove1 p ps)" for q
    by (rule startOk_kept [OF e ok i])
       (use st that d other fl in \<open>auto simp: startsOk_def\<close>)
  moreover have "distinct (map ps_runKey (remove1 p ps))" using d p by (auto simp: distinct_map inj_on_def)
  moreover have "mhas (cp_inFlightDispatchAdapters t) k \<longleftrightarrow> k \<in> ps_runKey ` set (remove1 p ps)" for k
  proof -
    have "ps_runKey ` set (remove1 p ps) = ps_runKey ` set ps - {ps_runKey p}"
      using d(2) other by (auto simp: image_iff)
    moreover have "mhas (cp_inFlightDispatchAdapters t) k \<longleftrightarrow> k \<noteq> ps_runKey p \<and> mhas (cp_inFlightDispatchAdapters s) k"
      by (simp add: fl mhas_def)
    ultimately show ?thesis using st by (auto simp: startsOk_def)
  qed
  ultimately show ?thesis by (simp add: startsOk_def)
qed

section \<open>Cancellations\<close>

text \<open>
  At most one cancellation of a run is open, as a permit or as a pending adapter call; a run whose
  cancellation succeeded gets no further one.
\<close>

definition cancelRunKey :: "string \<Rightarrow> RuntimeCancellationPermit \<Rightarrow> string \<Rightarrow> bool" where
  "cancelRunKey k cn rk \<longleftrightarrow> (\<exists>w. k = key w (cn_cancellationId cn) \<and> rk = key w (cn_runId cn))"

definition cancelsOk :: "ControlPlane \<Rightarrow> PendingCancellation list \<Rightarrow> bool" where
  "cancelsOk s ps \<longleftrightarrow>
     (\<forall>k cn. mget (cp_cancellations s) k = Some cn \<longrightarrow> (\<exists>rk. cancelRunKey k cn rk)) \<and>
     (\<forall>k cn rk. mget (cp_cancellations s) k = Some cn \<longrightarrow> cancelRunKey k cn rk \<longrightarrow>
        rk \<in> cp_cancelledRuns s \<and> rk \<notin> cp_successfulCancellations s \<and> rk \<notin> pc_runKey ` set ps) \<and>
     (\<forall>k cn k' cn' rk. mget (cp_cancellations s) k = Some cn \<longrightarrow> mget (cp_cancellations s) k' = Some cn' \<longrightarrow>
        cancelRunKey k cn rk \<longrightarrow> cancelRunKey k' cn' rk \<longrightarrow> k = k') \<and>
     distinct (map pc_runKey ps) \<and>
     (\<forall>p \<in> set ps. pc_runKey p \<in> cp_cancelledRuns s \<and> pc_runKey p \<notin> cp_successfulCancellations s \<and>
        pc_runKey p = key (cx_workspaceId (pc_context p)) (cn_runId (pc_validated p))) \<and>
     cp_successfulCancellations s \<subseteq> cp_cancelledRuns s"

lemma cancelRunKey_key [simp]:
  "cancelRunKey (key w i) cn rk \<longleftrightarrow> i = cn_cancellationId cn \<and> rk = key w (cn_runId cn)"
  by (auto simp: cancelRunKey_def)

lemma cancelRunKey_unique: "cancelRunKey k cn rk \<Longrightarrow> cancelRunKey k cn rk' \<Longrightarrow> rk = rk'"
  by (auto simp: cancelRunKey_def)

lemma cancelsD:
  assumes "cancelsOk s ps" "mget (cp_cancellations s) k = Some cn" "cancelRunKey k cn rk"
  shows "rk \<in> cp_cancelledRuns s" "rk \<notin> cp_successfulCancellations s" "rk \<notin> pc_runKey ` set ps"
    "mget (cp_cancellations s) k' = Some cn' \<Longrightarrow> cancelRunKey k' cn' rk \<Longrightarrow> k' = k"
  using assms unfolding cancelsOk_def by metis+

lemma cancelsI:
  assumes "\<And>k cn. mget (cp_cancellations s) k = Some cn \<Longrightarrow> \<exists>rk. cancelRunKey k cn rk"
    and "\<And>k cn rk. mget (cp_cancellations s) k = Some cn \<Longrightarrow> cancelRunKey k cn rk \<Longrightarrow>
        rk \<in> cp_cancelledRuns s \<and> rk \<notin> cp_successfulCancellations s \<and> rk \<notin> pc_runKey ` set ps"
    and "\<And>k cn k' cn' rk. mget (cp_cancellations s) k = Some cn \<Longrightarrow> mget (cp_cancellations s) k' = Some cn' \<Longrightarrow>
        cancelRunKey k cn rk \<Longrightarrow> cancelRunKey k' cn' rk \<Longrightarrow> k = k'"
    and "distinct (map pc_runKey ps)"
    and "\<And>p. p \<in> set ps \<Longrightarrow> pc_runKey p \<in> cp_cancelledRuns s \<and> pc_runKey p \<notin> cp_successfulCancellations s \<and>
        pc_runKey p = key (cx_workspaceId (pc_context p)) (cn_runId (pc_validated p))"
    and "cp_successfulCancellations s \<subseteq> cp_cancelledRuns s"
  shows "cancelsOk s ps"
  unfolding cancelsOk_def using assms by (intro conjI allI impI ballI; blast)

lemma cancelsP:
  assumes "cancelsOk s ps"
  shows "mget (cp_cancellations s) k = Some cn \<Longrightarrow> \<exists>rk. cancelRunKey k cn rk"
    "distinct (map pc_runKey ps)" "cp_successfulCancellations s \<subseteq> cp_cancelledRuns s"
    "p \<in> set ps \<Longrightarrow> pc_runKey p \<in> cp_cancelledRuns s \<and> pc_runKey p \<notin> cp_successfulCancellations s \<and>
        pc_runKey p = key (cx_workspaceId (pc_context p)) (cn_runId (pc_validated p))"
  using assms unfolding cancelsOk_def by blast+

lemma cancels_frame:
  assumes "cancelsOk s ps" "cp_cancellations t = cp_cancellations s" "cp_cancelledRuns t = cp_cancelledRuns s"
    "cp_successfulCancellations t = cp_successfulCancellations s"
  shows "cancelsOk t ps"
  using assms(1) unfolding cancelsOk_def assms(2-4) .

lemma cancels_minted:
  assumes c: "cancelsOk s ps" and rk: "cancelRunKey k cn rk" "rk \<notin> cp_cancelledRuns s"
    and t: "cp_cancellations t = mset_at (cp_cancellations s) k cn"
      "cp_cancelledRuns t = insert rk (cp_cancelledRuns s)" "cp_successfulCancellations t = cp_successfulCancellations s"
  shows "cancelsOk t ps"
proof -
  have new: "rk \<notin> pc_runKey ` set ps" "rk \<notin> cp_successfulCancellations s"
    using c rk(2) unfolding cancelsOk_def by auto
  have other: "rk' \<noteq> rk" if "mget (cp_cancellations s) k' = Some cn'" "cancelRunKey k' cn' rk'" for k' cn' rk'
    using cancelsD(1) [OF c that] rk(2) by blast
  have a: "rk' \<in> cp_cancelledRuns t \<and> rk' \<notin> cp_successfulCancellations t \<and> rk' \<notin> pc_runKey ` set ps"
    if "mget (cp_cancellations t) k' = Some cn'" "cancelRunKey k' cn' rk'" for k' cn' rk'
    using that cancelsD(1-3) [OF c] cancelRunKey_unique [OF rk(1)] new unfolding t mget_mset_at
    by (metis insertCI option.inject)
  have b: "k' = k''" if "mget (cp_cancellations t) k' = Some cn'" "mget (cp_cancellations t) k'' = Some cn''"
    "cancelRunKey k' cn' rk'" "cancelRunKey k'' cn'' rk'" for k' cn' k'' cn'' rk'
    using that cancelsD(4) [OF c] cancelRunKey_unique [OF rk(1)] other unfolding t mget_mset_at
    by (metis option.inject)
  have e: "\<exists>rk'. cancelRunKey k' cn' rk'" if "mget (cp_cancellations t) k' = Some cn'" for k' cn'
    using that cancelsP(1) [OF c] rk(1) unfolding t mget_mset_at by (metis option.inject)
  have "cp_successfulCancellations t \<subseteq> cp_cancelledRuns t" using cancelsP(3) [OF c] unfolding t by blast
  moreover have "pc_runKey p \<in> cp_cancelledRuns t \<and> pc_runKey p \<notin> cp_successfulCancellations t \<and>
      pc_runKey p = key (cx_workspaceId (pc_context p)) (cn_runId (pc_validated p))" if "p \<in> set ps" for p
    using cancelsP(4) [OF c that] unfolding t by blast
  ultimately show ?thesis using a b e cancelsP(2) [OF c] by (intro cancelsI)
qed

lemma cancels_removed:
  assumes c: "cancelsOk s ps" and k: "mget (cp_cancellations s) k = Some cn" "cancelRunKey k cn rk"
    and t: "cp_cancellations t = mdelete (cp_cancellations s) k" "cp_successfulCancellations t = cp_successfulCancellations s"
    and ps: "cp_cancelledRuns t = cp_cancelledRuns s - {rk} \<and> ps' = ps \<or>
      cp_cancelledRuns t = cp_cancelledRuns s \<and> (\<exists>p. ps' = ps @ [p] \<and> pc_runKey p = rk \<and>
        pc_runKey p = key (cx_workspaceId (pc_context p)) (cn_runId (pc_validated p)))"
  shows "cancelsOk t ps'"
proof -
  note d = cancelsD [OF c k]
  have other: "mget (cp_cancellations s) k' = Some cn'" if "mget (cp_cancellations t) k' = Some cn'" for k' cn'
    using that unfolding t by (metis mget_mdelete option.distinct(1))
  have ne: "rk' \<noteq> rk" if "mget (cp_cancellations t) k' = Some cn'" "cancelRunKey k' cn' rk'" for k' cn' rk'
    using that d(4) other t(1) by (metis mget_mdelete option.distinct(1))
  have a: "rk' \<in> cp_cancelledRuns t \<and> rk' \<notin> cp_successfulCancellations t \<and> rk' \<notin> pc_runKey ` set ps'"
    if "mget (cp_cancellations t) k' = Some cn'" "cancelRunKey k' cn' rk'" for k' cn' rk'
    using ps ne [OF that] cancelsD(1-3) [OF c other [OF that(1)] that(2)] by (auto simp: t(2))
  have b: "k' = k''" if "mget (cp_cancellations t) k' = Some cn'" "mget (cp_cancellations t) k'' = Some cn''"
    "cancelRunKey k' cn' rk'" "cancelRunKey k'' cn'' rk'" for k' cn' k'' cn'' rk'
    using cancelsD(4) [OF c other [OF that(2)] that(4) other [OF that(1)] that(3)] .
  have e: "\<exists>rk. cancelRunKey k' cn' rk" if "mget (cp_cancellations t) k' = Some cn'" for k' cn'
    using c other [OF that] unfolding cancelsOk_def by blast
  have f: "distinct (map pc_runKey ps')" using ps cancelsP(2) [OF c] d(3) by auto
  have g: "pc_runKey p \<in> cp_cancelledRuns t \<and> pc_runKey p \<notin> cp_successfulCancellations t \<and>
      pc_runKey p = key (cx_workspaceId (pc_context p)) (cn_runId (pc_validated p))" if "p \<in> set ps'" for p
  proof (cases "p \<in> set ps")
    case True
    with cancelsP(4) [OF c True] d(3) ps show ?thesis unfolding t(2) by (metis Diff_iff imageI singletonD)
  next
    case False
    with that ps obtain q where q: "ps' = ps @ [q]" "pc_runKey q = rk"
      "pc_runKey q = key (cx_workspaceId (pc_context q)) (cn_runId (pc_validated q))"
      "cp_cancelledRuns t = cp_cancelledRuns s" by blast
    with that False have "p = q" by simp
    with q(2-4) d(1,2) show ?thesis by (simp add: t(2))
  qed
  have "cp_successfulCancellations t \<subseteq> cp_cancelledRuns t"
    using ps cancelsP(3) [OF c] d(2) unfolding t(2) by blast
  then show ?thesis using a b e f g by (intro cancelsI)
qed

lemma cancels_quiet:
  assumes e: "effect cx Quiet s t" and c: "cancelsOk s ps"
  shows "cancelsOk t ps"
  using e
proof (cases rule: effect.cases)
  case (eff_cancelMinted x c' cn)
  show ?thesis
    by (rule cancels_minted [OF c, where rk = "runKey x" and cn = cn])
       (use eff_cancelMinted(6,9) in \<open>auto simp: eff_cancelMinted(1)\<close>)
next
  case (eff_cancelDropped k cn)
  show ?thesis
    by (rule cancels_removed [OF c eff_cancelDropped(3), where rk = "key (cx_workspaceId cx) (cn_runId cn)"])
       (auto simp: eff_cancelDropped(1,2))
qed (rule cancels_frame [OF c]; simp)+

lemma cancels_claimed:
  assumes e: "effect cx (CancelClaimed (key (cx_workspaceId cx) (cn_runId cn))) s t" and c: "cancelsOk s ps"
  shows "cancelsOk t (ps @ [cancellationOf cx cn])"
  using e
proof (cases rule: effect.cases)
  case (eff_cancelClaimed k cn')
  show ?thesis
    by (rule cancels_removed [OF c, where k = k and cn = cn' and rk = "key (cx_workspaceId cx) (cn_runId cn')"])
       (use eff_cancelClaimed in \<open>auto simp: cancellationOf_def\<close>)
qed

lemma cancels_released:
  assumes e: "effect cx (CancelReleased (pc_runKey p)) s t" and c: "cancelsOk s ps" and p: "p \<in> set ps"
  shows "cancelsOk t (remove1 p ps)"
proof -
  have d: "distinct (map pc_runKey ps)" "distinct ps" using c by (auto simp: cancelsOk_def distinct_map)
  have other: "pc_runKey q \<noteq> pc_runKey p" if "q \<in> set ps" "q \<noteq> p" for q
    using d(1) p that by (auto simp: distinct_map inj_on_def)
  have pd: "distinct (map pc_runKey (remove1 p ps))" using d p by (auto simp: distinct_map inj_on_def)
  have no: "rk \<noteq> pc_runKey p" if "mget (cp_cancellations s) k = Some cn" "cancelRunKey k cn rk" for k cn rk
    using cancelsD(3) [OF c that] p by blast
  have pp: "pc_runKey p \<in> cp_cancelledRuns s" "pc_runKey p \<notin> cp_successfulCancellations s"
    using cancelsP(4) [OF c p] by blast+
  have t: "cp_cancellations t = cp_cancellations s \<and>
     (cp_cancelledRuns t = cp_cancelledRuns s \<and> cp_successfulCancellations t = insert (pc_runKey p) (cp_successfulCancellations s) \<or>
      cp_cancelledRuns t = cp_cancelledRuns s - {pc_runKey p} \<and> cp_successfulCancellations t = cp_successfulCancellations s)"
    using e by (cases rule: effect.cases) auto
  have a: "rk \<in> cp_cancelledRuns t \<and> rk \<notin> cp_successfulCancellations t \<and> rk \<notin> pc_runKey ` set (remove1 p ps)"
    if "mget (cp_cancellations s) k = Some cn" "cancelRunKey k cn rk" for k cn rk
    using cancelsD(1-3) [OF c that] no [OF that] t d(2) by auto
  have b: "pc_runKey q \<in> cp_cancelledRuns t \<and> pc_runKey q \<notin> cp_successfulCancellations t \<and>
      pc_runKey q = key (cx_workspaceId (pc_context q)) (cn_runId (pc_validated q))" if "q \<in> set (remove1 p ps)" for q
  proof -
    have q: "q \<in> set ps" "q \<noteq> p" using that d(2) by auto
    show ?thesis using cancelsP(4) [OF c q(1)] other [OF q] t by (metis Diff_iff insert_iff singletonD)
  qed
  have "cp_successfulCancellations t \<subseteq> cp_cancelledRuns t"
    using cancelsP(3) [OF c] pp conjunct2 [OF t] by (elim disjE) auto
  moreover have "mget (cp_cancellations t) k = mget (cp_cancellations s) k" for k using t by simp
  ultimately show ?thesis using a b pd cancelsP(1) [OF c] cancelsD(4) [OF c] by (intro cancelsI) metis+
qed

section \<open>The invariant of the system\<close>

definition planeInv :: "ControlPlane \<Rightarrow> bool" where
  "planeInv s \<longleftrightarrow> storesOk s \<and> connectionsRooted s \<and> refsOk s \<and> usageRefs s \<and> lifecycleOk s \<and> budgetOk s \<and>
     heartbeatsOk s \<and> sinkOk s \<and> idempotencyOk s \<and> permitsOk s \<and> bindingsOk s \<and> inFlightOk s \<and> externalUnique s \<and>
     cancelledBound s \<and> adaptersOk s"

lemma effect_planeInv:
  assumes "effect cx lab s t" "planeInv s"
  shows "planeInv t"
  using assms(2) effect_storesOk [OF assms(1)] effect_rooted [OF assms(1)] effect_refsOk [OF assms(1)]
    effect_usageRefs [OF assms(1)] effect_lifecycle [OF assms(1)] effect_budget [OF assms(1)]
    effect_heartbeats [OF assms(1)] effect_sinkOk [OF assms(1)] effect_idempotency [OF assms(1)]
    effect_permits [OF assms(1)] effect_bindings [OF assms(1)] effect_inFlight [OF assms(1)]
    effect_external [OF assms(1)] effect_cancelled [OF assms(1)] effect_adapters [OF assms(1)]
  unfolding planeInv_def by blast

definition sysInv :: "System \<Rightarrow> bool" where
  "sysInv S \<longleftrightarrow> planeInv (sys_plane S) \<and> startsOk (sys_plane S) (sys_starts S) \<and>
     cancelsOk (sys_plane S) (sys_cancellations S)"

lemma starts_other_label:
  assumes "effect cx lab s t" "planeInv s" "startsOk s ps" "\<And>k r. lab \<noteq> Claimed k r" "\<And>k. lab \<noteq> Released k"
  shows "startsOk t ps"
proof (rule starts_quiet [OF assms(1) _ _ assms(3)])
  show "cp_inFlightDispatchAdapters t = cp_inFlightDispatchAdapters s"
    using effect_inFlight_after [OF assms(1)] assms(4,5) by (cases lab) auto
qed (use assms(2) in \<open>simp_all add: planeInv_def\<close>)

lemma cancels_other_label:
  assumes e: "effect cx lab s t" and c: "cancelsOk s ps" and lab: "(\<exists>k r. lab = Claimed k r) \<or> (\<exists>k. lab = Released k)"
  shows "cancelsOk t ps"
  by (rule cancels_frame [OF c]) (use e lab in \<open>auto elim: effect.cases\<close>)

lemma sysEffect_inv:
  assumes "sysEffect S T" "sysInv S"
  shows "sysInv T"
proof -
  have p: "planeInv (sys_plane S)" "startsOk (sys_plane S) (sys_starts S)" "cancelsOk (sys_plane S) (sys_cancellations S)"
    using assms(2) by (simp_all add: sysInv_def)
  then have q: "storesOk (sys_plane S)" "inFlightOk (sys_plane S)" "permitsOk (sys_plane S)"
    by (simp_all add: planeInv_def)
  from assms(1) show ?thesis
  proof cases
    case (sys_quiet cx t)
    with effect_planeInv p starts_other_label [OF sys_quiet(2) p(1,2)] cancels_quiet show ?thesis
      by (auto simp: sysInv_def)
  next
    case (sys_claimed cx d t)
    with effect_planeInv p starts_claimed [OF sys_claimed(2) q p(2)] cancels_other_label [OF sys_claimed(2) p(3)]
    show ?thesis by (auto simp: sysInv_def)
  next
    case (sys_released r t)
    with effect_planeInv p starts_released [OF sys_released(3) q(1,2) p(2)] cancels_other_label [OF sys_released(3) p(3)]
    show ?thesis by (auto simp: sysInv_def)
  next
    case (sys_cancelClaimed cx cn t)
    with effect_planeInv p starts_other_label [OF sys_cancelClaimed(2) p(1,2)] cancels_claimed [OF sys_cancelClaimed(2) p(3)]
    show ?thesis by (auto simp: sysInv_def)
  next
    case (sys_cancelReleased r t)
    with effect_planeInv p starts_other_label [OF sys_cancelReleased(3) p(1,2)] cancels_released [OF sys_cancelReleased(3) p(3)]
    show ?thesis by (auto simp: sysInv_def)
  qed
qed

lemma sysInv_pendingKeyed: "sysInv S \<Longrightarrow> pendingKeyed S"
  unfolding sysInv_def pendingKeyed_def startsOk_def startOk_def cancelsOk_def by blast

lemma newControlPlane_fields:
  assumes "newControlPlane engine options = Inr s"
  shows "cp_runtimes s = []" "cp_runtimeAdapters s = []" "cp_agents s = []" "cp_capabilities s = []"
    "cp_agentCapabilities s = []" "cp_tools s = []" "cp_toolGrants s = []" "cp_authorityGrants s = []"
    "cp_connections s = []" "cp_heartbeats s = []" "cp_tasks s = []" "cp_runs s = []" "cp_eventsById s = []"
    "cp_eventIdempotency s = []" "cp_usage s = []" "cp_dispatches s = []" "cp_cancellations s = []"
    "cp_dispatchedRuns s = {}" "cp_claimedDispatchRuns s = {}" "cp_inFlightDispatchAdapters s = []"
    "cp_cancelledRuns s = {}" "cp_successfulCancellations s = {}"
    "cp_events s = None \<or> (\<exists>sink capability. cp_events s = Some (sink, capability) \<and> opt_eventSink options = Some sink)"
  using assms by (auto simp: newControlPlane_def outcome_simps split: option.splits)

lemma sysInv_init: "sysInit S \<Longrightarrow> sysInv S"
proof -
  assume i: "sysInit S"
  then obtain engine options where n: "newControlPlane engine options = Inr (sys_plane S)"
    and l: "\<And>sink. opt_eventSink options = Some sink \<Longrightarrow> logOk sink"
    by (auto simp: sysInit_def)
  note new = newControlPlane_fields [OF n]
  have "sinkOk (sys_plane S)" using new(23) l by (auto simp: sinkOk_def)
  then have "planeInv (sys_plane S)"
    unfolding planeInv_def storesOk_def connectionsRooted_def refsOk_def
      usageRefs_def lifecycleOk_def statusOk_def oneRun_def taskDriven_def budgetOk_def heartbeatsOk_def heartbeatsOf_def
      mvalues_def idempotencyOk_def permitsOk_def bindingsOk_def inFlightOk_def externalUnique_def cancelledBound_def
      adaptersOk_def dependsOn_def new(1-22) by simp
  moreover from i have "startsOk (sys_plane S) (sys_starts S)" "cancelsOk (sys_plane S) (sys_cancellations S)"
    unfolding sysInit_def startsOk_def cancelsOk_def new(1-22) by simp_all
  ultimately show ?thesis by (simp add: sysInv_def)
qed

interpretation plane: invariant_system sysInit sysStep sysInv
proof
  show "sysInit S \<Longrightarrow> sysInv S" for S by (rule sysInv_init)
  show "sysInv T" if i: "sysInv S" and st: "sysStep S T" for S T
  proof (rule sysEffect_inv [OF _ i])
    show "sysEffect S T"
      by (rule sysStep_effect [OF st]) (use i sysInv_pendingKeyed in \<open>auto simp: sysInv_def planeInv_def\<close>)
  qed
qed

end
