(* ===== verification/Control_Plane_Scenario.thy ===== *)
theory Control_Plane_Scenario
  imports Control_Plane_Permits
begin

text \<open>
  One session of the control plane on concrete data: an owner provisions a runtime, an agent and
  its grants, the runtime reports a heartbeat and its proofs, and a health-check task is run
  through dispatch, completion and usage.  The properties are applied to the states of this
  session.
\<close>

definition play :: "(CallEnv \<times> WorkspaceContext \<times> Call) list \<Rightarrow> System \<Rightarrow> System" where
  "play calls S = foldl (\<lambda>S (env, cx, call). snd (perform env cx call S)) S calls"

lemma play_reachable: "reachable S \<Longrightarrow> reachable (play calls S)"
proof (induction calls arbitrary: S)
  case (Cons c calls)
  obtain env cx call where c: "c = (env, cx, call)" by (cases c) auto
  have "sysStep S (snd (perform env cx call S))" by (rule step_call) (rule prod.collapse [symmetric])
  with Cons show ?case by (simp add: play_def c reach_step)
qed (simp add: play_def)

section \<open>Data\<close>

definition demoWs :: string where "demoWs = ''w1''"
definition demoOwner :: WorkspaceContext where "demoOwner = \<lparr>cx_workspaceId = demoWs, cx_principalId = ''owner''\<rparr>"
definition demoBot :: WorkspaceContext where "demoBot = \<lparr>cx_workspaceId = demoWs, cx_principalId = ''bot''\<rparr>"
definition demoNoon :: string where "demoNoon = ''2026-08-20T12:00:00.000Z''"
definition demoEnv :: "string \<Rightarrow> CallEnv" where
  "demoEnv u = \<lparr>ce_now = 1787227200000, ce_eventId = ''evt-'' @ u, ce_uuid = u\<rparr>"

definition demoRuntime :: Runtime where
  "demoRuntime = \<lparr>rt_id = ''rt'', rt_workspaceId = demoWs, rt_name = ''local'', rt_adapterKind = ''local'', rt_createdAt = demoNoon\<rparr>"
definition demoCapability :: Capability where
  "demoCapability = \<lparr>cap_id = ''cap'', cap_workspaceId = demoWs, cap_name = ''runtime.health'', cap_version = ''1''\<rparr>"
definition demoTool :: Tool where
  "demoTool = \<lparr>tool_id = ''tool'', tool_workspaceId = demoWs, tool_name = ''runtime.health'', tool_version = ''1''\<rparr>"
definition demoAgent :: Agent where
  "demoAgent = \<lparr>ag_id = ''agent'', ag_workspaceId = demoWs, ag_runtimeId = ''rt'', ag_name = ''probe'', ag_role = ''ops'',
     ag_authorityLevel = 2, ag_maxConcurrentRuns = 1, ag_createdAt = demoNoon\<rparr>"
definition demoAgentCapability :: AgentCapability where
  "demoAgentCapability = \<lparr>acap_id = ''ac'', acap_workspaceId = demoWs, acap_agentId = ''agent'', acap_capabilityId = ''cap''\<rparr>"
definition demoToolGrant :: ToolGrant where
  "demoToolGrant = \<lparr>tg_id = ''tg'', tg_workspaceId = demoWs, tg_agentId = ''agent'', tg_toolId = ''tool'',
     tg_scopes = [''observe''], tg_expiresAt = None\<rparr>"
definition demoAuthority :: AuthorityGrant where
  "demoAuthority = \<lparr>auth_id = ''ag'', auth_workspaceId = demoWs, auth_agentId = ''agent'', auth_level = 1,
     auth_actionClasses = [RuntimeHealthCheck],
     auth_costLimit = \<lparr>cl_currency = ''USD'', cl_maximumMinorUnits = 100, cl_maximumComputeUnits = 100\<rparr>,
     auth_maxConcurrentRuns = 2, auth_expiresAt = None\<rparr>"
definition demoConnection :: RuntimeConnection where
  "demoConnection = \<lparr>conn_id = ''conn'', conn_workspaceId = demoWs, conn_runtimeId = ''rt'', conn_status = DISCONNECTED,
     conn_credentialReference = Some ''vault://runtime'', conn_authenticatedPrincipalId = Some ''bot'',
     conn_registrationProof = None, conn_capabilityExchangeProof = None, conn_heartbeatProof = None,
     conn_taskRoundTripProof = None\<rparr>"
definition demoHeartbeat :: "string \<Rightarrow> int \<Rightarrow> Heartbeat" where
  "demoHeartbeat i n = \<lparr>hb_id = i, hb_workspaceId = demoWs, hb_runtimeConnectionId = ''conn'', hb_principalId = ''bot'',
     hb_observedAt = demoNoon, hb_sequence = n, hb_health = HEALTHY\<rparr>"
definition demoProven :: RuntimeConnection where
  "demoProven = demoConnection\<lparr>conn_status := PARTIAL,
     conn_registrationProof := Some \<lparr>rp_connectionId = ''conn'', rp_runtimeId = ''rt'', rp_principalId = ''bot'',
       rp_observedAt = demoNoon\<rparr>,
     conn_capabilityExchangeProof := Some \<lparr>cep_connectionId = ''conn'', cep_runtimeId = ''rt'', cep_principalId = ''bot'',
       cep_capabilityIds = [''cap''], cep_observedAt = demoNoon\<rparr>,
     conn_heartbeatProof := Some \<lparr>hp_connectionId = ''conn'', hp_principalId = ''bot'', hp_heartbeatId = ''hb1'',
       hp_observedAt = demoNoon\<rparr>\<rparr>"
definition demoTask :: ControlPlaneTask where
  "demoTask = \<lparr>task_id = ''task'', task_workspaceId = demoWs, task_assignedAgentId = ''agent'', task_kind = RuntimeHealthCheck,
     task_input = [(''connectionId'', JStr ''conn'')], task_requiredCapabilityIds = [''cap''],
     task_requiredToolIds = [''tool''], task_requiredAuthorityLevel = 0,
     task_costLimit = \<lparr>cl_currency = ''USD'', cl_maximumMinorUnits = 10, cl_maximumComputeUnits = 10\<rparr>,
     task_status = T_READY, task_createdAt = demoNoon\<rparr>"
definition demoRun :: AgentRun where
  "demoRun = \<lparr>run_id = ''run'', run_workspaceId = demoWs, run_taskId = ''task'', run_agentId = ''agent'',
     run_runtimeConnectionId = ''conn'', run_status = R_QUEUED, run_externalRunId = None,
     run_adapterRegistrationId = None, run_startedAt = None, run_completedAt = None\<rparr>"
definition demoPermit :: RuntimeDispatchPermit where
  "demoPermit = \<lparr>dp_dispatchId = ''d1'', dp_connectionId = ''conn'', dp_adapterRegistrationId = ''reg1'',
     dp_runtimePrincipalId = Some ''bot'', dp_envelope =
       \<lparr>env_runId = ''run'', env_taskId = ''task'', env_workspaceId = demoWs, env_kind = RuntimeHealthCheck,
        env_input = [(''connectionId'', JStr ''conn'')], env_capabilityIds = [''cap''],
        env_tools = [(''tool'', [''observe''])], env_authorityLevel = 0,
        env_costLimit = \<lparr>cl_currency = ''USD'', cl_maximumMinorUnits = 10, cl_maximumComputeUnits = 10\<rparr>\<rparr>\<rparr>"
definition demoUsage :: UsageRecord where
  "demoUsage = \<lparr>us_id = ''us1'', us_workspaceId = demoWs, us_runId = ''run'', us_taskId = ''task'', us_provider = None,
     us_model = None, us_computeUnits = Some 3, us_costMinorUnits = Some 4, us_currency = Some ''USD'', us_recordedAt = demoNoon\<rparr>"

definition demoOptions :: ControlPlaneOptions where
  "demoOptions = \<lparr>opt_eventSink = None, opt_eventCapability = None, opt_heartbeatFreshnessMs = None,
     opt_authorityPrincipals = Some [''owner''], opt_plannerPrincipals = None\<rparr>"

definition demoPlane :: "error + ControlPlane" where
  "demoPlane = newControlPlane (\<lambda>_. None) demoOptions"

definition demoStart :: System where
  "demoStart = \<lparr>sys_plane = projr demoPlane, sys_starts = [], sys_cancellations = []\<rparr>"

definition provisioning :: "(CallEnv \<times> WorkspaceContext \<times> Call) list" where
  "provisioning =
    [(demoEnv ''u1'', demoOwner, PutRuntime demoRuntime),
     (demoEnv ''reg1'', demoOwner, RegisterRuntimeAdapter ''rt'' ''local''),
     (demoEnv ''u2'', demoOwner, PutCapability demoCapability),
     (demoEnv ''u3'', demoOwner, PutTool demoTool),
     (demoEnv ''u4'', demoOwner, PutAgent demoAgent),
     (demoEnv ''u5'', demoOwner, GrantAgentCapability demoAgentCapability),
     (demoEnv ''u6'', demoOwner, GrantTool demoToolGrant),
     (demoEnv ''u7'', demoOwner, GrantAuthority demoAuthority),
     (demoEnv ''u8'', demoOwner, PutConnection demoConnection),
     (demoEnv ''u9'', demoBot, RecordHeartbeat (demoHeartbeat ''hb1'' 1)),
     (demoEnv ''u10'', demoBot, PutConnection demoProven)]"

definition working :: "(CallEnv \<times> WorkspaceContext \<times> Call) list" where
  "working =
    [(demoEnv ''u11'', demoOwner, CreateTask demoTask),
     (demoEnv ''u12'', demoOwner, StartRun demoRun),
     (demoEnv ''d1'', demoOwner, MintDispatch ''run''),
     (demoEnv ''u13'', demoBot, ExecuteDispatch demoPermit)]"

definition demoReady :: System where "demoReady = play provisioning demoStart"

definition demoPending :: System where "demoPending = play working demoReady"

lemma demoStart_init: "sysInit demoStart"
proof -
  have "demoPlane = Inr (sys_plane demoStart)" by (simp add: demoStart_def demoPlane_def newControlPlane_def demoOptions_def)
  then show ?thesis unfolding sysInit_def demoPlane_def
    by (intro conjI exI [of _ "\<lambda>_. None"] exI [of _ demoOptions]) (simp_all add: demoStart_def demoOptions_def)
qed

section \<open>Facts of the session\<close>

definition settleFirst :: "error + json \<Rightarrow> System \<Rightarrow> System" where
  "settleFirst answer S = S\<lparr>sys_plane := snd (settleDispatch (hd (sys_starts S)) answer (sys_plane S)),
     sys_starts := remove1 (hd (sys_starts S)) (sys_starts S)\<rparr>"

lemma settleFirst_reachable:
  assumes "reachable S" "sys_starts S \<noteq> []"
  shows "reachable (settleFirst answer S)"
proof -
  have "sysStep S (settleFirst answer S)" unfolding settleFirst_def
    by (rule step_start [where answer = answer]) (use assms(2) in \<open>auto intro: prod.collapse [symmetric]\<close>)
  with assms(1) show ?thesis by (rule reach_step)
qed

definition demoBound :: System where "demoBound = settleFirst (Inr (JStr ''ext-1'')) demoPending"

definition finishing :: "(CallEnv \<times> WorkspaceContext \<times> Call) list" where
  "finishing =
    [(demoEnv ''u14'', demoBot, TransitionRun ''run'' R_RUNNING),
     (demoEnv ''u15'', demoBot, RecordUsage demoUsage),
     (demoEnv ''u16'', demoBot, RecordHeartbeat (demoHeartbeat ''hb2'' 2))]"

definition demoRunning :: System where "demoRunning = play finishing demoBound"

definition demoDone :: System where
  "demoDone = play [(demoEnv ''u17'', demoBot, TransitionRun ''run'' R_COMPLETED)] demoRunning"

lemma demoReady_reachable: "reachable demoReady"
  unfolding demoReady_def by (intro play_reachable reach_init demoStart_init)

lemma demoPending_reachable: "reachable demoPending"
  unfolding demoPending_def by (intro play_reachable demoReady_reachable)

lemma demoPending_starts: "sys_starts demoPending = [startOf demoBot demoPermit]"
  by code_simp

lemma demoBound_reachable: "reachable demoBound"
  unfolding demoBound_def by (intro settleFirst_reachable demoPending_reachable) (simp add: demoPending_starts)

lemma demoRunning_reachable: "reachable demoRunning"
  unfolding demoRunning_def by (intro play_reachable demoBound_reachable)

lemma demoDone_reachable: "reachable demoDone"
  unfolding demoDone_def by (intro play_reachable demoRunning_reachable)

definition boundRun :: AgentRun where
  "boundRun = demoRun\<lparr>run_externalRunId := Some ''ext-1'', run_adapterRegistrationId := Some ''reg1''\<rparr>"

lemma demoRunning_facts:
  "getRun (sys_plane demoRunning) demoBot ''run'' =
     Some (boundRun\<lparr>run_status := R_RUNNING, run_startedAt := Some demoNoon\<rparr>) \<and>
   getTask (sys_plane demoRunning) demoBot ''task'' = Some (demoTask\<lparr>task_status := T_RUNNING\<rparr>)"
  by code_simp

lemma demoDone_facts:
  "getRun (sys_plane demoDone) demoBot ''run'' =
     Some (boundRun\<lparr>run_status := R_COMPLETED, run_startedAt := Some demoNoon, run_completedAt := Some demoNoon\<rparr>) \<and>
   getTask (sys_plane demoDone) demoBot ''task'' = Some (demoTask\<lparr>task_status := T_COMPLETED\<rparr>)"
  by code_simp

end
