(* ===== verification/Control_Plane_Properties.thy ===== *)
theory Control_Plane_Properties
  imports Control_Plane_Scenario
begin

text \<open>
  What the control plane guarantees in every reachable state, under any interleaving of calls and
  adapter answers.  The proofs read the invariant of \<open>Control_Plane_Permits\<close> through the
  interpretation of the transition-system interface.
\<close>

section \<open>Reading the invariant\<close>

lemma reachable_plane: "reachable S \<Longrightarrow> planeInv (sys_plane S)"
  using plane.reach_inv [of S] by (simp add: sysInv_def)

lemma reachable_stores: "reachable S \<Longrightarrow> storesOk (sys_plane S)"
  using reachable_plane by (simp add: planeInv_def)

lemma reachable_rooted: "reachable S \<Longrightarrow> connectionsRooted (sys_plane S)"
  using reachable_plane by (simp add: planeInv_def)

lemma reachable_lifecycle: "reachable S \<Longrightarrow> lifecycleOk (sys_plane S)"
  using reachable_plane by (simp add: planeInv_def)

lemma reachable_starts: "reachable S \<Longrightarrow> startsOk (sys_plane S) (sys_starts S)"
  using plane.reach_inv [of S] by (simp add: sysInv_def)

lemma reachable_cancels: "reachable S \<Longrightarrow> cancelsOk (sys_plane S) (sys_cancellations S)"
  using plane.reach_inv [of S] by (simp add: sysInv_def)

lemma sysStep_sysEffect: "reachable S \<Longrightarrow> sysStep S T \<Longrightarrow> sysEffect S T"
  using plane.reach_inv [of S]
  by (intro sysStep_effect) (auto simp: sysInv_def planeInv_def intro: sysInv_pendingKeyed)

lemma sysEffect_plane: "sysEffect S T \<Longrightarrow> \<exists>cx lab. effect cx lab (sys_plane S) (sys_plane T)"
  by (erule sysEffect.cases) (simp; blast)+

text \<open>What every effect preserves as a preorder holds between any two states of a run.\<close>

lemma steps_effects:
  assumes "sysStep\<^sup>*\<^sup>* S T" "reachable S" "\<And>s. R s s" "\<And>s t u. R s t \<Longrightarrow> R t u \<Longrightarrow> R s u"
    "\<And>cx lab s t. effect cx lab s t \<Longrightarrow> planeInv s \<Longrightarrow> R s t"
  shows "R (sys_plane S) (sys_plane T)"
  using assms(1)
proof (induction rule: rtranclp_induct)
  case (step T U)
  have T: "reachable T" using plane.reach_steps [OF step(1) assms(2)] .
  from sysEffect_plane [OF sysStep_sysEffect [OF T step(2)]] assms(5) reachable_plane [OF T]
  have "R (sys_plane T) (sys_plane U)" by blast
  with step(3) assms(4) show ?case by blast
qed (rule assms(3))

lemma getTask_key:
  "storesOk s \<Longrightarrow> getTask s cx i = Some task \<Longrightarrow> task_workspaceId task = cx_workspaceId cx \<and> task_id task = i"
  using tasks_get [of s "key (cx_workspaceId cx) i" task] by (simp add: getTask_def)

lemma getRun_key:
  "storesOk s \<Longrightarrow> getRun s cx i = Some run \<Longrightarrow> run_workspaceId run = cx_workspaceId cx \<and> run_id run = i"
  using runs_get [of s "key (cx_workspaceId cx) i" run] by (simp add: getRun_def)

section \<open>Budgets\<close>

text \<open>
  C1: in every reachable state the cost and the compute units recorded for a task, summed over all
  its usage records, stay within the limits of the task.
\<close>

theorem usage_within_budget:
  assumes "reachable S" and "getTask (sys_plane S) cx i = Some task"
  shows "totalCost (taskUsage (sys_plane S) (cx_workspaceId cx) i) \<le> cl_maximumMinorUnits (task_costLimit task) \<and>
    totalCompute (taskUsage (sys_plane S) (cx_workspaceId cx) i) \<le> cl_maximumComputeUnits (task_costLimit task)"
proof -
  have "budgetOk (sys_plane S)" using reachable_plane [OF assms(1)] by (simp add: planeInv_def)
  then show ?thesis using assms(2) getTask_key [OF reachable_stores [OF assms(1)] assms(2)]
    unfolding budgetOk_def withinLimits_def getTask_def by metis
qed

theorem usage_within_budget_witness:
  "totalCost (taskUsage (sys_plane demoRunning) (cx_workspaceId demoBot) ''task'') \<le> 10"
  using usage_within_budget [OF demoRunning_reachable conjunct2 [OF demoRunning_facts]]
  by (simp add: demoTask_def)

section \<open>Lifecycle\<close>

text \<open>
  C2: in every reachable state the task of a stored run exists, and its status is the one the status
  of the run stands for: READY while the run is queued, RUNNING while it runs or is paused, and the
  same terminal status once it has ended.
\<close>

theorem run_and_task_agree:
  assumes "reachable S" and "getRun (sys_plane S) cx i = Some run"
  shows "\<exists>task. getTask (sys_plane S) cx (run_taskId run) = Some task \<and> task_status task = taskStatusOf (run_status run)"
  using reachable_lifecycle [OF assms(1)] assms(2) getRun_key [OF reachable_stores [OF assms(1)] assms(2)]
  unfolding lifecycleOk_def statusOk_def getRun_def getTask_def by metis

theorem run_and_task_agree_witness:
  "\<exists>task. getTask (sys_plane demoRunning) demoBot (run_taskId boundRun) = Some task \<and> task_status task = T_RUNNING"
  using run_and_task_agree [OF demoRunning_reachable conjunct1 [OF demoRunning_facts]]
  by (simp add: boundRun_def demoRun_def)

text \<open>C3: a task never gets a second run: two stored runs of one task are the same run.\<close>

theorem one_run_per_task:
  assumes "reachable S" and "getRun (sys_plane S) cx i = Some x" and "getRun (sys_plane S) cx j = Some y"
    and "run_taskId x = run_taskId y"
  shows "i = j"
proof -
  have "key (run_workspaceId x) (run_taskId x) = key (run_workspaceId y) (run_taskId y)"
    using assms(4) getRun_key [OF reachable_stores [OF assms(1)] assms(2)]
      getRun_key [OF reachable_stores [OF assms(1)] assms(3)] by simp
  then have "key (cx_workspaceId cx) i = key (cx_workspaceId cx) j"
    using reachable_lifecycle [OF assms(1)] assms(2,3) unfolding lifecycleOk_def oneRun_def getRun_def by blast
  then show ?thesis by simp
qed

theorem one_run_per_task_witness:
  "\<exists>!i. \<exists>x. getRun (sys_plane demoRunning) demoBot i = Some x \<and> run_taskId x = ''task''"
proof (rule ex1I [of _ "''run''"])
  have t: "run_taskId (boundRun\<lparr>run_status := R_RUNNING, run_startedAt := Some demoNoon\<rparr>) = ''task''"
    by (simp add: boundRun_def demoRun_def)
  then show "\<exists>x. getRun (sys_plane demoRunning) demoBot ''run'' = Some x \<and> run_taskId x = ''task''"
    using demoRunning_facts by simp
  show "i = ''run''" if "\<exists>x. getRun (sys_plane demoRunning) demoBot i = Some x \<and> run_taskId x = ''task''" for i
    using that one_run_per_task [OF demoRunning_reachable _ conjunct1 [OF demoRunning_facts]] t by metis
qed

text \<open>
  C4: in a reachable state a permitted transition of a run is carried out unless the event sink refuses its
  event.  When the caller operates the connection, the transition is legal for the status of the run, the dispatch
  and cancellation conditions hold and the clock is in range: if the event of the transition is accepted, or no
  sink is configured, \<open>transitionRun\<close> succeeds (the check of the task's own transition table never
  refuses), the run takes its new status and the task the status that goes with it; if the sink refuses the event,
  \<open>transitionRun\<close> throws its error and changes nothing.
\<close>

theorem permitted_run_transition_succeeds:
  assumes r: "reachable S" and run: "getRun (sys_plane S) cx i = Some run"
    and c: "mget (cp_connections (sys_plane S)) (key (cx_workspaceId cx) (run_runtimeConnectionId run)) = Some c"
    and "operatesConnection (sys_plane S) cx c" and legal: "next \<in> set (RUN_TRANSITIONS (run_status run))"
    and "\<not> mhas (cp_inFlightDispatchAdapters (sys_plane S)) (key (cx_workspaceId cx) i)"
    and "next = R_CANCELLED \<longrightarrow> \<not> truthy (run_externalRunId run) \<or>
      key (cx_workspaceId cx) i \<in> cp_successfulCancellations (sys_plane S)"
    and "run_status run = R_QUEUED \<longrightarrow> next = R_RUNNING \<longrightarrow>
      key (cx_workspaceId cx) i \<in> cp_claimedDispatchRuns (sys_plane S) \<and> truthy (run_externalRunId run)"
    and now: "toISOString (ce_now env) = Some now"
    and sink: "emitted = fst (emitOperationalEvent env cx (runEventType next) ''Run'' i
      [(''previousStatus'', FText (runStatusText (run_status run))), (''nextStatus'', FText (runStatusText next)),
       (''taskId'', FText (run_taskId run))] (Some (run_taskId run)) (sys_plane S))"
  shows "(cp_events (sys_plane S) = None \<longrightarrow> emitted = Inr ()) \<and>
    (emitted = Inr () \<longrightarrow> (\<exists>t task. transitionRun env cx i next (sys_plane S) = (Inr (), t) \<and>
       getRun t cx i = Some (updatedRun run next now) \<and>
       getTask t cx (run_taskId run) = Some task \<and> task_status task = taskStatusOf next)) \<and>
    (\<forall>e. emitted = Inl e \<longrightarrow> transitionRun env cx i next (sys_plane S) = (Inl e, sys_plane S))"
proof -
  let ?s = "sys_plane S"
  have ok: "storesOk ?s" using reachable_stores [OF r] .
  have k: "run_workspaceId run = cx_workspaceId cx" "run_id run = i" using getRun_key [OF ok run] by simp_all
  have run': "mget (cp_runs ?s) (key (cx_workspaceId cx) i) = Some run" using run by (simp add: getRun_def)
  obtain task where task: "mget (cp_tasks ?s) (key (cx_workspaceId cx) (run_taskId run)) = Some task"
    "task_status task = taskStatusOf (run_status run)"
    using reachable_lifecycle [OF r] run' k unfolding lifecycleOk_def statusOk_def by metis
  have tk: "task_workspaceId task = cx_workspaceId cx" "task_id task = run_taskId run"
    using tasks_get [OF ok task(1)] by simp_all
  have tn: "case taskNextFor (run_status run) next of
      None \<Rightarrow> taskStatusOf next = taskStatusOf (run_status run)
    | Some taskNext \<Rightarrow> taskNext = taskStatusOf next \<and> taskNext \<in> set (TASK_TRANSITIONS (task_status task))"
    using run_transition_task [OF legal] unfolding task(2) .
  define ev where "ev = emitOperationalEvent env cx (runEventType next) ''Run'' i
      [(''previousStatus'', FText (runStatusText (run_status run))), (''nextStatus'', FText (runStatusText next)),
       (''taskId'', FText (run_taskId run))] (Some (run_taskId run)) ?s"
  have quiet: "cp_events ?s = None \<Longrightarrow> ev = (Inr (), ?s)" by (simp add: ev_def emitOperationalEvent_def updates_def)
  have refused: "ev = (Inl e, ?s)" if "emitted = Inl e" for e
    using that by (auto simp: sink ev_def emitOperationalEvent_def updates_def split: sum.splits)
  have accepted: "\<exists>es. ev = (Inr (), ?s\<lparr>cp_events := es\<rparr>)" if "emitted = Inr ()"
    using that by (auto simp: sink ev_def emitOperationalEvent_def updates_def outcome_simps split: sum.splits option.splits prod.splits
        intro: exI [of _ "cp_events ?s"])
  have run_it: "transitionRun env cx i next ?s = (case ev of (Inl e, u) \<Rightarrow> (Inl e, u) | (Inr _, u) \<Rightarrow> (Inr (), u\<lparr>
       cp_runs := mset_at (cp_runs u) (key (run_workspaceId run) (run_id run)) (updatedRun run next now),
       cp_tasks := (case taskNextFor (run_status run) next of
           None \<Rightarrow> cp_tasks u
         | Some taskNext \<Rightarrow> mset_at (cp_tasks u) (key (task_workspaceId task) (task_id task))
             (task\<lparr>task_status := taskNext\<rparr>))\<rparr>))"
    unfolding transitionRun_def andThen_def reads_def require_def ev_def
    using assms(4-8) run' c task(1) tn k now legal
    by (auto simp: isoNow_def modify_def Let_def split: option.splits prod.splits sum.splits)
  have "\<exists>t task. transitionRun env cx i next ?s = (Inr (), t) \<and> getRun t cx i = Some (updatedRun run next now) \<and>
      getTask t cx (run_taskId run) = Some task \<and> task_status task = taskStatusOf next" if "emitted = Inr ()"
    using accepted [OF that] tn task tk k unfolding run_it by (auto simp: getRun_def getTask_def split: option.splits)
  with refused quiet run_it show ?thesis by (auto simp: sink ev_def)
qed

lemma demoBound_facts:
  "getRun (sys_plane demoBound) demoBot ''run'' = Some boundRun \<and>
   mget (cp_connections (sys_plane demoBound)) (key (cx_workspaceId demoBot) ''conn'') = Some demoProven \<and>
   \<not> mhas (cp_inFlightDispatchAdapters (sys_plane demoBound)) (key (cx_workspaceId demoBot) ''run'') \<and>
   key (cx_workspaceId demoBot) ''run'' \<in> cp_claimedDispatchRuns (sys_plane demoBound) \<and>
   cp_events (sys_plane demoBound) = None \<and> toISOString (ce_now (demoEnv ''u'')) = Some demoNoon"
  by code_simp

theorem permitted_run_transition_succeeds_witness:
  "\<exists>t task. transitionRun (demoEnv ''u'') demoBot ''run'' R_RUNNING (sys_plane demoBound) = (Inr (), t) \<and>
    getRun t demoBot ''run'' = Some (updatedRun boundRun R_RUNNING demoNoon) \<and>
    getTask t demoBot (run_taskId boundRun) = Some task \<and> task_status task = taskStatusOf R_RUNNING"
proof -
  have run: "getRun (sys_plane demoBound) demoBot ''run'' = Some boundRun" and ext: "truthy (run_externalRunId boundRun)"
    and c: "mget (cp_connections (sys_plane demoBound)) (key (cx_workspaceId demoBot) (run_runtimeConnectionId boundRun)) = Some demoProven"
    and op: "operatesConnection (sys_plane demoBound) demoBot demoProven" and legal: "R_RUNNING \<in> set (RUN_TRANSITIONS (run_status boundRun))"
    using demoBound_facts by (auto simp: boundRun_def demoRun_def operatesConnection_def demoProven_def demoConnection_def demoBot_def)
  from permitted_run_transition_succeeds [OF demoBound_reachable run c op legal _ _ _ _ refl, where env = "demoEnv ''u''" and now = demoNoon]
  show ?thesis using demoBound_facts ext by simp
qed

section \<open>Dispatch\<close>

text \<open>
  C5: in every reachable state a run that is running, paused, completed or failed was started
  through a claimed dispatch and is bound to a non-empty external run id.
\<close>

theorem started_run_was_dispatched:
  assumes "reachable S" and "getRun (sys_plane S) cx i = Some run"
    and "run_status run \<in> {R_RUNNING, R_PAUSED, R_COMPLETED, R_FAILED}"
  shows "key (cx_workspaceId cx) i \<in> cp_claimedDispatchRuns (sys_plane S) \<and> truthy (run_externalRunId run) \<and>
    run_adapterRegistrationId run \<noteq> None"
proof -
  have "bindingsOk (sys_plane S)" using reachable_plane [OF assms(1)] by (simp add: planeInv_def)
  from bindingsD [OF this] assms(2) have "boundOk (cp_claimedDispatchRuns (sys_plane S)) (key (cx_workspaceId cx) i) run"
    by (simp add: getRun_def)
  with assms(3) show ?thesis unfolding boundOk_def by blast
qed

theorem started_run_was_dispatched_witness:
  "key (cx_workspaceId demoBot) ''run'' \<in> cp_claimedDispatchRuns (sys_plane demoRunning)"
  using started_run_was_dispatched [OF demoRunning_reachable conjunct1 [OF demoRunning_facts]] by simp

lemma effect_claimed_mono: "effect cx lab s t \<Longrightarrow> cp_claimedDispatchRuns s \<subseteq> cp_claimedDispatchRuns t"
  by (cases rule: effect.cases) auto

lemma steps_claimed_mono:
  assumes "sysStep\<^sup>*\<^sup>* S T" "reachable S"
  shows "cp_claimedDispatchRuns (sys_plane S) \<subseteq> cp_claimedDispatchRuns (sys_plane T)"
  by (rule steps_effects [OF assms]) (auto dest: effect_claimed_mono)

lemma executeDispatch_started:
  assumes "reachable S" "perform env cx (ExecuteDispatch d) S = (Inr reply, T)"
  shows "effect cx (Claimed (permitRunKey d) (dp_adapterRegistrationId d)) (sys_plane S) (sys_plane T) \<and>
    env_workspaceId (dp_envelope d) = cx_workspaceId cx"
proof -
  obtain r t where b: "beginDispatch env cx d (sys_plane S) = (r, t)" by force
  from beginDispatch_effect [OF b reachable_stores [OF assms(1)] reachable_rooted [OF assms(1)]] assms(2) b
  show ?thesis by (auto split: sum.splits)
qed

text \<open>
  C6: the adapter's \<open>start\<close> is called at most once for a run: after a successful \<open>executeDispatch\<close>, in
  every later state and for every permit that names the same run, \<open>executeDispatch\<close> is refused.
\<close>

theorem run_started_at_most_once:
  assumes "reachable S" and "perform env cx (ExecuteDispatch d) S = (Inr reply, S')" and "sysStep\<^sup>*\<^sup>* S' T"
    and "cx_workspaceId cx' = cx_workspaceId cx" and "env_runId (dp_envelope d') = env_runId (dp_envelope d)"
  shows "\<exists>e. fst (perform env' cx' (ExecuteDispatch d') T) = Inl e"
proof (rule ccontr)
  assume "\<nexists>e. fst (perform env' cx' (ExecuteDispatch d') T) = Inl e"
  then obtain reply' T' where e: "perform env' cx' (ExecuteDispatch d') T = (Inr reply', T')"
    by (metis old.sum.exhaust prod.collapse)
  have S': "reachable S'" using assms(1,2) by (blast intro: reach_step step_call)
  then have T: "reachable T" using plane.reach_steps [OF assms(3)] by blast
  from executeDispatch_started [OF assms(1,2)]
  have d: "permitRunKey d \<in> cp_claimedDispatchRuns (sys_plane S')" "env_workspaceId (dp_envelope d) = cx_workspaceId cx"
    by (auto elim: effect.cases)
  from executeDispatch_started [OF T e] obtain d'' where d'': "permitRunKey d'' = permitRunKey d'"
    "mget (cp_dispatches (sys_plane T)) (permitKey d'') = Some d''" "env_workspaceId (dp_envelope d') = cx_workspaceId cx'"
    by (auto elim: effect.cases)
  have "permitsOk (sys_plane T)" using reachable_plane [OF T] by (simp add: planeInv_def)
  from permitsD [OF this d''(2)] d'' assms(4,5) d(2) have "permitRunKey d \<notin> cp_claimedDispatchRuns (sys_plane T)"
    by simp
  with steps_claimed_mono [OF assms(3) S'] d(1) show False by blast
qed

lemma demoDispatch:
  "perform (demoEnv ''u13'') demoBot (ExecuteDispatch demoPermit) (play (take 3 working) demoReady) = (Inr Done, demoPending)"
proof -
  have "fst (perform (demoEnv ''u13'') demoBot (ExecuteDispatch demoPermit) (play (take 3 working) demoReady)) = Inr Done"
    by code_simp
  moreover have "snd (perform (demoEnv ''u13'') demoBot (ExecuteDispatch demoPermit) (play (take 3 working) demoReady)) = demoPending"
    by (simp add: demoPending_def play_def working_def)
  ultimately show ?thesis by (metis prod.collapse)
qed

theorem run_started_at_most_once_witness:
  "\<exists>e. fst (perform (demoEnv ''u'') demoBot (ExecuteDispatch demoPermit) demoPending) = Inl e"
  by (rule run_started_at_most_once [OF play_reachable [OF demoReady_reachable] demoDispatch]) simp_all

end
