(* ===== verification/Control_Plane_Refinement.thy ===== *)
theory Control_Plane_Refinement
  imports Control_Plane_Properties
begin

text \<open>
  The control plane as a ledger of jobs.  Of all the records, permits and adapters only the tasks
  remain: a job has a status, limits and what was charged to it.  Every step of the system is a step
  of the ledger or invisible to it, so what holds of the ledger holds of the plane.
\<close>

section \<open>Forward simulation\<close>

text \<open>
  A concrete system with an invariant is simulated by an abstract one: an initial state is abstracted
  to an initial state, a step to a step.  Whatever the abstract system keeps along its steps is then
  kept between the abstractions of any two states of a concrete run.
\<close>

locale forward_simulation = invariant_system +
  fixes ainit :: "'a \<Rightarrow> bool"
    and astep :: "'a \<Rightarrow> 'a \<Rightarrow> bool"
    and view :: "'s \<Rightarrow> 'a"
  assumes sim_init: "init s \<Longrightarrow> ainit (view s)"
    and sim_step: "inv s \<Longrightarrow> step s t \<Longrightarrow> astep (view s) (view t)"
begin

lemma sim_steps: "step\<^sup>*\<^sup>* s t \<Longrightarrow> inv s \<Longrightarrow> astep\<^sup>*\<^sup>* (view s) (view t)"
proof (induction rule: rtranclp_induct)
  case (step t u)
  then show ?case using sim_step [of t u] steps_inv by (auto intro: rtranclp.rtrancl_into_rtrancl)
qed simp

lemma sim_reach: "reach init step s \<Longrightarrow> reach ainit astep (view s)"
  by (induction rule: reach.induct) (auto intro: reach.intros sim_init sim_step reach_inv)

end

section \<open>The ledger\<close>

record Job =
  job_status :: TaskStatus
  job_limit :: CostLimit
  job_cost :: int
  job_compute :: int

type_synonym ledger = "string \<rightharpoonup> Job"

inductive jobStep :: "ledger \<Rightarrow> ledger \<Rightarrow> bool" where
  job_idle: "jobStep J J"
| job_opened: "J k = None \<Longrightarrow> limitOk limit \<Longrightarrow>
    jobStep J (J(k \<mapsto> \<lparr>job_status = T_READY, job_limit = limit, job_cost = 0, job_compute = 0\<rparr>))"
| job_moved: "J k = Some j \<Longrightarrow> next \<in> set (TASK_TRANSITIONS (job_status j)) \<Longrightarrow>
    jobStep J (J(k \<mapsto> j\<lparr>job_status := next\<rparr>))"
| job_charged: "J k = Some j \<Longrightarrow> 0 \<le> cost \<Longrightarrow> 0 \<le> units \<Longrightarrow>
    job_cost j + cost \<le> cl_maximumMinorUnits (job_limit j) \<Longrightarrow>
    job_compute j + units \<le> cl_maximumComputeUnits (job_limit j) \<Longrightarrow>
    jobStep J (J(k \<mapsto> j\<lparr>job_cost := job_cost j + cost, job_compute := job_compute j + units\<rparr>))"

text \<open>What the ledger keeps: a job is never dropped, its limit never changes, charges only add up,
  and a job that has ended keeps its status.\<close>

definition jobKept :: "ledger \<Rightarrow> ledger \<Rightarrow> bool" where
  "jobKept J K = (\<forall>k j. J k = Some j \<longrightarrow> (\<exists>j'. K k = Some j' \<and> job_limit j' = job_limit j \<and>
     job_cost j \<le> job_cost j' \<and> job_compute j \<le> job_compute j' \<and>
     (\<not> taskOpen (job_status j) \<longrightarrow> job_status j' = job_status j)))"

lemma jobKept_refl: "jobKept J J"
  by (simp add: jobKept_def)

lemma jobKept_trans:
  assumes "jobKept J K" "jobKept K L"
  shows "jobKept J L"
  unfolding jobKept_def
proof (intro allI impI)
  fix k j assume "J k = Some j"
  with assms(1) obtain j' where j': "K k = Some j'" "job_limit j' = job_limit j" "job_cost j \<le> job_cost j'"
    "job_compute j \<le> job_compute j'" "\<not> taskOpen (job_status j) \<Longrightarrow> job_status j' = job_status j"
    unfolding jobKept_def by blast
  from assms(2) j'(1) obtain l where "L k = Some l" "job_limit l = job_limit j'" "job_cost j' \<le> job_cost l"
    "job_compute j' \<le> job_compute l" "\<not> taskOpen (job_status j') \<Longrightarrow> job_status l = job_status j'"
    unfolding jobKept_def by blast
  with j' show "\<exists>l. L k = Some l \<and> job_limit l = job_limit j \<and> job_cost j \<le> job_cost l \<and>
      job_compute j \<le> job_compute l \<and> (\<not> taskOpen (job_status j) \<longrightarrow> job_status l = job_status j)"
    by (intro exI [of _ l]) auto
qed

lemma jobStep_kept: "jobStep J K \<Longrightarrow> jobKept J K"
  by (cases rule: jobStep.cases) (auto simp: jobKept_def dest!: tasks.step_from_active)

lemma jobSteps_kept: "jobStep\<^sup>*\<^sup>* J K \<Longrightarrow> jobKept J K"
  by (induction rule: rtranclp_induct) (auto intro: jobKept_refl jobKept_trans jobStep_kept)

section \<open>The plane implements the ledger\<close>

definition jobOf :: "ControlPlane \<Rightarrow> ControlPlaneTask \<Rightarrow> Job" where
  "jobOf s task = (let used = taskUsage s (task_workspaceId task) (task_id task) in
     \<lparr>job_status = task_status task, job_limit = task_costLimit task,
      job_cost = totalCost used, job_compute = totalCompute used\<rparr>)"

definition ledgerOf :: "ControlPlane \<Rightarrow> ledger" where
  "ledgerOf s k = map_option (jobOf s) (mget (cp_tasks s) k)"

lemma jobOf_frame: "cp_usage t = cp_usage s \<Longrightarrow> jobOf t = jobOf s"
  by (simp add: jobOf_def taskUsage_def fun_eq_iff)

lemma ledgerOf_frame: "cp_tasks t = cp_tasks s \<Longrightarrow> cp_usage t = cp_usage s \<Longrightarrow> ledgerOf t = ledgerOf s"
  using jobOf_frame [of t s] by (intro ext) (simp add: ledgerOf_def)

lemma ledgerOf_set:
  assumes "cp_tasks t = mset_at (cp_tasks s) k x" "cp_usage t = cp_usage s"
  shows "ledgerOf t = (ledgerOf s)(k \<mapsto> jobOf s x)"
  using assms jobOf_frame [of t s] by (intro ext) (simp add: ledgerOf_def)

lemma jobOf_moved [simp]: "jobOf s (x\<lparr>task_status := st\<rparr>) = (jobOf s x)\<lparr>job_status := st\<rparr>"
  by (simp add: jobOf_def Let_def)

lemma jobOf_simps [simp]:
  "job_status (jobOf s x) = task_status x" "job_limit (jobOf s x) = task_costLimit x"
  by (simp_all add: jobOf_def Let_def)

lemma withinBudget_amounts:
  "withinBudget s task x \<Longrightarrow> 0 \<le> orZero (us_costMinorUnits x) \<and> 0 \<le> orZero (us_computeUnits x)"
  by (auto simp: withinBudget_def orZero_def Let_def split: option.splits)

lemma ledgerOf_usage:
  assumes ok: "storesOk s" and budget: "budgetOk s" and new: "\<not> mhas (cp_usage s) (usageKey x)"
    and task: "mget (cp_tasks s) (key (us_workspaceId x) (us_taskId x)) = Some task" and within: "withinBudget s task x"
    and t: "cp_tasks t = cp_tasks s" "cp_usage t = mset_at (cp_usage s) (usageKey x) x"
  shows "jobStep (ledgerOf s) (ledgerOf t)"
proof -
  let ?k = "key (us_workspaceId x) (us_taskId x)" and ?j = "jobOf s task"
  let ?c = "orZero (us_costMinorUnits x)" and ?u = "orZero (us_computeUnits x)"
  have k: "task_workspaceId task = us_workspaceId x" "task_id task = us_taskId x"
    using tasks_get [OF ok task] by simp_all
  note u = taskUsage_record [OF new t(2)]
  have "ledgerOf t = (ledgerOf s)(?k \<mapsto> ?j\<lparr>job_cost := job_cost ?j + ?c, job_compute := job_compute ?j + ?u\<rparr>)"
  proof (rule ext)
    fix k
    show "ledgerOf t k = ((ledgerOf s)(?k \<mapsto> ?j\<lparr>job_cost := job_cost ?j + ?c, job_compute := job_compute ?j + ?u\<rparr>)) k"
    proof (cases "k = ?k")
      case True
      with task k t(1) show ?thesis by (simp add: ledgerOf_def jobOf_def u Let_def)
    next
      case False
      have "us_workspaceId x \<noteq> task_workspaceId tz \<or> us_taskId x \<noteq> task_id tz"
        if "mget (cp_tasks s) k = Some tz" for tz
        using tasks_get [OF ok that] False by auto
      with False t(1) show ?thesis by (cases "mget (cp_tasks s) k") (auto simp: ledgerOf_def jobOf_def u Let_def)
    qed
  qed
  moreover have "withinLimits (task_costLimit task) (taskUsage s (us_workspaceId x) (us_taskId x) @ [x])"
    using withinBudget_limits [OF within] budget task k unfolding budgetOk_def by metis
  then have "job_cost ?j + ?c \<le> cl_maximumMinorUnits (job_limit ?j)"
    "job_compute ?j + ?u \<le> cl_maximumComputeUnits (job_limit ?j)"
    using k by (simp_all add: withinLimits_def jobOf_def Let_def)
  ultimately show ?thesis
    using withinBudget_amounts [OF within] task by (auto intro!: jobStep.job_charged simp: ledgerOf_def)
qed

lemma effect_ledger:
  assumes e: "effect cx lab s t" and inv: "planeInv s"
  shows "jobStep (ledgerOf s) (ledgerOf t)"
  using e
proof (cases rule: effect.cases)
  case (eff_task x now granted l)
  have "taskUsage s (task_workspaceId x) (task_id x) = []"
    using unused_task [of s] inv eff_task by (simp add: planeInv_def)
  then have "ledgerOf t = (ledgerOf s)(taskKey x \<mapsto>
      \<lparr>job_status = T_READY, job_limit = task_costLimit x, job_cost = 0, job_compute = 0\<rparr>)"
    using ledgerOf_set [of t s] eff_task by (simp add: jobOf_def)
  moreover have "limitOk (task_costLimit x)"
    using assertCostLimit_limitOk validateCurrentTaskPolicy_cost eff_task(6) by blast
  ultimately show ?thesis using eff_task(7) by (auto intro: jobStep.job_opened simp: ledgerOf_def mhas_def)
next
  case (eff_taskMoved x now "next" l)
  then have "ledgerOf t = (ledgerOf s)(taskKey x \<mapsto> (jobOf s x)\<lparr>job_status := next\<rparr>)"
    using ledgerOf_set [of t s "taskKey x" "x\<lparr>task_status := next\<rparr>"] by simp
  with eff_taskMoved show ?thesis by (auto intro: jobStep.job_moved simp: ledgerOf_def)
next
  case (eff_runMoved x c "next" task l now)
  show ?thesis
  proof (cases "taskNextFor (run_status x) next")
    case None
    then have "ledgerOf t = ledgerOf s" using eff_runMoved(2) by (intro ledgerOf_frame) simp_all
    then show ?thesis by (simp add: jobStep.job_idle)
  next
    case (Some taskNext)
    then have "ledgerOf t = (ledgerOf s)(taskKey task \<mapsto> (jobOf s task)\<lparr>job_status := taskNext\<rparr>)"
      using ledgerOf_set [of t s "taskKey task" "task\<lparr>task_status := taskNext\<rparr>"] eff_runMoved(2) by simp
    with eff_runMoved Some show ?thesis by (auto intro!: jobStep.job_moved simp: ledgerOf_def)
  qed
next
  case (eff_usage x task run c l)
  then show ?thesis using inv by (intro ledgerOf_usage [of s x task]) (simp_all add: planeInv_def)
qed (use ledgerOf_frame [of t s] in \<open>simp_all add: jobStep.job_idle\<close>)

interpretation jobs: forward_simulation sysInit sysStep sysInv "\<lambda>J. J = Map.empty" jobStep "\<lambda>S. ledgerOf (sys_plane S)"
proof unfold_locales
  show "ledgerOf (sys_plane S) = Map.empty" if i: "sysInit S" for S
  proof -
    obtain engine options where "newControlPlane engine options = Inr (sys_plane S)"
      using i by (auto simp: sysInit_def)
    from newControlPlane_fields(11) [OF this] show ?thesis by (simp add: ledgerOf_def fun_eq_iff)
  qed
  show "jobStep (ledgerOf (sys_plane S)) (ledgerOf (sys_plane T))" if i: "sysInv S" and st: "sysStep S T" for S T
  proof -
    have "sysEffect S T"
      by (rule sysStep_effect [OF st]) (use i sysInv_pendingKeyed in \<open>auto simp: sysInv_def planeInv_def\<close>)
    with sysEffect_plane effect_ledger i show ?thesis by (metis sysInv_def)
  qed
qed

text \<open>
  C27.  The control plane implements the ledger of jobs: seen through \<open>ledgerOf\<close>, every step of the
  system from a reachable state is a step of the ledger, which opens a job, moves it along
  \<open>TASK_TRANSITIONS\<close>, charges it within its limits or does nothing; and along any further steps no job is
  lost, limits do not change, charges only grow and a job that has ended keeps its status.
\<close>

theorem plane_refines_ledger:
  assumes "reachable S"
  shows "reach (\<lambda>J. J = Map.empty) jobStep (ledgerOf (sys_plane S)) \<and>
    (\<forall>T. sysStep S T \<longrightarrow> jobStep (ledgerOf (sys_plane S)) (ledgerOf (sys_plane T))) \<and>
    (\<forall>T. sysStep\<^sup>*\<^sup>* S T \<longrightarrow> jobKept (ledgerOf (sys_plane S)) (ledgerOf (sys_plane T)))"
  using jobs.sim_reach [OF assms] jobs.sim_step [OF plane.reach_inv [OF assms]]
    jobSteps_kept [OF jobs.sim_steps [OF _ plane.reach_inv [OF assms]]] by blast

lemma play_steps: "sysStep\<^sup>*\<^sup>* S (play calls S)"
proof (induction calls arbitrary: S)
  case (Cons c calls)
  obtain env cx call where c: "c = (env, cx, call)" by (cases c) auto
  have "sysStep S (snd (perform env cx call S))" by (rule step_call) (rule prod.collapse [symmetric])
  with Cons [of "snd (perform env cx call S)"] show ?case by (simp add: play_def c converse_rtranclp_into_rtranclp)
qed (simp add: play_def)

lemma demoRunning_ledger:
  "map_option job_cost (ledgerOf (sys_plane demoRunning) (key demoWs ''task'')) = Some 4"
  by code_simp

theorem plane_refines_ledger_witness:
  "\<exists>j. ledgerOf (sys_plane demoDone) (key demoWs ''task'') = Some j \<and> 4 \<le> job_cost j"
proof -
  have "sysStep\<^sup>*\<^sup>* demoRunning demoDone" unfolding demoDone_def by (rule play_steps)
  with plane_refines_ledger [OF demoRunning_reachable] have "jobKept (ledgerOf (sys_plane demoRunning)) (ledgerOf (sys_plane demoDone))"
    by blast
  with demoRunning_ledger show ?thesis unfolding jobKept_def by fastforce
qed

end
