(* ===== verification/Control_Plane_Tenancy.thy ===== *)
theory Control_Plane_Tenancy
  imports Control_Plane_Properties
begin

text \<open>
  Who may change what: calls of one workspace leave the records of every other workspace alone, and
  only authorizers change the catalogue (runtimes, adapters, capabilities, tools, agents and grants).
  The stored records are well formed, and an adapter call that was begun can always be concluded.
\<close>

section \<open>Effects by workspace\<close>

lemma onPlane_effect:
  assumes "onPlane reply m S = (r, T)" "\<And>r t. m (sys_plane S) = (r, t) \<Longrightarrow> effect cx Quiet (sys_plane S) t"
  shows "\<exists>lab. effect cx lab (sys_plane S) (sys_plane T)"
proof -
  obtain r' t where m: "m (sys_plane S) = (r', t)" by force
  with assms(1) have "sys_plane T = t" by (auto simp: onPlane_def)
  with assms(2) [OF m] show ?thesis by blast
qed

lemma perform_by:
  assumes p: "perform env cx call S = (r, T)" and ok: "storesOk (sys_plane S)" and rooted: "connectionsRooted (sys_plane S)"
  shows "\<exists>lab. effect cx lab (sys_plane S) (sys_plane T)"
proof (cases call)
  case (ExecuteDispatch d)
  obtain r' t where b: "beginDispatch env cx d (sys_plane S) = (r', t)" by force
  from beginDispatch_effect [OF b ok rooted] p b ExecuteDispatch show ?thesis by (auto; blast)
next
  case (ExecuteCancellation cn)
  obtain r' t where b: "beginCancellation cx cn (sys_plane S) = (r', t)" by force
  from beginCancellation_effect [OF b] p b ExecuteCancellation show ?thesis by (auto; blast)
qed (use p in \<open>auto elim!: onPlane_effect intro: quiet_effects quiet_effects_stores [OF _ ok]\<close>)

definition sameIn :: "EntityId \<Rightarrow> ControlPlane \<Rightarrow> ControlPlane \<Rightarrow> bool" where
  "sameIn w s t = (\<forall>i. let k = key w i in
     mget (cp_runtimes t) k = mget (cp_runtimes s) k \<and>
     mget (cp_runtimeAdapters t) k = mget (cp_runtimeAdapters s) k \<and>
     mget (cp_agents t) k = mget (cp_agents s) k \<and>
     mget (cp_capabilities t) k = mget (cp_capabilities s) k \<and>
     mget (cp_agentCapabilities t) k = mget (cp_agentCapabilities s) k \<and>
     mget (cp_tools t) k = mget (cp_tools s) k \<and>
     mget (cp_toolGrants t) k = mget (cp_toolGrants s) k \<and>
     mget (cp_authorityGrants t) k = mget (cp_authorityGrants s) k \<and>
     mget (cp_connections t) k = mget (cp_connections s) k \<and>
     mget (cp_heartbeats t) k = mget (cp_heartbeats s) k \<and>
     mget (cp_tasks t) k = mget (cp_tasks s) k \<and>
     mget (cp_runs t) k = mget (cp_runs s) k \<and>
     mget (cp_eventsById t) k = mget (cp_eventsById s) k \<and>
     mget (cp_eventIdempotency t) k = mget (cp_eventIdempotency s) k \<and>
     mget (cp_usage t) k = mget (cp_usage s) k \<and>
     mget (cp_dispatches t) k = mget (cp_dispatches s) k \<and>
     mget (cp_cancellations t) k = mget (cp_cancellations s) k \<and>
     mget (cp_inFlightDispatchAdapters t) k = mget (cp_inFlightDispatchAdapters s) k \<and>
     (k \<in> cp_dispatchedRuns t \<longleftrightarrow> k \<in> cp_dispatchedRuns s) \<and>
     (k \<in> cp_claimedDispatchRuns t \<longleftrightarrow> k \<in> cp_claimedDispatchRuns s) \<and>
     (k \<in> cp_cancelledRuns t \<longleftrightarrow> k \<in> cp_cancelledRuns s) \<and>
     (k \<in> cp_successfulCancellations t \<longleftrightarrow> k \<in> cp_successfulCancellations s))"

definition catalogue where
  "catalogue s = (cp_runtimes s, cp_runtimeAdapters s, cp_capabilities s, cp_tools s, cp_agents s,
     cp_agentCapabilities s, cp_toolGrants s, cp_authorityGrants s)"

lemma effect_sameIn:
  assumes e: "effect cx lab s t" and w: "w \<noteq> cx_workspaceId cx"
  shows "sameIn w s t"
  using e
proof (cases rule: effect.cases)
  case (eff_runMoved x c "next" task l now)
  with w show ?thesis by (auto simp: sameIn_def Let_def split: option.splits)
qed (use w in \<open>simp_all add: sameIn_def Let_def\<close>)

lemma effect_catalogue:
  assumes e: "effect cx lab s t" and a: "\<not> isAuthorizer s cx"
  shows "catalogue t = catalogue s"
  using e by (cases rule: effect.cases) (use a in \<open>simp_all add: catalogue_def\<close>)

lemma reachable_start:
  assumes "reachable S" "p \<in> set (sys_starts S)"
  shows "effect (ps_context p) (Released (ps_runKey p)) (sys_plane S) (snd (settleDispatch p answer (sys_plane S)))"
  using assms reachable_starts [OF assms(1)] reachable_stores [OF assms(1)]
  by (intro settleDispatch_effect [OF prod.collapse [symmetric]]) (auto simp: startsOk_def startOk_def)

lemma reachable_cancel:
  assumes "reachable S" "p \<in> set (sys_cancellations S)"
  shows "effect (pc_context p) (CancelReleased (pc_runKey p)) (sys_plane S) (snd (settleCancellation p outcome (sys_plane S)))"
  using assms reachable_cancels [OF assms(1)]
  by (intro settleCancellation_effect [OF prod.collapse [symmetric]]) (auto simp: cancelsOk_def)

text \<open>
  C28.  Tenants are isolated: no call and no answer of an adapter changes a record, a permit or a mark
  of a workspace other than the one of the context it is made in, and the catalogue of runtimes, adapters,
  capabilities, tools, agents and grants changes only by the calls of an authorizer.
\<close>

theorem workspaces_are_isolated:
  assumes "reachable S"
  shows "(perform env cx call S = (r, T) \<longrightarrow>
      (w \<noteq> cx_workspaceId cx \<longrightarrow> sameIn w (sys_plane S) (sys_plane T)) \<and>
      (\<not> isAuthorizer (sys_plane S) cx \<longrightarrow> catalogue (sys_plane T) = catalogue (sys_plane S))) \<and>
    (p \<in> set (sys_starts S) \<and> w \<noteq> cx_workspaceId (ps_context p) \<longrightarrow>
      sameIn w (sys_plane S) (snd (settleDispatch p answer (sys_plane S)))) \<and>
    (q \<in> set (sys_cancellations S) \<and> w \<noteq> cx_workspaceId (pc_context q) \<longrightarrow>
      sameIn w (sys_plane S) (snd (settleCancellation q outcome (sys_plane S))))"
proof (intro conjI impI; (elim conjE)?)
  assume "perform env cx call S = (r, T)"
  then obtain lab where e: "effect cx lab (sys_plane S) (sys_plane T)"
    using perform_by reachable_stores [OF assms] reachable_rooted [OF assms] by blast
  show "w \<noteq> cx_workspaceId cx \<Longrightarrow> sameIn w (sys_plane S) (sys_plane T)" by (rule effect_sameIn [OF e])
  show "\<not> isAuthorizer (sys_plane S) cx \<Longrightarrow> catalogue (sys_plane T) = catalogue (sys_plane S)"
    by (rule effect_catalogue [OF e])
qed (use effect_sameIn reachable_start [OF assms] reachable_cancel [OF assms] in blast)+

theorem workspaces_are_isolated_witness:
  "sameIn ''w2'' (sys_plane demoRunning) (sys_plane demoDone) \<and>
   catalogue (sys_plane demoDone) = catalogue (sys_plane demoRunning)"
proof -
  let ?T = "snd (perform (demoEnv ''u17'') demoBot (TransitionRun ''run'' R_COMPLETED) demoRunning)"
  have "demoDone = ?T" by (simp add: demoDone_def play_def)
  moreover have "''w2'' \<noteq> cx_workspaceId demoBot" by (simp add: demoBot_def demoWs_def)
  moreover have "\<not> isAuthorizer (sys_plane demoRunning) demoBot" by code_simp
  ultimately show ?thesis
    using workspaces_are_isolated [OF demoRunning_reachable, of "demoEnv ''u17''" demoBot _ _ ?T "''w2''"] by (metis prod.collapse)
qed

section \<open>Well-formed stores\<close>

text \<open>
  C29.  The stores are well typed in every reachable state: each record is stored once, under its own
  workspace and id; agents, grants, heartbeats, tasks, runs, connections and usage refer to records that
  exist in the same workspace; usage is charged to the task of its run; and the heartbeats of a
  connection are numbered upwards from zero or more.
\<close>

theorem stores_well_typed:
  assumes "reachable S"
  shows "storesOk (sys_plane S) \<and> refsOk (sys_plane S) \<and> connectionsRooted (sys_plane S) \<and>
    usageRefs (sys_plane S) \<and> heartbeatsOk (sys_plane S)"
  using reachable_plane [OF assms] by (simp add: planeInv_def)

theorem stores_well_typed_witness:
  "mhas (cp_connections (sys_plane demoRunning)) (key demoWs ''conn'') \<and> heartbeatsOf (sys_plane demoRunning) demoWs ''conn'' = [1, 2]"
proof
  have "mget (cp_runs (sys_plane demoRunning)) (key demoWs ''run'') =
      Some (boundRun\<lparr>run_status := R_RUNNING, run_startedAt := Some demoNoon\<rparr>)"
    using demoRunning_facts by (simp add: getRun_def demoBot_def)
  from refs_run [OF _ this] stores_well_typed [OF demoRunning_reachable]
  show "mhas (cp_connections (sys_plane demoRunning)) (key demoWs ''conn'')" by (simp add: boundRun_def demoRun_def)
  show "heartbeatsOf (sys_plane demoRunning) demoWs ''conn'' = [1, 2]" by code_simp
qed

section \<open>Concluding a start\<close>

text \<open>
  C30.  A start that was begun can be concluded whatever happened while the adapter was working: when the
  adapter answers with a usable id that no other run of the connection has, the run is bound to it; and
  in every case the run is no longer in flight afterwards.
\<close>

definition usableFor :: "ControlPlane \<Rightarrow> PendingStart \<Rightarrow> string \<Rightarrow> bool" where
  "usableFor s p ext = (nonBlankUpTo 2048 ext \<and> (case getRun s (ps_context p) (ps_runId p) of
     None \<Rightarrow> False
   | Some run \<Rightarrow> \<forall>y \<in> set (mvalues (cp_runs s)). run_externalRunId y = Some ext \<longrightarrow> runConnectionKey y \<noteq> runConnectionKey run))"

lemma settleDispatch_releases:
  "\<not> mhas (cp_inFlightDispatchAdapters (snd (settleDispatch p answer s))) (ps_runKey p)"
  by (auto simp: settleDispatch_def finallyDo_def mhas_def split: prod.splits)

lemma pending_start_binds:
  assumes inv: "planeInv s" and ok: "startOk s p" and u: "usableFor s p ext"
  shows "\<exists>run t. settleDispatch p (Inr (JStr ext)) s = (Inr ext, t) \<and> getRun s (ps_context p) (ps_runId p) = Some run \<and>
     run_status run = R_QUEUED \<and> getRun t (ps_context p) (ps_runId p) =
       Some (run\<lparr>run_externalRunId := Some ext, run_adapterRegistrationId := Some (ps_registrationId p)\<rparr>)"
proof -
  let ?k = "ps_runKey p"
  obtain run c where g: "mget (cp_runs s) ?k = Some run" "mget (cp_connections s) (runConnectionKey run) = Some c"
    "conn_authenticatedPrincipalId c = Some (cx_principalId (ps_context p))"
    and k: "?k = key (cx_workspaceId (ps_context p)) (ps_runId p)"
    and f: "mget (cp_inFlightDispatchAdapters s) ?k = Some (ps_registrationId p)"
    using ok by (auto simp: startOk_def)
  have st: "storesOk s" "inFlightOk s" "adaptersOk s" using inv by (simp_all add: planeInv_def)
  have r: "cx_workspaceId (ps_context p) = run_workspaceId run" "ps_runId p = run_id run"
    "conn_id c = run_runtimeConnectionId run"
    using runs_get [OF st(1) g(1)] connections_get [OF st(1) g(2)] k by simp_all
  have q: "?k \<in> cp_claimedDispatchRuns s" "run_status run = R_QUEUED" "run_externalRunId run = None"
    using st(2) f g(1) by (auto simp: inFlightOk_def mhas_def)
  have a: "adapterRegistrationAt s (ps_context p) (conn_runtimeId c) = Some (ps_registrationId p)"
    using adaptersD [OF st(3), of ?k run "ps_registrationId p"] g f q
    by (auto simp: dependsOn_def activeStatus_def adapterFor_def adapterRegistrationAt_def r)
  have fresh: "\<not> (\<exists>y \<in> set (mvalues (cp_runs s)). run_workspaceId y = run_workspaceId run \<and> run_id y \<noteq> run_id run \<and>
      run_runtimeConnectionId y = conn_id c \<and> run_externalRunId y = Some ext)"
    using u g(1) k r by (auto simp: usableFor_def getRun_def)
  have e: "assertString (JStr ext) ''externalRunId'' = Inr ()" using u by (simp add: usableFor_def outcome_simps)
  have b: "bindExternalRun (ps_context p) (ps_runId p) ext (ps_registrationId p) s =
      (Inr (), s\<lparr>cp_runs := mset_at (cp_runs s) ?k
        (run\<lparr>run_externalRunId := Some ext, run_adapterRegistrationId := Some (ps_registrationId p)\<rparr>)\<rparr>)"
    using g f q a fresh e k r
    by (simp add: bindExternalRun_def andThen_def reads_def modify_def require_def ensure_def activeStatus_def)
  show ?thesis
    using g(1) k q(2) by (simp add: settleDispatch_def finallyDo_def andThen_def reads_def ret_def e b getRun_def jsonString_def)
qed

theorem pending_start_concludes:
  assumes "reachable S" "p \<in> set (sys_starts S)"
  shows "\<not> mhas (cp_inFlightDispatchAdapters (snd (settleDispatch p answer (sys_plane S)))) (ps_runKey p) \<and>
    (usableFor (sys_plane S) p ext \<longrightarrow>
     (\<exists>run t. settleDispatch p (Inr (JStr ext)) (sys_plane S) = (Inr ext, t) \<and>
        getRun (sys_plane S) (ps_context p) (ps_runId p) = Some run \<and> run_status run = R_QUEUED \<and>
        getRun t (ps_context p) (ps_runId p) =
          Some (run\<lparr>run_externalRunId := Some ext, run_adapterRegistrationId := Some (ps_registrationId p)\<rparr>)))"
  using settleDispatch_releases pending_start_binds [OF reachable_plane [OF assms(1)]] reachable_starts [OF assms(1)] assms(2)
  by (simp add: startsOk_def)

theorem pending_start_concludes_witness:
  "\<exists>t. settleDispatch (startOf demoBot demoPermit) (Inr (JStr ''ext-1'')) (sys_plane demoPending) = (Inr ''ext-1'', t)"
proof -
  have "startOf demoBot demoPermit \<in> set (sys_starts demoPending)" by (simp add: demoPending_starts)
  moreover have "usableFor (sys_plane demoPending) (startOf demoBot demoPermit) ''ext-1''" by code_simp
  ultimately show ?thesis using pending_start_concludes [OF demoPending_reachable] by blast
qed

section \<open>Timestamps\<close>

text \<open>
The timestamps the plane writes are the ones it reads: the text of the current time in a run, an
  event or a permit parses back to exactly that time, and a grant that expires at such a text counts as
  expired from that time on and not before.
\<close>

theorem timestamps_read_back:
  assumes "isoNow env = Inr v"
  shows "parsedTime s v fld = Inr (ce_now env) \<and> isExpired s (Some v) now = Inr (ce_now env \<le> now)"
  using assms
  by (auto simp: isoNow_def toISOString_def parsedTime_def isExpired_def dateParse_def parseIso_isoText split: if_splits)

theorem timestamps_read_back_witness:
  "isoNow (demoEnv ''u1'') = Inr demoNoon \<and> parsedTime (sys_plane demoReady) demoNoon ''createdAt'' = Inr 1787227200000"
proof
  show i: "isoNow (demoEnv ''u1'') = Inr demoNoon" by code_simp
  from timestamps_read_back [OF i] show "parsedTime (sys_plane demoReady) demoNoon ''createdAt'' = Inr 1787227200000"
    by (simp add: demoEnv_def)
qed

end
