(* ===== verification/Js_Array.thy ===== *)
theory Js_Array
  imports Js_Text
begin

text \<open>
  \<open>Set\<close>, \<open>sort\<close> with a comparator and the code-unit comparison of texts that several modules declare
  for themselves (\<open>compareText\<close>).  A comparator returns an integer; \<open>a || b\<close> on integers is
  \<open>orElse\<close>.  Sorting by a comparator that is a linear order gives one result for every arrangement of
  the same elements, which is what makes the decisions of the modules independent of insertion order.
\<close>

named_theorems comparator_rules \<open>comparators that are linear preorders\<close>

section \<open>Comparators\<close>

definition compareText :: "string \<Rightarrow> string \<Rightarrow> int" where
  "compareText left right = (if left = right then 0 else if left < right then - 1 else 1)"

definition orElse :: "int \<Rightarrow> int \<Rightarrow> int" where
  "orElse a b = (if a = 0 then b else a)"

text \<open>\<open>[...xs].sort(compare)\<close>\<close>

definition sortWith :: "('a \<Rightarrow> 'a \<Rightarrow> int) \<Rightarrow> 'a list \<Rightarrow> 'a list" where
  "sortWith compare xs = sort_by (\<lambda>x y. compare x y \<le> 0) xs"

text \<open>\<open>[...new Set(xs)]\<close>: the first occurrence of each element, in order.\<close>

definition newSet :: "'a list \<Rightarrow> 'a list" where
  "newSet xs = rev (remdups (rev xs))"

text \<open>A comparator that orders by sign: what \<open>sort\<close> needs for its result to be determined.\<close>

definition comparator :: "('a \<Rightarrow> 'a \<Rightarrow> int) \<Rightarrow> bool" where
  "comparator c = ((\<forall>x y. c x y = 0 \<longrightarrow> c y x = 0) \<and> (\<forall>x y. c x y < 0 \<longleftrightarrow> c y x > 0) \<and>
     (\<forall>x y z. c x y \<le> 0 \<longrightarrow> c y z \<le> 0 \<longrightarrow> c x z \<le> 0))"

lemma comparatorD:
  assumes "comparator c"
  shows "c x y \<le> 0 \<or> c y x \<le> 0" "c x y \<le> 0 \<Longrightarrow> c y z \<le> 0 \<Longrightarrow> c x z \<le> 0"
    "c x y < 0 \<longleftrightarrow> c y x > 0" "c x y = 0 \<longleftrightarrow> c y x = 0"
  using assms unfolding comparator_def by (metis linorder_not_le order_less_imp_le)+

lemma comparator_less_trans:
  assumes "comparator c" "c x y < 0" "c y z \<le> 0"
  shows "c x z < 0"
proof (rule ccontr)
  assume "\<not> c x z < 0"
  then have "c z x \<le> 0" using comparatorD(3,4) [OF assms(1)] by (metis linorder_not_le)
  with assms have "c y x \<le> 0" using comparatorD(2) [OF assms(1)] by blast
  with assms show False using comparatorD(3) [OF assms(1)] by fastforce
qed

lemma comparator_le_less_trans:
  assumes "comparator c" "c x y \<le> 0" "c y z < 0"
  shows "c x z < 0"
proof (rule ccontr)
  assume "\<not> c x z < 0"
  then have "c z x \<le> 0" using comparatorD(3,4) [OF assms(1)] by (metis linorder_not_le)
  with assms have "c z y \<le> 0" using comparatorD(2) [OF assms(1)] by blast
  with assms show False using comparatorD(3) [OF assms(1)] by fastforce
qed

lemma compareText_simps [simp]:
  "compareText a b = 0 \<longleftrightarrow> a = b" "compareText a b < 0 \<longleftrightarrow> a < b" "compareText a b \<le> 0 \<longleftrightarrow> a \<le> b"
  "compareText a b > 0 \<longleftrightarrow> b < a"
  by (auto simp: compareText_def)

lemma comparator_compareText [comparator_rules]: "comparator (\<lambda>x y. compareText (f x) (f y))"
  by (auto simp: comparator_def)

lemma comparator_descending [comparator_rules]: "comparator (\<lambda>x y. f y - (f x :: int))"
  by (auto simp: comparator_def)

lemma orElse_simps:
  "orElse a b \<le> 0 \<longleftrightarrow> a < 0 \<or> a = 0 \<and> b \<le> 0" "orElse a b = 0 \<longleftrightarrow> a = 0 \<and> b = 0"
  "orElse a b < 0 \<longleftrightarrow> a < 0 \<or> a = 0 \<and> b < 0" "orElse a b > 0 \<longleftrightarrow> a > 0 \<or> a = 0 \<and> b > 0"
  by (auto simp: orElse_def)

lemma comparator_orElse [comparator_rules]:
  assumes c: "comparator c" and d: "comparator d"
  shows "comparator (\<lambda>x y. orElse (c x y) (d x y))"
proof -
  have "c x z < 0 \<or> c x z = 0 \<and> d x z \<le> 0"
    if le: "c x y < 0 \<or> c x y = 0 \<and> d x y \<le> 0" "c y z < 0 \<or> c y z = 0 \<and> d y z \<le> 0" for x y z
  proof -
    consider "c x y < 0" "c y z \<le> 0" | "c x y \<le> 0" "c y z < 0"
      | "c x y = 0" "c y z = 0" "d x y \<le> 0" "d y z \<le> 0"
      using le by linarith
    then show ?thesis
    proof cases
      case 1
      then show ?thesis using comparator_less_trans [OF c] by blast
    next
      case 2
      then show ?thesis using comparator_le_less_trans [OF c] by blast
    next
      case 3
      then have "c x z \<le> 0" "d x z \<le> 0"
        using comparatorD(2) [OF c, of x y z] comparatorD(2) [OF d, of x y z] by auto
      then show ?thesis by linarith
    qed
  qed
  moreover have "c x y < 0 \<or> c x y = 0 \<and> d x y < 0 \<longleftrightarrow> c y x > 0 \<or> c y x = 0 \<and> d y x > 0" for x y
    using comparatorD(3,4) [OF c, of x y] comparatorD(3) [OF d, of x y] by simp
  moreover have "c x y = 0 \<and> d x y = 0 \<Longrightarrow> c y x = 0 \<and> d y x = 0" for x y
    using comparatorD(4) [OF c, of x y] comparatorD(4) [OF d, of x y] by simp
  ultimately show ?thesis
    unfolding comparator_def orElse_simps by blast
qed

section \<open>Sorting\<close>

lemma set_sortWith [simp]: "set (sortWith c xs) = set xs"
  and mset_sortWith [simp]: "mset (sortWith c xs) = mset xs"
  and length_sortWith [simp]: "length (sortWith c xs) = length xs"
  and sortWith_Nil_iff [simp]: "sortWith c xs = [] \<longleftrightarrow> xs = []"
  and sortWith_Nil [simp]: "sortWith c [] = []"
  by (simp_all add: sortWith_def)

lemma sorted_sortWith: "comparator c \<Longrightarrow> sorted_wrt (\<lambda>x y. c x y \<le> 0) (sortWith c xs)"
  unfolding sortWith_def by (rule sorted_sort_by) (auto dest: comparatorD)

lemma sortWith_hd_least: "comparator c \<Longrightarrow> sortWith c xs = y # ys \<Longrightarrow> x \<in> set xs \<Longrightarrow> c y x \<le> 0"
  unfolding sortWith_def by (rule hd_sort_by_least [of "\<lambda>x y. c x y \<le> 0"]) (auto dest: comparatorD)

lemma sorted_unique:
  assumes "sorted_wrt (\<lambda>x y. c x y \<le> (0 :: int)) xs" "sorted_wrt (\<lambda>x y. c x y \<le> 0) ys" "mset xs = mset ys"
    and "\<And>x y. x \<in> set xs \<Longrightarrow> y \<in> set xs \<Longrightarrow> c x y \<le> 0 \<Longrightarrow> c y x \<le> 0 \<Longrightarrow> x = y"
  shows "xs = ys"
  using assms
proof (induction xs arbitrary: ys)
  case (Cons x xs)
  then obtain y zs where ys: "ys = y # zs" by (cases ys) auto
  have e: "set (x # xs) = set (y # zs)" using Cons.prems(3) ys by (metis mset_eq_setD)
  have "x = y"
  proof (rule ccontr)
    assume "x \<noteq> y"
    with e have "y \<in> set xs" "x \<in> set zs" by auto
    with Cons.prems ys \<open>x \<noteq> y\<close> show False by auto
  qed
  with Cons.prems ys have "mset xs = mset zs" by simp
  with Cons.IH [of zs] Cons.prems ys \<open>x = y\<close> show ?case by simp
qed simp

text \<open>Sorting does not depend on the arrangement when ties are between equal elements only.\<close>

lemma sortWith_permute:
  assumes "comparator c" "mset xs = mset ys"
    and "\<And>x y. x \<in> set xs \<Longrightarrow> y \<in> set xs \<Longrightarrow> c x y = 0 \<Longrightarrow> x = y"
  shows "sortWith c xs = sortWith c ys"
proof (rule sorted_unique [OF sorted_sortWith sorted_sortWith])
  fix x y assume "x \<in> set (sortWith c xs)" "y \<in> set (sortWith c xs)" "c x y \<le> 0" "c y x \<le> 0"
  with assms(3) comparatorD(3) [OF assms(1)] show "x = y"
    by (metis linorder_not_le order_antisym_conv set_sortWith)
qed (use assms in simp_all)

lemma set_newSet [simp]: "set (newSet xs) = set xs"
  and distinct_newSet [simp]: "distinct (newSet xs)"
  by (simp_all add: newSet_def)

lemma newSet_Nil_iff [simp]: "newSet xs = [] \<longleftrightarrow> xs = []"
  by (simp add: newSet_def)

end
