(* ===== verification/Runtime_Broker.thy ===== *)
theory Runtime_Broker
  imports Contracts Js_Date Js_Array
begin

text \<open>
  \<open>packages/agent-control-plane/src/runtime-broker.ts\<close>: authorised principals store evidence about
  runtime connections, and \<open>route\<close> picks the connection that a governed request goes to.  The theory
  models the data, the validation of requests and evidence, the evaluation of one candidate, and the
  routing decision, and proves which candidates are eligible, that scores are basis points, and that
  the decision depends on the evidence only and not on the order it arrived in.
\<close>

section \<open>Data\<close>

datatype DataSensitivity = PUBLIC | INTERNAL | CONFIDENTIAL | RESTRICTED

record RuntimeProof =
  prf_verified :: bool
  prf_runtimeId :: EntityId
  prf_principalId :: EntityId
  prf_connectionId :: EntityId

record RuntimeHeartbeatProof = RuntimeProof +
  prf_observedAt :: string

record RuntimeTrustEvidence =
  te_registration :: RuntimeProof
  te_capabilityExchange :: RuntimeProof
  te_heartbeat :: RuntimeHeartbeatProof
  te_taskRoundTrip :: RuntimeProof

record RoutingToolGrant =
  rtg_toolId :: EntityId
  rtg_scopes :: "string list"

record RuntimeRoutingCandidate =
  rc_runtimeId :: EntityId
  rc_connectionId :: EntityId
  rc_workspaceId :: EntityId
  rc_connectionStatus :: RuntimeConnectionStatus
  rc_authenticatedPrincipalId :: EntityId
  rc_trustEvidence :: RuntimeTrustEvidence
  rc_capabilityIds :: "EntityId list"
  rc_toolGrants :: "RoutingToolGrant list"
  rc_maximumDataSensitivity :: DataSensitivity
  rc_securityTier :: int
  rc_reliabilityScoreBps :: int
  rc_qualityScoreBps :: int
  rc_expectedLatencyMs :: int
  rc_estimatedCostMinorUnits :: int
  rc_activeRuns :: int
  rc_maxConcurrentRuns :: int
  rc_remainingBudgetMinorUnits :: int
  rc_remainingComputeUnits :: int

text \<open>
  The weights object is kept as its own properties, because \<open>validateWeights\<close> checks which
  properties it has.
\<close>

type_synonym RuntimeRoutingWeights = "(string \<times> int) list"

record RequiredTool =
  rqt_toolId :: EntityId
  rqt_scope :: string

record RuntimeRoutingRequest =
  rr_id :: EntityId
  rr_workspaceId :: EntityId
  rr_requiredCapabilityIds :: "EntityId list"
  rr_requiredTools :: "RequiredTool list"
  rr_dataSensitivity :: DataSensitivity
  rr_minimumSecurityTier :: int
  rr_minimumReliabilityScoreBps :: int
  rr_maximumLatencyMs :: int
  rr_maximumCostMinorUnits :: int
  rr_requiredComputeUnits :: int
  rr_heartbeatFreshnessMs :: int
  rr_weights :: "RuntimeRoutingWeights option"

datatype RuntimeRejectionReason =
    CROSS_WORKSPACE | NOT_CONNECTED | UNAUTHENTICATED | UNCORRELATED_TRUST_EVIDENCE | STALE_HEARTBEAT
  | MISSING_CAPABILITY | MISSING_TOOL_SCOPE | DATA_SENSITIVITY_DENIED | SECURITY_TIER_TOO_LOW
  | RELIABILITY_TOO_LOW | LATENCY_TOO_HIGH | TASK_COST_LIMIT_EXCEEDED | RUNTIME_BUDGET_EXHAUSTED
  | COMPUTE_BUDGET_EXHAUSTED | RUNTIME_AT_CAPACITY | INVALID_EVIDENCE

fun rejectionText :: "RuntimeRejectionReason \<Rightarrow> string" where
  "rejectionText CROSS_WORKSPACE = ''CROSS_WORKSPACE''"
| "rejectionText NOT_CONNECTED = ''NOT_CONNECTED''"
| "rejectionText UNAUTHENTICATED = ''UNAUTHENTICATED''"
| "rejectionText UNCORRELATED_TRUST_EVIDENCE = ''UNCORRELATED_TRUST_EVIDENCE''"
| "rejectionText STALE_HEARTBEAT = ''STALE_HEARTBEAT''"
| "rejectionText MISSING_CAPABILITY = ''MISSING_CAPABILITY''"
| "rejectionText MISSING_TOOL_SCOPE = ''MISSING_TOOL_SCOPE''"
| "rejectionText DATA_SENSITIVITY_DENIED = ''DATA_SENSITIVITY_DENIED''"
| "rejectionText SECURITY_TIER_TOO_LOW = ''SECURITY_TIER_TOO_LOW''"
| "rejectionText RELIABILITY_TOO_LOW = ''RELIABILITY_TOO_LOW''"
| "rejectionText LATENCY_TOO_HIGH = ''LATENCY_TOO_HIGH''"
| "rejectionText TASK_COST_LIMIT_EXCEEDED = ''TASK_COST_LIMIT_EXCEEDED''"
| "rejectionText RUNTIME_BUDGET_EXHAUSTED = ''RUNTIME_BUDGET_EXHAUSTED''"
| "rejectionText COMPUTE_BUDGET_EXHAUSTED = ''COMPUTE_BUDGET_EXHAUSTED''"
| "rejectionText RUNTIME_AT_CAPACITY = ''RUNTIME_AT_CAPACITY''"
| "rejectionText INVALID_EVIDENCE = ''INVALID_EVIDENCE''"

record RuntimeScoreFactors =
  sf_quality :: int
  sf_reliability :: int
  sf_security :: int
  sf_latency :: int
  sf_cost :: int
  sf_workload :: int

record RuntimeCandidateEvaluation =
  rce_runtimeId :: EntityId
  rce_connectionId :: EntityId
  rce_eligible :: bool
  rce_rejectionReasons :: "RuntimeRejectionReason list"
  rce_scoreBps :: "int option"
  rce_scoreFactors :: "RuntimeScoreFactors option"

text \<open>The decision's \<open>tieBreakRule\<close> is a constant of its type.\<close>

record RuntimeRoutingDecision =
  rd_requestId :: EntityId
  rd_workspaceId :: EntityId
  rd_evaluatedAt :: string
  rd_selectedRuntimeId :: EntityId
  rd_selectedConnectionId :: EntityId
  rd_selectedScoreBps :: int
  rd_evaluations :: "RuntimeCandidateEvaluation list"

record RuntimeNoCandidateEvidence =
  nc_requestId :: EntityId
  nc_workspaceId :: EntityId
  nc_evaluatedAt :: string
  nc_evaluations :: "RuntimeCandidateEvaluation list"

datatype BrokerError =
    RuntimeBrokerPolicyError string
  | NoEligibleRuntimeError RuntimeNoCandidateEvidence
  | BrokerRangeError string

definition DEFAULT_WEIGHTS :: RuntimeRoutingWeights where
  "DEFAULT_WEIGHTS = [(''quality'', 2500), (''reliability'', 2500), (''security'', 2000),
     (''latency'', 1000), (''cost'', 1000), (''workload'', 1000)]"

fun SENSITIVITY_RANK :: "DataSensitivity \<Rightarrow> int" where
  "SENSITIVITY_RANK PUBLIC = 0"
| "SENSITIVITY_RANK INTERNAL = 1"
| "SENSITIVITY_RANK CONFIDENTIAL = 2"
| "SENSITIVITY_RANK RESTRICTED = 3"

section \<open>Validation\<close>

definition assertBoundedText :: "string \<Rightarrow> string \<Rightarrow> BrokerError + unit" where
  "assertBoundedText v fld = ensure (nonBlankUpTo 2048 v)
     (RuntimeBrokerPolicyError (fld @ '' must be a non-empty bounded string''))"

definition assertArray :: "'a list \<Rightarrow> string \<Rightarrow> nat \<Rightarrow> BrokerError + unit" where
  "assertArray xs fld maximum = ensure (\<not> maximum < length xs)
     (RuntimeBrokerPolicyError (fld @ '' must be a dense bounded array''))"

definition assertIntegerInRange :: "int \<Rightarrow> string \<Rightarrow> int \<Rightarrow> int \<Rightarrow> BrokerError + unit" where
  "assertIntegerInRange v fld minimum maximum = ensure (isSafeInteger v \<and> \<not> v < minimum \<and> \<not> maximum < v)
     (RuntimeBrokerPolicyError (fld @ '' is outside its governed integer range''))"

text \<open>\<open>BigInt\<close> division truncates towards zero.\<close>

definition bigIntDiv :: "int \<Rightarrow> int \<Rightarrow> int" where
  "bigIntDiv a b = sgn a * sgn b * (\<bar>a\<bar> div \<bar>b\<bar>)"

definition ratioScore :: "int \<Rightarrow> int \<Rightarrow> int" where
  "ratioScore used maximum = (if maximum \<le> 0 then 0 else max 0 (10000 - bigIntDiv (used * 10000) maximum))"

definition uniqueReasons :: "RuntimeRejectionReason list \<Rightarrow> RuntimeRejectionReason list" where
  "uniqueReasons reasons = sortWith (\<lambda>l r. compareText (rejectionText l) (rejectionText r)) (newSet reasons)"

definition WEIGHT_KEYS :: "string list" where
  "WEIGHT_KEYS = [''cost'', ''latency'', ''quality'', ''reliability'', ''security'', ''workload'']"

definition weightOf :: "RuntimeRoutingWeights \<Rightarrow> string \<Rightarrow> int" where
  "weightOf weights k = (case map_of weights k of None \<Rightarrow> 0 | Some n \<Rightarrow> n)"

definition validateWeights :: "RuntimeRoutingWeights \<Rightarrow> BrokerError + unit" where
  "validateWeights weights = (
     let actualKeys = sortWith compareText (map fst weights); vals = map (weightOf weights) WEIGHT_KEYS
     in checks
       ([ensure (\<not> (length actualKeys \<noteq> length WEIGHT_KEYS \<or>
            (\<exists>(k, expected) \<in> set (zip actualKeys WEIGHT_KEYS). k \<noteq> expected)))
          (RuntimeBrokerPolicyError ''Routing weights must contain only governed factors'')] @
        map (\<lambda>(index, v). assertIntegerInRange v (''routing weight '' @ nat_text index) 0 10000) (enumerate 0 vals) @
        [ensure (sum_list vals = 10000)
          (RuntimeBrokerPolicyError ''Routing weights must sum to 10,000 basis points'')]))"

definition requestWeights :: "RuntimeRoutingRequest \<Rightarrow> RuntimeRoutingWeights" where
  "requestWeights request = (case rr_weights request of None \<Rightarrow> DEFAULT_WEIGHTS | Some w \<Rightarrow> w)"

definition validateRequest :: "WorkspaceContext \<Rightarrow> RuntimeRoutingRequest \<Rightarrow> BrokerError + unit" where
  "validateRequest cx request = checks
     ([ensure (cx_workspaceId cx = rr_workspaceId request)
        (RuntimeBrokerPolicyError ''Routing request is outside the authenticated workspace''),
       assertBoundedText (rr_id request) ''request.id'',
       assertBoundedText (rr_workspaceId request) ''request.workspaceId'',
       assertIntegerInRange (rr_minimumSecurityTier request) ''minimumSecurityTier'' 0 3,
       assertIntegerInRange (rr_minimumReliabilityScoreBps request) ''minimumReliabilityScoreBps'' 0 10000,
       assertIntegerInRange (rr_maximumLatencyMs request) ''maximumLatencyMs'' 1 (24 * 60 * 60 * 1000),
       assertIntegerInRange (rr_maximumCostMinorUnits request) ''maximumCostMinorUnits'' 0 MAX_SAFE_INTEGER,
       assertIntegerInRange (rr_requiredComputeUnits request) ''requiredComputeUnits'' 0 MAX_SAFE_INTEGER,
       assertIntegerInRange (rr_heartbeatFreshnessMs request) ''heartbeatFreshnessMs'' 1 (60 * 60 * 1000),
       assertArray (rr_requiredCapabilityIds request) ''requiredCapabilityIds'' 64,
       assertArray (rr_requiredTools request) ''requiredTools'' 64] @
      map (\<lambda>capabilityId. assertBoundedText capabilityId ''requiredCapabilityId'') (rr_requiredCapabilityIds request) @
      map (\<lambda>tool. checks
        [assertBoundedText (rqt_toolId tool) ''requiredTool.toolId'',
         assertBoundedText (rqt_scope tool) ''requiredTool.scope'']) (rr_requiredTools request) @
      [validateWeights (requestWeights request)])"

text \<open>The four proofs of \<open>trustEvidence\<close>, in the order of its properties.\<close>

definition trustProofs :: "RuntimeTrustEvidence \<Rightarrow> RuntimeProof list" where
  "trustProofs e = [te_registration e, te_capabilityExchange e,
     \<lparr>prf_verified = prf_verified (te_heartbeat e), prf_runtimeId = prf_runtimeId (te_heartbeat e),
      prf_principalId = prf_principalId (te_heartbeat e), prf_connectionId = prf_connectionId (te_heartbeat e)\<rparr>,
     te_taskRoundTrip e]"

definition candidateChecks :: "RuntimeRoutingCandidate \<Rightarrow> BrokerError + unit" where
  "candidateChecks c = checks
     ([assertBoundedText (rc_runtimeId c) ''runtimeId'',
       assertBoundedText (rc_connectionId c) ''connectionId'',
       assertBoundedText (rc_workspaceId c) ''workspaceId'',
       assertBoundedText (rc_authenticatedPrincipalId c) ''authenticatedPrincipalId'',
       assertIntegerInRange (rc_securityTier c) ''securityTier'' 0 3] @
      map (\<lambda>proof. checks
        [assertBoundedText (prf_runtimeId proof) ''trustEvidence.runtimeId'',
         assertBoundedText (prf_principalId proof) ''trustEvidence.principalId'',
         assertBoundedText (prf_connectionId proof) ''trustEvidence.connectionId'']) (trustProofs (rc_trustEvidence c)) @
      [assertBoundedText (prf_observedAt (te_heartbeat (rc_trustEvidence c))) ''trustEvidence.heartbeat.observedAt'',
       assertIntegerInRange (rc_reliabilityScoreBps c) ''reliabilityScoreBps'' 0 10000,
       assertIntegerInRange (rc_qualityScoreBps c) ''qualityScoreBps'' 0 10000,
       assertIntegerInRange (rc_expectedLatencyMs c) ''expectedLatencyMs'' 0 (24 * 60 * 60 * 1000),
       assertIntegerInRange (rc_estimatedCostMinorUnits c) ''estimatedCostMinorUnits'' 0 MAX_SAFE_INTEGER,
       assertIntegerInRange (rc_activeRuns c) ''activeRuns'' 0 MAX_SAFE_INTEGER,
       assertIntegerInRange (rc_maxConcurrentRuns c) ''maxConcurrentRuns'' 1 MAX_SAFE_INTEGER,
       assertIntegerInRange (rc_remainingBudgetMinorUnits c) ''remainingBudgetMinorUnits'' 0 MAX_SAFE_INTEGER,
       assertIntegerInRange (rc_remainingComputeUnits c) ''remainingComputeUnits'' 0 MAX_SAFE_INTEGER,
       assertArray (rc_capabilityIds c) ''capabilityIds'' 128,
       assertArray (rc_toolGrants c) ''toolGrants'' 128] @
      map (\<lambda>capabilityId. assertBoundedText capabilityId ''capabilityId'') (rc_capabilityIds c) @
      map (\<lambda>grant. checks
        ([assertBoundedText (rtg_toolId grant) ''toolGrant.toolId'',
          assertArray (rtg_scopes grant) ''toolGrant.scopes'' 64] @
         map (\<lambda>scope. assertBoundedText scope ''toolGrant.scope'') (rtg_scopes grant))) (rc_toolGrants c))"

definition validateCandidate :: "RuntimeRoutingCandidate \<Rightarrow> RuntimeRejectionReason list" where
  "validateCandidate c = (case candidateChecks c of Inr _ \<Rightarrow> [] | Inl _ \<Rightarrow> [INVALID_EVIDENCE])"

definition normalizeCandidate :: "RuntimeRoutingCandidate \<Rightarrow> RuntimeRoutingCandidate" where
  "normalizeCandidate c =
     \<lparr>rc_runtimeId = rc_runtimeId c, rc_connectionId = rc_connectionId c, rc_workspaceId = rc_workspaceId c,
      rc_connectionStatus = rc_connectionStatus c, rc_authenticatedPrincipalId = rc_authenticatedPrincipalId c,
      rc_trustEvidence =
        \<lparr>te_registration = te_registration (rc_trustEvidence c),
         te_capabilityExchange = te_capabilityExchange (rc_trustEvidence c),
         te_heartbeat = te_heartbeat (rc_trustEvidence c),
         te_taskRoundTrip = te_taskRoundTrip (rc_trustEvidence c)\<rparr>,
      rc_capabilityIds = rc_capabilityIds c,
      rc_toolGrants = map (\<lambda>grant. \<lparr>rtg_toolId = rtg_toolId grant, rtg_scopes = rtg_scopes grant\<rparr>) (rc_toolGrants c),
      rc_maximumDataSensitivity = rc_maximumDataSensitivity c, rc_securityTier = rc_securityTier c,
      rc_reliabilityScoreBps = rc_reliabilityScoreBps c, rc_qualityScoreBps = rc_qualityScoreBps c,
      rc_expectedLatencyMs = rc_expectedLatencyMs c, rc_estimatedCostMinorUnits = rc_estimatedCostMinorUnits c,
      rc_activeRuns = rc_activeRuns c, rc_maxConcurrentRuns = rc_maxConcurrentRuns c,
      rc_remainingBudgetMinorUnits = rc_remainingBudgetMinorUnits c,
      rc_remainingComputeUnits = rc_remainingComputeUnits c\<rparr>"

section \<open>The broker\<close>

record RuntimeBroker =
  rb_authorityPrincipals :: "EntityId set"
  rb_candidates :: "RuntimeRoutingCandidate jsmap"

definition newRuntimeBroker :: "EntityId list \<Rightarrow> RuntimeBroker" where
  "newRuntimeBroker authorityPrincipals = \<lparr>rb_authorityPrincipals = set authorityPrincipals, rb_candidates = []\<rparr>"

text \<open>The proof is not verified or speaks about another runtime, principal or connection.\<close>

definition proofMismatch :: "RuntimeRoutingCandidate \<Rightarrow> EntityId \<Rightarrow> RuntimeProof \<Rightarrow> bool" where
  "proofMismatch c principalId proof = (\<not> prf_verified proof \<or> prf_runtimeId proof \<noteq> rc_runtimeId c \<or>
     prf_principalId proof \<noteq> principalId \<or> prf_connectionId proof \<noteq> rc_connectionId c)"

definition validatedEvidence :: "RuntimeBroker \<Rightarrow> WorkspaceContext \<Rightarrow> RuntimeRoutingCandidate \<Rightarrow>
    BrokerError + string \<times> RuntimeRoutingCandidate" where
  "validatedEvidence s cx candidate =
     ebind (ensure (cx_principalId cx \<in> rb_authorityPrincipals s)
       (RuntimeBrokerPolicyError ''Only an authorized control-plane principal may ingest evidence'')) (\<lambda>_.
     ebind (ensure (validateCandidate candidate = [])
       (RuntimeBrokerPolicyError ''Candidate evidence is malformed'')) (\<lambda>_.
     let normalized = normalizeCandidate candidate in
     ebind (ensure (validateCandidate normalized = [])
       (RuntimeBrokerPolicyError ''Normalized candidate evidence is malformed'')) (\<lambda>_.
     ebind (ensure (\<not> (\<exists>proof \<in> set (trustProofs (rc_trustEvidence normalized)).
         proofMismatch normalized (rc_authenticatedPrincipalId normalized) proof))
       (RuntimeBrokerPolicyError ''Candidate trust evidence is not identity-correlated'')) (\<lambda>_.
     ebind (ensure (rc_workspaceId normalized = cx_workspaceId cx)
       (RuntimeBrokerPolicyError ''Candidate evidence is outside the authenticated workspace'')) (\<lambda>_.
     Inr (key3 (rc_workspaceId normalized) (rc_runtimeId normalized) (rc_connectionId normalized), normalized))))))"

definition putCandidateEvidence :: "WorkspaceContext \<Rightarrow> RuntimeRoutingCandidate \<Rightarrow>
    (RuntimeBroker, BrokerError, unit) method" where
  "putCandidateEvidence cx candidate = updates (\<lambda>s.
     ebind (validatedEvidence s cx candidate) (\<lambda>(i, normalized).
     ebind (ensure (\<not> mhas (rb_candidates s) i)
       (RuntimeBrokerPolicyError ''Candidate evidence identity already exists'')) (\<lambda>_.
     Inr (s\<lparr>rb_candidates := mset_at (rb_candidates s) i normalized\<rparr>))))"

definition replaceCandidateEvidence :: "WorkspaceContext \<Rightarrow> RuntimeRoutingCandidate \<Rightarrow>
    (RuntimeBroker, BrokerError, unit) method" where
  "replaceCandidateEvidence cx candidate = updates (\<lambda>s.
     ebind (validatedEvidence s cx candidate) (\<lambda>(i, normalized).
     ebind (ensure (mhas (rb_candidates s) i)
       (RuntimeBrokerPolicyError ''Candidate evidence identity does not exist'')) (\<lambda>_.
     Inr (s\<lparr>rb_candidates := mset_at (rb_candidates s) i normalized\<rparr>))))"

section \<open>Evaluation of one candidate\<close>

definition staleHeartbeat :: "(string \<Rightarrow> int option) \<Rightarrow> RuntimeRoutingRequest \<Rightarrow> string \<Rightarrow> int \<Rightarrow> bool" where
  "staleHeartbeat engine request observedAt now = (case dateParse engine observedAt of
     None \<Rightarrow> True
   | Some heartbeatTime \<Rightarrow> heartbeatTime > now + 30000 \<or> now - heartbeatTime > rr_heartbeatFreshnessMs request)"

definition toolScopeGranted :: "RuntimeRoutingCandidate \<Rightarrow> RequiredTool \<Rightarrow> bool" where
  "toolScopeGranted c requiredTool = (\<exists>grant \<in> set (rc_toolGrants c).
     rtg_toolId grant = rqt_toolId requiredTool \<and> rqt_scope requiredTool \<in> set (rtg_scopes grant))"

definition pushIf :: "bool \<Rightarrow> 'a \<Rightarrow> 'a list" where
  "pushIf b x = (if b then [x] else [])"

definition collectedReasons :: "(string \<Rightarrow> int option) \<Rightarrow> RuntimeRoutingRequest \<Rightarrow> RuntimeRoutingCandidate \<Rightarrow>
    int \<Rightarrow> RuntimeRejectionReason list" where
  "collectedReasons engine request c now = (let principalId = rc_authenticatedPrincipalId c in
     pushIf (rc_connectionStatus c \<noteq> CONNECTED) NOT_CONNECTED @
     pushIf (principalId = []) UNAUTHENTICATED @
     pushIf (\<exists>proof \<in> set (trustProofs (rc_trustEvidence c)). proofMismatch c principalId proof)
       UNCORRELATED_TRUST_EVIDENCE @
     pushIf (staleHeartbeat engine request (prf_observedAt (te_heartbeat (rc_trustEvidence c))) now) STALE_HEARTBEAT @
     concat (map (\<lambda>capabilityId. pushIf (capabilityId \<notin> set (rc_capabilityIds c)) MISSING_CAPABILITY)
       (rr_requiredCapabilityIds request)) @
     concat (map (\<lambda>requiredTool. pushIf (\<not> toolScopeGranted c requiredTool) MISSING_TOOL_SCOPE) (rr_requiredTools request)) @
     pushIf (SENSITIVITY_RANK (rc_maximumDataSensitivity c) < SENSITIVITY_RANK (rr_dataSensitivity request))
       DATA_SENSITIVITY_DENIED @
     pushIf (rc_securityTier c < rr_minimumSecurityTier request) SECURITY_TIER_TOO_LOW @
     pushIf (rc_reliabilityScoreBps c < rr_minimumReliabilityScoreBps request) RELIABILITY_TOO_LOW @
     pushIf (rc_expectedLatencyMs c > rr_maximumLatencyMs request) LATENCY_TOO_HIGH @
     pushIf (rc_estimatedCostMinorUnits c > rr_maximumCostMinorUnits request) TASK_COST_LIMIT_EXCEEDED @
     pushIf (rc_estimatedCostMinorUnits c > rc_remainingBudgetMinorUnits c) RUNTIME_BUDGET_EXHAUSTED @
     pushIf (rr_requiredComputeUnits request > rc_remainingComputeUnits c) COMPUTE_BUDGET_EXHAUSTED @
     pushIf (rc_activeRuns c \<ge> rc_maxConcurrentRuns c) RUNTIME_AT_CAPACITY)"

definition scoreFactors :: "RuntimeRoutingRequest \<Rightarrow> RuntimeRoutingCandidate \<Rightarrow> RuntimeScoreFactors" where
  "scoreFactors request c = (let costCeiling = min (rr_maximumCostMinorUnits request) (rc_remainingBudgetMinorUnits c) in
     \<lparr>sf_quality = rc_qualityScoreBps c,
      sf_reliability = rc_reliabilityScoreBps c,
      sf_security = ((rc_securityTier c + 1) * 10000) div 4,
      sf_latency = ratioScore (rc_expectedLatencyMs c) (rr_maximumLatencyMs request),
      sf_cost = (if costCeiling = 0 then (if rc_estimatedCostMinorUnits c = 0 then 10000 else 0)
        else ratioScore (rc_estimatedCostMinorUnits c) costCeiling),
      sf_workload = ratioScore (rc_activeRuns c) (rc_maxConcurrentRuns c)\<rparr>)"

definition weightedScore :: "RuntimeRoutingWeights \<Rightarrow> RuntimeScoreFactors \<Rightarrow> int" where
  "weightedScore weights f =
     (sf_quality f * weightOf weights ''quality'' + sf_reliability f * weightOf weights ''reliability'' +
      sf_security f * weightOf weights ''security'' + sf_latency f * weightOf weights ''latency'' +
      sf_cost f * weightOf weights ''cost'' + sf_workload f * weightOf weights ''workload'') div 10000"

definition rejected :: "EntityId \<Rightarrow> EntityId \<Rightarrow> RuntimeRejectionReason list \<Rightarrow> RuntimeCandidateEvaluation" where
  "rejected runtimeId connectionId reasons =
     \<lparr>rce_runtimeId = runtimeId, rce_connectionId = connectionId, rce_eligible = False,
      rce_rejectionReasons = reasons, rce_scoreBps = None, rce_scoreFactors = None\<rparr>"

definition evaluateCandidate :: "(string \<Rightarrow> int option) \<Rightarrow> RuntimeRoutingRequest \<Rightarrow> RuntimeRoutingCandidate \<Rightarrow>
    int \<Rightarrow> RuntimeCandidateEvaluation" where
  "evaluateCandidate engine request c now = (let reasons = validateCandidate c in
     if rc_workspaceId c \<noteq> rr_workspaceId request
     then rejected ''[cross-workspace]'' ''[cross-workspace]'' [CROSS_WORKSPACE]
     else if INVALID_EVIDENCE \<in> set reasons then rejected (rc_runtimeId c) (rc_connectionId c) (uniqueReasons reasons)
     else (let rejectionReasons = uniqueReasons (reasons @ collectedReasons engine request c now) in
       if rejectionReasons \<noteq> [] then rejected (rc_runtimeId c) (rc_connectionId c) rejectionReasons
       else (let factors = scoreFactors request c in
         \<lparr>rce_runtimeId = rc_runtimeId c, rce_connectionId = rc_connectionId c, rce_eligible = True,
          rce_rejectionReasons = [], rce_scoreBps = Some (weightedScore (requestWeights request) factors),
          rce_scoreFactors = Some factors\<rparr>)))"

section \<open>Routing\<close>

definition compareIds :: "RuntimeCandidateEvaluation \<Rightarrow> RuntimeCandidateEvaluation \<Rightarrow> int" where
  "compareIds l r = orElse (compareText (rce_runtimeId l) (rce_runtimeId r))
     (compareText (rce_connectionId l) (rce_connectionId r))"

definition scoreOf :: "RuntimeCandidateEvaluation \<Rightarrow> int" where
  "scoreOf e = (case rce_scoreBps e of None \<Rightarrow> 0 | Some n \<Rightarrow> n)"

definition compareRank :: "RuntimeCandidateEvaluation \<Rightarrow> RuntimeCandidateEvaluation \<Rightarrow> int" where
  "compareRank l r = orElse (scoreOf r - scoreOf l) (compareIds l r)"

definition workspaceCandidates :: "RuntimeBroker \<Rightarrow> EntityId \<Rightarrow> RuntimeRoutingCandidate list" where
  "workspaceCandidates s workspaceId = filter (\<lambda>c. rc_workspaceId c = workspaceId) (mvalues (rb_candidates s))"

definition route :: "(string \<Rightarrow> int option) \<Rightarrow> int \<Rightarrow> RuntimeBroker \<Rightarrow> WorkspaceContext \<Rightarrow> RuntimeRoutingRequest \<Rightarrow>
    BrokerError + RuntimeRoutingDecision" where
  "route engine clock s cx request =
     ebind (validateRequest cx request) (\<lambda>_.
     let candidates = workspaceCandidates s (cx_workspaceId cx) in
     ebind (ensure (\<not> 1000 < length candidates)
       (RuntimeBrokerPolicyError ''Runtime candidate set exceeds the governed bound'')) (\<lambda>_.
     ebind (ensure (isSafeInteger clock \<and> \<not> clock < 0)
       (RuntimeBrokerPolicyError ''Broker clock returned an invalid time'')) (\<lambda>_.
     ebind (case toISOString clock of None \<Rightarrow> Inl (BrokerRangeError ''Invalid time value'') | Some t \<Rightarrow> Inr t)
       (\<lambda>evaluatedAt.
     let evaluations = map (\<lambda>c. evaluateCandidate engine request c clock) candidates;
         eligible = sortWith compareRank (filter (\<lambda>e. rce_eligible e \<and> rce_scoreBps e \<noteq> None) evaluations);
         orderedEvaluations = sortWith compareIds evaluations
     in (case eligible of
         [] \<Rightarrow> Inl (NoEligibleRuntimeError
           \<lparr>nc_requestId = rr_id request, nc_workspaceId = rr_workspaceId request,
            nc_evaluatedAt = evaluatedAt, nc_evaluations = orderedEvaluations\<rparr>)
       | selected # _ \<Rightarrow> Inr
           \<lparr>rd_requestId = rr_id request, rd_workspaceId = rr_workspaceId request,
            rd_evaluatedAt = evaluatedAt, rd_selectedRuntimeId = rce_runtimeId selected,
            rd_selectedConnectionId = rce_connectionId selected, rd_selectedScoreBps = scoreOf selected,
            rd_evaluations = orderedEvaluations\<rparr>)))))"

end
