(* ===== verification/Runtime_Routing.thy ===== *)
theory Runtime_Routing
  imports Runtime_Broker
begin

text \<open>
  What the runtime broker guarantees: the evidence store keeps its invariant, a candidate is eligible
  exactly when it violates no routing condition, scores are basis points and monotone, and the routing
  decision is the best eligible candidate of the caller's workspace whatever order the evidence
  arrived in.
\<close>

section \<open>The evidence store\<close>

abbreviation candidateKey :: "RuntimeRoutingCandidate \<Rightarrow> string" where
  "candidateKey c \<equiv> key3 (rc_workspaceId c) (rc_runtimeId c) (rc_connectionId c)"

definition correlated :: "RuntimeRoutingCandidate \<Rightarrow> bool" where
  "correlated c = (\<forall>proof \<in> set (trustProofs (rc_trustEvidence c)).
     prf_verified proof \<and> prf_runtimeId proof = rc_runtimeId c \<and>
     prf_principalId proof = rc_authenticatedPrincipalId c \<and> prf_connectionId proof = rc_connectionId c)"

definition brokerInv :: "RuntimeBroker \<Rightarrow> bool" where
  "brokerInv s = (jsmap_ok (rb_candidates s) \<and> keyed_by candidateKey (rb_candidates s) \<and>
     (\<forall>k c. mget (rb_candidates s) k = Some c \<longrightarrow> candidateChecks c = Inr () \<and> correlated c))"

lemma normalizeCandidate_id [simp]: "normalizeCandidate c = c"
proof -
  have "map (\<lambda>g. \<lparr>rtg_toolId = rtg_toolId g, rtg_scopes = rtg_scopes g\<rparr>) gs = gs" for gs :: "RoutingToolGrant list"
    by (induction gs) auto
  then show ?thesis by (simp add: normalizeCandidate_def)
qed

lemma validateCandidate_Nil [simp]: "validateCandidate c = [] \<longleftrightarrow> candidateChecks c = Inr ()"
  by (auto simp: validateCandidate_def split: sum.splits)

lemma INVALID_in_validate: "INVALID_EVIDENCE \<in> set (validateCandidate c) \<longleftrightarrow> candidateChecks c \<noteq> Inr ()"
  by (cases "candidateChecks c") (auto simp: validateCandidate_def)

lemma correlated_iff:
  "correlated c \<longleftrightarrow> \<not> (\<exists>proof \<in> set (trustProofs (rc_trustEvidence c)).
     proofMismatch c (rc_authenticatedPrincipalId c) proof)"
  by (auto simp: correlated_def proofMismatch_def)

lemma validatedEvidence_Inr:
  "validatedEvidence s cx c = Inr (i, n) \<longleftrightarrow>
   n = c \<and> i = candidateKey c \<and> cx_principalId cx \<in> rb_authorityPrincipals s \<and>
   candidateChecks c = Inr () \<and> correlated c \<and> rc_workspaceId c = cx_workspaceId cx"
  by (auto simp: validatedEvidence_def correlated_iff outcome_simps)

text \<open>One step of the broker's state: a principal stores new evidence or replaces old evidence.\<close>

inductive brokerStep :: "RuntimeBroker \<Rightarrow> RuntimeBroker \<Rightarrow> bool" where
  put: "putCandidateEvidence cx c s = (r, t) \<Longrightarrow> brokerStep s t"
| replace: "replaceCandidateEvidence cx c s = (r, t) \<Longrightarrow> brokerStep s t"

inductive_cases brokerStepE: "brokerStep s t"

definition brokerInit :: "RuntimeBroker \<Rightarrow> bool" where
  "brokerInit s = (\<exists>authorityPrincipals. s = newRuntimeBroker authorityPrincipals)"

text \<open>What a call does to the store: nothing, or one checked candidate under its own key.\<close>

lemma stored_cases:
  assumes "updates (\<lambda>s. ebind (validatedEvidence s cx c) (\<lambda>(i, n). ebind (ensure (P s i) e)
      (\<lambda>_. Inr (s\<lparr>rb_candidates := mset_at (rb_candidates s) i n\<rparr>)))) s = (r, t)"
  shows "t = s \<and> r \<noteq> Inr () \<or> r = Inr () \<and> candidateChecks c = Inr () \<and> correlated c \<and>
    rc_workspaceId c = cx_workspaceId cx \<and> cx_principalId cx \<in> rb_authorityPrincipals s \<and> P s (candidateKey c) \<and>
    t = s\<lparr>rb_candidates := mset_at (rb_candidates s) (candidateKey c) c\<rparr>"
proof (cases "validatedEvidence s cx c")
  case (Inl e)
  with assms show ?thesis by (auto simp: updates_def)
next
  case (Inr p)
  then obtain i n where v: "validatedEvidence s cx c = Inr (i, n)" by (cases p) auto
  then show ?thesis
    using assms validatedEvidence_Inr [THEN iffD1, OF v]
    by (auto simp: updates_def ensure_def split: if_splits)
qed

lemmas putCandidateEvidence_cases = stored_cases [where P = "\<lambda>s i. \<not> mhas (rb_candidates s) i"
    and e = "RuntimeBrokerPolicyError ''Candidate evidence identity already exists''", folded putCandidateEvidence_def]

lemmas replaceCandidateEvidence_cases = stored_cases [where P = "\<lambda>s i. mhas (rb_candidates s) i"
    and e = "RuntimeBrokerPolicyError ''Candidate evidence identity does not exist''", folded replaceCandidateEvidence_def]

lemma brokerStep_cases:
  assumes "brokerStep s t"
  obtains "t = s"
    | c where "candidateChecks c = Inr ()" "correlated c" "t = s\<lparr>rb_candidates := mset_at (rb_candidates s) (candidateKey c) c\<rparr>"
  using assms
proof cases
  case (put cx c r)
  with that show ?thesis using putCandidateEvidence_cases [OF put] by blast
next
  case (replace cx c r)
  with that show ?thesis using replaceCandidateEvidence_cases [OF replace] by blast
qed

interpretation broker: invariant_system brokerInit brokerStep brokerInv
proof unfold_locales
  fix s assume "brokerInit s"
  then show "brokerInv s" by (auto simp: brokerInit_def newRuntimeBroker_def brokerInv_def)
next
  fix s t assume "brokerInv s" "brokerStep s t"
  then show "brokerInv t" by (elim brokerStep_cases) (auto simp: brokerInv_def)
qed

abbreviation brokerReachable :: "RuntimeBroker \<Rightarrow> bool" where
  "brokerReachable s \<equiv> reach brokerInit brokerStep s"

lemma brokerInvD:
  assumes "brokerInv s" "c \<in> set (workspaceCandidates s w)"
  shows "candidateChecks c = Inr ()" "correlated c" "rc_workspaceId c = w"
    "mget (rb_candidates s) (candidateKey c) = Some c"
  using assms
  by (auto simp: brokerInv_def workspaceCandidates_def mvalues_iff keyed_by_def)

lemma workspaceCandidates_iff:
  assumes "brokerInv s"
  shows "c \<in> set (workspaceCandidates s w) \<longleftrightarrow> mget (rb_candidates s) (candidateKey c) = Some c \<and> rc_workspaceId c = w"
  using assms by (auto simp: brokerInv_def workspaceCandidates_def mvalues_iff keyed_by_def)

section \<open>Eligibility\<close>

text \<open>When a routing condition is violated, condition by condition.\<close>

fun violates :: "(string \<Rightarrow> int option) \<Rightarrow> RuntimeRoutingRequest \<Rightarrow> RuntimeRoutingCandidate \<Rightarrow> int \<Rightarrow>
    RuntimeRejectionReason \<Rightarrow> bool" where
  "violates engine q c now CROSS_WORKSPACE = (rc_workspaceId c \<noteq> rr_workspaceId q)"
| "violates engine q c now INVALID_EVIDENCE = (candidateChecks c \<noteq> Inr ())"
| "violates engine q c now NOT_CONNECTED = (rc_connectionStatus c \<noteq> CONNECTED)"
| "violates engine q c now UNAUTHENTICATED = (rc_authenticatedPrincipalId c = [])"
| "violates engine q c now UNCORRELATED_TRUST_EVIDENCE = (\<not> correlated c)"
| "violates engine q c now STALE_HEARTBEAT =
     (case dateParse engine (prf_observedAt (te_heartbeat (rc_trustEvidence c))) of
        None \<Rightarrow> True | Some t \<Rightarrow> t \<notin> {now - rr_heartbeatFreshnessMs q .. now + 30000})"
| "violates engine q c now MISSING_CAPABILITY = (\<not> set (rr_requiredCapabilityIds q) \<subseteq> set (rc_capabilityIds c))"
| "violates engine q c now MISSING_TOOL_SCOPE = (\<exists>tool \<in> set (rr_requiredTools q). \<not> toolScopeGranted c tool)"
| "violates engine q c now DATA_SENSITIVITY_DENIED =
     (SENSITIVITY_RANK (rc_maximumDataSensitivity c) < SENSITIVITY_RANK (rr_dataSensitivity q))"
| "violates engine q c now SECURITY_TIER_TOO_LOW = (rc_securityTier c < rr_minimumSecurityTier q)"
| "violates engine q c now RELIABILITY_TOO_LOW = (rc_reliabilityScoreBps c < rr_minimumReliabilityScoreBps q)"
| "violates engine q c now LATENCY_TOO_HIGH = (rr_maximumLatencyMs q < rc_expectedLatencyMs c)"
| "violates engine q c now TASK_COST_LIMIT_EXCEEDED = (rr_maximumCostMinorUnits q < rc_estimatedCostMinorUnits c)"
| "violates engine q c now RUNTIME_BUDGET_EXHAUSTED = (rc_remainingBudgetMinorUnits c < rc_estimatedCostMinorUnits c)"
| "violates engine q c now COMPUTE_BUDGET_EXHAUSTED = (rc_remainingComputeUnits c < rr_requiredComputeUnits q)"
| "violates engine q c now RUNTIME_AT_CAPACITY = (rc_maxConcurrentRuns c \<le> rc_activeRuns c)"

definition admissible :: "(string \<Rightarrow> int option) \<Rightarrow> RuntimeRoutingRequest \<Rightarrow> RuntimeRoutingCandidate \<Rightarrow> int \<Rightarrow> bool" where
  "admissible engine q c now = (\<forall>reason. \<not> violates engine q c now reason)"

lemma set_pushIf [simp]: "set (pushIf b x) = (if b then {x} else {})"
  by (cases b) (simp_all add: pushIf_def)

lemma collectedReasons_iff:
  assumes "candidateChecks c = Inr ()" "rc_workspaceId c = rr_workspaceId q"
  shows "reason \<in> set (collectedReasons engine q c now) \<longleftrightarrow> violates engine q c now reason"
  using assms
  by (cases reason) (auto simp: collectedReasons_def Let_def correlated_iff staleHeartbeat_def split: option.splits)

lemma rejectionText_inj [simp]: "rejectionText a = rejectionText b \<longleftrightarrow> a = b"
  by (cases a; cases b) auto

lemma set_uniqueReasons [simp]: "set (uniqueReasons rs) = set rs"
  and uniqueReasons_Nil [simp]: "uniqueReasons rs = [] \<longleftrightarrow> rs = []"
  by (simp_all add: uniqueReasons_def)

lemma sorted_uniqueReasons: "sorted_wrt (<) (map rejectionText (uniqueReasons rs))"
proof -
  have "sorted_wrt (\<lambda>a b. rejectionText a \<le> rejectionText b) (uniqueReasons rs)"
    using sorted_sortWith [OF comparator_compareText [of rejectionText], of "newSet rs"]
    by (simp add: uniqueReasons_def)
  moreover have "distinct (uniqueReasons rs)"
    unfolding uniqueReasons_def
    by (metis distinct_newSet mset_sortWith mset_eq_imp_distinct_iff)
  ultimately show ?thesis
    by (auto simp: strict_sorted_iff sorted_map distinct_map inj_on_def)
qed

text \<open>The evaluation of a candidate of the workspace, on both outcomes.\<close>

definition accepted :: "RuntimeRoutingRequest \<Rightarrow> RuntimeRoutingCandidate \<Rightarrow> RuntimeCandidateEvaluation" where
  "accepted q c = \<lparr>rce_runtimeId = rc_runtimeId c, rce_connectionId = rc_connectionId c, rce_eligible = True,
     rce_rejectionReasons = [], rce_scoreBps = Some (weightedScore (requestWeights q) (scoreFactors q c)),
     rce_scoreFactors = Some (scoreFactors q c)\<rparr>"

lemma evaluateCandidate_valid:
  assumes "candidateChecks c = Inr ()" "rc_workspaceId c = rr_workspaceId q"
  shows "evaluateCandidate engine q c now = (if collectedReasons engine q c now = [] then accepted q c
    else rejected (rc_runtimeId c) (rc_connectionId c) (uniqueReasons (collectedReasons engine q c now)))"
proof -
  have "validateCandidate c = []" using assms(1) by simp
  with assms(2) show ?thesis
    by (simp add: evaluateCandidate_def accepted_def Let_def del: validateCandidate_Nil)
qed

lemma collectedReasons_Nil:
  assumes "candidateChecks c = Inr ()" "rc_workspaceId c = rr_workspaceId q"
  shows "collectedReasons engine q c now = [] \<longleftrightarrow> admissible engine q c now"
proof -
  have "collectedReasons engine q c now = [] \<longleftrightarrow> (\<forall>r. r \<notin> set (collectedReasons engine q c now))"
    by (metis all_not_in_conv set_empty)
  then show ?thesis by (simp only: collectedReasons_iff [OF assms] admissible_def)
qed

lemma admissibleD:
  assumes "admissible engine q c now"
  shows "candidateChecks c = Inr ()" "rc_workspaceId c = rr_workspaceId q"
    "rc_expectedLatencyMs c \<le> rr_maximumLatencyMs q" "rc_estimatedCostMinorUnits c \<le> rr_maximumCostMinorUnits q"
    "rc_estimatedCostMinorUnits c \<le> rc_remainingBudgetMinorUnits c" "rc_activeRuns c < rc_maxConcurrentRuns c"
  using assms unfolding admissible_def
  by (metis violates.simps(2), metis violates.simps(1), metis violates.simps(12) not_le_imp_less,
      metis violates.simps(13) not_le_imp_less, metis violates.simps(14) not_le_imp_less,
      metis violates.simps(16) not_le_imp_less)

lemma rejected_sel [simp]:
  "rce_eligible (rejected a b rs) = False" "rce_rejectionReasons (rejected a b rs) = rs"
  "rce_scoreBps (rejected a b rs) = None" "rce_runtimeId (rejected a b rs) = a" "rce_connectionId (rejected a b rs) = b"
  by (simp_all add: rejected_def)

lemma accepted_sel [simp]:
  "rce_eligible (accepted q c)" "rce_rejectionReasons (accepted q c) = []"
  "rce_runtimeId (accepted q c) = rc_runtimeId c" "rce_connectionId (accepted q c) = rc_connectionId c"
  "scoreOf (accepted q c) = weightedScore (requestWeights q) (scoreFactors q c)"
  "rce_scoreBps (accepted q c) = Some (weightedScore (requestWeights q) (scoreFactors q c))"
  by (simp_all add: accepted_def scoreOf_def)

lemma evaluateCandidate_admissible [simp]:
  "admissible engine q c now \<Longrightarrow> evaluateCandidate engine q c now = accepted q c"
  using admissibleD(1,2) by (simp add: evaluateCandidate_valid collectedReasons_Nil)

lemma evaluateCandidate_eligible: "rce_eligible (evaluateCandidate engine q c now) \<longleftrightarrow> admissible engine q c now"
proof (cases "candidateChecks c = Inr () \<and> rc_workspaceId c = rr_workspaceId q")
  case True
  then show ?thesis by (simp add: evaluateCandidate_valid collectedReasons_Nil)
next
  case False
  then show ?thesis
    using admissibleD(1,2) by (auto simp: evaluateCandidate_def INVALID_in_validate Let_def)
qed

lemma evaluateCandidate_ids:
  assumes "rc_workspaceId c = rr_workspaceId q"
  shows "rce_runtimeId (evaluateCandidate engine q c now) = rc_runtimeId c"
    "rce_connectionId (evaluateCandidate engine q c now) = rc_connectionId c"
  using assms by (simp_all add: evaluateCandidate_def Let_def)

section \<open>Scores\<close>

lemma assertIntegerInRange_Inr [outcome_simps]:
  "assertIntegerInRange v f lo hi = Inr u \<longleftrightarrow> isSafeInteger v \<and> lo \<le> v \<and> v \<le> hi"
  by (auto simp: assertIntegerInRange_def)

lemma validateWeights_Inr:
  assumes "validateWeights w = Inr ()"
  shows "\<forall>k \<in> set WEIGHT_KEYS. 0 \<le> weightOf w k \<and> weightOf w k \<le> 10000"
    "weightOf w ''quality'' + weightOf w ''reliability'' + weightOf w ''security'' + weightOf w ''latency'' +
     weightOf w ''cost'' + weightOf w ''workload'' = 10000"
  using assms by (auto simp: validateWeights_def WEIGHT_KEYS_def Let_def outcome_simps)

lemma candidate_ranges:
  assumes "candidateChecks c = Inr ()"
  shows "0 \<le> rc_securityTier c \<and> rc_securityTier c \<le> 3"
    "0 \<le> rc_reliabilityScoreBps c \<and> rc_reliabilityScoreBps c \<le> 10000"
    "0 \<le> rc_qualityScoreBps c \<and> rc_qualityScoreBps c \<le> 10000"
    "0 \<le> rc_expectedLatencyMs c" "0 \<le> rc_estimatedCostMinorUnits c" "0 \<le> rc_activeRuns c"
    "1 \<le> rc_maxConcurrentRuns c" "0 \<le> rc_remainingBudgetMinorUnits c"
  using assms by (simp_all add: candidateChecks_def outcome_simps)

lemma request_ranges:
  assumes "validateRequest cx q = Inr ()"
  shows "1 \<le> rr_maximumLatencyMs q" "0 \<le> rr_maximumCostMinorUnits q" "rr_workspaceId q = cx_workspaceId cx"
    "validateWeights (requestWeights q) = Inr ()"
  using assms by (simp_all add: validateRequest_def outcome_simps)

lemma ratioScore_bounds: "0 \<le> used \<Longrightarrow> 0 \<le> ratioScore used m \<and> ratioScore used m \<le> 10000"
  by (auto simp: ratioScore_def bigIntDiv_def sgn_if pos_imp_zdiv_nonneg_iff)

lemma ratioScore_mono:
  assumes "0 \<le> u'" "u' \<le> u" "0 < m" "m \<le> m'"
  shows "ratioScore u m \<le> ratioScore u' m'"
proof -
  have "(u' * 10000) div m' \<le> (u * 10000) div m'" using assms by (intro zdiv_mono1) auto
  also have "\<dots> \<le> (u * 10000) div m" using assms by (intro zdiv_mono2) auto
  finally have "(u' * 10000) div m' \<le> (u * 10000) div m" .
  with assms show ?thesis by (auto simp: ratioScore_def bigIntDiv_def sgn_if)
qed

definition factorList :: "RuntimeScoreFactors \<Rightarrow> int list" where
  "factorList f = [sf_quality f, sf_reliability f, sf_security f, sf_latency f, sf_cost f, sf_workload f]"

lemma scoreFactors_bounds:
  assumes "candidateChecks c = Inr ()" "n \<in> set (factorList (scoreFactors q c))"
  shows "0 \<le> n \<and> n \<le> 10000"
proof -
  note r = candidate_ranges [OF assms(1)]
  have "(rc_securityTier c + 1) * 10000 div 4 \<le> 10000" "0 \<le> (rc_securityTier c + 1) * 10000 div 4"
    using r(1) by (simp_all add: pos_imp_zdiv_nonneg_iff)
  with r assms(2) ratioScore_bounds show ?thesis
    by (auto simp: scoreFactors_def factorList_def Let_def)
qed

lemma weighted_mean:
  fixes b :: int
  assumes "\<forall>k \<in> set WEIGHT_KEYS. 0 \<le> weightOf w k" "\<forall>(m, n) \<in> set (zip (factorList f) (factorList g)). m \<le> n"
  shows "weightedScore w f \<le> weightedScore w g"
  using assms unfolding weightedScore_def factorList_def WEIGHT_KEYS_def
  by (intro zdiv_mono1 add_mono mult_right_mono) auto

lemma weightedScore_bounds:
  assumes "validateWeights w = Inr ()" "\<forall>n \<in> set (factorList f). 0 \<le> n \<and> n \<le> 10000"
  shows "0 \<le> weightedScore w f \<and> weightedScore w f \<le> 10000"
proof -
  define flat where "flat n = \<lparr>sf_quality = n, sf_reliability = n, sf_security = n, sf_latency = n, sf_cost = n,
    sf_workload = n\<rparr>" for n :: int
  note w = validateWeights_Inr [OF assms(1)]
  have "weightedScore w (flat n) = n" for n
  proof -
    have "weightedScore w (flat n) = (n * (weightOf w ''quality'' + weightOf w ''reliability'' +
      weightOf w ''security'' + weightOf w ''latency'' + weightOf w ''cost'' + weightOf w ''workload'')) div 10000"
      by (simp add: weightedScore_def flat_def algebra_simps)
    then show ?thesis by (simp add: w(2))
  qed
  then show ?thesis
    using weighted_mean [of w "flat 0" f] weighted_mean [of w f "flat 10000"] w(1) assms(2)
    by (auto simp: factorList_def flat_def)
qed

section \<open>The decision\<close>

lemma comparator_compareIds [comparator_rules]: "comparator compareIds"
  unfolding compareIds_def by (intro comparator_rules)

lemma comparator_compareRank [comparator_rules]: "comparator compareRank"
  unfolding compareRank_def by (intro comparator_rules)

text \<open>The guards of \<open>route\<close> before any candidate is looked at.\<close>

definition routable :: "RuntimeBroker \<Rightarrow> WorkspaceContext \<Rightarrow> RuntimeRoutingRequest \<Rightarrow> int \<Rightarrow> bool" where
  "routable s cx q clock = (validateRequest cx q = Inr () \<and> length (workspaceCandidates s (cx_workspaceId cx)) \<le> 1000 \<and>
     0 \<le> clock \<and> clock \<le> MAX_TIME)"

definition evaluations :: "(string \<Rightarrow> int option) \<Rightarrow> int \<Rightarrow> RuntimeBroker \<Rightarrow> RuntimeRoutingRequest \<Rightarrow> RuntimeCandidateEvaluation list" where
  "evaluations engine clock s q =
     map (\<lambda>c. evaluateCandidate engine q c clock) (workspaceCandidates s (rr_workspaceId q))"

definition eligibleRanked :: "(string \<Rightarrow> int option) \<Rightarrow> int \<Rightarrow> RuntimeBroker \<Rightarrow> RuntimeRoutingRequest \<Rightarrow> RuntimeCandidateEvaluation list" where
  "eligibleRanked engine clock s q =
     sortWith compareRank (filter (\<lambda>e. rce_eligible e \<and> rce_scoreBps e \<noteq> None) (evaluations engine clock s q))"

lemma route_routable:
  assumes "routable s cx q clock"
  shows "route engine clock s cx q = (case eligibleRanked engine clock s q of
      [] \<Rightarrow> Inl (NoEligibleRuntimeError \<lparr>nc_requestId = rr_id q, nc_workspaceId = rr_workspaceId q,
        nc_evaluatedAt = isoText clock, nc_evaluations = sortWith compareIds (evaluations engine clock s q)\<rparr>)
    | selected # _ \<Rightarrow> Inr \<lparr>rd_requestId = rr_id q, rd_workspaceId = rr_workspaceId q, rd_evaluatedAt = isoText clock,
        rd_selectedRuntimeId = rce_runtimeId selected, rd_selectedConnectionId = rce_connectionId selected,
        rd_selectedScoreBps = scoreOf selected, rd_evaluations = sortWith compareIds (evaluations engine clock s q)\<rparr>)"
proof -
  have "validateRequest cx q = Inr ()" "cx_workspaceId cx = rr_workspaceId q"
    using assms request_ranges(3) [of cx q] by (simp_all add: routable_def)
  moreover have "isSafeInteger clock" "toISOString clock = Some (isoText clock)" "0 \<le> clock"
    using assms by (auto simp: routable_def isSafeInteger_def MAX_SAFE_INTEGER_def MAX_TIME_def toISOString_def)
  ultimately show ?thesis
    using assms by (simp add: route_def routable_def evaluations_def eligibleRanked_def Let_def cong: list.case_cong)
qed

lemma route_Inr_routable: "route engine clock s cx q = Inr d \<Longrightarrow> routable s cx q clock"
  by (auto simp: route_def routable_def toISOString_def Let_def outcome_simps split: option.splits if_splits)

text \<open>The checks refuse with a policy error, never with the evidence of an unroutable request.\<close>

definition onlyPolicyErrors :: "BrokerError + 'a \<Rightarrow> bool" where
  "onlyPolicyErrors m = (\<forall>e. m = Inl e \<longrightarrow> (\<exists>message. e = RuntimeBrokerPolicyError message))"

lemma onlyPolicyErrors_checks: "(\<And>c. c \<in> set cs \<Longrightarrow> onlyPolicyErrors c) \<Longrightarrow> onlyPolicyErrors (checks cs)"
  by (auto simp: onlyPolicyErrors_def dest!: checks_Inl)

lemma onlyPolicyErrors_ensure [simp]: "onlyPolicyErrors (ensure b (RuntimeBrokerPolicyError message))"
  by (simp add: onlyPolicyErrors_def)

lemma onlyPolicyErrors_asserts [simp]:
  "onlyPolicyErrors (assertBoundedText v f)" "onlyPolicyErrors (assertArray xs f n)"
  "onlyPolicyErrors (assertIntegerInRange i f lo hi)"
  by (simp_all add: assertBoundedText_def assertArray_def assertIntegerInRange_def)

lemma onlyPolicyErrors_validateRequest: "onlyPolicyErrors (validateRequest cx q)"
proof -
  have "onlyPolicyErrors (validateWeights w)" for w
    unfolding validateWeights_def Let_def by (rule onlyPolicyErrors_checks) auto
  moreover have "onlyPolicyErrors (checks [assertBoundedText a f, assertBoundedText b g])" for a b f g
    by (rule onlyPolicyErrors_checks) auto
  ultimately show ?thesis
    unfolding validateRequest_def by (intro onlyPolicyErrors_checks) auto
qed

lemma route_refused_routable:
  assumes "route engine clock s cx q = Inl (NoEligibleRuntimeError evidence)"
  shows "routable s cx q clock"
  using assms onlyPolicyErrors_validateRequest [of cx q]
  by (auto simp: route_def routable_def toISOString_def Let_def ebind_Inl onlyPolicyErrors_def split: option.splits if_splits)

lemma eligibleRanked_eq:
  "eligibleRanked engine clock s q = sortWith compareRank
     (map (accepted q) (filter (\<lambda>c. admissible engine q c clock) (workspaceCandidates s (rr_workspaceId q))))"
proof -
  have "rce_eligible (evaluateCandidate engine q c clock) \<and> rce_scoreBps (evaluateCandidate engine q c clock) \<noteq> None \<longleftrightarrow>
    admissible engine q c clock" for c
    by (cases "admissible engine q c clock") (simp_all add: evaluateCandidate_eligible)
  then have "filter (\<lambda>e. rce_eligible e \<and> rce_scoreBps e \<noteq> None) (map (\<lambda>c. evaluateCandidate engine q c clock) cs) =
    map (accepted q) (filter (\<lambda>c. admissible engine q c clock) cs)" for cs
    by (induction cs) simp_all
  then show ?thesis by (simp only: eligibleRanked_def evaluations_def)
qed

lemma eligibleRanked_set:
  "set (eligibleRanked engine clock s q) =
   accepted q ` {c \<in> set (workspaceCandidates s (rr_workspaceId q)). admissible engine q c clock}"
  by (simp only: eligibleRanked_eq set_sortWith set_map set_filter)

text \<open>What is evaluated depends on the contents of the store only.\<close>

lemma workspaceCandidates_mset:
  assumes "brokerInv s" "brokerInv t" "\<And>k. mget (rb_candidates s) k = mget (rb_candidates t) k"
  shows "mset (workspaceCandidates s w) = mset (workspaceCandidates t w)"
proof -
  have d: "distinct (mvalues (rb_candidates u))" if "brokerInv u" for u
  proof -
    have "distinct (map candidateKey (mvalues (rb_candidates u)))"
    proof -
      have "map candidateKey (mvalues (rb_candidates u)) = map fst (rb_candidates u)"
        using that unfolding brokerInv_def mvalues_def map_map
        by (intro map_cong) (auto simp: jsmap_ok_def dest!: keyed_byD)
      with that show ?thesis by (simp add: brokerInv_def jsmap_ok_def)
    qed
    then show ?thesis by (simp add: distinct_map)
  qed
  have "set (mvalues (rb_candidates s)) = set (mvalues (rb_candidates t))"
    using assms by (auto simp: brokerInv_def mvalues_iff)
  then have "mset (mvalues (rb_candidates s)) = mset (mvalues (rb_candidates t))"
    using d assms(1,2) by (simp add: set_eq_iff_mset_eq_distinct)
  then show ?thesis by (simp add: workspaceCandidates_def mset_filter)
qed

lemma evaluations_tie:
  assumes "brokerInv s" "e \<in> set (evaluations engine clock s q)" "e' \<in> set (evaluations engine clock s q)"
    and "compareIds e e' = 0"
  shows "e = e'"
proof -
  obtain c c' where c: "c \<in> set (workspaceCandidates s (rr_workspaceId q))" "e = evaluateCandidate engine q c clock"
    and c': "c' \<in> set (workspaceCandidates s (rr_workspaceId q))" "e' = evaluateCandidate engine q c' clock"
    using assms(2,3) by (auto simp: evaluations_def)
  note i = brokerInvD [OF assms(1) c(1)] and i' = brokerInvD [OF assms(1) c'(1)]
  have "rc_runtimeId c = rc_runtimeId c'" "rc_connectionId c = rc_connectionId c'"
    using assms(4) i(3) i'(3) c(2) c'(2) by (auto simp: compareIds_def orElse_simps evaluateCandidate_ids)
  with i(3,4) i'(3,4) have "c = c'" by (metis option.inject)
  with c c' show ?thesis by simp
qed

lemma route_selected:
  assumes "brokerInv s" "route engine clock s cx q = Inr d"
  obtains c where "c \<in> set (workspaceCandidates s (cx_workspaceId cx))" "admissible engine q c clock"
    "rd_selectedRuntimeId d = rc_runtimeId c" "rd_selectedConnectionId d = rc_connectionId c"
    "rd_selectedScoreBps d = weightedScore (requestWeights q) (scoreFactors q c)"
    "\<And>c'. c' \<in> set (workspaceCandidates s (cx_workspaceId cx)) \<Longrightarrow> admissible engine q c' clock \<Longrightarrow>
       compareRank (accepted q c) (accepted q c') \<le> 0"
proof -
  have r: "routable s cx q clock" using assms(2) by (rule route_Inr_routable)
  then have w: "rr_workspaceId q = cx_workspaceId cx" by (simp add: routable_def request_ranges(3))
  obtain e es where e: "eligibleRanked engine clock s q = e # es"
    using assms(2) route_routable [OF r, of engine] by (cases "eligibleRanked engine clock s q") auto
  obtain c where c: "c \<in> set (workspaceCandidates s (cx_workspaceId cx))" "admissible engine q c clock" "e = accepted q c"
    using e eligibleRanked_set [of engine clock s q] w by auto
  have le: "compareRank e x \<le> 0" if "x \<in> set (eligibleRanked engine clock s q)" for x
    using sortWith_hd_least [OF comparator_compareRank] that e unfolding eligibleRanked_def by (metis set_sortWith)
  show ?thesis
  proof (rule that [OF c(1,2)])
    fix c' assume "c' \<in> set (workspaceCandidates s (cx_workspaceId cx))" "admissible engine q c' clock"
    then show "compareRank (accepted q c) (accepted q c') \<le> 0"
      using le [of "accepted q c'"] eligibleRanked_set [of engine clock s q] c(3) w by auto
  qed (use assms(2) route_routable [OF r, of engine] e c(3) in auto)
qed

lemma route_none:
  assumes "routable s cx q clock"
  shows "(\<exists>evidence. route engine clock s cx q = Inl (NoEligibleRuntimeError evidence)) \<longleftrightarrow>
    (\<forall>c \<in> set (workspaceCandidates s (cx_workspaceId cx)). \<not> admissible engine q c clock)"
proof -
  have w: "rr_workspaceId q = cx_workspaceId cx" using assms by (simp add: routable_def request_ranges(3))
  have "(\<exists>evidence. route engine clock s cx q = Inl (NoEligibleRuntimeError evidence)) \<longleftrightarrow>
    eligibleRanked engine clock s q = []"
    by (simp add: route_routable [OF assms] split: list.splits)
  also have "\<dots> \<longleftrightarrow> set (eligibleRanked engine clock s q) = {}" by simp
  also have "\<dots> \<longleftrightarrow> (\<forall>c \<in> set (workspaceCandidates s (cx_workspaceId cx)). \<not> admissible engine q c clock)"
    unfolding eligibleRanked_set w by auto
  finally show ?thesis .
qed

end
