(* ===== verification/Runtime_Routing_Properties.thy ===== *)
theory Runtime_Routing_Properties
  imports Runtime_Routing
begin

text \<open>
  The properties of the runtime broker, over every state a broker can reach, each with a witness on
  a small broker with two runtimes.
\<close>

section \<open>A broker with two runtimes\<close>

definition demoProof :: "EntityId \<Rightarrow> EntityId \<Rightarrow> RuntimeProof" where
  "demoProof runtimeId connectionId = \<lparr>prf_verified = True, prf_runtimeId = runtimeId, prf_principalId = ''bot'',
     prf_connectionId = connectionId\<rparr>"

definition demoCandidate :: "EntityId \<Rightarrow> EntityId \<Rightarrow> int \<Rightarrow> int \<Rightarrow> RuntimeRoutingCandidate" where
  "demoCandidate runtimeId connectionId quality cost =
     \<lparr>rc_runtimeId = runtimeId, rc_connectionId = connectionId, rc_workspaceId = ''ws'', rc_connectionStatus = CONNECTED,
      rc_authenticatedPrincipalId = ''bot'',
      rc_trustEvidence = \<lparr>te_registration = demoProof runtimeId connectionId,
        te_capabilityExchange = demoProof runtimeId connectionId,
        te_heartbeat = \<lparr>prf_verified = True, prf_runtimeId = runtimeId, prf_principalId = ''bot'',
          prf_connectionId = connectionId, prf_observedAt = ''1970-01-01T00:00:01.000Z''\<rparr>,
        te_taskRoundTrip = demoProof runtimeId connectionId\<rparr>,
      rc_capabilityIds = [''review''], rc_toolGrants = [\<lparr>rtg_toolId = ''git'', rtg_scopes = [''read'']\<rparr>],
      rc_maximumDataSensitivity = CONFIDENTIAL, rc_securityTier = 2, rc_reliabilityScoreBps = 9000,
      rc_qualityScoreBps = quality, rc_expectedLatencyMs = 100, rc_estimatedCostMinorUnits = cost,
      rc_activeRuns = 0, rc_maxConcurrentRuns = 2, rc_remainingBudgetMinorUnits = 500, rc_remainingComputeUnits = 10\<rparr>"

definition demoRequest :: "int \<Rightarrow> RuntimeRoutingRequest" where
  "demoRequest reliability =
     \<lparr>rr_id = ''req'', rr_workspaceId = ''ws'', rr_requiredCapabilityIds = [''review''],
      rr_requiredTools = [\<lparr>rqt_toolId = ''git'', rqt_scope = ''read''\<rparr>], rr_dataSensitivity = INTERNAL,
      rr_minimumSecurityTier = 1, rr_minimumReliabilityScoreBps = reliability, rr_maximumLatencyMs = 1000,
      rr_maximumCostMinorUnits = 100, rr_requiredComputeUnits = 1, rr_heartbeatFreshnessMs = 60000, rr_weights = None\<rparr>"

definition demoOperator :: WorkspaceContext where
  "demoOperator = \<lparr>cx_workspaceId = ''ws'', cx_principalId = ''owner''\<rparr>"

abbreviation noEngine :: "string \<Rightarrow> int option" where
  "noEngine \<equiv> \<lambda>_. None"

definition demoFirst :: RuntimeRoutingCandidate where "demoFirst = demoCandidate ''alpha'' ''c1'' 8000 20"
definition demoSecond :: RuntimeRoutingCandidate where "demoSecond = demoCandidate ''beta'' ''c2'' 9000 20"

definition demoBroker :: RuntimeBroker where
  "demoBroker = snd (putCandidateEvidence demoOperator demoSecond (snd (putCandidateEvidence demoOperator demoFirst
     (newRuntimeBroker [''owner'']))))"

definition demoBrokerReversed :: RuntimeBroker where
  "demoBrokerReversed = snd (putCandidateEvidence demoOperator demoFirst (snd (putCandidateEvidence demoOperator demoSecond
     (newRuntimeBroker [''owner'']))))"

lemma putCandidateEvidence_reachable:
  "brokerReachable s \<Longrightarrow> brokerReachable (snd (putCandidateEvidence cx c s))"
  by (metis brokerStep.put prod.collapse reach.reach_step)

lemma newRuntimeBroker_reachable: "brokerReachable (newRuntimeBroker ps)"
  by (rule reach.reach_init) (auto simp: brokerInit_def)

lemmas demo_reachable = putCandidateEvidence_reachable newRuntimeBroker_reachable

lemma demoBroker_reachable: "brokerReachable demoBroker" "brokerReachable demoBrokerReversed"
  unfolding demoBroker_def demoBrokerReversed_def by (intro demo_reachable)+

lemma demo_checks: "candidateChecks demoFirst = Inr ()" "candidateChecks demoSecond = Inr ()"
  by code_simp+

lemma demoBroker_store:
  "rb_candidates demoBroker = [(candidateKey demoFirst, demoFirst), (candidateKey demoSecond, demoSecond)]"
  "rb_candidates demoBrokerReversed = [(candidateKey demoSecond, demoSecond), (candidateKey demoFirst, demoFirst)]"
  by code_simp+

lemma demo_route: "succeeds (route noEngine 5000 demoBroker demoOperator (demoRequest 8000))"
  by code_simp

lemma demo_refused:
  "case route noEngine 5000 demoBroker demoOperator (demoRequest 9999) of
     Inl (NoEligibleRuntimeError evidence) \<Rightarrow> True | _ \<Rightarrow> False"
  by code_simp

section \<open>Properties\<close>

text \<open>
  C7.  A routing decision names a connection stored in the caller's own workspace that violates no
  routing condition, and every other such candidate has a lower score, or the same score and a later
  (runtime id, connection id): the tie-break rule the decision announces.
\<close>

theorem route_selects_best:
  assumes "brokerReachable s" "route engine clock s cx q = Inr d"
  shows "\<exists>c. mget (rb_candidates s) (candidateKey c) = Some c \<and> rc_workspaceId c = cx_workspaceId cx \<and>
    admissible engine q c clock \<and> rd_selectedRuntimeId d = rc_runtimeId c \<and> rd_selectedConnectionId d = rc_connectionId c \<and>
    rd_selectedScoreBps d = weightedScore (requestWeights q) (scoreFactors q c) \<and>
    (\<forall>c'. mget (rb_candidates s) (candidateKey c') = Some c' \<and> rc_workspaceId c' = cx_workspaceId cx \<and>
       admissible engine q c' clock \<longrightarrow>
       (let score' = weightedScore (requestWeights q) (scoreFactors q c') in
        score' < rd_selectedScoreBps d \<or> score' = rd_selectedScoreBps d \<and>
        (rc_runtimeId c < rc_runtimeId c' \<or> rc_runtimeId c = rc_runtimeId c' \<and> rc_connectionId c \<le> rc_connectionId c')))"
proof -
  have i: "brokerInv s" using assms(1) by (rule broker.reach_inv)
  from route_selected [OF i assms(2)] obtain c where c:
    "c \<in> set (workspaceCandidates s (cx_workspaceId cx))" "admissible engine q c clock"
    "rd_selectedRuntimeId d = rc_runtimeId c" "rd_selectedConnectionId d = rc_connectionId c"
    "rd_selectedScoreBps d = weightedScore (requestWeights q) (scoreFactors q c)"
    "\<And>c'. c' \<in> set (workspaceCandidates s (cx_workspaceId cx)) \<Longrightarrow> admissible engine q c' clock \<Longrightarrow>
       compareRank (accepted q c) (accepted q c') \<le> 0"
    by blast
  have "compareRank (accepted q c) (accepted q c') \<le> 0 \<longleftrightarrow>
    (let score' = weightedScore (requestWeights q) (scoreFactors q c') in
      score' < rd_selectedScoreBps d \<or> score' = rd_selectedScoreBps d \<and>
      (rc_runtimeId c < rc_runtimeId c' \<or> rc_runtimeId c = rc_runtimeId c' \<and> rc_connectionId c \<le> rc_connectionId c'))" for c'
    by (auto simp: compareRank_def compareIds_def orElse_simps c(5) Let_def)
  with c show ?thesis
    by (intro exI [of _ c]) (auto simp: workspaceCandidates_iff [OF i])
qed

theorem route_selects_best_witness:
  "\<exists>d. route noEngine 5000 demoBroker demoOperator (demoRequest 8000) = Inr d \<and>
     (\<exists>c. mget (rb_candidates demoBroker) (candidateKey c) = Some c \<and> rd_selectedRuntimeId d = rc_runtimeId c)"
proof -
  obtain d where d: "route noEngine 5000 demoBroker demoOperator (demoRequest 8000) = Inr d"
    using demo_route by (auto simp: succeeds_iff)
  with route_selects_best [OF demoBroker_reachable(1) d] show ?thesis by blast
qed

text \<open>
  C8.  The decision, and the evidence of a refusal, depend on the stored evidence only: two brokers
  that store the same evidence, in whatever order it was put or replaced, route every request alike.
\<close>

theorem route_order_independent:
  assumes "brokerReachable s" "brokerReachable t" "\<And>k. mget (rb_candidates s) k = mget (rb_candidates t) k"
  shows "route engine clock s cx q = route engine clock t cx q"
proof (cases "validateRequest cx q")
  case (Inr u)
  then have w: "rr_workspaceId q = cx_workspaceId cx" using request_ranges(3) [of cx q] by simp
  note i = broker.reach_inv [OF assms(1)] broker.reach_inv [OF assms(2)]
  have m: "mset (workspaceCandidates s v) = mset (workspaceCandidates t v)" for v
    using workspaceCandidates_mset [OF i assms(3)] .
  have l: "length (workspaceCandidates s v) = length (workspaceCandidates t v)" for v
    using m by (metis size_mset)
  have me: "mset (evaluations engine clock s q) = mset (evaluations engine clock t q)"
    by (simp add: evaluations_def m)
  have "sortWith compareIds (evaluations engine clock s q) = sortWith compareIds (evaluations engine clock t q)"
    by (rule sortWith_permute [OF comparator_compareIds me]) (auto intro: evaluations_tie [OF i(1)])
  moreover have "eligibleRanked engine clock s q = eligibleRanked engine clock t q"
    unfolding eligibleRanked_def
    by (rule sortWith_permute [OF comparator_compareRank])
      (auto simp: me mset_filter compareRank_def orElse_simps intro: evaluations_tie [OF i(1)])
  ultimately show ?thesis
    using w by (simp add: route_def Inr Let_def l evaluations_def eligibleRanked_def cong: list.case_cong)
qed (simp add: route_def)

theorem route_order_independent_witness:
  "rb_candidates demoBroker \<noteq> rb_candidates demoBrokerReversed \<and>
   route noEngine 5000 demoBroker demoOperator (demoRequest 8000) =
   route noEngine 5000 demoBrokerReversed demoOperator (demoRequest 8000)"
proof
  show "rb_candidates demoBroker \<noteq> rb_candidates demoBrokerReversed"
    by (simp add: demoBroker_store demoFirst_def demoSecond_def demoCandidate_def)
  have "candidateKey demoFirst \<noteq> candidateKey demoSecond"
    by (simp add: demoFirst_def demoSecond_def demoCandidate_def)
  then show "route noEngine 5000 demoBroker demoOperator (demoRequest 8000) =
    route noEngine 5000 demoBrokerReversed demoOperator (demoRequest 8000)"
    by (intro route_order_independent demoBroker_reachable) (auto simp: demoBroker_store)
qed

text \<open>
  C9.  When no candidate of the workspace satisfies the request, routing fails with the evidence: every
  stored candidate of the workspace is listed under its ids with exactly the conditions it violates,
  at least one, without repetition and in the order of their texts; no other candidate is listed.
\<close>

theorem refusal_evidence_complete:
  assumes "brokerReachable s" "route engine clock s cx q = Inl (NoEligibleRuntimeError evidence)"
  shows "length (nc_evaluations evidence) = length (workspaceCandidates s (cx_workspaceId cx)) \<and>
    (\<forall>c. mget (rb_candidates s) (candidateKey c) = Some c \<and> rc_workspaceId c = cx_workspaceId cx \<longrightarrow>
      (\<exists>e \<in> set (nc_evaluations evidence). rce_runtimeId e = rc_runtimeId c \<and> rce_connectionId e = rc_connectionId c \<and>
        \<not> rce_eligible e \<and> rce_rejectionReasons e \<noteq> [] \<and>
        set (rce_rejectionReasons e) = {reason. violates engine q c clock reason} \<and>
        sorted_wrt (<) (map rejectionText (rce_rejectionReasons e))))"
proof -
  have i: "brokerInv s" using assms(1) by (rule broker.reach_inv)
  have r: "routable s cx q clock" using assms(2) by (rule route_refused_routable)
  then have w: "rr_workspaceId q = cx_workspaceId cx" by (simp add: routable_def request_ranges(3))
  have ev: "nc_evaluations evidence = sortWith compareIds (evaluations engine clock s q)"
    using assms(2) by (auto simp: route_routable [OF r] split: list.splits)
  have none: "\<not> admissible engine q c clock" if "c \<in> set (workspaceCandidates s (cx_workspaceId cx))" for c
    using route_none [OF r] assms(2) that by blast
  show ?thesis
  proof (intro conjI allI impI)
    show "length (nc_evaluations evidence) = length (workspaceCandidates s (cx_workspaceId cx))"
      by (simp add: ev evaluations_def w)
    fix c assume c: "mget (rb_candidates s) (candidateKey c) = Some c \<and> rc_workspaceId c = cx_workspaceId cx"
    then have m: "c \<in> set (workspaceCandidates s (cx_workspaceId cx))" by (metis workspaceCandidates_iff [OF i])
    define e where "e = evaluateCandidate engine q c clock"
    have v: "candidateChecks c = Inr ()" "rc_workspaceId c = rr_workspaceId q" using brokerInvD [OF i m] w by auto
    have n: "collectedReasons engine q c clock \<noteq> []" using none [OF m] by (simp add: collectedReasons_Nil [OF v])
    then have "e = rejected (rc_runtimeId c) (rc_connectionId c) (uniqueReasons (collectedReasons engine q c clock))"
      by (simp add: e_def evaluateCandidate_valid [OF v])
    moreover have "e \<in> set (nc_evaluations evidence)" using m by (simp add: ev evaluations_def w e_def)
    moreover have "set (collectedReasons engine q c clock) = {reason. violates engine q c clock reason}"
      by (simp add: set_eq_iff collectedReasons_iff [OF v])
    ultimately show "\<exists>e \<in> set (nc_evaluations evidence). rce_runtimeId e = rc_runtimeId c \<and> rce_connectionId e = rc_connectionId c \<and>
        \<not> rce_eligible e \<and> rce_rejectionReasons e \<noteq> [] \<and>
        set (rce_rejectionReasons e) = {reason. violates engine q c clock reason} \<and>
        sorted_wrt (<) (map rejectionText (rce_rejectionReasons e))"
      using n sorted_uniqueReasons by (intro bexI [of _ e]) simp_all
  qed
qed

text \<open>
Scores are basis points: in every decision each score factor and each score lies between 0 and
  10,000, the selected score among them.
\<close>

theorem scores_are_basis_points:
  assumes "brokerReachable s" "route engine clock s cx q = Inr d"
  shows "0 \<le> rd_selectedScoreBps d \<and> rd_selectedScoreBps d \<le> 10000 \<and>
    (\<forall>e \<in> set (rd_evaluations d). \<forall>n factors. rce_scoreBps e = Some n \<and> rce_scoreFactors e = Some factors \<longrightarrow>
      0 \<le> n \<and> n \<le> 10000 \<and> (\<forall>m \<in> set (factorList factors). 0 \<le> m \<and> m \<le> 10000))"
proof -
  have i: "brokerInv s" using assms(1) by (rule broker.reach_inv)
  have r: "routable s cx q clock" using assms(2) by (rule route_Inr_routable)
  then have w: "rr_workspaceId q = cx_workspaceId cx" and vw: "validateWeights (requestWeights q) = Inr ()"
    using request_ranges(3,4) [of cx q] by (simp_all add: routable_def)
  have b: "0 \<le> weightedScore (requestWeights q) (scoreFactors q c) \<and>
      weightedScore (requestWeights q) (scoreFactors q c) \<le> 10000" if "candidateChecks c = Inr ()" for c
    using weightedScore_bounds [OF vw] scoreFactors_bounds [OF that] by blast
  have ev: "rd_evaluations d = sortWith compareIds (evaluations engine clock s q)"
    using assms(2) by (auto simp: route_routable [OF r] split: list.splits)
  show ?thesis
  proof (intro conjI ballI allI impI)
    from route_selected [OF i assms(2)] obtain c where "admissible engine q c clock"
      "rd_selectedScoreBps d = weightedScore (requestWeights q) (scoreFactors q c)" by blast
    with b admissibleD(1) show "0 \<le> rd_selectedScoreBps d" "rd_selectedScoreBps d \<le> 10000" by auto
    fix e n f m assume e: "e \<in> set (rd_evaluations d)" "rce_scoreBps e = Some n \<and> rce_scoreFactors e = Some f"
    then obtain c where c: "c \<in> set (workspaceCandidates s (rr_workspaceId q))" "e = evaluateCandidate engine q c clock"
      by (auto simp: ev evaluations_def)
    note v = brokerInvD [OF i c(1)]
    have "e = accepted q c"
      using e(2) c(2) v by (auto simp: evaluateCandidate_valid split: if_splits)
    with e(2) have "n = weightedScore (requestWeights q) (scoreFactors q c)" "f = scoreFactors q c"
      by (auto simp: accepted_def)
    then show "0 \<le> n" "n \<le> 10000" "m \<in> set (factorList f) \<Longrightarrow> 0 \<le> m" "m \<in> set (factorList f) \<Longrightarrow> m \<le> 10000"
      using b [OF v(1)] scoreFactors_bounds [OF v(1)] by auto
  qed
qed

theorem refusal_evidence_complete_witness:
  "\<exists>evidence. route noEngine 5000 demoBroker demoOperator (demoRequest 9999) = Inl (NoEligibleRuntimeError evidence) \<and>
     length (nc_evaluations evidence) = 2"
proof -
  have "\<exists>evidence. route noEngine 5000 demoBroker demoOperator (demoRequest 9999) = Inl (NoEligibleRuntimeError evidence)"
    using demo_refused by (auto split: sum.splits BrokerError.splits)
  then obtain evidence where e:
    "route noEngine 5000 demoBroker demoOperator (demoRequest 9999) = Inl (NoEligibleRuntimeError evidence)" by blast
  moreover have "length (workspaceCandidates demoBroker (cx_workspaceId demoOperator)) = 2"
    by (simp add: workspaceCandidates_def demoBroker_store mvalues_def demoFirst_def demoSecond_def demoCandidate_def
        demoOperator_def)
  ultimately show ?thesis
    using refusal_evidence_complete [OF demoBroker_reachable(1) e] by auto
qed

theorem scores_are_basis_points_witness:
  "\<exists>d. route noEngine 5000 demoBroker demoOperator (demoRequest 8000) = Inr d \<and>
     0 \<le> rd_selectedScoreBps d \<and> rd_selectedScoreBps d \<le> 10000"
proof -
  obtain d where d: "route noEngine 5000 demoBroker demoOperator (demoRequest 8000) = Inr d"
    using demo_route by (auto simp: succeeds_iff)
  with scores_are_basis_points [OF demoBroker_reachable(1) d] show ?thesis by blast
qed

text \<open>
The score is monotone: of two admissible candidates, the one that is at least as good in every
  respect (quality, reliability, security tier, latency, cost, remaining budget, free capacity) never
  scores lower.
\<close>

theorem score_monotone:
  assumes "validateRequest cx q = Inr ()" "admissible engine q c now" "admissible engine q c' now"
    and "rc_qualityScoreBps c \<le> rc_qualityScoreBps c'" "rc_reliabilityScoreBps c \<le> rc_reliabilityScoreBps c'"
    and "rc_securityTier c \<le> rc_securityTier c'" "rc_expectedLatencyMs c' \<le> rc_expectedLatencyMs c"
    and "rc_estimatedCostMinorUnits c' \<le> rc_estimatedCostMinorUnits c"
    and "rc_remainingBudgetMinorUnits c \<le> rc_remainingBudgetMinorUnits c'"
    and "rc_activeRuns c' \<le> rc_activeRuns c" "rc_maxConcurrentRuns c \<le> rc_maxConcurrentRuns c'"
  shows "scoreOf (evaluateCandidate engine q c now) \<le> scoreOf (evaluateCandidate engine q c' now)"
proof -
  note q = request_ranges [OF assms(1)]
    and r = candidate_ranges [OF admissibleD(1) [OF assms(2)]] candidate_ranges [OF admissibleD(1) [OF assms(3)]]
    and a = admissibleD [OF assms(2)] admissibleD [OF assms(3)]
  define m where "m x = min (rr_maximumCostMinorUnits q) (rc_remainingBudgetMinorUnits x)" for x :: RuntimeRoutingCandidate
  have m: "0 \<le> m c" "m c \<le> m c'" "rc_estimatedCostMinorUnits c \<le> m c" "rc_estimatedCostMinorUnits c' \<le> m c'"
    using q(2) r a assms(9) by (auto simp: m_def)
  have "sf_cost (scoreFactors q c) \<le> sf_cost (scoreFactors q c')"
  proof (cases "m c = 0")
    case True
    with m assms(8) r have "rc_estimatedCostMinorUnits c' = 0" by linarith
    then have "sf_cost (scoreFactors q c') = 10000"
      using m r by (auto simp: scoreFactors_def Let_def ratioScore_def bigIntDiv_def m_def [symmetric])
    then show ?thesis
      using scoreFactors_bounds [OF a(1), of "sf_cost (scoreFactors q c)" q] by (simp add: factorList_def)
  next
    case False
    with m have "0 < m c" "0 < m c'" by linarith+
    with m assms(8) r ratioScore_mono show ?thesis
      by (simp add: scoreFactors_def Let_def m_def [symmetric])
  qed
  moreover have "(rc_securityTier c + 1) * 10000 div 4 \<le> (rc_securityTier c' + 1) * 10000 div 4"
    using assms(6) by (intro zdiv_mono1) auto
  moreover have "ratioScore (rc_expectedLatencyMs c) (rr_maximumLatencyMs q) \<le>
      ratioScore (rc_expectedLatencyMs c') (rr_maximumLatencyMs q)"
    using q(1) r assms(7) by (intro ratioScore_mono) auto
  moreover have "ratioScore (rc_activeRuns c) (rc_maxConcurrentRuns c) \<le>
      ratioScore (rc_activeRuns c') (rc_maxConcurrentRuns c')"
    using r assms(10,11) by (intro ratioScore_mono) auto
  ultimately have "\<forall>(x, y) \<in> set (zip (factorList (scoreFactors q c)) (factorList (scoreFactors q c'))). x \<le> y"
    using assms(4,5) by (simp add: factorList_def scoreFactors_def Let_def)
  then show ?thesis
    using weighted_mean validateWeights_Inr(1) [OF q(4)] assms(2,3) by simp
qed

theorem score_monotone_witness:
  "scoreOf (evaluateCandidate noEngine (demoRequest 8000) demoFirst 5000) \<le>
   scoreOf (evaluateCandidate noEngine (demoRequest 8000) demoSecond 5000)"
proof (rule score_monotone)
  show "validateRequest demoOperator (demoRequest 8000) = Inr ()" by code_simp
  show "admissible noEngine (demoRequest 8000) demoFirst 5000" "admissible noEngine (demoRequest 8000) demoSecond 5000"
    unfolding evaluateCandidate_eligible [symmetric] by code_simp+
qed (simp_all add: demoFirst_def demoSecond_def demoCandidate_def)

text \<open>
Evidence is trustworthy and stays in its workspace: whatever calls were made, every stored
  candidate passed validation, carries four verified proofs about its own runtime, principal and
  connection, and is stored under its own identity; and a call by a principal leaves the evidence of
  every other workspace, and all evidence when the principal is not an authority, as it was.
\<close>

theorem stored_evidence_correlated:
  assumes "brokerReachable s"
  shows "(\<forall>k c. mget (rb_candidates s) k = Some c \<longrightarrow> k = candidateKey c \<and> candidateChecks c = Inr () \<and> correlated c) \<and>
    (\<forall>cx c. \<forall>t \<in> {snd (putCandidateEvidence cx c s), snd (replaceCandidateEvidence cx c s)}. \<forall>k.
      mget (rb_candidates t) k \<noteq> mget (rb_candidates s) k \<longrightarrow>
      cx_principalId cx \<in> rb_authorityPrincipals s \<and> k = key3 (cx_workspaceId cx) (rc_runtimeId c) (rc_connectionId c))"
proof (intro conjI allI ballI impI)
  have i: "brokerInv s" using assms by (rule broker.reach_inv)
  fix k c assume "mget (rb_candidates s) k = Some c"
  with i show "k = candidateKey c" "candidateChecks c = Inr ()" "correlated c"
    by (auto simp: brokerInv_def keyed_by_def)
next
  fix cx c t k
  assume t: "t \<in> {snd (putCandidateEvidence cx c s), snd (replaceCandidateEvidence cx c s)}"
    and k: "mget (rb_candidates t) k \<noteq> mget (rb_candidates s) k"
  from t obtain r where "putCandidateEvidence cx c s = (r, t) \<or> replaceCandidateEvidence cx c s = (r, t)"
    by (metis insertE prod.collapse singletonD)
  with putCandidateEvidence_cases [of cx c s r t] replaceCandidateEvidence_cases [of cx c s r t]
  have "t = s \<or> rc_workspaceId c = cx_workspaceId cx \<and> cx_principalId cx \<in> rb_authorityPrincipals s \<and>
    t = s\<lparr>rb_candidates := mset_at (rb_candidates s) (candidateKey c) c\<rparr>" by blast
  with k show "cx_principalId cx \<in> rb_authorityPrincipals s"
    "k = key3 (cx_workspaceId cx) (rc_runtimeId c) (rc_connectionId c)"
    by (auto split: if_splits)
qed

theorem stored_evidence_correlated_witness:
  "candidateKey demoFirst \<in> dom (mget (rb_candidates demoBroker)) \<and> correlated demoFirst"
proof -
  have m: "mget (rb_candidates demoBroker) (candidateKey demoFirst) = Some demoFirst"
    by (simp add: demoBroker_store)
  then show ?thesis using stored_evidence_correlated [OF demoBroker_reachable(1)] by blast
qed

end
