(* ===== verification/Js_Json.thy ===== *)
theory Js_Json
  imports Js_Array
begin

text \<open>
  JSON texts as message encodings.  Several modules hash \<open>JSON.stringify\<close> of a value, some after
  sorting the properties of every object.  The results: \<open>JSON.stringify\<close> is injective on the values
  JSON can represent exactly (\<open>jsonClean\<close>), and sorting the properties loses nothing but their order.
\<close>

section \<open>Decimal texts are decodable\<close>

definition text_val :: "string \<Rightarrow> nat" where
  "text_val s = foldl (\<lambda>a c. 10 * a + (case digit_val c of None \<Rightarrow> 0 | Some d \<Rightarrow> d)) 0 s"

lemma nat_text_digits: "c \<in> set (nat_text n) \<Longrightarrow> digit_val c \<noteq> None"
  by (induction n rule: nat_text.induct) (subst (asm) (2) nat_text.simps, auto split: if_splits)

lemma nat_text_nonempty [simp]: "nat_text n \<noteq> []"
  by (subst nat_text.simps) simp

lemma text_val_nat_text [simp]: "text_val (nat_text n) = n"
proof (induction n rule: nat_text.induct)
  case (1 n)
  show ?case
  proof (cases "n < 10")
    case True
    then show ?thesis by (simp add: nat_text.simps [of n] text_val_def)
  next
    case False
    with 1 show ?thesis by (simp add: nat_text.simps [of n] text_val_def)
  qed
qed

lemma nat_text_inj [simp]: "nat_text m = nat_text n \<longleftrightarrow> m = n"
  by (metis text_val_nat_text)

lemma minus_not_digit: "digit_val (CHR ''-'') = None"
  by (simp add: digit_val_def code_unit_def)

lemma nat_text_not_minus: "nat_text n \<noteq> CHR ''-'' # r"
  using nat_text_digits [of "CHR ''-''" n] by (auto simp: minus_not_digit)

lemma int_text_inj [simp]: "int_text i = int_text j \<longleftrightarrow> i = j"
  using nat_text_not_minus by (auto simp: int_text_def nat_text_not_minus [symmetric] split: if_splits)

text \<open>What may follow a value inside a JSON text.\<close>

definition jsonStop :: "string \<Rightarrow> bool" where
  "jsonStop r = (case r of [] \<Rightarrow> True | c # _ \<Rightarrow> c \<in> {CHR '','', CHR '']'', CHR ''}''})"

lemma jsonStop_simps [simp]:
  "jsonStop []" "jsonStop (CHR '','' # r)" "jsonStop (CHR '']'' # r)" "jsonStop (CHR ''}'' # r)"
  by (simp_all add: jsonStop_def)

lemma span_unique:
  assumes "\<forall>c \<in> set u. P c" "\<forall>c \<in> set u'. P c" "r = [] \<or> \<not> P (hd r)" "r' = [] \<or> \<not> P (hd r')" "u @ r = u' @ r'"
  shows "u = u' \<and> r = r'"
proof -
  have "takeWhile P (v @ t) = v" if "\<forall>c \<in> set v. P c" "t = [] \<or> \<not> P (hd t)" for v t
    using that by (cases t) (auto simp: takeWhile_append2)
  with assms have "u = u'" by metis
  with assms(5) show ?thesis by simp
qed

lemma int_text_chars: "c \<in> set (int_text i) \<Longrightarrow> digit_val c \<noteq> None \<or> c = CHR ''-''"
  using nat_text_digits by (auto simp: int_text_def split: if_splits)

lemma int_text_decodable:
  assumes "int_text i @ r = int_text j @ r'" "jsonStop r" "jsonStop r'"
  shows "i = j \<and> r = r'"
proof -
  have s: "t = [] \<or> \<not> (digit_val (hd t) \<noteq> None \<or> hd t = CHR ''-'')" if "jsonStop t" for t
    using that by (auto simp: jsonStop_def digit_val_def code_unit_def split: list.splits)
  have "int_text i = int_text j \<and> r = r'"
    by (rule span_unique [where P = "\<lambda>c. digit_val c \<noteq> None \<or> c = CHR ''-''"])
      (use assms s int_text_chars in auto)
  then show ?thesis by simp
qed

section \<open>JSON texts are decodable\<close>

text \<open>The values whose text says everything about them: safe integers, no \<open>undefined\<close>, no opaque value.\<close>

fun jsonClean :: "json \<Rightarrow> bool" where
  "jsonClean JNull = True"
| "jsonClean (JBool b) = True"
| "jsonClean (JNum (SafeInt i)) = True"
| "jsonClean (JNum (OtherFinite t)) = False"
| "jsonClean (JNum NonFinite) = False"
| "jsonClean (JStr s) = True"
| "jsonClean (JArr xs) = (\<forall>x \<in> set xs. jsonClean x)"
| "jsonClean (JObj kvs) = (\<forall>kv \<in> set kvs. jsonClean (snd kv))"
| "jsonClean JUndefined = False"
| "jsonClean JOpaque = False"

definition member_text :: "string \<times> json \<Rightarrow> string" where
  "member_text kv = json_quote (fst kv) @ '':'' @ json_text (snd kv)"

lemma json_text_JObj:
  assumes "jsonClean (JObj kvs)"
  shows "json_text (JObj kvs) = CHR ''{'' # join_with '','' (map member_text kvs) @ ''}''"
proof -
  have "filter (\<lambda>(k, v). v \<noteq> JUndefined) kvs = kvs"
    using assms by (auto simp: filter_id_conv)
  then show ?thesis by (simp add: member_text_def [abs_def] case_prod_unfold)
qed

lemma int_text_start: "\<exists>c cs. int_text i = c # cs \<and> (digit_val c \<noteq> None \<or> c = CHR ''-'')"
proof -
  have "int_text i \<noteq> []" by (simp add: int_text_def)
  then show ?thesis using int_text_chars [of "hd (int_text i)" i] by (cases "int_text i") auto
qed

text \<open>The first character of a text tells the kind of value.\<close>

definition startsLike :: "json \<Rightarrow> char \<Rightarrow> bool" where
  "startsLike v c = (case v of
     JNull \<Rightarrow> c = CHR ''n'' | JBool b \<Rightarrow> c = (if b then CHR ''t'' else CHR ''f'')
   | JNum _ \<Rightarrow> digit_val c \<noteq> None \<or> c = CHR ''-'' | JStr _ \<Rightarrow> c = CHR 0x22
   | JArr _ \<Rightarrow> c = CHR ''['' | JObj _ \<Rightarrow> c = CHR ''{'' | _ \<Rightarrow> False)"

lemma json_text_start:
  assumes "jsonClean v"
  shows "\<exists>c cs. json_text v = c # cs \<and> startsLike v c"
proof (cases v)
  case (JNum n)
  with assms show ?thesis using int_text_start by (cases n) (auto simp: startsLike_def)
qed (use assms in \<open>auto simp: startsLike_def json_quote_def\<close>)

lemma startsLike_kind:
  assumes "startsLike v c" "startsLike w c"
  shows "v = w \<or> (\<exists>m n. v = JNum m \<and> w = JNum n) \<or> (\<exists>s t. v = JStr s \<and> w = JStr t) \<or>
    (\<exists>xs ys. v = JArr xs \<and> w = JArr ys) \<or> (\<exists>xs ys. v = JObj xs \<and> w = JObj ys)"
  using assms
  by (cases v; cases w) (auto simp: startsLike_def digit_val_def code_unit_def split: if_splits)

lemma json_text_same_kind:
  assumes "jsonClean v" "jsonClean w" "json_text v @ r = json_text w @ r'"
  shows "v = w \<or> (\<exists>m n. v = JNum m \<and> w = JNum n) \<or> (\<exists>s t. v = JStr s \<and> w = JStr t) \<or>
    (\<exists>xs ys. v = JArr xs \<and> w = JArr ys) \<or> (\<exists>xs ys. v = JObj xs \<and> w = JObj ys)"
proof -
  obtain c cs d ds where "json_text v = c # cs" "startsLike v c" "json_text w = d # ds" "startsLike w d"
    using json_text_start [OF assms(1)] json_text_start [OF assms(2)] by blast
  with assms(3) show ?thesis by (intro startsLike_kind) auto
qed

lemma startsLike_not_stop: "startsLike v c \<Longrightarrow> c \<notin> {CHR '','', CHR '']'', CHR ''}''}"
  by (cases v) (auto simp: startsLike_def digit_val_def code_unit_def split: if_splits)

lemma join_with_Cons: "join_with sep (x # xs) = (if xs = [] then x else x @ sep @ join_with sep xs)"
  by (cases xs) auto

text \<open>
  A comma-separated list between brackets is decodable when its elements are, and none of them starts
  with the closing bracket.
\<close>

lemma join_decodable:
  assumes "join_with '','' (map enc xs) @ close # r = join_with '','' (map enc ys) @ close # r'"
    and dec: "\<And>x y t t'. x \<in> set xs \<Longrightarrow> y \<in> set ys \<Longrightarrow> jsonStop t \<Longrightarrow> jsonStop t' \<Longrightarrow>
      enc x @ t = enc y @ t' \<Longrightarrow> x = y \<and> t = t'"
    and ne: "\<And>x. x \<in> set xs \<union> set ys \<Longrightarrow> \<exists>c cs. enc x = c # cs \<and> c \<noteq> close"
    and close: "close \<in> {CHR '']'', CHR ''}''}"
  shows "xs = ys \<and> r = r'"
  using assms(1) dec ne
proof (induction xs arbitrary: ys)
  case Nil
  then show ?case
  proof (cases ys)
    case (Cons y zs)
    with Nil.prems(3) [of y] obtain c cs where "enc y = c # cs" "c \<noteq> close" by auto
    with Nil.prems(1) Cons show ?thesis by (auto simp: join_with_Cons split: if_splits)
  qed simp
next
  case (Cons x xs)
  obtain y zs where ys: "ys = y # zs"
  proof (cases ys)
    case Nil
    obtain c cs where "enc x = c # cs" "c \<noteq> close" using Cons.prems(3) [of x] by auto
    with Cons.prems(1) Nil have False by (auto simp: join_with_Cons split: if_splits)
    then show ?thesis ..
  qed
  define rest where "rest zs t = (if zs = [] then close # t else CHR '','' # join_with '','' (map enc zs) @ close # t)" for zs t
  have st: "jsonStop (rest zs t)" for zs t using close by (auto simp: rest_def)
  have split: "join_with '','' (map enc (z # zs)) @ close # t = enc z @ rest zs t" for z zs t
    by (simp add: join_with_Cons rest_def)
  have "x = y \<and> rest xs r = rest zs r'"
    by (rule Cons.prems(2) [OF _ _ st st]) (use Cons.prems(1) split ys in auto)
  moreover have "close \<noteq> CHR '',''" using close by auto
  ultimately have "x = y" "join_with '','' (map enc xs) @ close # r = join_with '','' (map enc zs) @ close # r'"
    by (auto simp: rest_def split: if_splits)
  then show ?case using Cons.IH [of zs] Cons.prems(2,3) ys by auto
qed

lemma json_text_decodable:
  assumes "jsonClean v" "jsonClean w" "jsonStop r" "jsonStop r'" "json_text v @ r = json_text w @ r'"
  shows "v = w \<and> r = r'"
  using assms
proof (induction v arbitrary: w r r')
  case (JArr xs)
  then obtain ys where w: "w = JArr ys" using json_text_same_kind [OF JArr.prems(1,2,5)] by auto
  have "xs = ys \<and> r = r'"
  proof (rule join_decodable [where enc = json_text and close = "CHR '']''"])
    show "join_with '','' (map json_text xs) @ CHR '']'' # r = join_with '','' (map json_text ys) @ CHR '']'' # r'"
      using JArr.prems(5) w by simp
    show "x = y \<and> t = t'" if "x \<in> set xs" "y \<in> set ys" "jsonStop t" "jsonStop t'" "json_text x @ t = json_text y @ t'" for x y t t'
      using JArr.IH [OF that(1), of y t t'] that JArr.prems(1,2) w by auto
    show "\<exists>c cs. json_text x = c # cs \<and> c \<noteq> CHR '']''" if "x \<in> set xs \<union> set ys" for x
      using that JArr.prems(1,2) w json_text_start [of x] startsLike_not_stop by fastforce
  qed simp
  with w show ?case by simp
next
  case (JObj kvs)
  then obtain kws where w: "w = JObj kws" using json_text_same_kind [OF JObj.prems(1,2,5)] by auto
  have "kvs = kws \<and> r = r'"
  proof (rule join_decodable [where enc = member_text and close = "CHR ''}''"])
    show "join_with '','' (map member_text kvs) @ CHR ''}'' # r = join_with '','' (map member_text kws) @ CHR ''}'' # r'"
      using JObj.prems(1,2,5) w by (simp only: json_text_JObj) simp
    show "x = y \<and> t = t'" if "x \<in> set kvs" "y \<in> set kws" "jsonStop t" "jsonStop t'" "member_text x @ t = member_text y @ t'" for x y t t'
    proof -
      have "json_quote (fst x) @ CHR '':'' # json_text (snd x) @ t = json_quote (fst y) @ CHR '':'' # json_text (snd y) @ t'"
        using that(5) by (simp add: member_text_def)
      then have "fst x = fst y" "json_text (snd x) @ t = json_text (snd y) @ t'"
        by (auto simp: json_quote_decodable)
      moreover have "jsonClean (snd x)" "jsonClean (snd y)" using that(1,2) JObj.prems(1,2) w by auto
      moreover have "snd x \<in> Basic_BNFs.snds x" by (cases x) (simp add: Basic_BNFs.snds.simps)
      ultimately show ?thesis
        using JObj.IH [OF that(1), of "snd x" "snd y" t t'] that(3,4) by (auto simp: prod_eq_iff)
    qed
    show "\<exists>c cs. member_text x = c # cs \<and> c \<noteq> CHR ''}''" if "x \<in> set kvs \<union> set kws" for x
      by (simp add: member_text_def json_quote_def)
  qed simp
  with w show ?case by simp
next
  case (JNum n)
  then obtain m where w: "w = JNum m" using json_text_same_kind [OF JNum.prems(1,2,5)] by auto
  with JNum.prems show ?case by (cases n; cases m) (auto dest: int_text_decodable)
next
  case (JStr s)
  then obtain t where "w = JStr t" using json_text_same_kind [OF JStr.prems(1,2,5)] by auto
  with JStr.prems show ?case by (auto simp: json_quote_decodable)
next
  case JNull
  then show ?case using json_text_same_kind [OF JNull.prems(1,2,5)] by auto
next
  case (JBool b)
  then show ?case using json_text_same_kind [OF JBool.prems(1,2,5)] by auto
qed simp_all

theorem json_text_inj: "jsonClean v \<Longrightarrow> jsonClean w \<Longrightarrow> json_text v = json_text w \<longleftrightarrow> v = w"
  using json_text_decodable [of v w "[]" "[]"] by auto

section \<open>Objects with sorted properties\<close>

text \<open>
  \<open>Object.entries(value).sort(compare keys)\<close>, recursively: the canonical form that is hashed.  The
  property names of the hashed values are not array indices, so \<open>Object.fromEntries\<close> keeps the order.
\<close>

fun normalizeJson :: "json \<Rightarrow> json" where
  "normalizeJson (JArr xs) = JArr (map normalizeJson xs)"
| "normalizeJson (JObj kvs) =
     JObj (sortWith (\<lambda>l r. compareText (fst l) (fst r)) (map (\<lambda>(k, item). (k, normalizeJson item)) kvs))"
| "normalizeJson v = v"

lemma jsonClean_normalize [simp]: "jsonClean (normalizeJson v) \<longleftrightarrow> jsonClean v"
proof (induction v)
  case (JObj kvs)
  have "jsonClean (normalizeJson (snd kv)) \<longleftrightarrow> jsonClean (snd kv)" if "kv \<in> set kvs" for kv
    using JObj [OF that, of "snd kv"] by (cases kv) (simp add: Basic_BNFs.snds.simps)
  then show ?case by (auto simp: case_prod_unfold)
qed auto

text \<open>Two objects with the same canonical form agree property by property.\<close>

lemma map_of_sortWith:
  assumes "distinct (map fst kvs)"
  shows "map_of (sortWith c kvs) = map_of kvs"
proof -
  have "mset (map fst (sortWith c kvs)) = mset (map fst kvs)" by simp
  then have "distinct (map fst (sortWith c kvs))" using assms by (metis mset_eq_imp_distinct_iff)
  with assms show ?thesis by (intro map_of_inject_set [THEN iffD2]) simp_all
qed

lemma map_of_normalized: "map_of (map (\<lambda>(k, item). (k, normalizeJson item)) kvs) k = map_option normalizeJson (map_of kvs k)"
  by (simp add: map_of_map)

lemma normalize_JObj_field:
  assumes "normalizeJson (JObj kvs) = normalizeJson (JObj kws)" "distinct (map fst kvs)" "distinct (map fst kws)"
  shows "map_option normalizeJson (map_of kvs k) = map_option normalizeJson (map_of kws k)"
proof -
  have d: "distinct (map fst (map (\<lambda>(k, item). (k, normalizeJson item)) xs)) \<longleftrightarrow> distinct (map fst xs)" for xs :: json_record
    by (simp add: comp_def case_prod_unfold)
  have "map_of (map (\<lambda>(k, item). (k, normalizeJson item)) kvs) = map_of (map (\<lambda>(k, item). (k, normalizeJson item)) kws)"
    using assms(1) map_of_sortWith [OF d [THEN iffD2, OF assms(2)]] map_of_sortWith [OF d [THEN iffD2, OF assms(3)]]
    by simp metis
  then show ?thesis by (metis map_of_normalized)
qed

text \<open>Sorting the properties does not depend on the order they had.\<close>

lemma normalize_JObj_permute:
  assumes "mset kvs = mset kws" "distinct (map fst kvs)"
  shows "normalizeJson (JObj kvs) = normalizeJson (JObj kws)"
proof -
  let ?n = "\<lambda>(k, item). (k, normalizeJson item)"
  have "sortWith (\<lambda>l r. compareText (fst l) (fst r)) (map ?n kvs) = sortWith (\<lambda>l r. compareText (fst l) (fst r)) (map ?n kws)"
  proof (rule sortWith_permute [OF comparator_compareText])
    show "mset (map ?n kvs) = mset (map ?n kws)" using assms(1) by simp
    fix x y assume "x \<in> set (map ?n kvs)" "y \<in> set (map ?n kvs)" "compareText (fst x) (fst y) = 0"
    with assms(2) show "x = y" by (auto dest: eq_key_imp_eq_value)
  qed
  then show ?thesis by simp
qed

text \<open>\<open>JSON.stringify(normalizeJson(value))\<close>, the text that is hashed.\<close>

definition canonicalText :: "json \<Rightarrow> string" where
  "canonicalText v = json_text (normalizeJson v)"

lemma canonicalText_inj:
  "jsonClean v \<Longrightarrow> jsonClean w \<Longrightarrow> canonicalText v = canonicalText w \<longleftrightarrow> normalizeJson v = normalizeJson w"
  by (simp add: canonicalText_def json_text_inj)

text \<open>Objects with the same property names in the same order: the texts agree only if the values do.\<close>

fun members :: "json \<Rightarrow> json_record" where
  "members (JObj kvs) = kvs"
| "members _ = []"

lemma normalize_same_keys:
  assumes "normalizeJson (JObj kvs) = normalizeJson (JObj kws)" "map fst kvs = map fst kws" "distinct (map fst kvs)"
  shows "map (\<lambda>kv. normalizeJson (snd kv)) kvs = map (\<lambda>kv. normalizeJson (snd kv)) kws"
proof (rule nth_equalityI)
  show "length (map (\<lambda>kv. normalizeJson (snd kv)) kvs) = length (map (\<lambda>kv. normalizeJson (snd kv)) kws)"
    using assms(2) by (metis length_map)
  fix i assume i: "i < length (map (\<lambda>kv. normalizeJson (snd kv)) kvs)"
  then have l: "i < length kvs" "i < length kws" using map_eq_imp_length_eq [OF assms(2)] by auto
  have k: "fst (kvs ! i) = fst (kws ! i)" using assms(2) l by (metis nth_map)
  have m: "map_of kvs (fst (kvs ! i)) = Some (snd (kvs ! i))" "map_of kws (fst (kvs ! i)) = Some (snd (kws ! i))"
    using assms(2,3) l k by (metis map_of_is_SomeI nth_mem prod.collapse)+
  have "map_option normalizeJson (map_of kvs (fst (kvs ! i))) = map_option normalizeJson (map_of kws (fst (kvs ! i)))"
    by (rule normalize_JObj_field) (use assms in simp_all)
  then show "map (\<lambda>kv. normalizeJson (snd kv)) kvs ! i = map (\<lambda>kv. normalizeJson (snd kv)) kws ! i"
    unfolding m using l by simp
qed

lemma canonicalText_members:
  assumes "canonicalText v = canonicalText w"
    and "v = JObj (members v)" "w = JObj (members w)" "jsonClean v" "jsonClean w"
    and "map fst (members v) = map fst (members w)" "distinct (map fst (members v))"
  shows "map (\<lambda>kv. normalizeJson (snd kv)) (members v) = map (\<lambda>kv. normalizeJson (snd kv)) (members w)"
proof (rule normalize_same_keys)
  show "normalizeJson (JObj (members v)) = normalizeJson (JObj (members w))"
    using assms by (metis canonicalText_inj)
qed (use assms in simp_all)

end
