(* ===== verification/Approval_Bridge.thy ===== *)
theory Approval_Bridge
  imports Js_Regex Js_Date Js_Json
begin

text \<open>
  \<open>packages/agent-control-plane/src/approval-bridge.ts\<close>: an approval is bound to the exact work it was
  given for.  The binding is validated, hashed, and compared field by field before an approved action
  runs.  SHA-256 is a parameter (\<open>sha256\<close>, from text to hexadecimal digest); nothing is assumed of it,
  and what a digest guarantees is stated as \<open>equal bindings, or a collision\<close>.
\<close>

section \<open>Data\<close>

record AcpApprovalBinding =
  ab_workspaceId :: string
  ab_objectiveId :: string
  ab_taskId :: string
  ab_runId :: string
  ab_actionCode :: string
  ab_exactTarget :: string
  ab_artifactVersionId :: string
  ab_evidenceHash :: string
  ab_policyVersion :: string
  ab_policyHash :: string

record AcpApprovalRequestInput = AcpApprovalBinding +
  ai_idempotencyKey :: string
  ai_expiresAt :: string

datatype ApprovalError = AcpApprovalPolicyError string

section \<open>Patterns\<close>

definition APPROVAL_REFERENCE :: regex where
  "APPROVAL_REFERENCE = anchored isAlnum (cls_or isAlnum (one_of '':._/@-'')) 0 255"

definition ACTION_CODE :: regex where
  "ACTION_CODE = anchored isUpper (cls_or isUpper (cls_or isDigit (one_of ''_.-''))) 0 63"

definition isLowerHex :: char_class where
  "isLowerHex = cls_or isDigit (rng (CHR ''a'') (CHR ''f''))"

definition SHA_256 :: regex where
  "SHA_256 = exactly 64 isLowerHex"

definition SENSITIVE_TEXT :: regex where
  "SENSITIVE_TEXT = (let sep = opt (one_of ''-_. '') in alts
    [seqs [LitI ''chain'', sep, LitI ''of'', sep, LitI ''thought''],
     seqs [LitI ''private'', sep, LitI ''reasoning''],
     LitI ''password'', LitI ''credential'', seqs [LitI ''api'', sep, LitI ''key''],
     LitI ''transcript'', LitI ''prompt'', LitI ''secret'', LitI ''token''])"

definition SECRET_VALUE :: regex where
  "SECRET_VALUE = (let tokenChar = cls_or isAlnum (one_of ''_-''); userChar = cls_or isAlnum (one_of ''._-'') in alts
    [seqs [WordBoundary, alts [Lit ''sk'', seqs [Lit ''gh'', Cls (one_of ''opusr'')], Lit ''github_pat'', Lit ''npm'',
             Lit ''glpat'', seqs [Lit ''xox'', Cls (one_of ''baprs'')], Lit ''hf''],
           Cls (one_of ''-_''), Rep 12 None tokenChar],
     seqs [WordBoundary, Lit ''AKIA'', Rep 16 (Some 16) (cls_or isDigit isUpper), WordBoundary],
     seqs [WordBoundary, Lit ''AIza'', Rep 20 None tokenChar],
     seqs [WordBoundary, Lit ''eyJ'', Rep 5 None tokenChar, Lit ''.eyJ'', Rep 5 None tokenChar, Lit ''.'',
           Rep 8 None tokenChar, WordBoundary],
     seqs [Bol, Rep 1 None userChar, Lit '':'', Rep 1 None userChar, Lit ''@'',
           Rep 1 None (cls_or isAlnum (one_of ''.-'')), Eol]])"

section \<open>Validation\<close>

definition approvalReference :: "string \<Rightarrow> string \<Rightarrow> ApprovalError + unit" where
  "approvalReference value fld = ensure
     (\<not> (\<not> regex_test APPROVAL_REFERENCE value \<or> regex_test SENSITIVE_TEXT value \<or> regex_test SECRET_VALUE value))
     (AcpApprovalPolicyError (fld @ '' must be a safe non-sensitive reference''))"

definition validateAcpApprovalReference :: "string \<Rightarrow> string \<Rightarrow> ApprovalError + unit" where
  "validateAcpApprovalReference value fld = approvalReference value fld"

text \<open>A binding is a plain object by its type.\<close>

definition validateAcpApprovalBinding :: "'a AcpApprovalBinding_scheme \<Rightarrow> ApprovalError + unit" where
  "validateAcpApprovalBinding b = checks
     [approvalReference (ab_workspaceId b) ''workspaceId'',
      approvalReference (ab_objectiveId b) ''objectiveId'',
      approvalReference (ab_taskId b) ''taskId'',
      approvalReference (ab_runId b) ''runId'',
      ensure (\<not> (\<not> regex_test ACTION_CODE (ab_actionCode b) \<or> regex_test SENSITIVE_TEXT (ab_actionCode b)))
        (AcpApprovalPolicyError ''actionCode must be a safe action code''),
      approvalReference (ab_exactTarget b) ''exactTarget'',
      approvalReference (ab_artifactVersionId b) ''artifactVersionId'',
      approvalReference (ab_policyVersion b) ''policyVersion'',
      ensure (regex_test SHA_256 (ab_evidenceHash b))
        (AcpApprovalPolicyError ''evidenceHash must be a lowercase SHA-256 digest''),
      ensure (regex_test SHA_256 (ab_policyHash b))
        (AcpApprovalPolicyError ''policyHash must be a lowercase SHA-256 digest'')]"

definition validateAcpApprovalRequestInput :: "(string \<Rightarrow> int option) \<Rightarrow> AcpApprovalRequestInput \<Rightarrow> int \<Rightarrow>
    ApprovalError + unit" where
  "validateAcpApprovalRequestInput engine input now = checks
     [validateAcpApprovalBinding input,
      approvalReference (ai_idempotencyKey input) ''idempotencyKey'',
      (case dateParse engine (ai_expiresAt input) of
         None \<Rightarrow> Inl (AcpApprovalPolicyError ''expiresAt must be a canonical ISO timestamp'')
       | Some expiry \<Rightarrow> checks
           [ensure (toISOString expiry = Some (ai_expiresAt input))
              (AcpApprovalPolicyError ''expiresAt must be a canonical ISO timestamp''),
            ensure (\<not> (expiry \<le> now \<or> now + 7 * 24 * 60 * 60 * 1000 < expiry))
              (AcpApprovalPolicyError ''Approval expiry must be in the future and no more than 7 days'')])]"

section \<open>Hash and comparison\<close>

definition bindingFields :: "'a AcpApprovalBinding_scheme \<Rightarrow> (string \<times> string) list" where
  "bindingFields b =
     [(''workspaceId'', ab_workspaceId b), (''objectiveId'', ab_objectiveId b), (''taskId'', ab_taskId b),
      (''runId'', ab_runId b), (''actionCode'', ab_actionCode b), (''exactTarget'', ab_exactTarget b),
      (''artifactVersionId'', ab_artifactVersionId b), (''evidenceHash'', ab_evidenceHash b),
      (''policyVersion'', ab_policyVersion b), (''policyHash'', ab_policyHash b)]"

definition bindingText :: "'a AcpApprovalBinding_scheme \<Rightarrow> string" where
  "bindingText b = json_text (JArr (map (\<lambda>(_, v). JStr v) (bindingFields b)))"

definition computeAcpApprovalBindingHash :: "(string \<Rightarrow> string) \<Rightarrow> 'a AcpApprovalBinding_scheme \<Rightarrow>
    ApprovalError + string" where
  "computeAcpApprovalBindingHash sha256 b =
     ebind (validateAcpApprovalBinding b) (\<lambda>_. Inr (sha256 (bindingText b)))"

definition assertAcpApprovalBindingMatch :: "AcpApprovalBinding \<Rightarrow> AcpApprovalBinding \<Rightarrow> ApprovalError + unit" where
  "assertAcpApprovalBindingMatch approved current = checks
     ([validateAcpApprovalBinding approved, validateAcpApprovalBinding current] @
      map (\<lambda>((fld, v), (_, w)). ensure (v = w) (AcpApprovalPolicyError (''Approval binding mismatch: '' @ fld)))
        (zip (bindingFields approved) (bindingFields current)))"

section \<open>Lemmas\<close>

lemma bindingFields_inj: "bindingFields a = bindingFields b \<longleftrightarrow> (a :: AcpApprovalBinding) = b"
  by (auto simp: bindingFields_def)

lemma bindingText_inj: "bindingText a = bindingText b \<longleftrightarrow> (a :: AcpApprovalBinding) = b"
proof -
  have "jsonClean (JArr (map (\<lambda>(_, v). JStr v) (bindingFields x)))" for x :: AcpApprovalBinding
    by (auto simp: bindingFields_def)
  then have "bindingText a = bindingText b \<longleftrightarrow> map snd (bindingFields a) = map snd (bindingFields b)"
    by (simp add: bindingText_def json_text_inj del: json_text.simps) (simp add: bindingFields_def)
  then show ?thesis by (auto simp: bindingFields_def)
qed

lemma SHA_256_iff: "regex_test SHA_256 s \<longleftrightarrow> length s = 64 \<and> (\<forall>c \<in> set s. isLowerHex c)"
  by (simp add: SHA_256_def regex_test_exactly)

lemma approvalReference_Inr [outcome_simps]:
  "approvalReference v f = Inr u \<longleftrightarrow>
   regex_test APPROVAL_REFERENCE v \<and> \<not> regex_test SENSITIVE_TEXT v \<and> \<not> regex_test SECRET_VALUE v"
  by (simp add: approvalReference_def)

lemma assertAcpApprovalBindingMatch_Inr:
  "assertAcpApprovalBindingMatch a b = Inr u \<longleftrightarrow> validateAcpApprovalBinding a = Inr () \<and> a = b"
  by (auto simp: assertAcpApprovalBindingMatch_def bindingFields_def outcome_simps)

text \<open>The first field that differs is the one the refusal names.\<close>

lemma checks_first:
  "checks (map (\<lambda>x. ensure (P x) (e x)) xs) = (case dropWhile P xs of [] \<Rightarrow> Inr () | x # _ \<Rightarrow> Inl (e x))"
  by (induction xs) (auto simp: checks.simps(2) ensure_def)

lemma mismatch_first:
  assumes "validateAcpApprovalBinding a = Inr ()" "validateAcpApprovalBinding b = Inr ()"
  shows "assertAcpApprovalBindingMatch a b =
    (case dropWhile (\<lambda>x. snd (fst x) = snd (snd x)) (zip (bindingFields a) (bindingFields b)) of
       [] \<Rightarrow> Inr () | x # _ \<Rightarrow> Inl (AcpApprovalPolicyError (''Approval binding mismatch: '' @ fst (fst x))))"
proof -
  have "assertAcpApprovalBindingMatch a b = checks (map (\<lambda>x. ensure (snd (fst x) = snd (snd x))
      (AcpApprovalPolicyError (''Approval binding mismatch: '' @ fst (fst x)))) (zip (bindingFields a) (bindingFields b)))"
    using assms by (simp add: assertAcpApprovalBindingMatch_def checks.simps(2) case_prod_unfold)
  then show ?thesis by (simp only: checks_first)
qed

end
