(* ===== verification/Cost_Governance.thy ===== *)
theory Cost_Governance
  imports Approval_Bridge
begin

text \<open>
  \<open>packages/agent-control-plane/src/cost-governance.ts\<close>: the hashes of budget policies and ledger
  entries and the budget check.  \<open>bigint\<close> fields are \<open>int\<close>; \<open>canonical\<close> is a second canonical JSON text,
  which renders a \<open>bigint\<close> as a quoted decimal.  It is shown to be the text of the sorted object, so
  the injectivity of \<open>Js_Json\<close> applies to it.
\<close>

section \<open>Data\<close>

record CostLedgerBinding =
  lb_workspaceId :: string
  lb_usageId :: string
  lb_receiptId :: string
  lb_dispatchId :: string
  lb_sessionId :: string
  lb_runId :: string
  lb_taskId :: string
  lb_runtimeId :: string
  lb_connectionId :: string
  lb_sequence :: int
  lb_currency :: string
  lb_costMinorUnits :: int
  lb_computeUnits :: int
  lb_workspacePolicyId :: string
  lb_workspacePolicyHash :: string
  lb_taskPolicyId :: string
  lb_taskPolicyHash :: string
  lb_workspaceSpendMinorUnits :: int
  lb_taskSpendMinorUnits :: int
  lb_workspaceLimitMinorUnits :: int
  lb_taskLimitMinorUnits :: int
  lb_periodStart :: string
  lb_periodEnd :: string
  lb_recordedAt :: string

datatype BudgetScope = WORKSPACE_SCOPE | TASK_SCOPE

fun budgetScopeText :: "BudgetScope \<Rightarrow> string" where
  "budgetScopeText WORKSPACE_SCOPE = ''WORKSPACE''"
| "budgetScopeText TASK_SCOPE = ''TASK''"

record CostBudgetPolicyBinding =
  cbp_policyId :: string
  cbp_workspaceId :: string
  cbp_scope :: BudgetScope
  cbp_taskId :: "string option"
  cbp_currency :: string
  cbp_limitMinorUnits :: int
  cbp_periodStart :: string
  cbp_periodEnd :: string
  cbp_policyVersion :: string

datatype CostError = CostGovernancePolicyError string

section \<open>Canonical text\<close>

datatype cvalue =
    CBigInt int
  | CPlain json
  | CArr "cvalue list"
  | CObj "(string \<times> cvalue) list"

text \<open>
  \<open>CPlain\<close> holds \<open>null\<close>, booleans, numbers and strings.  The keys are sorted after their values are
  rendered; the comparator looks at the keys only.
\<close>

fun canonical :: "cvalue \<Rightarrow> string" where
  "canonical (CBigInt i) = json_text (JStr (int_text i))"
| "canonical (CPlain v) = json_text v"
| "canonical (CArr xs) = CHR ''['' # join_with '','' (map canonical xs) @ '']''"
| "canonical (CObj kvs) = CHR ''{'' # join_with '',''
     (map (\<lambda>(k, t). json_text (JStr k) @ '':'' @ t)
       (sortWith (\<lambda>l r. compareText (fst l) (fst r)) (map (\<lambda>(k, v). (k, canonical v)) kvs))) @ ''}''"

section \<open>Checks\<close>

definition CURRENCY :: regex where
  "CURRENCY = exactly 3 isUpper"

text \<open>\<open>ref\<close>: the approval reference check with this module's error.\<close>

definition costRef :: "string \<Rightarrow> string \<Rightarrow> CostError + unit" where
  "costRef value fld = (case validateAcpApprovalReference value fld of
     Inl _ \<Rightarrow> Inl (CostGovernancePolicyError (fld @ '' is invalid'')) | Inr _ \<Rightarrow> Inr ())"

definition assertCanonicalCurrency :: "string \<Rightarrow> CostError + unit" where
  "assertCanonicalCurrency value = ensure (regex_test CURRENCY value)
     (CostGovernancePolicyError ''currency must be ISO-style uppercase'')"

text \<open>
  \<open>new Date(s)\<close> with its validity and canonical-form tests: the time value when \<open>s\<close> is the text
  \<open>toISOString\<close> gives for it.
\<close>

definition canonicalDate :: "(string \<Rightarrow> int option) \<Rightarrow> string \<Rightarrow> int option" where
  "canonicalDate engine s = (case dateParse engine s of
     None \<Rightarrow> None | Some t \<Rightarrow> if toISOString t = Some s then Some t else None)"

definition canonicalPeriod :: "(string \<Rightarrow> int option) \<Rightarrow> string \<Rightarrow> string \<Rightarrow> CostError + int \<times> int" where
  "canonicalPeriod engine periodStart periodEnd =
     (case (canonicalDate engine periodStart, canonicalDate engine periodEnd) of
        (Some start, Some finish) \<Rightarrow> if \<not> finish \<le> start then Inr (start, finish)
          else Inl (CostGovernancePolicyError ''budget period must be canonical and ordered'')
      | _ \<Rightarrow> Inl (CostGovernancePolicyError ''budget period must be canonical and ordered''))"

definition policyValue :: "CostBudgetPolicyBinding \<Rightarrow> cvalue" where
  "policyValue b = CObj
     [(''schemaVersion'', CPlain (JNum (SafeInt 1))), (''policyId'', CPlain (JStr (cbp_policyId b))),
      (''workspaceId'', CPlain (JStr (cbp_workspaceId b))), (''scope'', CPlain (JStr (budgetScopeText (cbp_scope b)))),
      (''taskId'', CPlain (case cbp_taskId b of None \<Rightarrow> JNull | Some t \<Rightarrow> JStr t)),
      (''currency'', CPlain (JStr (cbp_currency b))), (''limitMinorUnits'', CBigInt (cbp_limitMinorUnits b)),
      (''periodStart'', CPlain (JStr (cbp_periodStart b))), (''periodEnd'', CPlain (JStr (cbp_periodEnd b))),
      (''policyVersion'', CPlain (JStr (cbp_policyVersion b)))]"

definition costBudgetPolicyHash :: "(string \<Rightarrow> int option) \<Rightarrow> (string \<Rightarrow> string) \<Rightarrow> CostBudgetPolicyBinding \<Rightarrow>
    CostError + string" where
  "costBudgetPolicyHash engine sha256 b =
     ebind (checks
       [costRef (cbp_policyId b) ''policyId'', costRef (cbp_workspaceId b) ''workspaceId'',
        costRef (cbp_policyVersion b) ''policyVersion'',
        (if cbp_scope b = TASK_SCOPE
         then (if \<not> truthy (cbp_taskId b) then Inl (CostGovernancePolicyError ''task policy requires taskId'')
               else costRef (the (cbp_taskId b)) ''taskId'')
         else ensure (cbp_taskId b = None) (CostGovernancePolicyError ''workspace policy cannot bind taskId'')),
        assertCanonicalCurrency (cbp_currency b),
        ensure (\<not> (cbp_limitMinorUnits b < 0 \<or> MAX_SAFE_INTEGER < cbp_limitMinorUnits b))
          (CostGovernancePolicyError ''limit must be a non-negative safe integer'')]) (\<lambda>_.
     ebind (canonicalPeriod engine (cbp_periodStart b) (cbp_periodEnd b)) (\<lambda>_.
     Inr (sha256 (canonical (policyValue b)))))"

definition ledgerValue :: "CostLedgerBinding \<Rightarrow> cvalue" where
  "ledgerValue b = CObj
     [(''schemaVersion'', CPlain (JNum (SafeInt 1))), (''workspaceId'', CPlain (JStr (lb_workspaceId b))),
      (''usageId'', CPlain (JStr (lb_usageId b))), (''receiptId'', CPlain (JStr (lb_receiptId b))),
      (''dispatchId'', CPlain (JStr (lb_dispatchId b))), (''sessionId'', CPlain (JStr (lb_sessionId b))),
      (''runId'', CPlain (JStr (lb_runId b))), (''taskId'', CPlain (JStr (lb_taskId b))),
      (''runtimeId'', CPlain (JStr (lb_runtimeId b))), (''connectionId'', CPlain (JStr (lb_connectionId b))),
      (''sequence'', CPlain (JNum (SafeInt (lb_sequence b)))), (''currency'', CPlain (JStr (lb_currency b))),
      (''costMinorUnits'', CBigInt (lb_costMinorUnits b)), (''computeUnits'', CBigInt (lb_computeUnits b)),
      (''workspacePolicyId'', CPlain (JStr (lb_workspacePolicyId b))),
      (''workspacePolicyHash'', CPlain (JStr (lb_workspacePolicyHash b))),
      (''taskPolicyId'', CPlain (JStr (lb_taskPolicyId b))), (''taskPolicyHash'', CPlain (JStr (lb_taskPolicyHash b))),
      (''workspaceSpendMinorUnits'', CBigInt (lb_workspaceSpendMinorUnits b)),
      (''taskSpendMinorUnits'', CBigInt (lb_taskSpendMinorUnits b)),
      (''workspaceLimitMinorUnits'', CBigInt (lb_workspaceLimitMinorUnits b)),
      (''taskLimitMinorUnits'', CBigInt (lb_taskLimitMinorUnits b)),
      (''periodStart'', CPlain (JStr (lb_periodStart b))), (''periodEnd'', CPlain (JStr (lb_periodEnd b))),
      (''recordedAt'', CPlain (JStr (lb_recordedAt b)))]"

definition ledgerAmountsOk :: "CostLedgerBinding \<Rightarrow> bool" where
  "ledgerAmountsOk b = (\<not> (lb_costMinorUnits b < 0 \<or> lb_computeUnits b < 0 \<or>
     lb_workspaceSpendMinorUnits b < lb_costMinorUnits b \<or> lb_taskSpendMinorUnits b < lb_costMinorUnits b \<or>
     lb_workspaceLimitMinorUnits b < lb_workspaceSpendMinorUnits b \<or> lb_taskLimitMinorUnits b < lb_taskSpendMinorUnits b \<or>
     (\<exists>v \<in> set [lb_costMinorUnits b, lb_computeUnits b, lb_workspaceSpendMinorUnits b, lb_taskSpendMinorUnits b,
        lb_workspaceLimitMinorUnits b, lb_taskLimitMinorUnits b]. MAX_SAFE_INTEGER < v)))"

definition costLedgerChecksum :: "(string \<Rightarrow> int option) \<Rightarrow> (string \<Rightarrow> string) \<Rightarrow> CostLedgerBinding \<Rightarrow>
    CostError + string" where
  "costLedgerChecksum engine sha256 b =
     ebind (checks
       ([costRef (lb_workspaceId b) ''workspaceId'', costRef (lb_usageId b) ''usageId'',
         costRef (lb_receiptId b) ''receiptId'', costRef (lb_dispatchId b) ''dispatchId'',
         costRef (lb_sessionId b) ''sessionId'', costRef (lb_runId b) ''runId'', costRef (lb_taskId b) ''taskId'',
         costRef (lb_runtimeId b) ''runtimeId'', costRef (lb_connectionId b) ''connectionId'',
         costRef (lb_workspacePolicyId b) ''workspacePolicyId'', costRef (lb_taskPolicyId b) ''taskPolicyId''] @
        map (\<lambda>(fld, digest). ensure (regex_test SHA_256 digest) (CostGovernancePolicyError (fld @ '' must be SHA-256'')))
          [(''workspacePolicyHash'', lb_workspacePolicyHash b), (''taskPolicyHash'', lb_taskPolicyHash b)] @
        [assertCanonicalCurrency (lb_currency b),
         ensure (isSafeInteger (lb_sequence b) \<and> \<not> lb_sequence b < 1)
           (CostGovernancePolicyError ''sequence must be a positive safe integer''),
         ensure (ledgerAmountsOk b) (CostGovernancePolicyError ''usage values cannot be negative'')])) (\<lambda>_.
     ebind (canonicalPeriod engine (lb_periodStart b) (lb_periodEnd b)) (\<lambda>(start, finish).
     ebind (ensure (case canonicalDate engine (lb_recordedAt b) of
         None \<Rightarrow> False | Some recorded \<Rightarrow> \<not> (recorded < start \<or> finish \<le> recorded))
       (CostGovernancePolicyError ''recordedAt must be canonical and within period'')) (\<lambda>_.
     Inr (sha256 (canonical (ledgerValue b))))))"

definition assertBudgetAllows :: "int \<Rightarrow> int \<Rightarrow> int \<Rightarrow> int \<Rightarrow> int \<Rightarrow> CostError + unit" where
  "assertBudgetAllows currentWorkspaceSpend workspaceLimit currentTaskSpend taskLimit delta = checks
     [ensure (\<not> (\<exists>v \<in> set [currentWorkspaceSpend, workspaceLimit, currentTaskSpend, taskLimit, delta].
         v < 0 \<or> MAX_SAFE_INTEGER < v)) (CostGovernancePolicyError ''budget values cannot be negative''),
      ensure (\<not> (workspaceLimit < currentWorkspaceSpend + delta \<or> taskLimit < currentTaskSpend + delta))
        (CostGovernancePolicyError ''usage exceeds governed budget'')]"

section \<open>The two canonical texts agree\<close>

fun plainJson :: "cvalue \<Rightarrow> json" where
  "plainJson (CBigInt i) = JStr (int_text i)"
| "plainJson (CPlain v) = v"
| "plainJson (CArr xs) = JArr (map plainJson xs)"
| "plainJson (CObj kvs) = JObj (map (\<lambda>(k, v). (k, plainJson v)) kvs)"

fun isScalar :: "json \<Rightarrow> bool" where
  "isScalar JNull = True"
| "isScalar (JBool b) = True"
| "isScalar (JNum n) = (case n of SafeInt _ \<Rightarrow> True | _ \<Rightarrow> False)"
| "isScalar (JStr s) = True"
| "isScalar _ = False"

text \<open>The values \<open>canonical\<close> is used on: the leaves are scalars that JSON represents.\<close>

fun cvalueOk :: "cvalue \<Rightarrow> bool" where
  "cvalueOk (CBigInt i) = True"
| "cvalueOk (CPlain v) = isScalar v"
| "cvalueOk (CArr xs) = (\<forall>x \<in> set xs. cvalueOk x)"
| "cvalueOk (CObj kvs) = (\<forall>kv \<in> set kvs. cvalueOk (snd kv))"

lemma isScalar_simps: "isScalar v \<Longrightarrow> normalizeJson v = v \<and> jsonClean v"
  by (cases v) (auto split: js_number.splits)

lemma jsonClean_plainJson: "cvalueOk v \<Longrightarrow> jsonClean (plainJson v)"
proof (induction v)
  case (CObj kvs)
  have "jsonClean (plainJson (snd kv))" if "kv \<in> set kvs" for kv
    using CObj.IH [OF that, of "snd kv"] CObj.prems that by (cases kv) (auto simp: Basic_BNFs.snds.simps)
  then show ?case by (auto simp: case_prod_unfold)
qed (auto simp: isScalar_simps)

lemma sortWith_map:
  assumes "\<And>x y. c' (f x) (f y) = c x y"
  shows "map f (sortWith c xs) = sortWith c' (map f xs)"
  unfolding sortWith_def by (induction xs) (auto simp: assms insert_by_map [where le' = "\<lambda>x y. c' x y \<le> 0"])

lemma canonical_eq: "cvalueOk v \<Longrightarrow> canonical v = canonicalText (plainJson v)"
proof (induction v)
  case (CPlain v)
  then show ?case by (simp add: canonicalText_def isScalar_simps)
next
  case (CArr xs)
  then have "map canonical xs = map (\<lambda>x. json_text (normalizeJson (plainJson x))) xs"
    by (auto simp: canonicalText_def)
  then show ?case by (simp add: canonicalText_def comp_def cong: map_cong)
next
  case (CObj kvs)
  let ?c = "\<lambda>l r. compareText (fst l) (fst r)"
  have ih: "canonical (snd kv) = canonicalText (plainJson (snd kv))" if "kv \<in> set kvs" for kv
    using CObj.IH [OF that, of "snd kv"] CObj.prems that by (cases kv) (auto simp: Basic_BNFs.snds.simps)
  define js where "js = map (\<lambda>(k, v). (k, normalizeJson (plainJson v))) kvs"
  have n: "normalizeJson (plainJson (CObj kvs)) = JObj (sortWith ?c js)"
    by (simp add: js_def comp_def case_prod_unfold)
  have "map (\<lambda>(k, v). (k, canonical v)) kvs = map (\<lambda>(k, v). (k, json_text v)) js"
    using ih by (auto simp: js_def canonicalText_def)
  then have "sortWith ?c (map (\<lambda>(k, v). (k, canonical v)) kvs) = map (\<lambda>(k, v). (k, json_text v)) (sortWith ?c js)"
    by (simp add: sortWith_map [of "\<lambda>l r. compareText (fst l) (fst r)"] case_prod_unfold)
  then have "canonical (CObj kvs) = CHR ''{'' # join_with '','' (map member_text (sortWith ?c js)) @ ''}''"
    by (simp add: member_text_def [abs_def] case_prod_unfold comp_def)
  also have "\<dots> = json_text (JObj (sortWith ?c js))"
    using jsonClean_plainJson [OF CObj.prems] n by (subst json_text_JObj) (metis jsonClean_normalize, simp)
  finally show ?case by (simp only: n canonicalText_def)
qed (simp add: canonicalText_def)

end
