(* ===== verification/Governance_Properties.thy ===== *)
theory Governance_Properties
  imports Cost_Governance
begin

text \<open>
  The properties of approvals and of cost governance: an approval holds for the exact work it was
  given for, digests bind every field, and a charge the budget admits is a charge the ledger records.
\<close>

section \<open>Sample bindings\<close>

definition demoDigest :: string where
  "demoDigest = replicate 64 (CHR ''0'')"

definition demoApproval :: AcpApprovalBinding where
  "demoApproval = \<lparr>ab_workspaceId = ''ws'', ab_objectiveId = ''obj'', ab_taskId = ''task'', ab_runId = ''run'',
     ab_actionCode = ''DEPLOY'', ab_exactTarget = ''prod'', ab_artifactVersionId = ''v1'', ab_evidenceHash = demoDigest,
     ab_policyVersion = ''p1'', ab_policyHash = demoDigest\<rparr>"

definition demoApprovalElsewhere :: AcpApprovalBinding where
  "demoApprovalElsewhere = demoApproval\<lparr>ab_exactTarget := ''staging''\<rparr>"

definition demoApprovalInput :: AcpApprovalRequestInput where
  "demoApprovalInput = AcpApprovalBinding.extend demoApproval
     \<lparr>ai_idempotencyKey = ''k1'', ai_expiresAt = ''1970-01-02T00:00:00.000Z''\<rparr>"

definition demoLedger :: CostLedgerBinding where
  "demoLedger = \<lparr>lb_workspaceId = ''ws'', lb_usageId = ''u1'', lb_receiptId = ''r1'', lb_dispatchId = ''d1'',
     lb_sessionId = ''s1'', lb_runId = ''run'', lb_taskId = ''task'', lb_runtimeId = ''rt'', lb_connectionId = ''c1'',
     lb_sequence = 1, lb_currency = ''EUR'', lb_costMinorUnits = 5, lb_computeUnits = 2, lb_workspacePolicyId = ''wp'',
     lb_workspacePolicyHash = demoDigest, lb_taskPolicyId = ''tp'', lb_taskPolicyHash = demoDigest,
     lb_workspaceSpendMinorUnits = 15, lb_taskSpendMinorUnits = 10, lb_workspaceLimitMinorUnits = 100,
     lb_taskLimitMinorUnits = 50, lb_periodStart = ''1970-01-01T00:00:00.000Z'', lb_periodEnd = ''1970-02-01T00:00:00.000Z'',
     lb_recordedAt = ''1970-01-02T00:00:00.000Z''\<rparr>"

lemma demo_valid:
  "validateAcpApprovalBinding demoApproval = Inr ()" "validateAcpApprovalBinding demoApprovalElsewhere = Inr ()"
  "validateAcpApprovalRequestInput (\<lambda>_. None) demoApprovalInput 1000 = Inr ()"
  "costLedgerChecksum (\<lambda>_. None) id demoLedger = Inr (canonical (ledgerValue demoLedger))"
  by code_simp+

definition demoPolicy :: CostBudgetPolicyBinding where
  "demoPolicy = \<lparr>cbp_policyId = ''tp'', cbp_workspaceId = ''ws'', cbp_scope = TASK_SCOPE, cbp_taskId = Some ''task'',
     cbp_currency = ''EUR'', cbp_limitMinorUnits = 50, cbp_periodStart = ''1970-01-01T00:00:00.000Z'',
     cbp_periodEnd = ''1970-02-01T00:00:00.000Z'', cbp_policyVersion = ''v1''\<rparr>"

lemma demo_policy_hash: "costBudgetPolicyHash (\<lambda>_. None) id demoPolicy = Inr (canonical (policyValue demoPolicy))"
  by code_simp

section \<open>Approvals\<close>

lemma first_failure:
  "dropWhile P xs = x # ys \<Longrightarrow> \<exists>i < length xs. xs ! i = x \<and> \<not> P x \<and> (\<forall>j < i. P (xs ! j))"
proof (induction xs)
  case (Cons a xs)
  show ?case
  proof (cases "P a")
    case True
    with Cons obtain i where "i < length xs" "xs ! i = x" "\<not> P x" "\<forall>j < i. P (xs ! j)" by auto
    with True show ?thesis by (intro exI [of _ "Suc i"]) (auto simp: less_Suc_eq_0_disj)
  qed (use Cons.prems in auto)
qed simp

lemma bindingFields_names: "j < 10 \<Longrightarrow> fst (bindingFields a ! j) = fst (bindingFields b ! j)"
proof -
  assume j: "j < 10"
  have "map fst (bindingFields a) = map fst (bindingFields b)" "length (bindingFields a) = 10" "length (bindingFields b) = 10"
    by (simp_all add: bindingFields_def)
  with j show ?thesis by (metis nth_map)
qed

text \<open>
  The comparison before an approved action runs accepts exactly the binding that was approved,
  and it is valid; two valid bindings that differ are refused with the name of the first field in
  which they differ.
\<close>

theorem approval_match_iff:
  "(assertAcpApprovalBindingMatch approved current = Inr () \<longleftrightarrow>
      validateAcpApprovalBinding approved = Inr () \<and> current = approved) \<and>
   (validateAcpApprovalBinding approved = Inr () \<and> validateAcpApprovalBinding current = Inr () \<and> current \<noteq> approved \<longrightarrow>
     (\<exists>i < length (bindingFields approved).
        (\<forall>j < i. bindingFields approved ! j = bindingFields current ! j) \<and>
        snd (bindingFields approved ! i) \<noteq> snd (bindingFields current ! i) \<and>
        assertAcpApprovalBindingMatch approved current =
          Inl (AcpApprovalPolicyError (''Approval binding mismatch: '' @ fst (bindingFields approved ! i)))))"
proof (intro conjI impI)
  show "assertAcpApprovalBindingMatch approved current = Inr () \<longleftrightarrow>
      validateAcpApprovalBinding approved = Inr () \<and> current = approved"
    by (auto simp: assertAcpApprovalBindingMatch_Inr)
next
  assume v: "validateAcpApprovalBinding approved = Inr () \<and> validateAcpApprovalBinding current = Inr () \<and> current \<noteq> approved"
  let ?z = "zip (bindingFields approved) (bindingFields current)"
  have l: "length (bindingFields approved) = 10" "length (bindingFields current) = 10" by (simp_all add: bindingFields_def)
  have n: "fst (bindingFields approved ! j) = fst (bindingFields current ! j)" if "j < 10" for j
    using that by (rule bindingFields_names)
  have "dropWhile (\<lambda>x. snd (fst x) = snd (snd x)) ?z \<noteq> []"
  proof
    assume "dropWhile (\<lambda>x. snd (fst x) = snd (snd x)) ?z = []"
    then have "assertAcpApprovalBindingMatch approved current = Inr ()" using v by (simp only: mismatch_first list.case)
    with v show False by (simp add: assertAcpApprovalBindingMatch_Inr)
  qed
  then obtain x xs where x: "dropWhile (\<lambda>x. snd (fst x) = snd (snd x)) ?z = x # xs" by (meson list.exhaust)
  from first_failure [OF x] obtain i where i: "i < length ?z" "?z ! i = x" "snd (fst x) \<noteq> snd (snd x)"
    "\<forall>j < i. snd (fst (?z ! j)) = snd (snd (?z ! j))" by blast
  have "assertAcpApprovalBindingMatch approved current =
    Inl (AcpApprovalPolicyError (''Approval binding mismatch: '' @ fst (fst x)))"
    using v by (simp only: mismatch_first x list.case)
  moreover have "x = (bindingFields approved ! i, bindingFields current ! i)" "i < 10" using i(1,2) l by auto
  moreover have "bindingFields approved ! j = bindingFields current ! j" if "j < i" for j
    using i(4) that n [of j] l \<open>i < 10\<close> by (simp add: prod_eq_iff)
  ultimately show "\<exists>i < length (bindingFields approved).
        (\<forall>j < i. bindingFields approved ! j = bindingFields current ! j) \<and>
        snd (bindingFields approved ! i) \<noteq> snd (bindingFields current ! i) \<and>
        assertAcpApprovalBindingMatch approved current =
          Inl (AcpApprovalPolicyError (''Approval binding mismatch: '' @ fst (bindingFields approved ! i)))"
    using i(3) l by (intro exI [of _ i]) simp
qed

theorem approval_match_iff_witness:
  "demoApprovalElsewhere \<noteq> demoApproval \<and>
   assertAcpApprovalBindingMatch demoApproval demoApprovalElsewhere \<noteq> Inr () \<and>
   (\<exists>i < length (bindingFields demoApproval). assertAcpApprovalBindingMatch demoApproval demoApprovalElsewhere =
     Inl (AcpApprovalPolicyError (''Approval binding mismatch: '' @ fst (bindingFields demoApproval ! i))))"
proof -
  have d: "demoApprovalElsewhere \<noteq> demoApproval" by (simp add: demoApproval_def demoApprovalElsewhere_def)
  with approval_match_iff [of demoApproval demoApprovalElsewhere] demo_valid(1,2) show ?thesis by blast
qed

text \<open>
  C14.  The hash of an approval binding binds all ten fields: two bindings with the same hash are the
  same binding, or their texts are a SHA-256 collision.
\<close>

theorem approval_hash_binds:
  assumes "computeAcpApprovalBindingHash sha256 a = Inr h" "computeAcpApprovalBindingHash sha256 b = Inr h"
  shows "(a :: AcpApprovalBinding) = b \<or> bindingText a \<noteq> bindingText b \<and> sha256 (bindingText a) = sha256 (bindingText b)"
proof -
  have "sha256 (bindingText a) = h" "sha256 (bindingText b) = h"
    using assms by (simp_all add: computeAcpApprovalBindingHash_def outcome_simps)
  then show ?thesis using bindingText_inj by metis
qed

theorem approval_hash_binds_witness:
  "computeAcpApprovalBindingHash id demoApproval \<noteq> computeAcpApprovalBindingHash id demoApprovalElsewhere"
proof
  assume e: "computeAcpApprovalBindingHash id demoApproval = computeAcpApprovalBindingHash id demoApprovalElsewhere"
  have h: "computeAcpApprovalBindingHash id demoApproval = Inr (bindingText demoApproval)"
    unfolding computeAcpApprovalBindingHash_def demo_valid by (simp only: ebind_simps id_apply)
  from approval_hash_binds [OF h h [unfolded e]] have "demoApproval = demoApprovalElsewhere"
    by (metis id_apply)
  then show False by (simp add: demoApproval_def demoApprovalElsewhere_def)
qed

text \<open>
An accepted approval request expires at a canonical instant after now and at most seven days
  later, whatever \<open>Date.parse\<close> does on other texts.
\<close>

theorem approval_expiry_bounded:
  assumes "validateAcpApprovalRequestInput engine input now = Inr ()"
  shows "\<exists>expiry. ai_expiresAt input = isoText expiry \<and> now < expiry \<and> expiry \<le> now + 604800000"
proof -
  obtain expiry where "toISOString expiry = Some (ai_expiresAt input)" "\<not> expiry \<le> now" "\<not> now + 604800000 < expiry"
    using assms by (auto simp: validateAcpApprovalRequestInput_def outcome_simps split: option.splits)
  then show ?thesis by (intro exI [of _ expiry]) (simp add: toISOString_def split: if_splits)
qed

theorem approval_expiry_bounded_witness:
  "\<exists>expiry. ai_expiresAt demoApprovalInput = isoText expiry \<and> 1000 < expiry \<and> expiry \<le> 1000 + 604800000"
  by (rule approval_expiry_bounded [OF demo_valid(3)])

section \<open>Costs\<close>

lemma costRef_Inr [outcome_simps]: "costRef v f = Inr u \<longleftrightarrow> validateAcpApprovalReference v f = Inr ()"
  by (auto simp: costRef_def split: sum.splits)

lemma canonicalDate_Some: "canonicalDate engine s = Some t \<Longrightarrow> s = isoText t"
  by (auto simp: canonicalDate_def toISOString_def split: option.splits if_splits)

lemma canonicalPeriod_Inr:
  "canonicalPeriod engine a b = Inr (start, finish) \<longleftrightarrow>
   canonicalDate engine a = Some start \<and> canonicalDate engine b = Some finish \<and> start < finish"
  by (auto simp: canonicalPeriod_def split: option.splits if_splits)

lemma cvalueOk_values: "cvalueOk (ledgerValue a)" "cvalueOk (policyValue p)"
  by (auto simp: ledgerValue_def policyValue_def split: option.splits)

lemma ledgerText_inj: "canonical (ledgerValue a) = canonical (ledgerValue b) \<longleftrightarrow> a = b"
proof
  assume "canonical (ledgerValue a) = canonical (ledgerValue b)"
  then have c: "canonicalText (plainJson (ledgerValue a)) = canonicalText (plainJson (ledgerValue b))"
    by (simp only: canonical_eq [OF cvalueOk_values(1)])
  have "map (\<lambda>kv. normalizeJson (snd kv)) (members (plainJson (ledgerValue a))) =
    map (\<lambda>kv. normalizeJson (snd kv)) (members (plainJson (ledgerValue b)))"
    by (rule canonicalText_members [OF c]) (simp_all add: ledgerValue_def)
  then show "a = b" by (simp add: ledgerValue_def)
qed simp

lemma budgetScopeText_inj [simp]: "budgetScopeText a = budgetScopeText b \<longleftrightarrow> a = b"
  by (cases a; cases b) auto

lemma policyText_inj: "canonical (policyValue a) = canonical (policyValue b) \<longleftrightarrow> a = b"
proof
  assume "canonical (policyValue a) = canonical (policyValue b)"
  then have c: "canonicalText (plainJson (policyValue a)) = canonicalText (plainJson (policyValue b))"
    by (simp only: canonical_eq [OF cvalueOk_values(2)])
  have "map (\<lambda>kv. normalizeJson (snd kv)) (members (plainJson (policyValue a))) =
    map (\<lambda>kv. normalizeJson (snd kv)) (members (plainJson (policyValue b)))"
    by (rule canonicalText_members [OF c]) (auto simp: policyValue_def split: option.splits)
  then show "a = b" by (simp add: policyValue_def split: option.splits)
qed simp

text \<open>
  The ledger and the budget check agree: a ledger entry has admissible amounts exactly when its
  compute units are a safe count and the budget check admits its cost on top of what was spent before
  it, in the workspace and in the task.
\<close>

theorem ledger_records_admitted_charges:
  "ledgerAmountsOk b \<longleftrightarrow> 0 \<le> lb_computeUnits b \<and> lb_computeUnits b \<le> MAX_SAFE_INTEGER \<and>
     assertBudgetAllows (lb_workspaceSpendMinorUnits b - lb_costMinorUnits b) (lb_workspaceLimitMinorUnits b)
       (lb_taskSpendMinorUnits b - lb_costMinorUnits b) (lb_taskLimitMinorUnits b) (lb_costMinorUnits b) = Inr ()"
  by (auto simp: ledgerAmountsOk_def assertBudgetAllows_def outcome_simps)

text \<open>
A ledger checksum is only computed for an entry recorded within its budget period whose
  spending stays within the workspace and the task limit, and it binds every field of the entry: two
  entries with the same checksum are the same entry, or their texts are a SHA-256 collision.
\<close>

theorem ledger_checksum_binds:
  assumes "costLedgerChecksum engine sha256 a = Inr h" "costLedgerChecksum engine sha256 b = Inr h"
  shows "(a = b \<or> canonical (ledgerValue a) \<noteq> canonical (ledgerValue b) \<and>
        sha256 (canonical (ledgerValue a)) = sha256 (canonical (ledgerValue b))) \<and>
    lb_workspaceSpendMinorUnits a \<le> lb_workspaceLimitMinorUnits a \<and> lb_taskSpendMinorUnits a \<le> lb_taskLimitMinorUnits a \<and>
    (\<exists>start recorded finish. lb_periodStart a = isoText start \<and> lb_recordedAt a = isoText recorded \<and>
       lb_periodEnd a = isoText finish \<and> start \<le> recorded \<and> recorded < finish)"
proof -
  have h: "sha256 (canonical (ledgerValue x)) = h" if "costLedgerChecksum engine sha256 x = Inr h" for x
    using that by (auto simp: costLedgerChecksum_def outcome_simps)
  obtain start finish recorded where p: "canonicalPeriod engine (lb_periodStart a) (lb_periodEnd a) = Inr (start, finish)"
    "canonicalDate engine (lb_recordedAt a) = Some recorded" "start \<le> recorded" "recorded < finish" and am: "ledgerAmountsOk a"
    using assms(1) by (auto simp: costLedgerChecksum_def outcome_simps split: option.splits)
  have "lb_workspaceSpendMinorUnits a \<le> lb_workspaceLimitMinorUnits a" "lb_taskSpendMinorUnits a \<le> lb_taskLimitMinorUnits a"
    using am by (simp_all add: ledgerAmountsOk_def)
  moreover have "lb_periodStart a = isoText start" "lb_recordedAt a = isoText recorded" "lb_periodEnd a = isoText finish"
    using p(1,2) by (auto simp: canonicalPeriod_Inr dest: canonicalDate_Some)
  moreover have "a = b \<or> canonical (ledgerValue a) \<noteq> canonical (ledgerValue b)"
    by (simp only: ledgerText_inj) blast
  ultimately show ?thesis
    using h [OF assms(1)] h [OF assms(2)] p(3,4) by metis
qed

theorem ledger_checksum_binds_witness:
  "\<exists>start recorded finish. lb_periodStart demoLedger = isoText start \<and> lb_recordedAt demoLedger = isoText recorded \<and>
     lb_periodEnd demoLedger = isoText finish \<and> start \<le> recorded \<and> recorded < finish"
  using ledger_checksum_binds [OF demo_valid(4) demo_valid(4)] by blast

text \<open>
The canonical text of the cost module is \<open>JSON.stringify\<close> of the value with its properties
  sorted, as the reservation module computes it, with each \<open>bigint\<close> as a quoted decimal; so two values
  have the same text exactly when they are the same up to the order of properties.
\<close>

theorem canonical_is_sorted_json:
  assumes "cvalueOk v" "cvalueOk w"
  shows "canonical v = json_text (normalizeJson (plainJson v)) \<and>
    (canonical v = canonical w \<longleftrightarrow> normalizeJson (plainJson v) = normalizeJson (plainJson w))"
  using assms by (simp add: canonical_eq canonicalText_def json_text_inj jsonClean_plainJson)

theorem canonical_is_sorted_json_witness:
  "canonical (CObj [(''b'', CBigInt 1), (''a'', CPlain JNull)]) = canonical (CObj [(''a'', CPlain JNull), (''b'', CBigInt 1)])"
proof -
  have "canonical (CObj [(''b'', CBigInt 1), (''a'', CPlain JNull)]) = canonical (CObj [(''a'', CPlain JNull), (''b'', CBigInt 1)]) \<longleftrightarrow>
    normalizeJson (plainJson (CObj [(''b'', CBigInt 1), (''a'', CPlain JNull)])) =
    normalizeJson (plainJson (CObj [(''a'', CPlain JNull), (''b'', CBigInt 1)]))"
    by (rule canonical_is_sorted_json [THEN conjunct2]) simp_all
  moreover have "normalizeJson (plainJson (CObj [(''b'', CBigInt 1), (''a'', CPlain JNull)])) =
    normalizeJson (plainJson (CObj [(''a'', CPlain JNull), (''b'', CBigInt 1)]))"
    by code_simp
  ultimately show ?thesis by blast
qed

text \<open>
  A budget policy is hashed only if its limit is a safe amount, its period is ordered, and it
  names a task exactly when its scope is a task; the hash binds every field of the policy.
\<close>

theorem budget_policy_hash_binds:
  assumes "costBudgetPolicyHash engine sha256 a = Inr h" "costBudgetPolicyHash engine sha256 b = Inr h"
  shows "(a = b \<or> canonical (policyValue a) \<noteq> canonical (policyValue b) \<and>
        sha256 (canonical (policyValue a)) = sha256 (canonical (policyValue b))) \<and>
    (cbp_scope a = TASK_SCOPE \<longleftrightarrow> cbp_taskId a \<noteq> None) \<and>
    0 \<le> cbp_limitMinorUnits a \<and> cbp_limitMinorUnits a \<le> MAX_SAFE_INTEGER \<and>
    (\<exists>start finish. cbp_periodStart a = isoText start \<and> cbp_periodEnd a = isoText finish \<and> start < finish)"
proof -
  have h: "sha256 (canonical (policyValue x)) = h" if "costBudgetPolicyHash engine sha256 x = Inr h" for x
    using that by (auto simp: costBudgetPolicyHash_def outcome_simps)
  obtain start finish where p: "canonicalPeriod engine (cbp_periodStart a) (cbp_periodEnd a) = Inr (start, finish)"
    using assms(1) by (auto simp: costBudgetPolicyHash_def outcome_simps)
  then have "cbp_periodStart a = isoText start" "cbp_periodEnd a = isoText finish" "start < finish"
    by (auto simp: canonicalPeriod_Inr dest: canonicalDate_Some)
  moreover have "cbp_scope a = TASK_SCOPE \<longleftrightarrow> cbp_taskId a \<noteq> None"
    using assms(1) by (auto simp: costBudgetPolicyHash_def truthy_iff outcome_simps split: if_splits)
  moreover have "0 \<le> cbp_limitMinorUnits a" "cbp_limitMinorUnits a \<le> MAX_SAFE_INTEGER"
    using assms(1) by (simp_all add: costBudgetPolicyHash_def outcome_simps)
  moreover have "a = b \<or> canonical (policyValue a) \<noteq> canonical (policyValue b)"
    by (simp only: policyText_inj) blast
  ultimately show ?thesis
    using h [OF assms(1)] h [OF assms(2)] by metis
qed

theorem budget_policy_hash_binds_witness:
  "cbp_scope demoPolicy = TASK_SCOPE \<longleftrightarrow> cbp_taskId demoPolicy \<noteq> None"
  using budget_policy_hash_binds [OF demo_policy_hash demo_policy_hash] by blast

end
