(* ===== verification/Broker_Reservation.thy ===== *)
theory Broker_Reservation
  imports Runtime_Routing Js_Json Js_Regex
begin

text \<open>
  \<open>packages/agent-control-plane/src/broker-reservation.ts\<close>: the validation of candidate snapshots and
  agent evidence, and the binding that a reservation of runtime capacity is recorded under.  The two
  reader interfaces are server-side ports; their snapshots are arguments here.  \<open>sha256\<close> is a
  parameter.
\<close>

section \<open>Data\<close>

definition BROKER_RESERVATION_TTL_MS :: int where
  "BROKER_RESERVATION_TTL_MS = 60000"

record TrustedBrokerCandidateSnapshot =
  ts_evidenceId :: EntityId
  ts_evidenceHash :: string
  ts_testOnly :: bool
  ts_candidates :: "RuntimeRoutingCandidate list"

record TrustedBrokerAgentEvidence =
  ae_evidenceId :: EntityId
  ae_evidenceHash :: string
  ae_workspaceId :: EntityId
  ae_runId :: EntityId
  ae_agentId :: EntityId
  ae_testOnly :: bool

record BrokerReservationBinding =
  br_workspaceId :: EntityId
  br_objectiveId :: EntityId
  br_taskId :: EntityId
  br_runId :: EntityId
  br_agentId :: EntityId
  br_agentEvidenceId :: EntityId
  br_agentEvidenceHash :: string
  br_runtimeId :: EntityId
  br_connectionId :: EntityId
  br_requestHash :: string
  br_candidateEvidenceId :: EntityId
  br_candidateEvidenceHash :: string
  br_taskPolicyHash :: string
  br_taskPolicyVersion :: string
  br_expectedRunVersion :: int
  br_selectedScoreBps :: int
  br_estimatedCostMinorUnits :: int
  br_reservedComputeUnits :: int
  br_maxConcurrentRuns :: int
  br_testOnly :: bool

text \<open>The argument of \<open>buildBrokerReservationBinding\<close>.\<close>

record BrokerReservationInput =
  bi_workspaceId :: string
  bi_objectiveId :: string
  bi_taskId :: string
  bi_runId :: string
  bi_agentId :: string
  bi_agentEvidence :: TrustedBrokerAgentEvidence
  bi_expectedRunVersion :: int
  bi_taskPolicyHash :: string
  bi_taskPolicyVersion :: string
  bi_request :: RuntimeRoutingRequest
  bi_snapshot :: TrustedBrokerCandidateSnapshot
  bi_decision :: RuntimeRoutingDecision

datatype ReservationError = BrokerReservationPolicyError string

section \<open>Patterns\<close>

definition RESERVATION_REFERENCE :: regex where
  "RESERVATION_REFERENCE = anchored isAlnum (cls_or isAlnum (one_of '':._/-'')) 0 255"

definition SECRET_LIKE :: regex where
  "SECRET_LIKE = (let tokenChar = cls_or isAlnum (one_of ''_-'') in alts
    [seqs [Lit ''-----BEGIN '', star (cls_or isUpper (one_of '' '')), Lit ''PRIVATE KEY-----''],
     seqs [WordBoundary, Lit ''Bearer'', Rep 1 None isWhiteSpace,
           Rep 12 None (cls_or isAlnum (one_of ''._~+/=-''))],
     seqs [WordBoundary, alts [Lit ''sk'', seqs [Lit ''gh'', Cls (one_of ''opusr'')], Lit ''github_pat'', Lit ''glpat'',
             seqs [Lit ''xox'', Cls (one_of ''baprs'')], Lit ''AKIA''],
           opt (one_of ''_-''), Rep 12 None tokenChar],
     seqs [WordBoundary, Lit ''eyJ'', Rep 8 None tokenChar, Lit ''.'', Rep 8 None tokenChar, Lit ''.'',
           Rep 8 None tokenChar]])"

definition PRIVATE_TEXT :: regex where
  "PRIVATE_TEXT = (let sep = opt (one_of ''-_. '') in alts
    [seqs [LitI ''chain'', sep, LitI ''of'', sep, LitI ''thought''],
     seqs [LitI ''private'', sep, LitI ''reasoning''],
     LitI ''password'', LitI ''credential'', seqs [LitI ''api'', sep, LitI ''key''],
     LitI ''transcript'', LitI ''prompt'', LitI ''secret''])"

definition DIGEST :: regex where
  "DIGEST = exactly 64 (cls_or (rng (CHR ''a'') (CHR ''f'')) isDigit)"

section \<open>Checks\<close>

definition reference :: "string \<Rightarrow> string \<Rightarrow> ReservationError + unit" where
  "reference value fld = ensure (\<not> (\<not> regex_test RESERVATION_REFERENCE value \<or> regex_test PRIVATE_TEXT value \<or>
       regex_test SECRET_LIKE value))
     (BrokerReservationPolicyError (fld @ '' must be a safe non-sensitive reference''))"

definition digest :: "string \<Rightarrow> string \<Rightarrow> ReservationError + unit" where
  "digest value fld = ensure (regex_test DIGEST value) (BrokerReservationPolicyError (fld @ '' must be a SHA-256 digest''))"

definition integer :: "int \<Rightarrow> string \<Rightarrow> int \<Rightarrow> ReservationError + unit" where
  "integer value fld maximum = ensure (\<not> (\<not> isSafeInteger value \<or> value < 0 \<or> maximum < value))
     (BrokerReservationPolicyError (fld @ '' must be a bounded non-negative integer''))"

definition sha256Canonical :: "(string \<Rightarrow> string) \<Rightarrow> json \<Rightarrow> string" where
  "sha256Canonical sha256 value = sha256 (canonicalText value)"

section \<open>The hashed values\<close>

abbreviation JInt :: "int \<Rightarrow> json" where
  "JInt i \<equiv> JNum (SafeInt i)"

abbreviation JTexts :: "string list \<Rightarrow> json" where
  "JTexts xs \<equiv> JArr (map JStr xs)"

fun sensitivityText :: "DataSensitivity \<Rightarrow> string" where
  "sensitivityText PUBLIC = ''PUBLIC''"
| "sensitivityText INTERNAL = ''INTERNAL''"
| "sensitivityText CONFIDENTIAL = ''CONFIDENTIAL''"
| "sensitivityText RESTRICTED = ''RESTRICTED''"

definition proofJson :: "'a RuntimeProof_scheme \<Rightarrow> json_record" where
  "proofJson p = [(''verified'', JBool (prf_verified p)), (''runtimeId'', JStr (prf_runtimeId p)),
     (''principalId'', JStr (prf_principalId p)), (''connectionId'', JStr (prf_connectionId p))]"

definition trustJson :: "RuntimeTrustEvidence \<Rightarrow> json" where
  "trustJson e = JObj [(''registration'', JObj (proofJson (te_registration e))),
     (''capabilityExchange'', JObj (proofJson (te_capabilityExchange e))),
     (''heartbeat'', JObj (proofJson (te_heartbeat e) @ [(''observedAt'', JStr (prf_observedAt (te_heartbeat e)))])),
     (''taskRoundTrip'', JObj (proofJson (te_taskRoundTrip e)))]"

definition grantJson :: "RoutingToolGrant \<Rightarrow> json" where
  "grantJson g = JObj [(''toolId'', JStr (rtg_toolId g)), (''scopes'', JTexts (rtg_scopes g))]"

definition candidateJson :: "RuntimeRoutingCandidate \<Rightarrow> json" where
  "candidateJson c = JObj
     [(''runtimeId'', JStr (rc_runtimeId c)), (''connectionId'', JStr (rc_connectionId c)),
      (''workspaceId'', JStr (rc_workspaceId c)),
      (''connectionStatus'', JStr (connectionStatusText (rc_connectionStatus c))),
      (''authenticatedPrincipalId'', JStr (rc_authenticatedPrincipalId c)),
      (''trustEvidence'', trustJson (rc_trustEvidence c)), (''capabilityIds'', JTexts (rc_capabilityIds c)),
      (''toolGrants'', JArr (map grantJson (rc_toolGrants c))),
      (''maximumDataSensitivity'', JStr (sensitivityText (rc_maximumDataSensitivity c))),
      (''securityTier'', JInt (rc_securityTier c)), (''reliabilityScoreBps'', JInt (rc_reliabilityScoreBps c)),
      (''qualityScoreBps'', JInt (rc_qualityScoreBps c)), (''expectedLatencyMs'', JInt (rc_expectedLatencyMs c)),
      (''estimatedCostMinorUnits'', JInt (rc_estimatedCostMinorUnits c)), (''activeRuns'', JInt (rc_activeRuns c)),
      (''maxConcurrentRuns'', JInt (rc_maxConcurrentRuns c)),
      (''remainingBudgetMinorUnits'', JInt (rc_remainingBudgetMinorUnits c)),
      (''remainingComputeUnits'', JInt (rc_remainingComputeUnits c))]"

definition candidatesJson :: "RuntimeRoutingCandidate list \<Rightarrow> json" where
  "candidatesJson cs = JArr (map candidateJson cs)"

definition requiredToolJson :: "RequiredTool \<Rightarrow> json" where
  "requiredToolJson t = JObj [(''toolId'', JStr (rqt_toolId t)), (''scope'', JStr (rqt_scope t))]"

text \<open>An absent \<open>weights\<close> property is not part of the text.\<close>

definition requestJson :: "RuntimeRoutingRequest \<Rightarrow> json" where
  "requestJson q = JObj
     ([(''id'', JStr (rr_id q)), (''workspaceId'', JStr (rr_workspaceId q)),
       (''requiredCapabilityIds'', JTexts (rr_requiredCapabilityIds q)),
       (''requiredTools'', JArr (map requiredToolJson (rr_requiredTools q))),
       (''dataSensitivity'', JStr (sensitivityText (rr_dataSensitivity q))),
       (''minimumSecurityTier'', JInt (rr_minimumSecurityTier q)),
       (''minimumReliabilityScoreBps'', JInt (rr_minimumReliabilityScoreBps q)),
       (''maximumLatencyMs'', JInt (rr_maximumLatencyMs q)),
       (''maximumCostMinorUnits'', JInt (rr_maximumCostMinorUnits q)),
       (''requiredComputeUnits'', JInt (rr_requiredComputeUnits q)),
       (''heartbeatFreshnessMs'', JInt (rr_heartbeatFreshnessMs q))] @
      (case rr_weights q of None \<Rightarrow> [] | Some w \<Rightarrow> [(''weights'', JObj (map (\<lambda>(k, n). (k, JInt n)) w))]))"

definition agentJson :: "string \<Rightarrow> string \<Rightarrow> string \<Rightarrow> bool \<Rightarrow> json" where
  "agentJson workspaceId runId agentId testOnly = JObj
     [(''schemaVersion'', JInt 1), (''workspaceId'', JStr workspaceId), (''runId'', JStr runId),
      (''agentId'', JStr agentId), (''testOnly'', JBool testOnly)]"

definition bindingJson :: "BrokerReservationBinding \<Rightarrow> json" where
  "bindingJson b = JObj
     [(''schemaVersion'', JInt 1), (''workspaceId'', JStr (br_workspaceId b)), (''objectiveId'', JStr (br_objectiveId b)),
      (''taskId'', JStr (br_taskId b)), (''runId'', JStr (br_runId b)), (''agentId'', JStr (br_agentId b)),
      (''agentEvidenceId'', JStr (br_agentEvidenceId b)), (''agentEvidenceHash'', JStr (br_agentEvidenceHash b)),
      (''runtimeId'', JStr (br_runtimeId b)), (''connectionId'', JStr (br_connectionId b)),
      (''requestHash'', JStr (br_requestHash b)), (''candidateEvidenceId'', JStr (br_candidateEvidenceId b)),
      (''candidateEvidenceHash'', JStr (br_candidateEvidenceHash b)), (''taskPolicyHash'', JStr (br_taskPolicyHash b)),
      (''taskPolicyVersion'', JStr (br_taskPolicyVersion b)), (''expectedRunVersion'', JInt (br_expectedRunVersion b)),
      (''selectedScoreBps'', JInt (br_selectedScoreBps b)),
      (''estimatedCostMinorUnits'', JInt (br_estimatedCostMinorUnits b)),
      (''reservedComputeUnits'', JInt (br_reservedComputeUnits b)), (''maxConcurrentRuns'', JInt (br_maxConcurrentRuns b)),
      (''testOnly'', JBool (br_testOnly b))]"

section \<open>Validation and binding\<close>

definition validateTrustedBrokerCandidateSnapshot :: "(string \<Rightarrow> string) \<Rightarrow> string \<Rightarrow> TrustedBrokerCandidateSnapshot \<Rightarrow>
    ReservationError + unit" where
  "validateTrustedBrokerCandidateSnapshot sha256 workspaceId snapshot = checks
     ([reference workspaceId ''workspaceId'',
       reference (ts_evidenceId snapshot) ''candidateEvidenceId'',
       digest (ts_evidenceHash snapshot) ''candidateEvidenceHash'',
       ensure (\<not> 1000 < length (ts_candidates snapshot))
         (BrokerReservationPolicyError ''Candidate snapshot exceeds the governed bound''),
       ensure (\<not> (\<exists>candidate \<in> set (ts_candidates snapshot). rc_workspaceId candidate \<noteq> workspaceId))
         (BrokerReservationPolicyError ''Candidate snapshot crosses workspace'')] @
      map (\<lambda>candidate. checks
        [reference (rc_runtimeId candidate) ''candidate.runtimeId'',
         reference (rc_connectionId candidate) ''candidate.connectionId'']) (ts_candidates snapshot) @
      [ensure (sha256Canonical sha256 (candidatesJson (ts_candidates snapshot)) = ts_evidenceHash snapshot)
         (BrokerReservationPolicyError ''Candidate snapshot digest mismatch'')])"

definition validateTrustedBrokerAgentEvidence :: "(string \<Rightarrow> string) \<Rightarrow> string \<Rightarrow> string \<Rightarrow> string \<Rightarrow>
    TrustedBrokerAgentEvidence \<Rightarrow> ReservationError + unit" where
  "validateTrustedBrokerAgentEvidence sha256 workspaceId runId agentId evidence = checks
     [reference workspaceId ''workspaceId'', reference runId ''runId'', reference agentId ''agentId'',
      reference (ae_evidenceId evidence) ''agentEvidenceId'',
      digest (ae_evidenceHash evidence) ''agentEvidenceHash'',
      ensure (\<not> (ae_workspaceId evidence \<noteq> workspaceId \<or> ae_runId evidence \<noteq> runId \<or> ae_agentId evidence \<noteq> agentId \<or>
          ae_evidenceHash evidence \<noteq>
            sha256Canonical sha256 (agentJson workspaceId runId agentId (ae_testOnly evidence))))
        (BrokerReservationPolicyError ''Agent evidence binding mismatch'')]"

definition selectedCandidate :: "RuntimeRoutingDecision \<Rightarrow> RuntimeRoutingCandidate list \<Rightarrow> RuntimeRoutingCandidate option" where
  "selectedCandidate decision candidates = find (\<lambda>candidate.
     rc_runtimeId candidate = rd_selectedRuntimeId decision \<and>
     rc_connectionId candidate = rd_selectedConnectionId decision) candidates"

text \<open>The checks of \<open>buildBrokerReservationBinding\<close> before and after the selected candidate is looked up.\<close>

definition reservationInputChecks :: "(string \<Rightarrow> string) \<Rightarrow> BrokerReservationInput \<Rightarrow> ReservationError + unit" where
  "reservationInputChecks sha256 input =
     (let request = bi_request input; decision = bi_decision input; agentEvidence = bi_agentEvidence input in checks
       [reference (bi_workspaceId input) ''workspaceId'', reference (bi_objectiveId input) ''objectiveId'',
        reference (bi_taskId input) ''taskId'', reference (bi_runId input) ''runId'',
        reference (bi_agentId input) ''agentId'', reference (bi_taskPolicyVersion input) ''taskPolicyVersion'',
        reference (ae_evidenceId agentEvidence) ''agentEvidenceId'',
        digest (bi_taskPolicyHash input) ''taskPolicyHash'',
        validateTrustedBrokerAgentEvidence sha256 (bi_workspaceId input) (bi_runId input) (bi_agentId input) agentEvidence,
        integer (bi_expectedRunVersion input) ''expectedRunVersion'' MAX_SAFE_INTEGER,
        ensure (\<not> bi_expectedRunVersion input < 1)
          (BrokerReservationPolicyError ''expectedRunVersion must be positive''),
        ensure (\<not> (rr_workspaceId request \<noteq> bi_workspaceId input \<or> rd_workspaceId decision \<noteq> bi_workspaceId input \<or>
            rd_requestId decision \<noteq> rr_id request))
          (BrokerReservationPolicyError ''Routing evidence binding mismatch''),
        validateTrustedBrokerCandidateSnapshot sha256 (bi_workspaceId input) (bi_snapshot input)])"

definition selectedChecks :: "RuntimeRoutingDecision \<Rightarrow> RuntimeRoutingRequest \<Rightarrow> RuntimeRoutingCandidate \<Rightarrow>
    ReservationError + unit" where
  "selectedChecks decision request selected = checks
     [integer (rd_selectedScoreBps decision) ''selectedScoreBps'' 10000,
      integer (rc_estimatedCostMinorUnits selected) ''estimatedCostMinorUnits'' MAX_SAFE_INTEGER,
      integer (rr_requiredComputeUnits request) ''reservedComputeUnits'' MAX_SAFE_INTEGER,
      integer (rc_maxConcurrentRuns selected) ''maxConcurrentRuns'' 100000,
      ensure (\<not> rc_maxConcurrentRuns selected < 1)
        (BrokerReservationPolicyError ''Selected runtime has no capacity'')]"

definition buildBrokerReservationBinding :: "(string \<Rightarrow> string) \<Rightarrow> BrokerReservationInput \<Rightarrow>
    ReservationError + BrokerReservationBinding" where
  "buildBrokerReservationBinding sha256 input =
     (let request = bi_request input; decision = bi_decision input; snapshot = bi_snapshot input;
          agentEvidence = bi_agentEvidence input in
     ebind (reservationInputChecks sha256 input) (\<lambda>_.
     case selectedCandidate decision (ts_candidates snapshot) of
       None \<Rightarrow> Inl (BrokerReservationPolicyError ''Selected candidate is absent'')
     | Some selected \<Rightarrow>
         ebind (selectedChecks decision request selected) (\<lambda>_.
         Inr \<lparr>br_workspaceId = bi_workspaceId input, br_objectiveId = bi_objectiveId input, br_taskId = bi_taskId input,
           br_runId = bi_runId input, br_agentId = bi_agentId input,
           br_agentEvidenceId = ae_evidenceId agentEvidence, br_agentEvidenceHash = ae_evidenceHash agentEvidence,
           br_runtimeId = rc_runtimeId selected, br_connectionId = rc_connectionId selected,
           br_requestHash = sha256Canonical sha256 (requestJson request),
           br_candidateEvidenceId = ts_evidenceId snapshot, br_candidateEvidenceHash = ts_evidenceHash snapshot,
           br_taskPolicyHash = bi_taskPolicyHash input, br_taskPolicyVersion = bi_taskPolicyVersion input,
           br_expectedRunVersion = bi_expectedRunVersion input, br_selectedScoreBps = rd_selectedScoreBps decision,
           br_estimatedCostMinorUnits = rc_estimatedCostMinorUnits selected,
           br_reservedComputeUnits = rr_requiredComputeUnits request,
           br_maxConcurrentRuns = rc_maxConcurrentRuns selected,
           br_testOnly = (ts_testOnly snapshot \<or> ae_testOnly agentEvidence)\<rparr>)))"

definition computeBrokerReservationEvidenceHash :: "(string \<Rightarrow> string) \<Rightarrow> BrokerReservationBinding \<Rightarrow> string" where
  "computeBrokerReservationEvidenceHash sha256 binding = sha256Canonical sha256 (bindingJson binding)"

section \<open>The hashed texts determine the values\<close>

lemma bindingJson_inj: "canonicalText (bindingJson a) = canonicalText (bindingJson b) \<longleftrightarrow> a = b"
proof
  assume "canonicalText (bindingJson a) = canonicalText (bindingJson b)"
  then have "map (\<lambda>kv. normalizeJson (snd kv)) (members (bindingJson a)) = map (\<lambda>kv. normalizeJson (snd kv)) (members (bindingJson b))"
    by (rule canonicalText_members) (simp_all add: bindingJson_def)
  then show "a = b" by (simp add: bindingJson_def)
qed simp

end
