(* ===== verification/Reservation_Properties.thy ===== *)
theory Reservation_Properties
  imports Broker_Reservation Runtime_Routing_Properties
begin

text \<open>
  The properties of broker reservations, among them the one that joins the broker and the reservation:
  a decision of the broker over the snapshot's evidence can always be reserved.
\<close>

section \<open>Snapshots\<close>

lemma sensitivityText_inj [simp]: "sensitivityText a = sensitivityText b \<longleftrightarrow> a = b"
  by (cases a; cases b) auto

lemma connectionStatusText_inj: "connectionStatusText a = connectionStatusText b \<longleftrightarrow> a = b"
  by (cases a; cases b) auto

lemma normalize_proofJson:
  "normalizeJson (JObj (proofJson p)) = normalizeJson (JObj (proofJson p')) \<longleftrightarrow> proofJson p = proofJson p'"
proof
  assume "normalizeJson (JObj (proofJson p)) = normalizeJson (JObj (proofJson p'))"
  from normalize_same_keys [OF this] show "proofJson p = proofJson p'" by (simp add: proofJson_def)
qed simp

lemma proofJson_inj: "proofJson p = proofJson p' \<longleftrightarrow> (p :: RuntimeProof) = p'"
  by (auto simp: proofJson_def)

lemma trustJson_inj: "normalizeJson (trustJson a) = normalizeJson (trustJson b) \<longleftrightarrow> a = b"
proof
  assume "normalizeJson (trustJson a) = normalizeJson (trustJson b)"
  from normalize_same_keys [OF this [unfolded trustJson_def]]
  have e: "normalizeJson (JObj (proofJson (te_registration a))) = normalizeJson (JObj (proofJson (te_registration b)))"
    "normalizeJson (JObj (proofJson (te_capabilityExchange a))) = normalizeJson (JObj (proofJson (te_capabilityExchange b)))"
    "normalizeJson (JObj (proofJson (te_taskRoundTrip a))) = normalizeJson (JObj (proofJson (te_taskRoundTrip b)))"
    "normalizeJson (JObj (proofJson (te_heartbeat a) @ [(''observedAt'', JStr (prf_observedAt (te_heartbeat a)))])) =
     normalizeJson (JObj (proofJson (te_heartbeat b) @ [(''observedAt'', JStr (prf_observedAt (te_heartbeat b)))]))"
    by (simp_all del: normalizeJson.simps(2))
  from normalize_same_keys [OF e(4)] have "te_heartbeat a = te_heartbeat b"
    by (simp add: proofJson_def)
  moreover have "te_registration a = te_registration b" "te_capabilityExchange a = te_capabilityExchange b"
    "te_taskRoundTrip a = te_taskRoundTrip b"
    using e(1-3) unfolding normalize_proofJson proofJson_inj by auto
  ultimately show "a = b" by simp
qed simp

lemma inj_map_normalize:
  assumes "\<And>x y. normalizeJson (f x) = normalizeJson (f y) \<longleftrightarrow> x = y"
  shows "map (normalizeJson \<circ> f) xs = map (normalizeJson \<circ> f) ys \<longleftrightarrow> xs = ys"
  using assms by (auto intro: map_injective simp: inj_on_def)

lemma grantJson_inj: "normalizeJson (grantJson a) = normalizeJson (grantJson b) \<longleftrightarrow> a = b"
proof
  assume "normalizeJson (grantJson a) = normalizeJson (grantJson b)"
  from normalize_same_keys [OF this [unfolded grantJson_def]] show "a = b"
    using inj_map_normalize [of JStr] by simp
qed simp

lemma candidateJson_inj: "normalizeJson (candidateJson a) = normalizeJson (candidateJson b) \<longleftrightarrow> a = b"
proof
  assume "normalizeJson (candidateJson a) = normalizeJson (candidateJson b)"
  from normalize_same_keys [OF this [unfolded candidateJson_def]] show "a = b"
    using inj_map_normalize [of JStr] inj_map_normalize [of grantJson, OF grantJson_inj]
    by (simp add: trustJson_inj connectionStatusText_inj)
qed simp

lemma jsonClean_candidates: "jsonClean (candidatesJson cs)"
  by (auto simp: candidatesJson_def candidateJson_def trustJson_def proofJson_def grantJson_def)

lemma candidatesJson_inj: "canonicalText (candidatesJson cs) = canonicalText (candidatesJson cs') \<longleftrightarrow> cs = cs'"
proof -
  have "canonicalText (candidatesJson cs) = canonicalText (candidatesJson cs') \<longleftrightarrow>
    normalizeJson (candidatesJson cs) = normalizeJson (candidatesJson cs')"
    by (rule canonicalText_inj [OF jsonClean_candidates jsonClean_candidates])
  also have "\<dots> \<longleftrightarrow> cs = cs'"
    using inj_map_normalize [of candidateJson, OF candidateJson_inj] by (simp add: candidatesJson_def)
  finally show ?thesis .
qed

section \<open>A reservation\<close>

lemma reference_Inr [outcome_simps]:
  "reference v f = Inr u \<longleftrightarrow> regex_test RESERVATION_REFERENCE v \<and> \<not> regex_test PRIVATE_TEXT v \<and> \<not> regex_test SECRET_LIKE v"
  by (simp add: reference_def)

lemma integer_Inr [outcome_simps]: "integer v f m = Inr u \<longleftrightarrow> isSafeInteger v \<and> 0 \<le> v \<and> v \<le> m"
  by (auto simp: integer_def)

lemma selectedCandidate_Some:
  "selectedCandidate d cs = Some c \<Longrightarrow> c \<in> set cs \<and> rc_runtimeId c = rd_selectedRuntimeId d \<and> rc_connectionId c = rd_selectedConnectionId d"
  by (auto simp: selectedCandidate_def find_Some_iff)

lemma selectedCandidate_None:
  "selectedCandidate d cs = None \<longleftrightarrow>
   \<not> (\<exists>c \<in> set cs. rc_runtimeId c = rd_selectedRuntimeId d \<and> rc_connectionId c = rd_selectedConnectionId d)"
  by (auto simp: selectedCandidate_def find_None_iff)

lemma reservationInputChecks_Inr [outcome_simps]:
  "reservationInputChecks sha256 input = Inr u \<longleftrightarrow>
   (\<forall>v \<in> {bi_workspaceId input, bi_objectiveId input, bi_taskId input, bi_runId input, bi_agentId input,
      bi_taskPolicyVersion input, ae_evidenceId (bi_agentEvidence input)}. reference v [] = Inr ()) \<and>
   digest (bi_taskPolicyHash input) ''taskPolicyHash'' = Inr () \<and>
   validateTrustedBrokerAgentEvidence sha256 (bi_workspaceId input) (bi_runId input) (bi_agentId input)
     (bi_agentEvidence input) = Inr () \<and>
   1 \<le> bi_expectedRunVersion input \<and> bi_expectedRunVersion input \<le> MAX_SAFE_INTEGER \<and>
   rr_workspaceId (bi_request input) = bi_workspaceId input \<and> rd_workspaceId (bi_decision input) = bi_workspaceId input \<and>
   rd_requestId (bi_decision input) = rr_id (bi_request input) \<and>
   validateTrustedBrokerCandidateSnapshot sha256 (bi_workspaceId input) (bi_snapshot input) = Inr ()"
  by (auto simp: reservationInputChecks_def Let_def isSafeInteger_def MAX_SAFE_INTEGER_def outcome_simps)

lemma selectedChecks_Inr [outcome_simps]:
  "selectedChecks d q c = Inr u \<longleftrightarrow> 0 \<le> rd_selectedScoreBps d \<and> rd_selectedScoreBps d \<le> 10000 \<and>
   0 \<le> rc_estimatedCostMinorUnits c \<and> rc_estimatedCostMinorUnits c \<le> MAX_SAFE_INTEGER \<and>
   0 \<le> rr_requiredComputeUnits q \<and> rr_requiredComputeUnits q \<le> MAX_SAFE_INTEGER \<and>
   1 \<le> rc_maxConcurrentRuns c \<and> rc_maxConcurrentRuns c \<le> 100000"
  by (auto simp: selectedChecks_def isSafeInteger_def MAX_SAFE_INTEGER_def outcome_simps)

lemma build_Inr:
  "buildBrokerReservationBinding sha256 input = Inr b \<Longrightarrow> reservationInputChecks sha256 input = Inr () \<and>
   (\<exists>c. selectedCandidate (bi_decision input) (ts_candidates (bi_snapshot input)) = Some c \<and>
     selectedChecks (bi_decision input) (bi_request input) c = Inr () \<and>
     br_workspaceId b = bi_workspaceId input \<and> br_runId b = bi_runId input \<and> br_agentId b = bi_agentId input \<and>
     br_runtimeId b = rc_runtimeId c \<and> br_connectionId b = rc_connectionId c \<and>
     br_requestHash b = sha256Canonical sha256 (requestJson (bi_request input)) \<and>
     br_candidateEvidenceHash b = ts_evidenceHash (bi_snapshot input) \<and>
     br_agentEvidenceHash b = ae_evidenceHash (bi_agentEvidence input) \<and>
     br_selectedScoreBps b = rd_selectedScoreBps (bi_decision input) \<and>
     br_estimatedCostMinorUnits b = rc_estimatedCostMinorUnits c \<and>
     br_reservedComputeUnits b = rr_requiredComputeUnits (bi_request input) \<and>
     br_maxConcurrentRuns b = rc_maxConcurrentRuns c \<and>
     br_testOnly b = (ts_testOnly (bi_snapshot input) \<or> ae_testOnly (bi_agentEvidence input)))"
  by (auto simp: buildBrokerReservationBinding_def Let_def ebind_Inr split: option.splits)

lemma build_succeeds:
  assumes "reservationInputChecks sha256 input = Inr ()"
    and "selectedCandidate (bi_decision input) (ts_candidates (bi_snapshot input)) = Some c"
    and "selectedChecks (bi_decision input) (bi_request input) c = Inr ()"
  shows "\<exists>b. buildBrokerReservationBinding sha256 input = Inr b"
  using assms by (simp add: buildBrokerReservationBinding_def Let_def)

lemma snapshot_Inr:
  assumes "validateTrustedBrokerCandidateSnapshot sha256 w snapshot = Inr ()"
  shows "\<forall>c \<in> set (ts_candidates snapshot). rc_workspaceId c = w"
    "ts_evidenceHash snapshot = sha256Canonical sha256 (candidatesJson (ts_candidates snapshot))"
  using assms by (auto simp: validateTrustedBrokerCandidateSnapshot_def outcome_simps)

lemma agentEvidence_Inr:
  assumes "validateTrustedBrokerAgentEvidence sha256 w r a e = Inr ()"
  shows "ae_workspaceId e = w \<and> ae_runId e = r \<and> ae_agentId e = a \<and>
    ae_evidenceHash e = sha256Canonical sha256 (agentJson w r a (ae_testOnly e))"
  using assms by (simp add: validateTrustedBrokerAgentEvidence_def outcome_simps)

lemma reservation_candidates:
  assumes "buildBrokerReservationBinding sha256 input = Inr b"
  shows "br_candidateEvidenceHash b = sha256Canonical sha256 (candidatesJson (ts_candidates (bi_snapshot input)))"
  using build_Inr [OF assms] snapshot_Inr(2) unfolding reservationInputChecks_Inr by metis

lemma route_ids:
  assumes "route engine clock s cx q = Inr d"
  shows "rd_workspaceId d = rr_workspaceId q \<and> rd_requestId d = rr_id q"
  using assms by (auto simp: route_routable [OF route_Inr_routable [OF assms]] split: list.splits)

lemma candidate_cost_safe: "candidateChecks c = Inr () \<Longrightarrow> rc_estimatedCostMinorUnits c \<le> MAX_SAFE_INTEGER"
  by (simp add: candidateChecks_def outcome_simps)

lemma request_compute:
  "validateRequest cx q = Inr () \<Longrightarrow> 0 \<le> rr_requiredComputeUnits q \<and> rr_requiredComputeUnits q \<le> MAX_SAFE_INTEGER"
  by (simp add: validateRequest_def outcome_simps)

section \<open>Sample reservation\<close>

text \<open>A digest function with the shape of SHA-256 output; nothing else is needed of it here.\<close>

definition constantDigest :: "string \<Rightarrow> string" where
  "constantDigest _ = replicate 64 (CHR ''0'')"

definition demoSnapshot :: TrustedBrokerCandidateSnapshot where
  "demoSnapshot = \<lparr>ts_evidenceId = ''ev'', ts_evidenceHash = replicate 64 (CHR ''0''), ts_testOnly = False,
     ts_candidates = [demoFirst, demoSecond]\<rparr>"

definition demoReservation :: "RuntimeRoutingDecision \<Rightarrow> BrokerReservationInput" where
  "demoReservation decision = \<lparr>bi_workspaceId = ''ws'', bi_objectiveId = ''obj'', bi_taskId = ''task'', bi_runId = ''run'',
     bi_agentId = ''agent'', bi_agentEvidence = \<lparr>ae_evidenceId = ''ae'', ae_evidenceHash = replicate 64 (CHR ''0''),
       ae_workspaceId = ''ws'', ae_runId = ''run'', ae_agentId = ''agent'', ae_testOnly = True\<rparr>,
     bi_expectedRunVersion = 1, bi_taskPolicyHash = replicate 64 (CHR ''0''), bi_taskPolicyVersion = ''v1'',
     bi_request = demoRequest 8000, bi_snapshot = demoSnapshot, bi_decision = decision\<rparr>"

definition demoDecision :: RuntimeRoutingDecision where
  "demoDecision = (case route noEngine 5000 demoBroker demoOperator (demoRequest 8000) of
     Inr d \<Rightarrow> d
   | Inl _ \<Rightarrow> \<lparr>rd_requestId = [], rd_workspaceId = [], rd_evaluatedAt = [], rd_selectedRuntimeId = [],
       rd_selectedConnectionId = [], rd_selectedScoreBps = 0, rd_evaluations = []\<rparr>)"

lemma demoDecision_route: "route noEngine 5000 demoBroker demoOperator (demoRequest 8000) = Inr demoDecision"
  using demo_route by (auto simp: succeeds_iff demoDecision_def)

lemma demo_snapshot_valid: "validateTrustedBrokerCandidateSnapshot constantDigest ''ws'' demoSnapshot = Inr ()"
  by code_simp

lemma demo_input_valid:
  "reference ''ws'' [] = Inr ()" "reference ''obj'' [] = Inr ()" "reference ''task'' [] = Inr ()" "reference ''run'' [] = Inr ()"
  "reference ''agent'' [] = Inr ()" "reference ''v1'' [] = Inr ()" "reference ''ae'' [] = Inr ()"
  "digest (replicate 64 (CHR ''0'')) ''taskPolicyHash'' = Inr ()"
  "validateTrustedBrokerAgentEvidence constantDigest ''ws'' ''run'' ''agent''
     \<lparr>ae_evidenceId = ''ae'', ae_evidenceHash = replicate 64 (CHR ''0''), ae_workspaceId = ''ws'', ae_runId = ''run'',
      ae_agentId = ''agent'', ae_testOnly = True\<rparr> = Inr ()"
  by code_simp+

section \<open>Properties\<close>

text \<open>
  C20.  A reservation is bound to what was routed: the reserved connection is a candidate of the trusted
  snapshot in the reserving workspace, with its cost and capacity; the decision answers this request;
  the agent evidence is about this run and agent; both evidence digests are the digests of their
  content; and the reservation is marked test-only as soon as one of its evidences is.
\<close>

theorem reservation_binding_sound:
  assumes "buildBrokerReservationBinding sha256 input = Inr b"
  shows "(\<exists>c \<in> set (ts_candidates (bi_snapshot input)). rc_workspaceId c = br_workspaceId b \<and>
      br_runtimeId b = rc_runtimeId c \<and> br_connectionId b = rc_connectionId c \<and>
      rd_selectedRuntimeId (bi_decision input) = rc_runtimeId c \<and> rd_selectedConnectionId (bi_decision input) = rc_connectionId c \<and>
      br_estimatedCostMinorUnits b = rc_estimatedCostMinorUnits c \<and> br_maxConcurrentRuns b = rc_maxConcurrentRuns c \<and>
      1 \<le> rc_maxConcurrentRuns c \<and> rc_maxConcurrentRuns c \<le> 100000) \<and>
    rr_workspaceId (bi_request input) = br_workspaceId b \<and> rd_requestId (bi_decision input) = rr_id (bi_request input) \<and>
    ae_workspaceId (bi_agentEvidence input) = br_workspaceId b \<and> ae_runId (bi_agentEvidence input) = br_runId b \<and>
    ae_agentId (bi_agentEvidence input) = br_agentId b \<and>
    br_candidateEvidenceHash b = sha256Canonical sha256 (candidatesJson (ts_candidates (bi_snapshot input))) \<and>
    br_agentEvidenceHash b = sha256Canonical sha256
      (agentJson (br_workspaceId b) (br_runId b) (br_agentId b) (ae_testOnly (bi_agentEvidence input))) \<and>
    (br_testOnly b \<longleftrightarrow> ts_testOnly (bi_snapshot input) \<or> ae_testOnly (bi_agentEvidence input))"
proof -
  from build_Inr [OF assms] obtain c where ok: "reservationInputChecks sha256 input = Inr ()"
    and c: "selectedCandidate (bi_decision input) (ts_candidates (bi_snapshot input)) = Some c"
    and sel: "selectedChecks (bi_decision input) (bi_request input) c = Inr ()"
    and b: "br_workspaceId b = bi_workspaceId input" "br_runId b = bi_runId input" "br_agentId b = bi_agentId input"
      "br_runtimeId b = rc_runtimeId c" "br_connectionId b = rc_connectionId c"
      "br_candidateEvidenceHash b = ts_evidenceHash (bi_snapshot input)"
      "br_agentEvidenceHash b = ae_evidenceHash (bi_agentEvidence input)"
      "br_estimatedCostMinorUnits b = rc_estimatedCostMinorUnits c" "br_maxConcurrentRuns b = rc_maxConcurrentRuns c"
      "br_testOnly b = (ts_testOnly (bi_snapshot input) \<or> ae_testOnly (bi_agentEvidence input))" by blast
  have v: "validateTrustedBrokerCandidateSnapshot sha256 (bi_workspaceId input) (bi_snapshot input) = Inr ()"
    "validateTrustedBrokerAgentEvidence sha256 (bi_workspaceId input) (bi_runId input) (bi_agentId input)
       (bi_agentEvidence input) = Inr ()"
    and m: "rr_workspaceId (bi_request input) = bi_workspaceId input" "rd_requestId (bi_decision input) = rr_id (bi_request input)"
    using ok unfolding reservationInputChecks_Inr by auto
  have "1 \<le> rc_maxConcurrentRuns c" "rc_maxConcurrentRuns c \<le> 100000" using sel unfolding selectedChecks_Inr by auto
  with selectedCandidate_Some [OF c] snapshot_Inr [OF v(1)] agentEvidence_Inr [OF v(2)] b m show ?thesis
    by (intro conjI bexI [of _ c]) auto
qed

text \<open>
  The evidence hash binds the reservation and the snapshot it was made from: two reservations with
  the same hash are the same reservation made from the same candidates, or one of the two pairs of
  hashed texts is a SHA-256 collision.
\<close>

theorem reservation_hash_binds:
  assumes "buildBrokerReservationBinding sha256 input = Inr a" "buildBrokerReservationBinding sha256 input' = Inr b"
    and "computeBrokerReservationEvidenceHash sha256 a = computeBrokerReservationEvidenceHash sha256 b"
  shows "a = b \<and> ts_candidates (bi_snapshot input) = ts_candidates (bi_snapshot input') \<or>
    (\<exists>(x, y) \<in> {(canonicalText (bindingJson a), canonicalText (bindingJson b)),
        (canonicalText (candidatesJson (ts_candidates (bi_snapshot input))),
         canonicalText (candidatesJson (ts_candidates (bi_snapshot input'))))}. x \<noteq> y \<and> sha256 x = sha256 y)"
proof (cases "a = b")
  case True
  have h: "br_candidateEvidenceHash x = sha256 (canonicalText (candidatesJson (ts_candidates (bi_snapshot i))))"
    if "buildBrokerReservationBinding sha256 i = Inr x" for i x
    using reservation_candidates [OF that] by (simp add: sha256Canonical_def)
  show ?thesis
    using h [OF assms(1)] h [OF assms(2)] True
      candidatesJson_inj [of "ts_candidates (bi_snapshot input)" "ts_candidates (bi_snapshot input')"] by auto
next
  case False
  with assms(3) bindingJson_inj [of a b] show ?thesis
    by (auto simp: computeBrokerReservationEvidenceHash_def sha256Canonical_def)
qed

text \<open>
  C22.  A routed request can be reserved.  When the broker routes a request over the candidates of a
  valid snapshot and the task, run and agent identifiers and evidence are valid, building the
  reservation succeeds and reserves the connection the broker selected, at its score, provided the
  runtimes stay within the reservation's capacity bound of 100,000 runs.
\<close>

theorem routed_decision_reservable:
  assumes "brokerReachable s" "route engine clock s cx (bi_request input) = Inr (bi_decision input)"
    and "set (ts_candidates (bi_snapshot input)) = set (workspaceCandidates s (cx_workspaceId cx))"
    and "validateTrustedBrokerCandidateSnapshot sha256 (bi_workspaceId input) (bi_snapshot input) = Inr ()"
    and "validateTrustedBrokerAgentEvidence sha256 (bi_workspaceId input) (bi_runId input) (bi_agentId input)
      (bi_agentEvidence input) = Inr ()"
    and "cx_workspaceId cx = bi_workspaceId input"
    and "\<forall>v \<in> {bi_workspaceId input, bi_objectiveId input, bi_taskId input, bi_runId input, bi_agentId input,
      bi_taskPolicyVersion input, ae_evidenceId (bi_agentEvidence input)}. reference v [] = Inr ()"
    and "digest (bi_taskPolicyHash input) ''taskPolicyHash'' = Inr ()"
    and "1 \<le> bi_expectedRunVersion input" "bi_expectedRunVersion input \<le> MAX_SAFE_INTEGER"
    and "\<forall>c \<in> set (ts_candidates (bi_snapshot input)). rc_maxConcurrentRuns c \<le> 100000"
  shows "\<exists>b. buildBrokerReservationBinding sha256 input = Inr b \<and>
    br_runtimeId b = rd_selectedRuntimeId (bi_decision input) \<and>
    br_connectionId b = rd_selectedConnectionId (bi_decision input) \<and>
    br_selectedScoreBps b = rd_selectedScoreBps (bi_decision input)"
proof -
  let ?q = "bi_request input" and ?d = "bi_decision input"
  have i: "brokerInv s" using assms(1) by (rule broker.reach_inv)
  have r: "routable s cx ?q clock" using assms(2) by (rule route_Inr_routable)
  then have q: "validateRequest cx ?q = Inr ()" by (simp add: routable_def)
  have ids: "rd_workspaceId ?d = rr_workspaceId ?q" "rd_requestId ?d = rr_id ?q"
    using route_ids [OF assms(2)] by auto
  from route_selected [OF i assms(2)] obtain c where
    c: "c \<in> set (workspaceCandidates s (cx_workspaceId cx))" "admissible engine ?q c clock"
    "rd_selectedRuntimeId ?d = rc_runtimeId c" "rd_selectedConnectionId ?d = rc_connectionId c"
    "rd_selectedScoreBps ?d = weightedScore (requestWeights ?q) (scoreFactors ?q c)" by blast
  have ok: "reservationInputChecks sha256 input = Inr ()"
    unfolding reservationInputChecks_Inr using assms(4-10) ids request_ranges(3) [OF q] by auto
  obtain c' where c': "selectedCandidate ?d (ts_candidates (bi_snapshot input)) = Some c'"
    using c assms(3) selectedCandidate_None [of ?d "ts_candidates (bi_snapshot input)"] by (metis not_None_eq)
  have m: "c' \<in> set (workspaceCandidates s (cx_workspaceId cx))" "c' \<in> set (ts_candidates (bi_snapshot input))"
    using selectedCandidate_Some [OF c'] assms(3) by auto
  have v: "candidateChecks c' = Inr ()" using brokerInvD [OF i m(1)] by simp
  have sc: "0 \<le> rd_selectedScoreBps ?d" "rd_selectedScoreBps ?d \<le> 10000"
    using weightedScore_bounds [OF request_ranges(4) [OF q]] scoreFactors_bounds [OF admissibleD(1) [OF c(2)]] c(5) by auto
  have "selectedChecks ?d ?q c' = Inr ()"
    unfolding selectedChecks_Inr
    using sc candidate_ranges [OF v] candidate_cost_safe [OF v] request_compute [OF q] assms(11) m(2) by auto
  from build_succeeds [OF ok c' this] obtain b where b: "buildBrokerReservationBinding sha256 input = Inr b" by blast
  with build_Inr [OF b] c' selectedCandidate_Some [OF c'] show ?thesis by auto
qed

lemma demo_candidates: "set (ts_candidates demoSnapshot) = set (workspaceCandidates demoBroker (cx_workspaceId demoOperator))"
  by (simp add: demoSnapshot_def workspaceCandidates_def demoBroker_store mvalues_def demoFirst_def demoSecond_def
      demoCandidate_def demoOperator_def)

theorem routed_decision_reservable_witness:
  "\<exists>b. buildBrokerReservationBinding constantDigest (demoReservation demoDecision) = Inr b \<and>
     br_runtimeId b = rd_selectedRuntimeId demoDecision"
proof -
  let ?i = "demoReservation demoDecision"
  have "\<exists>b. buildBrokerReservationBinding constantDigest ?i = Inr b \<and>
    br_runtimeId b = rd_selectedRuntimeId (bi_decision ?i) \<and> br_connectionId b = rd_selectedConnectionId (bi_decision ?i) \<and>
    br_selectedScoreBps b = rd_selectedScoreBps (bi_decision ?i)"
  proof (rule routed_decision_reservable [OF demoBroker_reachable(1)])
    show "route noEngine 5000 demoBroker demoOperator (bi_request ?i) = Inr (bi_decision ?i)"
      by (simp add: demoReservation_def demoDecision_route)
    show "set (ts_candidates (bi_snapshot ?i)) = set (workspaceCandidates demoBroker (cx_workspaceId demoOperator))"
      using demo_candidates by (simp add: demoReservation_def)
    show "validateTrustedBrokerCandidateSnapshot constantDigest (bi_workspaceId ?i) (bi_snapshot ?i) = Inr ()"
      using demo_snapshot_valid by (simp add: demoReservation_def)
    show "validateTrustedBrokerAgentEvidence constantDigest (bi_workspaceId ?i) (bi_runId ?i) (bi_agentId ?i)
      (bi_agentEvidence ?i) = Inr ()"
      using demo_input_valid by (simp add: demoReservation_def)
    show "\<forall>c \<in> set (ts_candidates (bi_snapshot ?i)). rc_maxConcurrentRuns c \<le> 100000"
      by (simp add: demoReservation_def demoSnapshot_def demoFirst_def demoSecond_def demoCandidate_def)
  qed (use demo_input_valid in \<open>simp_all add: demoReservation_def demoOperator_def MAX_SAFE_INTEGER_def\<close>)
  then show ?thesis by (auto simp: demoReservation_def)
qed

lemma demo_build: "succeeds (buildBrokerReservationBinding constantDigest (demoReservation demoDecision))"
proof -
  have "selectedCandidate demoDecision [demoFirst, demoSecond] = Some demoSecond"
    unfolding demoDecision_def by code_simp
  moreover have "selectedChecks demoDecision (demoRequest 8000) demoSecond = Inr ()"
    unfolding demoDecision_def by code_simp
  moreover have "rd_workspaceId demoDecision = ''ws'' \<and> rd_requestId demoDecision = ''req''"
    using route_ids [OF demoDecision_route] by (simp add: demoRequest_def)
  moreover have "reservationInputChecks constantDigest (demoReservation demoDecision) = Inr ()"
    using calculation(3) demo_input_valid demo_snapshot_valid
    by (simp add: reservationInputChecks_Inr demoReservation_def demoRequest_def MAX_SAFE_INTEGER_def)
  ultimately show ?thesis
    by (auto simp: succeeds_iff demoReservation_def demoSnapshot_def intro!: build_succeeds)
qed

theorem reservation_binding_sound_witness:
  "\<exists>b. buildBrokerReservationBinding constantDigest (demoReservation demoDecision) = Inr b \<and> br_testOnly b"
proof -
  obtain b where b: "buildBrokerReservationBinding constantDigest (demoReservation demoDecision) = Inr b"
    using demo_build by (auto simp: succeeds_iff)
  from reservation_binding_sound [OF b] have "br_testOnly b" by (simp add: demoReservation_def)
  with b show ?thesis by blast
qed

theorem reservation_hash_binds_witness:
  "\<exists>b. buildBrokerReservationBinding constantDigest (demoReservation demoDecision) = Inr b \<and>
     (b = b \<and> ts_candidates demoSnapshot = ts_candidates demoSnapshot \<or>
      (\<exists>(x, y) \<in> {(canonicalText (bindingJson b), canonicalText (bindingJson b)),
        (canonicalText (candidatesJson (ts_candidates demoSnapshot)),
         canonicalText (candidatesJson (ts_candidates demoSnapshot)))}. x \<noteq> y \<and> constantDigest x = constantDigest y))"
proof -
  obtain b where b: "buildBrokerReservationBinding constantDigest (demoReservation demoDecision) = Inr b"
    using demo_build by (auto simp: succeeds_iff)
  have "bi_snapshot (demoReservation demoDecision) = demoSnapshot" by (simp add: demoReservation_def)
  with b reservation_hash_binds [OF b b refl] show ?thesis by metis
qed

end
