(* ===== verification/Agent_Factory.thy ===== *)
theory Agent_Factory
  imports Events
begin

text \<open>
  \<open>packages/agent-control-plane/src/agent-factory.ts\<close>: templates of agents, and agents instantiated from
  them under limits.  An agent may have a parent; what it may do is bounded by its parent, by its
  template and by the limits of the factory.  Every public method of \<open>DynamicAgentFactory\<close> is a
  definition; the operational event log is the one of \<open>Events\<close>.  Checks on the dynamic shape of typed
  arguments (exact keys, dense arrays, union members) hold for the records and datatypes used here.
\<close>

section \<open>Data\<close>

datatype AgentRetention = DELETE_ON_COMPLETION | ARCHIVE

datatype AgentLifecycle = A_ACTIVE | A_COMPLETED | A_FAILED | A_ARCHIVED | A_DELETED

record AgentFactoryLimits =
  lim_maxAgents :: int
  lim_maxAgentsPerWorkspace :: int
  lim_maxChildrenPerAgent :: int
  lim_maxNestingDepth :: int
  lim_maxConcurrentAgents :: int
  lim_maxRuntimeMs :: int
  lim_maxRetries :: int
  lim_maxBudgetMinorUnits :: int
  lim_maxComputeUnits :: int

record FactoryToolGrant =
  fg_toolId :: EntityId
  fg_scopes :: "string list"

record AgentTemplate =
  tpl_id :: EntityId
  tpl_version :: int
  tpl_workspaceId :: EntityId
  tpl_role :: string
  tpl_department :: string
  tpl_repositoryScopes :: "string list"
  tpl_environmentScopes :: "string list"
  tpl_dataScopes :: "string list"
  tpl_capabilityIds :: "EntityId list"
  tpl_toolGrants :: "FactoryToolGrant list"
  tpl_maximumAuthority :: AuthorityLevel
  tpl_maximumRuntimeMs :: int
  tpl_maximumRetries :: int
  tpl_maximumChildren :: int
  tpl_maximumBudgetMinorUnits :: int
  tpl_maximumComputeUnits :: int
  tpl_retention :: AgentRetention

record AgentInstantiationRequest =
  fr_id :: EntityId
  fr_workspaceId :: EntityId
  fr_templateId :: EntityId
  fr_templateVersion :: int
  fr_objectiveId :: EntityId
  fr_taskId :: EntityId
  fr_parentAgentId :: "EntityId option"
  fr_repositoryScopes :: "string list"
  fr_environmentScopes :: "string list"
  fr_dataScopes :: "string list"
  fr_capabilityIds :: "EntityId list"
  fr_toolGrants :: "FactoryToolGrant list"
  fr_authorityLevel :: AuthorityLevel
  fr_budgetMinorUnits :: int
  fr_computeUnits :: int
  fr_maxRuntimeMs :: int
  fr_retryLimit :: int
  fr_childLimit :: int
  fr_acceptanceCriteria :: "string list"
  fr_verificationCriteria :: "string list"
  fr_stopCondition :: string
  fr_retention :: AgentRetention

datatype TerminalOutcome = O_COMPLETED | O_FAILED

record FactoryAgent = AgentInstantiationRequest +
  fa_agentId :: EntityId
  fa_role :: string
  fa_department :: string
  fa_nestingDepth :: int
  fa_lifecycle :: AgentLifecycle
  fa_createdAt :: string
  fa_archivedAt :: "string option"
  fa_terminalOutcome :: "TerminalOutcome option"
  fa_terminalReason :: "string option"
  fa_completedAt :: "string option"

record AgentFactoryDecision =
  fd_requestId :: EntityId
  fd_workspaceId :: EntityId
  fd_agentId :: EntityId
  fd_templateId :: EntityId
  fd_decidedAt :: string
  fd_requesterId :: EntityId
  fd_checks :: "string list"
  fd_templateVersion :: int
  fd_templateSnapshot :: AgentTemplate
  fd_templateHash :: string

datatype AgentFactoryEventType = FE_created | FE_completed | FE_failed | FE_archived | FE_deleted

fun factoryEventText :: "AgentFactoryEventType \<Rightarrow> string" where
  "factoryEventText FE_created = ''agent.created''"
| "factoryEventText FE_completed = ''agent.completed''"
| "factoryEventText FE_failed = ''agent.failed''"
| "factoryEventText FE_archived = ''agent.archived''"
| "factoryEventText FE_deleted = ''agent.deleted''"

record AgentFactoryEvent =
  fe_id :: string
  fe_workspaceId :: string
  fe_agentId :: string
  fe_type :: AgentFactoryEventType
  fe_occurredAt :: string
  fe_reason :: "string option"

datatype FactoryError =
    AgentFactoryPolicyError string
  | FactoryRangeError string
  | FactorySinkError error

section \<open>Checks\<close>

definition factoryText :: "string \<Rightarrow> string \<Rightarrow> FactoryError + unit" where
  "factoryText value fld = ensure (\<not> (trim value = [] \<or> 2048 < length value \<or> (\<exists>c \<in> set value. isControl c)))
     (AgentFactoryPolicyError (fld @ '' must be a bounded string''))"

definition factoryInteger :: "int \<Rightarrow> string \<Rightarrow> int \<Rightarrow> FactoryError + unit" where
  "factoryInteger value fld maximum = ensure (\<not> (\<not> isSafeInteger value \<or> value < 0 \<or> maximum < value))
     (AgentFactoryPolicyError (fld @ '' is outside policy bounds''))"

definition dense :: "'a list \<Rightarrow> string \<Rightarrow> nat \<Rightarrow> FactoryError + unit" where
  "dense xs fld maximum = ensure (\<not> maximum < length xs)
     (AgentFactoryPolicyError (fld @ '' must be a dense bounded array''))"

section \<open>State\<close>

record AgentFactory =
  af_authorizers :: "EntityId set"
  af_cooPrincipals :: "EntityId set"
  af_limits :: AgentFactoryLimits
  af_sink :: "(EventLog \<times> EventCapability) option"
  af_templates :: "AgentTemplate jsmap"
  af_agents :: "FactoryAgent jsmap"
  af_consumedRequests :: "string set"
  af_objectives :: "string set"
  af_tasks :: "string jsmap"
  af_decisions :: "AgentFactoryDecision list"
  af_events :: "AgentFactoryEvent list"

definition newAgentFactory :: "EntityId list \<Rightarrow> EntityId list option \<Rightarrow> AgentFactoryLimits \<Rightarrow> EventLog option \<Rightarrow>
    EventCapability option \<Rightarrow> FactoryError + AgentFactory" where
  "newAgentFactory authorityPrincipals aiCooPrincipals limits eventSink eventCapability =
     ebind (checks
       [ensure ((eventSink \<noteq> None) = (eventCapability \<noteq> None))
          (AgentFactoryPolicyError ''Event sink and trusted capability must be configured together''),
        factoryInteger (lim_maxAgents limits) ''maxAgents'' MAX_SAFE_INTEGER,
        factoryInteger (lim_maxAgentsPerWorkspace limits) ''maxAgentsPerWorkspace'' MAX_SAFE_INTEGER,
        factoryInteger (lim_maxChildrenPerAgent limits) ''maxChildrenPerAgent'' MAX_SAFE_INTEGER,
        factoryInteger (lim_maxNestingDepth limits) ''maxNestingDepth'' MAX_SAFE_INTEGER,
        factoryInteger (lim_maxConcurrentAgents limits) ''maxConcurrentAgents'' MAX_SAFE_INTEGER,
        factoryInteger (lim_maxRuntimeMs limits) ''maxRuntimeMs'' MAX_SAFE_INTEGER,
        factoryInteger (lim_maxRetries limits) ''maxRetries'' MAX_SAFE_INTEGER,
        factoryInteger (lim_maxBudgetMinorUnits limits) ''maxBudgetMinorUnits'' MAX_SAFE_INTEGER,
        factoryInteger (lim_maxComputeUnits limits) ''maxComputeUnits'' MAX_SAFE_INTEGER,
        ensure (\<not> lim_maxAgents limits < lim_maxAgentsPerWorkspace limits)
          (AgentFactoryPolicyError ''Workspace limit exceeds global limit'')]) (\<lambda>_.
     Inr \<lparr>af_authorizers = set authorityPrincipals,
       af_cooPrincipals = (case aiCooPrincipals of None \<Rightarrow> {} | Some ps \<Rightarrow> set ps), af_limits = limits,
       af_sink = (case (eventSink, eventCapability) of
           (Some sink, Some capability) \<Rightarrow> Some (sink, capability) | _ \<Rightarrow> None),
       af_templates = [], af_agents = [], af_consumedRequests = {}, af_objectives = {}, af_tasks = [],
       af_decisions = [], af_events = []\<rparr>)"

section \<open>Private checks\<close>

definition factoryAuthorizer :: "AgentFactory \<Rightarrow> WorkspaceContext \<Rightarrow> FactoryError + unit" where
  "factoryAuthorizer s cx = ensure (cx_principalId cx \<in> af_authorizers s) (AgentFactoryPolicyError ''Authorizer required'')"

definition factoryRequester :: "AgentFactory \<Rightarrow> WorkspaceContext \<Rightarrow> FactoryError + unit" where
  "factoryRequester s cx = ensure (\<not> (cx_principalId cx \<notin> af_authorizers s \<and> cx_principalId cx \<notin> af_cooPrincipals s))
     (AgentFactoryPolicyError ''Authorizer or AI COO required'')"

definition factoryWorkspace :: "WorkspaceContext \<Rightarrow> string \<Rightarrow> FactoryError + unit" where
  "factoryWorkspace cx workspaceId = ensure (cx_workspaceId cx = workspaceId)
     (AgentFactoryPolicyError ''Cross-workspace operation denied'')"

definition assertSubset :: "string list \<Rightarrow> string list \<Rightarrow> string \<Rightarrow> FactoryError + unit" where
  "assertSubset vals allowed label = checks (map (\<lambda>value. ensure (value \<in> set allowed)
     (AgentFactoryPolicyError (label @ '' exceeds template grant''))) vals)"

definition validateTemplate :: "AgentFactory \<Rightarrow> AgentTemplate \<Rightarrow> FactoryError + unit" where
  "validateTemplate s t = (let limits = af_limits s in checks
     ([factoryText (tpl_id t) ''template.id'', factoryText (tpl_workspaceId t) ''workspaceId'',
       factoryText (tpl_role t) ''role'', factoryText (tpl_department t) ''department'',
       factoryInteger (tpl_version t) ''version'' MAX_SAFE_INTEGER,
       ensure (\<not> tpl_version t < 1) (AgentFactoryPolicyError ''Template version must be positive''),
       dense (tpl_repositoryScopes t) ''repository scopes'' 64, dense (tpl_environmentScopes t) ''environment scopes'' 64,
       dense (tpl_dataScopes t) ''data scopes'' 64, dense (tpl_capabilityIds t) ''capabilities'' 64,
       dense (tpl_toolGrants t) ''tools'' 64] @
      map (\<lambda>value. factoryText value ''template scoped value'')
        (tpl_repositoryScopes t @ tpl_environmentScopes t @ tpl_dataScopes t @ tpl_capabilityIds t) @
      map (\<lambda>grant. checks
        ([factoryText (fg_toolId grant) ''template toolId'', dense (fg_scopes grant) ''template tool scopes'' 64] @
         map (\<lambda>scope. factoryText scope ''template tool scope'') (fg_scopes grant))) (tpl_toolGrants t) @
      [factoryInteger (tpl_maximumAuthority t) ''authority'' 4,
       factoryInteger (tpl_maximumRuntimeMs t) ''runtime'' (lim_maxRuntimeMs limits),
       factoryInteger (tpl_maximumRetries t) ''retry'' (lim_maxRetries limits),
       factoryInteger (tpl_maximumChildren t) ''children'' (lim_maxChildrenPerAgent limits),
       factoryInteger (tpl_maximumBudgetMinorUnits t) ''budget'' (lim_maxBudgetMinorUnits limits),
       factoryInteger (tpl_maximumComputeUnits t) ''compute'' (lim_maxComputeUnits limits)]))"

definition validateInstantiation :: "AgentInstantiationRequest \<Rightarrow> FactoryError + unit" where
  "validateInstantiation r = checks
     ((case fr_parentAgentId r of None \<Rightarrow> [] | Some p \<Rightarrow> [factoryText p ''parentAgentId'']) @
      [factoryText (fr_id r) ''id'', factoryText (fr_workspaceId r) ''workspace'', factoryText (fr_templateId r) ''template'',
       factoryText (fr_objectiveId r) ''objective'', factoryText (fr_taskId r) ''task'', factoryText (fr_stopCondition r) ''stop'',
       dense (fr_repositoryScopes r) ''repo'' 64, dense (fr_environmentScopes r) ''environment'' 64,
       dense (fr_dataScopes r) ''data'' 64, dense (fr_capabilityIds r) ''capabilities'' 64,
       dense (fr_toolGrants r) ''tools'' 64, dense (fr_acceptanceCriteria r) ''acceptance'' 64,
       dense (fr_verificationCriteria r) ''verification'' 64] @
      map (\<lambda>value. factoryText value ''scoped value'')
        (fr_repositoryScopes r @ fr_environmentScopes r @ fr_dataScopes r @ fr_capabilityIds r @
         fr_acceptanceCriteria r @ fr_verificationCriteria r) @
      [ensure (\<not> (fr_repositoryScopes r = [] \<or> fr_environmentScopes r = [] \<or> fr_dataScopes r = [] \<or>
          fr_acceptanceCriteria r = [] \<or> fr_verificationCriteria r = []))
        (AgentFactoryPolicyError ''Scoped criteria are required'')] @
      map (\<lambda>g. checks
        ([dense (fg_scopes g) ''tool scopes'' 64, factoryText (fg_toolId g) ''toolId''] @
         map (\<lambda>scope. factoryText scope ''tool scope'') (fg_scopes g))) (fr_toolGrants r) @
      [factoryInteger (fr_templateVersion r) ''templateVersion'' MAX_SAFE_INTEGER,
       ensure (\<not> fr_templateVersion r < 1) (AgentFactoryPolicyError ''Template version must be positive''),
       factoryInteger (fr_authorityLevel r) ''authority'' 4,
       factoryInteger (fr_budgetMinorUnits r) ''budget'' MAX_SAFE_INTEGER,
       factoryInteger (fr_computeUnits r) ''compute'' MAX_SAFE_INTEGER,
       factoryInteger (fr_maxRuntimeMs r) ''runtime'' MAX_SAFE_INTEGER,
       factoryInteger (fr_retryLimit r) ''retry'' MAX_SAFE_INTEGER,
       factoryInteger (fr_childLimit r) ''children'' MAX_SAFE_INTEGER])"

section \<open>Objectives, tasks and templates\<close>

definition registerObjective :: "WorkspaceContext \<Rightarrow> EntityId \<Rightarrow> (AgentFactory, FactoryError, unit) method" where
  "registerObjective cx i = (let objectiveKey = key (cx_workspaceId cx) i in
     andThen (reads (\<lambda>s. checks
       [factoryAuthorizer s cx, factoryText i ''objectiveId'',
        ensure (objectiveKey \<notin> af_objectives s) (AgentFactoryPolicyError ''Objective linkage already exists'')])) (\<lambda>_.
     modify (\<lambda>s. s\<lparr>af_objectives := insert objectiveKey (af_objectives s)\<rparr>)))"

definition registerTask :: "WorkspaceContext \<Rightarrow> EntityId \<Rightarrow> EntityId \<Rightarrow> (AgentFactory, FactoryError, unit) method" where
  "registerTask cx i objectiveId = (let taskKey = key (cx_workspaceId cx) i in
     andThen (reads (\<lambda>s. checks
       [factoryAuthorizer s cx, factoryText i ''taskId'', factoryText objectiveId ''objectiveId'',
        ensure (key (cx_workspaceId cx) objectiveId \<in> af_objectives s)
          (AgentFactoryPolicyError ''Task objective is not registered''),
        ensure (\<not> mhas (af_tasks s) taskKey) (AgentFactoryPolicyError ''Task linkage already exists'')])) (\<lambda>_.
     modify (\<lambda>s. s\<lparr>af_tasks := mset_at (af_tasks s) taskKey objectiveId\<rparr>)))"

text \<open>The first loop of \<open>registerPlan\<close> over (task id, objective id), with the keys seen so far.\<close>

fun planChecks :: "AgentFactory \<Rightarrow> WorkspaceContext \<Rightarrow> EntityId \<Rightarrow> string set \<Rightarrow> (EntityId \<times> EntityId) list \<Rightarrow>
    FactoryError + unit" where
  "planChecks s cx objectiveId taskKeys [] = Inr ()"
| "planChecks s cx objectiveId taskKeys ((taskId, taskObjective) # rest) =
     (let taskKey = key (cx_workspaceId cx) taskId in
     ebind (checks
       [factoryText taskId ''taskId'', factoryText taskObjective ''objectiveId'',
        ensure (taskObjective = objectiveId) (AgentFactoryPolicyError ''Task objective linkage is invalid''),
        ensure (\<not> (taskKey \<in> taskKeys \<or> mhas (af_tasks s) taskKey))
          (AgentFactoryPolicyError ''Task linkage already exists'')]) (\<lambda>_.
     planChecks s cx objectiveId (insert taskKey taskKeys) rest))"

text \<open>The second loop.\<close>

fun storeTaskLinks :: "WorkspaceContext \<Rightarrow> EntityId \<Rightarrow> (EntityId \<times> EntityId) list \<Rightarrow> (AgentFactory, FactoryError, unit) method" where
  "storeTaskLinks cx objectiveId [] = ret ()"
| "storeTaskLinks cx objectiveId ((taskId, taskObjective) # rest) =
     andThen (modify (\<lambda>s. s\<lparr>af_tasks := mset_at (af_tasks s) (key (cx_workspaceId cx) taskId) objectiveId\<rparr>)) (\<lambda>_.
     storeTaskLinks cx objectiveId rest)"

definition registerPlan :: "WorkspaceContext \<Rightarrow> EntityId \<Rightarrow> (EntityId \<times> EntityId) list \<Rightarrow>
    (AgentFactory, FactoryError, unit) method" where
  "registerPlan cx objectiveId tasks = (let objectiveKey = key (cx_workspaceId cx) objectiveId in
     andThen (reads (\<lambda>s. checks
       [factoryRequester s cx, factoryText objectiveId ''objectiveId'', dense tasks ''tasks'' 1000,
        ensure (objectiveKey \<notin> af_objectives s) (AgentFactoryPolicyError ''Objective linkage already exists''),
        planChecks s cx objectiveId {} tasks])) (\<lambda>_.
     andThen (modify (\<lambda>s. s\<lparr>af_objectives := insert objectiveKey (af_objectives s)\<rparr>)) (\<lambda>_.
     storeTaskLinks cx objectiveId tasks)))"

definition templateKey :: "EntityId \<Rightarrow> EntityId \<Rightarrow> int \<Rightarrow> string" where
  "templateKey workspaceId i version = key workspaceId (i @ ''@'' @ int_text version)"

definition putTemplate :: "WorkspaceContext \<Rightarrow> AgentTemplate \<Rightarrow> (AgentFactory, FactoryError, unit) method" where
  "putTemplate cx template =
     andThen (reads (\<lambda>s. checks
       [factoryAuthorizer s cx, factoryWorkspace cx (tpl_workspaceId template), validateTemplate s template,
        ensure (\<not> mhas (af_templates s) (templateKey (tpl_workspaceId template) (tpl_id template) (tpl_version template)))
          (AgentFactoryPolicyError ''Template versions are immutable''),
        ensure (\<not> (1 < tpl_version template \<and>
            \<not> mhas (af_templates s) (templateKey (tpl_workspaceId template) (tpl_id template) (tpl_version template - 1))))
          (AgentFactoryPolicyError ''Template successor must follow an existing version'')])) (\<lambda>_.
     modify (\<lambda>s. s\<lparr>af_templates := mset_at (af_templates s)
       (templateKey (tpl_workspaceId template) (tpl_id template) (tpl_version template)) template\<rparr>))"

section \<open>Operational events\<close>

definition factoryOperationalEvent :: "AgentFactory \<Rightarrow> WorkspaceContext \<Rightarrow> AgentFactoryEvent \<Rightarrow> EntityId \<Rightarrow> OperationalEvent" where
  "factoryOperationalEvent s cx event correlationId =
     \<lparr>oe_id = fe_id event, oe_workspaceId = fe_workspaceId event,
      oe_type = (if fe_type event = FE_created then AgentCreated else AgentLifecycleChanged),
      oe_source = AGENT_FACTORY,
      oe_actorKind = (if cx_principalId cx \<in> af_cooPrincipals s then AGENT else HUMAN),
      oe_actorId = cx_principalId cx, oe_subjectType = ''Agent'', oe_subjectId = fe_agentId event,
      oe_occurredAt = fe_occurredAt event, oe_idempotencyKey = fe_id event, oe_correlationId = Some correlationId,
      oe_facts = (''lifecycle'', FText (factoryEventText (fe_type event))) #
        (if truthy (fe_reason event) then [(''reasonPresent'', FBool True)] else [])\<rparr>"

text \<open>\<open>eventSink?.append\<close> and \<open>eventSink?.appendBatch\<close>: nothing without a sink.\<close>

definition appendToSink :: "AgentFactory \<Rightarrow> WorkspaceContext \<Rightarrow> OperationalEvent list \<Rightarrow> FactoryError + AgentFactory" where
  "appendToSink s cx events = (case af_sink s of
     None \<Rightarrow> Inr s
   | Some (sink, capability) \<Rightarrow> (case appendBatch capability cx events sink of
       Inl e \<Rightarrow> Inl (FactorySinkError e)
     | Inr sink' \<Rightarrow> Inr (s\<lparr>af_sink := Some (sink', capability)\<rparr>)))"

section \<open>Instantiation\<close>

definition activeAgents :: "AgentFactory \<Rightarrow> FactoryAgent list" where
  "activeAgents s = filter (\<lambda>a. fa_lifecycle a = A_ACTIVE) (mvalues (af_agents s))"

definition activeChildren :: "AgentFactory \<Rightarrow> EntityId \<Rightarrow> EntityId \<Rightarrow> FactoryAgent list" where
  "activeChildren s workspaceId parentId = filter (\<lambda>a. fr_parentAgentId a = Some parentId \<and>
     fr_workspaceId a = workspaceId \<and> fa_lifecycle a = A_ACTIVE) (mvalues (af_agents s))"

text \<open>Each requested tool must be among the allowed grants, the first grant for the tool counting.\<close>

definition grantsWithin :: "FactoryToolGrant list \<Rightarrow> FactoryToolGrant list \<Rightarrow> string \<Rightarrow> string \<Rightarrow> FactoryError + unit" where
  "grantsWithin requested allowed missing label = checks (map (\<lambda>grant.
     (case find (\<lambda>item. fg_toolId item = fg_toolId grant) allowed of
        None \<Rightarrow> Inl (AgentFactoryPolicyError missing)
      | Some found \<Rightarrow> assertSubset (fg_scopes grant) (fg_scopes found) label)) requested)"

definition agentIdOf :: "EntityId \<Rightarrow> EntityId" where
  "agentIdOf requestId = ''agent:'' @ requestId"

definition withinParent :: "AgentFactory \<Rightarrow> AgentInstantiationRequest \<Rightarrow> FactoryAgent \<Rightarrow> FactoryError + unit" where
  "withinParent s request parent = checks
     [ensure (fa_agentId parent \<noteq> agentIdOf (fr_id request)) (AgentFactoryPolicyError ''Agent parent cycle denied''),
      ensure (\<not> min (fr_childLimit parent) (lim_maxChildrenPerAgent (af_limits s)) \<le>
          int (length (activeChildren s (fr_workspaceId request) (fa_agentId parent))))
        (AgentFactoryPolicyError ''Parent child limit reached''),
      ensure (\<not> (fr_objectiveId parent \<noteq> fr_objectiveId request \<or> fr_taskId parent \<noteq> fr_taskId request))
        (AgentFactoryPolicyError ''Child lineage must match parent objective and task''),
      assertSubset (fr_repositoryScopes request) (fr_repositoryScopes parent) ''repository scope'',
      assertSubset (fr_environmentScopes request) (fr_environmentScopes parent) ''environment scope'',
      assertSubset (fr_dataScopes request) (fr_dataScopes parent) ''data scope'',
      assertSubset (fr_capabilityIds request) (fr_capabilityIds parent) ''parent capability'',
      grantsWithin (fr_toolGrants request) (fr_toolGrants parent) ''Child tool exceeds parent grants'' ''parent tool scope'',
      ensure (\<not> (fr_authorityLevel parent < fr_authorityLevel request \<or>
          fr_budgetMinorUnits parent < fr_budgetMinorUnits request \<or> fr_computeUnits parent < fr_computeUnits request \<or>
          fr_maxRuntimeMs parent < fr_maxRuntimeMs request \<or> fr_retryLimit parent < fr_retryLimit request \<or>
          fr_childLimit parent < fr_childLimit request)) (AgentFactoryPolicyError ''Child exceeds parent ceilings'')]"

text \<open>The nesting depth of the new agent, after the checks against its parent.\<close>

definition nestingDepthFor :: "AgentFactory \<Rightarrow> AgentInstantiationRequest \<Rightarrow> FactoryError + int" where
  "nestingDepthFor s request = (case fr_parentAgentId request of
     None \<Rightarrow> Inr 0
   | Some parentId \<Rightarrow> (case mget (af_agents s) (key (fr_workspaceId request) parentId) of
       None \<Rightarrow> Inl (AgentFactoryPolicyError ''Parent agent is missing or inactive'')
     | Some parent \<Rightarrow>
         ebind (ensure (fa_lifecycle parent = A_ACTIVE)
           (AgentFactoryPolicyError ''Parent agent is missing or inactive'')) (\<lambda>_.
         ebind (withinParent s request parent) (\<lambda>_. Inr (fa_nestingDepth parent + 1)))))"

definition withinTemplate :: "AgentFactoryLimits \<Rightarrow> AgentInstantiationRequest \<Rightarrow> AgentTemplate \<Rightarrow> FactoryError + unit" where
  "withinTemplate limits request template = checks
     ([assertSubset (fr_capabilityIds request) (tpl_capabilityIds template) ''capability'',
       assertSubset (fr_repositoryScopes request) (tpl_repositoryScopes template) ''repository scope'',
       assertSubset (fr_environmentScopes request) (tpl_environmentScopes template) ''environment scope'',
       assertSubset (fr_dataScopes request) (tpl_dataScopes template) ''data scope'',
       grantsWithin (fr_toolGrants request) (tpl_toolGrants template) ''Tool is not granted by template'' ''tool scope'',
       ensure (\<not> (tpl_maximumAuthority template < fr_authorityLevel request \<or> 3 < fr_authorityLevel request))
         (AgentFactoryPolicyError ''Excess authority denied'')] @
      map (\<lambda>(value, templateMax, globalMax, label). ensure (\<not> (templateMax < value \<or> globalMax < value))
          (AgentFactoryPolicyError (label @ '' limit exceeded'')))
        [(fr_budgetMinorUnits request, tpl_maximumBudgetMinorUnits template, lim_maxBudgetMinorUnits limits, ''budget''),
         (fr_computeUnits request, tpl_maximumComputeUnits template, lim_maxComputeUnits limits, ''compute''),
         (fr_maxRuntimeMs request, tpl_maximumRuntimeMs template, lim_maxRuntimeMs limits, ''runtime''),
         (fr_retryLimit request, tpl_maximumRetries template, lim_maxRetries limits, ''retry''),
         (fr_childLimit request, tpl_maximumChildren template, lim_maxChildrenPerAgent limits, ''child'')] @
      [ensure (fr_retention request = tpl_retention template)
        (AgentFactoryPolicyError ''Retention exceeds template policy'')])"

definition newFactoryAgent :: "AgentInstantiationRequest \<Rightarrow> AgentTemplate \<Rightarrow> int \<Rightarrow> string \<Rightarrow> FactoryAgent" where
  "newFactoryAgent request template depth createdAt = AgentInstantiationRequest.extend request
     \<lparr>fa_agentId = agentIdOf (fr_id request), fa_role = tpl_role template, fa_department = tpl_department template,
      fa_nestingDepth = depth, fa_lifecycle = A_ACTIVE, fa_createdAt = createdAt, fa_archivedAt = None,
      fa_terminalOutcome = None, fa_terminalReason = None, fa_completedAt = None\<rparr>"

definition retentionText :: "AgentRetention \<Rightarrow> string" where
  "retentionText r = (case r of DELETE_ON_COMPLETION \<Rightarrow> ''DELETE_ON_COMPLETION'' | ARCHIVE \<Rightarrow> ''ARCHIVE'')"

text \<open>\<open>JSON.stringify(template)\<close> of a template whose properties were written in the order of the interface.\<close>

definition templateJson :: "AgentTemplate \<Rightarrow> json" where
  "templateJson t = JObj
     [(''id'', JStr (tpl_id t)), (''version'', JNum (SafeInt (tpl_version t))), (''workspaceId'', JStr (tpl_workspaceId t)),
      (''role'', JStr (tpl_role t)), (''department'', JStr (tpl_department t)),
      (''repositoryScopes'', JArr (map JStr (tpl_repositoryScopes t))),
      (''environmentScopes'', JArr (map JStr (tpl_environmentScopes t))),
      (''dataScopes'', JArr (map JStr (tpl_dataScopes t))), (''capabilityIds'', JArr (map JStr (tpl_capabilityIds t))),
      (''toolGrants'', JArr (map (\<lambda>g. JObj [(''toolId'', JStr (fg_toolId g)), (''scopes'', JArr (map JStr (fg_scopes g)))])
        (tpl_toolGrants t))),
      (''maximumAuthority'', JNum (SafeInt (tpl_maximumAuthority t))),
      (''maximumRuntimeMs'', JNum (SafeInt (tpl_maximumRuntimeMs t))),
      (''maximumRetries'', JNum (SafeInt (tpl_maximumRetries t))),
      (''maximumChildren'', JNum (SafeInt (tpl_maximumChildren t))),
      (''maximumBudgetMinorUnits'', JNum (SafeInt (tpl_maximumBudgetMinorUnits t))),
      (''maximumComputeUnits'', JNum (SafeInt (tpl_maximumComputeUnits t))),
      (''retention'', JStr (retentionText (tpl_retention t)))]"

definition newFactoryDecision :: "(string \<Rightarrow> string) \<Rightarrow> WorkspaceContext \<Rightarrow> AgentInstantiationRequest \<Rightarrow> AgentTemplate \<Rightarrow>
    string \<Rightarrow> AgentFactoryDecision" where
  "newFactoryDecision sha256 cx request template createdAt =
     \<lparr>fd_requestId = fr_id request, fd_workspaceId = fr_workspaceId request, fd_agentId = agentIdOf (fr_id request),
      fd_templateId = tpl_id template, fd_decidedAt = createdAt, fd_requesterId = cx_principalId cx,
      fd_checks = [''workspace'', ''linkage'', ''template-grants'', ''authority'', ''budget'', ''runtime'', ''retry'', ''child'',
        ''nesting'', ''concurrency'', ''retention''],
      fd_templateVersion = tpl_version template, fd_templateSnapshot = template,
      fd_templateHash = sha256 (json_text (templateJson template))\<rparr>"

definition createdEvent :: "AgentInstantiationRequest \<Rightarrow> string \<Rightarrow> AgentFactoryEvent" where
  "createdEvent request createdAt =
     \<lparr>fe_id = ''event:'' @ fr_id request @ '':created'', fe_workspaceId = fr_workspaceId request,
      fe_agentId = agentIdOf (fr_id request), fe_type = FE_created, fe_occurredAt = createdAt, fe_reason = None\<rparr>"

definition factoryNow :: "int \<Rightarrow> FactoryError + string" where
  "factoryNow clock = (case toISOString clock of None \<Rightarrow> Inl (FactoryRangeError ''Invalid time value'') | Some t \<Rightarrow> Inr t)"

definition instantiateChecks :: "AgentFactory \<Rightarrow> WorkspaceContext \<Rightarrow> AgentInstantiationRequest \<Rightarrow>
    FactoryError + AgentTemplate \<times> int" where
  "instantiateChecks s cx request =
     ebind (checks [factoryRequester s cx, factoryWorkspace cx (fr_workspaceId request), validateInstantiation request]) (\<lambda>_.
     ebind (case mget (af_templates s) (templateKey (fr_workspaceId request) (fr_templateId request) (fr_templateVersion request)) of
         None \<Rightarrow> Inl (AgentFactoryPolicyError ''Template does not exist in workspace'') | Some t \<Rightarrow> Inr t) (\<lambda>template.
     ebind (checks
       [ensure (\<not> (key (fr_workspaceId request) (fr_objectiveId request) \<notin> af_objectives s \<or>
            mget (af_tasks s) (key (fr_workspaceId request) (fr_taskId request)) \<noteq> Some (fr_objectiveId request)))
          (AgentFactoryPolicyError ''Parent objective/task linkage is not registered''),
        ensure (\<not> (lim_maxAgents (af_limits s) \<le> int (length (activeAgents s)) \<or>
            lim_maxConcurrentAgents (af_limits s) \<le> int (length (activeAgents s))))
          (AgentFactoryPolicyError ''Global agent limit reached''),
        ensure (\<not> lim_maxAgentsPerWorkspace (af_limits s) \<le>
            int (length (filter (\<lambda>a. fr_workspaceId a = fr_workspaceId request) (activeAgents s))))
          (AgentFactoryPolicyError ''Workspace agent limit reached'')]) (\<lambda>_.
     ebind (nestingDepthFor s request) (\<lambda>depth.
     ebind (checks
       [ensure (\<not> lim_maxNestingDepth (af_limits s) < depth) (AgentFactoryPolicyError ''Nesting depth exceeded''),
        withinTemplate (af_limits s) request template,
        ensure (key (fr_workspaceId request) (fr_id request) \<notin> af_consumedRequests s)
          (AgentFactoryPolicyError ''Instantiation request already consumed'')]) (\<lambda>_.
     Inr (template, depth))))))"

definition instantiate :: "(string \<Rightarrow> string) \<Rightarrow> int \<Rightarrow> WorkspaceContext \<Rightarrow> AgentInstantiationRequest \<Rightarrow>
    (AgentFactory, FactoryError, FactoryAgent \<times> AgentFactoryDecision) method" where
  "instantiate sha256 clock cx request =
     andThen (reads (\<lambda>s. instantiateChecks s cx request)) (\<lambda>(template, depth).
     andThen (reads (\<lambda>s. factoryNow clock)) (\<lambda>createdAt.
     let agent = newFactoryAgent request template depth createdAt;
         decision = newFactoryDecision sha256 cx request template createdAt;
         event = createdEvent request createdAt in
     andThen (updates (\<lambda>s. appendToSink s cx [factoryOperationalEvent s cx event (fr_taskId request)])) (\<lambda>_.
     andThen (modify (\<lambda>s. s\<lparr>af_agents := mset_at (af_agents s) (key (fr_workspaceId request) (fa_agentId agent)) agent\<rparr>)) (\<lambda>_.
     andThen (modify (\<lambda>s. s\<lparr>af_consumedRequests := insert (key (fr_workspaceId request) (fr_id request)) (af_consumedRequests s)\<rparr>)) (\<lambda>_.
     andThen (modify (\<lambda>s. s\<lparr>af_decisions := af_decisions s @ [decision]\<rparr>)) (\<lambda>_.
     andThen (modify (\<lambda>s. s\<lparr>af_events := af_events s @ [event]\<rparr>)) (\<lambda>_.
     ret (agent, decision))))))))"

section \<open>Completion\<close>

fun outcomeText :: "TerminalOutcome \<Rightarrow> string" where
  "outcomeText O_COMPLETED = ''COMPLETED''"
| "outcomeText O_FAILED = ''FAILED''"

fun outcomeLower :: "TerminalOutcome \<Rightarrow> string" where
  "outcomeLower O_COMPLETED = ''completed''"
| "outcomeLower O_FAILED = ''failed''"

definition retainedLifecycle :: "AgentRetention \<Rightarrow> AgentLifecycle" where
  "retainedLifecycle r = (if r = ARCHIVE then A_ARCHIVED else A_DELETED)"

definition outcomeEvent :: "EntityId \<Rightarrow> EntityId \<Rightarrow> TerminalOutcome \<Rightarrow> string \<Rightarrow> string \<Rightarrow> AgentFactoryEvent" where
  "outcomeEvent workspaceId agentId outcome reason at =
     \<lparr>fe_id = ''event:'' @ agentId @ '':'' @ outcomeLower outcome, fe_workspaceId = workspaceId, fe_agentId = agentId,
      fe_type = (if outcome = O_COMPLETED then FE_completed else FE_failed), fe_occurredAt = at, fe_reason = Some reason\<rparr>"

definition retentionEvent :: "EntityId \<Rightarrow> EntityId \<Rightarrow> AgentLifecycle \<Rightarrow> string \<Rightarrow> AgentFactoryEvent" where
  "retentionEvent workspaceId agentId lifecycle at =
     \<lparr>fe_id = ''event:'' @ agentId @ '':'' @ (if lifecycle = A_ARCHIVED then ''archived'' else ''deleted''),
      fe_workspaceId = workspaceId, fe_agentId = agentId,
      fe_type = (if lifecycle = A_ARCHIVED then FE_archived else FE_deleted), fe_occurredAt = at, fe_reason = None\<rparr>"

text \<open>\<open>reason\<close> defaults to the outcome.\<close>

definition completeChecks :: "AgentFactory \<Rightarrow> int \<Rightarrow> WorkspaceContext \<Rightarrow> EntityId \<Rightarrow> string \<Rightarrow> FactoryError + FactoryAgent \<times> string" where
  "completeChecks s clock cx agentId reason =
     ebind (factoryAuthorizer s cx) (\<lambda>_.
     ebind (case mget (af_agents s) (key (cx_workspaceId cx) agentId) of
         None \<Rightarrow> Inl (AgentFactoryPolicyError ''Active agent not found'')
       | Some a \<Rightarrow> if fa_lifecycle a = A_ACTIVE then Inr a else Inl (AgentFactoryPolicyError ''Active agent not found'')) (\<lambda>stored.
     ebind (checks
       [ensure (activeChildren s (cx_workspaceId cx) agentId = [])
          (AgentFactoryPolicyError ''Cannot finalize agent with active children''),
        factoryText reason ''terminal reason'']) (\<lambda>_.
     ebind (factoryNow clock) (\<lambda>at.
     Inr (stored, at)))))"

text \<open>The stored agent is an object of the map: what is assigned to its fields is stored at once.\<close>

definition complete :: "int \<Rightarrow> WorkspaceContext \<Rightarrow> EntityId \<Rightarrow> TerminalOutcome \<Rightarrow> string option \<Rightarrow>
    (AgentFactory, FactoryError, unit) method" where
  "complete clock cx agentId outcome reasonOption =
     (let agentKey = key (cx_workspaceId cx) agentId;
          reason = (case reasonOption of None \<Rightarrow> outcomeText outcome | Some r \<Rightarrow> r) in
     andThen (reads (\<lambda>s. completeChecks s clock cx agentId reason)) (\<lambda>(stored, at).
     let nextLifecycle = retainedLifecycle (fr_retention stored);
         first = outcomeEvent (cx_workspaceId cx) agentId outcome reason at;
         second = retentionEvent (cx_workspaceId cx) agentId nextLifecycle at in
     andThen (updates (\<lambda>s. appendToSink s cx
       [factoryOperationalEvent s cx first (fr_taskId stored), factoryOperationalEvent s cx second (fr_taskId stored)])) (\<lambda>_.
     andThen (modify (\<lambda>s. s\<lparr>af_agents := mset_at (af_agents s) agentKey
       (stored\<lparr>fa_terminalOutcome := Some outcome, fa_terminalReason := Some reason,
          fa_completedAt := Some at, fa_lifecycle := nextLifecycle, fa_archivedAt := Some at\<rparr>)\<rparr>)) (\<lambda>_.
     andThen (modify (\<lambda>s. s\<lparr>af_events := af_events s @ [first]\<rparr>)) (\<lambda>_.
     andThen (modify (\<lambda>s. s\<lparr>af_events := af_events s @ [second]\<rparr>)) (\<lambda>_.
     modify (\<lambda>s. if nextLifecycle = A_DELETED then s\<lparr>af_agents := mdelete (af_agents s) agentKey\<rparr> else s)))))))"

section \<open>Reading\<close>

definition listAgents :: "AgentFactory \<Rightarrow> WorkspaceContext \<Rightarrow> FactoryError + FactoryAgent list" where
  "listAgents s cx = ebind (factoryRequester s cx) (\<lambda>_.
     Inr (filter (\<lambda>a. fr_workspaceId a = cx_workspaceId cx \<and> fa_lifecycle a \<noteq> A_DELETED) (mvalues (af_agents s))))"

definition listDecisions :: "AgentFactory \<Rightarrow> WorkspaceContext \<Rightarrow> FactoryError + AgentFactoryDecision list" where
  "listDecisions s cx = ebind (factoryRequester s cx) (\<lambda>_.
     Inr (filter (\<lambda>d. fd_workspaceId d = cx_workspaceId cx) (af_decisions s)))"

definition listFactoryEvents :: "AgentFactory \<Rightarrow> WorkspaceContext \<Rightarrow> FactoryError + AgentFactoryEvent list" where
  "listFactoryEvents s cx = ebind (factoryRequester s cx) (\<lambda>_.
     Inr (filter (\<lambda>e. fe_workspaceId e = cx_workspaceId cx) (af_events s)))"

end
