(* ===== verification/Agent_Factory_Invariants.thy ===== *)
theory Agent_Factory_Invariants
  imports Agent_Factory
begin

text \<open>
  What the agent factory keeps true of its agents whatever sequence of calls is made: agents stay
  within their parent, their template and the limits of the factory, and every request creates at most
  one agent.
\<close>

section \<open>What the calls do\<close>

lemma assertSubset_Inr [outcome_simps]: "assertSubset xs ys l = Inr u \<longleftrightarrow> set xs \<subseteq> set ys"
  by (auto simp: assertSubset_def outcome_simps)

definition grantsCovered :: "FactoryToolGrant list \<Rightarrow> FactoryToolGrant list \<Rightarrow> bool" where
  "grantsCovered requested allowed = (\<forall>grant \<in> set requested.
     (case find (\<lambda>item. fg_toolId item = fg_toolId grant) allowed of
        None \<Rightarrow> False | Some found \<Rightarrow> set (fg_scopes grant) \<subseteq> set (fg_scopes found)))"

lemma grantsWithin_Inr [outcome_simps]: "grantsWithin xs ys m l = Inr u \<longleftrightarrow> grantsCovered xs ys"
  by (auto simp: grantsWithin_def grantsCovered_def outcome_simps split: option.splits)

lemma grantsCovered_trans:
  assumes "grantsCovered xs ys" "grantsCovered ys zs"
  shows "grantsCovered xs zs"
  unfolding grantsCovered_def
proof
  fix g assume "g \<in> set xs"
  with assms(1) obtain h where h: "find (\<lambda>item. fg_toolId item = fg_toolId g) ys = Some h" "set (fg_scopes g) \<subseteq> set (fg_scopes h)"
    by (auto simp: grantsCovered_def split: option.splits)
  then have "h \<in> set ys" "fg_toolId h = fg_toolId g" by (auto simp: find_Some_iff)
  with assms(2) h(2) show "case find (\<lambda>item. fg_toolId item = fg_toolId g) zs of
      None \<Rightarrow> False | Some found \<Rightarrow> set (fg_scopes g) \<subseteq> set (fg_scopes found)"
    by (fastforce simp: grantsCovered_def split: option.splits)
qed

text \<open>The child may do no more than the parent, in every dimension the factory governs.\<close>

definition attenuated :: "'a AgentInstantiationRequest_scheme \<Rightarrow> 'b AgentInstantiationRequest_scheme \<Rightarrow> bool" where
  "attenuated c p = (fr_objectiveId c = fr_objectiveId p \<and> fr_taskId c = fr_taskId p \<and>
     set (fr_repositoryScopes c) \<subseteq> set (fr_repositoryScopes p) \<and> set (fr_environmentScopes c) \<subseteq> set (fr_environmentScopes p) \<and>
     set (fr_dataScopes c) \<subseteq> set (fr_dataScopes p) \<and> set (fr_capabilityIds c) \<subseteq> set (fr_capabilityIds p) \<and>
     grantsCovered (fr_toolGrants c) (fr_toolGrants p) \<and>
     fr_authorityLevel c \<le> fr_authorityLevel p \<and> fr_budgetMinorUnits c \<le> fr_budgetMinorUnits p \<and>
     fr_computeUnits c \<le> fr_computeUnits p \<and> fr_maxRuntimeMs c \<le> fr_maxRuntimeMs p \<and>
     fr_retryLimit c \<le> fr_retryLimit p \<and> fr_childLimit c \<le> fr_childLimit p)"

lemma attenuated_trans: "attenuated a b \<Longrightarrow> attenuated b c \<Longrightarrow> attenuated a c"
  unfolding attenuated_def by (intro conjI; elim conjE) (auto intro: grantsCovered_trans)

lemma withinParent_Inr:
  "withinParent s q p = Inr u \<Longrightarrow> attenuated q p \<and>
    int (length (activeChildren s (fr_workspaceId q) (fa_agentId p))) < min (fr_childLimit p) (lim_maxChildrenPerAgent (af_limits s))"
  by (auto simp: withinParent_def attenuated_def outcome_simps)

definition withinTemplateOk :: "AgentFactoryLimits \<Rightarrow> 'a AgentInstantiationRequest_scheme \<Rightarrow> AgentTemplate \<Rightarrow> bool" where
  "withinTemplateOk limits q t = (set (fr_capabilityIds q) \<subseteq> set (tpl_capabilityIds t) \<and>
     set (fr_repositoryScopes q) \<subseteq> set (tpl_repositoryScopes t) \<and> set (fr_environmentScopes q) \<subseteq> set (tpl_environmentScopes t) \<and>
     set (fr_dataScopes q) \<subseteq> set (tpl_dataScopes t) \<and> grantsCovered (fr_toolGrants q) (tpl_toolGrants t) \<and>
     fr_authorityLevel q \<le> min 3 (tpl_maximumAuthority t) \<and>
     fr_budgetMinorUnits q \<le> min (tpl_maximumBudgetMinorUnits t) (lim_maxBudgetMinorUnits limits) \<and>
     fr_computeUnits q \<le> min (tpl_maximumComputeUnits t) (lim_maxComputeUnits limits) \<and>
     fr_maxRuntimeMs q \<le> min (tpl_maximumRuntimeMs t) (lim_maxRuntimeMs limits) \<and>
     fr_retryLimit q \<le> min (tpl_maximumRetries t) (lim_maxRetries limits) \<and>
     fr_childLimit q \<le> min (tpl_maximumChildren t) (lim_maxChildrenPerAgent limits) \<and> fr_retention q = tpl_retention t)"

lemma withinTemplate_Inr [outcome_simps]: "withinTemplate l q t = Inr u \<longleftrightarrow> withinTemplateOk l q t"
  by (auto simp: withinTemplate_def withinTemplateOk_def outcome_simps)

lemma appendToSink_Inr: "appendToSink s cx es = Inr t \<Longrightarrow> \<exists>sink. t = s\<lparr>af_sink := sink\<rparr>"
  by (auto simp: appendToSink_def split: option.splits prod.splits sum.splits intro: exI [of _ "af_sink s"])

text \<open>A successful instantiation, with everything its checks establish.\<close>

definition instantiated :: "AgentFactory \<Rightarrow> AgentInstantiationRequest \<Rightarrow> AgentTemplate \<Rightarrow> int \<Rightarrow> string \<Rightarrow>
    AgentFactoryDecision \<Rightarrow> AgentFactory \<Rightarrow> bool" where
  "instantiated s q tpl depth at decision t = (
     mget (af_templates s) (templateKey (fr_workspaceId q) (fr_templateId q) (fr_templateVersion q)) = Some tpl \<and>
     nestingDepthFor s q = Inr depth \<and> depth \<le> lim_maxNestingDepth (af_limits s) \<and> withinTemplateOk (af_limits s) q tpl \<and>
     int (length (activeAgents s)) < min (lim_maxAgents (af_limits s)) (lim_maxConcurrentAgents (af_limits s)) \<and>
     int (length (filter (\<lambda>a. fr_workspaceId a = fr_workspaceId q) (activeAgents s))) < lim_maxAgentsPerWorkspace (af_limits s) \<and>
     key (fr_workspaceId q) (fr_id q) \<notin> af_consumedRequests s \<and> 0 \<le> fr_childLimit q \<and>
     fd_workspaceId decision = fr_workspaceId q \<and> fd_requestId decision = fr_id q \<and> fd_templateSnapshot decision = tpl \<and>
     (\<exists>sink. t = s\<lparr>af_sink := sink,
        af_agents := mset_at (af_agents s) (key (fr_workspaceId q) (agentIdOf (fr_id q))) (newFactoryAgent q tpl depth at),
        af_consumedRequests := insert (key (fr_workspaceId q) (fr_id q)) (af_consumedRequests s),
        af_decisions := af_decisions s @ [decision], af_events := af_events s @ [createdEvent q at]\<rparr>))"

lemma newFactoryAgent_sel [simp]:
  "fa_agentId (newFactoryAgent q tpl d at) = agentIdOf (fr_id q)" "fr_workspaceId (newFactoryAgent q tpl d at) = fr_workspaceId q"
  "fr_id (newFactoryAgent q tpl d at) = fr_id q" "fa_lifecycle (newFactoryAgent q tpl d at) = A_ACTIVE"
  "fa_nestingDepth (newFactoryAgent q tpl d at) = d" "fr_parentAgentId (newFactoryAgent q tpl d at) = fr_parentAgentId q"
  "fr_templateId (newFactoryAgent q tpl d at) = fr_templateId q" "fr_templateVersion (newFactoryAgent q tpl d at) = fr_templateVersion q"
  by (simp_all add: newFactoryAgent_def AgentInstantiationRequest.defs)

lemma newFactoryAgent_attenuated [simp]:
  "attenuated (newFactoryAgent q tpl d at) p \<longleftrightarrow> attenuated q p"
  "withinTemplateOk l (newFactoryAgent q tpl d at) t \<longleftrightarrow> withinTemplateOk l q t"
  by (simp_all add: newFactoryAgent_def AgentInstantiationRequest.defs attenuated_def withinTemplateOk_def)

lemma instantiateChecks_Inr:
  "instantiateChecks s cx q = Inr (tpl, depth) \<Longrightarrow> cx_workspaceId cx = fr_workspaceId q \<and>
   mget (af_templates s) (templateKey (fr_workspaceId q) (fr_templateId q) (fr_templateVersion q)) = Some tpl \<and>
   nestingDepthFor s q = Inr depth \<and> depth \<le> lim_maxNestingDepth (af_limits s) \<and> withinTemplateOk (af_limits s) q tpl \<and>
   int (length (activeAgents s)) < min (lim_maxAgents (af_limits s)) (lim_maxConcurrentAgents (af_limits s)) \<and>
   int (length (filter (\<lambda>a. fr_workspaceId a = fr_workspaceId q) (activeAgents s))) < lim_maxAgentsPerWorkspace (af_limits s) \<and>
   key (fr_workspaceId q) (fr_id q) \<notin> af_consumedRequests s \<and> 0 \<le> fr_childLimit q"
  by (auto simp: instantiateChecks_def factoryWorkspace_def outcome_simps validateInstantiation_def factoryInteger_def
      split: option.splits)

lemma instantiate_cases:
  assumes "instantiate sha256 clock cx q s = (r, t)"
  shows "t = s \<and> \<not> succeeds r \<or> (\<exists>tpl depth at decision. r = Inr (newFactoryAgent q tpl depth at, decision) \<and>
    instantiated s q tpl depth at decision t)"
proof (cases "instantiateChecks s cx q")
  case (Inl e)
  with assms show ?thesis by (auto simp: instantiate_def andThen_def reads_def)
next
  case (Inr p)
  obtain tpl depth where c: "instantiateChecks s cx q = Inr (tpl, depth)" using Inr by (cases p) auto
  show ?thesis
  proof (cases "factoryNow clock")
    case (Inl e)
    with assms c show ?thesis by (auto simp: instantiate_def andThen_def reads_def)
  next
    case (Inr at)
    show ?thesis
    proof (cases "appendToSink s cx [factoryOperationalEvent s cx (createdEvent q at) (fr_taskId q)]")
      case (Inl e)
      with assms c Inr show ?thesis by (auto simp: instantiate_def andThen_def reads_def updates_def Let_def)
    next
      case (Inr s')
      with appendToSink_Inr obtain sink where "s' = s\<lparr>af_sink := sink\<rparr>" by blast
      with assms c Inr \<open>factoryNow clock = Inr at\<close> instantiateChecks_Inr [OF c]
      have "r = Inr (newFactoryAgent q tpl depth at, newFactoryDecision sha256 cx q tpl at) \<and>
        instantiated s q tpl depth at (newFactoryDecision sha256 cx q tpl at) t"
        unfolding instantiated_def
        by (auto simp: instantiate_def andThen_def reads_def updates_def modify_def ret_def Let_def newFactoryDecision_def)
      then show ?thesis by blast
    qed
  qed
qed

text \<open>A successful completion.\<close>

definition completed :: "AgentFactory \<Rightarrow> EntityId \<Rightarrow> EntityId \<Rightarrow> FactoryAgent \<Rightarrow> TerminalOutcome \<Rightarrow> string \<Rightarrow> string \<Rightarrow>
    AgentFactory \<Rightarrow> bool" where
  "completed s workspaceId agentId stored outcome reason at t = (
     mget (af_agents s) (key workspaceId agentId) = Some stored \<and> fa_lifecycle stored = A_ACTIVE \<and>
     activeChildren s workspaceId agentId = [] \<and>
     (\<exists>sink. t = s\<lparr>af_sink := sink,
        af_agents := (let finished = stored\<lparr>fa_terminalOutcome := Some outcome, fa_terminalReason := Some reason,
             fa_completedAt := Some at, fa_lifecycle := retainedLifecycle (fr_retention stored), fa_archivedAt := Some at\<rparr>;
           agents = mset_at (af_agents s) (key workspaceId agentId) finished
         in if retainedLifecycle (fr_retention stored) = A_DELETED then mdelete agents (key workspaceId agentId) else agents),
        af_events := af_events s @ [outcomeEvent workspaceId agentId outcome reason at,
          retentionEvent workspaceId agentId (retainedLifecycle (fr_retention stored)) at]\<rparr>))"

lemma completeChecks_Inr:
  "completeChecks s clock cx agentId reason = Inr (stored, at) \<Longrightarrow>
   mget (af_agents s) (key (cx_workspaceId cx) agentId) = Some stored \<and> fa_lifecycle stored = A_ACTIVE \<and>
   activeChildren s (cx_workspaceId cx) agentId = [] \<and> cx_principalId cx \<in> af_authorizers s"
  by (auto simp: completeChecks_def outcome_simps factoryAuthorizer_def split: option.splits if_splits)

lemma complete_cases:
  assumes "complete clock cx agentId outcome ro s = (r, t)"
  shows "t = s \<and> r \<noteq> Inr () \<or> (\<exists>stored reason at. r = Inr () \<and> cx_principalId cx \<in> af_authorizers s \<and>
    completed s (cx_workspaceId cx) agentId stored outcome reason at t)"
proof -
  define reason where "reason = (case ro of None \<Rightarrow> outcomeText outcome | Some x \<Rightarrow> x)"
  note run = assms [unfolded complete_def Let_def, folded reason_def, unfolded andThen_def reads_def]
  show ?thesis
  proof (cases "completeChecks s clock cx agentId reason")
    case (Inl e)
    with run show ?thesis by auto
  next
    case (Inr p)
    obtain stored at where c: "completeChecks s clock cx agentId reason = Inr (stored, at)" using Inr by (cases p) auto
    let ?first = "outcomeEvent (cx_workspaceId cx) agentId outcome reason at"
      and ?second = "retentionEvent (cx_workspaceId cx) agentId (retainedLifecycle (fr_retention stored)) at"
    show ?thesis
    proof (cases "appendToSink s cx
        [factoryOperationalEvent s cx ?first (fr_taskId stored), factoryOperationalEvent s cx ?second (fr_taskId stored)]")
      case (Inl e)
      with run c show ?thesis by (auto simp: updates_def)
    next
      case (Inr s')
      with appendToSink_Inr obtain sink where "s' = s\<lparr>af_sink := sink\<rparr>" by blast
      with run c Inr completeChecks_Inr [OF c]
      have "r = Inr () \<and> completed s (cx_workspaceId cx) agentId stored outcome reason at t"
        unfolding completed_def by (cases s) (auto simp: updates_def modify_def Let_def)
      then show ?thesis using completeChecks_Inr [OF c] by blast
    qed
  qed
qed

section \<open>Steps\<close>

inductive factoryStep :: "AgentFactory \<Rightarrow> AgentFactory \<Rightarrow> bool" where
  by_objective: "registerObjective cx i s = (r, t) \<Longrightarrow> factoryStep s t"
| by_task: "registerTask cx i o' s = (r, t) \<Longrightarrow> factoryStep s t"
| by_plan: "registerPlan cx o' ts s = (r, t) \<Longrightarrow> factoryStep s t"
| by_template: "putTemplate cx tpl s = (r, t) \<Longrightarrow> factoryStep s t"
| by_instantiation: "instantiate sha256 clock cx q s = (r', t) \<Longrightarrow> factoryStep s t"
| by_completion: "complete clock cx agentId outcome reason s = (r, t) \<Longrightarrow> factoryStep s t"

definition factoryInit :: "AgentFactory \<Rightarrow> bool" where
  "factoryInit s = (\<exists>ps coos limits sink capability. newAgentFactory ps coos limits sink capability = Inr s)"

abbreviation factoryReachable :: "AgentFactory \<Rightarrow> bool" where
  "factoryReachable s \<equiv> reach factoryInit factoryStep s"

lemma storeTaskLinks_stores:
  "storeTaskLinks cx objectiveId tasks s =
     (Inr (), s\<lparr>af_tasks := foldl (\<lambda>m (taskId, _). mset_at m (key (cx_workspaceId cx) taskId) objectiveId) (af_tasks s) tasks\<rparr>)"
  by (induction cx objectiveId tasks arbitrary: s rule: storeTaskLinks.induct) (simp_all add: andThen_def modify_def ret_def)

lemma register_cases:
  "registerObjective cx i s = (r, t) \<Longrightarrow> \<exists>os ts. t = s\<lparr>af_objectives := os, af_tasks := ts\<rparr>"
  "registerTask cx i o' s = (r, t) \<Longrightarrow> \<exists>os ts. t = s\<lparr>af_objectives := os, af_tasks := ts\<rparr>"
  "registerPlan cx o' xs s = (r, t) \<Longrightarrow> \<exists>os ts. t = s\<lparr>af_objectives := os, af_tasks := ts\<rparr>"
proof -
  have same: "\<exists>os ts. s = s\<lparr>af_objectives := os, af_tasks := ts\<rparr>" for s :: AgentFactory
    by (intro exI [of _ "af_objectives s"] exI [of _ "af_tasks s"]) simp
  have one: "\<exists>os ts. s\<lparr>af_objectives := x\<rparr> = s\<lparr>af_objectives := os, af_tasks := ts\<rparr>" for s :: AgentFactory and x
    by (intro exI [of _ x] exI [of _ "af_tasks s"]) simp
  have two: "\<exists>os ts. s\<lparr>af_tasks := x\<rparr> = s\<lparr>af_objectives := os, af_tasks := ts\<rparr>" for s :: AgentFactory and x
    by (intro exI [of _ "af_objectives s"] exI [of _ x]) simp
  show "registerObjective cx i s = (r, t) \<Longrightarrow> \<exists>os ts. t = s\<lparr>af_objectives := os, af_tasks := ts\<rparr>"
    by (auto simp: registerObjective_def andThen_def reads_def modify_def Let_def intro: same one split: sum.splits)
  show "registerTask cx i o' s = (r, t) \<Longrightarrow> \<exists>os ts. t = s\<lparr>af_objectives := os, af_tasks := ts\<rparr>"
    by (auto simp: registerTask_def andThen_def reads_def modify_def Let_def intro: same two split: sum.splits)
  show "registerPlan cx o' xs s = (r, t) \<Longrightarrow> \<exists>os ts. t = s\<lparr>af_objectives := os, af_tasks := ts\<rparr>"
    by (auto simp: registerPlan_def andThen_def reads_def modify_def storeTaskLinks_stores Let_def intro: same split: sum.splits)
qed

lemma putTemplate_cases:
  assumes "putTemplate cx tpl s = (r, t)"
  shows "t = s \<or> \<not> mhas (af_templates s) (templateKey (tpl_workspaceId tpl) (tpl_id tpl) (tpl_version tpl)) \<and>
    t = s\<lparr>af_templates := mset_at (af_templates s) (templateKey (tpl_workspaceId tpl) (tpl_id tpl) (tpl_version tpl)) tpl\<rparr>"
  using assms by (auto simp: putTemplate_def andThen_def reads_def modify_def outcome_simps split: sum.splits)

lemma factoryStep_cases:
  assumes "factoryStep s t"
  obtains (idle) os ts where "t = s\<lparr>af_objectives := os, af_tasks := ts\<rparr>"
    | (template) k tpl where "\<not> mhas (af_templates s) k" "t = s\<lparr>af_templates := mset_at (af_templates s) k tpl\<rparr>"
    | (instantiated) q tpl depth at decision where "instantiated s q tpl depth at decision t"
    | (completed) w i stored outcome reason at where "completed s w i stored outcome reason at t"
proof -
  have same: "s = s\<lparr>af_objectives := af_objectives s, af_tasks := af_tasks s\<rparr>" by simp
  show thesis
    using assms
  proof cases
    case (by_objective cx i r)
    then show ?thesis using register_cases(1) idle by blast
  next
    case (by_task cx i o' r)
    then show ?thesis using register_cases(2) idle by blast
  next
    case (by_plan cx o' ts r)
    then show ?thesis using register_cases(3) idle by blast
  next
    case (by_template cx tpl r)
    then show ?thesis using putTemplate_cases [of cx tpl s r t] same idle that(2) by blast
  next
    case (by_instantiation sha256 clock cx q r')
    then show ?thesis using instantiate_cases [of sha256 clock cx q s r' t] same idle that(3) by blast
  next
    case (by_completion clock cx agentId outcome reason r)
    then show ?thesis using complete_cases [of clock cx agentId outcome reason s r t] same idle that(4) by blast
  qed
qed

section \<open>Counting\<close>

lemma filter_update_le:
  assumes "\<not> P v"
  shows "length (filter P (mvalues (mset_at m k v))) \<le> length (filter P (mvalues m))"
  using assms unfolding mvalues_def mset_at_def by (induction m) auto

lemma filter_delete_le: "length (filter P (mvalues (mdelete m k))) \<le> length (filter P (mvalues m))"
  unfolding mvalues_def mdelete_def by (induction m) (auto simp: AList.delete_eq)

section \<open>The invariant\<close>

abbreviation factoryAgentKey :: "FactoryAgent \<Rightarrow> string" where
  "factoryAgentKey a \<equiv> key (fr_workspaceId a) (fa_agentId a)"

text \<open>The parent of an active agent is stored, active, one level up, and can do at least as much.\<close>

definition parentOk :: "AgentFactory \<Rightarrow> FactoryAgent \<Rightarrow> bool" where
  "parentOk s a = (case fr_parentAgentId a of
     None \<Rightarrow> fa_nestingDepth a = 0
   | Some p \<Rightarrow> \<exists>parent. mget (af_agents s) (key (fr_workspaceId a) p) = Some parent \<and> fa_lifecycle parent = A_ACTIVE \<and>
       attenuated a parent \<and> fa_nestingDepth a = fa_nestingDepth parent + 1)"

definition agentOk :: "AgentFactory \<Rightarrow> FactoryAgent \<Rightarrow> bool" where
  "agentOk s a = (fa_agentId a = agentIdOf (fr_id a) \<and> fa_lifecycle a \<in> {A_ACTIVE, A_ARCHIVED} \<and>
     key (fr_workspaceId a) (fr_id a) \<in> af_consumedRequests s \<and> 0 \<le> fr_childLimit a \<and>
     0 \<le> fa_nestingDepth a \<and> fa_nestingDepth a \<le> lim_maxNestingDepth (af_limits s) \<and>
     (\<exists>tpl. mget (af_templates s) (templateKey (fr_workspaceId a) (fr_templateId a) (fr_templateVersion a)) = Some tpl \<and>
        withinTemplateOk (af_limits s) a tpl))"

definition agentsOk :: "AgentFactory \<Rightarrow> bool" where
  "agentsOk s = (jsmap_ok (af_agents s) \<and> keyed_by factoryAgentKey (af_agents s) \<and>
     (\<forall>k a. mget (af_agents s) k = Some a \<longrightarrow> agentOk s a \<and> (fa_lifecycle a = A_ACTIVE \<longrightarrow> parentOk s a)))"

definition countsOk :: "AgentFactory \<Rightarrow> bool" where
  "countsOk s = (int (length (activeAgents s)) \<le> min (lim_maxAgents (af_limits s)) (lim_maxConcurrentAgents (af_limits s)) \<and>
     (\<forall>w. int (length (filter (\<lambda>a. fr_workspaceId a = w) (activeAgents s))) \<le> lim_maxAgentsPerWorkspace (af_limits s)) \<and>
     (\<forall>k p. mget (af_agents s) k = Some p \<longrightarrow> int (length (activeChildren s (fr_workspaceId p) (fa_agentId p))) \<le>
        min (fr_childLimit p) (lim_maxChildrenPerAgent (af_limits s))))"

definition decisionsOk :: "AgentFactory \<Rightarrow> bool" where
  "decisionsOk s = (distinct (map (\<lambda>d. key (fd_workspaceId d) (fd_requestId d)) (af_decisions s)) \<and>
     set (map (\<lambda>d. key (fd_workspaceId d) (fd_requestId d)) (af_decisions s)) = af_consumedRequests s)"

definition limitsOk :: "AgentFactory \<Rightarrow> bool" where
  "limitsOk s = (0 \<le> lim_maxAgents (af_limits s) \<and> 0 \<le> lim_maxConcurrentAgents (af_limits s) \<and>
     0 \<le> lim_maxAgentsPerWorkspace (af_limits s) \<and> 0 \<le> lim_maxChildrenPerAgent (af_limits s))"

definition factoryInv :: "AgentFactory \<Rightarrow> bool" where
  "factoryInv s = (agentsOk s \<and> countsOk s \<and> decisionsOk s \<and> limitsOk s)"

lemma agentIdOf_inj [simp]: "agentIdOf a = agentIdOf b \<longleftrightarrow> a = b"
  by (simp add: agentIdOf_def)

lemma agentsOkD:
  assumes "agentsOk s" "mget (af_agents s) k = Some a"
  shows "agentOk s a" "k = factoryAgentKey a" "fa_lifecycle a = A_ACTIVE \<Longrightarrow> parentOk s a"
  using assms by (auto simp: agentsOk_def keyed_by_def)

text \<open>The slot of a request that was not consumed is free.\<close>

lemma fresh_slot:
  assumes "agentsOk s" "key w i \<notin> af_consumedRequests s"
  shows "mget (af_agents s) (key w (agentIdOf i)) = None"
proof (rule ccontr)
  assume "mget (af_agents s) (key w (agentIdOf i)) \<noteq> None"
  then obtain a where a: "mget (af_agents s) (key w (agentIdOf i)) = Some a" by auto
  from agentsOkD(1,2) [OF assms(1) a] assms(2) show False by (auto simp: agentOk_def)
qed

text \<open>Only listed agents matter to \<open>parentOk\<close>; later steps keep the parents of active agents.\<close>

lemma parentOk_mono:
  assumes "parentOk s a"
    and "\<And>p parent. fr_parentAgentId a = Some p \<Longrightarrow> mget (af_agents s) (key (fr_workspaceId a) p) = Some parent \<Longrightarrow>
      fa_lifecycle parent = A_ACTIVE \<Longrightarrow> mget (af_agents t) (key (fr_workspaceId a) p) = Some parent"
  shows "parentOk t a"
  using assms by (auto simp: parentOk_def split: option.splits)

lemma agentOk_mono:
  assumes "agentOk s a" "af_limits t = af_limits s" "af_consumedRequests s \<subseteq> af_consumedRequests t"
    and "\<And>k tpl. mget (af_templates s) k = Some tpl \<Longrightarrow> mget (af_templates t) k = Some tpl"
  shows "agentOk t a"
  using assms unfolding agentOk_def by (metis subsetD)

lemma agentsOk_idle:
  assumes "agentsOk s" "af_agents t = af_agents s" "af_limits t = af_limits s" "af_consumedRequests t = af_consumedRequests s"
    and "\<And>k tpl. mget (af_templates s) k = Some tpl \<Longrightarrow> mget (af_templates t) k = Some tpl"
  shows "agentsOk t"
proof -
  have "agentOk t a" if "agentOk s a" for a
    by (rule agentOk_mono [OF that]) (use assms in simp_all)
  moreover have "parentOk t a" if "parentOk s a" for a
    by (rule parentOk_mono [OF that]) (simp add: assms(2))
  ultimately show ?thesis using assms(1) unfolding agentsOk_def assms(2) by blast
qed

lemma nestingDepthFor_Inr:
  assumes "nestingDepthFor s q = Inr d"
  shows "case fr_parentAgentId q of None \<Rightarrow> d = 0
    | Some p \<Rightarrow> \<exists>parent. mget (af_agents s) (key (fr_workspaceId q) p) = Some parent \<and> fa_lifecycle parent = A_ACTIVE \<and>
        attenuated q parent \<and> d = fa_nestingDepth parent + 1 \<and>
        int (length (activeChildren s (fr_workspaceId q) (fa_agentId parent))) <
          min (fr_childLimit parent) (lim_maxChildrenPerAgent (af_limits s))"
  using assms
  by (auto simp: nestingDepthFor_def ebind_Inr dest: withinParent_Inr split: option.splits)

lemma agentsOk_instantiated:
  assumes "agentsOk s" "instantiated s q tpl d at decision t"
  shows "agentsOk t"
proof -
  let ?a = "newFactoryAgent q tpl d at" and ?k = "key (fr_workspaceId q) (agentIdOf (fr_id q))"
  have i: "key (fr_workspaceId q) (fr_id q) \<notin> af_consumedRequests s" "nestingDepthFor s q = Inr d"
    "mget (af_templates s) (templateKey (fr_workspaceId q) (fr_templateId q) (fr_templateVersion q)) = Some tpl"
    "d \<le> lim_maxNestingDepth (af_limits s)" "withinTemplateOk (af_limits s) q tpl" "0 \<le> fr_childLimit q"
    using assms(2) by (auto simp: instantiated_def)
  have t: "af_agents t = mset_at (af_agents s) ?k ?a" "af_templates t = af_templates s" "af_limits t = af_limits s"
    "af_consumedRequests t = insert (key (fr_workspaceId q) (fr_id q)) (af_consumedRequests s)"
    using assms(2) by (auto simp: instantiated_def)
  have fresh: "mget (af_agents s) ?k = None" using fresh_slot [OF assms(1) i(1)] .
  have keep: "mget (af_agents s) k = Some b \<Longrightarrow> mget (af_agents t) k = Some b" for k b
    using fresh by (auto simp: t(1))
  have d0: "0 \<le> d" and p: "parentOk t ?a"
  proof -
    show "0 \<le> d"
      using nestingDepthFor_Inr [OF i(2)] agentsOkD(1) [OF assms(1)] by (fastforce simp: agentOk_def split: option.splits)
    show "parentOk t ?a"
      using nestingDepthFor_Inr [OF i(2)] keep by (auto simp: parentOk_def split: option.splits)
  qed
  have cl: "fr_childLimit ?a = fr_childLimit q" by (simp add: newFactoryAgent_def AgentInstantiationRequest.defs)
  have "agentOk t ?a" using i d0 cl by (auto simp: agentOk_def t)
  moreover have "agentOk t b \<and> (fa_lifecycle b = A_ACTIVE \<longrightarrow> parentOk t b)"
    if "mget (af_agents s) k = Some b" for k b
  proof (intro conjI impI)
    show "agentOk t b" by (rule agentOk_mono [OF agentsOkD(1) [OF assms(1) that]]) (auto simp: t)
    assume "fa_lifecycle b = A_ACTIVE"
    then show "parentOk t b" by (rule parentOk_mono [OF agentsOkD(3) [OF assms(1) that]]) (auto intro: keep)
  qed
  ultimately show ?thesis
    using assms(1) p by (auto simp: agentsOk_def t(1) split: if_splits)
qed

lemma retainedLifecycle_cases: "retainedLifecycle r = A_ARCHIVED \<or> retainedLifecycle r = A_DELETED"
  by (simp add: retainedLifecycle_def)

text \<open>What is stored after a completion: the finished agent is archived or gone, the others are as they were.\<close>

lemma completed_agents:
  assumes "completed s w i stored outcome reason at t"
  shows "mget (af_agents t) k = (if k = key w i then
      (if retainedLifecycle (fr_retention stored) = A_DELETED then None
       else Some (stored\<lparr>fa_terminalOutcome := Some outcome, fa_terminalReason := Some reason,
             fa_completedAt := Some at, fa_lifecycle := A_ARCHIVED, fa_archivedAt := Some at\<rparr>))
    else mget (af_agents s) k)"
  using assms retainedLifecycle_cases [of "fr_retention stored"] by (auto simp: completed_def Let_def)

lemma completed_frame:
  assumes "completed s w i stored outcome reason at t"
  shows "af_templates t = af_templates s" "af_limits t = af_limits s" "af_consumedRequests t = af_consumedRequests s"
    "af_decisions t = af_decisions s" "af_tasks t = af_tasks s" "af_objectives t = af_objectives s"
  using assms by (auto simp: completed_def)

lemma activeChildren_iff:
  assumes "jsmap_ok (af_agents s)"
  shows "a \<in> set (activeChildren s w p) \<longleftrightarrow> (\<exists>k. mget (af_agents s) k = Some a) \<and> fr_parentAgentId a = Some p \<and>
    fr_workspaceId a = w \<and> fa_lifecycle a = A_ACTIVE"
  using assms by (auto simp: activeChildren_def mvalues_iff)

lemma agentsOk_completed:
  assumes "agentsOk s" "completed s w i stored outcome reason at t"
  shows "agentsOk t"
proof -
  have st: "mget (af_agents s) (key w i) = Some stored" "activeChildren s w i = []" using assms(2) by (auto simp: completed_def)
  note m = completed_agents [OF assms(2)] and f = completed_frame [OF assms(2)]
  have j: "jsmap_ok (af_agents s)" using assms(1) by (simp add: agentsOk_def)
  have k: "key w i = factoryAgentKey stored" "agentOk s stored" using agentsOkD [OF assms(1) st(1)] by auto
  have ok: "agentOk t a" if "agentOk s a" for a by (rule agentOk_mono [OF that]) (auto simp: f)
  have "agentOk t a \<and> (fa_lifecycle a = A_ACTIVE \<longrightarrow> parentOk t a) \<and> x = factoryAgentKey a" if a: "mget (af_agents t) x = Some a" for x a
  proof (cases "x = key w i")
    case True
    with a m [of x] have "a = stored\<lparr>fa_terminalOutcome := Some outcome, fa_terminalReason := Some reason,
        fa_completedAt := Some at, fa_lifecycle := A_ARCHIVED, fa_archivedAt := Some at\<rparr>"
      by (auto split: if_splits)
    moreover have "agentOk t (stored\<lparr>fa_terminalOutcome := Some outcome, fa_terminalReason := Some reason,
        fa_completedAt := Some at, fa_lifecycle := A_ARCHIVED, fa_archivedAt := Some at\<rparr>)"
      using ok [OF k(2)] by (simp add: agentOk_def withinTemplateOk_def)
    ultimately show ?thesis using True k(1) by simp
  next
    case False
    with a m have a': "mget (af_agents s) x = Some a" by simp
    have "parentOk t a" if act: "fa_lifecycle a = A_ACTIVE"
    proof (rule parentOk_mono [OF agentsOkD(3) [OF assms(1) a' act]])
      fix p parent
      assume p: "fr_parentAgentId a = Some p" "mget (af_agents s) (key (fr_workspaceId a) p) = Some parent"
      have "key (fr_workspaceId a) p \<noteq> key w i"
        using activeChildren_iff [OF j, of a w i] a' act p(1) st(2) by auto
      then show "mget (af_agents t) (key (fr_workspaceId a) p) = Some parent" unfolding m using p(2) by (simp only: if_False)
    qed
    with agentsOkD [OF assms(1) a'] ok show ?thesis by auto
  qed
  moreover have "jsmap_ok (af_agents t)"
    using j assms(2) by (auto simp: completed_def Let_def)
  ultimately show ?thesis by (auto simp: agentsOk_def keyed_by_def)
qed

lemma activeAgents_eq:
  assumes "af_agents t = mset_at (af_agents s) k a" "mget (af_agents s) k = None" "fa_lifecycle a = A_ACTIVE"
  shows "activeAgents t = activeAgents s @ [a]"
    "activeChildren t w p = activeChildren s w p @ (if fr_parentAgentId a = Some p \<and> fr_workspaceId a = w then [a] else [])"
proof -
  have "mvalues (af_agents t) = mvalues (af_agents s) @ [a]" using assms(1,2) by (simp add: mhas_def mset_at_fresh mvalues_def)
  then show "activeAgents t = activeAgents s @ [a]"
    "activeChildren t w p = activeChildren s w p @ (if fr_parentAgentId a = Some p \<and> fr_workspaceId a = w then [a] else [])"
    using assms(3) by (simp_all add: activeAgents_def activeChildren_def)
qed

lemma decisionsOk_instantiated:
  assumes "decisionsOk s" "instantiated s q tpl d at decision t"
  shows "decisionsOk t"
proof -
  define f where "f = (\<lambda>d :: AgentFactoryDecision. key (fd_workspaceId d) (fd_requestId d))"
  have "map f (af_decisions t) = map f (af_decisions s) @ [key (fr_workspaceId q) (fr_id q)]"
    "af_consumedRequests t = insert (key (fr_workspaceId q) (fr_id q)) (af_consumedRequests s)"
    "key (fr_workspaceId q) (fr_id q) \<notin> af_consumedRequests s"
    using assms(2) by (auto simp: instantiated_def f_def)
  then show ?thesis using assms(1) unfolding decisionsOk_def f_def [symmetric]
    by (metis distinct1_rotate inf_sup_aci(5) insert_is_Un list.simps(15) distinct.simps(2) rotate1.simps(2) set_append empty_set)
qed

lemma countsOk_instantiated:
  assumes "agentsOk s" "countsOk s" "limitsOk s" "instantiated s q tpl d at decision t"
  shows "countsOk t"
proof -
  let ?a = "newFactoryAgent q tpl d at" and ?k = "key (fr_workspaceId q) (agentIdOf (fr_id q))"
  have i: "key (fr_workspaceId q) (fr_id q) \<notin> af_consumedRequests s" "nestingDepthFor s q = Inr d" "0 \<le> fr_childLimit q"
    "int (length (activeAgents s)) < min (lim_maxAgents (af_limits s)) (lim_maxConcurrentAgents (af_limits s))"
    "int (length (filter (\<lambda>a. fr_workspaceId a = fr_workspaceId q) (activeAgents s))) < lim_maxAgentsPerWorkspace (af_limits s)"
    using assms(4) by (auto simp: instantiated_def)
  have t: "af_agents t = mset_at (af_agents s) ?k ?a" "af_limits t = af_limits s"
    using assms(4) by (auto simp: instantiated_def)
  have fresh: "mget (af_agents s) ?k = None" using fresh_slot [OF assms(1) i(1)] .
  note eq = activeAgents_eq [OF t(1) fresh newFactoryAgent_sel(4)]
  have j: "jsmap_ok (af_agents s)" using assms(1) by (simp add: agentsOk_def)
  have none: "activeChildren s (fr_workspaceId q) (agentIdOf (fr_id q)) = []"
  proof (rule ccontr)
    assume "activeChildren s (fr_workspaceId q) (agentIdOf (fr_id q)) \<noteq> []"
    then obtain b k where "mget (af_agents s) k = Some b" "fr_parentAgentId b = Some (agentIdOf (fr_id q))"
      "fr_workspaceId b = fr_workspaceId q" "fa_lifecycle b = A_ACTIVE"
      by (metis activeChildren_iff [OF j] list.set_intros(1) neq_Nil_conv)
    with agentsOkD(3) [OF assms(1)] fresh show False by (fastforce simp: parentOk_def)
  qed
  have np: "fr_parentAgentId q \<noteq> Some (agentIdOf (fr_id q))"
    using nestingDepthFor_Inr [OF i(2)] fresh by auto
  have "int (length (activeChildren t (fr_workspaceId p) (fa_agentId p))) \<le> min (fr_childLimit p) (lim_maxChildrenPerAgent (af_limits s))"
    if p: "mget (af_agents t) x = Some p" for x p
  proof (cases "x = ?k")
    case True
    with p have "p = ?a" by (simp add: t(1))
    then show ?thesis
      using none np i(3) assms(3) by (simp add: eq(2) limitsOk_def newFactoryAgent_def AgentInstantiationRequest.defs)
  next
    case False
    with p have p': "mget (af_agents s) x = Some p" by (simp add: t(1))
    have c: "int (length (activeChildren s (fr_workspaceId p) (fa_agentId p))) \<le> min (fr_childLimit p) (lim_maxChildrenPerAgent (af_limits s))"
      using assms(2) p' by (auto simp: countsOk_def)
    show ?thesis
    proof (cases "fr_parentAgentId q = Some (fa_agentId p) \<and> fr_workspaceId q = fr_workspaceId p")
      case True
      with nestingDepthFor_Inr [OF i(2)] agentsOkD(2) [OF assms(1) p'] p' show ?thesis by (auto simp: eq(2))
    next
      case False
      with c show ?thesis by (auto simp: eq(2))
    qed
  qed
  moreover have "int (length (filter (\<lambda>a. fr_workspaceId a = w) (activeAgents t))) \<le> lim_maxAgentsPerWorkspace (af_limits s)" for w
    using i(5) assms(2) by (auto simp: eq(1) countsOk_def)
  ultimately show ?thesis using i(4) by (auto simp: countsOk_def t(2) eq(1))
qed

lemma filter_completed_le:
  assumes "completed s w i stored outcome reason at t" "\<And>a. P a \<Longrightarrow> fa_lifecycle a = A_ACTIVE"
  shows "length (filter P (mvalues (af_agents t))) \<le> length (filter P (mvalues (af_agents s)))"
proof -
  define v where "v = stored\<lparr>fa_terminalOutcome := Some outcome, fa_terminalReason := Some reason,
    fa_completedAt := Some at, fa_lifecycle := retainedLifecycle (fr_retention stored), fa_archivedAt := Some at\<rparr>"
  have v: "fa_lifecycle v \<noteq> A_ACTIVE"
    "af_agents t = mset_at (af_agents s) (key w i) v \<or> af_agents t = mdelete (mset_at (af_agents s) (key w i) v) (key w i)"
    using assms(1) retainedLifecycle_cases [of "fr_retention stored"] by (auto simp: completed_def Let_def v_def)
  then have "\<not> P v" using assms(2) by blast
  with v(2) show ?thesis
    using filter_update_le [of P v "af_agents s" "key w i"] filter_delete_le [of P "mset_at (af_agents s) (key w i) v" "key w i"]
    by auto
qed

lemma countsOk_completed:
  assumes "countsOk s" "completed s w i stored outcome reason at t"
  shows "countsOk t"
proof -
  note le = filter_completed_le [OF assms(2)] and f = completed_frame [OF assms(2)]
  have a: "length (activeAgents t) \<le> length (activeAgents s)"
    "length (filter (\<lambda>a. fr_workspaceId a = v) (activeAgents t)) \<le> length (filter (\<lambda>a. fr_workspaceId a = v) (activeAgents s))" for v
    unfolding activeAgents_def filter_filter by (rule le, simp)+
  have c: "length (activeChildren t v p) \<le> length (activeChildren s v p)" for v p
    unfolding activeChildren_def by (rule le) simp
  have st: "mget (af_agents s) (key w i) = Some stored" using assms(2) by (simp add: completed_def)
  have old: "\<exists>p'. (\<exists>x. mget (af_agents s) x = Some p') \<and> fr_workspaceId p' = fr_workspaceId p \<and> fa_agentId p' = fa_agentId p \<and>
      fr_childLimit p' = fr_childLimit p" if "mget (af_agents t) x = Some p" for x p
    using that st unfolding completed_agents [OF assms(2)] by (fastforce split: if_splits)
  have ch: "int (length (activeChildren t (fr_workspaceId p) (fa_agentId p))) \<le> min (fr_childLimit p) (lim_maxChildrenPerAgent (af_limits s))"
    if px: "mget (af_agents t) x = Some p" for x p
  proof -
    obtain p' y where p': "mget (af_agents s) y = Some p'" "fr_workspaceId p' = fr_workspaceId p" "fa_agentId p' = fa_agentId p"
      "fr_childLimit p' = fr_childLimit p" using old [OF px] by blast
    have "int (length (activeChildren s (fr_workspaceId p) (fa_agentId p))) \<le> min (fr_childLimit p) (lim_maxChildrenPerAgent (af_limits s))"
      using assms(1) p' unfolding countsOk_def by metis
    with c [of "fr_workspaceId p" "fa_agentId p"] show ?thesis by linarith
  qed
  have "int (length (activeAgents t)) \<le> min (lim_maxAgents (af_limits s)) (lim_maxConcurrentAgents (af_limits s))"
    using assms(1) a(1) unfolding countsOk_def by linarith
  moreover have "int (length (filter (\<lambda>a. fr_workspaceId a = v) (activeAgents t))) \<le> lim_maxAgentsPerWorkspace (af_limits s)" for v
    using assms(1) a(2) [of v] unfolding countsOk_def by (meson of_nat_mono order_trans)
  ultimately show ?thesis using ch unfolding countsOk_def f by blast
qed

lemma factoryInv_frame:
  assumes "factoryInv s" "af_agents t = af_agents s" "af_limits t = af_limits s" "af_consumedRequests t = af_consumedRequests s"
    "af_decisions t = af_decisions s" "\<And>k tpl. mget (af_templates s) k = Some tpl \<Longrightarrow> mget (af_templates t) k = Some tpl"
  shows "factoryInv t"
proof -
  have "activeAgents t = activeAgents s" "activeChildren t = activeChildren s"
    using assms(2) by (simp_all add: activeAgents_def activeChildren_def fun_eq_iff)
  then have "countsOk t = countsOk s" "decisionsOk t = decisionsOk s" "limitsOk t = limitsOk s"
    by (simp_all add: countsOk_def decisionsOk_def limitsOk_def assms(2-5))
  moreover have "agentsOk t" by (rule agentsOk_idle [of s]) (use assms in \<open>simp_all add: factoryInv_def\<close>)
  ultimately show ?thesis using assms(1) by (simp add: factoryInv_def)
qed

interpretation factory: invariant_system factoryInit factoryStep factoryInv
proof unfold_locales
  fix s assume "factoryInit s"
  then show "factoryInv s"
    by (auto simp: factoryInit_def newAgentFactory_def factoryInv_def agentsOk_def countsOk_def decisionsOk_def limitsOk_def
        activeAgents_def mvalues_def factoryInteger_def outcome_simps)
next
  fix s t assume inv: "factoryInv s" and step: "factoryStep s t"
  from step show "factoryInv t"
  proof (cases rule: factoryStep_cases)
    case (idle os ts)
    show ?thesis by (rule factoryInv_frame [OF inv]) (simp_all add: idle)
  next
    case (template k tpl)
    then show ?thesis by (intro factoryInv_frame [OF inv]) (auto simp: mhas_def)
  next
    case (instantiated q tpl d at decision)
    moreover from this have "limitsOk t" using inv by (auto simp: factoryInv_def instantiated_def limitsOk_def)
    ultimately show ?thesis
      using inv agentsOk_instantiated [OF _ instantiated] countsOk_instantiated [OF _ _ _ instantiated]
        decisionsOk_instantiated [OF _ instantiated] by (simp add: factoryInv_def)
  next
    case (completed w i stored outcome reason at)
    moreover from this have "decisionsOk t" "limitsOk t"
      using inv completed_frame [OF completed] by (auto simp: factoryInv_def decisionsOk_def limitsOk_def)
    ultimately show ?thesis
      using inv agentsOk_completed countsOk_completed unfolding factoryInv_def by blast
  qed
qed

end
