(* ===== verification/Agent_Factory_Properties.thy ===== *)
theory Agent_Factory_Properties
  imports Agent_Factory_Invariants
begin

text \<open>
  The properties of the agent factory, over every state it can reach, with a witness in which an
  operator registers a plan, stores a template and instantiates an agent and its child.
\<close>

section \<open>A factory with an agent and its child\<close>

definition demoLimits :: AgentFactoryLimits where
  "demoLimits = \<lparr>lim_maxAgents = 3, lim_maxAgentsPerWorkspace = 2, lim_maxChildrenPerAgent = 1, lim_maxNestingDepth = 1,
     lim_maxConcurrentAgents = 3, lim_maxRuntimeMs = 1000, lim_maxRetries = 2, lim_maxBudgetMinorUnits = 100,
     lim_maxComputeUnits = 10\<rparr>"

definition demoTemplate :: AgentTemplate where
  "demoTemplate = \<lparr>tpl_id = ''tpl'', tpl_version = 1, tpl_workspaceId = ''ws'', tpl_role = ''reviewer'', tpl_department = ''eng'',
     tpl_repositoryScopes = [''repo''], tpl_environmentScopes = [''dev''], tpl_dataScopes = [''public''],
     tpl_capabilityIds = [''review''], tpl_toolGrants = [\<lparr>fg_toolId = ''git'', fg_scopes = [''read'']\<rparr>],
     tpl_maximumAuthority = 2, tpl_maximumRuntimeMs = 1000, tpl_maximumRetries = 1, tpl_maximumChildren = 1,
     tpl_maximumBudgetMinorUnits = 50, tpl_maximumComputeUnits = 5, tpl_retention = ARCHIVE\<rparr>"

definition demoInstantiation :: "EntityId \<Rightarrow> EntityId option \<Rightarrow> AgentInstantiationRequest" where
  "demoInstantiation i parent = \<lparr>fr_id = i, fr_workspaceId = ''ws'', fr_templateId = ''tpl'', fr_templateVersion = 1,
     fr_objectiveId = ''obj'', fr_taskId = ''task'', fr_parentAgentId = parent, fr_repositoryScopes = [''repo''],
     fr_environmentScopes = [''dev''], fr_dataScopes = [''public''], fr_capabilityIds = [''review''],
     fr_toolGrants = [\<lparr>fg_toolId = ''git'', fg_scopes = [''read'']\<rparr>], fr_authorityLevel = 1, fr_budgetMinorUnits = 10,
     fr_computeUnits = 1, fr_maxRuntimeMs = 500, fr_retryLimit = 1, fr_childLimit = 1, fr_acceptanceCriteria = [''done''],
     fr_verificationCriteria = [''checked''], fr_stopCondition = ''stop'', fr_retention = ARCHIVE\<rparr>"

definition demoManager :: WorkspaceContext where
  "demoManager = \<lparr>cx_workspaceId = ''ws'', cx_principalId = ''owner''\<rparr>"

definition demoEmptyFactory :: AgentFactory where
  "demoEmptyFactory = \<lparr>af_authorizers = {''owner''}, af_cooPrincipals = {}, af_limits = demoLimits, af_sink = None,
     af_templates = [], af_agents = [], af_consumedRequests = {}, af_objectives = {}, af_tasks = [],
     af_decisions = [], af_events = []\<rparr>"

definition demoPlanned :: AgentFactory where
  "demoPlanned = snd (putTemplate demoManager demoTemplate
     (snd (registerPlan demoManager ''obj'' [(''task'', ''obj'')] demoEmptyFactory)))"

definition demoParented :: AgentFactory where
  "demoParented = snd (instantiate id 1000 demoManager (demoInstantiation ''r1'' None) demoPlanned)"

definition demoFactory :: AgentFactory where
  "demoFactory = snd (instantiate id 2000 demoManager (demoInstantiation ''r2'' (Some ''agent:r1'')) demoParented)"

definition demoChild :: FactoryAgent where
  "demoChild = newFactoryAgent (demoInstantiation ''r2'' (Some ''agent:r1'')) demoTemplate 1 ''1970-01-01T00:00:02.000Z''"

definition demoParent :: FactoryAgent where
  "demoParent = newFactoryAgent (demoInstantiation ''r1'' None) demoTemplate 0 ''1970-01-01T00:00:01.000Z''"

lemma demoEmptyFactory_reachable: "factoryReachable demoEmptyFactory"
proof (rule reach.reach_init)
  have "newAgentFactory [''owner''] None demoLimits None None = Inr demoEmptyFactory" by code_simp
  then show "factoryInit demoEmptyFactory" unfolding factoryInit_def by blast
qed

lemma snd_reachable:
  "factoryReachable s \<Longrightarrow> factoryReachable (snd (registerPlan cx i ts s))"
  "factoryReachable s \<Longrightarrow> factoryReachable (snd (putTemplate cx tpl s))"
  "factoryReachable s \<Longrightarrow> factoryReachable (snd (instantiate sha256 clock cx q s))"
  by (metis factoryStep.intros prod.collapse reach.reach_step)+

lemma demo_factories_reachable: "factoryReachable demoPlanned" "factoryReachable demoParented" "factoryReachable demoFactory"
  unfolding demoFactory_def demoParented_def demoPlanned_def
  by (intro snd_reachable demoEmptyFactory_reachable)+

lemma demoFactory_agents:
  "af_agents demoFactory = [(key ''ws'' ''agent:r1'', demoParent), (key ''ws'' ''agent:r2'', demoChild)]"
  by code_simp

section \<open>Delegation\<close>

definition childOf :: "AgentFactory \<Rightarrow> FactoryAgent \<Rightarrow> FactoryAgent \<Rightarrow> bool" where
  "childOf s a b = (\<exists>p. fr_parentAgentId a = Some p \<and> mget (af_agents s) (key (fr_workspaceId a) p) = Some b)"

definition activeIn :: "AgentFactory \<Rightarrow> FactoryAgent \<Rightarrow> bool" where
  "activeIn s a = (mget (af_agents s) (factoryAgentKey a) = Some a \<and> fa_lifecycle a = A_ACTIVE)"

lemma childOf_step:
  assumes "agentsOk s" "activeIn s a" "childOf s a b"
  shows "activeIn s b \<and> fr_workspaceId b = fr_workspaceId a \<and> attenuated a b \<and> fa_nestingDepth b + 1 = fa_nestingDepth a"
proof -
  obtain p where p: "fr_parentAgentId a = Some p" "mget (af_agents s) (key (fr_workspaceId a) p) = Some b"
    using assms(3) by (auto simp: childOf_def)
  have "parentOk s a" using assms(1,2) by (auto simp: activeIn_def dest: agentsOkD(3))
  with p have "fa_lifecycle b = A_ACTIVE" "attenuated a b" "fa_nestingDepth a = fa_nestingDepth b + 1"
    by (auto simp: parentOk_def)
  moreover have "key (fr_workspaceId a) p = factoryAgentKey b" using agentsOkD(2) [OF assms(1) p(2)] .
  ultimately show ?thesis using p(2) by (auto simp: activeIn_def)
qed

lemma ancestor_facts:
  assumes "agentsOk s" "(childOf s)\<^sup>+\<^sup>+ a b" "activeIn s a"
  shows "activeIn s b \<and> fr_workspaceId b = fr_workspaceId a \<and> attenuated a b \<and> fa_nestingDepth b < fa_nestingDepth a"
  using assms(2)
proof (induction rule: tranclp_induct)
  case (base b)
  then show ?case using childOf_step [OF assms(1,3)] by fastforce
next
  case (step b c)
  then show ?case using childOf_step [OF assms(1), of b c] attenuated_trans [of a b c] by fastforce
qed

text \<open>
  C23.  Delegation never amplifies: every ancestor of an active agent is stored and active in the same
  workspace, works on the same objective and task, and has at least the scopes, capabilities, tool
  scopes, authority, budget, compute, runtime, retries and children of the agent; it sits at a strictly
  lower nesting depth, so lineage has no cycle and at most as many levels as the factory allows.
\<close>

theorem delegation_attenuates:
  assumes "factoryReachable s" "activeIn s a" "(childOf s)\<^sup>+\<^sup>+ a b"
  shows "activeIn s b \<and> fr_workspaceId b = fr_workspaceId a \<and> attenuated a b \<and>
    0 \<le> fa_nestingDepth b \<and> fa_nestingDepth b < fa_nestingDepth a \<and> fa_nestingDepth a \<le> lim_maxNestingDepth (af_limits s)"
proof -
  have inv: "agentsOk s" using factory.reach_inv [OF assms(1)] by (simp add: factoryInv_def)
  note f = ancestor_facts [OF inv assms(3,2)]
  have "agentOk s a" "agentOk s b"
    using agentsOkD(1) [OF inv] assms(2) f unfolding activeIn_def by blast+
  with f show ?thesis by (auto simp: agentOk_def)
qed

lemma demo_child: "activeIn demoFactory demoChild" "childOf demoFactory demoChild demoParent"
  by (simp_all add: activeIn_def childOf_def demoFactory_agents demoChild_def demoInstantiation_def agentIdOf_def)

theorem delegation_attenuates_witness: "attenuated demoChild demoParent \<and> activeIn demoFactory demoParent"
  using delegation_attenuates [OF demo_factories_reachable(3) demo_child(1) tranclp.r_into_trancl [of "childOf demoFactory", OF demo_child(2)]]
  by blast

text \<open>
  C24.  The limits of the factory hold in every state: the number of active agents in all and per
  workspace, the number of active children of every agent, and the nesting depth; and every agent stays
  within the stored version of its template and the global ceilings, with authority at most 3.
\<close>

theorem factory_limits_hold:
  assumes "factoryReachable s"
  shows "int (length (activeAgents s)) \<le> min (lim_maxAgents (af_limits s)) (lim_maxConcurrentAgents (af_limits s)) \<and>
    (\<forall>w. int (length (filter (\<lambda>a. fr_workspaceId a = w) (activeAgents s))) \<le> lim_maxAgentsPerWorkspace (af_limits s)) \<and>
    (\<forall>k a. mget (af_agents s) k = Some a \<longrightarrow>
      int (length (activeChildren s (fr_workspaceId a) (fa_agentId a))) \<le>
        min (fr_childLimit a) (lim_maxChildrenPerAgent (af_limits s)) \<and>
      fa_nestingDepth a \<le> lim_maxNestingDepth (af_limits s) \<and>
      (\<exists>tpl. mget (af_templates s) (templateKey (fr_workspaceId a) (fr_templateId a) (fr_templateVersion a)) = Some tpl \<and>
         withinTemplateOk (af_limits s) a tpl))"
proof -
  have inv: "agentsOk s" "countsOk s" using factory.reach_inv [OF assms] by (simp_all add: factoryInv_def)
  then show ?thesis
    using agentsOkD(1) [OF inv(1)] unfolding countsOk_def agentOk_def by blast
qed

theorem factory_limits_hold_witness:
  "length (activeAgents demoFactory) = 2 \<and> int (length (activeAgents demoFactory)) \<le> lim_maxAgents (af_limits demoFactory)"
proof
  show "length (activeAgents demoFactory) = 2" by code_simp
  show "int (length (activeAgents demoFactory)) \<le> lim_maxAgents (af_limits demoFactory)"
    using factory_limits_hold [OF demo_factories_reachable(3)] by simp
qed

section \<open>Requests\<close>

lemma consumed_mono: "factoryStep s t \<Longrightarrow> af_consumedRequests s \<subseteq> af_consumedRequests t"
  by (erule factoryStep_cases) (auto simp: instantiated_def completed_def)

lemma consumed_mono_steps: "factoryStep\<^sup>*\<^sup>* s t \<Longrightarrow> af_consumedRequests s \<subseteq> af_consumedRequests t"
  by (induction rule: rtranclp_induct) (auto dest: consumed_mono)

text \<open>
  C25.  A request creates one agent: once an instantiation has succeeded, no later instantiation with
  the same request id in the workspace succeeds, whatever happened in between, also when the agent was
  completed and deleted; and the decisions name each consumed request exactly once.
\<close>

theorem request_consumed_once:
  assumes "factoryReachable s" "instantiate sha256 clock cx q s = (Inr x, t)" "factoryStep\<^sup>*\<^sup>* t u"
    and "fr_workspaceId q' = fr_workspaceId q" "fr_id q' = fr_id q"
  shows "\<not> succeeds (fst (instantiate sha256' clock' cx' q' u)) \<and> snd (instantiate sha256' clock' cx' q' u) = u \<and>
    (\<exists>!i. i < length (af_decisions u) \<and> fd_workspaceId (af_decisions u ! i) = fr_workspaceId q \<and>
       fd_requestId (af_decisions u ! i) = fr_id q)"
proof -
  let ?k = "key (fr_workspaceId q) (fr_id q)"
  have "?k \<in> af_consumedRequests t"
    using instantiate_cases [OF assms(2)] by (auto simp: instantiated_def)
  with consumed_mono_steps [OF assms(3)] have c: "?k \<in> af_consumedRequests u" by blast
  obtain r v where rv: "instantiate sha256' clock' cx' q' u = (r, v)" by fastforce
  have "v = u \<and> \<not> succeeds r"
    using instantiate_cases [OF rv] c assms(4,5) by (auto simp: instantiated_def)
  moreover have "factoryReachable t"
    using assms(1,2) by (metis factoryStep.by_instantiation reach.reach_step)
  then have "decisionsOk u"
    using factory.reach_inv [OF factory.reach_steps [OF assms(3)]] by (simp add: factoryInv_def)
  with c have "\<exists>!i. i < length (af_decisions u) \<and> map (\<lambda>d. key (fd_workspaceId d) (fd_requestId d)) (af_decisions u) ! i = ?k"
    unfolding decisionsOk_def by (metis (no_types, lifting) distinct_Ex1 length_map)
  then have "\<exists>!i. i < length (af_decisions u) \<and> fd_workspaceId (af_decisions u ! i) = fr_workspaceId q \<and>
       fd_requestId (af_decisions u ! i) = fr_id q"
    by (auto cong: conj_cong)
  ultimately show ?thesis using rv by simp
qed

lemma demo_first_instantiation:
  "\<exists>x. instantiate id 1000 demoManager (demoInstantiation ''r1'' None) demoPlanned = (Inr x, demoParented)"
proof -
  have "succeeds (fst (instantiate id 1000 demoManager (demoInstantiation ''r1'' None) demoPlanned))" by code_simp
  then show ?thesis unfolding succeeds_iff demoParented_def by (metis prod.collapse)
qed

theorem request_consumed_once_witness:
  "\<not> succeeds (fst (instantiate id 3000 demoManager (demoInstantiation ''r1'' None) demoFactory))"
proof -
  obtain x where x: "instantiate id 1000 demoManager (demoInstantiation ''r1'' None) demoPlanned = (Inr x, demoParented)"
    using demo_first_instantiation by blast
  have "factoryStep demoParented demoFactory"
    unfolding demoFactory_def by (rule factoryStep.by_instantiation) (rule surjective_pairing)
  then have "factoryStep\<^sup>*\<^sup>* demoParented demoFactory" by blast
  from request_consumed_once [OF demo_factories_reachable(1) x this refl refl] show ?thesis by blast
qed

section \<open>Refusals\<close>

text \<open>
  C26.  A refused call changes nothing, neither the factory nor the event log: a plan is registered
  with all its tasks or not at all, and an agent is created or completed together with its events or
  not at all.
\<close>

theorem refused_factory_call_changes_nothing:
  "(\<not> succeeds (fst (registerObjective cx i s)) \<longrightarrow> snd (registerObjective cx i s) = s) \<and>
   (\<not> succeeds (fst (registerTask cx i objectiveId s)) \<longrightarrow> snd (registerTask cx i objectiveId s) = s) \<and>
   (\<not> succeeds (fst (registerPlan cx i tasks s)) \<longrightarrow> snd (registerPlan cx i tasks s) = s) \<and>
   (\<not> succeeds (fst (putTemplate cx tpl s)) \<longrightarrow> snd (putTemplate cx tpl s) = s) \<and>
   (\<not> succeeds (fst (instantiate sha256 clock cx q s)) \<longrightarrow> snd (instantiate sha256 clock cx q s) = s) \<and>
   (\<not> succeeds (fst (complete clock cx i outcome reason s)) \<longrightarrow> snd (complete clock cx i outcome reason s) = s)"
proof (intro conjI impI)
  show "snd (registerPlan cx i tasks s) = s" if "\<not> succeeds (fst (registerPlan cx i tasks s))"
    using that by (auto simp: registerPlan_def andThen_def reads_def modify_def storeTaskLinks_stores Let_def split: sum.splits)
  show "snd (instantiate sha256 clock cx q s) = s" if "\<not> succeeds (fst (instantiate sha256 clock cx q s))"
    using that instantiate_cases [of sha256 clock cx q s] by (metis prod.collapse succeeds_simps(1))
  show "snd (complete clock cx i outcome reason s) = s" if "\<not> succeeds (fst (complete clock cx i outcome reason s))"
    using that complete_cases [of clock cx i outcome reason s] by (metis prod.collapse succeeds_simps(1))
qed (auto simp: registerObjective_def registerTask_def putTemplate_def andThen_def reads_def modify_def Let_def split: sum.splits)

theorem refused_factory_call_changes_nothing_witness:
  "snd (registerPlan demoManager ''obj2'' [(''t2'', ''obj2''), (''task'', ''obj2'')] demoFactory) = demoFactory"
proof -
  have "\<not> succeeds (fst (registerPlan demoManager ''obj2'' [(''t2'', ''obj2''), (''task'', ''obj2'')] demoFactory))"
    by code_simp
  with refused_factory_call_changes_nothing show ?thesis by blast
qed

end
