(* ===== verification/Task_Run_Policy.thy ===== *)
theory Task_Run_Policy
  imports Contracts Js_Regex Js_Json
begin

text \<open>
  \<open>packages/agent-control-plane/src/task-run-policy.ts\<close>: durable objective plans arrive as unknown
  JavaScript values and are validated before anything is stored; a policy snapshot of every task and of
  the whole plan is hashed.  The values are of type \<open>json\<close>, with \<open>JUndefined\<close> for an absent property and
  \<open>JOpaque\<close> for anything that is neither JSON nor a plain object, so no check of the source is lost.
  SHA-256 is a parameter.
\<close>

section \<open>Statuses\<close>

datatype DurableTaskStatus =
    DT_BLOCKED | DT_READY | DT_AWAITING_APPROVAL | DT_ASSIGNED | DT_RUNNING | DT_COMPLETED | DT_FAILED | DT_STOPPED

datatype DurableRunStatus =
    DR_PREPARED | DR_AWAITING_APPROVAL | DR_ASSIGNED | DR_RUNNING | DR_COMPLETED | DR_FAILED | DR_STOPPED

fun DURABLE_TASK_TRANSITIONS :: "DurableTaskStatus \<Rightarrow> DurableTaskStatus list" where
  "DURABLE_TASK_TRANSITIONS DT_BLOCKED = [DT_READY, DT_AWAITING_APPROVAL, DT_STOPPED]"
| "DURABLE_TASK_TRANSITIONS DT_READY = [DT_ASSIGNED, DT_STOPPED]"
| "DURABLE_TASK_TRANSITIONS DT_AWAITING_APPROVAL = [DT_STOPPED]"
| "DURABLE_TASK_TRANSITIONS DT_ASSIGNED = [DT_READY, DT_RUNNING, DT_FAILED, DT_STOPPED]"
| "DURABLE_TASK_TRANSITIONS DT_RUNNING = [DT_READY, DT_COMPLETED, DT_FAILED, DT_STOPPED]"
| "DURABLE_TASK_TRANSITIONS DT_COMPLETED = []"
| "DURABLE_TASK_TRANSITIONS DT_FAILED = []"
| "DURABLE_TASK_TRANSITIONS DT_STOPPED = []"

fun DURABLE_RUN_TRANSITIONS :: "DurableRunStatus \<Rightarrow> DurableRunStatus list" where
  "DURABLE_RUN_TRANSITIONS DR_PREPARED = [DR_ASSIGNED, DR_STOPPED]"
| "DURABLE_RUN_TRANSITIONS DR_AWAITING_APPROVAL = [DR_STOPPED]"
| "DURABLE_RUN_TRANSITIONS DR_ASSIGNED = [DR_RUNNING, DR_FAILED, DR_STOPPED]"
| "DURABLE_RUN_TRANSITIONS DR_RUNNING = [DR_COMPLETED, DR_FAILED, DR_STOPPED]"
| "DURABLE_RUN_TRANSITIONS DR_COMPLETED = []"
| "DURABLE_RUN_TRANSITIONS DR_FAILED = []"
| "DURABLE_RUN_TRANSITIONS DR_STOPPED = []"

section \<open>Values\<close>

datatype DurableError = DurableTaskRunPolicyError string

text \<open>\<open>value.name\<close>, the elements of an array, the text of a string and the number of an integer.\<close>

definition getProp :: "json \<Rightarrow> string \<Rightarrow> json" where
  "getProp v name = (case map_of (members v) name of None \<Rightarrow> JUndefined | Some x \<Rightarrow> x)"

fun elements :: "json \<Rightarrow> json list" where
  "elements (JArr xs) = xs"
| "elements _ = []"

fun textOf :: "json \<Rightarrow> string" where
  "textOf (JStr s) = s"
| "textOf _ = []"

fun numberOf :: "json \<Rightarrow> int" where
  "numberOf (JNum (SafeInt n)) = n"
| "numberOf _ = 0"

section \<open>Patterns\<close>

definition DURABLE_REFERENCE :: regex where
  "DURABLE_REFERENCE = anchored isAlnum (cls_or isAlnum (one_of '':._/-'')) 0 255"

definition SAFE_CODE :: regex where
  "SAFE_CODE = anchored (cls_or isUpper isDigit) (cls_or isUpper (cls_or isDigit (one_of ''._-''))) 0 127"

definition SHA256 :: regex where
  "SHA256 = exactly 64 (cls_or isDigit (rng (CHR ''a'') (CHR ''f'')))"

definition ISO_CURRENCY :: regex where
  "ISO_CURRENCY = exactly 3 isUpper"

text \<open>With the flag \<open>i\<close>: literals and classes match letters of either case.\<close>

definition SENSITIVE :: regex where
  "SENSITIVE = (let sep = opt (one_of ''-_. ''); tokenChar = cls_or isAlnum (one_of ''_-'') in alts
    [seqs [LitI ''chain'', sep, LitI ''of'', sep, LitI ''thought''],
     seqs [LitI ''private'', sep, LitI ''reasoning''],
     LitI ''password'', LitI ''credential'', seqs [LitI ''api'', sep, LitI ''key''],
     LitI ''transcript'', LitI ''prompt'',
     seqs [LitI ''-----BEGIN '', star (cls_or isUpper (cls_or isLower (one_of '' ''))), LitI ''PRIVATE KEY-----''],
     seqs [WordBoundary, LitI ''Bearer'', Rep 1 None isWhiteSpace, Rep 12 None (cls_or isAlnum (one_of ''._~+/=-''))],
     seqs [WordBoundary, alts [LitI ''sk'', seqs [LitI ''gh'', Cls (one_of ''opusrOPUSR'')], LitI ''github_pat'', LitI ''glpat''],
           Cls (one_of ''_-''), Rep 12 None tokenChar],
     seqs [WordBoundary, LitI ''eyJ'', Rep 1 None tokenChar, LitI ''.eyJ'', Rep 1 None tokenChar, LitI ''.'', Rep 1 None tokenChar]])"

section \<open>Checks of single values\<close>

definition refuse :: "string \<Rightarrow> DurableError + 'a" where
  "refuse message = Inl (DurableTaskRunPolicyError message)"

definition demand :: "bool \<Rightarrow> string \<Rightarrow> DurableError + unit" where
  "demand b message = ensure b (DurableTaskRunPolicyError message)"

fun isRecord :: "json \<Rightarrow> bool" where
  "isRecord (JObj _) = True"
| "isRecord _ = False"

definition plainRecord :: "json \<Rightarrow> string \<Rightarrow> DurableError + unit" where
  "plainRecord v fld = demand (isRecord v) (fld @ '' must be a plain object'')"

definition exactKeys :: "json \<Rightarrow> string list \<Rightarrow> string \<Rightarrow> DurableError + unit" where
  "exactKeys v allowed fld = demand (\<forall>kv \<in> set (members v). fst kv \<in> set allowed) (fld @ '' contains unsupported fields'')"

definition isReference :: "json \<Rightarrow> bool" where
  "isReference v = (case v of JStr s \<Rightarrow> regex_test DURABLE_REFERENCE s \<and> \<not> regex_test SENSITIVE s | _ \<Rightarrow> False)"

definition durableReference :: "json \<Rightarrow> string \<Rightarrow> DurableError + unit" where
  "durableReference v fld = demand (isReference v) (fld @ '' must be a safe non-sensitive reference'')"

definition isBoundedText :: "json \<Rightarrow> bool" where
  "isBoundedText v = (case v of JStr s \<Rightarrow> \<not> (trim s = [] \<or> 2048 < length s \<or> (\<exists>c \<in> set s. isControl c) \<or> regex_test SENSITIVE s)
   | _ \<Rightarrow> False)"

definition durableText :: "json \<Rightarrow> string \<Rightarrow> DurableError + unit" where
  "durableText v fld = demand (isBoundedText v) (fld @ '' must be bounded, printable, and non-sensitive'')"

fun denseLoop :: "string \<Rightarrow> json set \<Rightarrow> json list \<Rightarrow> DurableError + unit" where
  "denseLoop fld seen [] = Inr ()"
| "denseLoop fld seen (x # xs) =
     ebind (durableText x fld) (\<lambda>_.
     ebind (demand (x \<notin> seen) (fld @ '' must not contain duplicates'')) (\<lambda>_. denseLoop fld (insert x seen) xs))"

definition denseStrings :: "json \<Rightarrow> string \<Rightarrow> nat \<Rightarrow> DurableError + unit" where
  "denseStrings v fld maximum = (case v of
     JArr xs \<Rightarrow> ebind (demand (\<not> (length xs = 0 \<or> maximum < length xs))
         (fld @ '' must contain between 1 and '' @ nat_text maximum @ '' entries'')) (\<lambda>_. denseLoop fld {} xs)
   | _ \<Rightarrow> refuse (fld @ '' must contain between 1 and '' @ nat_text maximum @ '' entries''))"

definition safeInteger :: "json \<Rightarrow> string \<Rightarrow> int \<Rightarrow> DurableError + unit" where
  "safeInteger v fld minimum = demand (case v of JNum (SafeInt n) \<Rightarrow> isSafeInteger n \<and> \<not> n < minimum | _ \<Rightarrow> False)
     (fld @ '' must be a safe integer of at least '' @ int_text minimum)"

definition durableAuthority :: "json \<Rightarrow> string \<Rightarrow> DurableError + unit" where
  "durableAuthority v fld = ebind (safeInteger v fld 0) (\<lambda>_.
     demand (\<not> 4 < numberOf v) (fld @ '' must be an authority level''))"

definition durableCostLimit :: "json \<Rightarrow> string \<Rightarrow> DurableError + unit" where
  "durableCostLimit v fld = checks
     [plainRecord v fld,
      exactKeys v [''currency'', ''maximumMinorUnits'', ''maximumComputeUnits''] fld,
      demand (case getProp v ''currency'' of JStr s \<Rightarrow> regex_test ISO_CURRENCY s | _ \<Rightarrow> False)
        (fld @ ''.currency must be an ISO-style currency code''),
      safeInteger (getProp v ''maximumMinorUnits'') (fld @ ''.maximumMinorUnits'') 0,
      safeInteger (getProp v ''maximumComputeUnits'') (fld @ ''.maximumComputeUnits'') 0]"

fun jsonSafe :: "json \<Rightarrow> string \<Rightarrow> nat \<Rightarrow> DurableError + unit" where
  "jsonSafe v fld depth = (if 8 < depth then refuse (fld @ '' exceeds maximum nesting depth'') else
     (case v of
        JNull \<Rightarrow> Inr ()
      | JBool _ \<Rightarrow> Inr ()
      | JNum n \<Rightarrow> demand (case n of SafeInt i \<Rightarrow> isSafeInteger i | _ \<Rightarrow> False) (fld @ '' contains an unsafe number'')
      | JStr _ \<Rightarrow> durableText v fld
      | JArr xs \<Rightarrow> ebind (demand (\<not> 64 < length xs) (fld @ '' contains too many entries'')) (\<lambda>_.
          checks (map (\<lambda>item. jsonSafe item fld (depth + 1)) xs))
      | JObj kvs \<Rightarrow> ebind (demand (\<not> 64 < length kvs) (fld @ '' contains too many fields'')) (\<lambda>_.
          checks (map (\<lambda>(k, nested). ebind (durableReference (JStr k) (fld @ '' field'')) (\<lambda>_. jsonSafe nested fld (depth + 1))) kvs))
      | JUndefined \<Rightarrow> plainRecord v fld
      | JOpaque \<Rightarrow> plainRecord v fld))"

declare jsonSafe.simps [simp del]

section \<open>Evidence\<close>

text \<open>The digests are strings by their type.\<close>

definition isDigest :: "json \<Rightarrow> bool" where
  "isDigest v = (case v of JStr s \<Rightarrow> regex_test SHA256 s | _ \<Rightarrow> False)"

definition validateTrustedAssignmentEvidence :: "json \<Rightarrow> DurableError + unit" where
  "validateTrustedAssignmentEvidence v = checks
     [plainRecord v ''assignment evidence'',
      exactKeys v [''evidenceId'', ''evidenceHash'', ''taskId'', ''runId'', ''agentId'', ''runtimeId'', ''connectionId'']
        ''assignment evidence'',
      checks (map (\<lambda>(k, r). if k \<noteq> ''evidenceHash'' then durableReference r (''assignment evidence.'' @ k) else Inr ()) (members v)),
      demand (isDigest (getProp v ''evidenceHash'')) ''assignment evidence hash must be a lowercase SHA-256 digest'']"

definition validateTrustedArtifactEvidence :: "json \<Rightarrow> DurableError + unit" where
  "validateTrustedArtifactEvidence v = checks
     ([plainRecord v ''artifact evidence'',
       exactKeys v [''evidenceId'', ''evidenceHash'', ''taskId'', ''runId'', ''artifactId'', ''criterion'', ''kind'',
         ''uriReference'', ''contentHash''] ''artifact evidence''] @
      map (\<lambda>k. durableReference (getProp v k) (''artifact evidence.'' @ k))
        [''evidenceId'', ''taskId'', ''runId'', ''artifactId'', ''kind'', ''uriReference''] @
      [durableText (getProp v ''criterion'') ''artifact evidence.criterion'',
       demand (\<not> (\<not> isDigest (getProp v ''evidenceHash'') \<or> \<not> isDigest (getProp v ''contentHash'')))
         ''artifact evidence hashes must be lowercase SHA-256 digests''])"

section \<open>Tasks\<close>

definition TASK_KIND_MINIMUM_AUTHORITY :: "string \<Rightarrow> int option" where
  "TASK_KIND_MINIMUM_AUTHORITY = map_of
     [(''business.research'', 1), (''repository.review'', 1), (''quality.verify'', 3), (''documentation.prepare'', 2),
      (''runtime.health.check'', 0)]"

text \<open>
  The operator \<open>in\<close> also finds the properties an object literal inherits from \<open>Object.prototype\<close>.  Their
  values are functions and objects, and comparing a number with one of them yields \<open>false\<close>.
\<close>

definition kindInTable :: "json \<Rightarrow> bool" where
  "kindInTable v = (case v of JStr k \<Rightarrow> TASK_KIND_MINIMUM_AUTHORITY k \<noteq> None \<or> k \<in> set OBJECT_PROTOTYPE | _ \<Rightarrow> False)"

definition belowKindMinimum :: "int \<Rightarrow> json \<Rightarrow> bool" where
  "belowKindMinimum level v = (case TASK_KIND_MINIMUM_AUTHORITY (textOf v) of None \<Rightarrow> False | Some m \<Rightarrow> level < m)"

definition validateApproval :: "json \<Rightarrow> int \<Rightarrow> DurableError + unit" where
  "validateApproval v requiredAuthority =
     (if requiredAuthority \<noteq> 4 then demand (v = JUndefined) ''Only Level-4 tasks may prepare an approval binding''
      else checks
       [plainRecord v ''task.approval'',
        exactKeys v [''actionCode'', ''exactTarget'', ''artifactVersionId'', ''evidenceHash''] ''task.approval'',
        demand (case getProp v ''actionCode'' of JStr s \<Rightarrow> regex_test SAFE_CODE s | _ \<Rightarrow> False)
          ''task.approval.actionCode must be a safe action code'',
        durableReference (getProp v ''exactTarget'') ''task.approval.exactTarget'',
        durableReference (getProp v ''artifactVersionId'') ''task.approval.artifactVersionId'',
        demand (isDigest (getProp v ''evidenceHash'')) ''task.approval.evidenceHash must be a lowercase SHA-256 digest''])"

fun dependencyLoop :: "json set \<Rightarrow> json list \<Rightarrow> DurableError + unit" where
  "dependencyLoop seen [] = Inr ()"
| "dependencyLoop seen (x # xs) =
     ebind (durableReference x ''task.dependencyIds'') (\<lambda>_.
     ebind (demand (x \<notin> seen) ''Task dependencies must be unique'') (\<lambda>_. dependencyLoop (insert x seen) xs))"

definition checkDependencies :: "json \<Rightarrow> DurableError + unit" where
  "checkDependencies v = (case v of
     JArr xs \<Rightarrow> ebind (demand (\<not> 64 < length xs) ''task.dependencyIds must be a bounded array'') (\<lambda>_. dependencyLoop {} xs)
   | _ \<Rightarrow> refuse ''task.dependencyIds must be a bounded array'')"

definition failureOverlap :: "json \<Rightarrow> string option" where
  "failureOverlap policy = map_option textOf
     (List.find (\<lambda>code. code \<in> set (elements (getProp policy ''stopAfterFailureCodes''))) (elements (getProp policy ''retryableFailureCodes'')))"

definition checkRetryPolicy :: "json \<Rightarrow> DurableError + unit" where
  "checkRetryPolicy v = checks
     [plainRecord v ''task.retryPolicy'',
      exactKeys v [''maximumAttempts'', ''retryableFailureCodes'', ''stopAfterFailureCodes''] ''task.retryPolicy'',
      safeInteger (getProp v ''maximumAttempts'') ''task.retryPolicy.maximumAttempts'' 1,
      demand (\<not> 32 < numberOf (getProp v ''maximumAttempts'')) ''Retry budget exceeds 32 attempts'',
      denseStrings (getProp v ''retryableFailureCodes'') ''task.retryPolicy.retryableFailureCodes'' 64,
      denseStrings (getProp v ''stopAfterFailureCodes'') ''task.retryPolicy.stopAfterFailureCodes'' 64,
      demand (\<not> truthy (failureOverlap v)) ''Retry and stop failure codes must not overlap'']"

definition validateDurableTask :: "json \<Rightarrow> string set \<Rightarrow> DurableError + unit" where
  "validateDurableTask task projectIds = checks
     [plainRecord task ''task'',
      exactKeys task [''id'', ''projectId'', ''title'', ''kind'', ''dependencyIds'', ''requiredAuthority'', ''costLimit'',
        ''estimatedDurationMs'', ''acceptanceCriteria'', ''verificationCriteria'', ''stopConditions'', ''retryPolicy'',
        ''agentPolicy'', ''routingPolicy'', ''approval''] ''task'',
      durableReference (getProp task ''id'') ''task.id'',
      durableReference (getProp task ''projectId'') ''task.projectId'',
      demand (textOf (getProp task ''projectId'') \<in> projectIds) ''Task references an unknown project'',
      durableText (getProp task ''title'') ''task.title'',
      demand (kindInTable (getProp task ''kind'')) ''Unsupported task kind'',
      checkDependencies (getProp task ''dependencyIds''),
      durableAuthority (getProp task ''requiredAuthority'') ''task.requiredAuthority'',
      demand (\<not> belowKindMinimum (numberOf (getProp task ''requiredAuthority'')) (getProp task ''kind''))
        ''Task authority is below the task-kind minimum'',
      durableCostLimit (getProp task ''costLimit'') ''task.costLimit'',
      safeInteger (getProp task ''estimatedDurationMs'') ''task.estimatedDurationMs'' 1,
      denseStrings (getProp task ''acceptanceCriteria'') ''task.acceptanceCriteria'' 64,
      denseStrings (getProp task ''verificationCriteria'') ''task.verificationCriteria'' 64,
      denseStrings (getProp task ''stopConditions'') ''task.stopConditions'' 64,
      checkRetryPolicy (getProp task ''retryPolicy''),
      jsonSafe (getProp task ''agentPolicy'') ''task.agentPolicy'' 0,
      jsonSafe (getProp task ''routingPolicy'') ''task.routingPolicy'' 0,
      validateApproval (getProp task ''approval'') (numberOf (getProp task ''requiredAuthority''))]"

section \<open>Dependency order\<close>

text \<open>
  The depth-first search of \<open>assertAcyclic\<close>.  The set \<open>visiting\<close> holds the ids on the recursion stack: what a
  call adds it removes before it returns, so it is passed down; the set \<open>visited\<close> is kept in insertion order.
\<close>

definition setAdd :: "'a \<Rightarrow> 'a list \<Rightarrow> 'a list" where
  "setAdd x xs = (if x \<in> set xs then xs else xs @ [x])"

definition unvisitedCount :: "string list jsmap \<Rightarrow> string set \<Rightarrow> nat" where
  "unvisitedCount byId visiting = card (fst ` set byId - visiting)"

lemma unvisitedCount_insert:
  assumes "mget byId i = Some ds" "i \<notin> visiting"
  shows "unvisitedCount byId (insert i visiting) < unvisitedCount byId visiting"
proof -
  have "i \<in> fst ` set byId" using assms(1) by (metis map_of_SomeD image_eqI fst_conv)
  with assms(2) show ?thesis unfolding unvisitedCount_def by (intro psubset_card_mono) auto
qed

function visit :: "string list jsmap \<Rightarrow> string set \<Rightarrow> string list \<Rightarrow> string \<Rightarrow> DurableError + string list"
  and visitEach :: "string list jsmap \<Rightarrow> string set \<Rightarrow> string list \<Rightarrow> string \<Rightarrow> string list \<Rightarrow> DurableError + string list"
where
  "visit byId visiting visited i =
     (if i \<in> visiting then refuse ''Task dependency graph contains a cycle''
      else if i \<in> set visited then Inr visited
      else case mget byId i of
        None \<Rightarrow> refuse ''Task references an unknown dependency''
      | Some dependencyIds \<Rightarrow> ebind (visitEach byId (insert i visiting) visited i dependencyIds) (\<lambda>visited'. Inr (setAdd i visited')))"
| "visitEach byId visiting visited i [] = Inr visited"
| "visitEach byId visiting visited i (d # ds) =
     (if d = i then refuse ''Task cannot depend on itself''
      else ebind (visit byId visiting visited d) (\<lambda>visited'. visitEach byId visiting visited' i ds))"
  by pat_completeness auto

termination
  by (relation "measures
      [\<lambda>x. case x of Inl (byId, visiting, _, _) \<Rightarrow> unvisitedCount byId visiting
                   | Inr (byId, visiting, _, _, _) \<Rightarrow> unvisitedCount byId visiting,
       \<lambda>x. case x of Inl _ \<Rightarrow> 0 | Inr (_, _, _, _, ds) \<Rightarrow> Suc (length ds)]")
    (auto intro: unvisitedCount_insert)

declare visit.simps [simp del]

fun visitAll :: "string list jsmap \<Rightarrow> string list \<Rightarrow> (string \<times> string list) list \<Rightarrow> DurableError + string list" where
  "visitAll byId visited [] = Inr visited"
| "visitAll byId visited (task # tasks) = ebind (visit byId {} visited (fst task)) (\<lambda>visited'. visitAll byId visited' tasks)"

text \<open>\<open>new Map(tasks.map((task) => [task.id, task]))\<close>, of a task its dependencies.\<close>

definition byIdOf :: "(string \<times> string list) list \<Rightarrow> string list jsmap" where
  "byIdOf tasks = foldl (\<lambda>m (i, ds). mset_at m i ds) [] tasks"

definition assertAcyclic :: "(string \<times> string list) list \<Rightarrow> DurableError + unit" where
  "assertAcyclic tasks = ebind (visitAll (byIdOf tasks) [] tasks) (\<lambda>_. Inr ())"

section \<open>Plans\<close>

definition taskLinks :: "json \<Rightarrow> string \<times> string list" where
  "taskLinks task = (textOf (getProp task ''id''), map textOf (elements (getProp task ''dependencyIds'')))"

fun projectLoop :: "string set \<Rightarrow> json list \<Rightarrow> DurableError + string set" where
  "projectLoop projectIds [] = Inr projectIds"
| "projectLoop projectIds (project # projects) =
     ebind (checks
       [plainRecord project ''project'',
        exactKeys project [''id'', ''title''] ''project'',
        durableReference (getProp project ''id'') ''project.id'',
        durableText (getProp project ''title'') ''project.title'',
        demand (textOf (getProp project ''id'') \<notin> projectIds) ''Project IDs must be unique'']) (\<lambda>_.
     projectLoop (insert (textOf (getProp project ''id'')) projectIds) projects)"

text \<open>The numbers of a cost limit.\<close>

abbreviation minorUnits :: "json \<Rightarrow> int" where
  "minorUnits v \<equiv> numberOf (getProp (getProp v ''costLimit'') ''maximumMinorUnits'')"

abbreviation computeUnits :: "json \<Rightarrow> int" where
  "computeUnits v \<equiv> numberOf (getProp (getProp v ''costLimit'') ''maximumComputeUnits'')"

fun taskLoop :: "json \<Rightarrow> string set \<Rightarrow> string set \<Rightarrow> int \<Rightarrow> int \<Rightarrow> json list \<Rightarrow> DurableError + unit" where
  "taskLoop objective projectIds taskIds totalCostMinorUnits totalComputeUnits [] = Inr ()"
| "taskLoop objective projectIds taskIds totalCostMinorUnits totalComputeUnits (task # tasks) =
     (let cost = double_round (totalCostMinorUnits + minorUnits task);
          compute = double_round (totalComputeUnits + computeUnits task) in
     ebind (checks
       [validateDurableTask task projectIds,
        demand (textOf (getProp task ''id'') \<notin> taskIds) ''Task IDs must be unique'',
        demand (\<not> numberOf (getProp objective ''maximumAuthority'') < numberOf (getProp task ''requiredAuthority''))
          ''Task authority exceeds the objective maximum'',
        demand (\<not> (getProp (getProp task ''costLimit'') ''currency'' \<noteq> getProp (getProp objective ''costLimit'') ''currency'' \<or>
            minorUnits objective < minorUnits task \<or> computeUnits objective < computeUnits task))
          ''Task budget exceeds or conflicts with the objective budget'',
        demand (\<not> (\<not> isSafeInteger cost \<or> \<not> isSafeInteger compute \<or> minorUnits objective < cost \<or> computeUnits objective < compute))
          ''Aggregate task budgets exceed the objective budget'']) (\<lambda>_.
     taskLoop objective projectIds (insert (textOf (getProp task ''id'')) taskIds) cost compute tasks))"

definition objectiveChecks :: "json \<Rightarrow> DurableError + unit" where
  "objectiveChecks objective = checks
     [plainRecord objective ''plan.objective'',
      exactKeys objective [''id'', ''title'', ''desiredOutcome'', ''maximumAuthority'', ''costLimit'', ''acceptanceCriteria'',
        ''verificationCriteria'', ''stopConditions''] ''plan.objective'',
      durableReference (getProp objective ''id'') ''objective.id'',
      durableText (getProp objective ''title'') ''objective.title'',
      durableText (getProp objective ''desiredOutcome'') ''objective.desiredOutcome'',
      durableAuthority (getProp objective ''maximumAuthority'') ''objective.maximumAuthority'',
      durableCostLimit (getProp objective ''costLimit'') ''objective.costLimit'',
      denseStrings (getProp objective ''acceptanceCriteria'') ''objective.acceptanceCriteria'' 64,
      denseStrings (getProp objective ''verificationCriteria'') ''objective.verificationCriteria'' 64,
      denseStrings (getProp objective ''stopConditions'') ''objective.stopConditions'' 64]"

definition boundedArray :: "json \<Rightarrow> nat \<Rightarrow> string \<Rightarrow> DurableError + unit" where
  "boundedArray v maximum message = demand
     (case v of JArr xs \<Rightarrow> \<not> (length xs = 0 \<or> maximum < length xs) | _ \<Rightarrow> False) message"

definition validateDurableObjectivePlan :: "json \<Rightarrow> DurableError + unit" where
  "validateDurableObjectivePlan input =
     ebind (checks
       [plainRecord input ''plan'',
        exactKeys input [''workspaceId'', ''idempotencyKey'', ''policyVersion'', ''objective'', ''projects'', ''tasks''] ''plan'',
        durableReference (getProp input ''workspaceId'') ''plan.workspaceId'',
        durableReference (getProp input ''idempotencyKey'') ''plan.idempotencyKey'',
        durableReference (getProp input ''policyVersion'') ''plan.policyVersion'',
        objectiveChecks (getProp input ''objective''),
        boundedArray (getProp input ''projects'') 64 ''Plan must contain between 1 and 64 projects'']) (\<lambda>_.
     ebind (projectLoop {} (elements (getProp input ''projects''))) (\<lambda>projectIds.
     ebind (boundedArray (getProp input ''tasks'') 256 ''Plan must contain between 1 and 256 tasks'') (\<lambda>_.
     ebind (taskLoop (getProp input ''objective'') projectIds {} 0 0 (elements (getProp input ''tasks''))) (\<lambda>_.
     assertAcyclic (map taskLinks (elements (getProp input ''tasks'')))))))"

section \<open>Policy snapshots\<close>

text \<open>
  \<open>Object.fromEntries\<close>: an object lists the properties named by array indices first, in numeric order,
  then the others in the order of their creation.
\<close>

definition isArrayIndex :: "string \<Rightarrow> bool" where
  "isArrayIndex k = (k \<noteq> [] \<and> (\<forall>c \<in> set k. isDigit c) \<and> (hd k = CHR ''0'' \<longrightarrow> k = ''0'') \<and> text_val k < 2 ^ 32 - 1)"

definition fromEntries :: "json_record \<Rightarrow> json_record" where
  "fromEntries kvs =
     sortWith (\<lambda>l r. int (text_val (fst l)) - int (text_val (fst r))) (filter (\<lambda>kv. isArrayIndex (fst kv)) kvs) @
     filter (\<lambda>kv. \<not> isArrayIndex (fst kv)) kvs"

fun canonicalPolicy :: "json \<Rightarrow> json" where
  "canonicalPolicy (JArr xs) = JArr (map canonicalPolicy xs)"
| "canonicalPolicy (JObj kvs) = JObj (fromEntries (sortWith (\<lambda>l r. compareText (fst l) (fst r))
     (map (\<lambda>(k, nested). (k, canonicalPolicy nested)) kvs)))"
| "canonicalPolicy v = v"

definition snapshotOf :: "json \<Rightarrow> json \<Rightarrow> json" where
  "snapshotOf input task = JObj (
     [(''schemaVersion'', JNum (SafeInt 1)),
      (''policyVersion'', getProp input ''policyVersion''),
      (''objectiveId'', getProp (getProp input ''objective'') ''id''),
      (''taskId'', getProp task ''id''),
      (''projectId'', getProp task ''projectId''),
      (''title'', getProp task ''title''),
      (''kind'', getProp task ''kind''),
      (''dependencyIds'', JArr (sortWith (\<lambda>l r. compareText (textOf l) (textOf r)) (elements (getProp task ''dependencyIds'')))),
      (''requiredAuthority'', getProp task ''requiredAuthority''),
      (''costLimit'', getProp task ''costLimit''),
      (''estimatedDurationMs'', getProp task ''estimatedDurationMs''),
      (''acceptanceCriteria'', getProp task ''acceptanceCriteria''),
      (''verificationCriteria'', getProp task ''verificationCriteria''),
      (''stopConditions'', getProp task ''stopConditions''),
      (''retryPolicy'', getProp task ''retryPolicy''),
      (''agentPolicy'', canonicalPolicy (getProp task ''agentPolicy'')),
      (''routingPolicy'', canonicalPolicy (getProp task ''routingPolicy''))] @
     (if getProp task ''approval'' \<noteq> JUndefined then [(''approval'', getProp task ''approval'')] else []))"

text \<open>
  The task is an object of the caller, compared by identity with the tasks of the plan: it is given by its
  position there, a position outside standing for any other object.
\<close>

definition buildDurableTaskPolicySnapshot :: "json \<Rightarrow> nat \<Rightarrow> DurableError + json" where
  "buildDurableTaskPolicySnapshot input i =
     ebind (validateDurableObjectivePlan input) (\<lambda>_.
     let tasks = elements (getProp input ''tasks'') in
     if i < length tasks then Inr (snapshotOf input (tasks ! i)) else refuse ''Task is not part of the validated plan'')"

definition hashDurablePolicy :: "(string \<Rightarrow> string) \<Rightarrow> json \<Rightarrow> string" where
  "hashDurablePolicy sha256 snapshot = sha256 (json_text (canonicalPolicy snapshot))"

definition planPolicyJson :: "json \<Rightarrow> string list \<Rightarrow> json" where
  "planPolicyJson input taskHashes = JObj
     [(''schemaVersion'', JNum (SafeInt 1)), (''workspaceId'', getProp input ''workspaceId''),
      (''policyVersion'', getProp input ''policyVersion''), (''objective'', getProp input ''objective''),
      (''projects'', getProp input ''projects''), (''taskHashes'', JArr (map JStr taskHashes))]"

definition hashDurablePlanPolicy :: "(string \<Rightarrow> string) \<Rightarrow> json \<Rightarrow> string list \<Rightarrow> DurableError + string" where
  "hashDurablePlanPolicy sha256 input taskHashes =
     ebind (validateDurableObjectivePlan input) (\<lambda>_.
     ebind (demand (\<not> (length taskHashes \<noteq> length (elements (getProp input ''tasks'')) \<or> (\<exists>hash \<in> set taskHashes. \<not> regex_test SHA256 hash)))
       ''Plan task hashes must exactly cover the validated tasks'') (\<lambda>_.
     Inr (sha256 (json_text (canonicalPolicy (planPolicyJson input taskHashes))))))"

end
