(* ===== verification/Task_Plan_Properties.thy ===== *)
theory Task_Plan_Properties
  imports Task_Run_Policy
begin

text \<open>
  What an accepted plan promises: its tasks can be worked off in an order that respects the dependencies,
  its budgets add up within the objective, and its policy hashes bind every field of the tasks.
\<close>

lemma demand_Inr [simp, outcome_simps]: "demand b m = Inr u \<longleftrightarrow> b"
  by (simp add: demand_def)

lemma refuse_not_Inr [simp]: "refuse m \<noteq> Inr x"
  by (simp add: refuse_def)

section \<open>Depth-first search\<close>

text \<open>A schedule lists tasks so that every dependency has been done before.\<close>

fun schedule :: "string list jsmap \<Rightarrow> string set \<Rightarrow> string list \<Rightarrow> bool" where
  "schedule byId earlier [] = True"
| "schedule byId earlier (x # xs) = (x \<notin> earlier \<and> (case mget byId x of None \<Rightarrow> False | Some ds \<Rightarrow> set ds \<subseteq> earlier) \<and>
     schedule byId (insert x earlier) xs)"

lemma schedule_append: "schedule byId earlier (xs @ ys) \<longleftrightarrow> schedule byId earlier xs \<and> schedule byId (earlier \<union> set xs) ys"
  by (induction xs arbitrary: earlier) auto

lemma schedule_distinct: "schedule byId earlier xs \<Longrightarrow> distinct xs \<and> set xs \<inter> earlier = {}"
  by (induction xs arbitrary: earlier) auto

lemma schedule_known: "schedule byId earlier xs \<Longrightarrow> x \<in> set xs \<Longrightarrow> \<exists>ds. mget byId x = Some ds"
  by (induction xs arbitrary: earlier) (auto split: option.splits)

lemma schedule_split:
  assumes "schedule byId {} (pre @ x # post)"
  shows "\<exists>ds. mget byId x = Some ds \<and> set ds \<subseteq> set pre" "x \<notin> set pre"
  using assms by (auto simp: schedule_append split: option.splits)

text \<open>A successful search returns a schedule that extends the one it started from and reaches its goal.\<close>

lemma visit_sound:
  "visit byId visiting visited i = Inr visited' \<Longrightarrow> schedule byId {} visited \<Longrightarrow> set visited \<inter> visiting = {} \<Longrightarrow>
     schedule byId {} visited' \<and> set visited \<subseteq> set visited' \<and> i \<in> set visited' \<and> set visited' \<inter> visiting = {}"
  "visitEach byId visiting visited i ds = Inr visited' \<Longrightarrow> schedule byId {} visited \<Longrightarrow> set visited \<inter> visiting = {} \<Longrightarrow>
     schedule byId {} visited' \<and> set visited \<subseteq> set visited' \<and> set ds \<subseteq> set visited' \<and> set visited' \<inter> visiting = {}"
proof (induction byId visiting visited i and byId visiting visited i ds arbitrary: visited' and visited' rule: visit_visitEach.induct)
  case (1 byId visiting visited i)
  show ?case
  proof (cases "i \<in> set visited")
    case True
    with "1.prems" show ?thesis by (auto simp: visit.simps split: if_splits)
  next
    case False
    with "1.prems"(1) obtain ds v where v: "i \<notin> visiting" "mget byId i = Some ds"
      "visitEach byId (insert i visiting) visited i ds = Inr v" "visited' = setAdd i v"
      by (auto simp: visit.simps outcome_simps split: if_splits option.splits)
    have "set visited \<inter> insert i visiting = {}" using False "1.prems"(3) by auto
    from "1.IH" [OF v(1) False v(2,3) "1.prems"(2) this]
    have w: "schedule byId {} v" "set visited \<subseteq> set v" "set ds \<subseteq> set v" "set v \<inter> insert i visiting = {}" by auto
    then have "visited' = v @ [i]" using v(4) by (auto simp: setAdd_def)
    with w v(1,2) show ?thesis by (auto simp: schedule_append)
  qed
next
  case (3 byId visiting visited i d ds)
  then obtain v where v: "d \<noteq> i" "visit byId visiting visited d = Inr v" "visitEach byId visiting v i ds = Inr visited'"
    by (auto simp: outcome_simps split: if_splits)
  from "3.IH"(1) [OF v(1,2) "3.prems"(2,3)] "3.IH"(2) [OF v(1,3)] show ?case by auto
qed simp

text \<open>Where a schedule exists, the search follows it and finds no cycle.\<close>

lemma visit_complete:
  "schedule byId {} order \<Longrightarrow> order = pre @ i # post \<Longrightarrow> visiting \<inter> set (pre @ [i]) = {} \<Longrightarrow>
     succeeds (visit byId visiting visited i)"
  "schedule byId {} order \<Longrightarrow> order = pre @ post \<Longrightarrow> visiting \<inter> set pre = {} \<Longrightarrow> set ds \<subseteq> set pre \<Longrightarrow> i \<notin> set pre \<Longrightarrow>
     succeeds (visitEach byId visiting visited i ds)"
proof (induction byId visiting visited i and byId visiting visited i ds arbitrary: pre post and pre post rule: visit_visitEach.induct)
  case (1 byId visiting visited i)
  from schedule_split [of byId pre i post] "1.prems" obtain ds where
    ds: "mget byId i = Some ds" "set ds \<subseteq> set pre" "i \<notin> set pre" by auto
  have "succeeds (visitEach byId (insert i visiting) visited i ds)" if "i \<notin> set visited"
    using "1.IH" [OF _ that ds(1) "1.prems"(1,2)] "1.prems"(3) ds(2,3) by auto
  with ds(1) "1.prems"(3) show ?case by (auto simp: visit.simps succeeds_iff)
next
  case (3 byId visiting visited i d ds)
  then obtain p q where p: "pre = p @ d # q" using split_list [of d pre] by auto
  have d: "d \<noteq> i" using "3.prems"(4,5) by auto
  have "succeeds (visit byId visiting visited d)"
    using "3.IH"(1) [OF d "3.prems"(1), of p "q @ post"] "3.prems"(2,3) p by auto
  then obtain v where v: "visit byId visiting visited d = Inr v" by (auto simp: succeeds_iff)
  with "3.IH"(2) [OF d "3.prems"(1,2,3)] "3.prems"(4,5) d show ?case by (simp add: v)
qed simp

lemma visitAll_sound:
  "visitAll byId visited tasks = Inr visited' \<Longrightarrow> schedule byId {} visited \<Longrightarrow>
     schedule byId {} visited' \<and> set visited \<subseteq> set visited' \<and> fst ` set tasks \<subseteq> set visited'"
proof (induction tasks arbitrary: visited)
  case (Cons task tasks)
  then obtain v where v: "visit byId {} visited (fst task) = Inr v" "visitAll byId v tasks = Inr visited'"
    by (auto simp: outcome_simps)
  from visit_sound(1) [OF v(1) Cons.prems(2)] Cons.IH [OF v(2)] show ?case by auto
qed simp

lemma visitAll_complete:
  "schedule byId {} order \<Longrightarrow> fst ` set tasks \<subseteq> set order \<Longrightarrow> succeeds (visitAll byId visited tasks)"
proof (induction tasks arbitrary: visited)
  case (Cons task tasks)
  then obtain pre post where "order = pre @ fst task # post" using split_list [of "fst task" order] by auto
  from visit_complete(1) [OF Cons.prems(1) this, of "{}" visited] obtain v where "visit byId {} visited (fst task) = Inr v"
    by (auto simp: succeeds_iff)
  with Cons show ?case by simp
qed simp

lemma byIdOf_get:
  assumes "distinct (map fst tasks)"
  shows "mget (byIdOf tasks) = map_of tasks"
proof -
  have "mget (foldl (\<lambda>m (i, ds). mset_at m i ds) m tasks) = mget m ++ map_of tasks" for m
    using assms
  proof (induction tasks arbitrary: m)
    case (Cons task tasks)
    obtain i ds where t: "task = (i, ds)" by (cases task)
    with Cons.prems have "map_of tasks i = None" by (simp add: map_of_eq_None_iff)
    with Cons show ?case by (auto simp: t map_add_def fun_eq_iff split: option.splits)
  qed simp
  then show ?thesis by (simp add: byIdOf_def)
qed

text \<open>Orders in which every dependency precedes its dependents.\<close>

definition precedes :: "string list \<Rightarrow> string \<Rightarrow> string \<Rightarrow> bool" where
  "precedes order d i = (\<exists>u v w. order = u @ d # v @ i # w)"

definition workable :: "string list \<Rightarrow> (string \<times> string list) list \<Rightarrow> bool" where
  "workable order tasks = (distinct order \<and> set order = fst ` set tasks \<and>
     (\<forall>(i, ds) \<in> set tasks. \<forall>d \<in> set ds. precedes order d i))"

lemma precedes_prefix: "distinct (pre @ x # post) \<Longrightarrow> precedes (pre @ x # post) d x \<longleftrightarrow> d \<in> set pre"
proof
  assume d: "distinct (pre @ x # post)" and "precedes (pre @ x # post) d x"
  then obtain u v w where "pre @ x # post = (u @ d # v) @ x # w" by (auto simp: precedes_def)
  with d have "pre = u @ d # v" by (metis append_Cons_eq_iff distinct_append distinct.simps(2) not_distinct_conv_prefix)
  then show "d \<in> set pre" by simp
next
  assume "d \<in> set pre"
  then obtain u v where "pre = u @ d # v" by (meson split_list)
  then show "precedes (pre @ x # post) d x" by (auto simp: precedes_def)
qed

lemma schedule_iff:
  assumes "distinct (map fst tasks)"
  shows "schedule (byIdOf tasks) {} order \<and> set order = fst ` set tasks \<longleftrightarrow> workable order tasks"
proof -
  note get = byIdOf_get [OF assms]
  have one: "precedes order d i" if s: "schedule (byIdOf tasks) {} order" "set order = fst ` set tasks" "(i, ds) \<in> set tasks" "d \<in> set ds" for i ds d
  proof -
    from s(2,3) obtain pre post where o: "order = pre @ i # post" by (metis split_list fst_conv image_eqI)
    have "d \<in> set pre" using schedule_split(1) [of "byIdOf tasks" pre i post] s o assms by (auto simp: get)
    then show ?thesis using schedule_distinct [OF s(1)] precedes_prefix o by blast
  qed
  have two: "schedule (byIdOf tasks) {} p" if r: "workable order tasks" and "order = p @ q" for p q
    using that(2)
  proof (induction p arbitrary: q rule: rev_induct)
    case (snoc x p)
    have s: "schedule (byIdOf tasks) {} p" using snoc.IH [of "x # q"] snoc.prems by simp
    have d: "distinct (p @ x # q)" "x \<in> fst ` set tasks" using r snoc.prems by (auto simp: workable_def)
    then obtain ds where ds: "(x, ds) \<in> set tasks" "map_of tasks x = Some ds" using assms by auto
    then have "set ds \<subseteq> set p" using r snoc.prems precedes_prefix [OF d(1)] by (auto simp: workable_def)
    with s ds d(1) show ?case by (auto simp: schedule_append get)
  qed simp
  show ?thesis
    using one two [of order "[]"] schedule_distinct [of "byIdOf tasks" "{}" order] by (auto simp: workable_def)
qed

lemma acyclic_iff_workable:
  assumes "distinct (map fst tasks)"
  shows "assertAcyclic tasks = Inr () \<longleftrightarrow> (\<exists>order. workable order tasks)"
proof
  assume "assertAcyclic tasks = Inr ()"
  then obtain order where o: "visitAll (byIdOf tasks) [] tasks = Inr order" by (auto simp: assertAcyclic_def outcome_simps)
  from visitAll_sound [OF o] have s: "schedule (byIdOf tasks) {} order" "fst ` set tasks \<subseteq> set order" by auto
  moreover have "set order \<subseteq> fst ` set tasks"
    using schedule_known [OF s(1)] byIdOf_get [OF assms] by (metis map_of_SomeD fst_conv image_eqI subsetI)
  ultimately show "\<exists>order. workable order tasks" using schedule_iff [OF assms] by blast
next
  assume "\<exists>order. workable order tasks"
  then obtain order where "schedule (byIdOf tasks) {} order" "fst ` set tasks \<subseteq> set order"
    using schedule_iff [OF assms] by blast
  from visitAll_complete [OF this, of "[]"] show "assertAcyclic tasks = Inr ()"
    by (auto simp: assertAcyclic_def succeeds_iff)
qed

text \<open>
  C31.  The dependency check accepts exactly the plans that can be worked off: for tasks with distinct
  ids it succeeds if and only if there is an order of all the tasks in which every dependency of a task
  is a task of the plan and comes before it.  The search always ends, whatever the dependencies are.
\<close>

theorem acyclic_check_correct:
  assumes "distinct (map fst tasks)"
  shows "assertAcyclic tasks = Inr () \<longleftrightarrow> (\<exists>order. workable order tasks)"
  by (rule acyclic_iff_workable [OF assms])

theorem acyclic_check_correct_witness:
  "(\<exists>order. workable order [(''a'', [''b'', ''c'']), (''b'', [''c'']), (''c'', [])]) \<and>
   \<not> (\<exists>order. workable order [(''a'', [''b'']), (''b'', [''a''])])"
proof -
  have "assertAcyclic [(''a'', [''b'', ''c'']), (''b'', [''c'']), (''c'', [])] = Inr ()"
    "assertAcyclic [(''a'', [''b'']), (''b'', [''a''])] \<noteq> Inr ()"
    by code_simp+
  then show ?thesis
    using acyclic_check_correct [of "[(''a'', [''b'', ''c'']), (''b'', [''c'']), (''c'', [])]"]
      acyclic_check_correct [of "[(''a'', [''b'']), (''b'', [''a''])]"] by simp
qed

section \<open>Statuses\<close>

definition durableTaskOpen :: "DurableTaskStatus \<Rightarrow> bool" where
  "durableTaskOpen st = (st \<notin> {DT_COMPLETED, DT_FAILED, DT_STOPPED})"

definition durableRunOpen :: "DurableRunStatus \<Rightarrow> bool" where
  "durableRunOpen st = (st \<notin> {DR_COMPLETED, DR_FAILED, DR_STOPPED})"

interpretation durableTasks: status_table DURABLE_TASK_TRANSITIONS durableTaskOpen
proof
  show "durableTaskOpen x \<longleftrightarrow> DURABLE_TASK_TRANSITIONS x \<noteq> []" for x by (cases x) (simp_all add: durableTaskOpen_def)
qed

interpretation durableRuns: status_table DURABLE_RUN_TRANSITIONS durableRunOpen
proof
  show "durableRunOpen x \<longleftrightarrow> DURABLE_RUN_TRANSITIONS x \<noteq> []" for x by (cases x) (simp_all add: durableRunOpen_def)
qed

text \<open>Whatever is not finished can be stopped.\<close>

lemma durable_stoppable:
  "DT_STOPPED \<in> set (DURABLE_TASK_TRANSITIONS st) \<longleftrightarrow> durableTaskOpen st"
  "DR_STOPPED \<in> set (DURABLE_RUN_TRANSITIONS rs) \<longleftrightarrow> durableRunOpen rs"
  by (cases st; cases rs; simp add: durableTaskOpen_def durableRunOpen_def)+

section \<open>Accepted plans\<close>

lemma safeInteger_Inr [outcome_simps]:
  "safeInteger v fld m = Inr u \<longleftrightarrow> (\<exists>n. v = JNum (SafeInt n) \<and> isSafeInteger n \<and> m \<le> n)"
  by (auto simp: safeInteger_def split: json.splits js_number.splits)

lemma numberOf_SafeInt: "(\<exists>n. v = JNum (SafeInt n) \<and> P n) \<longleftrightarrow> v = JNum (SafeInt (numberOf v)) \<and> P (numberOf v)"
  by (cases v rule: numberOf.cases) auto

lemma durableAuthority_Inr [outcome_simps]:
  "durableAuthority v fld = Inr u \<longleftrightarrow> v = JNum (SafeInt (numberOf v)) \<and> 0 \<le> numberOf v \<and> numberOf v \<le> 4"
  by (auto simp: durableAuthority_def outcome_simps isSafeInteger_def MAX_SAFE_INTEGER_def)

lemma durableCostLimit_numbers:
  assumes "durableCostLimit v fld = Inr u"
  shows "isSafeInteger (numberOf (getProp v ''maximumMinorUnits''))" "0 \<le> numberOf (getProp v ''maximumMinorUnits'')"
    "isSafeInteger (numberOf (getProp v ''maximumComputeUnits''))" "0 \<le> numberOf (getProp v ''maximumComputeUnits'')"
  using assms by (auto simp: durableCostLimit_def outcome_simps)

abbreviation authorityOf :: "json \<Rightarrow> int" where
  "authorityOf task \<equiv> numberOf (getProp task ''requiredAuthority'')"

text \<open>What a single task is checked for, beside the shape of its fields.\<close>

definition taskAccepted :: "json \<Rightarrow> string set \<Rightarrow> json \<Rightarrow> bool" where
  "taskAccepted objective projectIds task =
     (textOf (getProp task ''projectId'') \<in> projectIds \<and>
      0 \<le> authorityOf task \<and> authorityOf task \<le> numberOf (getProp objective ''maximumAuthority'') \<and>
      (\<forall>m. TASK_KIND_MINIMUM_AUTHORITY (textOf (getProp task ''kind'')) = Some m \<longrightarrow> m \<le> authorityOf task) \<and>
      (getProp task ''approval'' \<noteq> JUndefined \<longleftrightarrow> authorityOf task = 4) \<and>
      getProp (getProp task ''costLimit'') ''currency'' = getProp (getProp objective ''costLimit'') ''currency'' \<and>
      0 \<le> minorUnits task \<and> 0 \<le> computeUnits task)"

lemma validateApproval_present:
  assumes "validateApproval v level = Inr u"
  shows "v \<noteq> JUndefined \<longleftrightarrow> level = 4"
  using assms by (auto simp: validateApproval_def plainRecord_def outcome_simps split: if_splits)

lemma validateDurableTask_accepted:
  assumes "validateDurableTask task projectIds = Inr u"
    "\<not> numberOf (getProp objective ''maximumAuthority'') < authorityOf task"
    "getProp (getProp task ''costLimit'') ''currency'' = getProp (getProp objective ''costLimit'') ''currency''"
  shows "taskAccepted objective projectIds task"
proof -
  have c: "durableCostLimit (getProp task ''costLimit'') ''task.costLimit'' = Inr ()"
    "durableAuthority (getProp task ''requiredAuthority'') ''task.requiredAuthority'' = Inr ()"
    "validateApproval (getProp task ''approval'') (authorityOf task) = Inr ()"
    "textOf (getProp task ''projectId'') \<in> projectIds" "\<not> belowKindMinimum (authorityOf task) (getProp task ''kind'')"
    using assms(1) by (simp_all add: validateDurableTask_def outcome_simps)
  then show ?thesis
    using durableCostLimit_numbers [OF c(1)] validateApproval_present [OF c(3)] assms(2,3)
    by (auto simp: taskAccepted_def outcome_simps belowKindMinimum_def split: option.splits)
qed

lemma rounded_total:
  assumes "isSafeInteger limit" "0 \<le> c" "c \<le> limit" "0 \<le> n" "\<not> limit < double_round (c + n)"
  shows "double_round (c + n) = c + n" "c + n \<le> limit"
proof -
  show le: "c + n \<le> limit" using assms(5) double_round_guard [OF assms(1)] by (simp add: not_less)
  then have "\<bar>c + n\<bar> \<le> 2 ^ 53" using assms(1,2,4) by (simp add: isSafeInteger_def MAX_SAFE_INTEGER_def)
  then show "double_round (c + n) = c + n" by (simp add: double_round_def)
qed

lemma taskLoop_accepted:
  assumes "taskLoop objective projectIds taskIds c u tasks = Inr r"
    and "isSafeInteger (minorUnits objective)" "isSafeInteger (computeUnits objective)"
    and "0 \<le> c" "c \<le> minorUnits objective" "0 \<le> u" "u \<le> computeUnits objective"
  shows "c + sum_list (map minorUnits tasks) \<le> minorUnits objective \<and>
    u + sum_list (map computeUnits tasks) \<le> computeUnits objective \<and>
    distinct (map (\<lambda>task. textOf (getProp task ''id'')) tasks) \<and>
    (\<forall>task \<in> set tasks. textOf (getProp task ''id'') \<notin> taskIds \<and> validateDurableTask task projectIds = Inr () \<and>
       taskAccepted objective projectIds task)"
  using assms
proof (induction tasks arbitrary: taskIds c u)
  case (Cons task tasks)
  let ?c = "double_round (c + minorUnits task)" and ?u = "double_round (u + computeUnits task)"
  let ?id = "textOf (getProp task ''id'')"
  have l: "validateDurableTask task projectIds = Inr ()" "?id \<notin> taskIds"
    "\<not> numberOf (getProp objective ''maximumAuthority'') < authorityOf task"
    "getProp (getProp task ''costLimit'') ''currency'' = getProp (getProp objective ''costLimit'') ''currency''"
    "\<not> minorUnits objective < ?c" "\<not> computeUnits objective < ?u"
    "taskLoop objective projectIds (insert ?id taskIds) ?c ?u tasks = Inr r"
    using Cons.prems(1) by (simp_all add: Let_def outcome_simps)
  have a: "taskAccepted objective projectIds task" by (rule validateDurableTask_accepted [OF l(1,3,4)])
  then have n: "0 \<le> minorUnits task" "0 \<le> computeUnits task" by (simp_all add: taskAccepted_def)
  note c = rounded_total [OF Cons.prems(2,4,5) n(1) l(5)] and u = rounded_total [OF Cons.prems(3,6,7) n(2) l(6)]
  from Cons.IH [OF l(7) Cons.prems(2,3)] c u n Cons.prems(4,6) l(1,2) a show ?case by auto
qed simp

lemma projectLoop_ids:
  "projectLoop ids projects = Inr out \<Longrightarrow> out = ids \<union> (\<lambda>p. textOf (getProp p ''id'')) ` set projects"
  by (induction projects arbitrary: ids) (auto simp: outcome_simps)

lemma objectiveChecks_numbers:
  assumes "objectiveChecks objective = Inr u"
  shows "isSafeInteger (minorUnits objective)" "0 \<le> minorUnits objective"
    "isSafeInteger (computeUnits objective)" "0 \<le> computeUnits objective"
    "numberOf (getProp objective ''maximumAuthority'') \<le> 4"
proof -
  have "durableCostLimit (getProp objective ''costLimit'') ''objective.costLimit'' = Inr ()"
    "durableAuthority (getProp objective ''maximumAuthority'') ''objective.maximumAuthority'' = Inr ()"
    using assms by (simp_all add: objectiveChecks_def outcome_simps)
  then show "isSafeInteger (minorUnits objective)" "0 \<le> minorUnits objective"
    "isSafeInteger (computeUnits objective)" "0 \<le> computeUnits objective"
    "numberOf (getProp objective ''maximumAuthority'') \<le> 4"
    using durableCostLimit_numbers by (auto simp: outcome_simps)
qed

lemma plan_parts:
  assumes "validateDurableObjectivePlan input = Inr u"
  obtains projectIds where "objectiveChecks (getProp input ''objective'') = Inr ()"
    "boundedArray (getProp input ''tasks'') 256 ''Plan must contain between 1 and 256 tasks'' = Inr ()"
    "projectLoop {} (elements (getProp input ''projects'')) = Inr projectIds"
    "taskLoop (getProp input ''objective'') projectIds {} 0 0 (elements (getProp input ''tasks'')) = Inr ()"
    "assertAcyclic (map taskLinks (elements (getProp input ''tasks''))) = Inr ()"
  using assms by (auto simp: validateDurableObjectivePlan_def outcome_simps)

text \<open>
  C32.  An accepted plan is consistent: it has between one and 256 tasks with distinct ids that can be
  worked off in some order; every task belongs to a project of the plan, needs at least the authority of
  its kind and at most the one of the objective, prepares an approval exactly when it needs Level 4, and
  is budgeted in the currency of the objective; and the budgets of all the tasks together stay within the
  budget of the objective, in money and in compute units.
\<close>

theorem accepted_plan_consistent:
  assumes "validateDurableObjectivePlan input = Inr ()"
  shows "let objective = getProp input ''objective''; tasks = elements (getProp input ''tasks'');
      projectIds = (\<lambda>p. textOf (getProp p ''id'')) ` set (elements (getProp input ''projects'')) in
    tasks \<noteq> [] \<and> length tasks \<le> 256 \<and>
    distinct (map (\<lambda>task. textOf (getProp task ''id'')) tasks) \<and>
    (\<exists>order. workable order (map taskLinks tasks)) \<and>
    (\<forall>task \<in> set tasks. taskAccepted objective projectIds task) \<and>
    numberOf (getProp objective ''maximumAuthority'') \<le> 4 \<and>
    sum_list (map minorUnits tasks) \<le> minorUnits objective \<and>
    sum_list (map computeUnits tasks) \<le> computeUnits objective"
proof -
  from plan_parts [OF assms] obtain P where p: "objectiveChecks (getProp input ''objective'') = Inr ()"
    "boundedArray (getProp input ''tasks'') 256 ''Plan must contain between 1 and 256 tasks'' = Inr ()"
    "projectLoop {} (elements (getProp input ''projects'')) = Inr P"
    "taskLoop (getProp input ''objective'') P {} 0 0 (elements (getProp input ''tasks'')) = Inr ()"
    "assertAcyclic (map taskLinks (elements (getProp input ''tasks''))) = Inr ()" .
  note n = objectiveChecks_numbers [OF p(1)]
  note t = taskLoop_accepted [OF p(4) n(1,3) _ n(2) _ n(4)]
  have links: "map fst (map taskLinks ts) = map (\<lambda>task. textOf (getProp task ''id'')) ts" for ts
    by (simp add: taskLinks_def comp_def)
  have d: "distinct (map fst (map taskLinks (elements (getProp input ''tasks''))))"
    unfolding links using t by simp
  then have "\<exists>order. workable order (map taskLinks (elements (getProp input ''tasks'')))"
    using acyclic_iff_workable [OF d] p(5) by blast
  moreover have "elements (getProp input ''tasks'') \<noteq> []" "length (elements (getProp input ''tasks'')) \<le> 256"
    using p(2) by (auto simp: boundedArray_def split: json.splits)
  ultimately show ?thesis using t n(5) projectLoop_ids [OF p(3)] by (simp add: Let_def)
qed

section \<open>Policy hashes\<close>

text \<open>The property names of a JavaScript object are distinct.\<close>

fun jsObjects :: "json \<Rightarrow> bool" where
  "jsObjects (JArr xs) = (\<forall>x \<in> set xs. jsObjects x)"
| "jsObjects (JObj kvs) = (distinct (map fst kvs) \<and> (\<forall>kv \<in> set kvs. jsObjects (snd kv)))"
| "jsObjects _ = True"

lemma jsObjects_getProp: "jsObjects v \<Longrightarrow> jsObjects (getProp v k)"
  by (cases v) (auto simp: getProp_def split: option.splits dest!: map_of_SomeD)

lemma jsObjects_elements: "jsObjects v \<Longrightarrow> x \<in> set (elements v) \<Longrightarrow> jsObjects x"
  by (cases v) auto

lemma mset_fromEntries [simp]: "mset (fromEntries kvs) = mset kvs"
  by (simp add: fromEntries_def)

lemma set_fromEntries [simp]: "set (fromEntries kvs) = set kvs"
  by (metis mset_fromEntries set_mset_mset)

lemma snd_bound: "kv \<in> set kvs \<Longrightarrow> snd kv \<in> Basic_BNFs.snds kv"
  by (cases kv) (simp add: Basic_BNFs.snds.simps)

lemma jsonClean_canonicalPolicy [simp]: "jsonClean (canonicalPolicy v) \<longleftrightarrow> jsonClean v"
proof (induction v)
  case (JObj kvs)
  have "jsonClean (canonicalPolicy (snd kv)) \<longleftrightarrow> jsonClean (snd kv)" if "kv \<in> set kvs" for kv
    using JObj [OF that snd_bound [OF that]] .
  then show ?case by (auto simp: case_prod_unfold)
qed auto

text \<open>The canonical form differs from the value in the order of properties only.\<close>

lemma normalize_canonicalPolicy: "jsObjects v \<Longrightarrow> normalizeJson (canonicalPolicy v) = normalizeJson v"
proof (induction v)
  case (JObj kvs)
  let ?c = "map (\<lambda>(k, nested). (k, canonicalPolicy nested)) kvs"
  have fst: "map fst ?c = map fst kvs" by (simp add: comp_def case_prod_unfold)
  have "normalizeJson (JObj (fromEntries (sortWith (\<lambda>l r. compareText (fst l) (fst r)) ?c))) = normalizeJson (JObj ?c)"
  proof (rule normalize_JObj_permute)
    have "mset (map fst (fromEntries (sortWith (\<lambda>l r. compareText (fst l) (fst r)) ?c))) = mset (map fst ?c)"
      by (simp only: mset_map mset_fromEntries mset_sortWith)
    then have "mset (map fst (fromEntries (sortWith (\<lambda>l r. compareText (fst l) (fst r)) ?c))) = mset (map fst kvs)"
      by (simp only: fst)
    with JObj.prems show "distinct (map fst (fromEntries (sortWith (\<lambda>l r. compareText (fst l) (fst r)) ?c)))"
      by (metis jsObjects.simps(2) mset_eq_imp_distinct_iff)
  qed simp
  moreover have "map (\<lambda>(k, item). (k, normalizeJson item)) ?c = map (\<lambda>(k, item). (k, normalizeJson item)) kvs"
  proof (simp add: case_prod_unfold comp_def, intro ballI)
    fix kv assume kv: "kv \<in> set kvs"
    with JObj.IH [OF kv snd_bound [OF kv]] JObj.prems
    show "normalizeJson (canonicalPolicy (snd kv)) = normalizeJson (snd kv)" by auto
  qed
  ultimately show ?case by (simp only: canonicalPolicy.simps normalizeJson.simps)
qed (auto)

lemma canonicalPolicy_normalize: "jsObjects v \<Longrightarrow> canonicalPolicy (normalizeJson v) = canonicalPolicy v"
proof (induction v)
  case (JObj kvs)
  let ?cmp = "\<lambda>l r. compareText (fst l) (fst r)"
  let ?c = "\<lambda>(k, nested). (k, canonicalPolicy nested)" and ?n = "\<lambda>(k, item). (k, normalizeJson item)"
  have fst: "map fst (map ?n kvs) = map fst kvs" by (simp add: comp_def case_prod_unfold)
  have e: "map ?c (map ?n kvs) = map ?c kvs"
  proof (simp add: case_prod_unfold comp_def, intro ballI)
    fix kv assume kv: "kv \<in> set kvs"
    with JObj.IH [OF kv snd_bound [OF kv]] JObj.prems
    show "canonicalPolicy (normalizeJson (snd kv)) = canonicalPolicy (snd kv)" by auto
  qed
  have "mset (map ?c (sortWith ?cmp (map ?n kvs))) = mset (map ?c (map ?n kvs))"
    by (simp only: mset_map mset_sortWith)
  then have m: "mset (map ?c (sortWith ?cmp (map ?n kvs))) = mset (map ?c kvs)" by (simp only: e)
  have "sortWith ?cmp (map ?c (sortWith ?cmp (map ?n kvs))) = sortWith ?cmp (map ?c kvs)"
  proof (rule sortWith_permute [OF comparator_compareText m])
    fix x y assume "x \<in> set (map ?c (sortWith ?cmp (map ?n kvs)))" "y \<in> set (map ?c (sortWith ?cmp (map ?n kvs)))"
      "compareText (fst x) (fst y) = 0"
    then have "x \<in># mset (map ?c kvs)" "y \<in># mset (map ?c kvs)" "fst x = fst y"
      by (simp_all only: m [symmetric] set_mset_mset compareText_simps)
    then have "x \<in> set (map ?c kvs)" "y \<in> set (map ?c kvs)" "fst x = fst y" by (simp_all only: set_mset_mset)
    with JObj.prems show "x = y" by (auto dest: eq_key_imp_eq_value)
  qed
  then show ?case by simp
qed (auto)

lemma canonicalPolicy_iff:
  assumes "jsObjects v" "jsObjects w"
  shows "canonicalPolicy v = canonicalPolicy w \<longleftrightarrow> normalizeJson v = normalizeJson w"
  using normalize_canonicalPolicy canonicalPolicy_normalize assms by metis

text \<open>What validation leaves is a value whose JSON text says everything about it.\<close>

lemma isReference_JStr: "isReference v \<Longrightarrow> \<exists>s. v = JStr s"
  by (cases v) (simp_all add: isReference_def)

lemma isBoundedText_JStr: "isBoundedText v \<Longrightarrow> \<exists>s. v = JStr s"
  by (cases v) (simp_all add: isBoundedText_def)

lemma text_clean:
  "durableReference v fld = Inr u \<Longrightarrow> jsonClean v" "durableText v fld = Inr u \<Longrightarrow> jsonClean v"
  using isReference_JStr [of v] isBoundedText_JStr [of v] by (auto simp: durableReference_def durableText_def)

lemma integer_clean: "safeInteger v fld m = Inr u \<Longrightarrow> jsonClean v" "durableAuthority v fld = Inr u \<Longrightarrow> jsonClean v"
  by (auto simp: outcome_simps) (metis jsonClean.simps(3))

lemma denseLoop_clean: "denseLoop fld seen xs = Inr u \<Longrightarrow> x \<in> set xs \<Longrightarrow> jsonClean x"
  by (induction fld seen xs rule: denseLoop.induct) (auto simp: outcome_simps intro: text_clean)

lemma denseStrings_clean: "denseStrings v fld n = Inr u \<Longrightarrow> jsonClean v"
  by (cases v) (auto simp: denseStrings_def outcome_simps dest: denseLoop_clean)

lemma jsonSafe_clean: "jsonSafe v fld depth = Inr u \<Longrightarrow> jsonClean v"
proof (induction v arbitrary: depth)
  case (JObj kvs)
  have "jsonClean (snd kv)" if kv: "kv \<in> set kvs" for kv
    using JObj.prems JObj.IH [OF kv snd_bound [OF kv], of "depth + 1"] kv
    by (auto simp: jsonSafe.simps [of "JObj kvs"] outcome_simps case_prod_unfold split: if_splits)
  then show ?case by simp
next
  case (JArr xs)
  then show ?case by (auto simp: jsonSafe.simps [of "JArr xs"] outcome_simps split: if_splits)
next
  case (JNum n)
  then show ?case by (cases n) (auto simp: jsonSafe.simps split: if_splits)
qed (auto simp: jsonSafe.simps plainRecord_def split: if_splits)

lemma record_clean:
  assumes "plainRecord v fld = Inr u" "exactKeys v allowed fld' = Inr u'" "jsObjects v"
    and "\<And>k. k \<in> set allowed \<Longrightarrow> jsonClean (getProp v k)"
  shows "jsonClean v"
proof -
  obtain kvs where v: "v = JObj kvs" using assms(1) by (cases v) (auto simp: plainRecord_def)
  have "jsonClean (snd kv)" if kv: "kv \<in> set kvs" for kv
  proof -
    have "getProp v (fst kv) = snd kv" using assms(3) kv by (cases kv) (simp add: v getProp_def)
    moreover have "fst kv \<in> set allowed" using assms(2) kv by (simp add: exactKeys_def v)
    ultimately show ?thesis using assms(4) by metis
  qed
  then show ?thesis by (simp add: v)
qed

lemma text_pattern_clean: "(case v of JStr s \<Rightarrow> P s | _ \<Rightarrow> False) \<Longrightarrow> jsonClean v"
  by (cases v) simp_all

lemma digest_clean: "isDigest v \<Longrightarrow> jsonClean v"
  unfolding isDigest_def by (rule text_pattern_clean)

lemma costLimit_clean:
  assumes "durableCostLimit v fld = Inr u" "jsObjects v"
  shows "jsonClean v"
proof (rule record_clean [OF _ _ assms(2)])
  show "plainRecord v fld = Inr ()" "exactKeys v [''currency'', ''maximumMinorUnits'', ''maximumComputeUnits''] fld = Inr ()"
    using assms(1) by (simp_all add: durableCostLimit_def outcome_simps)
  have "safeInteger (getProp v ''maximumMinorUnits'') (fld @ ''.maximumMinorUnits'') 0 = Inr ()"
    "safeInteger (getProp v ''maximumComputeUnits'') (fld @ ''.maximumComputeUnits'') 0 = Inr ()"
    "case getProp v ''currency'' of JStr s \<Rightarrow> regex_test ISO_CURRENCY s | _ \<Rightarrow> False"
    using assms(1) by (simp_all add: durableCostLimit_def checks_Cons_Inr)
  then show "jsonClean (getProp v k)" if "k \<in> set [''currency'', ''maximumMinorUnits'', ''maximumComputeUnits'']" for k
    using that integer_clean(1) text_pattern_clean by auto
qed

lemma retryPolicy_clean:
  assumes "checkRetryPolicy v = Inr u" "jsObjects v"
  shows "jsonClean v"
proof (rule record_clean [OF _ _ assms(2)])
  show "plainRecord v ''task.retryPolicy'' = Inr ()"
    "exactKeys v [''maximumAttempts'', ''retryableFailureCodes'', ''stopAfterFailureCodes''] ''task.retryPolicy'' = Inr ()"
    using assms(1) by (simp_all add: checkRetryPolicy_def checks_Cons_Inr)
  have "safeInteger (getProp v ''maximumAttempts'') ''task.retryPolicy.maximumAttempts'' 1 = Inr ()"
    "denseStrings (getProp v ''retryableFailureCodes'') ''task.retryPolicy.retryableFailureCodes'' 64 = Inr ()"
    "denseStrings (getProp v ''stopAfterFailureCodes'') ''task.retryPolicy.stopAfterFailureCodes'' 64 = Inr ()"
    using assms(1) by (simp_all add: checkRetryPolicy_def checks_Cons_Inr)
  then show "jsonClean (getProp v k)" if "k \<in> set [''maximumAttempts'', ''retryableFailureCodes'', ''stopAfterFailureCodes'']" for k
    using that integer_clean(1) denseStrings_clean by auto
qed

lemma approval_clean:
  assumes "validateApproval v level = Inr u" "jsObjects v" "v \<noteq> JUndefined"
  shows "jsonClean v"
proof (rule record_clean [OF _ _ assms(2)])
  have level: "level = 4" using validateApproval_present [OF assms(1)] assms(3) by simp
  show "plainRecord v ''task.approval'' = Inr ()"
    "exactKeys v [''actionCode'', ''exactTarget'', ''artifactVersionId'', ''evidenceHash''] ''task.approval'' = Inr ()"
    using assms(1) level by (simp_all add: validateApproval_def checks_Cons_Inr)
  have "case getProp v ''actionCode'' of JStr s \<Rightarrow> regex_test SAFE_CODE s | _ \<Rightarrow> False"
    "durableReference (getProp v ''exactTarget'') ''task.approval.exactTarget'' = Inr ()"
    "durableReference (getProp v ''artifactVersionId'') ''task.approval.artifactVersionId'' = Inr ()"
    "isDigest (getProp v ''evidenceHash'')"
    using assms(1) level by (simp_all add: validateApproval_def checks_Cons_Inr)
  then show "jsonClean (getProp v k)" if "k \<in> set [''actionCode'', ''exactTarget'', ''artifactVersionId'', ''evidenceHash'']" for k
    using that text_clean digest_clean text_pattern_clean by auto
qed

lemma dependencyLoop_facts:
  "dependencyLoop seen xs = Inr u \<Longrightarrow> distinct xs \<and> set xs \<inter> seen = {} \<and> (\<forall>x \<in> set xs. \<exists>s. x = JStr s)"
  by (induction seen xs rule: dependencyLoop.induct)
    (auto simp: outcome_simps durableReference_def dest: isReference_JStr)

lemma checkDependencies_facts:
  assumes "checkDependencies v = Inr u"
  shows "distinct (elements v)" "x \<in> set (elements v) \<Longrightarrow> \<exists>s. x = JStr s"
  using assms dependencyLoop_facts [of "{}" "elements v"]
  by (auto simp: checkDependencies_def outcome_simps split: json.splits)

text \<open>The part of a task that its policy is about, beside the dependencies.\<close>

definition policyFields :: "string list" where
  "policyFields = [''id'', ''projectId'', ''title'', ''kind'', ''requiredAuthority'', ''costLimit'', ''estimatedDurationMs'',
     ''acceptanceCriteria'', ''verificationCriteria'', ''stopConditions'', ''retryPolicy'', ''agentPolicy'', ''routingPolicy'',
     ''approval'']"

text \<open>Two tasks with the same policy: equal fields, up to the order of properties and dependencies.\<close>

definition samePolicy :: "json \<Rightarrow> json \<Rightarrow> json \<Rightarrow> json \<Rightarrow> bool" where
  "samePolicy input task input' task' =
     (normalizeJson (getProp input ''policyVersion'') = normalizeJson (getProp input' ''policyVersion'') \<and>
      normalizeJson (getProp (getProp input ''objective'') ''id'') = normalizeJson (getProp (getProp input' ''objective'') ''id'') \<and>
      (\<forall>k \<in> set policyFields. normalizeJson (getProp task k) = normalizeJson (getProp task' k)) \<and>
      set (elements (getProp task ''dependencyIds'')) = set (elements (getProp task' ''dependencyIds'')))"

text \<open>What validation guarantees of a task on its way into a snapshot.\<close>

definition snapshotReady :: "json \<Rightarrow> json \<Rightarrow> bool" where
  "snapshotReady input task =
     (jsonClean (getProp input ''policyVersion'') \<and> jsonClean (getProp (getProp input ''objective'') ''id'') \<and>
      jsObjects input \<and> jsObjects task \<and>
      (\<forall>k \<in> set policyFields. k \<noteq> ''approval'' \<or> getProp task k \<noteq> JUndefined \<longrightarrow> jsonClean (getProp task k)) \<and>
      distinct (elements (getProp task ''dependencyIds'')) \<and>
      (\<forall>x \<in> set (elements (getProp task ''dependencyIds'')). \<exists>s. x = JStr s))"

lemma kindInTable_clean: "kindInTable v \<Longrightarrow> jsonClean v"
  by (cases v) (simp_all add: kindInTable_def)

lemma validateDurableTask_clean:
  assumes v: "validateDurableTask task projectIds = Inr u" and o: "jsObjects task"
    and k: "k \<in> set policyFields" "k \<noteq> ''approval'' \<or> getProp task k \<noteq> JUndefined"
  shows "jsonClean (getProp task k)"
proof -
  have f: "durableReference (getProp task ''id'') ''task.id'' = Inr ()"
    "durableReference (getProp task ''projectId'') ''task.projectId'' = Inr ()"
    "durableText (getProp task ''title'') ''task.title'' = Inr ()"
    "kindInTable (getProp task ''kind'')"
    "durableAuthority (getProp task ''requiredAuthority'') ''task.requiredAuthority'' = Inr ()"
    "durableCostLimit (getProp task ''costLimit'') ''task.costLimit'' = Inr ()"
    "safeInteger (getProp task ''estimatedDurationMs'') ''task.estimatedDurationMs'' 1 = Inr ()"
    "denseStrings (getProp task ''acceptanceCriteria'') ''task.acceptanceCriteria'' 64 = Inr ()"
    "denseStrings (getProp task ''verificationCriteria'') ''task.verificationCriteria'' 64 = Inr ()"
    "denseStrings (getProp task ''stopConditions'') ''task.stopConditions'' 64 = Inr ()"
    "checkRetryPolicy (getProp task ''retryPolicy'') = Inr ()"
    "jsonSafe (getProp task ''agentPolicy'') ''task.agentPolicy'' 0 = Inr ()"
    "jsonSafe (getProp task ''routingPolicy'') ''task.routingPolicy'' 0 = Inr ()"
    "validateApproval (getProp task ''approval'') (authorityOf task) = Inr ()"
    using v by (simp_all add: validateDurableTask_def checks_Cons_Inr)
  note clean = f(1) [THEN text_clean(1)] f(2) [THEN text_clean(1)] f(3) [THEN text_clean(2)] f(4) [THEN kindInTable_clean]
    f(5) [THEN integer_clean(2)] costLimit_clean [OF f(6) jsObjects_getProp [OF o]] f(7) [THEN integer_clean(1)]
    f(8) [THEN denseStrings_clean] f(9) [THEN denseStrings_clean] f(10) [THEN denseStrings_clean]
    retryPolicy_clean [OF f(11) jsObjects_getProp [OF o]] f(12) [THEN jsonSafe_clean] f(13) [THEN jsonSafe_clean]
    approval_clean [OF f(14) jsObjects_getProp [OF o]]
  show ?thesis using k clean unfolding policyFields_def by auto
qed

lemma accepted_ready:
  assumes v: "validateDurableObjectivePlan input = Inr u" and o: "jsObjects input"
    and t: "task \<in> set (elements (getProp input ''tasks''))"
  shows "snapshotReady input task"
proof -
  from plan_parts [OF v] obtain P where p: "objectiveChecks (getProp input ''objective'') = Inr ()"
    "taskLoop (getProp input ''objective'') P {} 0 0 (elements (getProp input ''tasks'')) = Inr ()" by metis
  note n = objectiveChecks_numbers [OF p(1)]
  have task: "validateDurableTask task P = Inr ()"
    using taskLoop_accepted [OF p(2) n(1,3) _ n(2) _ n(4)] t by simp
  have ot: "jsObjects task" using jsObjects_elements [OF jsObjects_getProp [OF o] t] .
  have "durableReference (getProp input ''policyVersion'') ''plan.policyVersion'' = Inr ()"
    using v by (auto simp: validateDurableObjectivePlan_def outcome_simps)
  moreover have "durableReference (getProp (getProp input ''objective'') ''id'') ''objective.id'' = Inr ()"
    using p(1) by (simp add: objectiveChecks_def checks_Cons_Inr)
  moreover have "checkDependencies (getProp task ''dependencyIds'') = Inr ()"
    using task by (simp add: validateDurableTask_def checks_Cons_Inr)
  ultimately show ?thesis
    unfolding snapshotReady_def using o ot text_clean(1) checkDependencies_facts validateDurableTask_clean [OF task ot] by blast
qed

lemma jsObjects_canonicalPolicy: "jsObjects v \<Longrightarrow> jsObjects (canonicalPolicy v)"
proof (induction v)
  case (JObj kvs)
  let ?c = "map (\<lambda>(k, nested). (k, canonicalPolicy nested)) kvs"
  let ?s = "fromEntries (sortWith (\<lambda>l r. compareText (fst l) (fst r)) ?c)"
  have "mset (map fst ?s) = mset (map fst ?c)" by (simp only: mset_map mset_fromEntries mset_sortWith)
  moreover have "map fst ?c = map fst kvs" by (simp add: comp_def case_prod_unfold)
  ultimately have "distinct (map fst ?s)" using JObj.prems by (metis jsObjects.simps(2) mset_eq_imp_distinct_iff)
  moreover have "jsObjects (canonicalPolicy (snd kv))" if kv: "kv \<in> set kvs" for kv
    using JObj.IH [OF kv snd_bound [OF kv]] JObj.prems kv by auto
  ultimately show ?case by (auto simp: case_prod_unfold)
qed auto

lemma snapshot_well_formed:
  assumes "snapshotReady input task"
  shows "jsonClean (snapshotOf input task)" "jsObjects (snapshotOf input task)"
proof -
  have d: "jsonClean x" "jsObjects x" if "x \<in> set (elements (getProp task ''dependencyIds''))" for x
    using assms that by (auto simp: snapshotReady_def)
  show "jsonClean (snapshotOf input task)"
    using assms d(1) by (simp add: snapshotOf_def snapshotReady_def policyFields_def)
  have o: "jsObjects (getProp v k)" if "jsObjects v" for v k by (rule jsObjects_getProp [OF that])
  show "jsObjects (snapshotOf input task)"
    using assms d(2) o by (simp add: snapshotOf_def snapshotReady_def jsObjects_canonicalPolicy)
qed

lemma normalize_JStr: "\<forall>x \<in> set xs. \<exists>s. x = JStr s \<Longrightarrow> map normalizeJson xs = xs"
  by (induction xs) auto

lemma sorted_dependencies:
  assumes "\<forall>x \<in> set xs. \<exists>s. x = JStr s" "\<forall>x \<in> set ys. \<exists>s. x = JStr s" "distinct xs" "distinct ys"
  shows "map normalizeJson (sortWith (\<lambda>l r. compareText (textOf l) (textOf r)) xs) =
      map normalizeJson (sortWith (\<lambda>l r. compareText (textOf l) (textOf r)) ys) \<longleftrightarrow> set xs = set ys"
    (is "map _ (?s xs) = map _ (?s ys) \<longleftrightarrow> _")
proof -
  have "map normalizeJson (?s xs) = ?s xs" "map normalizeJson (?s ys) = ?s ys"
    using assms(1,2) by (intro normalize_JStr; simp)+
  moreover have "?s xs = ?s ys" if e: "set xs = set ys"
  proof (rule sortWith_permute [OF comparator_compareText])
    show "mset xs = mset ys" using assms(3,4) e by (simp add: set_eq_iff_mset_eq_distinct)
    show "x = y" if "x \<in> set xs" "y \<in> set xs" "compareText (textOf x) (textOf y) = 0" for x y
      using that assms(1) by (metis compareText_simps(1) textOf.simps(1))
  qed
  moreover have "set xs = set ys" if "?s xs = ?s ys" using that by (metis set_sortWith)
  ultimately show ?thesis by metis
qed

lemma normalize_undefined [simp]: "normalizeJson v = JUndefined \<longleftrightarrow> v = JUndefined" "JUndefined = normalizeJson v \<longleftrightarrow> v = JUndefined"
  by (cases v; auto)+

lemma snapshot_values_iff:
  assumes r: "snapshotReady input task" "snapshotReady input' task'"
    and a: "getProp task ''approval'' = JUndefined \<longleftrightarrow> getProp task' ''approval'' = JUndefined"
  shows "map (\<lambda>kv. normalizeJson (snd kv)) (members (snapshotOf input task)) =
      map (\<lambda>kv. normalizeJson (snd kv)) (members (snapshotOf input' task')) \<longleftrightarrow> samePolicy input task input' task'"
proof -
  have d: "map normalizeJson (sortWith (\<lambda>l r. compareText (textOf l) (textOf r)) (elements (getProp task ''dependencyIds''))) =
      map normalizeJson (sortWith (\<lambda>l r. compareText (textOf l) (textOf r)) (elements (getProp task' ''dependencyIds''))) \<longleftrightarrow>
      set (elements (getProp task ''dependencyIds'')) = set (elements (getProp task' ''dependencyIds''))"
    using r by (intro sorted_dependencies) (auto simp: snapshotReady_def)
  have c: "normalizeJson (canonicalPolicy (getProp task k)) = normalizeJson (getProp task k)"
    "normalizeJson (canonicalPolicy (getProp task' k)) = normalizeJson (getProp task' k)" for k
    using r by (auto simp: snapshotReady_def intro: normalize_canonicalPolicy jsObjects_getProp)
  show ?thesis using a by (auto simp: snapshotOf_def samePolicy_def policyFields_def d c)
qed

lemma snapshot_normal_iff:
  assumes r: "snapshotReady input task" "snapshotReady input' task'"
  shows "normalizeJson (snapshotOf input task) = normalizeJson (snapshotOf input' task') \<longleftrightarrow> samePolicy input task input' task'"
proof -
  define kvs kws where "kvs = members (snapshotOf input task)" and "kws = members (snapshotOf input' task')"
  have o: "snapshotOf input task = JObj kvs" "snapshotOf input' task' = JObj kws"
    by (simp_all add: kvs_def kws_def snapshotOf_def)
  have d: "distinct (map fst kvs)" "distinct (map fst kws)"
    using snapshot_well_formed(2) [OF r(1)] snapshot_well_formed(2) [OF r(2)] by (simp_all add: o)
  have ap: "map_of kvs ''approval'' = None \<longleftrightarrow> getProp task ''approval'' = JUndefined"
    "map_of kws ''approval'' = None \<longleftrightarrow> getProp task' ''approval'' = JUndefined"
    by (simp_all add: kvs_def kws_def snapshotOf_def)
  have keys: "map fst kvs = map fst kws" if "getProp task ''approval'' = JUndefined \<longleftrightarrow> getProp task' ''approval'' = JUndefined"
    using that by (simp add: kvs_def kws_def snapshotOf_def)
  note iff = snapshot_values_iff [OF r, folded kvs_def kws_def]
  show ?thesis
  proof
    assume e: "normalizeJson (snapshotOf input task) = normalizeJson (snapshotOf input' task')"
    from normalize_JObj_field [of kvs kws "''approval''"] e d o
    have a: "getProp task ''approval'' = JUndefined \<longleftrightarrow> getProp task' ''approval'' = JUndefined"
      by (metis ap option.map_disc_iff)
    from normalize_same_keys [OF _ keys [OF a] d(1)] e o iff [OF a] show "samePolicy input task input' task'" by simp
  next
    assume sp: "samePolicy input task input' task'"
    then have "normalizeJson (getProp task ''approval'') = normalizeJson (getProp task' ''approval'')"
      by (simp add: samePolicy_def policyFields_def)
    then have a: "getProp task ''approval'' = JUndefined \<longleftrightarrow> getProp task' ''approval'' = JUndefined"
      by (metis normalize_undefined(1))
    have "map (\<lambda>(k, item). (k, normalizeJson item)) xs = zip (map fst xs) (map (\<lambda>kv. normalizeJson (snd kv)) xs)" for xs :: json_record
      by (induction xs) auto
    then show "normalizeJson (snapshotOf input task) = normalizeJson (snapshotOf input' task')"
      using iff [OF a] sp keys [OF a] by (simp add: o)
  qed
qed

lemma policy_hash_cases:
  assumes r: "snapshotReady input task" "snapshotReady input' task'"
  shows "hashDurablePolicy sha256 (snapshotOf input task) = hashDurablePolicy sha256 (snapshotOf input' task') \<longleftrightarrow>
    samePolicy input task input' task' \<or>
    (\<exists>m n. m \<noteq> n \<and> sha256 m = sha256 n \<and> m = json_text (canonicalPolicy (snapshotOf input task)) \<and>
       n = json_text (canonicalPolicy (snapshotOf input' task')))"
proof -
  have "json_text (canonicalPolicy (snapshotOf input task)) = json_text (canonicalPolicy (snapshotOf input' task')) \<longleftrightarrow>
      samePolicy input task input' task'"
    using snapshot_normal_iff [OF r] snapshot_well_formed [OF r(1)] snapshot_well_formed [OF r(2)]
    by (simp add: json_text_inj canonicalPolicy_iff)
  then show ?thesis by (auto simp: hashDurablePolicy_def)
qed

text \<open>
  C33.  The policy hash of a task identifies its policy: for tasks of accepted plans the hashes are equal
  exactly when the tasks agree in every field, up to the order of object properties and of dependencies,
  or else SHA-256 collides on the two texts.
\<close>

theorem policy_hash_identifies:
  assumes "buildDurableTaskPolicySnapshot input i = Inr p" "buildDurableTaskPolicySnapshot input' j = Inr q"
    and "jsObjects input" "jsObjects input'"
  shows "hashDurablePolicy sha256 p = hashDurablePolicy sha256 q \<longleftrightarrow>
    samePolicy input (elements (getProp input ''tasks'') ! i) input' (elements (getProp input' ''tasks'') ! j) \<or>
    (\<exists>m n. m \<noteq> n \<and> sha256 m = sha256 n \<and> m = json_text (canonicalPolicy p) \<and> n = json_text (canonicalPolicy q))"
proof -
  have b: "p = snapshotOf input (elements (getProp input ''tasks'') ! i) \<and> snapshotReady input (elements (getProp input ''tasks'') ! i)"
    if "buildDurableTaskPolicySnapshot input i = Inr p" "jsObjects input" for input i p
    using that by (auto simp: buildDurableTaskPolicySnapshot_def Let_def outcome_simps intro: accepted_ready split: if_splits)
  note p = b [OF assms(1,3)] and q = b [OF assms(2,4)]
  show ?thesis unfolding conjunct1 [OF p] conjunct1 [OF q] by (rule policy_hash_cases [OF conjunct2 [OF p] conjunct2 [OF q]])
qed

section \<open>A plan\<close>

definition demoTexts :: "string list \<Rightarrow> json" where
  "demoTexts xs = JArr (map JStr xs)"

definition demoLimit :: "int \<Rightarrow> json" where
  "demoLimit n = JObj [(''currency'', JStr ''USD''), (''maximumMinorUnits'', JNum (SafeInt n)), (''maximumComputeUnits'', JNum (SafeInt n))]"

definition demoPlanTask :: "string \<Rightarrow> string \<Rightarrow> string list \<Rightarrow> json_record \<Rightarrow> json" where
  "demoPlanTask i kind ds policy = JObj
     [(''id'', JStr i), (''projectId'', JStr ''p1''), (''title'', JStr ''Check''), (''kind'', JStr kind),
      (''dependencyIds'', demoTexts ds), (''requiredAuthority'', JNum (SafeInt 1)), (''costLimit'', demoLimit 4),
      (''estimatedDurationMs'', JNum (SafeInt 1000)), (''acceptanceCriteria'', demoTexts [''done'']),
      (''verificationCriteria'', demoTexts [''checked'']), (''stopConditions'', demoTexts [''stopped'']),
      (''retryPolicy'', JObj [(''maximumAttempts'', JNum (SafeInt 2)), (''retryableFailureCodes'', demoTexts [''TIMEOUT'']),
         (''stopAfterFailureCodes'', demoTexts [''DENIED''])]),
      (''agentPolicy'', JObj policy), (''routingPolicy'', JObj [])]"

definition demoObjectivePlan :: "json list \<Rightarrow> json" where
  "demoObjectivePlan tasks = JObj
     [(''workspaceId'', JStr ''w1''), (''idempotencyKey'', JStr ''k1''), (''policyVersion'', JStr ''v1''),
      (''objective'', JObj [(''id'', JStr ''o1''), (''title'', JStr ''Goal''), (''desiredOutcome'', JStr ''Outcome''),
         (''maximumAuthority'', JNum (SafeInt 2)), (''costLimit'', demoLimit 10), (''acceptanceCriteria'', demoTexts [''done'']),
         (''verificationCriteria'', demoTexts [''checked'']), (''stopConditions'', demoTexts [''stopped''])]),
      (''projects'', JArr [JObj [(''id'', JStr ''p1''), (''title'', JStr ''Project'')]]),
      (''tasks'', JArr tasks)]"

definition demoTaskA :: json where
  "demoTaskA = demoPlanTask ''t1'' ''business.research'' [''t2''] [(''a'', JNull), (''b'', JBool True)]"

definition demoTaskB :: json where
  "demoTaskB = demoPlanTask ''t2'' ''runtime.health.check'' [] []"

lemma demoObjectivePlan_accepted: "validateDurableObjectivePlan (demoObjectivePlan [demoTaskA, demoTaskB]) = Inr ()"
  by code_simp

text \<open>
  A task kind that names a property of \<open>Object.prototype\<close> passes the check of kinds, and no minimum
  authority applies to it.
\<close>

lemma inherited_kind_accepted:
  "validateDurableObjectivePlan (demoObjectivePlan [demoPlanTask ''t1'' ''constructor'' [] []]) = Inr ()"
  by code_simp

theorem accepted_plan_consistent_witness:
  "\<exists>order. workable order (map taskLinks [demoTaskA, demoTaskB])"
  using accepted_plan_consistent [OF demoObjectivePlan_accepted]
  by (simp add: Let_def demoObjectivePlan_def getProp_def)

theorem policy_hash_identifies_witness:
  "hashDurablePolicy id (snapshotOf (demoObjectivePlan [demoTaskA, demoTaskB]) demoTaskA) \<noteq>
   hashDurablePolicy id (snapshotOf (demoObjectivePlan [demoTaskA, demoTaskB]) demoTaskB)"
proof -
  let ?plan = "demoObjectivePlan [demoTaskA, demoTaskB]"
  have t: "elements (getProp ?plan ''tasks'') = [demoTaskA, demoTaskB]" by (simp add: demoObjectivePlan_def getProp_def)
  have b: "buildDurableTaskPolicySnapshot ?plan 0 = Inr (snapshotOf ?plan demoTaskA)"
    "buildDurableTaskPolicySnapshot ?plan 1 = Inr (snapshotOf ?plan demoTaskB)"
    by (simp_all add: buildDurableTaskPolicySnapshot_def demoObjectivePlan_accepted t Let_def)
  have "jsObjects ?plan" by code_simp
  moreover have "\<not> samePolicy ?plan demoTaskA ?plan demoTaskB"
    by (simp add: samePolicy_def policyFields_def demoTaskA_def demoTaskB_def demoPlanTask_def getProp_def)
  ultimately show ?thesis
    using policy_hash_identifies [OF b, of id] by (simp add: t)
qed

end
