(* ===== verification/Coo_Graph.thy ===== *)
theory Coo_Graph
  imports Task_Plan_Properties
begin

text \<open>
  The dependency graph of \<open>ai-coo.ts\<close>: the ready queue that \<open>#assertAcyclic\<close> and \<open>criticalPath\<close> run over
  the tasks of an objective, and the longest chain that \<open>criticalPath\<close> derives from the order.  A task
  is given by its id and the ids it depends on, a weighted task also by its duration.  The counter of
  \<open>#assertAcyclic\<close> is the length of the list \<open>criticalPath\<close> collects with the same loop.
\<close>

section \<open>The ready queue\<close>

type_synonym links = "(string \<times> string list) list"

definition indegreeOf :: "links \<Rightarrow> int jsmap" where
  "indegreeOf tasks = foldl (\<lambda>m (i, ds). mset_at m i (int (length ds))) [] tasks"

definition getOrEmpty :: "'a list jsmap \<Rightarrow> string \<Rightarrow> 'a list" where
  "getOrEmpty m k = (case mget m k of None \<Rightarrow> [] | Some xs \<Rightarrow> xs)"

definition addDependent :: "string \<Rightarrow> string list jsmap \<Rightarrow> string \<Rightarrow> string list jsmap" where
  "addDependent i m d = mset_at m d (getOrEmpty m d @ [i])"

definition dependentsOf :: "links \<Rightarrow> string list jsmap" where
  "dependentsOf tasks = foldl (\<lambda>m (i, ds). foldl (addDependent i) m ds) [] tasks"

definition initialReady :: "int jsmap \<Rightarrow> string list" where
  "initialReady indegree = sortWith compareText (map fst (filter (\<lambda>(i, degree). degree = 0) indegree))"

text \<open>
  The inner loop: every dependent loses one open dependency and is queued when none is left.  A
  dependent is a task, so it has an entry.
\<close>

fun releaseDependents :: "string list \<Rightarrow> int jsmap \<Rightarrow> string list \<Rightarrow> int jsmap \<times> string list" where
  "releaseDependents [] indegree ready = (indegree, ready)"
| "releaseDependents (d # ds) indegree ready = (case mget indegree d of
     None \<Rightarrow> releaseDependents ds indegree ready
   | Some degree \<Rightarrow> releaseDependents ds (mset_at indegree d (degree - 1))
       (if degree - 1 = 0 then sortWith compareText (ready @ [d]) else ready))"

definition openCount :: "int jsmap \<Rightarrow> nat" where
  "openCount indegree = length (filter (\<lambda>(i, degree). 0 < degree) indegree)"

lemma openCount_update:
  "mget indegree d = Some n \<Longrightarrow>
   openCount (mset_at indegree d v) + (if 0 < n then 1 else 0) = openCount indegree + (if 0 < v then 1 else 0)"
  by (induction indegree) (auto simp: openCount_def mset_at_def split: if_splits)

text \<open>What is queued was open before: the queue and the open tasks together never grow.\<close>

lemma releaseDependents_measure:
  "length (snd (releaseDependents ds indegree ready)) + openCount (fst (releaseDependents ds indegree ready))
   \<le> length ready + openCount indegree"
proof (induction ds arbitrary: indegree ready)
  case (Cons d ds)
  show ?case
  proof (cases "mget indegree d")
    case (Some n)
    have "openCount (mset_at indegree d (n - 1)) + (if 0 < n then 1 else 0) = openCount indegree + (if 0 < n - 1 then 1 else 0)"
      by (rule openCount_update [OF Some])
    with Some Cons.IH [of "mset_at indegree d (n - 1)" "if n - 1 = 0 then sortWith compareText (ready @ [d]) else ready"]
    show ?thesis by (auto split: if_splits)
  qed (use Cons in simp)
qed simp

text \<open>The body of the \<open>while\<close> loop, after \<open>ready.shift()\<close> has taken the task \<open>i\<close> from the queue.\<close>

definition kahnRound :: "string list jsmap \<Rightarrow> int jsmap \<Rightarrow> string \<Rightarrow> string list \<Rightarrow> string list \<Rightarrow> int jsmap \<times> string list \<times> string list" where
  "kahnRound dependents indegree i ready ordered =
     (let next = releaseDependents (sortWith compareText (getOrEmpty dependents i)) indegree ready
      in (fst next, snd next, ordered @ [i]))"

function kahnLoop :: "string list jsmap \<Rightarrow> int jsmap \<Rightarrow> string list \<Rightarrow> string list \<Rightarrow> string list" where
  "kahnLoop dependents indegree [] ordered = ordered"
| "kahnLoop dependents indegree (i # ready) ordered =
     (let next = kahnRound dependents indegree i ready ordered
      in kahnLoop dependents (fst next) (fst (snd next)) (snd (snd next)))"
  by pat_completeness auto
termination
  by (relation "measure (\<lambda>(dependents, indegree, ready, ordered). length ready + openCount indegree)")
     (auto simp: kahnRound_def Let_def le_imp_less_Suc releaseDependents_measure)

definition kahnOrder :: "links \<Rightarrow> string list" where
  "kahnOrder tasks = kahnLoop (dependentsOf tasks) (indegreeOf tasks) (initialReady (indegreeOf tasks)) []"

definition containsCycle :: "links \<Rightarrow> bool" where
  "containsCycle tasks = (length (kahnOrder tasks) \<noteq> length tasks)"

section \<open>The longest chain\<close>

fun comparePath :: "string list \<Rightarrow> string list \<Rightarrow> int" where
  "comparePath (l # ls) (r # rs) = (if compareText l r \<noteq> 0 then compareText l r else comparePath ls rs)"
| "comparePath ls rs = int (length ls) - int (length rs)"

text \<open>An entry of \<open>best\<close>: the duration of a path and the path.\<close>

type_synonym path_entry = "int \<times> string list"

definition compareEntries :: "path_entry \<Rightarrow> path_entry \<Rightarrow> int" where
  "compareEntries left right = orElse (fst right - fst left) (comparePath (snd left) (snd right))"

definition longestOf :: "path_entry list \<Rightarrow> path_entry option" where
  "longestOf entries = (case sortWith compareEntries entries of [] \<Rightarrow> None | e # _ \<Rightarrow> Some e)"

definition durationOf :: "path_entry option \<Rightarrow> int" where
  "durationOf e = (case e of None \<Rightarrow> 0 | Some (duration, path) \<Rightarrow> duration)"

definition pathOf :: "path_entry option \<Rightarrow> string list" where
  "pathOf e = (case e of None \<Rightarrow> [] | Some (duration, path) \<Rightarrow> path)"

text \<open>
  The second loop of \<open>criticalPath\<close>, with \<open>byId\<close> giving the dependencies and the duration of a task.
  \<open>sort\<close> moves \<open>undefined\<close> to the end, so only the entries that exist count.  \<open>None\<close> is the error that
  the duration leaves the safe integers; every id of the order is a task.
\<close>

fun bestLoop :: "(string list \<times> int) jsmap \<Rightarrow> path_entry jsmap \<Rightarrow> string list \<Rightarrow> path_entry jsmap option" where
  "bestLoop byId best [] = Some best"
| "bestLoop byId best (i # rest) = (case mget byId i of
     None \<Rightarrow> None
   | Some (ds, estimated) \<Rightarrow>
       let longest = longestOf (List.map_filter (mget best) ds); duration = double_round (estimated + durationOf longest)
       in if isSafeInteger duration then bestLoop byId (mset_at best i (duration, pathOf longest @ [i])) rest else None)"

section \<open>Tables\<close>

text \<open>What a validated plan guarantees of its links.\<close>

definition linksOk :: "links \<Rightarrow> bool" where
  "linksOk tasks = (distinct (map fst tasks) \<and> (\<forall>(i, ds) \<in> set tasks. distinct ds \<and> set ds \<subseteq> fst ` set tasks))"

lemma getOrEmpty_addDependents:
  "distinct ds \<Longrightarrow> getOrEmpty (foldl (addDependent i) m ds) k = getOrEmpty m k @ (if k \<in> set ds then [i] else [])"
  by (induction ds arbitrary: m) (auto simp: addDependent_def getOrEmpty_def)

lemma getOrEmpty_dependentsOf:
  assumes "\<forall>(i, ds) \<in> set tasks. distinct ds"
  shows "getOrEmpty (dependentsOf tasks) k = map fst (filter (\<lambda>(i, ds). k \<in> set ds) tasks)"
proof -
  have "getOrEmpty (foldl (\<lambda>m (i, ds). foldl (addDependent i) m ds) m tasks) k =
      getOrEmpty m k @ map fst (filter (\<lambda>(i, ds). k \<in> set ds) tasks)" for m
    using assms by (induction tasks arbitrary: m) (auto simp: getOrEmpty_addDependents)
  then show ?thesis by (simp add: dependentsOf_def getOrEmpty_def)
qed

lemma foldl_mset_at:
  assumes "distinct (map fst xs)" "fst ` set xs \<inter> fst ` set m = {}"
  shows "foldl (\<lambda>m (i, v). mset_at m i (f v)) m xs = m @ map (\<lambda>(i, v). (i, f v)) xs"
  using assms
proof (induction xs arbitrary: m)
  case (Cons x xs)
  obtain i v where x: "x = (i, v)" by (cases x)
  have "\<not> mhas m i" using Cons.prems(2) x by (auto simp: mhas_def map_of_eq_None_iff)
  then have "mset_at m i (f v) = m @ [(i, f v)]" by (rule mset_at_fresh)
  moreover have "fst ` set xs \<inter> fst ` set (m @ [(i, f v)]) = {}" using Cons.prems x by auto
  ultimately show ?case using Cons.IH [of "m @ [(i, f v)]"] Cons.prems(1) x by simp
qed simp

lemma indegreeOf_map:
  "distinct (map fst tasks) \<Longrightarrow> indegreeOf tasks = map (\<lambda>(i, ds). (i, int (length ds))) tasks"
  unfolding indegreeOf_def by (subst foldl_mset_at) auto


section \<open>The order the queue produces\<close>

lemma releaseDependents_get:
  "distinct ds \<Longrightarrow> mget (fst (releaseDependents ds indegree ready)) x =
     (if x \<in> set ds then map_option (\<lambda>n. n - 1) (mget indegree x) else mget indegree x)"
  by (induction ds arbitrary: indegree ready) (auto split: option.splits)

lemma releaseDependents_ready:
  "distinct ds \<Longrightarrow> mset (snd (releaseDependents ds indegree ready)) =
     mset ready + mset (filter (\<lambda>d. mget indegree d = Some 1) ds)"
  by (induction ds arbitrary: indegree ready) (auto split: option.splits intro!: filter_mset_cong)

lemma card_open_one:
  assumes "i \<in> set ds" "i \<notin> B"
  shows "card (set ds - B) = 1 \<longleftrightarrow> set ds \<subseteq> insert i B"
proof -
  have "card (set ds - B) = 1 \<longleftrightarrow> (\<exists>x. set ds - B = {x})" by (simp add: card_1_singleton_iff)
  also have "\<dots> \<longleftrightarrow> set ds - B = {i}" using assms by (metis DiffI singletonD)
  also have "\<dots> \<longleftrightarrow> set ds \<subseteq> insert i B" using assms by blast
  finally show ?thesis .
qed

lemma linksOk_get: "linksOk tasks \<Longrightarrow> mget (byIdOf tasks) x = Some ds \<longleftrightarrow> (x, ds) \<in> set tasks"
  by (simp add: linksOk_def byIdOf_get)

lemma linksOk_same: "linksOk tasks \<Longrightarrow> (x, ds) \<in> set tasks \<Longrightarrow> (x, ds') \<in> set tasks \<Longrightarrow> ds = ds'"
  by (metis eq_key_imp_eq_value linksOk_def)

text \<open>The list the inner loop runs over.\<close>

lemma sorted_dependents:
  assumes "linksOk tasks"
  shows "set (sortWith compareText (getOrEmpty (dependentsOf tasks) i)) = {d. \<exists>ds. (d, ds) \<in> set tasks \<and> i \<in> set ds}"
    "distinct (sortWith compareText (getOrEmpty (dependentsOf tasks) i))"
proof -
  have e: "getOrEmpty (dependentsOf tasks) i = map fst (filter (\<lambda>(d, ds). i \<in> set ds) tasks)"
    using assms by (intro getOrEmpty_dependentsOf) (auto simp: linksOk_def)
  show "set (sortWith compareText (getOrEmpty (dependentsOf tasks) i)) = {d. \<exists>ds. (d, ds) \<in> set tasks \<and> i \<in> set ds}"
    by (force simp: e)
  have "distinct (map fst (filter (\<lambda>(d, ds). i \<in> set ds) tasks))"
    using assms by (simp add: linksOk_def distinct_map_filter)
  then show "distinct (sortWith compareText (getOrEmpty (dependentsOf tasks) i))"
    by (metis e mset_sortWith mset_eq_imp_distinct_iff)
qed

lemma schedule_closed:
  assumes "linksOk tasks" "schedule (byIdOf tasks) {} ordered" "(x, ds) \<in> set tasks" "x \<in> set ordered"
  shows "set ds \<subseteq> set ordered"
proof -
  from assms(4) obtain pre post where "ordered = pre @ x # post" by (meson split_list)
  with schedule_split(1) [of "byIdOf tasks" pre x post] assms show ?thesis
    by (auto simp: linksOk_get dest: linksOk_same)
qed

text \<open>The open dependencies after one more task is done.\<close>

lemma degree_next:
  assumes "linksOk tasks" "(x, ds) \<in> set tasks" "mget indegree x = Some (int (card (set ds - set ordered)))" "i \<notin> set ordered"
  shows "mget (fst (releaseDependents (sortWith compareText (getOrEmpty (dependentsOf tasks) i)) indegree ready)) x =
    Some (int (card (set ds - set (ordered @ [i]))))"
proof (cases "i \<in> set ds")
  case True
  let ?A = "set ds - set ordered"
  have e: "set ds - set (ordered @ [i]) = ?A - {i}" and mem: "i \<in> ?A" using True assms(4) by auto
  have "card ?A = Suc (card (?A - {i}))" by (rule card.remove) (use mem in auto)
  then have "int (card (set ds - set (ordered @ [i]))) = int (card ?A) - 1" unfolding e by linarith
  moreover have "\<exists>ds. (x, ds) \<in> set tasks \<and> i \<in> set ds" using True assms(2) by auto
  ultimately show ?thesis
    unfolding releaseDependents_get [OF sorted_dependents(2) [OF assms(1)]] sorted_dependents(1) [OF assms(1)] assms(3) by simp
next
  case False
  then have "\<not> (\<exists>ds. (x, ds) \<in> set tasks \<and> i \<in> set ds)" using linksOk_same [OF assms(1,2)] by auto
  moreover have "set ds - set (ordered @ [i]) = set ds - set ordered" using False by auto
  ultimately show ?thesis
    unfolding releaseDependents_get [OF sorted_dependents(2) [OF assms(1)]] sorted_dependents(1) [OF assms(1)] assms(3) by simp
qed

text \<open>The tasks that can start once \<open>ordered\<close> is done.\<close>

definition startable :: "links \<Rightarrow> string list \<Rightarrow> string set" where
  "startable tasks ordered = {i. i \<notin> set ordered \<and> (\<exists>ds. (i, ds) \<in> set tasks \<and> set ds \<subseteq> set ordered)}"

lemma startable_next:
  assumes ok: "linksOk tasks" and s: "schedule (byIdOf tasks) {} ordered" and i: "i \<in> startable tasks ordered"
  shows "startable tasks (ordered @ [i]) = startable tasks ordered - {i} \<union>
    {d. \<exists>ds. (d, ds) \<in> set tasks \<and> i \<in> set ds \<and> card (set ds - set ordered) = 1}" (is "?L = ?R")
proof (intro set_eqI iffI)
  note i' = i [unfolded startable_def mem_Collect_eq]
  fix x assume "x \<in> ?L"
  then obtain ds where x: "x \<notin> set ordered" "x \<noteq> i" "(x, ds) \<in> set tasks" "set ds \<subseteq> insert i (set ordered)"
    by (auto simp: startable_def)
  then show "x \<in> ?R" using card_open_one [of i ds] i' by (cases "i \<in> set ds") (auto simp: startable_def)
next
  note i' = i [unfolded startable_def mem_Collect_eq]
  fix x assume "x \<in> ?R"
  then consider "x \<in> startable tasks ordered" "x \<noteq> i"
    | ds where "(x, ds) \<in> set tasks" "i \<in> set ds" "card (set ds - set ordered) = 1" by auto
  then show "x \<in> ?L"
  proof cases
    case 1
    then show ?thesis by (auto simp: startable_def)
  next
    case 2
    have "x \<notin> set ordered" using schedule_closed [OF ok s 2(1)] 2(2) i' by blast
    moreover have "x \<noteq> i" using 2 i' linksOk_same [OF ok] by blast
    ultimately show ?thesis using 2 card_open_one [OF 2(2)] i' by (auto simp: startable_def)
  qed
qed

definition kahnInv :: "links \<Rightarrow> int jsmap \<Rightarrow> string list \<Rightarrow> string list \<Rightarrow> bool" where
  "kahnInv tasks indegree ready ordered =
     (schedule (byIdOf tasks) {} ordered \<and> distinct ready \<and> set ready = startable tasks ordered \<and>
      (\<forall>(i, ds) \<in> set tasks. mget indegree i = Some (int (card (set ds - set ordered)))))"

lemma kahnInv_step:
  assumes ok: "linksOk tasks" and inv: "kahnInv tasks indegree (i # ready) ordered"
    and n: "nxt = releaseDependents (sortWith compareText (getOrEmpty (dependentsOf tasks) i)) indegree ready"
  shows "kahnInv tasks (fst nxt) (snd nxt) (ordered @ [i])"
proof -
  let ?new = "filter (\<lambda>d. mget indegree d = Some 1) (sortWith compareText (getOrEmpty (dependentsOf tasks) i))"
  have s: "schedule (byIdOf tasks) {} ordered" and di: "distinct (i # ready)" and rdy: "set (i # ready) = startable tasks ordered"
    and deg: "\<And>x ds. (x, ds) \<in> set tasks \<Longrightarrow> mget indegree x = Some (int (card (set ds - set ordered)))"
    using inv unfolding kahnInv_def by auto
  obtain own where i: "i \<notin> set ordered" "(i, own) \<in> set tasks" "set own \<subseteq> set ordered" using rdy by (auto simp: startable_def)
  have new: "set ?new = {d. \<exists>ds. (d, ds) \<in> set tasks \<and> i \<in> set ds \<and> card (set ds - set ordered) = 1}"
    using deg linksOk_same [OF ok] sorted_dependents(1) [OF ok, of i] by auto
  have "set ready \<inter> set ?new = {}"
  proof -
    have "mget indegree x = Some 0" if "x \<in> set ready" for x
    proof -
      from that rdy obtain ds where "(x, ds) \<in> set tasks" "set ds - set ordered = {}" by (auto simp: startable_def)
      then show ?thesis using deg by (metis card.empty of_nat_0)
    qed
    then show ?thesis by auto
  qed
  with di sorted_dependents(2) [OF ok] have d: "distinct (ready @ ?new)" by simp
  have st: "set (ready @ ?new) = startable tasks (ordered @ [i])"
    using startable_next [OF ok s, of i] rdy new di by auto
  have "mset (snd nxt) = mset (ready @ ?new)"
    unfolding n by (simp add: releaseDependents_ready [OF sorted_dependents(2) [OF ok]])
  then have "distinct (snd nxt)" "set (snd nxt) = startable tasks (ordered @ [i])"
    using d st by (metis mset_eq_imp_distinct_iff, metis mset_eq_setD)
  moreover have "schedule (byIdOf tasks) {} (ordered @ [i])"
    using s i(1,3) linksOk_get [OF ok, of i own] i(2) by (simp add: schedule_append)
  ultimately show ?thesis
    unfolding kahnInv_def n using degree_next [OF ok _ deg i(1)] by auto
qed

lemma kahnLoop_inv:
  "linksOk tasks \<Longrightarrow> kahnInv tasks indegree ready ordered \<Longrightarrow>
   \<exists>indegree'. kahnInv tasks indegree' [] (kahnLoop (dependentsOf tasks) indegree ready ordered)"
proof (induction "dependentsOf tasks" indegree ready ordered rule: kahnLoop.induct)
  case (2 indegree i ready ordered)
  then show ?case using kahnInv_step [OF 2(2,3) refl] by (simp add: kahnRound_def Let_def)
qed auto

lemma kahnInv_init:
  assumes "linksOk tasks"
  shows "kahnInv tasks (indegreeOf tasks) (initialReady (indegreeOf tasks)) []"
proof -
  have u: "distinct (map fst tasks)" and d: "\<And>i ds. (i, ds) \<in> set tasks \<Longrightarrow> distinct ds"
    using assms by (auto simp: linksOk_def)
  let ?zero = "map fst (filter (\<lambda>(i, degree). degree = 0) (indegreeOf tasks))"
  have z: "?zero = map fst (filter (\<lambda>(i, ds). ds = []) tasks)"
    unfolding indegreeOf_map [OF u] by (simp add: filter_map comp_def case_prod_unfold)
  have "distinct ?zero" unfolding z using u by (rule distinct_map_filter)
  then have "distinct (initialReady (indegreeOf tasks))"
    unfolding initialReady_def by (metis mset_sortWith mset_eq_imp_distinct_iff)
  moreover have "set (initialReady (indegreeOf tasks)) = startable tasks []"
    unfolding initialReady_def set_sortWith z by (force simp: startable_def)
  moreover have "mget (indegreeOf tasks) i = Some (int (card (set ds)))" if "(i, ds) \<in> set tasks" for i ds
    using that u d [OF that] unfolding indegreeOf_map [OF u] by (force simp: map_of_eq_Some_iff comp_def case_prod_unfold distinct_card)
  ultimately show ?thesis by (auto simp: kahnInv_def)
qed

lemma kahnOrder_done:
  assumes "linksOk tasks"
  shows "schedule (byIdOf tasks) {} (kahnOrder tasks)" "startable tasks (kahnOrder tasks) = {}"
  using kahnLoop_inv [OF assms kahnInv_init [OF assms]] by (auto simp: kahnInv_def kahnOrder_def)

lemma schedule_ids: "linksOk tasks \<Longrightarrow> schedule (byIdOf tasks) {} order \<Longrightarrow> set order \<subseteq> fst ` set tasks"
  using schedule_known linksOk_get by (metis fst_conv image_eqI subsetI)

lemma kahnOrder_tasks:
  assumes "linksOk tasks"
  shows "distinct (kahnOrder tasks)" "set (kahnOrder tasks) \<subseteq> fst ` set tasks"
  using schedule_distinct [OF kahnOrder_done(1) [OF assms]] schedule_ids [OF assms kahnOrder_done(1) [OF assms]] by auto

text \<open>The queue stops early only where no order of the tasks exists.\<close>

lemma kahnOrder_complete:
  assumes ok: "linksOk tasks" and w: "workable order tasks"
  shows "set (kahnOrder tasks) = fst ` set tasks"
proof (rule ccontr)
  assume "set (kahnOrder tasks) \<noteq> fst ` set tasks"
  then have "\<exists>x \<in> set order. x \<notin> set (kahnOrder tasks)"
    using kahnOrder_tasks(2) [OF ok] w by (auto simp: workable_def)
  then obtain pre x post where o: "order = pre @ x # post" "x \<notin> set (kahnOrder tasks)" "\<forall>y \<in> set pre. y \<in> set (kahnOrder tasks)"
    using split_list_first_prop [of order "\<lambda>x. x \<notin> set (kahnOrder tasks)"] by auto
  have "x \<in> fst ` set tasks" using w o(1) unfolding workable_def by (metis in_set_conv_decomp)
  then obtain ds where ds: "(x, ds) \<in> set tasks" by auto
  have "set ds \<subseteq> set pre" using w o(1) ds precedes_prefix [of pre x post] by (fastforce simp: workable_def)
  then have "x \<in> startable tasks (kahnOrder tasks)" using o(2,3) ds by (auto simp: startable_def)
  then show False using kahnOrder_done(2) [OF ok] by simp
qed

lemma containsCycle_iff:
  assumes "linksOk tasks"
  shows "containsCycle tasks \<longleftrightarrow> set (kahnOrder tasks) \<noteq> fst ` set tasks"
proof -
  have "distinct (map fst tasks)" using assms by (simp add: linksOk_def)
  then have "length tasks = card (fst ` set tasks)" by (metis distinct_card length_map list.set_map)
  moreover have "length (kahnOrder tasks) = card (set (kahnOrder tasks))"
    using kahnOrder_tasks(1) [OF assms] by (simp add: distinct_card)
  ultimately show ?thesis
    using kahnOrder_tasks(2) [OF assms] by (simp add: containsCycle_def) (metis card_subset_eq finite_imageI finite_set)
qed

lemma kahnOrder_workable:
  assumes "linksOk tasks"
  shows "\<not> containsCycle tasks \<longleftrightarrow> workable (kahnOrder tasks) tasks"
  using containsCycle_iff [OF assms] schedule_iff [of tasks "kahnOrder tasks"] kahnOrder_done(1) [OF assms] assms
  by (auto simp: linksOk_def)

lemma containsCycle_workable:
  assumes "linksOk tasks"
  shows "containsCycle tasks \<longleftrightarrow> \<not> (\<exists>order. workable order tasks)"
  using kahnOrder_workable [OF assms] kahnOrder_complete [OF assms] containsCycle_iff [OF assms] by blast


section \<open>Chains\<close>

lemma Nil_less_iff: "[] < xs \<longleftrightarrow> (xs :: string list) \<noteq> []"
  by (cases xs) auto

lemma comparePath_simps [simp]:
  "comparePath l r = 0 \<longleftrightarrow> l = r" "comparePath l r < 0 \<longleftrightarrow> l < r" "comparePath l r \<le> 0 \<longleftrightarrow> l \<le> r" "0 < comparePath l r \<longleftrightarrow> r < l"
proof -
  show e: "comparePath l r = 0 \<longleftrightarrow> l = r" by (induction l r rule: comparePath.induct) auto
  show l: "comparePath l r < 0 \<longleftrightarrow> l < r" by (induction l r rule: comparePath.induct) (auto simp: Nil_less_iff)
  show "comparePath l r \<le> 0 \<longleftrightarrow> l \<le> r" using e l by (metis order_le_less)
  then show "0 < comparePath l r \<longleftrightarrow> r < l" by (metis linorder_not_le)
qed

lemma comparator_compareEntries [comparator_rules]: "comparator compareEntries"
proof -
  have "comparator (\<lambda>l r. comparePath (snd l) (snd r))" by (auto simp: comparator_def)
  from comparator_orElse [OF comparator_descending [of fst] this] show ?thesis
    unfolding compareEntries_def [abs_def] by simp
qed

lemma longestOf_None [simp]: "longestOf entries = None \<longleftrightarrow> entries = []"
  by (auto simp: longestOf_def split: list.splits)

lemma longestOf_Nil [simp]: "longestOf [] = None"
  by simp

lemma longestOf_Some:
  assumes "longestOf entries = Some e"
  shows "e \<in> set entries" "x \<in> set entries \<Longrightarrow> fst x \<le> fst e"
proof -
  from assms obtain es where s: "sortWith compareEntries entries = e # es" by (auto simp: longestOf_def split: list.splits)
  then show "e \<in> set entries" by (metis list.set_intros(1) set_sortWith)
  show "fst x \<le> fst e" if "x \<in> set entries"
    using sortWith_hd_least [OF comparator_compareEntries s that] by (auto simp: compareEntries_def orElse_simps)
qed

text \<open>A chain lists tasks, each a direct dependency of the one after it.\<close>

fun chain :: "links \<Rightarrow> string list \<Rightarrow> bool" where
  "chain tasks [] = True"
| "chain tasks [i] = (i \<in> fst ` set tasks)"
| "chain tasks (d # i # rest) = (d \<in> fst ` set tasks \<and> (\<exists>(j, ds) \<in> set tasks. j = i \<and> d \<in> set ds) \<and> chain tasks (i # rest))"

lemma chain_snoc:
  "chain tasks (p @ [i]) \<longleftrightarrow> i \<in> fst ` set tasks \<and> chain tasks p \<and>
     (p = [] \<or> (\<exists>(j, ds) \<in> set tasks. j = i \<and> last p \<in> set ds))"
proof (induction p rule: chain.induct)
  case (3 tasks d i rest)
  then show ?case by auto
qed auto

definition pathDuration :: "(string \<Rightarrow> int) \<Rightarrow> string list \<Rightarrow> int" where
  "pathDuration duration p = sum_list (map duration p)"

lemma pathDuration_nonneg: "(\<And>j. j \<in> set p \<Longrightarrow> 0 \<le> duration j) \<Longrightarrow> 0 \<le> pathDuration duration p"
  by (auto simp: pathDuration_def intro!: sum_list_nonneg)

text \<open>The entry of a task is a longest chain that ends in it.\<close>

definition bestEntry :: "links \<Rightarrow> (string \<Rightarrow> int) \<Rightarrow> string \<Rightarrow> path_entry \<Rightarrow> bool" where
  "bestEntry tasks duration i e = (chain tasks (snd e) \<and> snd e \<noteq> [] \<and> last (snd e) = i \<and> fst e = pathDuration duration (snd e) \<and>
     (\<forall>p. chain tasks p \<longrightarrow> p \<noteq> [] \<longrightarrow> last p = i \<longrightarrow> pathDuration duration p \<le> fst e))"

definition bestInv :: "links \<Rightarrow> (string \<Rightarrow> int) \<Rightarrow> string list \<Rightarrow> path_entry jsmap \<Rightarrow> bool" where
  "bestInv tasks duration finished best = (jsmap_ok best \<and> map fst best = finished \<and>
     (\<forall>i e. mget best i = Some e \<longrightarrow> bestEntry tasks duration i e \<and> fst e \<le> pathDuration duration finished))"

lemma set_map_filter: "e \<in> set (List.map_filter f xs) \<longleftrightarrow> (\<exists>x \<in> set xs. f x = Some e)"
  by (induction xs) (auto simp: List.map_filter_def)

abbreviation longestDependency :: "path_entry jsmap \<Rightarrow> string list \<Rightarrow> path_entry option" where
  "longestDependency best ds \<equiv> longestOf (List.map_filter (mget best) ds)"

lemma longestDependency_source: "longestDependency best ds = Some e \<Longrightarrow> \<exists>d \<in> set ds. mget best d = Some e"
  by (metis longestOf_Some(1) set_map_filter)

lemma longestDependency_upper:
  assumes "d \<in> set ds" "mget best d = Some e"
  shows "fst e \<le> durationOf (longestDependency best ds)"
proof -
  have e: "e \<in> set (List.map_filter (mget best) ds)" using assms by (auto simp: set_map_filter)
  then obtain l where "longestDependency best ds = Some l" by (metis empty_iff list.set(1) longestOf_None not_Some_eq)
  with longestOf_Some(2) [OF this e] show ?thesis by (simp add: durationOf_def case_prod_unfold)
qed

lemma bestEntry_le: "bestEntry tasks duration i e \<Longrightarrow> chain tasks p \<Longrightarrow> p \<noteq> [] \<Longrightarrow> last p = i \<Longrightarrow> pathDuration duration p \<le> fst e"
  unfolding bestEntry_def by blast

lemma bestEntry_nonneg:
  assumes "bestEntry tasks duration d e" "d \<in> fst ` set tasks" "0 \<le> duration d"
  shows "0 \<le> fst e"
proof -
  have "pathDuration duration [d] \<le> fst e" using bestEntry_le [OF assms(1), of "[d]"] assms(2) by simp
  with assms(3) show ?thesis by (simp add: pathDuration_def)
qed

lemma bestEntry_upper:
  assumes ok: "linksOk tasks" and i: "(i, ds) \<in> set tasks" and known: "\<And>d. d \<in> set ds \<Longrightarrow> \<exists>e. mget best d = Some e"
    and b: "\<And>d e. mget best d = Some e \<Longrightarrow> bestEntry tasks duration d e" and nonneg: "\<And>j. j \<in> set ds \<Longrightarrow> 0 \<le> duration j"
    and q: "chain tasks (q @ [i])"
  shows "pathDuration duration q \<le> durationOf (longestDependency best ds)"
proof (cases "q = []")
  case True
  have "0 \<le> durationOf (longestDependency best ds)"
  proof (cases "ds = []")
    case False
    then obtain d e where d: "d \<in> set ds" "mget best d = Some e" using known by (metis list.set_intros(1) neq_Nil_conv)
    have "d \<in> fst ` set tasks" using ok i d(1) by (auto simp: linksOk_def)
    from bestEntry_nonneg [OF b [OF d(2)] this nonneg [OF d(1)]] longestDependency_upper [OF d] show ?thesis by simp
  qed (simp add: List.map_filter_def longestOf_def durationOf_def)
  with True show ?thesis by (simp add: pathDuration_def)
next
  case False
  then have c: "chain tasks q" "last q \<in> set ds" using q linksOk_same [OF ok i] by (auto simp: chain_snoc)
  then obtain e where e: "mget best (last q) = Some e" using known by blast
  have "pathDuration duration q \<le> fst e" using bestEntry_le [OF b [OF e] c(1) False] by simp
  with longestDependency_upper [OF c(2) e] show ?thesis by simp
qed

lemma bestEntry_step:
  assumes ok: "linksOk tasks" and i: "(i, ds) \<in> set tasks" and known: "\<And>d. d \<in> set ds \<Longrightarrow> \<exists>e. mget best d = Some e"
    and b: "\<And>d e. mget best d = Some e \<Longrightarrow> bestEntry tasks duration d e" and nonneg: "\<And>j. j \<in> set ds \<Longrightarrow> 0 \<le> duration j"
  shows "bestEntry tasks duration i (duration i + durationOf (longestDependency best ds), pathOf (longestDependency best ds) @ [i])"
proof -
  let ?L = "longestDependency best ds"
  have "chain tasks (pathOf ?L @ [i]) \<and> durationOf ?L = pathDuration duration (pathOf ?L)"
  proof (cases ?L)
    case (Some e)
    with longestDependency_source obtain d where d: "d \<in> set ds" "mget best d = Some e" by blast
    from b [OF d(2)] d(1) Some i show ?thesis
      by (auto simp: bestEntry_def pathOf_def durationOf_def chain_snoc case_prod_unfold image_iff intro!: bexI [of _ "(i, ds)"])
  next
    case None
    then have "pathOf ?L = []" "durationOf ?L = 0" by (simp_all only: pathOf_def durationOf_def option.case)
    with i show ?thesis by (force simp: pathDuration_def)
  qed
  moreover have "pathDuration duration p \<le> duration i + durationOf ?L" if p: "chain tasks p" "p \<noteq> []" "last p = i" for p
  proof -
    obtain q where q: "p = q @ [i]" using p(2,3) by (metis append_butlast_last_id)
    with bestEntry_upper [OF ok i known b nonneg, of q] p(1) show ?thesis by (simp add: pathDuration_def)
  qed
  ultimately show ?thesis by (simp add: bestEntry_def pathDuration_def)
qed

lemma bestInv_step:
  assumes ok: "linksOk tasks" and i: "(i, ds) \<in> set tasks" "set ds \<subseteq> set finished" "i \<notin> set finished"
    and inv: "bestInv tasks duration finished best" and nonneg: "\<And>j. j \<in> fst ` set tasks \<Longrightarrow> 0 \<le> duration j"
    and f: "set finished \<subseteq> fst ` set tasks"
  shows "bestInv tasks duration (finished @ [i])
    (mset_at best i (duration i + durationOf (longestDependency best ds), pathOf (longestDependency best ds) @ [i]))"
    "duration i + durationOf (longestDependency best ds) \<le> pathDuration duration (finished @ [i])"
proof -
  let ?L = "longestDependency best ds"
  have b: "\<And>d e. mget best d = Some e \<Longrightarrow> bestEntry tasks duration d e \<and> fst e \<le> pathDuration duration finished"
    and k: "map fst best = finished" "jsmap_ok best"
    using inv by (auto simp: bestInv_def)
  have known: "\<exists>e. mget best d = Some e" if "d \<in> set ds" for d
    using that i(2) k(1) by (metis domD dom_map_of_conv_image_fst list.set_map subsetD)
  have n: "0 \<le> pathDuration duration finished" using nonneg f by (intro pathDuration_nonneg) blast
  have l: "durationOf ?L \<le> pathDuration duration finished"
  proof (cases ?L)
    case (Some e)
    with longestDependency_source b have "fst e \<le> pathDuration duration finished" by blast
    with Some show ?thesis by (simp add: durationOf_def case_prod_unfold)
  qed (use n in \<open>simp add: durationOf_def\<close>)
  then show le: "duration i + durationOf ?L \<le> pathDuration duration (finished @ [i])" by (simp add: pathDuration_def)
  have "i \<notin> fst ` set best" using i(3) k(1) by force
  then have "\<not> mhas best i" by (simp add: mhas_def map_of_eq_None_iff)
  then have "map fst (mset_at best i v) = finished @ [i]" for v using k(1) by (simp add: mset_at_fresh)
  moreover have "bestEntry tasks duration i (duration i + durationOf ?L, pathOf ?L @ [i])"
  proof (rule bestEntry_step [OF ok i(1) known])
    show "bestEntry tasks duration d e" if "mget best d = Some e" for d e using b that by blast
    show "0 \<le> duration j" if "j \<in> set ds" for j using nonneg f i(2) that by blast
  qed
  moreover have "0 \<le> duration i" using nonneg i(1) by force
  then have "pathDuration duration finished \<le> pathDuration duration (finished @ [i])" by (simp add: pathDuration_def)
  ultimately show "bestInv tasks duration (finished @ [i]) (mset_at best i (duration i + durationOf ?L, pathOf ?L @ [i]))"
    using k(2) b le unfolding bestInv_def by auto (meson order_trans)
qed


text \<open>Over an order that respects the dependencies the loop gives every task its longest chain.\<close>

lemma bestLoop_correct:
  assumes ok: "linksOk tasks" and links: "\<And>i ds. (i, ds) \<in> set tasks \<Longrightarrow> mget byId i = Some (ds, duration i)"
    and nonneg: "\<And>j. j \<in> fst ` set tasks \<Longrightarrow> 0 \<le> duration j"
    and "schedule (byIdOf tasks) {} (finished @ rest)" "bestInv tasks duration finished best"
    and "pathDuration duration (finished @ rest) \<le> MAX_SAFE_INTEGER"
  shows "\<exists>best'. bestLoop byId best rest = Some best' \<and> bestInv tasks duration (finished @ rest) best'"
  using assms(4-6)
proof (induction rest arbitrary: finished best)
  case (Cons i rest)
  have f: "set finished \<subseteq> fst ` set tasks" "set rest \<subseteq> fst ` set tasks"
    using schedule_ids [OF ok Cons.prems(1)] by auto
  obtain ds where ds: "(i, ds) \<in> set tasks" "set ds \<subseteq> set finished"
    using schedule_split(1) [OF Cons.prems(1)] linksOk_get [OF ok] by auto
  let ?d = "duration i + durationOf (longestDependency best ds)"
  note step = bestInv_step [OF ok ds schedule_split(2) [OF Cons.prems(1)] Cons.prems(2) nonneg f(1)]
  have "0 \<le> pathDuration duration rest" using f(2) nonneg by (intro pathDuration_nonneg) blast
  then have "?d \<le> MAX_SAFE_INTEGER" using step(2) Cons.prems(3) by (simp add: pathDuration_def)
  moreover have "0 \<le> ?d"
  proof -
    have i: "i \<in> fst ` set tasks" using ds(1) by force
    have "bestEntry tasks duration i (?d, pathOf (longestDependency best ds) @ [i])" using step(1) by (simp add: bestInv_def)
    from bestEntry_nonneg [OF this i nonneg [OF i]] show ?thesis by simp
  qed
  ultimately have "double_round ?d = ?d" "isSafeInteger ?d"
    by (auto simp: double_round_def isSafeInteger_def MAX_SAFE_INTEGER_def)
  then show ?case
    using Cons.IH [OF _ step(1)] Cons.prems(1,3) by (simp add: links [OF ds(1)] Let_def)
qed auto

text \<open>The longest entry is a longest chain of the graph.\<close>

lemma longestOf_best:
  assumes inv: "bestInv tasks duration order best" and all: "set order = fst ` set tasks" and t: "tasks \<noteq> []"
    and nonneg: "\<And>j. j \<in> fst ` set tasks \<Longrightarrow> 0 \<le> duration j"
  shows "\<exists>e. longestOf (mvalues best) = Some e \<and> chain tasks (snd e) \<and> snd e \<noteq> [] \<and> fst e = pathDuration duration (snd e) \<and>
    (\<forall>p. chain tasks p \<longrightarrow> pathDuration duration p \<le> fst e)"
proof -
  have k: "map fst best = order" "jsmap_ok best" and b: "\<And>i e. mget best i = Some e \<Longrightarrow> bestEntry tasks duration i e"
    using inv by (auto simp: bestInv_def)
  have "mvalues best \<noteq> []" using k(1) all t by (auto simp: mvalues_def)
  then have "longestOf (mvalues best) \<noteq> None" by simp
  then obtain e where e: "longestOf (mvalues best) = Some e" by blast
  obtain i where i: "mget best i = Some e" using longestOf_Some(1) [OF e] mvalues_iff [OF k(2)] by blast
  have "pathDuration duration p \<le> fst e" if p: "chain tasks p" for p
  proof (cases "p = []")
    case True
    have "i \<in> fst ` set tasks" using i k(1) all by (metis domI dom_map_of_conv_image_fst list.set_map)
    with True bestEntry_nonneg [OF b [OF i]] nonneg show ?thesis by (simp add: pathDuration_def)
  next
    case False
    with p have "chain tasks (butlast p @ [last p])" by simp
    then have "last p \<in> set order" using all by (simp add: chain_snoc del: append_butlast_last_id)
    then obtain x where x: "mget best (last p) = Some x" using k(1) by (metis domD dom_map_of_conv_image_fst list.set_map)
    then have "fst x \<le> fst e" using longestOf_Some(2) [OF e] mvalues_iff [OF k(2)] by blast
    with bestEntry_le [OF b [OF x] p False] show ?thesis by simp
  qed
  with e b [OF i] show ?thesis by (auto simp: bestEntry_def)
qed

end
