(* ===== verification/Ai_Coo.thy ===== *)
theory Ai_Coo
  imports Runtime_Broker Agent_Factory Coo_Graph
begin

text \<open>
  \<open>packages/agent-control-plane/src/ai-coo.ts\<close>: the planner.  A plan (an objective, its projects and its tasks)
  is validated and stored; tasks become ready as their dependencies complete; a ready task is assigned by
  asking the runtime broker for a connection and the agent factory for an agent under exactly the policy of
  the task; usage, evidence and failures move the task on.  The broker and the factory are the models of
  \<open>Runtime_Broker\<close> and \<open>Agent_Factory\<close>, held in the state of the planner.  Checks on the dynamic shape of
  typed arguments hold for the records used here; \<open>equalData\<close> on typed data is equality of the fields.
\<close>

section \<open>Data\<close>

datatype CooTaskStatus = C_BLOCKED | C_READY | C_ASSIGNED | C_AWAITING_APPROVAL | C_COMPLETED | C_FAILED | C_STOPPED

record CooObjective =
  co_id :: EntityId
  co_workspaceId :: EntityId
  co_title :: string
  co_desiredOutcome :: string
  co_maximumAuthority :: AuthorityLevel
  co_costLimit :: CostLimit
  co_acceptanceCriteria :: "string list"
  co_verificationCriteria :: "string list"
  co_stopConditions :: "string list"

record CooProject =
  cp_id :: EntityId
  cp_workspaceId :: EntityId
  cp_objectiveId :: EntityId
  cp_title :: string

record CooRetryPolicy =
  rt_maximumAttempts :: int
  rt_retryableFailureCodes :: "string list"
  rt_stopAfterFailureCodes :: "string list"

record CooAgentPolicy =
  ap_templateId :: EntityId
  ap_templateVersion :: int
  ap_parentAgentId :: "EntityId option"
  ap_repositoryScopes :: "string list"
  ap_environmentScopes :: "string list"
  ap_dataScopes :: "string list"
  ap_capabilityIds :: "EntityId list"
  ap_toolGrants :: "FactoryToolGrant list"
  ap_maxRuntimeMs :: int
  ap_childLimit :: int
  ap_retention :: AgentRetention

record CooRoutingPolicy =
  rp_requiredCapabilityIds :: "EntityId list"
  rp_requiredTools :: "RequiredTool list"
  rp_dataSensitivity :: DataSensitivity
  rp_minimumSecurityTier :: int
  rp_minimumReliabilityScoreBps :: int
  rp_maximumLatencyMs :: int
  rp_heartbeatFreshnessMs :: int
  rp_weights :: "RuntimeRoutingWeights option"

record CooTask =
  ct_id :: EntityId
  ct_workspaceId :: EntityId
  ct_objectiveId :: EntityId
  ct_projectId :: EntityId
  ct_title :: string
  ct_kind :: TaskKind
  ct_dependencyIds :: "EntityId list"
  ct_requiredAuthority :: AuthorityLevel
  ct_costLimit :: CostLimit
  ct_estimatedDurationMs :: int
  ct_acceptanceCriteria :: "string list"
  ct_verificationCriteria :: "string list"
  ct_stopConditions :: "string list"
  ct_retryPolicy :: CooRetryPolicy
  ct_agentPolicy :: CooAgentPolicy
  ct_routingPolicy :: CooRoutingPolicy
  ct_exactTarget :: "string option"

record CooTaskState = CooTask +
  ts_status :: CooTaskStatus
  ts_attempts :: int
  ts_costUsedMinorUnits :: int
  ts_computeUsed :: int
  ts_assignedAgentId :: "EntityId option"
  ts_selectedRuntimeId :: "EntityId option"
  ts_selectedConnectionId :: "EntityId option"
  ts_runId :: "EntityId option"

record ObjectivePlan =
  op_objective :: CooObjective
  op_projects :: "CooProject list"
  op_tasks :: "CooTask list"

record VerificationEvidence =
  ve_criterion :: string
  ve_runId :: EntityId
  ve_artifactId :: EntityId
  ve_contentHash :: string

text \<open>The card has the single status \<open>PENDING\<close>; its fixed texts are those of \<open>#createLevelFourCard\<close>.\<close>

record FounderDecisionCard =
  fc_id :: EntityId
  fc_workspaceId :: EntityId
  fc_objectiveId :: EntityId
  fc_taskId :: EntityId
  fc_requestedAction :: string
  fc_requesterId :: EntityId
  fc_exactTarget :: string
  fc_reason :: string
  fc_businessImpact :: string
  fc_securityImpact :: string
  fc_privacyImpact :: string
  fc_financialImpact :: string
  fc_alternatives :: "string list"
  fc_recommendedAction :: string
  fc_rollback :: string
  fc_expiresAt :: string

datatype CooEventType =
    CE_objective_created | CE_project_created | CE_task_created | CE_task_ready | CE_task_blocked | CE_task_assigned
  | CE_task_retry_ready | CE_task_failed | CE_task_stopped | CE_task_completed | CE_approval_requested | CE_usage_recorded

fun operationalType :: "CooEventType \<Rightarrow> OperationalEventType" where
  "operationalType CE_objective_created = ObjectiveCreated"
| "operationalType CE_project_created = ProjectCreated"
| "operationalType CE_task_created = TaskCreated"
| "operationalType CE_task_ready = TaskReady"
| "operationalType CE_task_blocked = TaskBlocked"
| "operationalType CE_task_assigned = TaskAssigned"
| "operationalType CE_task_retry_ready = TaskRetryReady"
| "operationalType CE_task_failed = TaskFailed"
| "operationalType CE_task_stopped = TaskStopped"
| "operationalType CE_task_completed = TaskCompleted"
| "operationalType CE_approval_requested = ApprovalRequested"
| "operationalType CE_usage_recorded = UsageRecorded"

record CooEvent =
  ev_id :: EntityId
  ev_workspaceId :: EntityId
  ev_objectiveId :: EntityId
  ev_projectId :: "EntityId option"
  ev_taskId :: "EntityId option"
  ev_type :: CooEventType
  ev_occurredAt :: string
  ev_actorId :: EntityId
  ev_facts :: "(string \<times> ObservableFact) list"

record CriticalPathReport =
  cr_objectiveId :: EntityId
  cr_taskIds :: "EntityId list"
  cr_totalDurationMs :: int
  cr_blockedTaskIds :: "EntityId list"

record AssignmentRequest =
  ar_taskId :: EntityId
  ar_factoryRequest :: AgentInstantiationRequest
  ar_routingRequest :: RuntimeRoutingRequest

record AssignmentDecision =
  ad_taskId :: EntityId
  ad_agentId :: EntityId
  ad_runtime :: RuntimeRoutingDecision
  ad_factoryDecision :: AgentFactoryDecision
  ad_runId :: EntityId

record AiCooOptions =
  opt_maximumObjectiveCostMinorUnits :: int
  opt_maximumObjectiveComputeUnits :: int
  opt_maximumTasksPerObjective :: int
  opt_maximumProjectsPerObjective :: int
  opt_maximumTaskDurationMs :: int
  opt_maximumRetriesPerTask :: int

datatype CooError =
    AiCooPolicyError string
  | CooBrokerError BrokerError
  | CooFactoryError FactoryError
  | CooSinkError error
  | CooRangeError string

text \<open>
  What an operation asks of its surroundings: the successive values of the clock and of the id factory, the
  clocks of the broker and the factory, the hash function, the parser of the host for dates that are not
  in the canonical form, and the verifier of artifacts (run, artifact, content hash).
\<close>

record CooEnv =
  env_clock :: "nat \<Rightarrow> int"
  env_ids :: "nat \<Rightarrow> string"
  env_brokerClock :: int
  env_factoryClock :: int
  env_sha256 :: "string \<Rightarrow> string"
  env_dateParse :: "string \<Rightarrow> int option"
  env_verify :: "WorkspaceContext \<Rightarrow> EntityId \<Rightarrow> EntityId \<Rightarrow> string \<Rightarrow> bool"

section \<open>Constants\<close>

definition TERMINAL :: "CooTaskStatus set" where
  "TERMINAL = {C_COMPLETED, C_FAILED, C_STOPPED}"

record KindMinimum =
  km_capabilityId :: string
  km_toolId :: string
  km_scope :: string
  km_authority :: int

fun TASK_KIND_MINIMUMS :: "TaskKind \<Rightarrow> KindMinimum" where
  "TASK_KIND_MINIMUMS BusinessResearch = \<lparr>km_capabilityId = ''business.research'',
     km_toolId = ''research.readonly'', km_scope = ''read'', km_authority = 1\<rparr>"
| "TASK_KIND_MINIMUMS RepositoryReview = \<lparr>km_capabilityId = ''repository.review'',
     km_toolId = ''git.readonly'', km_scope = ''read'', km_authority = 1\<rparr>"
| "TASK_KIND_MINIMUMS QualityVerify = \<lparr>km_capabilityId = ''quality.verify'',
     km_toolId = ''quality.runner'', km_scope = ''verify'', km_authority = 3\<rparr>"
| "TASK_KIND_MINIMUMS DocumentationPrepare = \<lparr>km_capabilityId = ''documentation.prepare'',
     km_toolId = ''documents.workspace'', km_scope = ''write'', km_authority = 2\<rparr>"
| "TASK_KIND_MINIMUMS RuntimeHealthCheck = \<lparr>km_capabilityId = ''runtime.health'',
     km_toolId = ''runtime.health'', km_scope = ''read'', km_authority = 1\<rparr>"

section \<open>Checks\<close>

definition cooText :: "string \<Rightarrow> string \<Rightarrow> CooError + unit" where
  "cooText value fld = ensure (\<not> (trim value = [] \<or> 2048 < length value \<or> (\<exists>c \<in> set value. isControl c)))
     (AiCooPolicyError (fld @ '' must be a bounded printable string''))"

definition boundedDenseStrings :: "string list \<Rightarrow> string \<Rightarrow> CooError + unit" where
  "boundedDenseStrings vals fld = checks
     ([ensure (\<not> (vals = [] \<or> 64 < length vals)) (AiCooPolicyError (fld @ '' must be a non-empty dense bounded array''))] @
      map (\<lambda>value. cooText value fld) vals @
      [ensure (distinct vals) (AiCooPolicyError (fld @ '' must not contain duplicates''))])"

definition cooDenseStrings :: "string list \<Rightarrow> string \<Rightarrow> CooError + unit" where
  "cooDenseStrings vals fld = checks
     ([ensure (\<not> 64 < length vals) (AiCooPolicyError (fld @ '' must be a dense bounded array''))] @
      map (\<lambda>value. cooText value fld) vals @
      [ensure (distinct vals) (AiCooPolicyError (fld @ '' must not contain duplicates''))])"

definition cooInteger :: "int \<Rightarrow> string \<Rightarrow> int \<Rightarrow> CooError + unit" where
  "cooInteger value fld maximum = ensure (\<not> (\<not> isSafeInteger value \<or> value < 0 \<or> maximum < value))
     (AiCooPolicyError (fld @ '' is outside policy bounds''))"

definition validateCost :: "CostLimit \<Rightarrow> string \<Rightarrow> CooError + unit" where
  "validateCost limit fld = checks
     [cooText (cl_currency limit) (fld @ ''.currency''),
      cooInteger (cl_maximumMinorUnits limit) (fld @ ''.maximumMinorUnits'') MAX_SAFE_INTEGER,
      cooInteger (cl_maximumComputeUnits limit) (fld @ ''.maximumComputeUnits'') MAX_SAFE_INTEGER]"

definition cooWorkspace :: "WorkspaceContext \<Rightarrow> string \<Rightarrow> CooError + unit" where
  "cooWorkspace cx workspaceId = ensure (cx_workspaceId cx = workspaceId)
     (AiCooPolicyError ''Cross-workspace graph link denied'')"

definition validateAgentPolicy :: "AiCooOptions \<Rightarrow> CooAgentPolicy \<Rightarrow> CooTask \<Rightarrow> CooError + unit" where
  "validateAgentPolicy options policy task = checks
     ([cooText (ap_templateId policy) ''task.agentPolicy.templateId''] @
      (case ap_parentAgentId policy of None \<Rightarrow> [] | Some p \<Rightarrow> [cooText p ''task.agentPolicy.parentAgentId'']) @
      [cooInteger (ap_templateVersion policy) ''task.agentPolicy.templateVersion'' MAX_SAFE_INTEGER,
       ensure (\<not> ap_templateVersion policy < 1) (AiCooPolicyError ''Agent template version must be positive''),
       boundedDenseStrings (ap_repositoryScopes policy) ''task.agentPolicy.repositoryScopes'',
       boundedDenseStrings (ap_environmentScopes policy) ''task.agentPolicy.environmentScopes'',
       boundedDenseStrings (ap_dataScopes policy) ''task.agentPolicy.dataScopes'',
       cooDenseStrings (ap_capabilityIds policy) ''task.agentPolicy.capabilityIds'',
       ensure (\<not> 64 < length (ap_toolGrants policy))
         (AiCooPolicyError ''task.agentPolicy.toolGrants must be a dense bounded array'')] @
      map (\<lambda>grant. checks
        [cooText (fg_toolId grant) ''task.agentPolicy.toolId'',
         boundedDenseStrings (fg_scopes grant) ''task.agentPolicy.toolScopes'']) (ap_toolGrants policy) @
      [cooInteger (ap_maxRuntimeMs policy) ''task.agentPolicy.maxRuntimeMs'' (opt_maximumTaskDurationMs options),
       ensure (\<not> (ap_maxRuntimeMs policy = 0 \<or> ct_estimatedDurationMs task < ap_maxRuntimeMs policy))
         (AiCooPolicyError ''Agent runtime exceeds task duration policy''),
       cooInteger (ap_childLimit policy) ''task.agentPolicy.childLimit'' 100])"

definition validateRoutingPolicy :: "CooRoutingPolicy \<Rightarrow> CooError + unit" where
  "validateRoutingPolicy policy = checks
     ([cooInteger (rp_minimumSecurityTier policy) ''task.routingPolicy.minimumSecurityTier'' 3,
       cooInteger (rp_minimumReliabilityScoreBps policy) ''task.routingPolicy.minimumReliabilityScoreBps'' 10000,
       cooInteger (rp_maximumLatencyMs policy) ''task.routingPolicy.maximumLatencyMs'' (24 * 60 * 60 * 1000),
       ensure (rp_maximumLatencyMs policy \<noteq> 0) (AiCooPolicyError ''Routing latency must be positive''),
       cooInteger (rp_heartbeatFreshnessMs policy) ''task.routingPolicy.heartbeatFreshnessMs'' (60 * 60 * 1000),
       ensure (rp_heartbeatFreshnessMs policy \<noteq> 0) (AiCooPolicyError ''Heartbeat freshness must be positive''),
       cooDenseStrings (rp_requiredCapabilityIds policy) ''task.routingPolicy.requiredCapabilityIds'',
       ensure (\<not> 64 < length (rp_requiredTools policy))
         (AiCooPolicyError ''task.routingPolicy.requiredTools must be a dense bounded array'')] @
      map (\<lambda>tool. checks
        [cooText (rqt_toolId tool) ''task.routingPolicy.toolId'',
         cooText (rqt_scope tool) ''task.routingPolicy.toolScope'']) (rp_requiredTools policy) @
      (case rp_weights policy of None \<Rightarrow> [] | Some weights \<Rightarrow>
        [ensure (sortWith compareText (map fst weights) = WEIGHT_KEYS)
           (AiCooPolicyError ''task.routingPolicy.weights contains unsupported fields'')] @
        map (\<lambda>value. cooInteger value ''task.routingPolicy.weight'' 10000) (map snd weights) @
        [ensure (sum_list (map snd weights) = 10000)
           (AiCooPolicyError ''Routing weights must total 10,000 basis points'')]))"

text \<open>The capability, tool and scope that the kind of a task asks for.\<close>

definition meetsKindMinimum :: "CooTask \<Rightarrow> bool" where
  "meetsKindMinimum task = (let minimum = TASK_KIND_MINIMUMS (ct_kind task) in
     km_capabilityId minimum \<in> set (ap_capabilityIds (ct_agentPolicy task)) \<and>
     km_capabilityId minimum \<in> set (rp_requiredCapabilityIds (ct_routingPolicy task)) \<and>
     (case find (\<lambda>g. fg_toolId g = km_toolId minimum) (ap_toolGrants (ct_agentPolicy task)) of
        None \<Rightarrow> False | Some agentTool \<Rightarrow> km_scope minimum \<in> set (fg_scopes agentTool)) \<and>
     find (\<lambda>t. rqt_toolId t = km_toolId minimum \<and> rqt_scope t = km_scope minimum)
       (rp_requiredTools (ct_routingPolicy task)) \<noteq> None)"

definition retryChecks :: "AiCooOptions \<Rightarrow> CooRetryPolicy \<Rightarrow> CooError + unit" where
  "retryChecks options policy = checks
     [cooInteger (rt_maximumAttempts policy) ''task.retryPolicy.maximumAttempts'' (opt_maximumRetriesPerTask options + 1),
      ensure (\<not> (rt_maximumAttempts policy < 1 \<or> opt_maximumRetriesPerTask options < rt_maximumAttempts policy - 1))
        (AiCooPolicyError ''Retry policy exceeds company ceiling''),
      boundedDenseStrings (rt_retryableFailureCodes policy) ''task.retryPolicy.retryableFailureCodes'',
      boundedDenseStrings (rt_stopAfterFailureCodes policy) ''task.retryPolicy.stopAfterFailureCodes'',
      ensure (\<not> (\<exists>code \<in> set (rt_retryableFailureCodes policy). code \<in> set (rt_stopAfterFailureCodes policy)))
        (AiCooPolicyError ''Failure code cannot be both retryable and terminal'')]"

definition cooObjectiveChecks :: "AiCooOptions \<Rightarrow> WorkspaceContext \<Rightarrow> CooObjective \<Rightarrow> CooError + unit" where
  "cooObjectiveChecks options cx objective = checks
     [cooWorkspace cx (co_workspaceId objective), cooText (co_id objective) ''objective.id'',
      cooText (co_title objective) ''objective.title'', cooText (co_desiredOutcome objective) ''objective.desiredOutcome'',
      cooInteger (co_maximumAuthority objective) ''objective.maximumAuthority'' 4,
      validateCost (co_costLimit objective) ''objective.costLimit'',
      ensure (\<not> (opt_maximumObjectiveCostMinorUnits options < cl_maximumMinorUnits (co_costLimit objective) \<or>
          opt_maximumObjectiveComputeUnits options < cl_maximumComputeUnits (co_costLimit objective)))
        (AiCooPolicyError ''Objective exceeds company cost ceilings''),
      boundedDenseStrings (co_acceptanceCriteria objective) ''objective.acceptanceCriteria'',
      boundedDenseStrings (co_verificationCriteria objective) ''objective.verificationCriteria'',
      boundedDenseStrings (co_stopConditions objective) ''objective.stopConditions'']"

fun projectChecks :: "WorkspaceContext \<Rightarrow> CooObjective \<Rightarrow> string set \<Rightarrow> CooProject list \<Rightarrow> CooError + string set" where
  "projectChecks cx objective projectIds [] = Inr projectIds"
| "projectChecks cx objective projectIds (project # rest) =
     ebind (checks
       [cooWorkspace cx (cp_workspaceId project), cooText (cp_id project) ''project.id'',
        cooText (cp_title project) ''project.title'',
        ensure (cp_objectiveId project = co_id objective) (AiCooPolicyError ''Project objective linkage is invalid''),
        ensure (cp_id project \<notin> projectIds) (AiCooPolicyError ''Duplicate project ID'')]) (\<lambda>_.
     projectChecks cx objective (insert (cp_id project) projectIds) rest)"

definition cooTaskChecks :: "AiCooOptions \<Rightarrow> WorkspaceContext \<Rightarrow> CooObjective \<Rightarrow> string set \<Rightarrow> string set \<Rightarrow> CooTask \<Rightarrow>
    CooError + unit" where
  "cooTaskChecks options cx objective projectIds taskIds task = checks
     ([cooWorkspace cx (ct_workspaceId task), cooText (ct_id task) ''task.id'', cooText (ct_title task) ''task.title'',
       cooText (ct_projectId task) ''task.projectId'',
       ensure (\<not> (ct_objectiveId task \<noteq> co_id objective \<or> ct_projectId task \<notin> projectIds))
         (AiCooPolicyError ''Task graph linkage is invalid''),
       ensure (ct_id task \<notin> taskIds) (AiCooPolicyError ''Duplicate task ID''),
       ensure (distinct (ct_dependencyIds task)) (AiCooPolicyError ''Task dependencies must be a unique dense array'')] @
      map (\<lambda>dependencyId. cooText dependencyId ''dependencyId'') (ct_dependencyIds task) @
      [cooInteger (ct_requiredAuthority task) ''task.requiredAuthority'' 4,
       ensure (\<not> ct_requiredAuthority task < km_authority (TASK_KIND_MINIMUMS (ct_kind task)))
         (AiCooPolicyError ''Task authority is below its canonical task-kind policy''),
       ensure (\<not> co_maximumAuthority objective < ct_requiredAuthority task)
         (AiCooPolicyError ''Task exceeds objective authority ceiling''),
       ensure (\<not> (ct_requiredAuthority task = 4 \<and> \<not> truthy (ct_exactTarget task)))
         (AiCooPolicyError ''Level-4 task requires an exact approval target''),
       validateCost (ct_costLimit task) ''task.costLimit'',
       ensure (cl_currency (ct_costLimit task) = cl_currency (co_costLimit objective))
         (AiCooPolicyError ''Task currency must match objective currency''),
       cooInteger (ct_estimatedDurationMs task) ''task.estimatedDurationMs'' (opt_maximumTaskDurationMs options),
       ensure (ct_estimatedDurationMs task \<noteq> 0) (AiCooPolicyError ''Task duration must be positive''),
       boundedDenseStrings (ct_acceptanceCriteria task) ''task.acceptanceCriteria'',
       boundedDenseStrings (ct_verificationCriteria task) ''task.verificationCriteria'',
       boundedDenseStrings (ct_stopConditions task) ''task.stopConditions'',
       validateAgentPolicy options (ct_agentPolicy task) task, validateRoutingPolicy (ct_routingPolicy task),
       ensure (meetsKindMinimum task)
         (AiCooPolicyError ''Task does not satisfy canonical task-kind capabilities and tools''),
       retryChecks options (ct_retryPolicy task)])"

fun cooTaskLoop :: "AiCooOptions \<Rightarrow> WorkspaceContext \<Rightarrow> CooObjective \<Rightarrow> string set \<Rightarrow> string set \<Rightarrow> CooTask list \<Rightarrow>
    CooError + string set" where
  "cooTaskLoop options cx objective projectIds taskIds [] = Inr taskIds"
| "cooTaskLoop options cx objective projectIds taskIds (task # rest) =
     ebind (cooTaskChecks options cx objective projectIds taskIds task) (\<lambda>_.
     cooTaskLoop options cx objective projectIds (insert (ct_id task) taskIds) rest)"

definition taskLinksOf :: "'a CooTask_scheme list \<Rightarrow> links" where
  "taskLinksOf tasks = map (\<lambda>t. (ct_id t, ct_dependencyIds t)) tasks"

definition cooAssertAcyclic :: "CooTask list \<Rightarrow> CooError + unit" where
  "cooAssertAcyclic tasks = ensure (\<not> containsCycle (taskLinksOf tasks))
     (AiCooPolicyError ''Task dependency graph contains a cycle'')"

definition validatePlan :: "AiCooOptions \<Rightarrow> WorkspaceContext \<Rightarrow> ObjectivePlan \<Rightarrow> CooError + unit" where
  "validatePlan options cx plan = (let objective = op_objective plan in
     ebind (checks
       [cooObjectiveChecks options cx objective,
        ensure (\<not> (op_projects plan = [] \<or> opt_maximumProjectsPerObjective options < int (length (op_projects plan))))
          (AiCooPolicyError ''Project count exceeds policy''),
        ensure (\<not> (op_tasks plan = [] \<or> opt_maximumTasksPerObjective options < int (length (op_tasks plan))))
          (AiCooPolicyError ''Task count exceeds policy'')]) (\<lambda>_.
     ebind (projectChecks cx objective {} (op_projects plan)) (\<lambda>projectIds.
     ebind (cooTaskLoop options cx objective projectIds {} (op_tasks plan)) (\<lambda>taskIds.
     checks
       ([ensure (\<not> (cl_maximumMinorUnits (co_costLimit objective) <
              sum_list (map (\<lambda>t. cl_maximumMinorUnits (ct_costLimit t)) (op_tasks plan)) \<or>
            cl_maximumComputeUnits (co_costLimit objective) <
              sum_list (map (\<lambda>t. cl_maximumComputeUnits (ct_costLimit t)) (op_tasks plan))))
          (AiCooPolicyError ''Task reservations exceed objective budget'')] @
        map (\<lambda>task. checks (map (\<lambda>dependencyId. checks
          [ensure (dependencyId \<in> taskIds) (AiCooPolicyError ''Dependency is outside the objective''),
           ensure (dependencyId \<noteq> ct_id task) (AiCooPolicyError ''Task cannot depend on itself'')])
          (ct_dependencyIds task))) (op_tasks plan) @
        [cooAssertAcyclic (op_tasks plan)])))))"

section \<open>State\<close>

text \<open>
  The maps of \<open>GovernedAiCoo\<close>, the broker and the factory it calls, and how often the clock and the id
  factory have been asked.
\<close>

record AiCoo =
  ac_planners :: "EntityId set"
  ac_options :: AiCooOptions
  ac_sink :: "(EventLog \<times> EventCapability) option"
  ac_broker :: RuntimeBroker
  ac_factory :: AgentFactory
  ac_objectives :: "CooObjective jsmap"
  ac_projects :: "CooProject jsmap"
  ac_tasks :: "CooTaskState jsmap"
  ac_events :: "CooEvent list"
  ac_eventIds :: "EntityId set"
  ac_approvals :: "FounderDecisionCard jsmap"
  ac_consumedAssignmentRequests :: "string set"
  ac_entityIds :: "string set"
  ac_clockCalls :: nat
  ac_idCalls :: nat

definition newAiCoo :: "EntityId list \<Rightarrow> AiCooOptions \<Rightarrow> RuntimeBroker \<Rightarrow> AgentFactory \<Rightarrow> EventLog option \<Rightarrow>
    EventCapability option \<Rightarrow> CooError + AiCoo" where
  "newAiCoo plannerPrincipals options broker factory eventSink eventCapability =
     ebind (checks
       [ensure ((eventSink \<noteq> None) = (eventCapability \<noteq> None))
          (AiCooPolicyError ''Event sink and trusted capability must be configured together''),
        cooInteger (opt_maximumObjectiveCostMinorUnits options) ''maximumObjectiveCostMinorUnits'' MAX_SAFE_INTEGER,
        cooInteger (opt_maximumObjectiveComputeUnits options) ''maximumObjectiveComputeUnits'' MAX_SAFE_INTEGER,
        cooInteger (opt_maximumTasksPerObjective options) ''maximumTasksPerObjective'' 1000,
        cooInteger (opt_maximumProjectsPerObjective options) ''maximumProjectsPerObjective'' 100,
        cooInteger (opt_maximumTaskDurationMs options) ''maximumTaskDurationMs'' (365 * 24 * 60 * 60 * 1000),
        cooInteger (opt_maximumRetriesPerTask options) ''maximumRetriesPerTask'' 100]) (\<lambda>_.
     Inr \<lparr>ac_planners = set plannerPrincipals, ac_options = options,
       ac_sink = (case (eventSink, eventCapability) of
           (Some sink, Some capability) \<Rightarrow> Some (sink, capability) | _ \<Rightarrow> None),
       ac_broker = broker, ac_factory = factory, ac_objectives = [], ac_projects = [], ac_tasks = [], ac_events = [],
       ac_eventIds = {}, ac_approvals = [], ac_consumedAssignmentRequests = {}, ac_entityIds = {},
       ac_clockCalls = 0, ac_idCalls = 0\<rparr>)"

definition assertPlanner :: "AiCoo \<Rightarrow> WorkspaceContext \<Rightarrow> CooError + unit" where
  "assertPlanner s cx = checks
     [ensure (cx_principalId cx \<in> ac_planners s) (AiCooPolicyError ''AI COO planner authority required''),
      cooText (cx_workspaceId cx) ''context.workspaceId'']"

definition requireObjective :: "AiCoo \<Rightarrow> WorkspaceContext \<Rightarrow> EntityId \<Rightarrow> CooError + CooObjective" where
  "requireObjective s cx i = (case mget (ac_objectives s) (key (cx_workspaceId cx) i) of
     None \<Rightarrow> Inl (AiCooPolicyError ''Objective not found in authenticated workspace'') | Some objective \<Rightarrow> Inr objective)"

definition requireTask :: "AiCoo \<Rightarrow> WorkspaceContext \<Rightarrow> EntityId \<Rightarrow> CooError + CooTaskState" where
  "requireTask s cx i = (case mget (ac_tasks s) (key (cx_workspaceId cx) i) of
     None \<Rightarrow> Inl (AiCooPolicyError ''Task not found in authenticated workspace'') | Some task \<Rightarrow> Inr task)"

definition objectiveTasks :: "AiCoo \<Rightarrow> EntityId \<Rightarrow> EntityId \<Rightarrow> CooTaskState list" where
  "objectiveTasks s workspaceId objectiveId =
     filter (\<lambda>t. ct_workspaceId t = workspaceId \<and> ct_objectiveId t = objectiveId) (mvalues (ac_tasks s))"

section \<open>Events\<close>

definition cooNow :: "int \<Rightarrow> CooError + string" where
  "cooNow clock = (case toISOString clock of None \<Rightarrow> Inl (CooRangeError ''Invalid time value'') | Some t \<Rightarrow> Inr t)"

definition appendToCooSink :: "AiCoo \<Rightarrow> WorkspaceContext \<Rightarrow> OperationalEvent \<Rightarrow> CooError + AiCoo" where
  "appendToCooSink s cx event = (case ac_sink s of
     None \<Rightarrow> Inr s
   | Some (sink, capability) \<Rightarrow> (case appendEvents capability cx event sink of
       Inl e \<Rightarrow> Inl (CooSinkError e)
     | Inr sink' \<Rightarrow> Inr (s\<lparr>ac_sink := Some (sink', capability)\<rparr>)))"

definition cooOperationalEvent :: "WorkspaceContext \<Rightarrow> CooEvent \<Rightarrow> OperationalEvent" where
  "cooOperationalEvent cx event =
     \<lparr>oe_id = ev_id event, oe_workspaceId = ev_workspaceId event, oe_type = operationalType (ev_type event),
      oe_source = AI_COO, oe_actorKind = AGENT, oe_actorId = ev_actorId event,
      oe_subjectType = (if truthy (ev_taskId event) then ''Task'' else if truthy (ev_projectId event) then ''Project'' else ''Objective''),
      oe_subjectId = (case ev_taskId event of Some t \<Rightarrow> t | None \<Rightarrow>
        (case ev_projectId event of Some p \<Rightarrow> p | None \<Rightarrow> ev_objectiveId event)),
      oe_occurredAt = ev_occurredAt event, oe_idempotencyKey = ev_id event,
      oe_correlationId = Some (ev_objectiveId event), oe_facts = ev_facts event\<rparr>"

text \<open>The id is drawn first, then the clock is read; a refused event is not recorded.\<close>

definition emit :: "CooEnv \<Rightarrow> WorkspaceContext \<Rightarrow> EntityId \<Rightarrow> CooEventType \<Rightarrow> (string \<times> ObservableFact) list \<Rightarrow>
    EntityId option \<Rightarrow> EntityId option \<Rightarrow> (AiCoo, CooError, unit) method" where
  "emit env cx objectiveId type facts projectId taskId =
     andThen (reads (\<lambda>s. Inr (env_ids env (ac_idCalls s)))) (\<lambda>i.
     andThen (modify (\<lambda>s. s\<lparr>ac_idCalls := Suc (ac_idCalls s)\<rparr>)) (\<lambda>_.
     andThen (reads (\<lambda>s. checks
       [cooText i ''event.id'', ensure (i \<notin> ac_eventIds s) (AiCooPolicyError ''Duplicate event ID'')])) (\<lambda>_.
     andThen (reads (\<lambda>s. Inr (env_clock env (ac_clockCalls s)))) (\<lambda>clock.
     andThen (modify (\<lambda>s. s\<lparr>ac_clockCalls := Suc (ac_clockCalls s)\<rparr>)) (\<lambda>_.
     andThen (reads (\<lambda>s. cooNow clock)) (\<lambda>occurredAt.
     let event = \<lparr>ev_id = i, ev_workspaceId = cx_workspaceId cx, ev_objectiveId = objectiveId, ev_projectId = projectId,
           ev_taskId = taskId, ev_type = type, ev_occurredAt = occurredAt, ev_actorId = cx_principalId cx, ev_facts = facts\<rparr> in
     andThen (updates (\<lambda>s. appendToCooSink s cx (cooOperationalEvent cx event))) (\<lambda>_.
     modify (\<lambda>s. s\<lparr>ac_eventIds := insert i (ac_eventIds s), ac_events := ac_events s @ [event]\<rparr>))))))))"

text \<open>\<open>for (const x of xs) { m(x) }\<close>: the first error ends the loop.\<close>

fun each :: "('a \<Rightarrow> ('s, 'e, unit) method) \<Rightarrow> 'a list \<Rightarrow> ('s, 'e, unit) method" where
  "each m [] = ret ()"
| "each m (x # xs) = andThen (m x) (\<lambda>_. each m xs)"

definition levelFourCard :: "WorkspaceContext \<Rightarrow> CooTask \<Rightarrow> string \<Rightarrow> FounderDecisionCard" where
  "levelFourCard cx task expiresAt =
     \<lparr>fc_id = ''approval:'' @ ct_id task, fc_workspaceId = ct_workspaceId task, fc_objectiveId = ct_objectiveId task,
      fc_taskId = ct_id task, fc_requestedAction = ct_title task, fc_requesterId = cx_principalId cx,
      fc_exactTarget = (case ct_exactTarget task of Some t \<Rightarrow> t | None \<Rightarrow> []),
      fc_reason = ''Task requires Level-4 Founder authority'',
      fc_businessImpact = ''Execution is blocked until an authorized human decision'',
      fc_securityImpact = ''No execution permit or runtime assignment has been issued'',
      fc_privacyImpact = ''No additional data access has been granted'',
      fc_financialImpact = int_text (cl_maximumMinorUnits (ct_costLimit task)) @ '' '' @ cl_currency (ct_costLimit task) @ '' minor units maximum'',
      fc_alternatives = [''Reject the action'', ''Reduce the task to Level 3 or below'', ''Hold for more evidence''],
      fc_recommendedAction = ''Review evidence and decide through the protected Founder interface'',
      fc_rollback = ''No action has executed; rejection leaves the task blocked'', fc_expiresAt = expiresAt\<rparr>"

definition createLevelFourCard :: "CooEnv \<Rightarrow> WorkspaceContext \<Rightarrow> CooTask \<Rightarrow> (AiCoo, CooError, unit) method" where
  "createLevelFourCard env cx task =
     andThen (reads (\<lambda>s. Inr (env_clock env (ac_clockCalls s)))) (\<lambda>clock.
     andThen (modify (\<lambda>s. s\<lparr>ac_clockCalls := Suc (ac_clockCalls s)\<rparr>)) (\<lambda>_.
     andThen (reads (\<lambda>s. cooNow (clock + 24 * 60 * 60 * 1000))) (\<lambda>expiresAt.
     let card = levelFourCard cx task expiresAt in
     modify (\<lambda>s. s\<lparr>ac_approvals := mset_at (ac_approvals s) (key (fc_workspaceId card) (fc_id card)) card\<rparr>))))"

section \<open>Critical path\<close>

definition newMap :: "(string \<times> 'v) list \<Rightarrow> 'v jsmap" where
  "newMap entries = foldl (\<lambda>m (k, v). mset_at m k v) [] entries"

definition criticalPath :: "AiCoo \<Rightarrow> WorkspaceContext \<Rightarrow> EntityId \<Rightarrow> CooError + CriticalPathReport" where
  "criticalPath s cx objectiveId =
     ebind (assertPlanner s cx) (\<lambda>_.
     ebind (requireObjective s cx objectiveId) (\<lambda>_.
     let tasks = objectiveTasks s (cx_workspaceId cx) objectiveId;
         byId = newMap (map (\<lambda>t. (ct_id t, ct_dependencyIds t, ct_estimatedDurationMs t)) tasks) in
     ebind (ensure (\<not> containsCycle (taskLinksOf tasks)) (AiCooPolicyError ''Task dependency graph contains a cycle'')) (\<lambda>_.
     case bestLoop byId [] (kahnOrder (taskLinksOf tasks)) of
       None \<Rightarrow> Inl (AiCooPolicyError ''Critical path exceeds numeric bounds'')
     | Some best \<Rightarrow> let longest = longestOf (mvalues best) in
         Inr \<lparr>cr_objectiveId = objectiveId, cr_taskIds = pathOf longest, cr_totalDurationMs = durationOf longest,
              cr_blockedTaskIds = sortWith compareText (map ct_id
                (filter (\<lambda>t. ts_status t = C_BLOCKED \<or> ts_status t = C_AWAITING_APPROVAL) tasks))\<rparr>)))"

section \<open>Plans\<close>

definition startingStatus :: "CooTask \<Rightarrow> CooTaskStatus" where
  "startingStatus task = (if ct_requiredAuthority task = 4 then C_AWAITING_APPROVAL
     else if ct_dependencyIds task \<noteq> [] then C_BLOCKED else C_READY)"

definition newTaskState :: "CooTask \<Rightarrow> CooTaskState" where
  "newTaskState task = CooTask.extend task
     \<lparr>ts_status = startingStatus task, ts_attempts = 0, ts_costUsedMinorUnits = 0, ts_computeUsed = 0,
      ts_assignedAgentId = None, ts_selectedRuntimeId = None, ts_selectedConnectionId = None, ts_runId = None\<rparr>"

definition storeProject :: "AiCoo \<Rightarrow> CooProject \<Rightarrow> AiCoo" where
  "storeProject s project = (let k = key (cp_workspaceId project) (cp_id project) in
     s\<lparr>ac_projects := mset_at (ac_projects s) k project, ac_entityIds := insert k (ac_entityIds s)\<rparr>)"

definition storeTask :: "AiCoo \<Rightarrow> CooTask \<Rightarrow> AiCoo" where
  "storeTask s task = (let k = key (ct_workspaceId task) (ct_id task) in
     s\<lparr>ac_tasks := mset_at (ac_tasks s) k (newTaskState task), ac_entityIds := insert k (ac_entityIds s)\<rparr>)"

definition storeObjective :: "WorkspaceContext \<Rightarrow> CooObjective \<Rightarrow> AiCoo \<Rightarrow> AiCoo" where
  "storeObjective cx objective s = (let k = key (cx_workspaceId cx) (co_id objective) in
     s\<lparr>ac_objectives := mset_at (ac_objectives s) k objective, ac_entityIds := insert k (ac_entityIds s)\<rparr>)"

definition storePlan :: "WorkspaceContext \<Rightarrow> ObjectivePlan \<Rightarrow> AiCoo \<Rightarrow> AiCoo" where
  "storePlan cx plan s =
     foldl storeTask (foldl storeProject (storeObjective cx (op_objective plan) s) (op_projects plan)) (op_tasks plan)"

definition withFactory :: "(AgentFactory, FactoryError, 'a) method \<Rightarrow> (AiCoo, CooError, 'a) method" where
  "withFactory m s = (case m (ac_factory s) of
     (Inl e, f) \<Rightarrow> (Inl (CooFactoryError e), s\<lparr>ac_factory := f\<rparr>) | (Inr x, f) \<Rightarrow> (Inr x, s\<lparr>ac_factory := f\<rparr>))"

definition planEntityIds :: "ObjectivePlan \<Rightarrow> EntityId list" where
  "planEntityIds plan = co_id (op_objective plan) # map cp_id (op_projects plan) @ map ct_id (op_tasks plan)"

definition planChecksOf :: "AiCoo \<Rightarrow> WorkspaceContext \<Rightarrow> ObjectivePlan \<Rightarrow> CooError + unit" where
  "planChecksOf s cx plan = checks
     ([assertPlanner s cx, validatePlan (ac_options s) cx plan,
       ensure (\<not> mhas (ac_objectives s) (key (cx_workspaceId cx) (co_id (op_objective plan))))
         (AiCooPolicyError ''Objective already exists''),
       ensure (distinct (planEntityIds plan)) (AiCooPolicyError ''Entity IDs must be unique across the plan'')] @
      map (\<lambda>i. ensure (key (cx_workspaceId cx) i \<notin> ac_entityIds s)
        (AiCooPolicyError ''Entity ID already exists in workspace'')) (planEntityIds plan))"

text \<open>\<open>[...title].length\<close> counts code points; the strings of the model have one code unit for each.\<close>

definition titleLength :: "string \<Rightarrow> (string \<times> ObservableFact) list" where
  "titleLength title = [(''titleLength'', FNum (int (length title)))]"

definition publishTask :: "CooEnv \<Rightarrow> WorkspaceContext \<Rightarrow> CooTask \<Rightarrow> (AiCoo, CooError, unit) method" where
  "publishTask env cx task =
     andThen (emit env cx (ct_objectiveId task) CE_task_created (titleLength (ct_title task))
       (Some (ct_projectId task)) (Some (ct_id task))) (\<lambda>_.
     andThen (emit env cx (ct_objectiveId task)
       (if startingStatus task = C_AWAITING_APPROVAL then CE_approval_requested
        else if startingStatus task = C_READY then CE_task_ready else CE_task_blocked)
       [(''dependencyIds'', FList (ct_dependencyIds task))] (Some (ct_projectId task)) (Some (ct_id task))) (\<lambda>_.
     if ct_requiredAuthority task = 4 then createLevelFourCard env cx task else ret ()))"

definition publishPlan :: "CooEnv \<Rightarrow> WorkspaceContext \<Rightarrow> ObjectivePlan \<Rightarrow> (AiCoo, CooError, unit) method" where
  "publishPlan env cx plan = (let objectiveId = co_id (op_objective plan) in
     andThen (emit env cx objectiveId CE_objective_created (titleLength (co_title (op_objective plan))) None None) (\<lambda>_.
     andThen (each (\<lambda>project. emit env cx objectiveId CE_project_created (titleLength (cp_title project))
       (Some (cp_id project)) None) (op_projects plan)) (\<lambda>_.
     each (publishTask env cx) (op_tasks plan))))"

definition createPlan :: "CooEnv \<Rightarrow> WorkspaceContext \<Rightarrow> ObjectivePlan \<Rightarrow> (AiCoo, CooError, CriticalPathReport) method" where
  "createPlan env cx plan = (let objectiveId = co_id (op_objective plan) in
     andThen (reads (\<lambda>s. planChecksOf s cx plan)) (\<lambda>_.
     andThen (withFactory (registerPlan cx objectiveId (map (\<lambda>t. (ct_id t, ct_objectiveId t)) (op_tasks plan)))) (\<lambda>_.
     andThen (modify (storePlan cx plan)) (\<lambda>_.
     andThen (publishPlan env cx plan) (\<lambda>_.
     reads (\<lambda>s. criticalPath s cx objectiveId))))))"

section \<open>Readiness\<close>

definition putTaskState :: "CooTaskState \<Rightarrow> AiCoo \<Rightarrow> AiCoo" where
  "putTaskState task s = s\<lparr>ac_tasks := mset_at (ac_tasks s) (key (ct_workspaceId task) (ct_id task)) task\<rparr>"

definition emitForTask :: "CooEnv \<Rightarrow> WorkspaceContext \<Rightarrow> CooTaskState \<Rightarrow> CooEventType \<Rightarrow> (string \<times> ObservableFact) list \<Rightarrow>
    (AiCoo, CooError, unit) method" where
  "emitForTask env cx task type facts =
     emit env cx (ct_objectiveId task) type facts (Some (ct_projectId task)) (Some (ct_id task))"

definition readinessOf :: "CooTaskState list \<Rightarrow> CooTaskStatus" where
  "readinessOf dependencies =
     (if \<exists>d \<in> set dependencies. ts_status d = C_FAILED \<or> ts_status d = C_STOPPED then C_BLOCKED
      else if \<forall>d \<in> set dependencies. ts_status d = C_COMPLETED then C_READY else C_BLOCKED)"

text \<open>A task object is shared between the map and the caller: it is looked up by its id here.\<close>

definition refreshTaskReadiness :: "CooEnv \<Rightarrow> WorkspaceContext \<Rightarrow> EntityId \<Rightarrow> (AiCoo, CooError, unit) method" where
  "refreshTaskReadiness env cx taskId =
     andThen (reads (\<lambda>s. requireTask s cx taskId)) (\<lambda>task.
     if ts_status task \<in> TERMINAL \<or> ts_status task = C_ASSIGNED \<or> ts_status task = C_AWAITING_APPROVAL then ret ()
     else
     andThen (reads (\<lambda>s. emap (requireTask s cx) (ct_dependencyIds task))) (\<lambda>dependencies.
     let status = readinessOf dependencies in
     andThen (modify (putTaskState (task\<lparr>ts_status := status\<rparr>))) (\<lambda>_.
     if status \<noteq> ts_status task then
       emitForTask env cx task (if status = C_READY then CE_task_ready else CE_task_blocked)
         [(''dependencyIds'', FList (ct_dependencyIds task))]
     else ret ())))"

section \<open>Assignment\<close>

text \<open>What the factory is asked for, as far as the policy of the task determines it.\<close>

record FactoryPolicy = CooAgentPolicy +
  fp_authorityLevel :: int
  fp_budgetMinorUnits :: int
  fp_computeUnits :: int
  fp_retryLimit :: int
  fp_acceptanceCriteria :: "string list"
  fp_verificationCriteria :: "string list"
  fp_stopCondition :: string

definition expectedFactoryPolicy :: "'a CooTask_scheme \<Rightarrow> FactoryPolicy" where
  "expectedFactoryPolicy task = CooAgentPolicy.extend (ct_agentPolicy task)
     \<lparr>fp_authorityLevel = ct_requiredAuthority task, fp_budgetMinorUnits = cl_maximumMinorUnits (ct_costLimit task),
      fp_computeUnits = cl_maximumComputeUnits (ct_costLimit task),
      fp_retryLimit = rt_maximumAttempts (ct_retryPolicy task) - 1, fp_acceptanceCriteria = ct_acceptanceCriteria task,
      fp_verificationCriteria = ct_verificationCriteria task,
      fp_stopCondition = join_with '' AND '' (ct_stopConditions task)\<rparr>"

definition actualFactoryPolicy :: "AgentInstantiationRequest \<Rightarrow> FactoryPolicy" where
  "actualFactoryPolicy request =
     \<lparr>ap_templateId = fr_templateId request, ap_templateVersion = fr_templateVersion request,
      ap_parentAgentId = fr_parentAgentId request, ap_repositoryScopes = fr_repositoryScopes request,
      ap_environmentScopes = fr_environmentScopes request, ap_dataScopes = fr_dataScopes request,
      ap_capabilityIds = fr_capabilityIds request, ap_toolGrants = fr_toolGrants request,
      ap_maxRuntimeMs = fr_maxRuntimeMs request, ap_childLimit = fr_childLimit request, ap_retention = fr_retention request,
      fp_authorityLevel = fr_authorityLevel request, fp_budgetMinorUnits = fr_budgetMinorUnits request,
      fp_computeUnits = fr_computeUnits request, fp_retryLimit = fr_retryLimit request,
      fp_acceptanceCriteria = fr_acceptanceCriteria request, fp_verificationCriteria = fr_verificationCriteria request,
      fp_stopCondition = fr_stopCondition request\<rparr>"

record RoutingPolicy = CooRoutingPolicy +
  xp_maximumCostMinorUnits :: int
  xp_requiredComputeUnits :: int

text \<open>\<open>equalData\<close> orders the keys of objects: the weights are compared as sorted entries.\<close>

definition sortedWeights :: "RuntimeRoutingWeights option \<Rightarrow> RuntimeRoutingWeights option" where
  "sortedWeights w = map_option (sortWith (\<lambda>a b. compareText (fst a) (fst b))) w"

definition expectedRoutingPolicy :: "'a CooTask_scheme \<Rightarrow> RoutingPolicy" where
  "expectedRoutingPolicy task = CooRoutingPolicy.extend
     ((ct_routingPolicy task)\<lparr>rp_weights := sortedWeights (rp_weights (ct_routingPolicy task))\<rparr>)
     \<lparr>xp_maximumCostMinorUnits = cl_maximumMinorUnits (ct_costLimit task),
      xp_requiredComputeUnits = cl_maximumComputeUnits (ct_costLimit task)\<rparr>"

definition actualRoutingPolicy :: "RuntimeRoutingRequest \<Rightarrow> RoutingPolicy" where
  "actualRoutingPolicy request =
     \<lparr>rp_requiredCapabilityIds = rr_requiredCapabilityIds request, rp_requiredTools = rr_requiredTools request,
      rp_dataSensitivity = rr_dataSensitivity request, rp_minimumSecurityTier = rr_minimumSecurityTier request,
      rp_minimumReliabilityScoreBps = rr_minimumReliabilityScoreBps request,
      rp_maximumLatencyMs = rr_maximumLatencyMs request, rp_heartbeatFreshnessMs = rr_heartbeatFreshnessMs request,
      rp_weights = sortedWeights (rr_weights request), xp_maximumCostMinorUnits = rr_maximumCostMinorUnits request,
      xp_requiredComputeUnits = rr_requiredComputeUnits request\<rparr>"

text \<open>The conditions after readiness has been refreshed, in the order of the code.\<close>

definition assignmentChecks :: "CooTaskState \<Rightarrow> AssignmentRequest \<Rightarrow> CooError + unit" where
  "assignmentChecks task request = (let f = ar_factoryRequest request; r = ar_routingRequest request; limit = ct_costLimit task in
     checks
     [ensure (ct_requiredAuthority task \<noteq> 4)
        (AiCooPolicyError ''Level-4 tasks require a Founder decision and cannot be assigned''),
      ensure (ts_status task = C_READY) (AiCooPolicyError ''Task is not ready for assignment''),
      ensure (\<not> (fr_workspaceId f \<noteq> ct_workspaceId task \<or> fr_objectiveId f \<noteq> ct_objectiveId task \<or>
          fr_taskId f \<noteq> ct_id task \<or> rr_workspaceId r \<noteq> ct_workspaceId task))
        (AiCooPolicyError ''Assignment linkage crosses the governed task graph''),
      ensure (\<not> (ct_requiredAuthority task < fr_authorityLevel f \<or> 3 < fr_authorityLevel f \<or>
          cl_maximumMinorUnits limit < fr_budgetMinorUnits f \<or> cl_maximumComputeUnits limit < fr_computeUnits f \<or>
          cl_maximumMinorUnits limit < rr_maximumCostMinorUnits r \<or> cl_maximumComputeUnits limit < rr_requiredComputeUnits r))
        (AiCooPolicyError ''Assignment exceeds task authority or budget ceilings''),
      ensure (\<not> (actualFactoryPolicy f \<noteq> expectedFactoryPolicy task \<or> actualRoutingPolicy r \<noteq> expectedRoutingPolicy task))
        (AiCooPolicyError ''Assignment policy must exactly match the governed task''),
      ensure (\<not> (fr_acceptanceCriteria f \<noteq> ct_acceptanceCriteria task \<or> fr_verificationCriteria f \<noteq> ct_verificationCriteria task))
        (AiCooPolicyError ''Assignment criteria must exactly match the governed task'')])"

definition askBroker :: "CooEnv \<Rightarrow> AiCoo \<Rightarrow> WorkspaceContext \<Rightarrow> RuntimeRoutingRequest \<Rightarrow> CooError + RuntimeRoutingDecision" where
  "askBroker env s cx request = (case route (env_dateParse env) (env_brokerClock env) (ac_broker s) cx request of
     Inl e \<Rightarrow> Inl (CooBrokerError e) | Inr decision \<Rightarrow> Inr decision)"

definition cooRunId :: "EntityId \<Rightarrow> EntityId" where
  "cooRunId requestId = ''coo-run:'' @ requestId"

definition assignedTask :: "CooTaskState \<Rightarrow> FactoryAgent \<Rightarrow> RuntimeRoutingDecision \<Rightarrow> EntityId \<Rightarrow> CooTaskState" where
  "assignedTask task agent runtime requestId =
     task\<lparr>ts_status := C_ASSIGNED, ts_attempts := ts_attempts task + 1, ts_assignedAgentId := Some (fa_agentId agent),
       ts_selectedRuntimeId := Some (rd_selectedRuntimeId runtime),
       ts_selectedConnectionId := Some (rd_selectedConnectionId runtime), ts_runId := Some (cooRunId requestId)\<rparr>"

text \<open>The tail of \<open>requestAssignment\<close>: runtime, agent, the update of the task, the event.\<close>

definition performAssignment :: "CooEnv \<Rightarrow> WorkspaceContext \<Rightarrow> AssignmentRequest \<Rightarrow> CooTaskState \<Rightarrow>
    (AiCoo, CooError, AssignmentDecision) method" where
  "performAssignment env cx request task = (let factoryRequest = ar_factoryRequest request; requestKey = key (cx_workspaceId cx) (fr_id factoryRequest) in
     andThen (reads (\<lambda>s. askBroker env s cx (ar_routingRequest request))) (\<lambda>runtime.
     andThen (withFactory (instantiate (env_sha256 env) (env_factoryClock env) cx factoryRequest)) (\<lambda>(agent, factoryDecision).
     let assigned = assignedTask task agent runtime (fr_id factoryRequest) in
     andThen (modify (\<lambda>s. putTaskState assigned (s\<lparr>ac_consumedAssignmentRequests :=
       insert requestKey (ac_consumedAssignmentRequests s)\<rparr>))) (\<lambda>_.
     andThen (emitForTask env cx assigned CE_task_assigned
       [(''agentId'', FText (fa_agentId agent)), (''runtimeId'', FText (rd_selectedRuntimeId runtime)),
        (''attempt'', FNum (ts_attempts assigned))]) (\<lambda>_.
     ret \<lparr>ad_taskId = ct_id task, ad_agentId = fa_agentId agent, ad_runtime = runtime, ad_factoryDecision = factoryDecision,
          ad_runId = cooRunId (fr_id factoryRequest)\<rparr>)))))"

definition requestAssignment :: "CooEnv \<Rightarrow> WorkspaceContext \<Rightarrow> AssignmentRequest \<Rightarrow> (AiCoo, CooError, AssignmentDecision) method" where
  "requestAssignment env cx request =
     andThen (reads (\<lambda>s. ebind (checks
       [assertPlanner s cx, cooText (ar_taskId request) ''taskId'',
        ensure (key (cx_workspaceId cx) (fr_id (ar_factoryRequest request)) \<notin> ac_consumedAssignmentRequests s)
          (AiCooPolicyError ''Assignment request already consumed'')]) (\<lambda>_.
       requireTask s cx (ar_taskId request)))) (\<lambda>_.
     andThen (refreshTaskReadiness env cx (ar_taskId request)) (\<lambda>_.
     andThen (reads (\<lambda>s. ebind (requireTask s cx (ar_taskId request)) (\<lambda>task.
       ebind (assignmentChecks task request) (\<lambda>_. Inr task)))) (\<lambda>task.
     performAssignment env cx request task)))"

section \<open>Usage, evidence and failure\<close>

definition usageFits :: "AiCoo \<Rightarrow> CooTaskState \<Rightarrow> CooObjective \<Rightarrow> EntityId \<Rightarrow> int \<Rightarrow> int \<Rightarrow> bool" where
  "usageFits s task objective workspaceId costMinorUnits usedUnits =
     (let tasks = objectiveTasks s workspaceId (co_id objective) in
      \<not> (cl_maximumMinorUnits (ct_costLimit task) < ts_costUsedMinorUnits task + costMinorUnits \<or>
         cl_maximumComputeUnits (ct_costLimit task) < ts_computeUsed task + usedUnits \<or>
         cl_maximumMinorUnits (co_costLimit objective) < sum_list (map ts_costUsedMinorUnits tasks) + costMinorUnits \<or>
         cl_maximumComputeUnits (co_costLimit objective) < sum_list (map ts_computeUsed tasks) + usedUnits))"

definition cooRecordUsage :: "CooEnv \<Rightarrow> WorkspaceContext \<Rightarrow> EntityId \<Rightarrow> int \<Rightarrow> int \<Rightarrow> (AiCoo, CooError, unit) method" where
  "cooRecordUsage env cx taskId costMinorUnits usedUnits =
     andThen (reads (\<lambda>s. ebind (assertPlanner s cx) (\<lambda>_. ebind (requireTask s cx taskId) (\<lambda>task.
       ebind (checks
         [ensure (ts_status task = C_ASSIGNED) (AiCooPolicyError ''Usage requires an assigned task''),
          cooInteger costMinorUnits ''costMinorUnits'' MAX_SAFE_INTEGER,
          cooInteger usedUnits ''computeUnits'' MAX_SAFE_INTEGER]) (\<lambda>_.
       ebind (requireObjective s cx (ct_objectiveId task)) (\<lambda>objective.
       ebind (ensure (usageFits s task objective (cx_workspaceId cx) costMinorUnits usedUnits)
         (AiCooPolicyError ''Usage exceeds task or objective cost ceiling'')) (\<lambda>_. Inr task))))))) (\<lambda>task.
     let used = task\<lparr>ts_costUsedMinorUnits := ts_costUsedMinorUnits task + costMinorUnits,
           ts_computeUsed := ts_computeUsed task + usedUnits\<rparr> in
     andThen (modify (putTaskState used)) (\<lambda>_.
     emitForTask env cx used CE_usage_recorded
       [(''costMinorUnits'', FNum costMinorUnits), (''computeUnits'', FNum usedUnits),
        (''taskCostUsedMinorUnits'', FNum (ts_costUsedMinorUnits used)), (''taskComputeUsed'', FNum (ts_computeUsed used))]))"

fun evidenceLoop :: "CooEnv \<Rightarrow> WorkspaceContext \<Rightarrow> CooTaskState \<Rightarrow> VerificationEvidence jsmap \<Rightarrow> VerificationEvidence list \<Rightarrow>
    CooError + VerificationEvidence jsmap" where
  "evidenceLoop env cx task byCriterion [] = Inr byCriterion"
| "evidenceLoop env cx task byCriterion (item # rest) =
     ebind (checks
       [cooText (ve_criterion item) ''evidence.criterion'', cooText (ve_runId item) ''evidence.runId'',
        cooText (ve_artifactId item) ''evidence.artifactId'',
        ensure (regex_test SHA256 (ve_contentHash item)) (AiCooPolicyError ''Evidence contentHash must be SHA-256''),
        ensure (\<not> mhas byCriterion (ve_criterion item)) (AiCooPolicyError ''Duplicate verification evidence''),
        ensure (\<not> (ts_runId task \<noteq> Some (ve_runId item) \<or>
            \<not> env_verify env cx (ve_runId item) (ve_artifactId item) (ve_contentHash item)))
          (AiCooPolicyError ''Evidence is not bound to the assigned workspace run artifact'')]) (\<lambda>_.
     evidenceLoop env cx task (mset_at byCriterion (ve_criterion item) item) rest)"

definition requiredCriteria :: "'a CooTask_scheme \<Rightarrow> string list" where
  "requiredCriteria task = newSet (ct_acceptanceCriteria task @ ct_verificationCriteria task)"

definition completeTask :: "CooEnv \<Rightarrow> WorkspaceContext \<Rightarrow> EntityId \<Rightarrow> VerificationEvidence list \<Rightarrow> (AiCoo, CooError, unit) method" where
  "completeTask env cx taskId evidence =
     andThen (reads (\<lambda>s. ebind (assertPlanner s cx) (\<lambda>_. ebind (requireTask s cx taskId) (\<lambda>task.
       ebind (ensure (ts_status task = C_ASSIGNED) (AiCooPolicyError ''Only an assigned task can complete'')) (\<lambda>_.
       ebind (evidenceLoop env cx task [] evidence) (\<lambda>byCriterion.
       ebind (ensure (\<not> ((\<exists>criterion \<in> set (requiredCriteria task). \<not> mhas byCriterion criterion) \<or>
           length byCriterion \<noteq> length (requiredCriteria task)))
         (AiCooPolicyError ''Every acceptance and verification criterion requires exact artifact evidence'')) (\<lambda>_.
       Inr (task, byCriterion)))))))) (\<lambda>(task, byCriterion).
     let completed = task\<lparr>ts_status := C_COMPLETED\<rparr> in
     andThen (modify (putTaskState completed)) (\<lambda>_.
     andThen (emitForTask env cx completed CE_task_completed
       [(''artifactIds'', FList (map ve_artifactId (mvalues byCriterion)))]) (\<lambda>_.
     andThen (reads (\<lambda>s. Inr (map ct_id (objectiveTasks s (cx_workspaceId cx) (ct_objectiveId task))))) (\<lambda>candidates.
     each (refreshTaskReadiness env cx) candidates))))"

definition failedStatus :: "CooTaskState \<Rightarrow> string \<Rightarrow> CooTaskStatus" where
  "failedStatus task failureCode =
     (let mustStop = failureCode \<in> set (rt_stopAfterFailureCodes (ct_retryPolicy task));
          canRetry = failureCode \<in> set (rt_retryableFailureCodes (ct_retryPolicy task)) \<and>
            ts_attempts task < rt_maximumAttempts (ct_retryPolicy task) \<and> \<not> mustStop
      in if mustStop then C_STOPPED else if canRetry then C_READY else C_FAILED)"

definition releasedTask :: "CooTaskState \<Rightarrow> CooTaskStatus \<Rightarrow> CooTaskState" where
  "releasedTask task status = task\<lparr>ts_assignedAgentId := None, ts_selectedRuntimeId := None,
     ts_selectedConnectionId := None, ts_runId := None, ts_status := status\<rparr>"

definition recordFailure :: "CooEnv \<Rightarrow> WorkspaceContext \<Rightarrow> EntityId \<Rightarrow> string \<Rightarrow> (AiCoo, CooError, CooTaskStatus) method" where
  "recordFailure env cx taskId failureCode =
     andThen (reads (\<lambda>s. ebind (checks [assertPlanner s cx, cooText failureCode ''failureCode'']) (\<lambda>_.
       ebind (requireTask s cx taskId) (\<lambda>task.
       ebind (ensure (ts_status task = C_ASSIGNED) (AiCooPolicyError ''Only an assigned task can fail'')) (\<lambda>_. Inr task))))) (\<lambda>task.
     let released = releasedTask task (failedStatus task failureCode) in
     andThen (modify (putTaskState released)) (\<lambda>_.
     andThen (emitForTask env cx released
       (if ts_status released = C_READY then CE_task_retry_ready
        else if ts_status released = C_STOPPED then CE_task_stopped else CE_task_failed)
       [(''failureCodeDigest'', FText (env_sha256 env failureCode)), (''attempt'', FNum (ts_attempts released))]) (\<lambda>_.
     ret (ts_status released))))"

section \<open>Reading\<close>

definition listCooTasks :: "AiCoo \<Rightarrow> WorkspaceContext \<Rightarrow> EntityId \<Rightarrow> CooError + CooTaskState list" where
  "listCooTasks s cx objectiveId = ebind (assertPlanner s cx) (\<lambda>_. ebind (requireObjective s cx objectiveId) (\<lambda>_.
     Inr (objectiveTasks s (cx_workspaceId cx) objectiveId)))"

definition listCooEvents :: "AiCoo \<Rightarrow> WorkspaceContext \<Rightarrow> CooError + CooEvent list" where
  "listCooEvents s cx = ebind (assertPlanner s cx) (\<lambda>_.
     Inr (filter (\<lambda>e. ev_workspaceId e = cx_workspaceId cx) (ac_events s)))"

definition listFounderDecisions :: "AiCoo \<Rightarrow> WorkspaceContext \<Rightarrow> CooError + FounderDecisionCard list" where
  "listFounderDecisions s cx = ebind (assertPlanner s cx) (\<lambda>_.
     Inr (filter (\<lambda>c. fc_workspaceId c = cx_workspaceId cx) (mvalues (ac_approvals s))))"

end
