(* ===== verification/Ai_Coo_Moves.thy ===== *)
theory Ai_Coo_Moves
  imports Ai_Coo
begin

text \<open>
  The operations of the planner decomposed into elementary moves of its books (objectives, tasks, identities
  in use).  Whatever an operation returns, an error included, the state it leaves is reached by such moves:
  this is where the order of checks, updates and events in the code is accounted for, and what the invariants
  are proved over.
\<close>

section \<open>Books\<close>

definition sameBooks :: "AiCoo \<Rightarrow> AiCoo \<Rightarrow> bool" where
  "sameBooks s t = (ac_planners t = ac_planners s \<and> ac_options t = ac_options s \<and> ac_objectives t = ac_objectives s \<and>
     ac_projects t = ac_projects s \<and> ac_tasks t = ac_tasks s \<and>
     ac_consumedAssignmentRequests t = ac_consumedAssignmentRequests s \<and> ac_entityIds t = ac_entityIds s)"

text \<open>A move, made for the workspace context given.\<close>

inductive move :: "AiCoo \<Rightarrow> AiCoo \<Rightarrow> bool" where
  quiet: "sameBooks s t \<Longrightarrow> move s t"
| stored: "planChecksOf s cx plan = Inr () \<Longrightarrow> move s (storePlan cx plan s)"
| refreshed: "requireTask s cx taskId = Inr task \<Longrightarrow>
    \<not> (ts_status task \<in> TERMINAL \<or> ts_status task = C_ASSIGNED \<or> ts_status task = C_AWAITING_APPROVAL) \<Longrightarrow>
    emap (requireTask s cx) (ct_dependencyIds task) = Inr dependencies \<Longrightarrow>
    move s (putTaskState (task\<lparr>ts_status := readinessOf dependencies\<rparr>) s)"
| assigned: "requireTask s cx taskId = Inr task \<Longrightarrow> assignmentChecks task request = Inr () \<Longrightarrow>
    requestKey \<notin> ac_consumedAssignmentRequests s \<Longrightarrow>
    move s (putTaskState (assignedTask task agent runtime requestId)
      (s\<lparr>ac_consumedAssignmentRequests := insert requestKey (ac_consumedAssignmentRequests s)\<rparr>))"
| used: "requireTask s cx taskId = Inr task \<Longrightarrow> ts_status task = C_ASSIGNED \<Longrightarrow> 0 \<le> cost \<Longrightarrow> 0 \<le> units \<Longrightarrow>
    requireObjective s cx (ct_objectiveId task) = Inr objective \<Longrightarrow>
    usageFits s task objective (cx_workspaceId cx) cost units \<Longrightarrow>
    move s (putTaskState (task\<lparr>ts_costUsedMinorUnits := ts_costUsedMinorUnits task + cost,
      ts_computeUsed := ts_computeUsed task + units\<rparr>) s)"
| completed: "requireTask s cx taskId = Inr task \<Longrightarrow> ts_status task = C_ASSIGNED \<Longrightarrow>
    move s (putTaskState (task\<lparr>ts_status := C_COMPLETED\<rparr>) s)"
| released: "requireTask s cx taskId = Inr task \<Longrightarrow> ts_status task = C_ASSIGNED \<Longrightarrow>
    move s (putTaskState (releasedTask task (failedStatus task failureCode)) s)"

abbreviation moves :: "AiCoo \<Rightarrow> AiCoo \<Rightarrow> bool" where
  "moves \<equiv> move\<^sup>*\<^sup>*"

section \<open>Events change no book\<close>

definition books_kept :: "(AiCoo, CooError, 'a) method \<Rightarrow> bool" where
  "books_kept m = (\<forall>s. sameBooks s (snd (m s)))"

lemma sameBooks_refl [simp]: "sameBooks s s"
  by (simp add: sameBooks_def)

lemma sameBooks_trans: "sameBooks s t \<Longrightarrow> sameBooks t u \<Longrightarrow> sameBooks s u"
  by (simp add: sameBooks_def)

named_theorems keeps \<open>methods that change no book\<close>

lemma books_kept_ret [keeps]: "books_kept (ret x)"
  and books_kept_reads [keeps]: "books_kept (reads f)"
  by (simp_all add: books_kept_def ret_def reads_def)

lemma books_kept_modify: "(\<And>s. sameBooks s (f s)) \<Longrightarrow> books_kept (modify f)"
  by (simp add: books_kept_def modify_def)

lemma books_kept_updates: "(\<And>s t. f s = Inr t \<Longrightarrow> sameBooks s t) \<Longrightarrow> books_kept (updates f)"
  by (auto simp: books_kept_def updates_def split: sum.splits)

lemma books_kept_andThen [keeps]:
  assumes "books_kept m" "\<And>x. books_kept (k x)"
  shows "books_kept (andThen m k)"
  unfolding books_kept_def
proof
  fix s
  obtain r t where m: "m s = (r, t)" by (cases "m s")
  then have "sameBooks s t" using assms(1) by (metis books_kept_def snd_conv)
  with m assms(2) show "sameBooks s (snd (andThen m k s))"
    by (cases r) (auto simp: andThen_def books_kept_def intro: sameBooks_trans)
qed

lemma books_kept_each [keeps]: "(\<And>x. books_kept (m x)) \<Longrightarrow> books_kept (each m xs)"
  by (induction xs) (auto intro: keeps)

lemma books_kept_Let [keeps]: "(\<And>x. books_kept (k x)) \<Longrightarrow> books_kept (let x = v in k x)"
  by simp

lemma appendToCooSink_books: "appendToCooSink s cx event = Inr t \<Longrightarrow> sameBooks s t"
  by (auto simp: appendToCooSink_def sameBooks_def split: option.splits sum.splits)

lemma books_kept_emit [keeps]: "books_kept (emit env cx objectiveId type facts projectId taskId)"
  unfolding emit_def
  by (intro keeps books_kept_modify books_kept_updates) (auto simp: sameBooks_def dest: appendToCooSink_books)

lemma books_kept_emitForTask [keeps]: "books_kept (emitForTask env cx task type facts)"
  unfolding emitForTask_def by (rule keeps)

lemma books_kept_card [keeps]: "books_kept (createLevelFourCard env cx task)"
  unfolding createLevelFourCard_def by (intro keeps books_kept_modify) (simp_all add: sameBooks_def)

lemma books_kept_publishTask [keeps]: "books_kept (publishTask env cx task)"
  unfolding publishTask_def by (auto intro!: keeps)

lemma books_kept_publishPlan [keeps]: "books_kept (publishPlan env cx plan)"
  unfolding publishPlan_def by (intro keeps)

lemma books_kept_withFactory [keeps]: "books_kept (withFactory m)"
  by (auto simp: books_kept_def withFactory_def sameBooks_def split: prod.splits sum.splits)


section \<open>Every operation is a sequence of moves\<close>

lemma wp_kept: "books_kept m \<Longrightarrow> (\<And>r t. sameBooks s t \<Longrightarrow> Q r t) \<Longrightarrow> wp m Q s"
  by (auto simp: wp_def books_kept_def split: prod.splits) (metis snd_conv)

lemma moves_quiet: "moves s t \<Longrightarrow> sameBooks t u \<Longrightarrow> moves s u"
  by (meson quiet rtranclp.rtrancl_into_rtrancl)

lemma moves_then: "move s t \<Longrightarrow> sameBooks t u \<Longrightarrow> moves s u"
  by (meson moves_quiet r_into_rtranclp)

lemma sameBooks_simps:
  assumes "sameBooks s t"
  shows "requireTask t = requireTask s" "requireObjective t = requireObjective s" "assertPlanner t = assertPlanner s"
    "planChecksOf t = planChecksOf s" "objectiveTasks t = objectiveTasks s"
  using assms
  by (simp_all add: fun_eq_iff requireTask_def requireObjective_def assertPlanner_def planChecksOf_def objectiveTasks_def sameBooks_def)

lemma refresh_moves:
  "wp (refreshTaskReadiness env cx taskId) (\<lambda>r t. moves s t \<and> ac_consumedAssignmentRequests t = ac_consumedAssignmentRequests s) s"
proof (cases "requireTask s cx taskId")
  case (Inr task)
  let ?done = "ts_status task \<in> TERMINAL \<or> ts_status task = C_ASSIGNED \<or> ts_status task = C_AWAITING_APPROVAL"
  show ?thesis
  proof (cases "?done")
    case False
    show ?thesis
    proof (cases "emap (requireTask s cx) (ct_dependencyIds task)")
      case deps: (Inr dependencies)
      let ?t = "putTaskState (task\<lparr>ts_status := readinessOf dependencies\<rparr>) s"
      have m: "move s ?t" by (rule refreshed [OF Inr False deps])
      have c: "ac_consumedAssignmentRequests ?t = ac_consumedAssignmentRequests s" by (simp add: putTaskState_def)
      have "moves s u \<and> ac_consumedAssignmentRequests u = ac_consumedAssignmentRequests s" if "sameBooks ?t u" for u
        using moves_then [OF m that] that c by (simp add: sameBooks_def)
      then show ?thesis
        unfolding refreshTaskReadiness_def using Inr False deps
        by (auto simp: wp_simps Let_def intro!: wp_kept [OF books_kept_emitForTask])
    qed (use Inr False in \<open>simp add: refreshTaskReadiness_def wp_simps\<close>)
  qed (use Inr in \<open>simp add: refreshTaskReadiness_def wp_simps\<close>)
qed (simp add: refreshTaskReadiness_def wp_simps)

lemma each_moves:
  assumes "\<And>x s. wp (m x) (\<lambda>r t. moves s t) s"
  shows "wp (each m xs) (\<lambda>r t. moves s t) s"
proof (induction xs arbitrary: s)
  case (Cons x xs)
  have rest: "wp (each m xs) (\<lambda>r u. moves s u) t" if "moves s t" for t
    by (rule wp_mono [OF Cons.IH]) (rule rtranclp_trans [OF that])
  show ?case
    unfolding each.simps wp_andThen
  proof (rule wp_mono [OF assms])
    fix r t assume "moves s t"
    then show "case r of Inl e \<Rightarrow> moves s t | Inr _ \<Rightarrow> wp (each m xs) (\<lambda>r u. moves s u) t"
      using rest by (cases r) simp_all
  qed
qed (simp add: wp_simps)

lemma createPlan_moves: "wp (createPlan env cx plan) (\<lambda>r t. moves s t) s"
proof (cases "planChecksOf s cx plan")
  case (Inr u)
  let ?report = "\<lambda>_. reads (\<lambda>s. criticalPath s cx (co_id (op_objective plan)))"
  have after: "wp (andThen (publishPlan env cx plan) ?report) (\<lambda>r u. moves s u) (storePlan cx plan t)" if t: "sameBooks s t" for t
  proof (rule wp_kept)
    show "books_kept (andThen (publishPlan env cx plan) ?report)" by (intro keeps)
    fix u assume "sameBooks (storePlan cx plan t) u"
    moreover have "move t (storePlan cx plan t)" using sameBooks_simps(4) [OF t] Inr by (intro stored) simp
    ultimately show "moves s u" using t by (meson converse_rtranclp_into_rtranclp moves_then quiet)
  qed
  have "wp (withFactory m) (\<lambda>r t. case r of Inl e \<Rightarrow> moves s t | Inr x \<Rightarrow>
      wp (andThen (modify (storePlan cx plan)) (\<lambda>_. andThen (publishPlan env cx plan) ?report)) (\<lambda>r u. moves s u) t) s"
    for m :: "(AgentFactory, FactoryError, unit) method"
  proof (rule wp_kept [OF books_kept_withFactory])
    fix r :: "CooError + unit" and t assume t: "sameBooks s t"
    show "case r of Inl e \<Rightarrow> moves s t | Inr x \<Rightarrow>
      wp (andThen (modify (storePlan cx plan)) (\<lambda>_. andThen (publishPlan env cx plan) ?report)) (\<lambda>r u. moves s u) t"
      using after [OF t] moves_quiet [OF _ t] by (cases r) (simp_all add: wp_andThen [of "modify f" for f] wp_modify)
  qed
  with Inr show ?thesis
    unfolding createPlan_def Let_def wp_andThen [of "reads f" for f] wp_andThen [of "withFactory f" for f] wp_reads by simp
qed (simp add: createPlan_def Let_def wp_simps)

lemma usage_moves: "wp (cooRecordUsage env cx taskId cost units) (\<lambda>r t. moves s t) s"
proof -
  have "moves s u"
    if "requireTask s cx taskId = Inr task" "ts_status task = C_ASSIGNED" "0 \<le> cost" "0 \<le> units"
      "requireObjective s cx (ct_objectiveId task) = Inr objective" "usageFits s task objective (cx_workspaceId cx) cost units"
      "sameBooks (putTaskState (task\<lparr>ts_costUsedMinorUnits := ts_costUsedMinorUnits task + cost,
        ts_computeUsed := ts_computeUsed task + units\<rparr>) s) u" for task objective u
    by (rule moves_then [OF move.used [OF that(1-6)] that(7)])
  then show ?thesis
    unfolding cooRecordUsage_def
    by (auto simp: wp_simps Let_def ebind_def cooInteger_def outcome_simps intro!: wp_kept [OF books_kept_emitForTask]
        split: sum.splits)
qed

lemma completeTask_moves: "wp (completeTask env cx taskId evidence) (\<lambda>r t. moves s t) s"
proof -
  have r: "wp (each (refreshTaskReadiness env cx) xs) (\<lambda>r u. moves s u) t" if "moves s t" for t xs
  proof (rule wp_mono [OF each_moves])
    show "wp (refreshTaskReadiness env cx x) (\<lambda>r t. moves s t) s" for x s
      by (rule wp_mono [OF refresh_moves]) simp
  qed (rule rtranclp_trans [OF that])
  have "moves s u" if "requireTask s cx taskId = Inr task" "ts_status task = C_ASSIGNED"
      "sameBooks (putTaskState (task\<lparr>ts_status := C_COMPLETED\<rparr>) s) u" for task u
    by (rule moves_then [OF move.completed [OF that(1,2)] that(3)])
  then show ?thesis
    unfolding completeTask_def
    by (auto simp: wp_simps Let_def ebind_def outcome_simps intro!: r wp_kept [OF books_kept_emitForTask] split: sum.splits)
qed

lemma recordFailure_moves: "wp (recordFailure env cx taskId failureCode) (\<lambda>r t. moves s t) s"
proof -
  have "moves s u" if "requireTask s cx taskId = Inr task" "ts_status task = C_ASSIGNED"
      "sameBooks (putTaskState (releasedTask task (failedStatus task failureCode)) s) u" for task u
    by (rule moves_then [OF move.released [OF that(1,2)] that(3)])
  then show ?thesis
    unfolding recordFailure_def
    by (auto simp: wp_simps Let_def ebind_def outcome_simps intro!: wp_kept [OF books_kept_emitForTask] split: sum.splits)
qed

lemma assigned_then:
  assumes "moves s t" "requestKey \<notin> ac_consumedAssignmentRequests t" "requireTask t cx taskId = Inr task"
    "assignmentChecks task request = Inr ()" "sameBooks t u"
    "sameBooks (putTaskState (assignedTask task agent runtime requestId)
      (u\<lparr>ac_consumedAssignmentRequests := insert requestKey (ac_consumedAssignmentRequests u)\<rparr>)) v"
  shows "moves s v"
proof -
  have u: "requireTask u cx taskId = Inr task" "requestKey \<notin> ac_consumedAssignmentRequests u"
    using assms(2,3,5) sameBooks_simps(1) [OF assms(5)] by (simp_all add: sameBooks_def)
  have "moves u v" by (rule moves_then [OF move.assigned [OF u(1) assms(4) u(2)] assms(6)])
  with assms(1,5) show ?thesis by (meson moves_quiet rtranclp_trans)
qed

lemma performAssignment_moves:
  assumes t: "moves s t" "key (cx_workspaceId cx) (fr_id (ar_factoryRequest request)) \<notin> ac_consumedAssignmentRequests t"
    "requireTask t cx (ar_taskId request) = Inr task" "assignmentChecks task request = Inr ()"
  shows "wp (performAssignment env cx request task) (\<lambda>r u. moves s u) t"
proof (cases "askBroker env t cx (ar_routingRequest request)")
  case (Inr runtime)
  show ?thesis
    unfolding performAssignment_def Let_def wp_andThen [of "reads f" for f] wp_reads Inr sum.case wp_andThen [of "withFactory f" for f]
    by (rule wp_kept [OF books_kept_withFactory])
       (auto simp: wp_simps intro!: wp_kept [OF books_kept_emitForTask] split: sum.split
         intro: assigned_then [OF t] moves_quiet [OF t(1)])
qed (use t(1) in \<open>simp add: performAssignment_def Let_def wp_simps\<close>)

lemma requestAssignment_moves: "wp (requestAssignment env cx request) (\<lambda>r t. moves s t) s"
proof -
  let ?k = "key (cx_workspaceId cx) (fr_id (ar_factoryRequest request))"
  let ?rest = "andThen (reads (\<lambda>s. ebind (requireTask s cx (ar_taskId request)) (\<lambda>task.
       ebind (assignmentChecks task request) (\<lambda>_. Inr task)))) (\<lambda>task. performAssignment env cx request task)"
  have rest: "wp ?rest (\<lambda>r u. moves s u) t" if "moves s t" "?k \<notin> ac_consumedAssignmentRequests t" for t
    using performAssignment_moves [OF that] that(1)
    by (auto simp: wp_andThen [of "reads f" for f] wp_reads ebind_def split: sum.splits)
  have "wp (andThen (refreshTaskReadiness env cx (ar_taskId request)) (\<lambda>_. ?rest)) (\<lambda>r u. moves s u) s"
    if "?k \<notin> ac_consumedAssignmentRequests s"
    unfolding wp_andThen [of "refreshTaskReadiness env cx i" for i]
  proof (rule wp_mono [OF refresh_moves])
    fix r :: "CooError + unit" and t
    assume "moves s t \<and> ac_consumedAssignmentRequests t = ac_consumedAssignmentRequests s"
    with rest that show "case r of Inl e \<Rightarrow> moves s t | Inr u \<Rightarrow> wp ?rest (\<lambda>r u. moves s u) t" by (cases r) simp_all
  qed
  then show ?thesis
    unfolding requestAssignment_def wp_andThen [of "reads (\<lambda>s. ebind (checks (f s)) (g s))" for f g] wp_reads
    by (auto simp: ebind_def outcome_simps split: sum.splits)
qed

end
