(* ===== verification/Ai_Coo_Invariants.thy ===== *)
theory Ai_Coo_Invariants
  imports Ai_Coo_Moves
begin

text \<open>
  What holds of the planner in every reachable state, whatever is called and however its surroundings
  change the factory, the broker and the event log: tasks stay linked to their plan, budgets and attempts stay
  within their limits, work starts only after its dependencies are completed, and Level-4 tasks never start.
\<close>

section \<open>Tasks\<close>

abbreviation taskKey :: "'a CooTask_scheme \<Rightarrow> string" where
  "taskKey t \<equiv> key (ct_workspaceId t) (ct_id t)"

text \<open>Budgets, attempts and the fields of an assignment, in the task itself.\<close>

definition withinLimits :: "CooTaskState \<Rightarrow> bool" where
  "withinLimits t =
     (0 \<le> ts_costUsedMinorUnits t \<and> ts_costUsedMinorUnits t \<le> cl_maximumMinorUnits (ct_costLimit t) \<and>
      0 \<le> ts_computeUsed t \<and> ts_computeUsed t \<le> cl_maximumComputeUnits (ct_costLimit t) \<and>
      0 \<le> ts_attempts t \<and> ts_attempts t \<le> rt_maximumAttempts (ct_retryPolicy t) \<and>
      (ts_status t = C_READY \<or> ts_status t = C_BLOCKED \<longrightarrow> ts_attempts t < rt_maximumAttempts (ct_retryPolicy t)) \<and>
      (ct_requiredAuthority t = 4 \<longleftrightarrow> ts_status t = C_AWAITING_APPROVAL) \<and>
      (ts_runId t \<noteq> None \<longleftrightarrow> ts_status t \<in> {C_ASSIGNED, C_COMPLETED}) \<and>
      (ts_assignedAgentId t \<noteq> None \<longleftrightarrow> ts_status t \<in> {C_ASSIGNED, C_COMPLETED}))"

text \<open>The tasks that may have started: everything but blocked tasks and those that wait for the founder.\<close>

definition mayStart :: "CooTaskState \<Rightarrow> bool" where
  "mayStart t = (ts_status t \<noteq> C_BLOCKED \<and> ts_status t \<noteq> C_AWAITING_APPROVAL)"

definition dependencyOf :: "CooTaskState jsmap \<Rightarrow> CooTaskState \<Rightarrow> EntityId \<Rightarrow> CooTaskState \<Rightarrow> bool" where
  "dependencyOf tasks t d u = (d \<in> set (ct_dependencyIds t) \<and> mget tasks (key (ct_workspaceId t) d) = Some u)"

definition dependenciesOk :: "CooTaskState jsmap \<Rightarrow> CooTaskState \<Rightarrow> bool" where
  "dependenciesOk tasks t = (\<forall>d \<in> set (ct_dependencyIds t). \<exists>u. dependencyOf tasks t d u \<and> ct_objectiveId u = ct_objectiveId t \<and>
     (mayStart t \<longrightarrow> ts_status u = C_COMPLETED))"

section \<open>Objectives\<close>

definition plannedTasks :: "AiCoo \<Rightarrow> CooObjective \<Rightarrow> CooTask list" where
  "plannedTasks s objective = map CooTask.truncate (objectiveTasks s (co_workspaceId objective) (co_id objective))"

definition plannedOk :: "AiCooOptions \<Rightarrow> CooObjective \<Rightarrow> CooTask list \<Rightarrow> bool" where
  "plannedOk options objective tasks =
     (tasks \<noteq> [] \<and> int (length tasks) \<le> opt_maximumTasksPerObjective options \<and>
      linksOk (taskLinksOf tasks) \<and> \<not> containsCycle (taskLinksOf tasks) \<and>
      cl_maximumMinorUnits (co_costLimit objective) \<le> opt_maximumObjectiveCostMinorUnits options \<and>
      cl_maximumComputeUnits (co_costLimit objective) \<le> opt_maximumObjectiveComputeUnits options \<and>
      sum_list (map (\<lambda>t. cl_maximumMinorUnits (ct_costLimit t)) tasks) \<le> cl_maximumMinorUnits (co_costLimit objective) \<and>
      sum_list (map (\<lambda>t. cl_maximumComputeUnits (ct_costLimit t)) tasks) \<le> cl_maximumComputeUnits (co_costLimit objective) \<and>
      (\<forall>t \<in> set tasks. 0 < ct_estimatedDurationMs t \<and> ct_estimatedDurationMs t \<le> opt_maximumTaskDurationMs options \<and>
         ct_requiredAuthority t \<le> co_maximumAuthority objective))"

definition optionsOk :: "AiCooOptions \<Rightarrow> bool" where
  "optionsOk options = (opt_maximumTasksPerObjective options \<le> 1000 \<and>
     0 \<le> opt_maximumTaskDurationMs options \<and> opt_maximumTaskDurationMs options \<le> 365 * 24 * 60 * 60 * 1000)"

definition cooInv :: "AiCoo \<Rightarrow> bool" where
  "cooInv s =
     (optionsOk (ac_options s) \<and> jsmap_ok (ac_tasks s) \<and> keyed_by taskKey (ac_tasks s) \<and>
      keyed_by (\<lambda>v. key (co_workspaceId v) (co_id v)) (ac_objectives s) \<and>
      fst ` set (ac_tasks s) \<subseteq> ac_entityIds s \<and>
      (\<forall>k t. mget (ac_tasks s) k = Some t \<longrightarrow> withinLimits t \<and> dependenciesOk (ac_tasks s) t \<and>
         mhas (ac_objectives s) (key (ct_workspaceId t) (ct_objectiveId t))) \<and>
      (\<forall>k objective. mget (ac_objectives s) k = Some objective \<longrightarrow> plannedOk (ac_options s) objective (plannedTasks s objective)))"

lemma cooInv_books: "sameBooks s t \<Longrightarrow> cooInv s \<Longrightarrow> cooInv t"
  unfolding cooInv_def plannedTasks_def by (simp add: sameBooks_simps(5)) (simp add: sameBooks_def)

section \<open>Updating one task\<close>

lemma mvalues_update:
  assumes "jsmap_ok m" "mget m k = Some old" "f v = f old" "P v = P old"
  shows "map f (filter P (mvalues (mset_at m k v))) = map f (filter P (mvalues m))"
  using assms by (induction m) (auto simp: mvalues_def mset_at_def jsmap_ok_def split: if_splits)

lemma keys_update: "mget m k = Some old \<Longrightarrow> map fst (mset_at m k v) = map fst m"
  by (induction m) (auto simp: mset_at_def split: if_splits)

lemma plannedTasks_put:
  assumes "jsmap_ok (ac_tasks s)" "mget (ac_tasks s) (taskKey t) = Some old" "CooTask.truncate t = CooTask.truncate old"
  shows "plannedTasks (putTaskState t s) objective = plannedTasks s objective"
proof -
  have "ct_workspaceId t = ct_workspaceId old" "ct_objectiveId t = ct_objectiveId old"
    using assms(3) by (simp_all add: CooTask.truncate_def)
  with assms show ?thesis
    unfolding plannedTasks_def objectiveTasks_def putTaskState_def
    by (simp add: mvalues_update)
qed

text \<open>
  A task that is not completed may be replaced by a version of the same plan: everything else in the
  invariant survives.
\<close>

lemma dependenciesOk_put:
  assumes "mget tasks k = Some old" "ts_status old \<noteq> C_COMPLETED" "ct_objectiveId t = ct_objectiveId old" "dependenciesOk tasks x"
  shows "dependenciesOk (mset_at tasks k t) x"
  unfolding dependenciesOk_def
proof
  fix d assume d: "d \<in> set (ct_dependencyIds x)"
  with assms(4) obtain u where u: "mget tasks (key (ct_workspaceId x) d) = Some u" "ct_objectiveId u = ct_objectiveId x"
    "mayStart x \<longrightarrow> ts_status u = C_COMPLETED"
    by (auto simp: dependenciesOk_def dependencyOf_def)
  show "\<exists>u. dependencyOf (mset_at tasks k t) x d u \<and> ct_objectiveId u = ct_objectiveId x \<and> (mayStart x \<longrightarrow> ts_status u = C_COMPLETED)"
  proof (cases "key (ct_workspaceId x) d = k")
    case True
    then have "\<not> mayStart x" "ct_objectiveId t = ct_objectiveId x" using u assms(1-3) by auto
    with True d show ?thesis by (auto simp: dependencyOf_def)
  qed (use u d in \<open>auto simp: dependencyOf_def\<close>)
qed

lemma cooInv_put:
  assumes inv: "cooInv s" and old: "mget (ac_tasks s) (taskKey t) = Some old" "ts_status old \<noteq> C_COMPLETED"
    and same: "CooTask.truncate t = CooTask.truncate old"
    and new: "withinLimits t" "dependenciesOk (ac_tasks s) t"
  shows "cooInv (putTaskState t s)"
proof -
  have k: "ct_workspaceId t = ct_workspaceId old" "ct_objectiveId t = ct_objectiveId old"
    using same by (simp_all add: CooTask.truncate_def)
  have ok: "jsmap_ok (ac_tasks s)" "keyed_by taskKey (ac_tasks s)" using inv by (auto simp: cooInv_def)
  have keys: "fst ` set (mset_at (ac_tasks s) (taskKey t) t) = fst ` set (ac_tasks s)"
    using keys_update [OF old(1), of t] by (metis list.set_map)
  note p = plannedTasks_put [OF ok(1) old(1) same] and d = dependenciesOk_put [OF old k(2)]
  show ?thesis
    using inv new p d keys old k unfolding cooInv_def by (auto simp: putTaskState_def)
qed


section \<open>Moves of one task\<close>

lemma requireTask_Inr: "requireTask s cx i = Inr t \<longleftrightarrow> mget (ac_tasks s) (key (cx_workspaceId cx) i) = Some t"
  by (auto simp: requireTask_def split: option.splits)

lemma requireTask_key:
  assumes "cooInv s" "requireTask s cx i = Inr t"
  shows "mget (ac_tasks s) (taskKey t) = Some t" "ct_workspaceId t = cx_workspaceId cx" "ct_id t = i"
proof -
  have g: "mget (ac_tasks s) (key (cx_workspaceId cx) i) = Some t" using assms(2) by (simp add: requireTask_Inr)
  moreover have k: "key (cx_workspaceId cx) i = taskKey t" using assms(1) g by (auto simp: cooInv_def dest: keyed_byD)
  ultimately show "mget (ac_tasks s) (taskKey t) = Some t" by simp
  from k show "ct_workspaceId t = cx_workspaceId cx" "ct_id t = i" by simp_all
qed

lemma cooInv_task:
  assumes "cooInv s" "mget (ac_tasks s) k = Some t"
  shows "withinLimits t" "dependenciesOk (ac_tasks s) t" "mhas (ac_objectives s) (key (ct_workspaceId t) (ct_objectiveId t))"
    "k = taskKey t"
  using assms by (auto simp: cooInv_def dest: keyed_byD)

text \<open>A task whose dependencies are known to be completed, or that does not start.\<close>

lemma dependenciesOk_start:
  assumes "dependenciesOk tasks t" "ct_dependencyIds x = ct_dependencyIds t" "ct_workspaceId x = ct_workspaceId t"
    "ct_objectiveId x = ct_objectiveId t"
    and "mayStart x \<Longrightarrow> mayStart t \<or> (\<forall>d \<in> set (ct_dependencyIds t). \<forall>u. mget tasks (key (ct_workspaceId t) d) = Some u \<longrightarrow> ts_status u = C_COMPLETED)"
  shows "dependenciesOk tasks x"
  using assms unfolding dependenciesOk_def dependencyOf_def by metis

lemma refreshed_inv:
  assumes inv: "cooInv s" and t: "requireTask s cx taskId = Inr task"
    and st: "\<not> (ts_status task \<in> TERMINAL \<or> ts_status task = C_ASSIGNED \<or> ts_status task = C_AWAITING_APPROVAL)"
    and deps: "emap (requireTask s cx) (ct_dependencyIds task) = Inr dependencies"
  shows "cooInv (putTaskState (task\<lparr>ts_status := readinessOf dependencies\<rparr>) s)"
proof (rule cooInv_put [OF inv])
  note g = requireTask_key [OF inv t]
  note w = cooInv_task [OF inv g(1)]
  have old: "ts_status task = C_READY \<or> ts_status task = C_BLOCKED" using st by (cases "ts_status task") (auto simp: TERMINAL_def)
  then show "ts_status task \<noteq> C_COMPLETED" by auto
  have new: "readinessOf dependencies = C_READY \<or> readinessOf dependencies = C_BLOCKED" by (simp add: readinessOf_def)
  show "mget (ac_tasks s) (taskKey (task\<lparr>ts_status := readinessOf dependencies\<rparr>)) = Some task" using g(1) by simp
  show "withinLimits (task\<lparr>ts_status := readinessOf dependencies\<rparr>)" using w(1) old new by (auto simp: withinLimits_def)
  show "dependenciesOk (ac_tasks s) (task\<lparr>ts_status := readinessOf dependencies\<rparr>)"
  proof (rule dependenciesOk_start [OF w(2)], simp_all, rule disjI2, intro ballI allI impI)
    fix d u assume m: "mayStart (task\<lparr>ts_status := readinessOf dependencies\<rparr>)" and d: "d \<in> set (ct_dependencyIds task)"
      and u: "mget (ac_tasks s) (key (ct_workspaceId task) d) = Some u"
    obtain i where i: "i < length (ct_dependencyIds task)" "d = ct_dependencyIds task ! i" using d by (metis in_set_conv_nth)
    with emap_Inr_nth [OF deps] u g(2) have "u \<in> set dependencies" by (auto simp: requireTask_Inr)
    moreover have "readinessOf dependencies = C_READY" using m new by (auto simp: mayStart_def)
    ultimately show "ts_status u = C_COMPLETED" by (auto simp: readinessOf_def split: if_splits)
  qed
qed (simp add: CooTask.truncate_def)

lemma assignmentChecks_Inr:
  assumes "assignmentChecks task request = Inr u"
  shows "ct_requiredAuthority task \<noteq> 4" "ts_status task = C_READY"
    "fr_workspaceId (ar_factoryRequest request) = ct_workspaceId task" "fr_objectiveId (ar_factoryRequest request) = ct_objectiveId task"
    "fr_taskId (ar_factoryRequest request) = ct_id task" "fr_authorityLevel (ar_factoryRequest request) \<le> 3"
    "actualFactoryPolicy (ar_factoryRequest request) = expectedFactoryPolicy task"
    "actualRoutingPolicy (ar_routingRequest request) = expectedRoutingPolicy task"
    "rr_workspaceId (ar_routingRequest request) = ct_workspaceId task"
  using assms by (simp_all add: assignmentChecks_def Let_def checks_Cons_Inr)

text \<open>The remaining moves of a task start from a task that may have started.\<close>

lemma started_inv:
  assumes inv: "cooInv s" and t: "requireTask s cx taskId = Inr task" "mayStart task" "ts_status task \<noteq> C_COMPLETED"
    and "CooTask.truncate new = CooTask.truncate task" "withinLimits task \<Longrightarrow> withinLimits new"
  shows "cooInv (putTaskState new s)"
proof -
  note g = requireTask_key [OF inv t(1)]
  note w = cooInv_task [OF inv g(1)]
  have k: "ct_workspaceId new = ct_workspaceId task" "ct_id new = ct_id task" "ct_objectiveId new = ct_objectiveId task"
    "ct_dependencyIds new = ct_dependencyIds task"
    using assms(5) by (simp_all add: CooTask.truncate_def)
  show ?thesis
    by (rule cooInv_put [OF inv]) (use g(1) k w assms(4,5,6) t(2) in \<open>auto intro: dependenciesOk_start [OF w(2)]\<close>)
qed

lemma failedStatus_cases:
  "failedStatus task code = C_STOPPED \<or> failedStatus task code = C_FAILED \<or>
   failedStatus task code = C_READY \<and> ts_attempts task < rt_maximumAttempts (ct_retryPolicy task)"
  by (auto simp: failedStatus_def Let_def)

lemma move_task_inv:
  assumes "move s t" "cooInv s" "\<And>cx plan. planChecksOf s cx plan = Inr () \<Longrightarrow> cooInv (storePlan cx plan s)"
  shows "cooInv t"
  using assms(1)
proof (cases rule: move.cases)
  case quiet
  with assms(2) show ?thesis by (rule cooInv_books [rotated])
next
  case (stored cx plan)
  then show ?thesis using assms(3) by simp
next
  case (refreshed cx taskId task dependencies)
  then show ?thesis using refreshed_inv [OF assms(2)] by simp
next
  case (assigned cx taskId task request requestKey agent runtime requestId)
  let ?u = "s\<lparr>ac_consumedAssignmentRequests := insert requestKey (ac_consumedAssignmentRequests s)\<rparr>"
  have u: "cooInv ?u" using assms(2) by (simp add: cooInv_def plannedTasks_def objectiveTasks_def)
  have r: "requireTask ?u cx taskId = Inr task" using assigned(2) by (simp add: requireTask_def)
  note c = assignmentChecks_Inr [OF assigned(3)]
  show ?thesis
    unfolding assigned(1)
    by (rule started_inv [OF u r]) (use c in \<open>auto simp: mayStart_def withinLimits_def assignedTask_def CooTask.truncate_def\<close>)
next
  case (used cx taskId task cost units objective)
  show ?thesis
    unfolding used(1)
    by (rule started_inv [OF assms(2) used(2)])
       (use used in \<open>auto simp: mayStart_def withinLimits_def usageFits_def Let_def CooTask.truncate_def\<close>)
next
  case (completed cx taskId task)
  show ?thesis
    unfolding completed(1)
    by (rule started_inv [OF assms(2) completed(2)])
       (use completed in \<open>auto simp: mayStart_def withinLimits_def CooTask.truncate_def\<close>)
next
  case (released cx taskId task failureCode)
  show ?thesis
    unfolding released(1)
    by (rule started_inv [OF assms(2) released(2)])
       (use released failedStatus_cases [of task failureCode] in
         \<open>auto simp: mayStart_def withinLimits_def releasedTask_def CooTask.truncate_def\<close>)
qed


section \<open>Storing a plan\<close>

text \<open>What the checks on a single task of a plan establish.\<close>

definition taskPlanned :: "AiCooOptions \<Rightarrow> WorkspaceContext \<Rightarrow> CooObjective \<Rightarrow> CooTask \<Rightarrow> bool" where
  "taskPlanned options cx objective t =
     (ct_workspaceId t = cx_workspaceId cx \<and> ct_objectiveId t = co_id objective \<and> distinct (ct_dependencyIds t) \<and>
      0 \<le> cl_maximumMinorUnits (ct_costLimit t) \<and> 0 \<le> cl_maximumComputeUnits (ct_costLimit t) \<and>
      0 < ct_estimatedDurationMs t \<and> ct_estimatedDurationMs t \<le> opt_maximumTaskDurationMs options \<and>
      ct_requiredAuthority t \<le> co_maximumAuthority objective \<and> 1 \<le> rt_maximumAttempts (ct_retryPolicy t))"

lemma cooInteger_Inr [outcome_simps]: "cooInteger v fld m = Inr u \<longleftrightarrow> isSafeInteger v \<and> 0 \<le> v \<and> v \<le> m"
  by (auto simp: cooInteger_def)

lemma cooTaskChecks_planned:
  assumes "cooTaskChecks options cx objective projectIds taskIds task = Inr u"
  shows "taskPlanned options cx objective task" "ct_id task \<notin> taskIds"
proof -
  have c: "cooWorkspace cx (ct_workspaceId task) = Inr ()" "ct_objectiveId task = co_id objective" "ct_id task \<notin> taskIds"
    "distinct (ct_dependencyIds task)" "\<not> co_maximumAuthority objective < ct_requiredAuthority task"
    "validateCost (ct_costLimit task) ''task.costLimit'' = Inr ()"
    "cooInteger (ct_estimatedDurationMs task) ''task.estimatedDurationMs'' (opt_maximumTaskDurationMs options) = Inr ()"
    "ct_estimatedDurationMs task \<noteq> 0" "retryChecks options (ct_retryPolicy task) = Inr ()"
    using assms unfolding cooTaskChecks_def checks_append_Inr by (simp_all add: checks_Cons_Inr)
  then show "ct_id task \<notin> taskIds" "taskPlanned options cx objective task"
    by (auto simp: taskPlanned_def cooWorkspace_def validateCost_def retryChecks_def outcome_simps)
qed

lemma cooTaskLoop_planned:
  "cooTaskLoop options cx objective projectIds taskIds tasks = Inr ids \<Longrightarrow>
   ids = taskIds \<union> ct_id ` set tasks \<and> distinct (map ct_id tasks) \<and> ct_id ` set tasks \<inter> taskIds = {} \<and>
   (\<forall>t \<in> set tasks. taskPlanned options cx objective t)"
proof (induction tasks arbitrary: taskIds)
  case (Cons task tasks)
  then have c: "cooTaskChecks options cx objective projectIds taskIds task = Inr ()"
    "cooTaskLoop options cx objective projectIds (insert (ct_id task) taskIds) tasks = Inr ids"
    by (auto simp: ebind_Inr)
  from Cons.IH [OF c(2)] cooTaskChecks_planned [OF c(1)] show ?case by auto
qed simp

definition planAccepted :: "AiCooOptions \<Rightarrow> WorkspaceContext \<Rightarrow> ObjectivePlan \<Rightarrow> bool" where
  "planAccepted options cx plan = (let objective = op_objective plan; tasks = op_tasks plan in
     co_workspaceId objective = cx_workspaceId cx \<and> distinct (map ct_id tasks) \<and>
     (\<forall>t \<in> set tasks. taskPlanned options cx objective t \<and> set (ct_dependencyIds t) \<subseteq> ct_id ` set tasks) \<and>
     plannedOk options objective tasks)"

lemma validatePlan_accepted:
  assumes "validatePlan options cx plan = Inr u"
  shows "planAccepted options cx plan"
proof -
  let ?o = "op_objective plan" and ?T = "op_tasks plan"
  from assms obtain projectIds taskIds where v: "cooObjectiveChecks options cx ?o = Inr ()" "?T \<noteq> []"
    "int (length ?T) \<le> opt_maximumTasksPerObjective options" "cooTaskLoop options cx ?o projectIds {} ?T = Inr taskIds"
    "sum_list (map (\<lambda>t. cl_maximumMinorUnits (ct_costLimit t)) ?T) \<le> cl_maximumMinorUnits (co_costLimit ?o)"
    "sum_list (map (\<lambda>t. cl_maximumComputeUnits (ct_costLimit t)) ?T) \<le> cl_maximumComputeUnits (co_costLimit ?o)"
    "\<forall>t \<in> set ?T. \<forall>d \<in> set (ct_dependencyIds t). d \<in> taskIds" "cooAssertAcyclic ?T = Inr ()"
    by (auto simp: validatePlan_def Let_def outcome_simps)
  note loop = cooTaskLoop_planned [OF v(4)]
  have "cl_maximumMinorUnits (co_costLimit ?o) \<le> opt_maximumObjectiveCostMinorUnits options"
    "cl_maximumComputeUnits (co_costLimit ?o) \<le> opt_maximumObjectiveComputeUnits options"
    using v(1) by (auto simp: cooObjectiveChecks_def outcome_simps)
  moreover have "co_workspaceId ?o = cx_workspaceId cx" using v(1) by (simp add: cooObjectiveChecks_def cooWorkspace_def outcome_simps)
  moreover have "linksOk (taskLinksOf ?T)"
    using loop v(7) by (auto simp: linksOk_def taskLinksOf_def comp_def taskPlanned_def image_iff)
  moreover have "\<not> containsCycle (taskLinksOf ?T)" using v(8) by (simp add: cooAssertAcyclic_def)
  ultimately show ?thesis
    using v loop by (auto simp: planAccepted_def plannedOk_def Let_def taskPlanned_def)
qed

lemma storeProjects_keep:
  "ac_tasks (foldl storeProject s ps) = ac_tasks s" "ac_objectives (foldl storeProject s ps) = ac_objectives s"
  "ac_options (foldl storeProject s ps) = ac_options s"
  "ac_entityIds (foldl storeProject s ps) = ac_entityIds s \<union> (\<lambda>p. key (cp_workspaceId p) (cp_id p)) ` set ps"
  by (induction ps arbitrary: s) (auto simp: storeProject_def Let_def)

lemma storeTasks_fields:
  "ac_tasks (foldl storeTask s ts) = foldl (\<lambda>m (k, t). mset_at m k (newTaskState t)) (ac_tasks s) (map (\<lambda>t. (taskKey t, t)) ts)"
  "ac_objectives (foldl storeTask s ts) = ac_objectives s" "ac_options (foldl storeTask s ts) = ac_options s"
  "ac_entityIds (foldl storeTask s ts) = ac_entityIds s \<union> taskKey ` set ts"
  by (induction ts arbitrary: s) (auto simp: storeTask_def Let_def)

lemma storePlan_fields:
  assumes "planAccepted (ac_options s) cx plan" "\<And>t. t \<in> set (op_tasks plan) \<Longrightarrow> taskKey t \<notin> fst ` set (ac_tasks s)"
  shows "ac_tasks (storePlan cx plan s) = ac_tasks s @ map (\<lambda>t. (taskKey t, newTaskState t)) (op_tasks plan)"
    "ac_objectives (storePlan cx plan s) =
       mset_at (ac_objectives s) (key (cx_workspaceId cx) (co_id (op_objective plan))) (op_objective plan)"
    "ac_options (storePlan cx plan s) = ac_options s"
    "ac_entityIds s \<union> taskKey ` set (op_tasks plan) \<subseteq> ac_entityIds (storePlan cx plan s)"
proof -
  let ?T = "op_tasks plan"
  have ws: "ct_workspaceId t = cx_workspaceId cx" if "t \<in> set ?T" for t
    using assms(1) that by (auto simp: planAccepted_def Let_def taskPlanned_def)
  have "distinct (map ct_id ?T)" using assms(1) by (simp add: planAccepted_def Let_def)
  then have d: "distinct (map taskKey ?T)" using ws by (auto simp: distinct_map inj_on_def)
  have "foldl (\<lambda>m (k, t). mset_at m k (newTaskState t)) (ac_tasks s) (map (\<lambda>t. (taskKey t, t)) ?T) =
      ac_tasks s @ map (\<lambda>(k, t). (k, newTaskState t)) (map (\<lambda>t. (taskKey t, t)) ?T)"
  proof (intro foldl_mset_at)
    show "distinct (map fst (map (\<lambda>t. (taskKey t, t)) ?T))" using d by (simp add: comp_def)
    have "taskKey ` set ?T \<inter> fst ` set (ac_tasks s) = {}" using assms(2) by blast
    then show "fst ` set (map (\<lambda>t. (taskKey t, t)) ?T) \<inter> fst ` set (ac_tasks s) = {}" by (simp add: image_image)
  qed
  then show "ac_tasks (storePlan cx plan s) = ac_tasks s @ map (\<lambda>t. (taskKey t, newTaskState t)) ?T"
    by (simp add: storePlan_def storeTasks_fields storeProjects_keep storeObjective_def Let_def comp_def)
  show "ac_objectives (storePlan cx plan s) =
      mset_at (ac_objectives s) (key (cx_workspaceId cx) (co_id (op_objective plan))) (op_objective plan)"
    "ac_options (storePlan cx plan s) = ac_options s"
    by (simp_all add: storePlan_def storeTasks_fields storeProjects_keep storeObjective_def Let_def)
  show "ac_entityIds s \<union> taskKey ` set ?T \<subseteq> ac_entityIds (storePlan cx plan s)"
    by (auto simp: storePlan_def storeTasks_fields storeProjects_keep storeObjective_def Let_def)
qed

lemma newTaskState_static [simp]: "CooTask.truncate (newTaskState t) = t" "taskKey (newTaskState t) = taskKey t"
  "ct_workspaceId (newTaskState t) = ct_workspaceId t" "ct_objectiveId (newTaskState t) = ct_objectiveId t"
  "ct_dependencyIds (newTaskState t) = ct_dependencyIds t" "ts_status (newTaskState t) = startingStatus t"
  by (simp_all add: newTaskState_def CooTask.truncate_def CooTask.extend_def)

lemma newTaskState_withinLimits: "taskPlanned options cx objective t \<Longrightarrow> withinLimits (newTaskState t)"
  by (auto simp: newTaskState_def CooTask.extend_def withinLimits_def taskPlanned_def startingStatus_def)

lemma mget_tasks_list:
  "distinct (map taskKey ts) \<Longrightarrow> t \<in> set ts \<Longrightarrow> mget (map (\<lambda>t. (taskKey t, newTaskState t)) ts) (taskKey t) = Some (newTaskState t)"
  by (rule map_of_is_SomeI) (auto simp: comp_def)

text \<open>A plan that is about to be stored in a state of the invariant.\<close>

definition storable :: "AiCoo \<Rightarrow> WorkspaceContext \<Rightarrow> ObjectivePlan \<Rightarrow> bool" where
  "storable s cx plan = (cooInv s \<and> planAccepted (ac_options s) cx plan \<and>
     \<not> mhas (ac_objectives s) (key (cx_workspaceId cx) (co_id (op_objective plan))) \<and>
     (\<forall>t \<in> set (op_tasks plan). taskKey t \<notin> fst ` set (ac_tasks s)) \<and> distinct (map taskKey (op_tasks plan)))"

lemma planChecksOf_storable:
  assumes inv: "cooInv s" and p: "planChecksOf s cx plan = Inr ()"
  shows "storable s cx plan"
proof -
  have acc: "planAccepted (ac_options s) cx plan" and "\<not> mhas (ac_objectives s) (key (cx_workspaceId cx) (co_id (op_objective plan)))"
    and ids: "\<forall>t \<in> set (op_tasks plan). key (cx_workspaceId cx) (ct_id t) \<notin> ac_entityIds s"
    using p validatePlan_accepted by (auto simp: planChecksOf_def planEntityIds_def outcome_simps)
  moreover have ws: "ct_workspaceId t = cx_workspaceId cx" if "t \<in> set (op_tasks plan)" for t
    using acc that by (auto simp: planAccepted_def Let_def taskPlanned_def)
  moreover have "fst ` set (ac_tasks s) \<subseteq> ac_entityIds s" using inv by (simp add: cooInv_def)
  moreover have "distinct (map taskKey (op_tasks plan))"
    using acc ws by (auto simp: planAccepted_def Let_def distinct_map inj_on_def)
  ultimately show ?thesis using inv unfolding storable_def by (metis subsetD)
qed

lemma storable_planned:
  assumes "storable s cx plan" "t \<in> set (op_tasks plan)"
  shows "taskPlanned (ac_options s) cx (op_objective plan) t" "set (ct_dependencyIds t) \<subseteq> ct_id ` set (op_tasks plan)"
    "ct_workspaceId t = cx_workspaceId cx" "ct_objectiveId t = co_id (op_objective plan)"
  using assms by (auto simp: storable_def planAccepted_def Let_def taskPlanned_def)

lemma storePlan_tasks:
  assumes "storable s cx plan"
  shows "ac_tasks (storePlan cx plan s) = ac_tasks s @ map (\<lambda>t. (taskKey t, newTaskState t)) (op_tasks plan)"
    "mget (ac_tasks s) k = Some u \<Longrightarrow> mget (ac_tasks (storePlan cx plan s)) k = Some u"
    "t \<in> set (op_tasks plan) \<Longrightarrow> mget (ac_tasks (storePlan cx plan s)) (taskKey t) = Some (newTaskState t)"
    "mget (ac_tasks (storePlan cx plan s)) k = Some u \<Longrightarrow>
       mget (ac_tasks s) k = Some u \<or> (\<exists>t \<in> set (op_tasks plan). k = taskKey t \<and> u = newTaskState t)"
proof -
  show e: "ac_tasks (storePlan cx plan s) = ac_tasks s @ map (\<lambda>t. (taskKey t, newTaskState t)) (op_tasks plan)"
    using assms by (intro storePlan_fields(1)) (auto simp: storable_def)
  show "mget (ac_tasks s) k = Some u \<Longrightarrow> mget (ac_tasks (storePlan cx plan s)) k = Some u"
    by (simp add: e map_add_def)
  show "mget (ac_tasks (storePlan cx plan s)) (taskKey t) = Some (newTaskState t)" if t: "t \<in> set (op_tasks plan)"
  proof -
    have "mget (ac_tasks s) (taskKey t) = None" using assms t unfolding storable_def by (simp add: map_of_eq_None_iff)
    moreover have "distinct (map taskKey (op_tasks plan))" using assms by (simp add: storable_def)
    ultimately show ?thesis using mget_tasks_list [OF _ t] by (simp add: e map_add_def)
  qed
  show "mget (ac_tasks s) k = Some u \<or> (\<exists>t \<in> set (op_tasks plan). k = taskKey t \<and> u = newTaskState t)"
    if "mget (ac_tasks (storePlan cx plan s)) k = Some u"
    using that by (auto simp: e map_add_Some_iff dest!: map_of_SomeD)
qed

lemma storePlan_dependencies:
  assumes st: "storable s cx plan"
  shows "dependenciesOk (ac_tasks s) u \<Longrightarrow> dependenciesOk (ac_tasks (storePlan cx plan s)) u"
    "t \<in> set (op_tasks plan) \<Longrightarrow> dependenciesOk (ac_tasks (storePlan cx plan s)) (newTaskState t)"
proof -
  show "dependenciesOk (ac_tasks s) u \<Longrightarrow> dependenciesOk (ac_tasks (storePlan cx plan s)) u"
    unfolding dependenciesOk_def dependencyOf_def using storePlan_tasks(2) [OF st] by metis
  assume t: "t \<in> set (op_tasks plan)"
  show "dependenciesOk (ac_tasks (storePlan cx plan s)) (newTaskState t)"
    unfolding dependenciesOk_def
  proof
    fix d assume "d \<in> set (ct_dependencyIds (newTaskState t))"
    then have d: "d \<in> set (ct_dependencyIds t)" by simp
    then obtain v where v: "v \<in> set (op_tasks plan)" "d = ct_id v" using storable_planned(2) [OF st t] by auto
    have "\<not> mayStart (newTaskState t)" using d by (auto simp: mayStart_def startingStatus_def)
    moreover have "dependencyOf (ac_tasks (storePlan cx plan s)) (newTaskState t) d (newTaskState v)"
      using storePlan_tasks(3) [OF st v(1)] storable_planned(3) [OF st] t v d by (simp add: dependencyOf_def)
    ultimately show "\<exists>u. dependencyOf (ac_tasks (storePlan cx plan s)) (newTaskState t) d u \<and>
        ct_objectiveId u = ct_objectiveId (newTaskState t) \<and> (mayStart (newTaskState t) \<longrightarrow> ts_status u = C_COMPLETED)"
      using storable_planned(4) [OF st] t v(1) by (intro exI [of _ "newTaskState v"]) simp
  qed
qed

lemma storePlan_planned:
  assumes st: "storable s cx plan" and o: "mget (ac_objectives (storePlan cx plan s)) k = Some objective"
  shows "plannedOk (ac_options s) objective (plannedTasks (storePlan cx plan s) objective)"
proof -
  let ?T = "op_tasks plan" and ?o = "op_objective plan" and ?ws = "cx_workspaceId cx"
  have inv: "cooInv s" and fresh: "\<not> mhas (ac_objectives s) (key ?ws (co_id ?o))" and acc: "planAccepted (ac_options s) cx plan"
    using st by (auto simp: storable_def)
  have obj: "ac_objectives (storePlan cx plan s) = mset_at (ac_objectives s) (key ?ws (co_id ?o)) ?o"
    using st by (intro storePlan_fields(2)) (auto simp: storable_def)
  have split: "plannedTasks (storePlan cx plan s) x = plannedTasks s x @
      filter (\<lambda>t. ct_workspaceId t = co_workspaceId x \<and> ct_objectiveId t = co_id x) ?T" for x
    unfolding plannedTasks_def objectiveTasks_def storePlan_tasks(1) [OF st]
    by (simp add: mvalues_def filter_map comp_def)
  show ?thesis
  proof (cases "k = key ?ws (co_id ?o)")
    case True
    then have x: "objective = ?o" using o by (simp add: obj)
    have ws: "co_workspaceId ?o = ?ws" using acc by (simp add: planAccepted_def Let_def)
    have "plannedTasks s ?o = []"
    proof -
      have "\<not> (ct_workspaceId t = ?ws \<and> ct_objectiveId t = co_id ?o)" if "t \<in> set (mvalues (ac_tasks s))" for t
      proof -
        from that obtain k where "mget (ac_tasks s) k = Some t" using inv by (auto simp: cooInv_def mvalues_iff)
        from cooInv_task(3) [OF inv this] fresh show ?thesis by auto
      qed
      then show ?thesis by (simp add: plannedTasks_def objectiveTasks_def ws filter_empty_conv)
    qed
    moreover have "filter (\<lambda>t. ct_workspaceId t = ?ws \<and> ct_objectiveId t = co_id ?o) ?T = ?T"
      using storable_planned(3,4) [OF st] by (simp add: filter_id_conv)
    ultimately show ?thesis using acc by (simp add: x split ws planAccepted_def Let_def)
  next
    case False
    then have g: "mget (ac_objectives s) k = Some objective" using o by (simp add: obj)
    have "k = key (co_workspaceId objective) (co_id objective)" using inv g by (auto simp: cooInv_def dest: keyed_byD)
    with False have "filter (\<lambda>t. ct_workspaceId t = co_workspaceId objective \<and> ct_objectiveId t = co_id objective) ?T = []"
      using storable_planned(3,4) [OF st] by (auto simp: filter_empty_conv)
    with inv g show ?thesis by (simp add: split cooInv_def)
  qed
qed

lemma storePlan_inv:
  assumes inv: "cooInv s" and p: "planChecksOf s cx plan = Inr ()"
  shows "cooInv (storePlan cx plan s)"
proof -
  have st: "storable s cx plan" by (rule planChecksOf_storable [OF inv p])
  have acc: "planAccepted (ac_options s) cx plan" and fr: "\<And>t. t \<in> set (op_tasks plan) \<Longrightarrow> taskKey t \<notin> fst ` set (ac_tasks s)"
    and dk: "distinct (map taskKey (op_tasks plan))" using st by (auto simp: storable_def)
  note f = storePlan_fields [OF acc fr] and t = storePlan_tasks [OF st] and d = storePlan_dependencies [OF st]
  have ws: "co_workspaceId (op_objective plan) = cx_workspaceId cx" using acc by (simp add: planAccepted_def Let_def)
  have "taskKey ` set (op_tasks plan) \<inter> fst ` set (ac_tasks s) = {}" using fr by blast
  then have "jsmap_ok (ac_tasks (storePlan cx plan s))"
    using inv dk by (simp add: t(1) cooInv_def jsmap_ok_def comp_def image_image Int_commute)
  moreover have "keyed_by taskKey (ac_tasks (storePlan cx plan s))"
    unfolding keyed_by_def using t(4) cooInv_task(4) [OF inv] newTaskState_static(2) by metis
  moreover have "keyed_by (\<lambda>v. key (co_workspaceId v) (co_id v)) (ac_objectives (storePlan cx plan s))"
    using inv ws by (simp add: f(2) cooInv_def)
  moreover have "fst ` set (ac_tasks (storePlan cx plan s)) \<subseteq> ac_entityIds (storePlan cx plan s)"
    using inv f(4) by (auto simp: t(1) cooInv_def)
  moreover have "withinLimits u \<and> dependenciesOk (ac_tasks (storePlan cx plan s)) u \<and>
      mhas (ac_objectives (storePlan cx plan s)) (key (ct_workspaceId u) (ct_objectiveId u))"
    if "mget (ac_tasks (storePlan cx plan s)) k = Some u" for k u
    using t(4) [OF that]
  proof (elim disjE bexE conjE)
    assume "mget (ac_tasks s) k = Some u"
    from cooInv_task [OF inv this] d(1) show ?thesis by (auto simp: f(2) mhas_def)
  next
    fix x assume x: "x \<in> set (op_tasks plan)" "u = newTaskState x"
    from newTaskState_withinLimits [OF storable_planned(1) [OF st x(1)]] d(2) [OF x(1)] storable_planned(3,4) [OF st x(1)]
    show ?thesis by (simp add: f(2) mhas_def x(2))
  qed
  ultimately show ?thesis
    using inv storePlan_planned [OF st] unfolding cooInv_def by (simp add: f(3))
qed

section \<open>Reachable states\<close>

lemma move_inv: "move s t \<Longrightarrow> cooInv s \<Longrightarrow> cooInv t"
  by (rule move_task_inv) (auto intro: storePlan_inv)

lemma moves_inv: "moves s t \<Longrightarrow> cooInv s \<Longrightarrow> cooInv t"
  by (induction rule: rtranclp_induct) (auto intro: move_inv)

text \<open>
  The operations, in any order and for any caller, and the surroundings: the factory, the broker and the
  event log have other users, who may change them in any way between two operations.
\<close>

inductive cooStep :: "AiCoo \<Rightarrow> AiCoo \<Rightarrow> bool" where
  cs_createPlan: "createPlan env cx plan s = (r, t) \<Longrightarrow> cooStep s t"
| cs_requestAssignment: "requestAssignment env cx request s = (r, t) \<Longrightarrow> cooStep s t"
| cs_recordUsage: "cooRecordUsage env cx taskId cost units s = (r, t) \<Longrightarrow> cooStep s t"
| cs_completeTask: "completeTask env cx taskId evidence s = (r, t) \<Longrightarrow> cooStep s t"
| cs_recordFailure: "recordFailure env cx taskId failureCode s = (r, t) \<Longrightarrow> cooStep s t"
| cs_surroundings: "cooStep s (s\<lparr>ac_factory := f, ac_broker := b, ac_sink := k\<rparr>)"

definition cooInit :: "AiCoo \<Rightarrow> bool" where
  "cooInit s = (\<exists>planners options broker factory sink capability. newAiCoo planners options broker factory sink capability = Inr s)"

abbreviation cooReachable :: "AiCoo \<Rightarrow> bool" where
  "cooReachable \<equiv> reach cooInit cooStep"

lemma cooStep_moves: "cooStep s t \<Longrightarrow> moves s t"
proof (induction rule: cooStep.induct)
  case (cs_surroundings s f b k)
  show ?case by (rule r_into_rtranclp, rule quiet) (simp add: sameBooks_def)
qed (auto dest: wpD [OF createPlan_moves] wpD [OF requestAssignment_moves] wpD [OF usage_moves] wpD [OF completeTask_moves]
      wpD [OF recordFailure_moves])

lemma cooInit_inv: "cooInit s \<Longrightarrow> cooInv s"
  by (auto simp: cooInit_def newAiCoo_def cooInv_def optionsOk_def outcome_simps)

interpretation coo: invariant_system cooInit cooStep cooInv
proof
  show "cooInit s \<Longrightarrow> cooInv s" for s by (rule cooInit_inv)
  show "cooInv s \<Longrightarrow> cooStep s t \<Longrightarrow> cooInv t" for s t by (metis cooStep_moves moves_inv)
qed

end
