(* ===== verification/Ai_Coo_Progress.thy ===== *)
theory Ai_Coo_Progress
  imports Ai_Coo_Invariants Agent_Factory_Invariants
begin

text \<open>
  That the planner gets its work done: the critical path of a stored objective is always found, and while
  fresh event ids and a working clock are supplied an operation that passes its checks succeeds.
\<close>

section \<open>The critical path is always found\<close>

definition durationIn :: "'a CooTask_scheme list \<Rightarrow> EntityId \<Rightarrow> int" where
  "durationIn tasks i = (case find (\<lambda>t. ct_id t = i) tasks of None \<Rightarrow> 0 | Some t \<Rightarrow> ct_estimatedDurationMs t)"

lemma durationIn_task: "distinct (map ct_id tasks) \<Longrightarrow> t \<in> set tasks \<Longrightarrow> durationIn tasks (ct_id t) = ct_estimatedDurationMs t"
  by (induction tasks) (auto simp: durationIn_def)

lemma newMap_distinct: "distinct (map fst entries) \<Longrightarrow> newMap entries = entries"
  unfolding newMap_def using foldl_mset_at [of entries "[]" id] by (simp add: case_prod_unfold)

lemma taskLinksOf_truncate [simp]: "taskLinksOf (map CooTask.truncate tasks) = taskLinksOf tasks"
  by (simp add: taskLinksOf_def comp_def CooTask.truncate_def)

lemma sum_list_bound: "(\<And>x. x \<in> set xs \<Longrightarrow> f x \<le> (b :: int)) \<Longrightarrow> sum_list (map f xs) \<le> int (length xs) * b"
proof (induction xs)
  case (Cons x xs)
  then have "f x \<le> b" "sum_list (map f xs) \<le> int (length xs) * b" by auto
  then show ?case by (simp add: distrib_right)
qed simp

text \<open>The sum of the durations of a validated plan is a safe integer.\<close>

lemma plannedOk_total:
  assumes "plannedOk options objective tasks" "optionsOk options"
  shows "sum_list (map ct_estimatedDurationMs tasks) \<le> MAX_SAFE_INTEGER"
proof -
  have "sum_list (map ct_estimatedDurationMs tasks) \<le> int (length tasks) * opt_maximumTaskDurationMs options"
    using assms(1) by (intro sum_list_bound) (auto simp: plannedOk_def)
  also have "\<dots> \<le> 1000 * (365 * 24 * 60 * 60 * 1000)"
    using assms by (intro mult_mono) (auto simp: plannedOk_def optionsOk_def)
  also have "\<dots> \<le> MAX_SAFE_INTEGER" by (simp add: MAX_SAFE_INTEGER_def)
  finally show ?thesis .
qed

lemma pathDuration_order:
  assumes "distinct order" "set order = set (map ct_id tasks)" "distinct (map ct_id tasks)"
  shows "pathDuration (durationIn tasks) order = sum_list (map ct_estimatedDurationMs tasks)"
proof -
  have "pathDuration (durationIn tasks) order = (\<Sum>i \<in> set order. durationIn tasks i)"
    using assms(1) by (simp add: pathDuration_def sum_list_distinct_conv_sum_set)
  also have "\<dots> = sum_list (map (durationIn tasks) (map ct_id tasks))"
    unfolding assms(2) sum_list_distinct_conv_sum_set [OF assms(3)] ..
  also have "\<dots> = sum_list (map ct_estimatedDurationMs tasks)"
    using durationIn_task [OF assms(3)] by (simp add: comp_def cong: map_cong)
  finally show ?thesis .
qed

text \<open>The two loops of \<open>criticalPath\<close> on the tasks of a validated plan.\<close>

lemma longest_chain_found:
  fixes tasks :: "'a CooTask_scheme list"
  assumes ok: "linksOk (taskLinksOf tasks)" and acyclic: "\<not> containsCycle (taskLinksOf tasks)" and t: "tasks \<noteq> []"
    and pos: "\<And>t. t \<in> set tasks \<Longrightarrow> 0 < ct_estimatedDurationMs t"
    and total: "sum_list (map ct_estimatedDurationMs tasks) \<le> MAX_SAFE_INTEGER"
  shows "\<exists>best e. bestLoop (newMap (map (\<lambda>t. (ct_id t, ct_dependencyIds t, ct_estimatedDurationMs t)) tasks)) [] (kahnOrder (taskLinksOf tasks)) = Some best \<and>
    longestOf (mvalues best) = Some e \<and> chain (taskLinksOf tasks) (snd e) \<and> snd e \<noteq> [] \<and>
    fst e = pathDuration (durationIn tasks) (snd e) \<and> (\<forall>p. chain (taskLinksOf tasks) p \<longrightarrow> pathDuration (durationIn tasks) p \<le> fst e)"
proof -
  let ?L = "taskLinksOf tasks" and ?order = "kahnOrder (taskLinksOf tasks)"
  let ?byId = "newMap (map (\<lambda>t. (ct_id t, ct_dependencyIds t, ct_estimatedDurationMs t)) tasks)"
  have d: "distinct (map ct_id tasks)" and ids: "fst ` set ?L = set (map ct_id tasks)"
    using ok by (auto simp: linksOk_def taskLinksOf_def comp_def image_image)
  have s: "schedule (byIdOf ?L) {} ?order" "set ?order = fst ` set ?L" "distinct ?order"
    using kahnOrder_done [OF ok] kahnOrder_tasks [OF ok] acyclic containsCycle_iff [OF ok] by auto
  have look: "mget ?byId i = Some (ds, durationIn tasks i)" if i: "(i, ds) \<in> set ?L" for i ds
  proof -
    from i obtain t where t: "t \<in> set tasks" "i = ct_id t" "ds = ct_dependencyIds t" by (auto simp: taskLinksOf_def)
    have e: "?byId = map (\<lambda>t. (ct_id t, ct_dependencyIds t, ct_estimatedDurationMs t)) tasks"
      using d by (intro newMap_distinct) (simp add: comp_def)
    show ?thesis unfolding e using t d durationIn_task [OF d t(1)] by (intro map_of_is_SomeI) (auto simp: comp_def)
  qed
  have nonneg: "0 \<le> durationIn tasks j" if j: "j \<in> fst ` set ?L" for j
  proof -
    from j ids obtain t where "t \<in> set tasks" "j = ct_id t" by auto
    then show ?thesis using durationIn_task [OF d] pos by fastforce
  qed
  have "pathDuration (durationIn tasks) ?order \<le> MAX_SAFE_INTEGER"
    using pathDuration_order [OF s(3) _ d] s(2) ids total by simp
  moreover have "bestInv ?L (durationIn tasks) [] []" by (simp add: bestInv_def)
  ultimately obtain best where b: "bestLoop ?byId [] ?order = Some best" "bestInv ?L (durationIn tasks) ?order best"
    using bestLoop_correct [OF ok look nonneg, of "[]" ?order "[]"] s(1) by auto
  have "?L \<noteq> []" using t by (simp add: taskLinksOf_def)
  from longestOf_best [OF b(2) s(2) this nonneg] b(1) show ?thesis by blast
qed

lemma requireObjective_planned:
  assumes inv: "cooInv s" and o: "requireObjective s cx objectiveId = Inr objective"
  shows "co_id objective = objectiveId" "co_workspaceId objective = cx_workspaceId cx"
    "plannedOk (ac_options s) objective (map CooTask.truncate (objectiveTasks s (cx_workspaceId cx) objectiveId))"
proof -
  have g: "mget (ac_objectives s) (key (cx_workspaceId cx) objectiveId) = Some objective"
    using o by (auto simp: requireObjective_def split: option.splits)
  have "key (cx_workspaceId cx) objectiveId = key (co_workspaceId objective) (co_id objective)"
    using inv g by (auto simp: cooInv_def dest: keyed_byD)
  then show w: "co_id objective = objectiveId" "co_workspaceId objective = cx_workspaceId cx" by auto
  show "plannedOk (ac_options s) objective (map CooTask.truncate (objectiveTasks s (cx_workspaceId cx) objectiveId))"
    using inv g unfolding cooInv_def plannedTasks_def by (metis w)
qed

lemma criticalPath_found:
  assumes inv: "cooInv s" and a: "assertPlanner s cx = Inr ()" and o: "requireObjective s cx objectiveId = Inr objective"
    and T: "tasks = objectiveTasks s (cx_workspaceId cx) objectiveId"
  shows "\<exists>report. criticalPath s cx objectiveId = Inr report \<and> cr_taskIds report \<noteq> [] \<and> chain (taskLinksOf tasks) (cr_taskIds report) \<and>
    cr_totalDurationMs report = pathDuration (durationIn tasks) (cr_taskIds report) \<and>
    (\<forall>p. chain (taskLinksOf tasks) p \<longrightarrow> pathDuration (durationIn tasks) p \<le> cr_totalDurationMs report)"
proof -
  note p = requireObjective_planned(3) [OF inv o]
  have opts: "optionsOk (ac_options s)" using inv by (simp add: cooInv_def)
  have "sum_list (map ct_estimatedDurationMs tasks) \<le> MAX_SAFE_INTEGER"
    using plannedOk_total [OF p opts] by (simp add: T comp_def CooTask.truncate_def)
  moreover have "linksOk (taskLinksOf tasks)" "\<not> containsCycle (taskLinksOf tasks)" "tasks \<noteq> []"
    "\<And>t. t \<in> set tasks \<Longrightarrow> 0 < ct_estimatedDurationMs t"
    using p by (auto simp: plannedOk_def T CooTask.truncate_def)
  ultimately obtain best e where
    "bestLoop (newMap (map (\<lambda>t. (ct_id t, ct_dependencyIds t, ct_estimatedDurationMs t)) tasks)) [] (kahnOrder (taskLinksOf tasks)) = Some best"
    "longestOf (mvalues best) = Some e" "chain (taskLinksOf tasks) (snd e)" "snd e \<noteq> []"
    "fst e = pathDuration (durationIn tasks) (snd e)" "\<forall>p. chain (taskLinksOf tasks) p \<longrightarrow> pathDuration (durationIn tasks) p \<le> fst e"
    using longest_chain_found [of tasks] by blast
  with \<open>\<not> containsCycle (taskLinksOf tasks)\<close> a o show ?thesis
    by (simp add: criticalPath_def Let_def T pathOf_def durationOf_def case_prod_unfold)
qed


section \<open>Publishing does not fail while ids and time are supplied\<close>

text \<open>
  The next \<open>k\<close> event ids are fresh and well formed, the clock stays in the range of dates, and no event sink can
  refuse an event.
\<close>

definition idsSupplied :: "CooEnv \<Rightarrow> nat \<Rightarrow> AiCoo \<Rightarrow> bool" where
  "idsSupplied env k s = (\<forall>n < k. cooText (env_ids env (ac_idCalls s + n)) ''event.id'' = Inr () \<and>
     env_ids env (ac_idCalls s + n) \<notin> ac_eventIds s \<and>
     (\<forall>m < n. env_ids env (ac_idCalls s + m) \<noteq> env_ids env (ac_idCalls s + n)))"

definition clockWorks :: "CooEnv \<Rightarrow> bool" where
  "clockWorks env = (\<forall>n. succeeds (cooNow (env_clock env n)) \<and> succeeds (cooNow (env_clock env n + 24 * 60 * 60 * 1000)))"

definition supplied :: "CooEnv \<Rightarrow> nat \<Rightarrow> AiCoo \<Rightarrow> bool" where
  "supplied env k s = (ac_sink s = None \<and> clockWorks env \<and> idsSupplied env k s)"

text \<open>Events and cards leave the books, the broker and the factory alone.\<close>

definition calm :: "AiCoo \<Rightarrow> AiCoo \<Rightarrow> bool" where
  "calm s t = (sameBooks s t \<and> ac_broker t = ac_broker s \<and> ac_factory t = ac_factory s)"

definition succeedsCalmly :: "CooEnv \<Rightarrow> nat \<Rightarrow> (AiCoo, CooError, unit) method \<Rightarrow> bool" where
  "succeedsCalmly env n m = (\<forall>k s. supplied env (n + k) s \<longrightarrow> (\<exists>t. m s = (Inr (), t) \<and> supplied env k t \<and> calm s t))"

lemma calm_refl [simp]: "calm s s"
  by (simp add: calm_def)

lemma calm_trans: "calm s t \<Longrightarrow> calm t u \<Longrightarrow> calm s u"
  by (auto simp: calm_def intro: sameBooks_trans)

lemma idsSupplied_next:
  assumes "idsSupplied env (Suc k) s" "ac_idCalls t = Suc (ac_idCalls s)"
    "ac_eventIds t = insert (env_ids env (ac_idCalls s)) (ac_eventIds s)"
  shows "idsSupplied env k t"
  unfolding idsSupplied_def assms(2,3)
proof (intro allI impI)
  fix n assume "n < k"
  then have "Suc n < Suc k" by simp
  note c = assms(1) [unfolded idsSupplied_def, rule_format, OF this]
  then have "env_ids env (ac_idCalls s) \<noteq> env_ids env (ac_idCalls s + Suc n)" by (metis add_0_right zero_less_Suc)
  moreover have "env_ids env (ac_idCalls s + Suc m) \<noteq> env_ids env (ac_idCalls s + Suc n)" if "m < n" for m
    using c that by blast
  ultimately show "cooText (env_ids env (Suc (ac_idCalls s) + n)) ''event.id'' = Inr () \<and>
      env_ids env (Suc (ac_idCalls s) + n) \<notin> insert (env_ids env (ac_idCalls s)) (ac_eventIds s) \<and>
      (\<forall>m < n. env_ids env (Suc (ac_idCalls s) + m) \<noteq> env_ids env (Suc (ac_idCalls s) + n))"
    using c by auto
qed

lemma emit_succeeds: "succeedsCalmly env 1 (emit env cx objectiveId type facts projectId taskId)"
  unfolding succeedsCalmly_def
proof (intro allI impI)
  fix k s assume s: "supplied env (1 + k) s"
  then have id0: "cooText (env_ids env (ac_idCalls s)) ''event.id'' = Inr ()" "env_ids env (ac_idCalls s) \<notin> ac_eventIds s"
    and sink: "ac_sink s = None" and c: "clockWorks env" and ids: "idsSupplied env (Suc k) s"
    by (auto simp: supplied_def idsSupplied_def)
  obtain at where at: "cooNow (env_clock env (ac_clockCalls s)) = Inr at" using c by (auto simp: clockWorks_def succeeds_iff)
  obtain t where t: "emit env cx objectiveId type facts projectId taskId s = (Inr (), t)" "ac_idCalls t = Suc (ac_idCalls s)"
    "ac_eventIds t = insert (env_ids env (ac_idCalls s)) (ac_eventIds s)" "ac_sink t = None" "calm s t"
    using id0 at sink
    by (simp add: emit_def andThen_def reads_def modify_def updates_def appendToCooSink_def Let_def checks.simps calm_def sameBooks_def)
  with c idsSupplied_next [OF ids] show "\<exists>t. emit env cx objectiveId type facts projectId taskId s = (Inr (), t) \<and> supplied env k t \<and> calm s t"
    by (auto simp: supplied_def)
qed

lemma calmly_ret: "succeedsCalmly env 0 (ret ())"
  by (simp add: succeedsCalmly_def ret_def)

lemma calmly_andThen:
  assumes m: "succeedsCalmly env i m" and k: "succeedsCalmly env j (k ())"
  shows "succeedsCalmly env (i + j) (andThen m k)"
  unfolding succeedsCalmly_def
proof (intro allI impI)
  fix n s assume "supplied env (i + j + n) s"
  then have "supplied env (i + (j + n)) s" by (simp add: add.assoc)
  with m obtain t where t: "m s = (Inr (), t)" "supplied env (j + n) t" "calm s t" by (auto simp: succeedsCalmly_def)
  with k obtain u where "k () t = (Inr (), u)" "supplied env n u" "calm t u" by (auto simp: succeedsCalmly_def)
  with t show "\<exists>t. andThen m k s = (Inr (), t) \<and> supplied env n t \<and> calm s t"
    by (auto simp: andThen_def intro: calm_trans)
qed

lemma calmly_each: "(\<And>x. succeedsCalmly env i (m x)) \<Longrightarrow> succeedsCalmly env (i * length xs) (each m xs)"
  by (induction xs) (auto intro: calmly_ret calmly_andThen)

lemma card_succeeds: "succeedsCalmly env 0 (createLevelFourCard env cx task)"
  unfolding succeedsCalmly_def
proof (intro allI impI)
  fix k s assume s: "supplied env (0 + k) s"
  then obtain at where "cooNow (env_clock env (ac_clockCalls s) + 24 * 60 * 60 * 1000) = Inr at"
    by (auto simp: supplied_def clockWorks_def succeeds_iff)
  with s show "\<exists>t. createLevelFourCard env cx task s = (Inr (), t) \<and> supplied env k t \<and> calm s t"
    by (simp add: createLevelFourCard_def andThen_def reads_def modify_def Let_def supplied_def idsSupplied_def calm_def sameBooks_def)
qed

lemma publishTask_succeeds: "succeedsCalmly env 2 (publishTask env cx task)"
proof -
  have "succeedsCalmly env (1 + (1 + 0)) (publishTask env cx task)"
    unfolding publishTask_def by (intro calmly_andThen emit_succeeds) (auto intro: card_succeeds calmly_ret)
  then show ?thesis by (simp add: numeral_2_eq_2)
qed

lemma publishPlan_succeeds:
  "succeedsCalmly env (1 + (1 * length (op_projects plan) + 2 * length (op_tasks plan))) (publishPlan env cx plan)"
  unfolding publishPlan_def Let_def
  by (intro calmly_andThen calmly_each emit_succeeds publishTask_succeeds)

text \<open>A plan that passes the checks of the planner and of the factory is stored, and its report is returned.\<close>

lemma createPlan_succeeds:
  assumes inv: "cooInv s" and p: "planChecksOf s cx plan = Inr ()"
    and f: "registerPlan cx (co_id (op_objective plan)) (map (\<lambda>t. (ct_id t, ct_objectiveId t)) (op_tasks plan)) (ac_factory s) = (Inr (), f')"
    and sup: "supplied env (1 + (1 * length (op_projects plan) + 2 * length (op_tasks plan)) + k) s"
  shows "\<exists>report t. createPlan env cx plan s = (Inr report, t) \<and> supplied env k t \<and> calm (storePlan cx plan (s\<lparr>ac_factory := f'\<rparr>)) t \<and>
    criticalPath t cx (co_id (op_objective plan)) = Inr report"
proof -
  let ?s = "s\<lparr>ac_factory := f'\<rparr>" let ?u = "storePlan cx plan ?s" and ?o = "op_objective plan"
  have q: "sameBooks s ?s" by (simp add: sameBooks_def)
  have inv': "cooInv ?u" using storePlan_inv [OF cooInv_books [OF q inv]] p sameBooks_simps(4) [OF q] by simp
  have keep: "ac_idCalls ?u = ac_idCalls s \<and> ac_eventIds ?u = ac_eventIds s \<and> ac_sink ?u = ac_sink s \<and> ac_planners ?u = ac_planners s"
  proof -
    have ps: "ac_idCalls (foldl storeProject v ps) = ac_idCalls v \<and> ac_eventIds (foldl storeProject v ps) = ac_eventIds v \<and>
      ac_sink (foldl storeProject v ps) = ac_sink v \<and> ac_planners (foldl storeProject v ps) = ac_planners v" for v ps
      by (induction ps arbitrary: v) (auto simp: storeProject_def Let_def)
    have ts: "ac_idCalls (foldl storeTask v ts) = ac_idCalls v \<and> ac_eventIds (foldl storeTask v ts) = ac_eventIds v \<and>
      ac_sink (foldl storeTask v ts) = ac_sink v \<and> ac_planners (foldl storeTask v ts) = ac_planners v" for v ts
      by (induction ts arbitrary: v) (auto simp: storeTask_def Let_def)
    show ?thesis by (simp add: storePlan_def ps ts storeObjective_def Let_def)
  qed
  then have "supplied env (1 + (1 * length (op_projects plan) + 2 * length (op_tasks plan)) + k) ?u"
    using sup by (simp add: supplied_def idsSupplied_def)
  then obtain t where t: "publishPlan env cx plan ?u = (Inr (), t)" "supplied env k t" "calm ?u t"
    using publishPlan_succeeds unfolding succeedsCalmly_def by blast
  have b: "sameBooks ?u t" using t(3) by (simp add: calm_def)
  have "mget (ac_objectives ?u) (key (cx_workspaceId cx) (co_id ?o)) = Some ?o"
    by (simp add: storePlan_def storeTasks_fields storeProjects_keep storeObjective_def Let_def)
  then have o: "requireObjective t cx (co_id ?o) = Inr ?o"
    using sameBooks_simps(2) [OF b] by (simp add: requireObjective_def)
  have "assertPlanner s cx = Inr ()" using p by (simp add: planChecksOf_def checks_Cons_Inr)
  then have a: "assertPlanner t cx = Inr ()" using keep sameBooks_simps(3) [OF b] by (simp add: assertPlanner_def)
  obtain report where r: "criticalPath t cx (co_id ?o) = Inr report"
    using criticalPath_found [OF cooInv_books [OF b inv'] a o refl] by blast
  have "createPlan env cx plan s = (Inr report, t)"
    using p f t(1) r by (simp add: createPlan_def Let_def andThen_def reads_def withFactory_def modify_def)
  with t r show ?thesis by blast
qed


lemma mset_at_same: "mget m k = Some v \<Longrightarrow> mset_at m k v = m"
  by (induction m) (auto simp: mset_at_def split: if_splits)

text \<open>A ready task stays ready: nothing is written and no event is emitted.\<close>

lemma refresh_ready:
  assumes inv: "cooInv s" and t: "requireTask s cx taskId = Inr task" "ts_status task = C_READY"
  shows "refreshTaskReadiness env cx taskId s = (Inr (), s)"
proof -
  note g = requireTask_key [OF inv t(1)]
  have "dependenciesOk (ac_tasks s) task" using cooInv_task(2) [OF inv g(1)] .
  then have "\<forall>d \<in> set (ct_dependencyIds task). \<exists>u. requireTask s cx d = Inr u \<and> ts_status u = C_COMPLETED"
    using t(2) g(2) by (auto simp: dependenciesOk_def dependencyOf_def mayStart_def requireTask_Inr)
  then obtain f where f: "\<And>d. d \<in> set (ct_dependencyIds task) \<Longrightarrow> requireTask s cx d = Inr (f d) \<and> ts_status (f d) = C_COMPLETED"
    by metis
  have d: "emap (requireTask s cx) (ct_dependencyIds task) = Inr (map f (ct_dependencyIds task))" using f by (intro emap_all) blast
  have r: "readinessOf (map f (ct_dependencyIds task)) = C_READY" using f by (auto simp: readinessOf_def)
  have "task\<lparr>ts_status := C_READY\<rparr> = task" using t(2) by (cases task) simp
  then have p: "putTaskState (task\<lparr>ts_status := C_READY\<rparr>) s = s" using g(1) by (simp add: putTaskState_def mset_at_same)
  show ?thesis
    using t d r p by (simp add: refreshTaskReadiness_def andThen_def reads_def modify_def ret_def TERMINAL_def Let_def)
qed

lemma requestAssignment_succeeds:
  assumes inv: "cooInv s" and a: "assertPlanner s cx = Inr ()" "cooText (ar_taskId request) ''taskId'' = Inr ()"
    and fresh: "key (cx_workspaceId cx) (fr_id (ar_factoryRequest request)) \<notin> ac_consumedAssignmentRequests s"
    and t: "requireTask s cx (ar_taskId request) = Inr task" and c: "assignmentChecks task request = Inr ()"
    and b: "askBroker env s cx (ar_routingRequest request) = Inr runtime"
    and f: "instantiate (env_sha256 env) (env_factoryClock env) cx (ar_factoryRequest request) (ac_factory s) = (Inr (agent, decision), f')"
    and sup: "supplied env (1 + k) s"
  shows "\<exists>u. requestAssignment env cx request s =
      (Inr \<lparr>ad_taskId = ct_id task, ad_agentId = fa_agentId agent, ad_runtime = runtime, ad_factoryDecision = decision,
        ad_runId = cooRunId (fr_id (ar_factoryRequest request))\<rparr>, u) \<and> supplied env k u \<and>
    calm (putTaskState (assignedTask task agent runtime (fr_id (ar_factoryRequest request)))
      (s\<lparr>ac_factory := f', ac_consumedAssignmentRequests :=
        insert (key (cx_workspaceId cx) (fr_id (ar_factoryRequest request))) (ac_consumedAssignmentRequests s)\<rparr>)) u"
proof -
  let ?q = "ar_factoryRequest request"
  let ?v = "putTaskState (assignedTask task agent runtime (fr_id ?q)) (s\<lparr>ac_factory := f', ac_consumedAssignmentRequests :=
      insert (key (cx_workspaceId cx) (fr_id ?q)) (ac_consumedAssignmentRequests s)\<rparr>)"
  have "supplied env (1 + k) ?v" using sup by (simp add: supplied_def idsSupplied_def putTaskState_def)
  then obtain u where u: "emitForTask env cx (assignedTask task agent runtime (fr_id ?q)) CE_task_assigned
       [(''agentId'', FText (fa_agentId agent)), (''runtimeId'', FText (rd_selectedRuntimeId runtime)),
        (''attempt'', FNum (ts_attempts (assignedTask task agent runtime (fr_id ?q))))] ?v = (Inr (), u)"
    "supplied env k u" "calm ?v u"
    using emit_succeeds unfolding succeedsCalmly_def emitForTask_def by blast
  have "ts_status task = C_READY" using assignmentChecks_Inr(2) [OF c] .
  from refresh_ready [OF inv t this] have r: "refreshTaskReadiness env cx (ar_taskId request) s = (Inr (), s)" .
  have "requestAssignment env cx request s = performAssignment env cx request task s"
    using a fresh t c r by (simp add: requestAssignment_def andThen_def reads_def checks.simps)
  also have "\<dots> = (Inr \<lparr>ad_taskId = ct_id task, ad_agentId = fa_agentId agent, ad_runtime = runtime, ad_factoryDecision = decision,
        ad_runId = cooRunId (fr_id ?q)\<rparr>, u)"
    using b f u(1) by (simp add: performAssignment_def andThen_def reads_def withFactory_def modify_def ret_def Let_def)
  finally show ?thesis using u by blast
qed

end
