(* ===== verification/Ai_Coo_Scenario.thy ===== *)
theory Ai_Coo_Scenario
  imports Ai_Coo_Progress
begin

text \<open>
  A planner at work: a plan of three tasks (a review, a report that depends on it, and a Level-4 task that
  depends on the report) is created, the review is assigned to an agent, uses some budget and completes.
  The properties of the planner are witnessed on these states.
\<close>

definition planner :: WorkspaceContext where
  "planner = \<lparr>cx_workspaceId = ''ws'', cx_principalId = ''coo''\<rparr>"

definition founder :: WorkspaceContext where
  "founder = \<lparr>cx_workspaceId = ''ws'', cx_principalId = ''owner''\<rparr>"

definition runnerProof :: RuntimeProof where
  "runnerProof = \<lparr>prf_verified = True, prf_runtimeId = ''runner'', prf_principalId = ''bot'', prf_connectionId = ''c1''\<rparr>"

definition runner :: RuntimeRoutingCandidate where
  "runner = \<lparr>rc_runtimeId = ''runner'', rc_connectionId = ''c1'', rc_workspaceId = ''ws'', rc_connectionStatus = CONNECTED,
     rc_authenticatedPrincipalId = ''bot'',
     rc_trustEvidence = \<lparr>te_registration = runnerProof, te_capabilityExchange = runnerProof,
       te_heartbeat = \<lparr>prf_verified = True, prf_runtimeId = ''runner'', prf_principalId = ''bot'',
         prf_connectionId = ''c1'', prf_observedAt = ''1970-01-01T00:00:01.000Z''\<rparr>,
       te_taskRoundTrip = runnerProof\<rparr>,
     rc_capabilityIds = [''repository.review''], rc_toolGrants = [\<lparr>rtg_toolId = ''git.readonly'', rtg_scopes = [''read'']\<rparr>],
     rc_maximumDataSensitivity = CONFIDENTIAL, rc_securityTier = 2, rc_reliabilityScoreBps = 9000,
     rc_qualityScoreBps = 9000, rc_expectedLatencyMs = 100, rc_estimatedCostMinorUnits = 5,
     rc_activeRuns = 0, rc_maxConcurrentRuns = 2, rc_remainingBudgetMinorUnits = 500, rc_remainingComputeUnits = 10\<rparr>"

definition teamBroker :: RuntimeBroker where
  "teamBroker = snd (putCandidateEvidence founder runner (newRuntimeBroker [''owner'']))"

definition teamLimits :: AgentFactoryLimits where
  "teamLimits = \<lparr>lim_maxAgents = 3, lim_maxAgentsPerWorkspace = 2, lim_maxChildrenPerAgent = 1, lim_maxNestingDepth = 1,
     lim_maxConcurrentAgents = 3, lim_maxRuntimeMs = 1000, lim_maxRetries = 2, lim_maxBudgetMinorUnits = 100,
     lim_maxComputeUnits = 10\<rparr>"

definition reviewerTemplate :: AgentTemplate where
  "reviewerTemplate = \<lparr>tpl_id = ''tpl'', tpl_version = 1, tpl_workspaceId = ''ws'', tpl_role = ''reviewer'', tpl_department = ''eng'',
     tpl_repositoryScopes = [''repo''], tpl_environmentScopes = [''dev''], tpl_dataScopes = [''public''],
     tpl_capabilityIds = [''repository.review''], tpl_toolGrants = [\<lparr>fg_toolId = ''git.readonly'', fg_scopes = [''read'']\<rparr>],
     tpl_maximumAuthority = 2, tpl_maximumRuntimeMs = 1000, tpl_maximumRetries = 1, tpl_maximumChildren = 1,
     tpl_maximumBudgetMinorUnits = 50, tpl_maximumComputeUnits = 5, tpl_retention = ARCHIVE\<rparr>"

definition teamFactory :: AgentFactory where
  "teamFactory = snd (putTemplate founder reviewerTemplate
     \<lparr>af_authorizers = {''owner''}, af_cooPrincipals = {''coo''}, af_limits = teamLimits, af_sink = None,
      af_templates = [], af_agents = [], af_consumedRequests = {}, af_objectives = {}, af_tasks = [],
      af_decisions = [], af_events = []\<rparr>)"

definition teamOptions :: AiCooOptions where
  "teamOptions = \<lparr>opt_maximumObjectiveCostMinorUnits = 1000, opt_maximumObjectiveComputeUnits = 100,
     opt_maximumTasksPerObjective = 10, opt_maximumProjectsPerObjective = 5, opt_maximumTaskDurationMs = 100000,
     opt_maximumRetriesPerTask = 3\<rparr>"

definition limitOf :: "int \<Rightarrow> int \<Rightarrow> CostLimit" where
  "limitOf minor compute = \<lparr>cl_currency = ''EUR'', cl_maximumMinorUnits = minor, cl_maximumComputeUnits = compute\<rparr>"

definition planTask :: "EntityId \<Rightarrow> EntityId list \<Rightarrow> int \<Rightarrow> int \<Rightarrow> CooTask" where
  "planTask i ds authority duration =
     \<lparr>ct_id = i, ct_workspaceId = ''ws'', ct_objectiveId = ''obj'', ct_projectId = ''proj'', ct_title = i, ct_kind = RepositoryReview,
      ct_dependencyIds = ds, ct_requiredAuthority = authority, ct_costLimit = limitOf 20 2, ct_estimatedDurationMs = duration,
      ct_acceptanceCriteria = [''done''], ct_verificationCriteria = [''checked''], ct_stopConditions = [''late'', ''costly''],
      ct_retryPolicy = \<lparr>rt_maximumAttempts = 2, rt_retryableFailureCodes = [''E1''], rt_stopAfterFailureCodes = [''E2'']\<rparr>,
      ct_agentPolicy = \<lparr>ap_templateId = ''tpl'', ap_templateVersion = 1, ap_parentAgentId = None, ap_repositoryScopes = [''repo''],
        ap_environmentScopes = [''dev''], ap_dataScopes = [''public''], ap_capabilityIds = [''repository.review''],
        ap_toolGrants = [\<lparr>fg_toolId = ''git.readonly'', fg_scopes = [''read'']\<rparr>], ap_maxRuntimeMs = 500, ap_childLimit = 0,
        ap_retention = ARCHIVE\<rparr>,
      ct_routingPolicy = \<lparr>rp_requiredCapabilityIds = [''repository.review''],
        rp_requiredTools = [\<lparr>rqt_toolId = ''git.readonly'', rqt_scope = ''read''\<rparr>], rp_dataSensitivity = INTERNAL,
        rp_minimumSecurityTier = 1, rp_minimumReliabilityScoreBps = 8000, rp_maximumLatencyMs = 1000,
        rp_heartbeatFreshnessMs = 60000, rp_weights = None\<rparr>,
      ct_exactTarget = Some ''main branch''\<rparr>"

definition teamPlan :: ObjectivePlan where
  "teamPlan = \<lparr>op_objective = \<lparr>co_id = ''obj'', co_workspaceId = ''ws'', co_title = ''Release'', co_desiredOutcome = ''Released'',
       co_maximumAuthority = 4, co_costLimit = limitOf 100 10, co_acceptanceCriteria = [''done''],
       co_verificationCriteria = [''checked''], co_stopConditions = [''late'']\<rparr>,
     op_projects = [\<lparr>cp_id = ''proj'', cp_workspaceId = ''ws'', cp_objectiveId = ''obj'', cp_title = ''Release''\<rparr>],
     op_tasks = [planTask ''review'' [] 1 1000, planTask ''report'' [''review''] 1 2000, planTask ''publish'' [''report''] 4 500]\<rparr>"

text \<open>A clock that stands still, and event ids counted from zero.\<close>

definition teamEnv :: CooEnv where
  "teamEnv = \<lparr>env_clock = (\<lambda>n. 5000), env_ids = (\<lambda>n. ''event-'' @ nat_text n), env_brokerClock = 5000,
     env_factoryClock = 5000, env_sha256 = (\<lambda>_. ''digest''), env_dateParse = (\<lambda>_. None), env_verify = (\<lambda>_ _ _ _. True)\<rparr>"

definition teamRequest :: "EntityId \<Rightarrow> EntityId \<Rightarrow> AssignmentRequest" where
  "teamRequest i taskId = \<lparr>ar_taskId = taskId,
     ar_factoryRequest = \<lparr>fr_id = i, fr_workspaceId = ''ws'', fr_templateId = ''tpl'', fr_templateVersion = 1,
       fr_objectiveId = ''obj'', fr_taskId = taskId, fr_parentAgentId = None, fr_repositoryScopes = [''repo''],
       fr_environmentScopes = [''dev''], fr_dataScopes = [''public''], fr_capabilityIds = [''repository.review''],
       fr_toolGrants = [\<lparr>fg_toolId = ''git.readonly'', fg_scopes = [''read'']\<rparr>], fr_authorityLevel = 1, fr_budgetMinorUnits = 20,
       fr_computeUnits = 2, fr_maxRuntimeMs = 500, fr_retryLimit = 1, fr_childLimit = 0, fr_acceptanceCriteria = [''done''],
       fr_verificationCriteria = [''checked''], fr_stopCondition = ''late AND costly'', fr_retention = ARCHIVE\<rparr>,
     ar_routingRequest = \<lparr>rr_id = i, rr_workspaceId = ''ws'', rr_requiredCapabilityIds = [''repository.review''],
       rr_requiredTools = [\<lparr>rqt_toolId = ''git.readonly'', rqt_scope = ''read''\<rparr>], rr_dataSensitivity = INTERNAL,
       rr_minimumSecurityTier = 1, rr_minimumReliabilityScoreBps = 8000, rr_maximumLatencyMs = 1000,
       rr_maximumCostMinorUnits = 20, rr_requiredComputeUnits = 2, rr_heartbeatFreshnessMs = 60000, rr_weights = None\<rparr>\<rparr>"

definition teamStart :: AiCoo where
  "teamStart = \<lparr>ac_planners = {''coo''}, ac_options = teamOptions, ac_sink = None, ac_broker = teamBroker, ac_factory = teamFactory,
     ac_objectives = [], ac_projects = [], ac_tasks = [], ac_events = [], ac_eventIds = {}, ac_approvals = [],
     ac_consumedAssignmentRequests = {}, ac_entityIds = {}, ac_clockCalls = 0, ac_idCalls = 0\<rparr>"

text \<open>The factory after the plan has been registered, and after the first agent has been created.\<close>

definition teamRegistered :: AgentFactory where
  "teamRegistered = snd (registerPlan planner ''obj'' [(''review'', ''obj''), (''report'', ''obj''), (''publish'', ''obj'')] teamFactory)"

definition teamStaffed :: AgentFactory where
  "teamStaffed = snd (instantiate (env_sha256 teamEnv) 5000 planner (ar_factoryRequest (teamRequest ''r1'' ''review'')) teamRegistered)"

definition teamPlanned :: AiCoo where
  "teamPlanned = snd (createPlan teamEnv planner teamPlan teamStart)"

definition teamAssigned :: AiCoo where
  "teamAssigned = snd (requestAssignment teamEnv planner (teamRequest ''r1'' ''review'') teamPlanned)"

lemma teamStart_reachable: "cooReachable teamStart"
proof (rule reach.reach_init)
  have "newAiCoo [''coo''] teamOptions teamBroker teamFactory None None = Inr teamStart"
    by (simp add: newAiCoo_def teamStart_def teamOptions_def cooInteger_def isSafeInteger_def MAX_SAFE_INTEGER_def checks.simps)
  then show "cooInit teamStart" unfolding cooInit_def by blast
qed

lemma coo_snd_reachable:
  "cooReachable s \<Longrightarrow> cooReachable (snd (createPlan env cx plan s))"
  "cooReachable s \<Longrightarrow> cooReachable (snd (requestAssignment env cx request s))"
  by (metis cooStep.intros prod.collapse reach.reach_step)+

lemma team_reachable: "cooReachable teamPlanned" "cooReachable teamAssigned"
  unfolding teamAssigned_def teamPlanned_def by (intro coo_snd_reachable teamStart_reachable)+

section \<open>The plan is created\<close>

lemma team_plan_checks: "planChecksOf teamStart planner teamPlan = Inr ()"
  by code_simp

lemma team_registers:
  "registerPlan planner ''obj'' (map (\<lambda>t. (ct_id t, ct_objectiveId t)) (op_tasks teamPlan)) teamFactory = (Inr (), teamRegistered)"
proof -
  have "fst (registerPlan planner ''obj'' (map (\<lambda>t. (ct_id t, ct_objectiveId t)) (op_tasks teamPlan)) teamFactory) = Inr ()" by code_simp
  then show ?thesis by (simp add: teamRegistered_def teamPlan_def planTask_def prod_eq_iff)
qed

lemma team_clock: "clockWorks teamEnv"
proof -
  have "succeeds (cooNow 5000)" "succeeds (cooNow (5000 + 24 * 60 * 60 * 1000))" by code_simp+
  then show ?thesis by (simp add: clockWorks_def teamEnv_def)
qed

lemma team_supplied: "supplied teamEnv 10 teamStart"
proof -
  have t: "\<forall>n \<in> set [0..<10]. cooText (env_ids teamEnv n) ''event.id'' = Inr ()" and d: "distinct (map (env_ids teamEnv) [0..<10])"
    by code_simp+
  have "cooText (env_ids teamEnv n) ''event.id'' = Inr ()" if "n < 10" for n using t that by simp
  moreover have "env_ids teamEnv m \<noteq> env_ids teamEnv n" if "m < n" "n < 10" for m n
    using d that by (simp add: distinct_map) (metis atLeastLessThan_iff inj_on_contraD less_imp_not_eq less_trans zero_le)
  ultimately show ?thesis using team_clock by (simp add: supplied_def idsSupplied_def teamStart_def)
qed

abbreviation reviewTask :: CooTask where
  "reviewTask \<equiv> planTask ''review'' [] 1 1000"

lemma team_planned:
  "\<exists>report. createPlan teamEnv planner teamPlan teamStart = (Inr report, teamPlanned) \<and>
     criticalPath teamPlanned planner ''obj'' = Inr report"
  "calm (storePlan planner teamPlan (teamStart\<lparr>ac_factory := teamRegistered\<rparr>)) teamPlanned" "supplied teamEnv 2 teamPlanned"
proof -
  have f: "registerPlan planner (co_id (op_objective teamPlan)) (map (\<lambda>t. (ct_id t, ct_objectiveId t)) (op_tasks teamPlan))
      (ac_factory teamStart) = (Inr (), teamRegistered)"
    using team_registers by (simp add: teamPlan_def teamStart_def)
  have s: "supplied teamEnv (1 + (1 * length (op_projects teamPlan) + 2 * length (op_tasks teamPlan)) + 2) teamStart"
    using team_supplied by (simp add: teamPlan_def)
  obtain report t where r: "createPlan teamEnv planner teamPlan teamStart = (Inr report, t)" "supplied teamEnv 2 t"
    "calm (storePlan planner teamPlan (teamStart\<lparr>ac_factory := teamRegistered\<rparr>)) t"
    "criticalPath t planner (co_id (op_objective teamPlan)) = Inr report"
    using createPlan_succeeds [OF coo.reach_inv [OF teamStart_reachable] team_plan_checks f s] by blast
  moreover from r have "t = teamPlanned" by (simp add: teamPlanned_def)
  ultimately show "\<exists>report. createPlan teamEnv planner teamPlan teamStart = (Inr report, teamPlanned) \<and>
      criticalPath teamPlanned planner ''obj'' = Inr report" "supplied teamEnv 2 teamPlanned"
    "calm (storePlan planner teamPlan (teamStart\<lparr>ac_factory := teamRegistered\<rparr>)) teamPlanned"
    by (auto simp: teamPlan_def)
qed

lemma team_planned_tasks:
  "ac_tasks teamPlanned = map (\<lambda>t. (key ''ws'' (ct_id t), newTaskState t)) (op_tasks teamPlan)"
proof -
  have "ac_tasks teamPlanned = ac_tasks (storePlan planner teamPlan (teamStart\<lparr>ac_factory := teamRegistered\<rparr>))"
    using team_planned(2) by (simp add: calm_def sameBooks_def)
  also have "\<dots> = map (\<lambda>t. (key ''ws'' (ct_id t), newTaskState t)) (op_tasks teamPlan)"
    by (simp add: storePlan_def storeTask_def storeProject_def storeObjective_def teamStart_def teamPlan_def planTask_def mset_at_def Let_def)
  finally show ?thesis .
qed


section \<open>The first task is assigned\<close>

lemma team_staffs:
  "\<exists>agent decision. instantiate (env_sha256 teamEnv) (env_factoryClock teamEnv) planner (ar_factoryRequest (teamRequest ''r1'' ''review'')) teamRegistered =
     (Inr (agent, decision), teamStaffed)"
proof -
  have "succeeds (fst (instantiate (env_sha256 teamEnv) 5000 planner (ar_factoryRequest (teamRequest ''r1'' ''review'')) teamRegistered))"
    by code_simp
  moreover have "env_factoryClock teamEnv = 5000" by (simp add: teamEnv_def)
  ultimately show ?thesis unfolding teamStaffed_def succeeds_iff by (metis prod.collapse)
qed

lemma team_routes: "succeeds (route (env_dateParse teamEnv) (env_brokerClock teamEnv) teamBroker planner (ar_routingRequest (teamRequest ''r1'' ''review'')))"
  by code_simp

lemma team_ready: "assignmentChecks (newTaskState reviewTask) (teamRequest ''r1'' ''review'') = Inr ()"
  by code_simp

lemma team_planned_books:
  "ac_planners teamPlanned = {''coo''}" "ac_consumedAssignmentRequests teamPlanned = {}" "ac_broker teamPlanned = teamBroker"
  "ac_factory teamPlanned = teamRegistered" "ac_objectives teamPlanned = [(key ''ws'' ''obj'', op_objective teamPlan)]"
  using team_planned(2) by (simp_all add: calm_def sameBooks_def storePlan_def storeTask_def storeProject_def storeObjective_def
      teamPlan_def teamStart_def planner_def mset_at_def Let_def)

lemma team_planner: "ac_planners s = {''coo''} \<Longrightarrow> assertPlanner s planner = Inr ()"
proof -
  have "cooText (cx_workspaceId planner) ''context.workspaceId'' = Inr ()" by code_simp
  then show "ac_planners s = {''coo''} \<Longrightarrow> assertPlanner s planner = Inr ()" by (simp add: assertPlanner_def planner_def checks.simps)
qed

lemma team_review: "requireTask teamPlanned planner ''review'' = Inr (newTaskState reviewTask)"
  by (simp add: requireTask_def team_planned_tasks teamPlan_def planner_def planTask_def)

lemma team_assigned:
  "\<exists>decision agent runtime. requestAssignment teamEnv planner (teamRequest ''r1'' ''review'') teamPlanned = (Inr decision, teamAssigned) \<and>
     calm (putTaskState (assignedTask (newTaskState reviewTask) agent runtime ''r1'')
       (teamPlanned\<lparr>ac_factory := teamStaffed, ac_consumedAssignmentRequests := {key ''ws'' ''r1''}\<rparr>)) teamAssigned"
proof -
  let ?q = "teamRequest ''r1'' ''review''"
  have q: "ar_taskId ?q = ''review''" "fr_id (ar_factoryRequest ?q) = ''r1''" "cx_workspaceId planner = ''ws''"
    by (simp_all add: teamRequest_def planner_def)
  have "cooText (ar_taskId ?q) ''taskId'' = Inr ()" by code_simp
  then have a: "assertPlanner teamPlanned planner = Inr ()" "cooText (ar_taskId ?q) ''taskId'' = Inr ()"
    "key (cx_workspaceId planner) (fr_id (ar_factoryRequest ?q)) \<notin> ac_consumedAssignmentRequests teamPlanned"
    using team_planner team_planned_books(1,2) by simp_all
  obtain runtime where r: "askBroker teamEnv teamPlanned planner (ar_routingRequest ?q) = Inr runtime"
    using team_routes by (auto simp: askBroker_def team_planned_books(3) succeeds_iff)
  obtain agent decision where f: "instantiate (env_sha256 teamEnv) (env_factoryClock teamEnv) planner (ar_factoryRequest ?q)
      (ac_factory teamPlanned) = (Inr (agent, decision), teamStaffed)"
    using team_staffs team_planned_books(4) by auto
  have s: "supplied teamEnv (1 + 1) teamPlanned" using team_planned(3) by (simp add: numeral_2_eq_2)
  have t: "requireTask teamPlanned planner (ar_taskId ?q) = Inr (newTaskState reviewTask)" using team_review q(1) by simp
  from requestAssignment_succeeds [OF coo.reach_inv [OF team_reachable(1)] a t team_ready r f s]
  obtain d u where u: "requestAssignment teamEnv planner ?q teamPlanned = (Inr d, u)"
    "calm (putTaskState (assignedTask (newTaskState reviewTask) agent runtime ''r1'')
       (teamPlanned\<lparr>ac_factory := teamStaffed, ac_consumedAssignmentRequests := {key ''ws'' ''r1''}\<rparr>)) u"
    unfolding q(2,3) team_planned_books(2) by auto
  moreover from u(1) have "u = teamAssigned" by (simp add: teamAssigned_def)
  ultimately show ?thesis by blast
qed

lemma team_assigned_objectives: "ac_objectives teamAssigned = [(key ''ws'' ''obj'', op_objective teamPlan)]"
  "ac_planners teamAssigned = {''coo''}"
  using team_assigned team_planned_books(1,5) by (auto simp: calm_def sameBooks_def putTaskState_def)

end
