(* ===== verification/Ai_Coo_Properties.thy ===== *)
theory Ai_Coo_Properties
  imports Ai_Coo_Scenario "HOL-Library.While_Combinator"
begin

text \<open>
  The properties of the planner, over every state it can reach, with witnesses in the states of
  \<open>Ai_Coo_Scenario\<close>.
\<close>

section \<open>The dependency graph\<close>

text \<open>
  C35.  The two dependency checks of the package agree with each other and with the existence of a working order.  For
  tasks with distinct ids whose dependencies are distinct and belong to the plan, the ready queue of the planner reports
  no cycle exactly when the depth-first search of the durable task policy accepts the plan, exactly when the tasks can
  be put in an order in which every dependency comes before its dependents; the queue then lists them in such an order.
\<close>

theorem dependency_checks_agree:
  assumes "linksOk tasks"
  shows "(\<not> containsCycle tasks \<longleftrightarrow> assertAcyclic tasks = Inr ()) \<and>
    (assertAcyclic tasks = Inr () \<longleftrightarrow> (\<exists>order. workable order tasks)) \<and>
    ((\<exists>order. workable order tasks) \<longrightarrow> workable (kahnOrder tasks) tasks)"
proof -
  have "distinct (map fst tasks)" using assms by (simp add: linksOk_def)
  then show ?thesis
    using containsCycle_workable [OF assms] kahnOrder_workable [OF assms] acyclic_iff_workable by blast
qed

theorem dependency_checks_agree_witness:
  "workable (kahnOrder [(''a'', [''b'', ''c'']), (''b'', [''c'']), (''c'', [])]) [(''a'', [''b'', ''c'']), (''b'', [''c'']), (''c'', [])] \<and>
   assertAcyclic [(''a'', [''b'']), (''b'', [''a''])] \<noteq> Inr () \<and> \<not> (\<exists>order. workable order [(''a'', [''b'']), (''b'', [''a''])])"
proof -
  have "linksOk [(''a'', [''b'', ''c'']), (''b'', [''c'']), (''c'', [])]" "linksOk [(''a'', [''b'']), (''b'', [''a''])]"
    "\<not> containsCycle [(''a'', [''b'', ''c'']), (''b'', [''c'']), (''c'', [])]" "containsCycle [(''a'', [''b'']), (''b'', [''a''])]"
    by code_simp+
  then show ?thesis
    using dependency_checks_agree [of "[(''a'', [''b'', ''c'']), (''b'', [''c'']), (''c'', [])]"]
      dependency_checks_agree [of "[(''a'', [''b'']), (''b'', [''a''])]"] by blast
qed

text \<open>
  The \<open>while\<close> loop of the queue over the state (open dependencies, queue, ordered): its condition, and its body as a
  function of the state.
\<close>

abbreviation queueNonempty :: "int jsmap \<times> string list \<times> string list \<Rightarrow> bool" where
  "queueNonempty st \<equiv> fst (snd st) \<noteq> []"

abbreviation queueRound :: "string list jsmap \<Rightarrow> int jsmap \<times> string list \<times> string list \<Rightarrow> int jsmap \<times> string list \<times> string list" where
  "queueRound dependents st \<equiv> kahnRound dependents (fst st) (hd (fst (snd st))) (tl (fst (snd st))) (snd (snd st))"

text \<open>The loop ends with the result of the recursion, after one round for each task it appends.\<close>

lemma kahnLoop_rounds:
  "\<exists>indegree' n. while_option queueNonempty (queueRound dependents) (indegree, ready, ordered) =
       Some (indegree', [], kahnLoop dependents indegree ready ordered) \<and>
     (queueRound dependents ^^ n) (indegree, ready, ordered) = (indegree', [], kahnLoop dependents indegree ready ordered) \<and>
     length (kahnLoop dependents indegree ready ordered) = length ordered + n"
proof (induction dependents indegree ready ordered rule: kahnLoop.induct)
  case (1 dependents indegree ordered)
  show ?case by (intro exI [of _ indegree] exI [of _ 0]) (simp add: while_option_unfold)
next
  case (2 dependents indegree i ready ordered)
  let ?st = "kahnRound dependents indegree i ready ordered"
  from "2.IH" [OF refl] obtain indegree' n where
    "while_option queueNonempty (queueRound dependents) ?st = Some (indegree', [], kahnLoop dependents indegree (i # ready) ordered)"
    "(queueRound dependents ^^ n) ?st = (indegree', [], kahnLoop dependents indegree (i # ready) ordered)"
    "length (kahnLoop dependents indegree (i # ready) ordered) = length (snd (snd ?st)) + n"
    by (auto simp: Let_def)
  moreover have "length (snd (snd ?st)) = Suc (length ordered)" by (simp add: kahnRound_def Let_def)
  ultimately show ?case
    by (intro exI [of _ indegree'] exI [of _ "Suc n"]) (simp add: while_option_unfold [of _ _ "(indegree, i # ready, ordered)"] funpow_Suc_right del: kahnLoop.simps funpow.simps)
qed

text \<open>
  C36.  For tasks with distinct ids whose dependencies are distinct and belong to the plan, the ready queue ends,
  whether the graph has a cycle or not: its loop, run on the state of \<open>criticalPath\<close>, stops with an empty queue and the
  listed tasks after at most as many rounds as there are tasks, every task having been taken at most once; and when the
  tasks can be worked at all, all of them are taken, each after its dependencies.
\<close>

theorem ready_queue_ends:
  assumes "linksOk tasks" and "start = (indegreeOf tasks, initialReady (indegreeOf tasks), [])"
  shows "(\<exists>indegree n. while_option queueNonempty (queueRound (dependentsOf tasks)) start = Some (indegree, [], kahnOrder tasks) \<and>
      n \<le> length tasks \<and> (queueRound (dependentsOf tasks) ^^ n) start = (indegree, [], kahnOrder tasks)) \<and>
    distinct (kahnOrder tasks) \<and> set (kahnOrder tasks) \<subseteq> fst ` set tasks \<and>
    ((\<exists>order. workable order tasks) \<longrightarrow> set (kahnOrder tasks) = fst ` set tasks \<and> workable (kahnOrder tasks) tasks)"
proof -
  have "length (kahnOrder tasks) \<le> length tasks"
    using kahnOrder_tasks [OF assms(1)] distinct_card [of "kahnOrder tasks"] card_mono [of "fst ` set tasks" "set (kahnOrder tasks)"]
      card_image_le [of "set tasks" fst] card_length [of tasks] by simp
  moreover obtain indegree n where
    "while_option queueNonempty (queueRound (dependentsOf tasks)) start = Some (indegree, [], kahnOrder tasks)"
    "(queueRound (dependentsOf tasks) ^^ n) start = (indegree, [], kahnOrder tasks)" "length (kahnOrder tasks) = n"
    using kahnLoop_rounds [of "dependentsOf tasks" "indegreeOf tasks" "initialReady (indegreeOf tasks)" "[]"]
    unfolding kahnOrder_def assms(2) by auto
  ultimately have "\<exists>indegree n. while_option queueNonempty (queueRound (dependentsOf tasks)) start = Some (indegree, [], kahnOrder tasks) \<and>
      n \<le> length tasks \<and> (queueRound (dependentsOf tasks) ^^ n) start = (indegree, [], kahnOrder tasks)" by auto
  moreover have "set (kahnOrder tasks) = fst ` set tasks \<and> workable (kahnOrder tasks) tasks" if "\<exists>order. workable order tasks"
    using that containsCycle_workable [OF assms(1)] kahnOrder_workable [OF assms(1)] containsCycle_iff [OF assms(1)] by blast
  ultimately show ?thesis using kahnOrder_tasks [OF assms(1)] by blast
qed

text \<open>A cycle of two tasks beside a third: the loop ends with the third.\<close>

theorem ready_queue_ends_witness:
  "\<exists>indegree. while_option queueNonempty (queueRound (dependentsOf [(''a'', [''b'']), (''b'', [''a'']), (''c'', [])]))
     (indegreeOf [(''a'', [''b'']), (''b'', [''a'']), (''c'', [])], initialReady (indegreeOf [(''a'', [''b'']), (''b'', [''a'']), (''c'', [])]), []) =
     Some (indegree, [], [''c''])"
proof -
  have "linksOk [(''a'', [''b'']), (''b'', [''a'']), (''c'', [])]" "kahnOrder [(''a'', [''b'']), (''b'', [''a'']), (''c'', [])] = [''c'']"
    by code_simp+
  then show ?thesis using ready_queue_ends [of "[(''a'', [''b'']), (''b'', [''a'']), (''c'', [])]", OF _ refl] by auto
qed

text \<open>
  C37.  The critical path is found and is the longest chain.  For an objective of the workspace the report is always
  returned (no cycle and no numeric overflow can occur); the path is a chain of tasks, each a direct dependency
  of the next, its total is the sum of the durations, and no chain of dependencies of the objective takes longer.
\<close>

theorem critical_path_longest:
  assumes "cooReachable s" "assertPlanner s cx = Inr ()" "requireObjective s cx objectiveId = Inr objective"
    and "tasks = objectiveTasks s (cx_workspaceId cx) objectiveId"
  shows "\<exists>report. criticalPath s cx objectiveId = Inr report \<and> cr_taskIds report \<noteq> [] \<and> chain (taskLinksOf tasks) (cr_taskIds report) \<and>
    cr_totalDurationMs report = pathDuration (durationIn tasks) (cr_taskIds report) \<and>
    (\<forall>p. chain (taskLinksOf tasks) p \<longrightarrow> pathDuration (durationIn tasks) p \<le> cr_totalDurationMs report)"
  using criticalPath_found [OF coo.reach_inv [OF assms(1)] assms(2-4)] .

theorem critical_path_longest_witness:
  "\<exists>report. criticalPath teamPlanned planner ''obj'' = Inr report \<and> 3500 \<le> cr_totalDurationMs report"
proof -
  let ?T = "objectiveTasks teamPlanned (cx_workspaceId planner) ''obj''"
  note a = team_planner [OF team_planned_books(1)]
  have r: "requireObjective teamPlanned planner ''obj'' = Inr (op_objective teamPlan)"
    by (simp add: requireObjective_def planner_def team_planned_books(5))
  have T: "?T = map newTaskState (op_tasks teamPlan)"
    by (simp add: objectiveTasks_def team_planned_tasks mvalues_def teamPlan_def planTask_def planner_def)
  have "chain (taskLinksOf ?T) [''review'', ''report'', ''publish'']" "pathDuration (durationIn ?T) [''review'', ''report'', ''publish''] = 3500"
    unfolding T by code_simp+
  then show ?thesis using critical_path_longest [OF team_reachable(1) a r refl] by metis
qed


section \<open>Budgets, order of work\<close>

text \<open>
  C38.  Budgets and attempts stay within their limits, in every reachable state: a task never uses more cost or
  compute than its limit and is never tried more often than its retry policy allows, and all tasks of an
  objective together never use more than the objective's limits, nor more than the ceilings of the company.
\<close>

theorem budgets_never_exceeded:
  assumes "cooReachable s" "mget (ac_objectives s) k = Some objective"
    and "tasks = objectiveTasks s (co_workspaceId objective) (co_id objective)"
  shows "(\<forall>t \<in> set tasks. 0 \<le> ts_costUsedMinorUnits t \<and> ts_costUsedMinorUnits t \<le> cl_maximumMinorUnits (ct_costLimit t) \<and>
      0 \<le> ts_computeUsed t \<and> ts_computeUsed t \<le> cl_maximumComputeUnits (ct_costLimit t) \<and>
      ts_attempts t \<le> rt_maximumAttempts (ct_retryPolicy t)) \<and>
    sum_list (map ts_costUsedMinorUnits tasks) \<le> cl_maximumMinorUnits (co_costLimit objective) \<and>
    sum_list (map ts_computeUsed tasks) \<le> cl_maximumComputeUnits (co_costLimit objective) \<and>
    sum_list (map ts_costUsedMinorUnits tasks) \<le> opt_maximumObjectiveCostMinorUnits (ac_options s) \<and>
    sum_list (map ts_computeUsed tasks) \<le> opt_maximumObjectiveComputeUnits (ac_options s)"
proof -
  have inv: "cooInv s" by (rule coo.reach_inv [OF assms(1)])
  have w: "withinLimits t" if "t \<in> set tasks" for t
    using that inv cooInv_task(1) [OF inv] by (auto simp: assms(3) objectiveTasks_def cooInv_def mvalues_iff)
  have p: "plannedOk (ac_options s) objective (map CooTask.truncate tasks)"
    using inv assms(2,3) by (auto simp: cooInv_def plannedTasks_def)
  have "sum_list (map ts_costUsedMinorUnits tasks) \<le> sum_list (map (\<lambda>t. cl_maximumMinorUnits (ct_costLimit t)) tasks)"
    "sum_list (map ts_computeUsed tasks) \<le> sum_list (map (\<lambda>t. cl_maximumComputeUnits (ct_costLimit t)) tasks)"
    using w by (auto simp: withinLimits_def intro!: sum_list_mono)
  with w p show ?thesis by (auto simp: plannedOk_def withinLimits_def comp_def CooTask.truncate_def)
qed

theorem budgets_never_exceeded_witness:
  "list_all (\<lambda>t. ts_attempts t \<le> rt_maximumAttempts (ct_retryPolicy t)) (objectiveTasks teamAssigned ''ws'' ''obj'') \<and>
   sum_list (map ts_costUsedMinorUnits (objectiveTasks teamAssigned ''ws'' ''obj'')) \<le> 100"
proof -
  have o: "mget (ac_objectives teamAssigned) (key ''ws'' ''obj'') = Some (op_objective teamPlan)" by (simp add: team_assigned_objectives)
  have i: "co_workspaceId (op_objective teamPlan) = ''ws''" "co_id (op_objective teamPlan) = ''obj''"
    "cl_maximumMinorUnits (co_costLimit (op_objective teamPlan)) = 100"
    by (simp_all add: teamPlan_def limitOf_def)
  show ?thesis using budgets_never_exceeded [OF team_reachable(2) o refl] unfolding i list_all_iff by blast
qed

text \<open>
  C39.  Work follows the plan.  In every reachable state a task that is ready, assigned or finished has all
  its dependencies completed, they belong to the same objective and workspace; and a task that needs
  Level-4 authority is waiting for the founder: it has no agent and no run.
\<close>

theorem work_follows_dependencies:
  assumes "cooReachable s" "requireTask s cx taskId = Inr task"
  shows "(ct_requiredAuthority task = 4 \<longleftrightarrow> ts_status task = C_AWAITING_APPROVAL) \<and>
    (ts_status task = C_AWAITING_APPROVAL \<longrightarrow> ts_assignedAgentId task = None \<and> ts_runId task = None) \<and>
    (ts_status task \<noteq> C_BLOCKED \<longrightarrow> ts_status task \<noteq> C_AWAITING_APPROVAL \<longrightarrow>
      (\<forall>d \<in> set (ct_dependencyIds task). \<exists>u. requireTask s cx d = Inr u \<and> ct_objectiveId u = ct_objectiveId task \<and>
         ts_status u = C_COMPLETED))"
proof -
  have inv: "cooInv s" by (rule coo.reach_inv [OF assms(1)])
  note g = requireTask_key [OF inv assms(2)]
  note t = cooInv_task [OF inv g(1)]
  have "\<forall>d \<in> set (ct_dependencyIds task). \<exists>u. requireTask s cx d = Inr u \<and> ct_objectiveId u = ct_objectiveId task \<and> ts_status u = C_COMPLETED"
    if "mayStart task"
    using t(2) g(2) that by (fastforce simp: dependenciesOk_def dependencyOf_def requireTask_Inr)
  with t(1) show ?thesis by (auto simp: withinLimits_def mayStart_def)
qed

theorem work_follows_dependencies_witness:
  "\<exists>task. requireTask teamPlanned planner ''publish'' = Inr task \<and> ts_status task = C_AWAITING_APPROVAL \<and> ts_runId task = None"
proof -
  have t: "requireTask teamPlanned planner ''publish'' = Inr (newTaskState (planTask ''publish'' [''report''] 4 500))"
    by (simp add: requireTask_def team_planned_tasks teamPlan_def planner_def planTask_def)
  moreover have "ct_requiredAuthority (newTaskState (planTask ''publish'' [''report''] 4 500)) = 4"
    by (simp add: newTaskState_def planTask_def CooTask.extend_def)
  ultimately show ?thesis using work_follows_dependencies [OF team_reachable(1) t] by simp
qed

section \<open>Assignment\<close>

lemma emit_ports: "wp (emit env cx objectiveId type facts projectId taskId) (\<lambda>r t. ac_factory t = ac_factory s \<and> ac_broker t = ac_broker s) s"
  by (auto simp: emit_def wp_simps Let_def appendToCooSink_def split: sum.splits option.splits)

lemma refresh_ports: "wp (refreshTaskReadiness env cx taskId) (\<lambda>r t. ac_factory t = ac_factory s \<and> ac_broker t = ac_broker s) s"
proof -
  have e: "wp (emitForTask env cx task type facts) (\<lambda>r t. ac_factory t = ac_factory s \<and> ac_broker t = ac_broker s) (putTaskState x s)" for task type facts x
    using emit_ports [of env cx _ _ _ _ _ "putTaskState x s"] by (simp add: emitForTask_def putTaskState_def)
  show ?thesis unfolding refreshTaskReadiness_def by (auto simp: wp_simps Let_def e split: sum.splits) (simp_all add: putTaskState_def)
qed

text \<open>The steps of a successful assignment, with the state after readiness has been refreshed.\<close>

lemma requestAssignment_done:
  assumes "requestAssignment env cx request s = (Inr decision, t)"
  obtains u task runtime agent factoryDecision f where
    "refreshTaskReadiness env cx (ar_taskId request) s = (Inr (), u)" "requireTask u cx (ar_taskId request) = Inr task"
    "assignmentChecks task request = Inr ()" "askBroker env u cx (ar_routingRequest request) = Inr runtime"
    "instantiate (env_sha256 env) (env_factoryClock env) cx (ar_factoryRequest request) (ac_factory u) = (Inr (agent, factoryDecision), f)"
    "emitForTask env cx (assignedTask task agent runtime (fr_id (ar_factoryRequest request))) CE_task_assigned
       [(''agentId'', FText (fa_agentId agent)), (''runtimeId'', FText (rd_selectedRuntimeId runtime)),
        (''attempt'', FNum (ts_attempts (assignedTask task agent runtime (fr_id (ar_factoryRequest request)))))]
       (putTaskState (assignedTask task agent runtime (fr_id (ar_factoryRequest request)))
         (u\<lparr>ac_factory := f, ac_consumedAssignmentRequests :=
           insert (key (cx_workspaceId cx) (fr_id (ar_factoryRequest request))) (ac_consumedAssignmentRequests u)\<rparr>)) = (Inr (), t)"
    "decision = \<lparr>ad_taskId = ct_id task, ad_agentId = fa_agentId agent, ad_runtime = runtime, ad_factoryDecision = factoryDecision,
       ad_runId = cooRunId (fr_id (ar_factoryRequest request))\<rparr>"
  using assms unfolding requestAssignment_def performAssignment_def
  by (auto simp: andThen_def reads_def modify_def withFactory_def ret_def Let_def ebind_def split: prod.splits sum.splits)

lemma requestAssignment_effect:
  assumes "requestAssignment env cx request s = (Inr decision, t)"
  obtains u task runtime agent factoryDecision where
    "refreshTaskReadiness env cx (ar_taskId request) s = (Inr (), u)" "requireTask u cx (ar_taskId request) = Inr task"
    "assignmentChecks task request = Inr ()" "askBroker env u cx (ar_routingRequest request) = Inr runtime"
    "instantiate (env_sha256 env) (env_factoryClock env) cx (ar_factoryRequest request) (ac_factory u) = (Inr (agent, factoryDecision), ac_factory t)"
    "sameBooks (putTaskState (assignedTask task agent runtime (fr_id (ar_factoryRequest request)))
       (u\<lparr>ac_consumedAssignmentRequests :=
         insert (key (cx_workspaceId cx) (fr_id (ar_factoryRequest request))) (ac_consumedAssignmentRequests u)\<rparr>)) t"
    "decision = \<lparr>ad_taskId = ct_id task, ad_agentId = fa_agentId agent, ad_runtime = runtime, ad_factoryDecision = factoryDecision,
       ad_runId = cooRunId (fr_id (ar_factoryRequest request))\<rparr>"
proof (rule requestAssignment_done [OF assms])
  fix u task runtime agent factoryDecision f
  let ?n = "assignedTask task agent runtime (fr_id (ar_factoryRequest request))"
  let ?w = "\<lambda>u. u\<lparr>ac_consumedAssignmentRequests :=
    insert (key (cx_workspaceId cx) (fr_id (ar_factoryRequest request))) (ac_consumedAssignmentRequests u)\<rparr>"
  assume d: "refreshTaskReadiness env cx (ar_taskId request) s = (Inr (), u)" "requireTask u cx (ar_taskId request) = Inr task"
    "assignmentChecks task request = Inr ()" "askBroker env u cx (ar_routingRequest request) = Inr runtime"
    "instantiate (env_sha256 env) (env_factoryClock env) cx (ar_factoryRequest request) (ac_factory u) = (Inr (agent, factoryDecision), f)"
    "decision = \<lparr>ad_taskId = ct_id task, ad_agentId = fa_agentId agent, ad_runtime = runtime, ad_factoryDecision = factoryDecision,
       ad_runId = cooRunId (fr_id (ar_factoryRequest request))\<rparr>"
    and e: "emitForTask env cx ?n CE_task_assigned
       [(''agentId'', FText (fa_agentId agent)), (''runtimeId'', FText (rd_selectedRuntimeId runtime)), (''attempt'', FNum (ts_attempts ?n))]
       (putTaskState ?n (u\<lparr>ac_factory := f, ac_consumedAssignmentRequests :=
         insert (key (cx_workspaceId cx) (fr_id (ar_factoryRequest request))) (ac_consumedAssignmentRequests u)\<rparr>)) = (Inr (), t)"
  have "ac_factory t = f" using wpD [OF emit_ports e [unfolded emitForTask_def]] by (simp add: putTaskState_def)
  moreover have "sameBooks (putTaskState ?n (u\<lparr>ac_factory := f, ac_consumedAssignmentRequests :=
      insert (key (cx_workspaceId cx) (fr_id (ar_factoryRequest request))) (ac_consumedAssignmentRequests u)\<rparr>)) t"
    using books_kept_emitForTask e unfolding books_kept_def by (metis snd_conv)
  then have "sameBooks (putTaskState ?n (?w u)) t" by (simp add: sameBooks_def putTaskState_def)
  ultimately show thesis using that d by blast
qed

lemma moves_consumed: "moves s t \<Longrightarrow> ac_consumedAssignmentRequests s \<subseteq> ac_consumedAssignmentRequests t"
proof (induction rule: rtranclp_induct)
  case (step t u)
  have ps: "ac_consumedAssignmentRequests (foldl storeProject v ps) = ac_consumedAssignmentRequests v" for v ps
    by (induction ps arbitrary: v) (auto simp: storeProject_def Let_def)
  have ts: "ac_consumedAssignmentRequests (foldl storeTask v ts) = ac_consumedAssignmentRequests v" for v ts
    by (induction ts arbitrary: v) (auto simp: storeTask_def Let_def)
  from step(2) have "ac_consumedAssignmentRequests t \<subseteq> ac_consumedAssignmentRequests u"
    by (cases rule: move.cases) (auto simp: sameBooks_def putTaskState_def storePlan_def ps ts storeObjective_def Let_def)
  with step(3) show ?case by blast
qed simp

lemma steps_moves: "cooStep\<^sup>*\<^sup>* s t \<Longrightarrow> moves s t"
  by (induction rule: rtranclp_induct) (auto dest: cooStep_moves)

lemma consumed_refused:
  "key (cx_workspaceId cx) (fr_id (ar_factoryRequest request)) \<in> ac_consumedAssignmentRequests s \<Longrightarrow>
   \<not> succeeds (fst (requestAssignment env cx request s))"
  by (auto simp: requestAssignment_def andThen_def reads_def ebind_def checks.simps split: sum.splits)

lemma assigned_policies [simp]:
  "expectedFactoryPolicy (assignedTask task agent runtime i) = expectedFactoryPolicy task"
  "expectedRoutingPolicy (assignedTask task agent runtime i) = expectedRoutingPolicy task"
  "taskKey (assignedTask task agent runtime i) = taskKey task" "ct_requiredAuthority (assignedTask task agent runtime i) = ct_requiredAuthority task"
  "ts_status (assignedTask task agent runtime i) = C_ASSIGNED" "ts_runId (assignedTask task agent runtime i) = Some (cooRunId i)"
  "ts_assignedAgentId (assignedTask task agent runtime i) = Some (fa_agentId agent)"
  by (simp_all add: expectedFactoryPolicy_def expectedRoutingPolicy_def assignedTask_def)

lemma policy_authority:
  assumes "actualFactoryPolicy q = expectedFactoryPolicy task"
  shows "fr_authorityLevel q = ct_requiredAuthority task"
  using arg_cong [OF assms, of fp_authorityLevel] by (simp add: actualFactoryPolicy_def expectedFactoryPolicy_def CooAgentPolicy.extend_def)

text \<open>
  C40.  An assignment binds task, runtime and agent.  When the planner reports an assignment, the task is assigned
  and stays below Level 4; the factory holds an active agent under the reported id, instantiated with
  exactly the policy the plan gave the task (template, scopes, tools, authority, budget, retries, criteria); the
  task carries the runtime and the connection the broker selects for exactly its routing policy; and the same
  assignment request is refused ever after, whatever happens in between.
\<close>

theorem assignment_governed:
  assumes "cooReachable s" "requestAssignment env cx request s = (Inr decision, t)"
  shows "(\<exists>task agent. requireTask t cx (ar_taskId request) = Inr task \<and> ts_status task = C_ASSIGNED \<and>
      ts_runId task = Some (ad_runId decision) \<and> ts_assignedAgentId task = Some (ad_agentId decision) \<and>
      ts_selectedRuntimeId task = Some (rd_selectedRuntimeId (ad_runtime decision)) \<and>
      ts_selectedConnectionId task = Some (rd_selectedConnectionId (ad_runtime decision)) \<and>
      ct_requiredAuthority task \<le> 3 \<and>
      mget (af_agents (ac_factory t)) (key (cx_workspaceId cx) (ad_agentId decision)) = Some agent \<and> fa_lifecycle agent = A_ACTIVE \<and>
      actualFactoryPolicy (AgentInstantiationRequest.truncate agent) = expectedFactoryPolicy task \<and>
      actualRoutingPolicy (ar_routingRequest request) = expectedRoutingPolicy task \<and>
      route (env_dateParse env) (env_brokerClock env) (ac_broker s) cx (ar_routingRequest request) = Inr (ad_runtime decision)) \<and>
    (\<forall>u env' request'. cooStep\<^sup>*\<^sup>* t u \<longrightarrow> fr_id (ar_factoryRequest request') = fr_id (ar_factoryRequest request) \<longrightarrow>
      \<not> succeeds (fst (requestAssignment env' cx request' u)))"
proof -
  let ?q = "ar_factoryRequest request" and ?k = "key (cx_workspaceId cx) (fr_id (ar_factoryRequest request))"
  obtain u task runtime agent fd where d:
    "refreshTaskReadiness env cx (ar_taskId request) s = (Inr (), u)" "requireTask u cx (ar_taskId request) = Inr task"
    "assignmentChecks task request = Inr ()" "askBroker env u cx (ar_routingRequest request) = Inr runtime"
    "instantiate (env_sha256 env) (env_factoryClock env) cx ?q (ac_factory u) = (Inr (agent, fd), ac_factory t)"
    "decision = \<lparr>ad_taskId = ct_id task, ad_agentId = fa_agentId agent, ad_runtime = runtime, ad_factoryDecision = fd,
       ad_runId = cooRunId (fr_id ?q)\<rparr>"
    and b: "sameBooks (putTaskState (assignedTask task agent runtime (fr_id ?q))
      (u\<lparr>ac_consumedAssignmentRequests := insert ?k (ac_consumedAssignmentRequests u)\<rparr>)) t"
    by (rule requestAssignment_effect [OF assms(2)])
  let ?new = "assignedTask task agent runtime (fr_id ?q)"
  have u: "cooInv u" "ac_broker u = ac_broker s"
    using wpD [OF refresh_moves d(1)] wpD [OF refresh_ports d(1)] moves_inv coo.reach_inv [OF assms(1)] by blast+
  note g = requireTask_key [OF u(1) d(2)] and c = assignmentChecks_Inr [OF d(3)]
  have t: "requireTask t cx (ar_taskId request) = Inr ?new"
    using g by (simp add: sameBooks_simps(1) [OF b] requireTask_Inr putTaskState_def)
  obtain tpl depth at where i: "agent = newFactoryAgent ?q tpl depth at" "instantiated (ac_factory u) ?q tpl depth at fd (ac_factory t)"
    using instantiate_cases [OF d(5)] by auto
  have agent: "mget (af_agents (ac_factory t)) (key (cx_workspaceId cx) (agentIdOf (fr_id ?q))) = Some agent"
    using i c(3) g(2) by (auto simp: instantiated_def)
  have trunc: "AgentInstantiationRequest.truncate agent = ?q"
    by (simp add: i(1) newFactoryAgent_def AgentInstantiationRequest.defs)
  have selected: "ts_selectedRuntimeId ?new = Some (rd_selectedRuntimeId runtime)" "ts_selectedConnectionId ?new = Some (rd_selectedConnectionId runtime)"
    by (simp_all add: assignedTask_def)
  have "ct_requiredAuthority task \<le> 3" using policy_authority [OF c(7)] c(6) by simp
  then have first: "\<exists>task agent. requireTask t cx (ar_taskId request) = Inr task \<and> ts_status task = C_ASSIGNED \<and>
      ts_runId task = Some (ad_runId decision) \<and> ts_assignedAgentId task = Some (ad_agentId decision) \<and>
      ts_selectedRuntimeId task = Some (rd_selectedRuntimeId (ad_runtime decision)) \<and>
      ts_selectedConnectionId task = Some (rd_selectedConnectionId (ad_runtime decision)) \<and> ct_requiredAuthority task \<le> 3 \<and>
      mget (af_agents (ac_factory t)) (key (cx_workspaceId cx) (ad_agentId decision)) = Some agent \<and> fa_lifecycle agent = A_ACTIVE \<and>
      actualFactoryPolicy (AgentInstantiationRequest.truncate agent) = expectedFactoryPolicy task \<and>
      actualRoutingPolicy (ar_routingRequest request) = expectedRoutingPolicy task \<and>
      route (env_dateParse env) (env_brokerClock env) (ac_broker s) cx (ar_routingRequest request) = Inr (ad_runtime decision)"
    using t agent trunc selected c(7,8) d(4,6) i(1) u(2)
    by (intro exI [of _ ?new] exI [of _ agent]) (auto simp: askBroker_def split: sum.splits)
  have "?k \<in> ac_consumedAssignmentRequests t" using b by (simp add: sameBooks_def putTaskState_def)
  then have "?k \<in> ac_consumedAssignmentRequests w" if "cooStep\<^sup>*\<^sup>* t w" for w
    using moves_consumed [OF steps_moves [OF that]] by blast
  then show ?thesis using first consumed_refused by metis
qed

theorem assignment_governed_witness:
  "\<exists>decision task agent. requestAssignment teamEnv planner (teamRequest ''r1'' ''review'') teamPlanned = (Inr decision, teamAssigned) \<and>
     requireTask teamAssigned planner ''review'' = Inr task \<and> ts_status task = C_ASSIGNED \<and>
     mget (af_agents (ac_factory teamAssigned)) (key ''ws'' (ad_agentId decision)) = Some agent \<and> fa_lifecycle agent = A_ACTIVE \<and>
     \<not> succeeds (fst (requestAssignment teamEnv planner (teamRequest ''r1'' ''review'') teamAssigned))"
proof -
  obtain decision where r: "requestAssignment teamEnv planner (teamRequest ''r1'' ''review'') teamPlanned = (Inr decision, teamAssigned)"
    using team_assigned by blast
  have q: "ar_taskId (teamRequest ''r1'' ''review'') = ''review''" "cx_workspaceId planner = ''ws''"
    by (simp_all add: teamRequest_def planner_def)
  show ?thesis
    using r assignment_governed [OF team_reachable(1) r, unfolded q] by blast
qed

end
