(* ===== verification/Voice_Gateway.thy ===== *)
theory Voice_Gateway
  imports Contracts Js_Regex Js_Date "HOL-Library.Sublist"
begin

text \<open>
  \<open>packages/agent-control-plane/src/voice-gateway.ts\<close>: push-to-talk sessions.  A session passes from the request
  for the microphone through recording and transcription to the routing of one final transcript, which is
  bound to its adapter by a proof, accepted once, redacted, and handed to a router under the authority of
  the principal.  The verifiers, the hasher, the authority evaluator and the router are ports: arguments here.
\<close>

section \<open>Data\<close>

datatype VoicePermission = NOT_REQUESTED | PROMPTING | GRANTED | DENIED | P_UNAVAILABLE

datatype VoiceSessionState = V_IDLE | REQUESTING_PERMISSION | V_READY | RECORDING | TRANSCRIBING | ROUTING | RESPONDING
  | V_STOPPED | V_FAILED

datatype VoiceAdapterKind = STT | TTS | REALTIME

datatype VoiceAdapterStatus = A_NOT_CONFIGURED | BROWSER_LOCAL_AVAILABLE | AVAILABLE | A_DEGRADED | A_UNAVAILABLE

datatype VoiceAvailability = LOCAL_BROWSER | SELF_HOSTED | EXTERNAL_PROVIDER

datatype VoiceNetworkMode = OFFLINE | LOOPBACK | EGRESS

datatype VoiceCredentialMode = NO_CREDENTIAL | SECRET_REFERENCE | SESSION

datatype VoiceDataPolicy = LOCAL_ONLY | NO_TRAINING | PROVIDER_POLICY_REVIEW_REQUIRED

record VoiceProviderMetadata =
  vm_adapterId :: EntityId
  vm_kind :: VoiceAdapterKind
  vm_provider :: string
  vm_model :: "string option"
  vm_status :: VoiceAdapterStatus
  vm_availability :: VoiceAvailability
  vm_networkMode :: VoiceNetworkMode
  vm_credentialMode :: VoiceCredentialMode
  vm_isFallback :: bool
  vm_availabilityEvidenceId :: EntityId
  vm_availabilityVerifiedAt :: string
  vm_maximumInputBytes :: int
  vm_maximumTextBytes :: int
  vm_latencyP50Ms :: "int option"
  vm_latencyP95Ms :: "int option"
  vm_qualityScoreBps :: "int option"
  vm_costMinorUnitsPerMillionInputUnits :: "int option"
  vm_currency :: "string option"
  vm_dataPolicy :: VoiceDataPolicy

record BrowserVoiceCapabilities =
  bv_microphonePermissionApi :: bool
  bv_localSpeechToText :: bool
  bv_localTextToSpeech :: bool
  bv_realtimeSpeech :: bool

record VoiceSession =
  vs_id :: EntityId
  vs_workspaceId :: EntityId
  vs_principalId :: EntityId
  vs_state :: VoiceSessionState
  vs_permission :: VoicePermission
  vs_sttAdapterId :: EntityId
  vs_ttsAdapterId :: "EntityId option"
  vs_createdAt :: string
  vs_updatedAt :: string
  vs_stoppedReason :: "string option"

datatype TranscriptRetention = RETAIN_NONE | REDACTED_SESSION

record FinalTranscriptEnvelope =
  ft_sessionId :: EntityId
  ft_workspaceId :: EntityId
  ft_principalId :: EntityId
  ft_adapterId :: EntityId
  ft_sequence :: int
  ft_nonce :: string
  ft_observedAt :: string
  ft_final :: bool
  ft_transcript :: string
  ft_audioBytes :: int
  ft_proof :: string
  ft_retention :: TranscriptRetention

record VoiceAuthorityDecision =
  va_allowed :: bool
  va_maximumAuthority :: AuthorityLevel
  va_reason :: string

record VoiceCommandRoutingRequest =
  vq_id :: EntityId
  vq_workspaceId :: EntityId
  vq_principalId :: EntityId
  vq_sessionId :: EntityId
  vq_transcriptHash :: string
  vq_redactedTranscript :: string

datatype VoiceOutcome = ROUTINE | LEVEL_4 | DENY

record VoiceCommandRoutingDecision =
  vd_requestId :: EntityId
  vd_workspaceId :: EntityId
  vd_sessionId :: EntityId
  vd_commandId :: EntityId
  vd_outcome :: VoiceOutcome
  vd_requiredAuthority :: AuthorityLevel
  vd_exactTarget :: "string option"
  vd_reason :: string
  vd_responseText :: string

record SecureConfirmationRequirement =
  sc_commandId :: EntityId
  sc_exactTarget :: string
  sc_permittedChannels :: "string list"
  sc_voiceConfirmationAccepted :: bool
  sc_reason :: string

record VoiceHistoryEntry =
  vh_id :: EntityId
  vh_workspaceId :: EntityId
  vh_principalId :: EntityId
  vh_sessionId :: EntityId
  vh_commandId :: EntityId
  vh_transcriptHash :: string
  vh_redactedTranscript :: "string option"
  vh_redactedResponse :: string
  vh_outcome :: VoiceOutcome
  vh_requiredAuthority :: AuthorityLevel
  vh_createdAt :: string

record VoiceRoutingResult =
  vr_commandId :: EntityId
  vr_outcome :: VoiceOutcome
  vr_responseText :: string
  vr_confirmation :: "SecureConfirmationRequirement option"

record ReplayPlan =
  rpl_responseId :: EntityId
  rpl_ttsAdapterId :: EntityId
  rpl_redactedText :: string

record VoiceGatewayOptions =
  vo_maximumAudioBytes :: int
  vo_maximumTranscriptBytes :: int
  vo_maximumResponseBytes :: int
  vo_maximumHistoryEntriesPerPrincipal :: int
  vo_transcriptFreshnessMs :: int
  vo_availabilityEvidenceFreshnessMs :: int

text \<open>What a port throws is an \<open>VoicePortError\<close>.\<close>

datatype VoiceError = VoiceGatewayPolicyError string | VoiceRangeError string | VoicePortError string

text \<open>
  The ports, the readings of the clock and the ids drawn during a call, numbered in the order of the code, and
  the date parser of the host for texts that are not canonical.
\<close>

record VoiceEnv =
  vp_clock :: "nat \<Rightarrow> int"
  vp_ids :: "nat \<Rightarrow> string"
  vp_dateParse :: "string \<Rightarrow> int option"
  vp_verifyProof :: "WorkspaceContext \<Rightarrow> FinalTranscriptEnvelope \<Rightarrow> VoiceProviderMetadata \<Rightarrow> VoiceError + bool"
  vp_verifyEvidence :: "WorkspaceContext \<Rightarrow> VoiceProviderMetadata \<Rightarrow> VoiceError + bool"
  vp_hash :: "WorkspaceContext \<Rightarrow> string \<Rightarrow> VoiceError + string"
  vp_authority :: "WorkspaceContext \<Rightarrow> VoiceError + VoiceAuthorityDecision"
  vp_route :: "WorkspaceContext \<Rightarrow> VoiceCommandRoutingRequest \<Rightarrow> VoiceError + VoiceCommandRoutingDecision"

section \<open>Checks\<close>

definition voiceInteger :: "int \<Rightarrow> string \<Rightarrow> int \<Rightarrow> VoiceError + unit" where
  "voiceInteger value fld maximum = ensure (\<not> (\<not> isSafeInteger value \<or> value < 0 \<or> maximum < value))
     (VoiceGatewayPolicyError (fld @ '' is outside policy bounds''))"

definition forbiddenControl :: "char \<Rightarrow> bool" where
  "forbiddenControl c = (let code = code_unit c in
     code \<le> 8 \<or> code = 11 \<or> code = 12 \<or> 14 \<le> code \<and> code \<le> 31 \<or> code = 127)"

definition voiceText :: "string \<Rightarrow> string \<Rightarrow> int \<Rightarrow> VoiceError + unit" where
  "voiceText value fld maximumBytes =
     ensure (\<not> (trim value = [] \<or> maximumBytes < int (utf8Length value) \<or> (\<exists>c \<in> set value. forbiddenControl c)))
       (VoiceGatewayPolicyError (fld @ '' must be bounded printable text''))"

definition voiceTime :: "VoiceEnv \<Rightarrow> string \<Rightarrow> string \<Rightarrow> VoiceError + int" where
  "voiceTime env value fld = (case dateParse (vp_dateParse env) value of
     None \<Rightarrow> Inl (VoiceGatewayPolicyError (fld @ '' must be ISO-8601'')) | Some t \<Rightarrow> Inr t)"

section \<open>Redaction\<close>

text \<open>
  \<open>replace\<close> with a global pattern: the leftmost match is replaced, and among the matches at one place the one
  that backtracking finds first, with greedy repetition.  \<open>greedyEnds\<close> lists the ends of the matches in this
  order.
\<close>

fun greedyEnds :: "regex \<Rightarrow> position \<Rightarrow> position list" where
  "greedyEnds (Rep lo hi p) q = (case q of (b, s) \<Rightarrow> rev (rep_ends lo hi p b s))"
| "greedyEnds (Seq r1 r2) q = concat (map (greedyEnds r2) (greedyEnds r1 q))"
| "greedyEnds (Alt r1 r2) q = greedyEnds r1 q @ greedyEnds r2 q"
| "greedyEnds r q = ends r q"

function replaceAll :: "regex \<Rightarrow> string \<Rightarrow> char option \<Rightarrow> string \<Rightarrow> string" where
  "replaceAll r sub b [] = []"
| "replaceAll r sub b (c # cs) = (case greedyEnds r (b, c # cs) of
     (b', t) # _ \<Rightarrow> if length t < length (c # cs) then sub @ replaceAll r sub b' t else c # replaceAll r sub (Some c) cs
   | [] \<Rightarrow> c # replaceAll r sub (Some c) cs)"
  by pat_completeness auto
termination
  by (relation "measure (\<lambda>(r, sub, b, s). length s)") auto

definition isTokenChar :: char_class where
  "isTokenChar = cls_or isAlnum (one_of ''._~+/-'')"

definition REDACTIONS :: "regex list" where
  "REDACTIONS =
    [seqs [WordBoundary, LitI ''gh'', Cls (one_of ''opOP''), Lit ''_'', Rep 20 None isAlnum, WordBoundary],
     seqs [WordBoundary, LitI ''sk-'', Rep 20 None (cls_or isAlnum (one_of ''_-'')), WordBoundary],
     seqs [LitI ''-----BEGIN '', Rep 0 (Some 40) (\<lambda>c. c \<noteq> CHR ''-''), LitI ''PRIVATE KEY-----''],
     seqs [WordBoundary, alts [LitI ''bearer'', LitI ''authorization''], star isWhiteSpace, Cls (one_of '':=''),
       star isWhiteSpace, Rep 12 None isTokenChar],
     seqs [WordBoundary, LitI ''bearer'', Rep 1 None isWhiteSpace, Rep 12 None isTokenChar],
     seqs [WordBoundary, Rep 1 None (cls_or isAlnum (one_of ''._%+-'')), Lit ''@'', Rep 1 None (cls_or isAlnum (one_of ''.-'')),
       Lit ''.'', Rep 2 None (cls_or isUpper isLower), WordBoundary]]"

definition SENSITIVE_TRANSCRIPT_MARKERS :: "string list" where
  "SENSITIVE_TRANSCRIPT_MARKERS = [''private key'', ''password'', ''api key'', ''api_key'', ''api-key'', ''apikey'', ''secret'',
     ''credential'', ''token'', ''authorization'', ''bearer'', ''ghp_'', ''gho_'', ''sk-'']"

text \<open>\<open>toLocaleLowerCase('en-US')\<close> on the code units below 256.\<close>

definition lowerChar :: "char \<Rightarrow> char" where
  "lowerChar c = (let n = code_unit c in
     if 65 \<le> n \<and> n \<le> 90 \<or> 192 \<le> n \<and> n \<le> 222 \<and> n \<noteq> 215 then char_of (n + 32) else c)"

definition hasMarker :: "string \<Rightarrow> bool" where
  "hasMarker s = (\<exists>marker \<in> set SENSITIVE_TRANSCRIPT_MARKERS. sublist marker (map lowerChar s))"

definition redact :: "string \<Rightarrow> string" where
  "redact value = (if hasMarker value then ''[REDACTED_SENSITIVE_TRANSCRIPT]''
     else foldl (\<lambda>result pattern. replaceAll pattern ''[REDACTED]'' None result) value REDACTIONS)"


section \<open>Adapter metadata\<close>

abbreviation voiceRefuse :: "string \<Rightarrow> VoiceError + 'a" where
  "voiceRefuse message \<equiv> Inl (VoiceGatewayPolicyError message)"

abbreviation voiceEnsure :: "bool \<Rightarrow> string \<Rightarrow> VoiceError + unit" where
  "voiceEnsure condition message \<equiv> ensure condition (VoiceGatewayPolicyError message)"

definition ifPresent :: "'a option \<Rightarrow> ('a \<Rightarrow> VoiceError + unit) \<Rightarrow> VoiceError + unit" where
  "ifPresent value check = (case value of None \<Rightarrow> Inr () | Some v \<Rightarrow> check v)"

definition validateMetadata :: "VoiceEnv \<Rightarrow> VoiceProviderMetadata \<Rightarrow> VoiceError + unit" where
  "validateMetadata env m = checks
     [voiceText (vm_adapterId m) ''adapterId'' 256, voiceText (vm_provider m) ''provider'' 256,
      voiceText (vm_availabilityEvidenceId m) ''availabilityEvidenceId'' 256,
      ebind (voiceTime env (vm_availabilityVerifiedAt m) ''availabilityVerifiedAt'') (\<lambda>_. Inr ()),
      ifPresent (vm_model m) (\<lambda>v. voiceText v ''model'' 256),
      voiceInteger (vm_maximumInputBytes m) ''maximumInputBytes'' (100 * 1024 * 1024),
      voiceInteger (vm_maximumTextBytes m) ''maximumTextBytes'' (1024 * 1024),
      ifPresent (vm_latencyP50Ms m) (\<lambda>v. voiceInteger v ''latencyP50Ms'' MAX_SAFE_INTEGER),
      ifPresent (vm_latencyP95Ms m) (\<lambda>v. voiceInteger v ''latencyP95Ms'' MAX_SAFE_INTEGER),
      ifPresent (vm_qualityScoreBps m) (\<lambda>v. voiceInteger v ''qualityScoreBps'' MAX_SAFE_INTEGER),
      ifPresent (vm_costMinorUnitsPerMillionInputUnits m) (\<lambda>v. voiceInteger v ''costMinorUnitsPerMillionInputUnits'' MAX_SAFE_INTEGER),
      voiceEnsure ((vm_costMinorUnitsPerMillionInputUnits m = None) = (vm_currency m = None))
        ''Cost metadata requires both amount and currency'',
      ifPresent (vm_currency m) (\<lambda>v. voiceText v ''currency'' 16),
      ifPresent (vm_qualityScoreBps m) (\<lambda>v. voiceEnsure (\<not> 10000 < v) ''qualityScoreBps exceeds 10000''),
      voiceEnsure (\<not> ((vm_availability m = EXTERNAL_PROVIDER \<or> vm_availability m = SELF_HOSTED) \<and> vm_status m = BROWSER_LOCAL_AVAILABLE))
        ''Non-browser adapters cannot claim browser-local status'',
      voiceEnsure (\<not> (vm_availability m = LOCAL_BROWSER \<and> vm_status m \<noteq> BROWSER_LOCAL_AVAILABLE))
        ''Browser-local adapters require browser-local status'',
      voiceEnsure (\<not> (vm_availability m = LOCAL_BROWSER \<and> (vm_networkMode m \<noteq> OFFLINE \<or> vm_credentialMode m \<noteq> NO_CREDENTIAL)))
        ''Browser-local adapters must be offline and credential-free'',
      voiceEnsure (\<not> (vm_availability m = EXTERNAL_PROVIDER \<and> (vm_networkMode m \<noteq> EGRESS \<or> vm_credentialMode m = NO_CREDENTIAL)))
        ''External providers require egress and scoped credentials'']"

section \<open>State\<close>

record VoiceGateway =
  vg_authorizedPrincipals :: "EntityId set"
  vg_options :: VoiceGatewayOptions
  vg_adapters :: "VoiceProviderMetadata jsmap"
  vg_sessions :: "VoiceSession jsmap"
  vg_history :: "VoiceHistoryEntry list jsmap"
  vg_usedTranscriptProofs :: "string set"
  vg_usedSequences :: "string set"

definition newVoiceGateway :: "EntityId list \<Rightarrow> VoiceGatewayOptions \<Rightarrow> VoiceError + VoiceGateway" where
  "newVoiceGateway authorizedPrincipals options =
     ebind (checks
       [voiceInteger (vo_maximumAudioBytes options) ''maximumAudioBytes'' (100 * 1024 * 1024),
        voiceInteger (vo_maximumTranscriptBytes options) ''maximumTranscriptBytes'' (1024 * 1024),
        voiceInteger (vo_maximumResponseBytes options) ''maximumResponseBytes'' (1024 * 1024),
        voiceInteger (vo_maximumHistoryEntriesPerPrincipal options) ''maximumHistoryEntriesPerPrincipal'' 10000,
        voiceInteger (vo_transcriptFreshnessMs options) ''transcriptFreshnessMs'' (60 * 60 * 1000),
        voiceInteger (vo_availabilityEvidenceFreshnessMs options) ''availabilityEvidenceFreshnessMs'' (30 * 24 * 60 * 60 * 1000),
        voiceEnsure (\<not> (vo_maximumAudioBytes options = 0 \<or> vo_maximumTranscriptBytes options = 0 \<or> vo_maximumResponseBytes options = 0))
          ''Voice payload limits must be positive'']) (\<lambda>_.
     Inr \<lparr>vg_authorizedPrincipals = set authorizedPrincipals, vg_options = options, vg_adapters = [], vg_sessions = [],
       vg_history = [], vg_usedTranscriptProofs = {}, vg_usedSequences = {}\<rparr>)"

definition voiceAuthorized :: "VoiceGateway \<Rightarrow> WorkspaceContext \<Rightarrow> VoiceError + unit" where
  "voiceAuthorized s cx = voiceEnsure (cx_principalId cx \<in> vg_authorizedPrincipals s) ''Voice Gateway authority required''"

definition adapterKindText :: "VoiceAdapterKind \<Rightarrow> string" where
  "adapterKindText kind = (case kind of STT \<Rightarrow> ''STT'' | TTS \<Rightarrow> ''TTS'' | REALTIME \<Rightarrow> ''REALTIME'')"

definition requireAdapter :: "VoiceGateway \<Rightarrow> WorkspaceContext \<Rightarrow> EntityId \<Rightarrow> VoiceAdapterKind \<Rightarrow> VoiceError + VoiceProviderMetadata" where
  "requireAdapter s cx adapterId kind =
     (let missing = voiceRefuse (''Supported '' @ adapterKindText kind @ '' adapter is required'') in
      case mget (vg_adapters s) (key (cx_workspaceId cx) adapterId) of
        None \<Rightarrow> missing | Some adapter \<Rightarrow> if vm_kind adapter \<noteq> kind then missing else Inr adapter)"

text \<open>Evidence is current when it is fresh and the verifier, asked only then, accepts it.\<close>

definition assertEvidenceCurrent :: "VoiceEnv \<Rightarrow> nat \<Rightarrow> VoiceGateway \<Rightarrow> WorkspaceContext \<Rightarrow> VoiceProviderMetadata \<Rightarrow> VoiceError + unit" where
  "assertEvidenceCurrent env n s cx adapter =
     ebind (voiceTime env (vm_availabilityVerifiedAt adapter) ''availabilityVerifiedAt'') (\<lambda>evidenceAt.
     if vo_availabilityEvidenceFreshnessMs (vg_options s) < \<bar>vp_clock env n - evidenceAt\<bar>
     then voiceRefuse ''Adapter availability evidence is invalid or stale''
     else ebind (vp_verifyEvidence env cx adapter) (\<lambda>valid.
       voiceEnsure valid ''Adapter availability evidence is invalid or stale''))"

definition assertAdapterUsable :: "VoiceEnv \<Rightarrow> nat \<Rightarrow> VoiceGateway \<Rightarrow> WorkspaceContext \<Rightarrow> VoiceProviderMetadata \<Rightarrow> BrowserVoiceCapabilities \<Rightarrow>
    VoiceError + unit" where
  "assertAdapterUsable env n s cx adapter browser =
     (let supported = vm_kind adapter = STT \<and> bv_localSpeechToText browser \<or>
          vm_kind adapter = TTS \<and> bv_localTextToSpeech browser \<or> vm_kind adapter = REALTIME \<and> bv_realtimeSpeech browser in
      checks
        [assertEvidenceCurrent env n s cx adapter,
         voiceEnsure (vm_status adapter \<in> {AVAILABLE, BROWSER_LOCAL_AVAILABLE}) ''Voice adapter is unavailable'',
         voiceEnsure (\<not> (vm_status adapter = BROWSER_LOCAL_AVAILABLE \<and> (\<not> supported \<or> vm_availability adapter \<noteq> LOCAL_BROWSER)))
           ''Browser/local fallback is not available''])"

definition requireSession :: "VoiceGateway \<Rightarrow> WorkspaceContext \<Rightarrow> EntityId \<Rightarrow> VoiceError + VoiceSession" where
  "requireSession s cx sessionId = ebind (voiceAuthorized s cx) (\<lambda>_.
     let outside = voiceRefuse ''Session is outside the authenticated principal scope'' in
     case mget (vg_sessions s) (key (cx_workspaceId cx) sessionId) of
       None \<Rightarrow> outside | Some session \<Rightarrow> if vs_principalId session \<noteq> cx_principalId cx then outside else Inr session)"

definition hashTranscript :: "VoiceEnv \<Rightarrow> WorkspaceContext \<Rightarrow> string \<Rightarrow> VoiceError + string" where
  "hashTranscript env cx redactedTranscript = ebind (vp_hash env cx redactedTranscript) (\<lambda>digest.
     ebind (voiceText digest ''transcriptHash'' 512) (\<lambda>_. Inr digest))"

definition voiceNow :: "VoiceEnv \<Rightarrow> nat \<Rightarrow> VoiceError + string" where
  "voiceNow env n = (case toISOString (vp_clock env n) of
     None \<Rightarrow> Inl (VoiceRangeError ''Invalid time value'') | Some t \<Rightarrow> Inr t)"

definition putSession :: "VoiceSession \<Rightarrow> VoiceGateway \<Rightarrow> VoiceGateway" where
  "putSession session s = s\<lparr>vg_sessions := mset_at (vg_sessions s) (key (vs_workspaceId session) (vs_id session)) session\<rparr>"

text \<open>The session is changed in place before \<open>#touch\<close> reads the clock, which may fail.\<close>

definition touch :: "VoiceEnv \<Rightarrow> nat \<Rightarrow> VoiceSession \<Rightarrow> (VoiceGateway, VoiceError, VoiceSession) method" where
  "touch env n session =
     andThen (modify (putSession session)) (\<lambda>_.
     andThen (reads (\<lambda>s. voiceNow env n)) (\<lambda>now.
     let touched = session\<lparr>vs_updatedAt := now\<rparr> in
     andThen (modify (putSession touched)) (\<lambda>_. ret touched)))"

section \<open>Adapters and sessions\<close>

definition registerAdapter :: "VoiceEnv \<Rightarrow> WorkspaceContext \<Rightarrow> VoiceProviderMetadata \<Rightarrow> (VoiceGateway, VoiceError, unit) method" where
  "registerAdapter env cx metadata = (let k = key (cx_workspaceId cx) (vm_adapterId metadata) in
     andThen (reads (\<lambda>s. checks
       [voiceAuthorized s cx, validateMetadata env metadata, assertEvidenceCurrent env 0 s cx metadata,
        voiceEnsure (\<not> mhas (vg_adapters s) k) ''Adapter already registered''])) (\<lambda>_.
     modify (\<lambda>s. s\<lparr>vg_adapters := mset_at (vg_adapters s) k metadata\<rparr>)))"

text \<open>The workspace of a key is read back from its text: it is the workspace whose key of the adapter this is.\<close>

definition listAdapters :: "VoiceGateway \<Rightarrow> WorkspaceContext \<Rightarrow> VoiceError + VoiceProviderMetadata list" where
  "listAdapters s cx = ebind (voiceAuthorized s cx) (\<lambda>_.
     Inr (map snd (filter (\<lambda>(k, metadata). k = key (cx_workspaceId cx) (vm_adapterId metadata)) (vg_adapters s))))"

record VoiceSessionRequest =
  vq_sessionRequestId :: EntityId
  vq_sttAdapterId :: EntityId
  vq_ttsAdapterId :: "EntityId option"
  vq_browser :: BrowserVoiceCapabilities

definition createSession :: "VoiceEnv \<Rightarrow> WorkspaceContext \<Rightarrow> VoiceSessionRequest \<Rightarrow> (VoiceGateway, VoiceError, VoiceSession) method" where
  "createSession env cx request = (let browser = vq_browser request in
     andThen (reads (\<lambda>s. checks
       [voiceAuthorized s cx, voiceText (vq_sessionRequestId request) ''sessionId'' 256,
        voiceEnsure (\<not> mhas (vg_sessions s) (key (cx_workspaceId cx) (vq_sessionRequestId request))) ''Session already exists'',
        ebind (requireAdapter s cx (vq_sttAdapterId request) STT) (\<lambda>stt. assertAdapterUsable env 0 s cx stt browser),
        ifPresent (vq_ttsAdapterId request) (\<lambda>i.
          ebind (requireAdapter s cx i TTS) (\<lambda>tts. assertAdapterUsable env 1 s cx tts browser)),
        voiceEnsure (bv_microphonePermissionApi browser) ''Microphone permission API is unavailable''])) (\<lambda>_.
     andThen (reads (\<lambda>s. voiceNow env 2)) (\<lambda>now.
     let session = \<lparr>vs_id = vq_sessionRequestId request, vs_workspaceId = cx_workspaceId cx, vs_principalId = cx_principalId cx,
           vs_state = V_IDLE, vs_permission = NOT_REQUESTED, vs_sttAdapterId = vq_sttAdapterId request,
           vs_ttsAdapterId = vq_ttsAdapterId request, vs_createdAt = now, vs_updatedAt = now, vs_stoppedReason = None\<rparr> in
     andThen (modify (putSession session)) (\<lambda>_. ret session))))"

definition requestMicrophonePermission :: "VoiceEnv \<Rightarrow> WorkspaceContext \<Rightarrow> EntityId \<Rightarrow> (VoiceGateway, VoiceError, VoiceSession) method" where
  "requestMicrophonePermission env cx sessionId =
     andThen (reads (\<lambda>s. ebind (requireSession s cx sessionId) (\<lambda>session.
       ebind (voiceEnsure (\<not> (vs_state session \<noteq> V_IDLE \<or> vs_permission session \<noteq> NOT_REQUESTED))
         ''Microphone permission transition is invalid'') (\<lambda>_. Inr session)))) (\<lambda>session.
     touch env 0 (session\<lparr>vs_state := REQUESTING_PERMISSION, vs_permission := PROMPTING\<rparr>))"

datatype MicrophoneResult = M_GRANTED | M_DENIED | M_UNAVAILABLE

definition resultPermission :: "MicrophoneResult \<Rightarrow> VoicePermission" where
  "resultPermission result = (case result of M_GRANTED \<Rightarrow> GRANTED | M_DENIED \<Rightarrow> DENIED | M_UNAVAILABLE \<Rightarrow> P_UNAVAILABLE)"

definition resultReason :: "MicrophoneResult \<Rightarrow> string option \<Rightarrow> string option" where
  "resultReason result previous = (case result of
     M_GRANTED \<Rightarrow> previous | M_DENIED \<Rightarrow> Some ''MICROPHONE_DENIED'' | M_UNAVAILABLE \<Rightarrow> Some ''MICROPHONE_UNAVAILABLE'')"

definition recordMicrophonePermission :: "VoiceEnv \<Rightarrow> WorkspaceContext \<Rightarrow> EntityId \<Rightarrow> MicrophoneResult \<Rightarrow>
    (VoiceGateway, VoiceError, VoiceSession) method" where
  "recordMicrophonePermission env cx sessionId result =
     andThen (reads (\<lambda>s. ebind (requireSession s cx sessionId) (\<lambda>session.
       ebind (voiceEnsure (\<not> (vs_state session \<noteq> REQUESTING_PERMISSION \<or> vs_permission session \<noteq> PROMPTING))
         ''Microphone permission result is unsolicited'') (\<lambda>_. Inr session)))) (\<lambda>session.
     touch env 0 (session\<lparr>vs_permission := resultPermission result,
       vs_state := (if result = M_GRANTED then V_READY else V_FAILED),
       vs_stoppedReason := resultReason result (vs_stoppedReason session)\<rparr>))"

definition pressToTalk :: "VoiceEnv \<Rightarrow> WorkspaceContext \<Rightarrow> EntityId \<Rightarrow> (VoiceGateway, VoiceError, VoiceSession) method" where
  "pressToTalk env cx sessionId =
     andThen (reads (\<lambda>s. ebind (requireSession s cx sessionId) (\<lambda>session.
       ebind (voiceEnsure (\<not> (vs_permission session \<noteq> GRANTED \<or> vs_state session \<noteq> V_READY))
         ''Push-to-talk requires granted permission and READY state'') (\<lambda>_. Inr session)))) (\<lambda>session.
     touch env 0 (session\<lparr>vs_state := RECORDING\<rparr>))"

definition releaseToTalk :: "VoiceEnv \<Rightarrow> WorkspaceContext \<Rightarrow> EntityId \<Rightarrow> (VoiceGateway, VoiceError, VoiceSession) method" where
  "releaseToTalk env cx sessionId =
     andThen (reads (\<lambda>s. ebind (requireSession s cx sessionId) (\<lambda>session.
       ebind (voiceEnsure (vs_state session = RECORDING) ''Push-to-talk release requires RECORDING state'') (\<lambda>_. Inr session)))) (\<lambda>session.
     touch env 0 (session\<lparr>vs_state := TRANSCRIBING\<rparr>))"

section \<open>Routing a transcript\<close>

definition proofKeyOf :: "WorkspaceContext \<Rightarrow> FinalTranscriptEnvelope \<Rightarrow> string" where
  "proofKeyOf cx e = key (cx_workspaceId cx) (ft_proof e)"

definition sequenceKeyOf :: "WorkspaceContext \<Rightarrow> FinalTranscriptEnvelope \<Rightarrow> string" where
  "sequenceKeyOf cx e = key (cx_workspaceId cx) (ft_sessionId e @ '':'' @ int_text (ft_sequence e))"

text \<open>The checks up to the redacted transcript, which change nothing; the result is the session and that text.\<close>

definition transcriptChecks :: "VoiceEnv \<Rightarrow> VoiceGateway \<Rightarrow> WorkspaceContext \<Rightarrow> FinalTranscriptEnvelope \<Rightarrow> VoiceError + VoiceSession \<times> string" where
  "transcriptChecks env s cx e = (let options = vg_options s; redactedTranscript = redact (trim (ft_transcript e)) in
     ebind (voiceAuthorized s cx) (\<lambda>_.
     ebind (requireSession s cx (ft_sessionId e)) (\<lambda>session.
     ebind (checks
       [voiceEnsure (vs_state session = TRANSCRIBING) ''Session is not accepting a transcript'',
        voiceEnsure (\<not> (ft_workspaceId e \<noteq> cx_workspaceId cx \<or> ft_principalId e \<noteq> cx_principalId cx \<or>
            vs_principalId session \<noteq> cx_principalId cx \<or> ft_adapterId e \<noteq> vs_sttAdapterId session)) ''Transcript linkage is invalid'',
        voiceEnsure (ft_final e) ''Only final transcripts may route'',
        voiceInteger (ft_sequence e) ''sequence'' MAX_SAFE_INTEGER,
        voiceEnsure (\<not> ft_sequence e < 1) ''sequence must be positive'',
        voiceText (ft_nonce e) ''nonce'' 256, voiceText (ft_proof e) ''proof'' 4096,
        voiceText (ft_transcript e) ''transcript'' (vo_maximumTranscriptBytes options),
        voiceInteger (ft_audioBytes e) ''audioBytes'' (vo_maximumAudioBytes options),
        ebind (voiceTime env (ft_observedAt e) ''observedAt'') (\<lambda>observedAt.
          voiceEnsure (\<not> vo_transcriptFreshnessMs options < \<bar>vp_clock env 0 - observedAt\<bar>) ''Transcript is stale or from the future''),
        voiceEnsure (\<not> (proofKeyOf cx e \<in> vg_usedTranscriptProofs s \<or> sequenceKeyOf cx e \<in> vg_usedSequences s))
          ''Transcript replay rejected'',
        ebind (requireAdapter s cx (ft_adapterId e) STT) (\<lambda>adapter.
          ebind (voiceEnsure (\<not> (vm_maximumInputBytes adapter < ft_audioBytes e \<or>
              vm_maximumTextBytes adapter < int (utf8Length (ft_transcript e)))) ''Transcript exceeds adapter-specific limits'') (\<lambda>_.
          ebind (vp_verifyProof env cx e adapter) (\<lambda>valid. voiceEnsure valid ''Final transcript proof is invalid''))),
        voiceText redactedTranscript ''redactedTranscript'' (vo_maximumTranscriptBytes options)]) (\<lambda>_.
     Inr (session, redactedTranscript)))))"

definition validateDecision :: "VoiceGateway \<Rightarrow> WorkspaceContext \<Rightarrow> VoiceSession \<Rightarrow> VoiceCommandRoutingRequest \<Rightarrow> VoiceCommandRoutingDecision \<Rightarrow>
    VoiceError + unit" where
  "validateDecision s cx session request decision = checks
     [voiceEnsure (\<not> (vd_requestId decision \<noteq> vq_id request \<or> vd_workspaceId decision \<noteq> cx_workspaceId cx \<or>
          vd_sessionId decision \<noteq> vs_id session)) ''Routing decision linkage is invalid'',
      voiceText (vd_commandId decision) ''commandId'' 256, voiceInteger (vd_requiredAuthority decision) ''requiredAuthority'' 4,
      voiceText (vd_reason decision) ''decisionReason'' 2048,
      voiceText (vd_responseText decision) ''responseText'' (vo_maximumResponseBytes (vg_options s)),
      (if vd_outcome decision = LEVEL_4
       then (case vd_exactTarget decision of
         None \<Rightarrow> voiceRefuse ''exactTarget must be bounded printable text'' | Some target \<Rightarrow> voiceText target ''exactTarget'' 2048)
       else voiceEnsure (vd_exactTarget decision = None) ''Only Level-4 decisions may name an exact target'')]"

fun shiftWhile :: "int \<Rightarrow> 'a list \<Rightarrow> 'a list" where
  "shiftWhile maximum [] = []"
| "shiftWhile maximum (e # es) = (if maximum < int (length (e # es)) then shiftWhile maximum es else e # es)"

definition historyOf :: "VoiceGateway \<Rightarrow> WorkspaceContext \<Rightarrow> VoiceHistoryEntry list" where
  "historyOf s cx = (case mget (vg_history s) (key (cx_workspaceId cx) (cx_principalId cx)) of None \<Rightarrow> [] | Some entries \<Rightarrow> entries)"

definition storeHistory :: "VoiceEnv \<Rightarrow> nat \<Rightarrow> WorkspaceContext \<Rightarrow> VoiceSession \<Rightarrow> FinalTranscriptEnvelope \<Rightarrow> VoiceCommandRoutingDecision \<Rightarrow>
    string \<Rightarrow> string \<Rightarrow> (VoiceGateway, VoiceError, unit) method" where
  "storeHistory env n cx session e decision redactedTranscript redactedResponse =
     andThen (reads (\<lambda>s. hashTranscript env cx redactedTranscript)) (\<lambda>transcriptHash.
     andThen (reads (\<lambda>s. voiceNow env 3)) (\<lambda>now.
     let entry = \<lparr>vh_id = vp_ids env n, vh_workspaceId = cx_workspaceId cx, vh_principalId = cx_principalId cx,
           vh_sessionId = vs_id session, vh_commandId = vd_commandId decision, vh_transcriptHash = transcriptHash,
           vh_redactedTranscript = (if ft_retention e = REDACTED_SESSION then Some redactedTranscript else None),
           vh_redactedResponse = redactedResponse, vh_outcome = vd_outcome decision,
           vh_requiredAuthority = vd_requiredAuthority decision, vh_createdAt = now\<rparr> in
     modify (\<lambda>s. s\<lparr>vg_history := mset_at (vg_history s) (key (cx_workspaceId cx) (cx_principalId cx))
       (shiftWhile (vo_maximumHistoryEntriesPerPrincipal (vg_options s)) (historyOf s cx @ [entry]))\<rparr>)))"

definition deny :: "VoiceEnv \<Rightarrow> VoiceSession \<Rightarrow> FinalTranscriptEnvelope \<Rightarrow> string \<Rightarrow> string \<Rightarrow> (VoiceGateway, VoiceError, VoiceRoutingResult) method" where
  "deny env session e redactedTranscript reason =
     (let decision = \<lparr>vd_requestId = vp_ids env 0, vd_workspaceId = vs_workspaceId session, vd_sessionId = vs_id session,
            vd_commandId = vp_ids env 1, vd_outcome = DENY, vd_requiredAuthority = 0, vd_exactTarget = None, vd_reason = reason,
            vd_responseText = ''Voice command denied by policy.''\<rparr> in
      andThen (touch env 2 (session\<lparr>vs_state := RESPONDING\<rparr>)) (\<lambda>session'.
      andThen (storeHistory env 2 \<lparr>cx_workspaceId = vs_workspaceId session, cx_principalId = vs_principalId session\<rparr> session' e decision
        redactedTranscript (vd_responseText decision)) (\<lambda>_.
      ret \<lparr>vr_commandId = vd_commandId decision, vr_outcome = DENY, vr_responseText = vd_responseText decision, vr_confirmation = None\<rparr>)))"

definition authorityChecks :: "VoiceAuthorityDecision \<Rightarrow> VoiceError + unit" where
  "authorityChecks authority = checks
     [voiceInteger (va_maximumAuthority authority) ''maximumAuthority'' 4, voiceText (va_reason authority) ''authorityReason'' 2048]"

definition decisionChecks :: "VoiceAuthorityDecision \<Rightarrow> VoiceCommandRoutingDecision \<Rightarrow> VoiceError + unit" where
  "decisionChecks authority decision = checks
     [voiceEnsure (\<not> (va_maximumAuthority authority < vd_requiredAuthority decision \<and> vd_outcome decision \<noteq> LEVEL_4))
        ''Routed command exceeds principal authority'',
      voiceEnsure (\<not> (vd_requiredAuthority decision = 4 \<and> vd_outcome decision \<noteq> LEVEL_4))
        ''Level-4 commands must require secure confirmation'',
      voiceEnsure (\<not> (vd_outcome decision = LEVEL_4 \<and> vd_requiredAuthority decision \<noteq> 4))
        ''Secure confirmation is reserved for Level-4 commands'']"

definition secureConfirmation :: "VoiceCommandRoutingDecision \<Rightarrow> SecureConfirmationRequirement" where
  "secureConfirmation decision =
     \<lparr>sc_commandId = vd_commandId decision, sc_exactTarget = (case vd_exactTarget decision of Some t \<Rightarrow> t | None \<Rightarrow> []),
      sc_permittedChannels = [''PROTECTED_UI'', ''WEBAUTHN_OR_MFA''], sc_voiceConfirmationAccepted = False, sc_reason = vd_reason decision\<rparr>"

text \<open>The command goes to the router and its decision is checked against the authority of the principal.\<close>

definition askRouter :: "VoiceEnv \<Rightarrow> WorkspaceContext \<Rightarrow> VoiceSession \<Rightarrow> VoiceAuthorityDecision \<Rightarrow> string \<Rightarrow> VoiceGateway \<Rightarrow>
    VoiceError + VoiceCommandRoutingDecision \<times> string" where
  "askRouter env cx session authority redactedTranscript s =
     ebind (hashTranscript env cx redactedTranscript) (\<lambda>transcriptHash.
     let request = \<lparr>vq_id = vp_ids env 0, vq_workspaceId = cx_workspaceId cx, vq_principalId = cx_principalId cx,
           vq_sessionId = vs_id session, vq_transcriptHash = transcriptHash, vq_redactedTranscript = redactedTranscript\<rparr> in
     ebind (vp_route env cx request) (\<lambda>decision.
     let redactedResponse = redact (trim (vd_responseText decision)) in
     ebind (checks
       [validateDecision s cx session request decision, decisionChecks authority decision,
        voiceText redactedResponse ''responseText'' (vo_maximumResponseBytes (vg_options s))]) (\<lambda>_.
     Inr (decision, redactedResponse))))"

text \<open>What follows once the transcript has been marked as used and the session is \<open>ROUTING\<close>.\<close>

definition routeCommand :: "VoiceEnv \<Rightarrow> WorkspaceContext \<Rightarrow> FinalTranscriptEnvelope \<Rightarrow> string \<Rightarrow> VoiceSession \<Rightarrow>
    (VoiceGateway, VoiceError, VoiceRoutingResult) method" where
  "routeCommand env cx e redactedTranscript session =
     andThen (reads (\<lambda>s. ebind (vp_authority env cx) (\<lambda>authority.
       ebind (authorityChecks authority) (\<lambda>_. Inr authority)))) (\<lambda>authority.
     if \<not> va_allowed authority then deny env session e redactedTranscript ''Voice authority denied''
     else
       andThen (reads (askRouter env cx session authority redactedTranscript)) (\<lambda>(decision, redactedResponse).
       andThen (touch env 2 (session\<lparr>vs_state := RESPONDING\<rparr>)) (\<lambda>session.
       andThen (storeHistory env 1 cx session e decision redactedTranscript redactedResponse) (\<lambda>_.
       ret \<lparr>vr_commandId = vd_commandId decision, vr_outcome = vd_outcome decision, vr_responseText = redactedResponse,
            vr_confirmation = (if vd_outcome decision = LEVEL_4 then Some (secureConfirmation decision) else None)\<rparr>))))"

definition routeFinalTranscript :: "VoiceEnv \<Rightarrow> WorkspaceContext \<Rightarrow> FinalTranscriptEnvelope \<Rightarrow> (VoiceGateway, VoiceError, VoiceRoutingResult) method" where
  "routeFinalTranscript env cx e =
     andThen (reads (\<lambda>s. transcriptChecks env s cx e)) (\<lambda>(session, redactedTranscript).
     andThen (modify (\<lambda>s. s\<lparr>vg_usedTranscriptProofs := insert (proofKeyOf cx e) (vg_usedTranscriptProofs s),
       vg_usedSequences := insert (sequenceKeyOf cx e) (vg_usedSequences s)\<rparr>)) (\<lambda>_.
     andThen (touch env 1 (session\<lparr>vs_state := ROUTING\<rparr>))
     (routeCommand env cx e redactedTranscript)))"

section \<open>Stopping and reading\<close>

definition stop :: "VoiceEnv \<Rightarrow> WorkspaceContext \<Rightarrow> EntityId \<Rightarrow> string \<Rightarrow> (VoiceGateway, VoiceError, VoiceSession) method" where
  "stop env cx sessionId reason =
     andThen (reads (\<lambda>s. ebind (voiceText reason ''stopReason'' 2048) (\<lambda>_. requireSession s cx sessionId))) (\<lambda>session.
     if vs_state session = V_STOPPED then ret session
     else if vs_state session = V_FAILED then reads (\<lambda>s. voiceRefuse ''Failed session is terminal'')
     else touch env 0 (session\<lparr>vs_state := V_STOPPED, vs_stoppedReason := Some (redact reason)\<rparr>))"

definition listHistory :: "VoiceGateway \<Rightarrow> WorkspaceContext \<Rightarrow> VoiceError + VoiceHistoryEntry list" where
  "listHistory s cx = ebind (voiceAuthorized s cx) (\<lambda>_. Inr (historyOf s cx))"

definition replay :: "VoiceEnv \<Rightarrow> VoiceGateway \<Rightarrow> WorkspaceContext \<Rightarrow> EntityId \<Rightarrow> VoiceError + ReplayPlan" where
  "replay env s cx historyEntryId =
     ebind (listHistory s cx) (\<lambda>entries.
     case find (\<lambda>entry. vh_id entry = historyEntryId) entries of
       None \<Rightarrow> voiceRefuse ''History entry not found''
     | Some entry \<Rightarrow> ebind (requireSession s cx (vh_sessionId entry)) (\<lambda>session.
         if \<not> truthy (vs_ttsAdapterId session) then voiceRefuse ''No TTS adapter selected''
         else ebind (requireAdapter s cx (the (vs_ttsAdapterId session)) TTS) (\<lambda>adapter.
         ebind (checks
           [assertEvidenceCurrent env 0 s cx adapter,
            voiceEnsure (vm_status adapter \<in> {AVAILABLE, BROWSER_LOCAL_AVAILABLE}) ''TTS adapter is unavailable'',
            voiceEnsure (\<not> vm_maximumTextBytes adapter < int (utf8Length (vh_redactedResponse entry)))
              ''Replay exceeds TTS adapter text limit'']) (\<lambda>_.
         Inr \<lparr>rpl_responseId = vh_id entry, rpl_ttsAdapterId = vm_adapterId adapter, rpl_redactedText = vh_redactedResponse entry\<rparr>))))"

definition getSession :: "VoiceGateway \<Rightarrow> WorkspaceContext \<Rightarrow> EntityId \<Rightarrow> VoiceError + VoiceSession option" where
  "getSession s cx sessionId = ebind (voiceAuthorized s cx) (\<lambda>_.
     Inr (case mget (vg_sessions s) (key (cx_workspaceId cx) sessionId) of
       None \<Rightarrow> None | Some session \<Rightarrow> if vs_principalId session \<noteq> cx_principalId cx then None else Some session))"

end
