(* ===== verification/Voice_Redaction.thy ===== *)
theory Voice_Redaction
  imports Voice_Gateway
begin

text \<open>
  What redaction leaves of a text: replacing matches by \<open>[REDACTED]\<close> never creates an occurrence of a word
  that has no bracket, so a redacted text has none of the sensitive markers.
\<close>

section \<open>Matches end later in the subject\<close>

lemma prefix_end_suffix: "(b', t) \<in> set (prefix_end eq w (b, s)) \<Longrightarrow> suffix t s"
  by (induction eq w "(b, s)" arbitrary: b s rule: prefix_end.induct) (auto split: if_splits intro: suffix_ConsI)

lemma rep_ends_suffix: "(b', t) \<in> set (rep_ends lo hi p b s) \<Longrightarrow> suffix t s"
  by (auto simp: rep_ends_iff suffix_def)

lemma greedyEnds_suffix: "(b', t) \<in> set (greedyEnds r (b, s)) \<Longrightarrow> suffix t s"
proof (induction r arbitrary: b' t b s)
  case (Seq r1 r2)
  then obtain b1 s1 where "(b1, s1) \<in> set (greedyEnds r1 (b, s))" "(b', t) \<in> set (greedyEnds r2 (b1, s1))" by auto
  with Seq.IH show ?case by (meson suffix_order.trans)
qed (auto dest: prefix_end_suffix rep_ends_suffix split: if_splits)

text \<open>Either the first character stays, or the substitute stands for a match that starts with it.\<close>

lemma replaceAll_cases:
  obtains (keep) "replaceAll r sub b (c # cs) = c # replaceAll r sub (Some c) cs"
    | (replace) b' t where "suffix t cs" "replaceAll r sub b (c # cs) = sub @ replaceAll r sub b' t"
proof (cases "greedyEnds r (b, c # cs)")
  case (Cons p ps)
  obtain b' t where p: "p = (b', t)" by (cases p)
  show thesis
  proof (cases "length t < length (c # cs)")
    case True
    have "suffix t (c # cs)" using greedyEnds_suffix [of b' t r b "c # cs"] Cons p by simp
    with True have "suffix t cs" by (auto simp: suffix_Cons)
    then show thesis using True Cons p replace [of t b'] by simp
  qed (use Cons p keep in simp)
qed (use keep in simp)

section \<open>Words without brackets\<close>

lemma prefix_replaced:
  assumes "prefix w (map f (replaceAll r sub b s))" "sub \<noteq> []" "f (hd sub) \<notin> set w"
  shows "prefix w (map f s)"
  using assms
proof (induction s arbitrary: w b)
  case (Cons c cs)
  show ?case
  proof (cases w)
    case w: (Cons a v)
    show ?thesis
    proof (cases rule: replaceAll_cases [of r sub b c cs])
      case keep
      with Cons.prems Cons.IH [of v "Some c"] show ?thesis by (simp add: w)
    next
      case (replace b' t)
      with Cons.prems show ?thesis by (cases sub) (auto simp: w)
    qed
  qed simp
qed simp

lemma sublist_separated: "sublist w (u @ c # v) \<Longrightarrow> c \<notin> set w \<Longrightarrow> sublist w u \<or> sublist w v"
proof -
  assume w: "c \<notin> set w" and "sublist w (u @ c # v)"
  then obtain p q where "u @ c # v = p @ w @ q" by (auto simp: sublist_def)
  then consider r where "u = p @ r" "r @ c # v = w @ q" | r where "p = u @ r" "c # v = r @ w @ q"
    by (auto simp: append_eq_append_conv2)
  then show ?thesis
  proof cases
    case 1
    then have "\<exists>x. r = w @ x" using w by (auto simp: append_eq_append_conv2 Cons_eq_append_conv)
    with 1 show ?thesis by (auto simp: sublist_def)
  next
    case 2
    then show ?thesis using w by (cases "w = []") (auto simp: Cons_eq_append_conv sublist_def)
  qed
qed

lemma sublist_replaced:
  assumes "sublist w (map f (replaceAll r (CHR ''['' # mid @ [CHR '']'']) b s))" "w \<noteq> []"
    "f (CHR ''['') \<notin> set w" "f (CHR '']'') \<notin> set w" "\<not> sublist w (map f mid)"
  shows "sublist w (map f s)"
  using assms(1)
proof (induction "length s" arbitrary: s b rule: less_induct)
  case less
  let ?sub = "CHR ''['' # mid @ [CHR '']'']"
  show ?case
  proof (cases s)
    case (Cons c cs)
    show ?thesis
    proof (cases rule: replaceAll_cases [of r ?sub b c cs])
      case keep
      then have "prefix w (f c # map f (replaceAll r ?sub (Some c) cs)) \<or> sublist w (map f (replaceAll r ?sub (Some c) cs))"
        using less.prems by (simp add: Cons sublist_Cons_right)
      then show ?thesis
      proof
        assume "prefix w (f c # map f (replaceAll r ?sub (Some c) cs))"
        then have "prefix w (map f (c # cs))"
          using prefix_replaced [of "tl w" f r ?sub "Some c" cs] assms(3) by (cases w) auto
        then show ?thesis by (simp add: Cons)
      next
        assume "sublist w (map f (replaceAll r ?sub (Some c) cs))"
        then show ?thesis using less.hyps [of cs "Some c"] by (simp add: Cons sublist_Cons_right)
      qed
    next
      case (replace b' t)
      have "sublist w (map f mid) \<or> sublist w (map f (replaceAll r ?sub b' t))"
      proof -
        have "sublist w ([] @ f (CHR ''['') # map f mid @ f (CHR '']'') # map f (replaceAll r ?sub b' t))"
          using less.prems replace(2) by (simp add: Cons)
        then have "sublist w (map f mid @ f (CHR '']'') # map f (replaceAll r ?sub b' t))"
          using sublist_separated [OF _ assms(3), of "[]"] assms(2) by simp
        then show ?thesis by (rule sublist_separated [OF _ assms(4)])
      qed
      then have "sublist w (map f t)"
        using assms(5) less.hyps [of t b'] suffix_length_le [OF replace(1)] by (simp add: Cons)
      moreover obtain p where "cs = p @ t" using replace(1) by (auto simp: suffix_def)
      then have "sublist (map f t) (map f s)"
        unfolding sublist_def by (intro exI [of _ "map f (c # p)"] exI [of _ "[]"]) (simp add: Cons)
      ultimately show ?thesis by (rule sublist_order.order.trans)
    qed
  qed (use less.prems in simp)
qed

section \<open>Redacted texts\<close>

lemma markers_apart:
  assumes "marker \<in> set SENSITIVE_TRANSCRIPT_MARKERS"
  shows "marker \<noteq> []" "lowerChar (CHR ''['') \<notin> set marker" "lowerChar (CHR '']'') \<notin> set marker"
    "\<not> sublist marker (map lowerChar ''REDACTED'')"
proof -
  have "list_all (\<lambda>m. m \<noteq> [] \<and> lowerChar (CHR ''['') \<notin> set m \<and> lowerChar (CHR '']'') \<notin> set m \<and>
      \<not> sublist m (map lowerChar ''REDACTED'')) SENSITIVE_TRANSCRIPT_MARKERS"
    by code_simp
  then have "marker \<noteq> [] \<and> lowerChar (CHR ''['') \<notin> set marker \<and> lowerChar (CHR '']'') \<notin> set marker \<and>
      \<not> sublist marker (map lowerChar ''REDACTED'')"
    using assms by (simp only: list_all_iff) blast
  then show "marker \<noteq> []" "lowerChar (CHR ''['') \<notin> set marker" "lowerChar (CHR '']'') \<notin> set marker"
    "\<not> sublist marker (map lowerChar ''REDACTED'')"
    by blast+
qed

lemma replaceAll_no_marker: "hasMarker (replaceAll r ''[REDACTED]'' b s) \<Longrightarrow> hasMarker s"
proof -
  assume "hasMarker (replaceAll r ''[REDACTED]'' b s)"
  then obtain w where w: "w \<in> set SENSITIVE_TRANSCRIPT_MARKERS" "sublist w (map lowerChar (replaceAll r ''[REDACTED]'' b s))"
    by (auto simp: hasMarker_def)
  have "sublist w (map lowerChar s)"
    using sublist_replaced [of w lowerChar r "''REDACTED''" b s] w(2) markers_apart [OF w(1)] by simp
  with w(1) show ?thesis by (auto simp: hasMarker_def)
qed

lemma redact_no_marker: "\<not> hasMarker (redact value)"
proof -
  have "hasMarker (foldl (\<lambda>result pattern. replaceAll pattern ''[REDACTED]'' None result) s rs) \<Longrightarrow> hasMarker s" for s rs
  proof (induction rs arbitrary: s)
    case (Cons r rs)
    then have "hasMarker (replaceAll r ''[REDACTED]'' None s)" by simp
    then show ?case by (rule replaceAll_no_marker)
  qed simp
  moreover have "\<not> hasMarker ''[REDACTED_SENSITIVE_TRANSCRIPT]''" by code_simp
  ultimately show ?thesis by (metis redact_def)
qed

end
