(* ===== verification/Voice_Invariants.thy ===== *)
theory Voice_Invariants
  imports Voice_Redaction
begin

text \<open>
  Every call of the voice gateway is a sequence of small moves: an adapter or a session is added, a session
  takes one step of its life, a transcript is marked as used, a history is extended.  The invariant and what
  never goes back are shown of the moves.
\<close>

section \<open>Moves\<close>

text \<open>The life of a session: state and microphone permission.\<close>

inductive sessionStep :: "VoiceSessionState \<times> VoicePermission \<Rightarrow> VoiceSessionState \<times> VoicePermission \<Rightarrow> bool" where
  ss_same: "sessionStep x x"
| ss_ask: "sessionStep (V_IDLE, NOT_REQUESTED) (REQUESTING_PERMISSION, PROMPTING)"
| ss_grant: "sessionStep (REQUESTING_PERMISSION, PROMPTING) (V_READY, GRANTED)"
| ss_deny: "sessionStep (REQUESTING_PERMISSION, PROMPTING) (V_FAILED, DENIED)"
| ss_unavailable: "sessionStep (REQUESTING_PERMISSION, PROMPTING) (V_FAILED, P_UNAVAILABLE)"
| ss_press: "sessionStep (V_READY, GRANTED) (RECORDING, GRANTED)"
| ss_release: "sessionStep (RECORDING, p) (TRANSCRIBING, p)"
| ss_route: "sessionStep (TRANSCRIBING, p) (ROUTING, p)"
| ss_respond: "sessionStep (ROUTING, p) (RESPONDING, p)"
| ss_stop: "st \<noteq> V_FAILED \<Longrightarrow> sessionStep (st, p) (V_STOPPED, p)"

inductive_simps sessionStep_simps: "sessionStep (st, p) (st', p')"

definition life :: "VoiceSession \<Rightarrow> VoiceSessionState \<times> VoicePermission" where
  "life session = (vs_state session, vs_permission session)"

definition cleanText :: "string option \<Rightarrow> bool" where
  "cleanText text = (case text of None \<Rightarrow> True | Some t \<Rightarrow> \<not> hasMarker t)"

definition sessionNext :: "VoiceSession \<Rightarrow> VoiceSession \<Rightarrow> bool" where
  "sessionNext old new \<longleftrightarrow> vs_id new = vs_id old \<and> vs_workspaceId new = vs_workspaceId old \<and> vs_principalId new = vs_principalId old \<and>
     sessionStep (life old) (life new) \<and> (cleanText (vs_stoppedReason old) \<longrightarrow> cleanText (vs_stoppedReason new))"

definition entryOk :: "VoiceHistoryEntry \<Rightarrow> bool" where
  "entryOk entry \<longleftrightarrow> cleanText (vh_redactedTranscript entry) \<and> \<not> hasMarker (vh_redactedResponse entry) \<and>
     0 \<le> vh_requiredAuthority entry \<and> vh_requiredAuthority entry \<le> 4 \<and>
     (vh_requiredAuthority entry = 4 \<longleftrightarrow> vh_outcome entry = LEVEL_4)"

definition pushHistory :: "VoiceHistoryEntry \<Rightarrow> VoiceGateway \<Rightarrow> VoiceGateway" where
  "pushHistory entry s = (let cx = \<lparr>cx_workspaceId = vh_workspaceId entry, cx_principalId = vh_principalId entry\<rparr> in
     s\<lparr>vg_history := mset_at (vg_history s) (key (cx_workspaceId cx) (cx_principalId cx))
       (shiftWhile (vo_maximumHistoryEntriesPerPrincipal (vg_options s)) (historyOf s cx @ [entry]))\<rparr>)"

inductive voiceMove :: "VoiceGateway \<Rightarrow> VoiceGateway \<Rightarrow> bool" where
  vm_adapters: "voiceMove s (s\<lparr>vg_adapters := a\<rparr>)"
| vm_open: "\<not> mhas (vg_sessions s) (key (vs_workspaceId session) (vs_id session)) \<Longrightarrow> life session = (V_IDLE, NOT_REQUESTED) \<Longrightarrow>
    vs_stoppedReason session = None \<Longrightarrow> voiceMove s (putSession session s)"
| vm_session: "mget (vg_sessions s) (key (vs_workspaceId new) (vs_id new)) = Some old \<Longrightarrow> sessionNext old new \<Longrightarrow>
    voiceMove s (putSession new s)"
| vm_used: "ps \<supseteq> vg_usedTranscriptProofs s \<Longrightarrow> qs \<supseteq> vg_usedSequences s \<Longrightarrow>
    voiceMove s (s\<lparr>vg_usedTranscriptProofs := ps, vg_usedSequences := qs\<rparr>)"
| vm_history: "entryOk entry \<Longrightarrow> voiceMove s (pushHistory entry s)"

abbreviation voiceMoves :: "VoiceGateway \<Rightarrow> VoiceGateway \<Rightarrow> bool" where
  "voiceMoves \<equiv> voiceMove\<^sup>*\<^sup>*"

section \<open>Invariant\<close>

definition sessionOk :: "VoiceSession \<Rightarrow> bool" where
  "sessionOk session \<longleftrightarrow>
     (vs_state session \<in> {V_READY, RECORDING, TRANSCRIBING, ROUTING, RESPONDING} \<longrightarrow> vs_permission session = GRANTED) \<and>
     cleanText (vs_stoppedReason session)"

definition voiceInv :: "VoiceGateway \<Rightarrow> bool" where
  "voiceInv s \<longleftrightarrow> 0 \<le> vo_maximumHistoryEntriesPerPrincipal (vg_options s) \<and>
     (\<forall>k session. mget (vg_sessions s) k = Some session \<longrightarrow> k = key (vs_workspaceId session) (vs_id session) \<and> sessionOk session) \<and>
     (\<forall>k entries. mget (vg_history s) k = Some entries \<longrightarrow>
        int (length entries) \<le> vo_maximumHistoryEntriesPerPrincipal (vg_options s) \<and>
        (\<forall>entry \<in> set entries. k = key (vh_workspaceId entry) (vh_principalId entry) \<and> entryOk entry))"

lemma sessionOk_next: "sessionNext old new \<Longrightarrow> sessionOk old \<Longrightarrow> sessionOk new"
  by (cases old; cases new) (auto simp: sessionNext_def sessionOk_def life_def sessionStep_simps)

lemma shiftWhile_suffix: "suffix (shiftWhile maximum es) es"
  by (induction es) (auto intro: suffix_ConsI)

lemma shiftWhile_bounded: "0 \<le> maximum \<Longrightarrow> int (length (shiftWhile maximum es)) \<le> maximum"
  by (induction es) auto

lemma voiceMove_inv: "voiceMove s t \<Longrightarrow> voiceInv s \<Longrightarrow> voiceInv t"
proof (induction rule: voiceMove.induct)
  case (vm_open s session)
  then show ?case by (auto simp: voiceInv_def putSession_def sessionOk_def life_def cleanText_def)
next
  case (vm_session s new old)
  then have "sessionOk new" by (auto simp: voiceInv_def intro: sessionOk_next)
  with vm_session show ?case by (auto simp: voiceInv_def putSession_def)
next
  case (vm_history entry s)
  let ?cx = "\<lparr>cx_workspaceId = vh_workspaceId entry, cx_principalId = vh_principalId entry\<rparr>"
  let ?k = "key (vh_workspaceId entry) (vh_principalId entry)"
  let ?es = "shiftWhile (vo_maximumHistoryEntriesPerPrincipal (vg_options s)) (historyOf s ?cx @ [entry])"
  have old: "\<forall>e \<in> set (historyOf s ?cx). ?k = key (vh_workspaceId e) (vh_principalId e) \<and> entryOk e"
    using vm_history(2) by (cases "mget (vg_history s) ?k") (fastforce simp: voiceInv_def historyOf_def simp del: key_inj)+
  have es: "\<forall>e \<in> set ?es. ?k = key (vh_workspaceId e) (vh_principalId e) \<and> entryOk e"
  proof
    fix e assume "e \<in> set ?es"
    then have "e = entry \<or> e \<in> set (historyOf s ?cx)" using set_mono_suffix [OF shiftWhile_suffix, of _ "historyOf s ?cx @ [entry]"] by auto
    then show "?k = key (vh_workspaceId e) (vh_principalId e) \<and> entryOk e" using old vm_history(1) by metis
  qed
  have "int (length ?es) \<le> vo_maximumHistoryEntriesPerPrincipal (vg_options s)"
    by (rule shiftWhile_bounded) (use vm_history(2) in \<open>simp add: voiceInv_def\<close>)
  with es vm_history(2) show ?case
    unfolding voiceInv_def pushHistory_def Let_def by (simp del: key_inj)
qed (auto simp: voiceInv_def)

lemma voiceMoves_inv: "voiceMoves s t \<Longrightarrow> voiceInv s \<Longrightarrow> voiceInv t"
  by (induction rule: rtranclp_induct) (auto intro: voiceMove_inv)

section \<open>What never goes back\<close>

fun stage :: "VoiceSessionState \<Rightarrow> nat" where
  "stage V_IDLE = 0" | "stage REQUESTING_PERMISSION = 1" | "stage V_READY = 2" | "stage RECORDING = 3" | "stage TRANSCRIBING = 4"
| "stage ROUTING = 5" | "stage RESPONDING = 6" | "stage V_STOPPED = 7" | "stage V_FAILED = 8"

text \<open>Sessions stay and only go forward, used proofs stay used, the configuration stays.\<close>

definition voiceLater :: "VoiceGateway \<Rightarrow> VoiceGateway \<Rightarrow> bool" where
  "voiceLater s t \<longleftrightarrow> vg_usedTranscriptProofs s \<subseteq> vg_usedTranscriptProofs t \<and> vg_usedSequences s \<subseteq> vg_usedSequences t \<and>
     vg_authorizedPrincipals t = vg_authorizedPrincipals s \<and> vg_options t = vg_options s \<and>
     (\<forall>k old. mget (vg_sessions s) k = Some old \<longrightarrow> (\<exists>new. mget (vg_sessions t) k = Some new \<and>
        vs_principalId new = vs_principalId old \<and> stage (vs_state old) \<le> stage (vs_state new)))"

lemma voiceLater_refl [simp]: "voiceLater s s"
  by (simp add: voiceLater_def)

lemma voiceLater_trans: "voiceLater s t \<Longrightarrow> voiceLater t u \<Longrightarrow> voiceLater s u"
  unfolding voiceLater_def by (metis order_trans)

lemma sessionStep_stage: "sessionStep x y \<Longrightarrow> stage (fst x) \<le> stage (fst y)"
proof (induction rule: sessionStep.induct)
  case (ss_stop st p)
  then show ?case by (cases st) auto
qed auto

lemma voiceMove_later: "voiceMove s t \<Longrightarrow> voiceLater s t"
proof (induction rule: voiceMove.induct)
  case (vm_session s new old)
  then have "stage (vs_state old) \<le> stage (vs_state new)" "vs_principalId new = vs_principalId old"
    using sessionStep_stage [of "life old" "life new"] by (auto simp: sessionNext_def life_def)
  with vm_session(1) show ?case by (auto simp: voiceLater_def putSession_def)
qed (auto simp: voiceLater_def putSession_def mhas_def pushHistory_def Let_def)

lemma voiceMoves_later: "voiceMoves s t \<Longrightarrow> voiceLater s t"
  by (induction rule: rtranclp_induct) (auto intro: voiceMove_later voiceLater_trans)

section \<open>The calls are moves\<close>

lemma requireSession_Inr:
  "requireSession s cx sessionId = Inr session \<longleftrightarrow> cx_principalId cx \<in> vg_authorizedPrincipals s \<and>
     mget (vg_sessions s) (key (cx_workspaceId cx) sessionId) = Some session \<and> vs_principalId session = cx_principalId cx"
  by (auto simp: requireSession_def voiceAuthorized_def Let_def ebind_def ensure_def split: option.splits)

lemma requireSession_key:
  assumes "voiceInv s" "requireSession s cx sessionId = Inr session"
  shows "mget (vg_sessions s) (key (vs_workspaceId session) (vs_id session)) = Some session"
    "vs_workspaceId session = cx_workspaceId cx" "vs_id session = sessionId" "vs_principalId session = cx_principalId cx" "sessionOk session"
proof -
  have m: "mget (vg_sessions s) (key (cx_workspaceId cx) sessionId) = Some session" "vs_principalId session = cx_principalId cx"
    using assms(2) by (simp_all add: requireSession_Inr)
  have "key (cx_workspaceId cx) sessionId = key (vs_workspaceId session) (vs_id session) \<and> sessionOk session"
    using assms(1) m(1) unfolding voiceInv_def by blast
  with m show "mget (vg_sessions s) (key (vs_workspaceId session) (vs_id session)) = Some session"
    "vs_workspaceId session = cx_workspaceId cx" "vs_id session = sessionId" "vs_principalId session = cx_principalId cx" "sessionOk session"
    by simp_all
qed

lemma putSession_twice [simp]:
  "vs_id new = vs_id old \<Longrightarrow> vs_workspaceId new = vs_workspaceId old \<Longrightarrow> putSession new (putSession old s) = putSession new s"
  by (simp add: putSession_def mset_at_def)

lemma sessionNext_updated [simp]: "sessionNext old (new\<lparr>vs_updatedAt := at\<rparr>) \<longleftrightarrow> sessionNext old new"
  by (simp add: sessionNext_def life_def)

lemma touch_moves:
  assumes "mget (vg_sessions s) (key (vs_workspaceId new) (vs_id new)) = Some old" "sessionNext old new"
  shows "wp (touch env n new) (\<lambda>r t. voiceMoves s t \<and> (\<forall>x. r = Inr x \<longrightarrow> (\<exists>now. x = new\<lparr>vs_updatedAt := now\<rparr> \<and> t = putSession x s))) s"
  using assms by (auto simp: touch_def wp_simps Let_def intro!: r_into_rtranclp vm_session split: sum.splits)

text \<open>A call that changes one session.\<close>

lemma session_call:
  assumes "voiceInv s" "\<And>session. requireSession s cx sessionId = Inr session \<Longrightarrow> P session \<Longrightarrow> sessionNext session (f session)"
    and "\<And>session. vs_id (f session) = vs_id session \<and> vs_workspaceId (f session) = vs_workspaceId session"
  shows "wp (andThen (reads (\<lambda>s. ebind (requireSession s cx sessionId) (\<lambda>session. ebind (voiceEnsure (P session) message) (\<lambda>_. Inr session))))
      (\<lambda>session. touch env n (f session))) (\<lambda>r t. voiceMoves s t) s"
proof (cases "requireSession s cx sessionId")
  case (Inr session)
  show ?thesis
  proof (cases "P session")
    case True
    have "wp (touch env n (f session)) (\<lambda>r t. voiceMoves s t) s"
      by (rule wp_mono [OF touch_moves [of s "f session" session]])
        (use requireSession_key [OF assms(1) Inr] assms(2) [OF Inr True] assms(3) in simp_all)
    then show ?thesis using Inr True by (simp add: wp_simps)
  qed (use Inr in \<open>simp add: wp_simps ensure_def\<close>)
qed (simp add: wp_simps)

lemma requestMicrophonePermission_moves: "voiceInv s \<Longrightarrow> wp (requestMicrophonePermission env cx sessionId) (\<lambda>r t. voiceMoves s t) s"
  unfolding requestMicrophonePermission_def
  by (rule session_call) (auto simp: sessionNext_def life_def sessionStep_simps)

lemma recordMicrophonePermission_moves: "voiceInv s \<Longrightarrow> wp (recordMicrophonePermission env cx sessionId result) (\<lambda>r t. voiceMoves s t) s"
proof -
  have "\<not> hasMarker ''MICROPHONE_DENIED''" "\<not> hasMarker ''MICROPHONE_UNAVAILABLE''" by code_simp+
  then show "voiceInv s \<Longrightarrow> ?thesis" unfolding recordMicrophonePermission_def
    by (intro session_call) (cases result; auto simp: sessionNext_def life_def sessionStep_simps cleanText_def resultPermission_def resultReason_def)+
qed

lemma pressToTalk_moves: "voiceInv s \<Longrightarrow> wp (pressToTalk env cx sessionId) (\<lambda>r t. voiceMoves s t) s"
  unfolding pressToTalk_def by (rule session_call) (auto simp: sessionNext_def life_def sessionStep_simps)

lemma releaseToTalk_moves: "voiceInv s \<Longrightarrow> wp (releaseToTalk env cx sessionId) (\<lambda>r t. voiceMoves s t) s"
  unfolding releaseToTalk_def by (rule session_call) (auto simp: sessionNext_def life_def sessionStep_simps)

lemma stop_moves:
  assumes "voiceInv s"
  shows "wp (stop env cx sessionId reason) (\<lambda>r t. voiceMoves s t) s"
proof (cases "requireSession s cx sessionId")
  case (Inr session)
  let ?new = "session\<lparr>vs_state := V_STOPPED, vs_stoppedReason := Some (redact reason)\<rparr>"
  have "wp (touch env 0 ?new) (\<lambda>r t. voiceMoves s t) s" if "vs_state session \<noteq> V_FAILED"
    by (rule wp_mono [OF touch_moves [of s ?new session]])
      (use requireSession_key [OF assms Inr] that redact_no_marker in
        \<open>auto simp: sessionNext_def life_def sessionStep_simps cleanText_def\<close>)
  then show ?thesis using Inr by (auto simp: stop_def wp_simps ebind_def split: sum.splits)
qed (auto simp: stop_def wp_simps ebind_def split: sum.splits)

lemma registerAdapter_moves: "wp (registerAdapter env cx metadata) (\<lambda>r t. voiceMoves s t) s"
  by (auto simp: registerAdapter_def wp_simps Let_def intro!: r_into_rtranclp vm_adapters split: sum.splits)

lemma createSession_moves: "wp (createSession env cx request) (\<lambda>r t. voiceMoves s t) s"
  unfolding createSession_def Let_def
  by (auto simp: wp_simps outcome_simps life_def mhas_def intro!: r_into_rtranclp vm_open split: sum.splits)

section \<open>Routing\<close>

definition useTranscript :: "WorkspaceContext \<Rightarrow> FinalTranscriptEnvelope \<Rightarrow> VoiceGateway \<Rightarrow> VoiceGateway" where
  "useTranscript cx e s = s\<lparr>vg_usedTranscriptProofs := insert (proofKeyOf cx e) (vg_usedTranscriptProofs s),
     vg_usedSequences := insert (sequenceKeyOf cx e) (vg_usedSequences s)\<rparr>"

lemma transcriptChecks_Inr:
  assumes "transcriptChecks env s cx e = Inr (session, text)"
  shows "requireSession s cx (ft_sessionId e) = Inr session" "vs_state session = TRANSCRIBING" "text = redact (trim (ft_transcript e))"
    "ft_final e" "ft_workspaceId e = cx_workspaceId cx" "ft_principalId e = cx_principalId cx" "ft_adapterId e = vs_sttAdapterId session"
    "proofKeyOf cx e \<notin> vg_usedTranscriptProofs s" "sequenceKeyOf cx e \<notin> vg_usedSequences s"
    "\<exists>adapter. requireAdapter s cx (ft_adapterId e) STT = Inr adapter \<and> vp_verifyProof env cx e adapter = Inr True"
  using assms by (auto simp: transcriptChecks_def outcome_simps Let_def)

text \<open>What is known of a decision that the gateway answers with.\<close>

definition decisionOk :: "VoiceCommandRoutingDecision \<Rightarrow> bool" where
  "decisionOk decision \<longleftrightarrow> 0 \<le> vd_requiredAuthority decision \<and> vd_requiredAuthority decision \<le> 4 \<and>
     (vd_requiredAuthority decision = 4 \<longleftrightarrow> vd_outcome decision = LEVEL_4)"

lemma askRouter_Inr:
  assumes "askRouter env cx session authority text s = Inr (decision, response)"
  shows "decisionOk decision" "\<not> hasMarker response"
    "vd_outcome decision \<noteq> LEVEL_4 \<Longrightarrow> vd_requiredAuthority decision \<le> va_maximumAuthority authority"
    "vd_outcome decision = LEVEL_4 \<Longrightarrow> vd_exactTarget decision \<noteq> None" "vd_sessionId decision = vs_id session"
  using assms redact_no_marker
  by (auto simp: askRouter_def validateDecision_def decisionChecks_def decisionOk_def voiceInteger_def outcome_simps Let_def
      split: if_splits option.splits)

lemma storeHistory_moves:
  assumes "decisionOk decision" "\<not> hasMarker text" "\<not> hasMarker response"
  shows "wp (storeHistory env n cx session e decision text response) (\<lambda>r t. voiceMoves s t \<and> (r = Inr () \<longrightarrow>
      (\<exists>entry. entryOk entry \<and> t = pushHistory entry s \<and> vh_workspaceId entry = cx_workspaceId cx \<and> vh_principalId entry = cx_principalId cx \<and>
         vh_sessionId entry = vs_id session \<and> vh_commandId entry = vd_commandId decision \<and> vh_outcome entry = vd_outcome decision \<and>
         vh_redactedResponse entry = response \<and> vh_requiredAuthority entry = vd_requiredAuthority decision))) s"
proof (cases "hashTranscript env cx text")
  case hash: (Inr digest)
  show ?thesis
  proof (cases "voiceNow env 3")
    case now: (Inr at)
    let ?entry = "\<lparr>vh_id = vp_ids env n, vh_workspaceId = cx_workspaceId cx, vh_principalId = cx_principalId cx,
      vh_sessionId = vs_id session, vh_commandId = vd_commandId decision, vh_transcriptHash = digest,
      vh_redactedTranscript = (if ft_retention e = REDACTED_SESSION then Some text else None),
      vh_redactedResponse = response, vh_outcome = vd_outcome decision, vh_requiredAuthority = vd_requiredAuthority decision, vh_createdAt = at\<rparr>"
    have "storeHistory env n cx session e decision text response s = (Inr (), pushHistory ?entry s)"
      by (simp add: storeHistory_def andThen_def reads_def modify_def hash now pushHistory_def historyOf_def Let_def)
    moreover have ok: "entryOk ?entry" using assms by (simp add: entryOk_def decisionOk_def cleanText_def)
    ultimately show ?thesis
      using r_into_rtranclp [of voiceMove, OF vm_history [OF ok]] by (auto simp: wp_def intro!: exI [of _ ?entry])
  qed (simp add: storeHistory_def wp_simps hash)
qed (simp add: storeHistory_def wp_simps)

end
