(* ===== verification/Voice_System.thy ===== *)
theory Voice_System
  imports Voice_Invariants
begin

text \<open>
  Routing a transcript as a sequence of moves with what a successful answer records, the gateway as a
  transition system over all its calls, and the invariant in every reachable state.
\<close>

section \<open>Routing is a sequence of moves\<close>

text \<open>The answer to a command: the session responds and the answer is the newest entry of the history.\<close>

definition answered :: "WorkspaceContext \<Rightarrow> VoiceSession \<Rightarrow> VoiceRoutingResult \<Rightarrow> VoiceHistoryEntry \<Rightarrow> VoiceGateway \<Rightarrow> VoiceGateway \<Rightarrow> bool" where
  "answered cx session result entry s t \<longleftrightarrow> (\<exists>responded. t = pushHistory entry (putSession responded s) \<and> vs_state responded = RESPONDING \<and>
     vs_id responded = vs_id session \<and> vs_workspaceId responded = vs_workspaceId session) \<and> entryOk entry \<and>
     vh_workspaceId entry = cx_workspaceId cx \<and> vh_principalId entry = cx_principalId cx \<and> vh_sessionId entry = vs_id session \<and>
     vh_commandId entry = vr_commandId result \<and> vh_outcome entry = vr_outcome result \<and> vh_redactedResponse entry = vr_responseText result"

text \<open>The authority behind an answer: a Level-4 command is only announced, for a confirmation by other means.\<close>

definition permitted :: "VoiceEnv \<Rightarrow> WorkspaceContext \<Rightarrow> VoiceRoutingResult \<Rightarrow> AuthorityLevel \<Rightarrow> bool" where
  "permitted env cx result level \<longleftrightarrow> (\<exists>authority. vp_authority env cx = Inr authority \<and>
     (vr_outcome result \<noteq> LEVEL_4 \<longrightarrow> level \<le> va_maximumAuthority authority \<and> vr_confirmation result = None) \<and>
     (vr_outcome result = LEVEL_4 \<longrightarrow> (\<exists>c. vr_confirmation result = Some c \<and> sc_commandId c = vr_commandId result \<and>
        \<not> sc_voiceConfirmationAccepted c)))"

lemma answered_context: "answered \<lparr>cx_workspaceId = cx_workspaceId cx, cx_principalId = cx_principalId cx\<rparr> = answered cx"
  by (simp add: answered_def fun_eq_iff)

lemma respond_moves:
  assumes "mget (vg_sessions s) (key (vs_workspaceId session) (vs_id session)) = Some session" "vs_state session = ROUTING"
    and "decisionOk decision" "\<not> hasMarker text" "\<not> hasMarker response"
    and "vr_commandId result = vd_commandId decision" "vr_outcome result = vd_outcome decision" "vr_responseText result = response"
  shows "wp (andThen (touch env 2 (session\<lparr>vs_state := RESPONDING\<rparr>)) (\<lambda>session'.
      andThen (storeHistory env n cx session' e decision text response) (\<lambda>_. ret result)))
    (\<lambda>r t. voiceMoves s t \<and> (\<forall>x. r = Inr x \<longrightarrow> x = result \<and>
      (\<exists>entry. answered cx session result entry s t \<and> vh_requiredAuthority entry = vd_requiredAuthority decision))) s"
proof -
  let ?new = "session\<lparr>vs_state := RESPONDING\<rparr>"
  have n: "sessionNext session ?new" using assms(2) by (simp add: sessionNext_def life_def sessionStep_simps)
  have store: "wp (andThen (storeHistory env n cx x e decision text response) (\<lambda>_. ret result))
     (\<lambda>r t. voiceMoves s t \<and> (\<forall>y. r = Inr y \<longrightarrow> y = result \<and>
       (\<exists>entry. answered cx session result entry s t \<and> vh_requiredAuthority entry = vd_requiredAuthority decision))) u"
    if "voiceMoves s u" "x = ?new\<lparr>vs_updatedAt := now\<rparr>" "u = putSession x s" for x now u
  proof -
    have "answered cx session result entry s (pushHistory entry u)"
      if "entryOk entry" "vh_workspaceId entry = cx_workspaceId cx" "vh_principalId entry = cx_principalId cx" "vh_sessionId entry = vs_id x"
        "vh_commandId entry = vd_commandId decision" "vh_outcome entry = vd_outcome decision" "vh_redactedResponse entry = response" for entry
      unfolding answered_def using that \<open>x = _\<close> \<open>u = _\<close> assms(6-8) by (intro conjI exI [of _ x]) simp_all
    then show ?thesis
      unfolding wp_andThen
      by (intro wp_mono [OF storeHistory_moves [OF assms(3-5), of env n cx x e u]])
        (use that(1) in \<open>auto simp: wp_simps split: sum.splits intro: rtranclp_trans\<close>)
  qed
  show ?thesis
    unfolding wp_andThen [of "touch env 2 ?new"]
    by (rule wp_mono [OF touch_moves [of s ?new session]]) (use assms(1) n store in \<open>auto split: sum.splits\<close>)
qed

lemma routeCommand_moves:
  assumes "mget (vg_sessions s) (key (vs_workspaceId session) (vs_id session)) = Some session" "vs_state session = ROUTING"
    and "\<not> hasMarker text" "vs_workspaceId session = cx_workspaceId cx" "vs_principalId session = cx_principalId cx"
  shows "wp (routeCommand env cx e text session) (\<lambda>r t. voiceMoves s t \<and> (\<forall>result. r = Inr result \<longrightarrow>
    (\<exists>entry. answered cx session result entry s t \<and> permitted env cx result (vh_requiredAuthority entry)))) s"
proof (cases "ebind (vp_authority env cx) (\<lambda>authority. ebind (authorityChecks authority) (\<lambda>_. Inr authority))")
  case (Inr authority)
  then have a: "vp_authority env cx = Inr authority" "0 \<le> va_maximumAuthority authority"
    by (auto simp: outcome_simps authorityChecks_def voiceInteger_def)
  have denied: "\<not> hasMarker ''Voice command denied by policy.''" by code_simp
  show ?thesis
  proof (cases "va_allowed authority")
    case False
    show ?thesis
      unfolding routeCommand_def wp_andThen [of "reads f" for f] wp_reads Inr deny_def Let_def
      using False assms a(2) denied
      by simp (rule wp_mono [OF respond_moves], auto simp: decisionOk_def answered_context permitted_def a(1), metis)
  next
    case True
    show ?thesis
    proof (cases "askRouter env cx session authority text s")
      case router: (Inr p)
      obtain decision response where p: "p = (decision, response)" by (cases p)
      note d = askRouter_Inr [OF router [unfolded p]]
      show ?thesis
        unfolding routeCommand_def wp_andThen [of "reads f" for f] wp_reads Inr
        using True assms a(1) d router p
        by (simp add: wp_andThen [of "reads f" for f] wp_reads split del: if_split) (rule wp_mono [OF respond_moves], auto simp: secureConfirmation_def permitted_def, metis+)
    next
      case (Inl err)
      then show ?thesis unfolding routeCommand_def wp_andThen [of "reads f" for f] wp_reads Inr using True by (simp add: wp_andThen wp_reads)
    qed
  qed
qed (simp add: routeCommand_def wp_simps)

lemma touch_stores:
  "wp (touch env n new) (\<lambda>r t. \<exists>now. t = putSession (new\<lparr>vs_updatedAt := now\<rparr>) s \<and> (\<forall>x. r = Inr x \<longrightarrow> x = new\<lparr>vs_updatedAt := now\<rparr>)) s"
  by (auto simp: touch_def wp_simps Let_def split: sum.splits intro: exI [of _ "vs_updatedAt new"])

lemma voiceLater_session:
  assumes "voiceLater s t" "mget (vg_sessions s) k = Some old"
  obtains new where "mget (vg_sessions t) k = Some new" "vs_principalId new = vs_principalId old" "stage (vs_state old) \<le> stage (vs_state new)"
  using assms unfolding voiceLater_def by blast

lemma route_moves:
  assumes "voiceInv s" "transcriptChecks env s cx e = Inr (session, text)"
  shows "wp (routeFinalTranscript env cx e) (\<lambda>r t. voiceMoves s t \<and> proofKeyOf cx e \<in> vg_usedTranscriptProofs t \<and>
      (\<exists>new. mget (vg_sessions t) (key (cx_workspaceId cx) (ft_sessionId e)) = Some new \<and> 5 \<le> stage (vs_state new)) \<and>
      (\<forall>result. r = Inr result \<longrightarrow> (\<exists>entry u. answered cx session result entry u t \<and> permitted env cx result (vh_requiredAuthority entry) \<and>
        vg_history u = vg_history s \<and> vg_options u = vg_options s))) s"
    (is "wp _ ?Q s")
proof -
  let ?new = "session\<lparr>vs_state := ROUTING\<rparr>" and ?u = "useTranscript cx e s"
  note c = transcriptChecks_Inr [OF assms(2)]
  note k = requireSession_key [OF assms(1) c(1)]
  have u: "voiceMoves s ?u" unfolding useTranscript_def by (intro r_into_rtranclp vm_used) auto
  have stored: "mget (vg_sessions ?u) (key (vs_workspaceId ?new) (vs_id ?new)) = Some session"
    and "sessionNext session ?new"
    using k(1) c(2) by (simp_all add: useTranscript_def sessionNext_def life_def sessionStep_simps)
  then have touched: "voiceMoves s (putSession (?new\<lparr>vs_updatedAt := at\<rparr>) ?u)" for at
    using rtranclp.rtrancl_into_rtrancl [OF u vm_session] by simp
  have spent: "proofKeyOf cx e \<in> vg_usedTranscriptProofs t \<and>
      (\<exists>new. mget (vg_sessions t) (key (cx_workspaceId cx) (ft_sessionId e)) = Some new \<and> 5 \<le> stage (vs_state new))"
    if "voiceMoves (putSession (?new\<lparr>vs_updatedAt := at\<rparr>) ?u) t" for t at
  proof -
    have later: "voiceLater (putSession (?new\<lparr>vs_updatedAt := at\<rparr>) ?u) t" by (rule voiceMoves_later [OF that])
    have "mget (vg_sessions (putSession (?new\<lparr>vs_updatedAt := at\<rparr>) ?u)) (key (cx_workspaceId cx) (ft_sessionId e)) =
        Some (?new\<lparr>vs_updatedAt := at\<rparr>)"
      using k(2,3) by (simp add: putSession_def)
    then show ?thesis
      using later by (elim voiceLater_session [OF later]) (auto simp: voiceLater_def putSession_def useTranscript_def)
  qed
  have command: "wp (routeCommand env cx e text x) ?Q (putSession x ?u)" if x: "x = ?new\<lparr>vs_updatedAt := at\<rparr>" for x at
  proof -
    let ?w = "putSession x ?u"
    have w: "wp (routeCommand env cx e text x) (\<lambda>r t. voiceMoves ?w t \<and> (\<forall>result. r = Inr result \<longrightarrow>
      (\<exists>entry. answered cx x result entry ?w t \<and> permitted env cx result (vh_requiredAuthority entry)))) ?w"
      by (rule routeCommand_moves) (use x c(3) k redact_no_marker in \<open>simp_all add: putSession_def\<close>)
    have same: "answered cx x = answered cx session" "vg_history ?w = vg_history s" "vg_options ?w = vg_options s"
      by (simp_all add: x answered_def fun_eq_iff putSession_def useTranscript_def)
    have "voiceMoves s t" if "voiceMoves ?w t" for t using rtranclp_trans [OF touched [of at]] that x by simp
    then show ?thesis
      using spent [of at, folded x] same(2,3) by (intro wp_mono [OF w [unfolded same(1)]]) blast
  qed
  have "wp (andThen (touch env 1 ?new) (routeCommand env cx e text)) ?Q ?u"
    unfolding wp_andThen
    by (rule wp_mono [OF touch_stores]) (use command touched spent [OF rtranclp.rtrancl_refl] in \<open>auto split: sum.splits\<close>)
  then show ?thesis
    unfolding routeFinalTranscript_def wp_andThen [of "reads f" for f] wp_reads wp_andThen [of "modify f" for f] wp_modify assms(2)
    by (simp add: useTranscript_def wp_andThen [of "modify f" for f] wp_modify)
qed

lemma refused_transcript: "transcriptChecks env s cx e = Inl err \<Longrightarrow> routeFinalTranscript env cx e s = (Inl err, s)"
  by (simp add: routeFinalTranscript_def andThen_def reads_def)

section \<open>The gateway as a system\<close>

definition voiceInit :: "VoiceGateway \<Rightarrow> bool" where
  "voiceInit s \<longleftrightarrow> (\<exists>principals options. newVoiceGateway principals options = Inr s)"

inductive voiceStep :: "VoiceGateway \<Rightarrow> VoiceGateway \<Rightarrow> bool" where
  vs_registerAdapter: "registerAdapter env cx metadata s = (r1, t) \<Longrightarrow> voiceStep s t"
| vs_createSession: "createSession env cx request s = (r2, t) \<Longrightarrow> voiceStep s t"
| vs_requestPermission: "requestMicrophonePermission env cx sessionId s = (r2, t) \<Longrightarrow> voiceStep s t"
| vs_recordPermission: "recordMicrophonePermission env cx sessionId result s = (r2, t) \<Longrightarrow> voiceStep s t"
| vs_pressToTalk: "pressToTalk env cx sessionId s = (r2, t) \<Longrightarrow> voiceStep s t"
| vs_releaseToTalk: "releaseToTalk env cx sessionId s = (r2, t) \<Longrightarrow> voiceStep s t"
| vs_route: "routeFinalTranscript env cx e s = (r3, t) \<Longrightarrow> voiceStep s t"
| vs_stop: "stop env cx sessionId reason s = (r2, t) \<Longrightarrow> voiceStep s t"

abbreviation voiceReachable :: "VoiceGateway \<Rightarrow> bool" where
  "voiceReachable \<equiv> reach voiceInit voiceStep"

lemma voiceStep_moves: "voiceStep s t \<Longrightarrow> voiceInv s \<Longrightarrow> voiceMoves s t"
proof (induction rule: voiceStep.induct)
  case (vs_route env cx e s r t)
  show ?case
  proof (cases "transcriptChecks env s cx e")
    case (Inr p)
    then obtain session words where "transcriptChecks env s cx e = Inr (session, words)" by (cases p) auto
    from wpD [OF route_moves [OF vs_route(2) this] vs_route(1)] show ?thesis by blast
  qed (use refused_transcript vs_route(1) in auto)
qed (blast dest: wpD [OF registerAdapter_moves] wpD [OF createSession_moves] wpD [OF requestMicrophonePermission_moves]
    wpD [OF recordMicrophonePermission_moves] wpD [OF pressToTalk_moves] wpD [OF releaseToTalk_moves] wpD [OF stop_moves])+

interpretation voice: invariant_system voiceInit voiceStep voiceInv
proof unfold_locales
  show "voiceInit s \<Longrightarrow> voiceInv s" for s
    by (auto simp: voiceInit_def newVoiceGateway_def voiceInv_def voiceInteger_def outcome_simps)
  show "voiceInv s \<Longrightarrow> voiceStep s t \<Longrightarrow> voiceInv t" for s t by (metis voiceStep_moves voiceMoves_inv)
qed

lemma voiceSteps_later: "voiceStep\<^sup>*\<^sup>* s t \<Longrightarrow> voiceInv s \<Longrightarrow> voiceLater s t"
proof (induction rule: rtranclp_induct)
  case (step t u)
  have "voiceLater t u" using voiceMoves_later voiceStep_moves step(2) voice.steps_inv [OF step(1,4)] by blast
  with step show ?case by (blast intro: voiceLater_trans)
qed simp

end
