(* ===== verification/Voice_Properties.thy ===== *)
theory Voice_Properties
  imports Voice_System
begin

text \<open>
  The properties of the voice gateway: what its histories may hold, and under which conditions a spoken
  command is answered.
\<close>

section \<open>A session from registration to answer\<close>

definition ann :: WorkspaceContext where
  "ann = \<lparr>cx_workspaceId = ''ws'', cx_principalId = ''ann''\<rparr>"

definition annEnv :: VoiceEnv where
  "annEnv = \<lparr>vp_clock = (\<lambda>n. 5000), vp_ids = (\<lambda>n. ''id-'' @ nat_text n), vp_dateParse = (\<lambda>_. None),
     vp_verifyProof = (\<lambda>cx e m. Inr (ft_proof e = ''proof-1'')), vp_verifyEvidence = (\<lambda>cx m. Inr True), vp_hash = (\<lambda>cx t. Inr ''digest''),
     vp_authority = (\<lambda>cx. Inr \<lparr>va_allowed = True, va_maximumAuthority = 3, va_reason = ''operator''\<rparr>),
     vp_route = (\<lambda>cx q. Inr \<lparr>vd_requestId = vq_id q, vd_workspaceId = vq_workspaceId q, vd_sessionId = vq_sessionId q,
       vd_commandId = ''cmd'', vd_outcome = LEVEL_4, vd_requiredAuthority = 4, vd_exactTarget = Some ''release'',
       vd_reason = ''needs approval'', vd_responseText = ''Please confirm''\<rparr>)\<rparr>"

definition annMicrophone :: VoiceProviderMetadata where
  "annMicrophone = \<lparr>vm_adapterId = ''stt'', vm_kind = STT, vm_provider = ''browser'', vm_model = None, vm_status = BROWSER_LOCAL_AVAILABLE,
     vm_availability = LOCAL_BROWSER, vm_networkMode = OFFLINE, vm_credentialMode = NO_CREDENTIAL, vm_isFallback = False,
     vm_availabilityEvidenceId = ''ev'', vm_availabilityVerifiedAt = ''1970-01-01T00:00:05.000Z'', vm_maximumInputBytes = 1000,
     vm_maximumTextBytes = 1000, vm_latencyP50Ms = None, vm_latencyP95Ms = None, vm_qualityScoreBps = None,
     vm_costMinorUnitsPerMillionInputUnits = None, vm_currency = None, vm_dataPolicy = LOCAL_ONLY\<rparr>"

definition annRequest :: VoiceSessionRequest where
  "annRequest = \<lparr>vq_sessionRequestId = ''talk'', vq_sttAdapterId = ''stt'', vq_ttsAdapterId = None,
     vq_browser = \<lparr>bv_microphonePermissionApi = True, bv_localSpeechToText = True, bv_localTextToSpeech = False, bv_realtimeSpeech = False\<rparr>\<rparr>"

definition annSession :: "VoiceSessionState \<Rightarrow> VoicePermission \<Rightarrow> VoiceSession" where
  "annSession st p = \<lparr>vs_id = ''talk'', vs_workspaceId = ''ws'', vs_principalId = ''ann'', vs_state = st, vs_permission = p,
     vs_sttAdapterId = ''stt'', vs_ttsAdapterId = None, vs_createdAt = ''1970-01-01T00:00:05.000Z'',
     vs_updatedAt = ''1970-01-01T00:00:05.000Z'', vs_stoppedReason = None\<rparr>"

definition annGateway :: "VoiceProviderMetadata jsmap \<Rightarrow> VoiceSession jsmap \<Rightarrow> VoiceGateway" where
  "annGateway adapters sessions = \<lparr>vg_authorizedPrincipals = {''ann''},
     vg_options = \<lparr>vo_maximumAudioBytes = 1000, vo_maximumTranscriptBytes = 1000, vo_maximumResponseBytes = 1000,
       vo_maximumHistoryEntriesPerPrincipal = 2, vo_transcriptFreshnessMs = 1000, vo_availabilityEvidenceFreshnessMs = 1000\<rparr>,
     vg_adapters = adapters, vg_sessions = sessions, vg_history = [], vg_usedTranscriptProofs = {}, vg_usedSequences = {}\<rparr>"

definition annTalking :: "VoiceSessionState \<Rightarrow> VoicePermission \<Rightarrow> VoiceGateway" where
  "annTalking st p = annGateway [(key ''ws'' ''stt'', annMicrophone)] [(key ''ws'' ''talk'', annSession st p)]"

definition annTranscript :: FinalTranscriptEnvelope where
  "annTranscript = \<lparr>ft_sessionId = ''talk'', ft_workspaceId = ''ws'', ft_principalId = ''ann'', ft_adapterId = ''stt'', ft_sequence = 1,
     ft_nonce = ''n'', ft_observedAt = ''1970-01-01T00:00:05.000Z'', ft_final = True, ft_transcript = ''release it'', ft_audioBytes = 10,
     ft_proof = ''proof-1'', ft_retention = REDACTED_SESSION\<rparr>"

lemma ann_registers: "registerAdapter annEnv ann annMicrophone (annGateway [] []) = (Inr (), annGateway [(key ''ws'' ''stt'', annMicrophone)] [])"
  by code_simp

lemma ann_opens: "createSession annEnv ann annRequest (annGateway [(key ''ws'' ''stt'', annMicrophone)] []) =
    (Inr (annSession V_IDLE NOT_REQUESTED), annTalking V_IDLE NOT_REQUESTED)"
  by code_simp

lemma ann_redacted: "transcriptChecks annEnv (annTalking TRANSCRIBING GRANTED) ann annTranscript =
   Inr (annSession TRANSCRIBING GRANTED, ''release it'')"
  by code_simp

lemma ann_steps:
  "requestMicrophonePermission annEnv ann ''talk'' (annTalking V_IDLE NOT_REQUESTED) =
     (Inr (annSession REQUESTING_PERMISSION PROMPTING), annTalking REQUESTING_PERMISSION PROMPTING)"
  "recordMicrophonePermission annEnv ann ''talk'' M_GRANTED (annTalking REQUESTING_PERMISSION PROMPTING) =
     (Inr (annSession V_READY GRANTED), annTalking V_READY GRANTED)"
  "pressToTalk annEnv ann ''talk'' (annTalking V_READY GRANTED) = (Inr (annSession RECORDING GRANTED), annTalking RECORDING GRANTED)"
  "releaseToTalk annEnv ann ''talk'' (annTalking RECORDING GRANTED) = (Inr (annSession TRANSCRIBING GRANTED), annTalking TRANSCRIBING GRANTED)"
  by code_simp+

definition annAnswer :: VoiceRoutingResult where
  "annAnswer = \<lparr>vr_commandId = ''cmd'', vr_outcome = LEVEL_4, vr_responseText = ''Please confirm'',
     vr_confirmation = Some \<lparr>sc_commandId = ''cmd'', sc_exactTarget = ''release'', sc_permittedChannels = [''PROTECTED_UI'', ''WEBAUTHN_OR_MFA''],
       sc_voiceConfirmationAccepted = False, sc_reason = ''needs approval''\<rparr>\<rparr>"

definition annAnswered :: VoiceGateway where
  "annAnswered = snd (routeFinalTranscript annEnv ann annTranscript (annTalking TRANSCRIBING GRANTED))"

lemma ann_answered: "fst (routeFinalTranscript annEnv ann annTranscript (annTalking TRANSCRIBING GRANTED)) = Inr annAnswer"
  by code_simp

lemma ann_routed: "routeFinalTranscript annEnv ann annTranscript (annTalking TRANSCRIBING GRANTED) = (Inr annAnswer, annAnswered)"
  by (simp add: prod_eq_iff ann_answered annAnswered_def)

lemma ann_history: "map vh_redactedTranscript (historyOf annAnswered ann) = [Some ''release it'']"
  by code_simp

lemma ann_reachable: "voiceReachable (annTalking TRANSCRIBING GRANTED)" "voiceReachable annAnswered"
proof -
  have "newVoiceGateway [''ann''] (vg_options (annGateway [] [])) = Inr (annGateway [] [])" by code_simp
  then have "voiceReachable (annGateway [] [])" by (intro reach.reach_init) (auto simp: voiceInit_def)
  then show r: "voiceReachable (annTalking TRANSCRIBING GRANTED)"
    by (meson reach.reach_step vs_registerAdapter [OF ann_registers] vs_createSession [OF ann_opens] vs_requestPermission [OF ann_steps(1)]
        vs_recordPermission [OF ann_steps(2)] vs_pressToTalk [OF ann_steps(3)] vs_releaseToTalk [OF ann_steps(4)])
  then show "voiceReachable annAnswered"
    by (rule reach.reach_step) (rule vs_route [OF ann_routed])
qed

section \<open>Properties\<close>

text \<open>
  C16.  What the voice gateway keeps is redacted and bounded.  In every reachable state the history a
  principal can list has at most the configured number of entries, all of them its own; no transcript or
  response in it, no text of a replay and no reason of a stopped session contains one of the markers of
  sensitive speech, in whatever case it was spoken; and Level-4 authority is recorded exactly with the
  outcome that asks for a secure confirmation.
\<close>

theorem voice_history_private:
  assumes "voiceReachable s" "listHistory s cx = Inr entries"
  shows "int (length entries) \<le> vo_maximumHistoryEntriesPerPrincipal (vg_options s) \<and>
    (\<forall>entry \<in> set entries. vh_workspaceId entry = cx_workspaceId cx \<and> vh_principalId entry = cx_principalId cx \<and>
       \<not> hasMarker (vh_redactedResponse entry) \<and> (\<forall>words. vh_redactedTranscript entry = Some words \<longrightarrow> \<not> hasMarker words) \<and>
       (vh_requiredAuthority entry = 4 \<longleftrightarrow> vh_outcome entry = LEVEL_4)) \<and>
    (\<forall>env entryId plan. replay env s cx entryId = Inr plan \<longrightarrow> \<not> hasMarker (rpl_redactedText plan)) \<and>
    (\<forall>sessionId session reason. getSession s cx sessionId = Inr (Some session) \<longrightarrow> vs_stoppedReason session = Some reason \<longrightarrow>
       \<not> hasMarker reason)"
proof -
  have inv: "voiceInv s" by (rule voice.reach_inv [OF assms(1)])
  have e: "entries = historyOf s cx" using assms(2) by (auto simp: listHistory_def outcome_simps)
  have history: "int (length entries) \<le> vo_maximumHistoryEntriesPerPrincipal (vg_options s) \<and>
      (\<forall>entry \<in> set entries. vh_workspaceId entry = cx_workspaceId cx \<and> vh_principalId entry = cx_principalId cx \<and> entryOk entry)"
    using inv by (cases "mget (vg_history s) (key (cx_workspaceId cx) (cx_principalId cx))") (fastforce simp: e historyOf_def voiceInv_def)+
  have replayed: "\<not> hasMarker (rpl_redactedText plan)" if "replay env s cx entryId = Inr plan" for env entryId plan
    using that history by (auto simp: replay_def assms(2) outcome_simps find_Some_iff entryOk_def split: option.splits if_splits)
  have "\<not> hasMarker reason" if "getSession s cx sessionId = Inr (Some session)" "vs_stoppedReason session = Some reason"
    for sessionId session reason
  proof -
    have "mget (vg_sessions s) (key (cx_workspaceId cx) sessionId) = Some session"
      using that(1) by (auto simp: getSession_def outcome_simps split: option.splits if_splits)
    then have "sessionOk session" using inv unfolding voiceInv_def by blast
    then show ?thesis using that(2) by (simp add: sessionOk_def cleanText_def)
  qed
  with history replayed show ?thesis by (auto simp: entryOk_def cleanText_def)
qed

theorem voice_history_private_witness:
  "map vh_redactedTranscript (historyOf annAnswered ann) = [Some ''release it''] \<and> int (length (historyOf annAnswered ann)) \<le> 2"
proof -
  have "listHistory annAnswered ann = Inr (historyOf annAnswered ann)" "vo_maximumHistoryEntriesPerPrincipal (vg_options annAnswered) = 2"
    by code_simp+
  then show ?thesis using voice_history_private [OF ann_reachable(2)] ann_history by metis
qed

lemma historyOf_answered:
  assumes "answered cx session result entry u t" "vg_history u = vg_history s" "vg_options u = vg_options s"
  shows "historyOf t cx = shiftWhile (vo_maximumHistoryEntriesPerPrincipal (vg_options s)) (historyOf s cx @ [entry])"
  using assms by (auto simp: answered_def pushHistory_def historyOf_def putSession_def Let_def)

text \<open>A used proof and a session that left \<open>TRANSCRIBING\<close> stay unusable.\<close>

lemma spent_refused:
  assumes "proofKeyOf cx e \<in> vg_usedTranscriptProofs u"
    "mget (vg_sessions u) (key (cx_workspaceId cx) (ft_sessionId e)) = Some new" "5 \<le> stage (vs_state new)"
    and "cx_workspaceId cx' = cx_workspaceId cx" "ft_proof e' = ft_proof e \<or> ft_sessionId e' = ft_sessionId e"
  shows "\<exists>err. routeFinalTranscript env' cx' e' u = (Inl err, u)"
proof (cases "transcriptChecks env' u cx' e'")
  case (Inr p)
  then obtain session words where "transcriptChecks env' u cx' e' = Inr (session, words)" by (cases p) auto
  note c = transcriptChecks_Inr [OF this]
  have "ft_proof e' \<noteq> ft_proof e" using c(8) assms(1,4) by (auto simp: proofKeyOf_def)
  moreover have "ft_sessionId e' \<noteq> ft_sessionId e" using c(1,2) assms(2-4) by (auto simp: requireSession_Inr)
  ultimately show ?thesis using assms(5) by blast
qed (use refused_transcript in blast)

text \<open>
  C19.  A spoken command is governed.  A transcript is only accepted from a session of the calling principal
  that was granted the microphone, has been released and waits for its transcript, with a proof that the
  verifier accepts for the adapter of the session.  When the gateway answers, it has appended exactly one
  entry to the history of the principal; a command that is not Level 4 needs no more authority than the
  principal has, and a Level-4 command comes with the demand for a confirmation that voice cannot give.
  Whether it was answered or failed on the way, the accepted transcript is spent: from then on every
  transcript with the same proof, and every other transcript for the same session, is refused and changes
  nothing.
\<close>

theorem voice_commands_governed:
  assumes "voiceReachable s" "transcriptChecks env s cx e = Inr (session, words)" "routeFinalTranscript env cx e s = (r, t)"
  shows "vs_state session = TRANSCRIBING \<and> vs_permission session = GRANTED \<and> vs_principalId session = cx_principalId cx \<and>
    vs_workspaceId session = cx_workspaceId cx \<and>
    (\<exists>adapter. requireAdapter s cx (vs_sttAdapterId session) STT = Inr adapter \<and> vp_verifyProof env cx e adapter = Inr True) \<and>
    (\<forall>result. r = Inr result \<longrightarrow> (\<exists>entry. permitted env cx result (vh_requiredAuthority entry) \<and>
       historyOf t cx = shiftWhile (vo_maximumHistoryEntriesPerPrincipal (vg_options s)) (historyOf s cx @ [entry]) \<and>
       vh_commandId entry = vr_commandId result \<and> vh_outcome entry = vr_outcome result \<and> vh_redactedResponse entry = vr_responseText result \<and>
       (vh_requiredAuthority entry = 4 \<longleftrightarrow> vr_outcome result = LEVEL_4))) \<and>
    (\<forall>u env' cx' e'. voiceStep\<^sup>*\<^sup>* t u \<longrightarrow> cx_workspaceId cx' = cx_workspaceId cx \<longrightarrow>
       ft_proof e' = ft_proof e \<or> ft_sessionId e' = ft_sessionId e \<longrightarrow> (\<exists>err. routeFinalTranscript env' cx' e' u = (Inl err, u)))"
proof -
  have inv: "voiceInv s" by (rule voice.reach_inv [OF assms(1)])
  note c = transcriptChecks_Inr [OF assms(2)] and route = wpD [OF route_moves [OF inv assms(2)] assms(3)]
  note k = requireSession_key [OF inv c(1)]
  have session: "vs_state session = TRANSCRIBING" "vs_permission session = GRANTED" using c(2) k(5) by (auto simp: sessionOk_def)
  have answer: "\<exists>entry. permitted env cx result (vh_requiredAuthority entry) \<and>
       historyOf t cx = shiftWhile (vo_maximumHistoryEntriesPerPrincipal (vg_options s)) (historyOf s cx @ [entry]) \<and>
       vh_commandId entry = vr_commandId result \<and> vh_outcome entry = vr_outcome result \<and> vh_redactedResponse entry = vr_responseText result \<and>
       (vh_requiredAuthority entry = 4 \<longleftrightarrow> vr_outcome result = LEVEL_4)" if "r = Inr result" for result
  proof -
    obtain entry u where a: "answered cx session result entry u t" "permitted env cx result (vh_requiredAuthority entry)"
      "vg_history u = vg_history s" "vg_options u = vg_options s" using route \<open>r = Inr result\<close> by blast
    show ?thesis using a(1,2) historyOf_answered [OF a(1,3,4)] by (intro exI [of _ entry]) (simp add: answered_def entryOk_def)
  qed
  have spent: "\<exists>err. routeFinalTranscript env' cx' e' u = (Inl err, u)"
    if "voiceStep\<^sup>*\<^sup>* t u" "cx_workspaceId cx' = cx_workspaceId cx" "ft_proof e' = ft_proof e \<or> ft_sessionId e' = ft_sessionId e" for u env' cx' e'
  proof -
    have later: "voiceLater t u" by (rule voiceSteps_later [OF that(1)]) (use route inv voiceMoves_inv in blast)
    obtain mid where mid: "mget (vg_sessions t) (key (cx_workspaceId cx) (ft_sessionId e)) = Some mid" "5 \<le> stage (vs_state mid)"
      using route by blast
    obtain new where new: "mget (vg_sessions u) (key (cx_workspaceId cx) (ft_sessionId e)) = Some new" "stage (vs_state mid) \<le> stage (vs_state new)"
      by (rule voiceLater_session [OF later mid(1)])
    have used: "proofKeyOf cx e \<in> vg_usedTranscriptProofs u" using later route by (auto simp: voiceLater_def)
    show ?thesis by (rule spent_refused [OF used new(1) _ that(2,3)]) (use mid(2) new(2) in simp)
  qed
  show ?thesis using session k(2,4) c(7,10) answer spent by simp
qed

theorem voice_commands_governed_witness:
  "vs_permission (annSession TRANSCRIBING GRANTED) = GRANTED \<and>
   routeFinalTranscript annEnv ann annTranscript (annTalking TRANSCRIBING GRANTED) = (Inr annAnswer, annAnswered) \<and>
   (\<exists>entry. permitted annEnv ann annAnswer (vh_requiredAuthority entry) \<and> vh_requiredAuthority entry = 4 \<and>
      historyOf annAnswered ann = shiftWhile 2 [entry]) \<and>
   (\<exists>err. routeFinalTranscript annEnv ann annTranscript annAnswered = (Inl err, annAnswered))"
proof -
  have c: "transcriptChecks annEnv (annTalking TRANSCRIBING GRANTED) ann annTranscript = Inr (annSession TRANSCRIBING GRANTED, ''release it'')"
    "vo_maximumHistoryEntriesPerPrincipal (vg_options (annTalking TRANSCRIBING GRANTED)) = 2" "historyOf (annTalking TRANSCRIBING GRANTED) ann = []"
    "vr_outcome annAnswer = LEVEL_4"
    by (rule ann_redacted) code_simp+
  note g = voice_commands_governed [OF ann_reachable(1) c(1) ann_routed, unfolded c(2,3)]
  show ?thesis using g ann_routed c(4) by fastforce
qed

end
