(* ===== verification/Js_Parse.thy ===== *)
theory Js_Parse
  imports Js_Json Js_Date Js_Regex
begin

text \<open>
  Bytes, UTF-8 and \<open>JSON.parse\<close>.  A byte is a \<open>char\<close> (256 values), a \<open>Uint8Array\<close> or \<open>Buffer\<close> a
  list of them.  Texts hold the characters up to U+00FF, so \<open>utf8Decode\<close> is \<open>None\<close> on a byte
  sequence that is not valid UTF-8 (where \<open>toString('utf8')\<close> puts U+FFFD) and also on the encodings
  of characters above U+00FF, which no text of the model holds.  The parser runs on fuel; the
  results are that it does not depend on the fuel once there is twice the length of the text, and
  that it reads back what \<open>JSON.stringify\<close> wrote.
\<close>

type_synonym bytes = "char list"

abbreviation newline :: char where "newline \<equiv> CHR 0x0A"

section \<open>UTF-8\<close>

definition utf8Char :: "char \<Rightarrow> bytes" where
  "utf8Char c = (if code_unit c < 128 then [c]
     else [char_of (192 + code_unit c div 64), char_of (128 + code_unit c mod 64)])"

definition utf8Encode :: "string \<Rightarrow> bytes" where
  "utf8Encode s = concat (map utf8Char s)"

fun utf8Decode :: "bytes \<Rightarrow> string option" where
  "utf8Decode [] = Some []"
| "utf8Decode (b # bs) =
     (if code_unit b < 128 then map_option ((#) b) (utf8Decode bs)
      else if code_unit b = 194 \<or> code_unit b = 195
      then (case bs of
          [] \<Rightarrow> None
        | d # ds \<Rightarrow> if 128 \<le> code_unit d \<and> code_unit d < 192
            then map_option ((#) (char_of ((code_unit b - 192) * 64 + (code_unit d - 128)))) (utf8Decode ds)
            else None)
      else None)"

lemma code_unit_less [simp]: "code_unit c < 256"
  by (simp add: code_unit_def)

lemma code_unit_char_of [simp]: "code_unit (char_of n) = n mod 256"
  by (simp add: code_unit_def)

lemma char_of_code_unit [simp]: "char_of (code_unit c) = c"
  by (simp add: code_unit_def)

lemma code_unit_inject [simp]: "code_unit c = code_unit d \<longleftrightarrow> c = d"
  by (simp add: code_unit_def)

lemma utf8Encode_simps [simp]:
  "utf8Encode [] = []" "utf8Encode (c # s) = utf8Char c @ utf8Encode s"
  "utf8Encode (s @ t) = utf8Encode s @ utf8Encode t"
  by (simp_all add: utf8Encode_def)

lemma high_char:
  assumes "128 \<le> code_unit c"
  obtains q m where "q = 2 \<or> q = 3" "m < 64" "code_unit c = q * 64 + m" "c = char_of (q * 64 + m)"
    "utf8Char c = [char_of (192 + q), char_of (128 + m)]"
proof (rule that)
  let ?q = "code_unit c div 64" and ?m = "code_unit c mod 64"
  have "?q < 4" using code_unit_less [of c] by linarith
  moreover have "2 \<le> ?q" using assms by linarith
  ultimately show "?q = 2 \<or> ?q = 3" by linarith
  show "c = char_of (?q * 64 + ?m)" by simp
  show "utf8Char c = [char_of (192 + ?q), char_of (128 + ?m)]" using assms by (simp add: utf8Char_def)
qed simp_all

theorem utf8_roundtrip: "utf8Decode (utf8Encode s) = Some s"
proof (induction s)
  case (Cons c s)
  show ?case
  proof (cases "code_unit c < 128")
    case True
    with Cons show ?thesis by (simp add: utf8Char_def)
  next
    case False
    then obtain q m :: nat where q: "q = 2 \<or> q = 3" "m < 64" "code_unit c = q * 64 + m" "c = char_of (q * 64 + m)"
      "utf8Char c = [char_of (192 + q), char_of (128 + m)]"
      by (rule high_char [OF leI])
    then have "code_unit (char_of (192 + q)) = 192 + q" "code_unit (char_of (128 + m)) = 128 + m"
      unfolding code_unit_char_of by (auto intro: mod_less)
    then show ?thesis using q Cons by auto
  qed
qed simp

theorem utf8Decode_encode: "utf8Decode bs = Some s \<Longrightarrow> utf8Encode s = bs"
proof (induction bs arbitrary: s rule: utf8Decode.induct)
  case (2 b bs)
  show ?case
  proof (cases "code_unit b < 128")
    case True
    with 2 show ?thesis by (auto simp: utf8Char_def)
  next
    case False
    with 2 obtain d ds t where bs: "bs = d # ds" "128 \<le> code_unit d" "code_unit d < 192" "code_unit b = 194 \<or> code_unit b = 195"
      "utf8Decode ds = Some t" "s = char_of ((code_unit b - 192) * 64 + (code_unit d - 128)) # t"
      by (auto split: list.splits if_splits)
    obtain q m where q: "code_unit b = 192 + q" "code_unit d = 128 + m" "q = 2 \<or> q = 3" "m < 64"
    proof (rule that)
      show "code_unit b = 192 + (code_unit b - 192)" "code_unit d = 128 + (code_unit d - 128)"
        "code_unit b - 192 = 2 \<or> code_unit b - 192 = 3" "code_unit d - 128 < 64"
        using bs by auto
    qed
    have "b = char_of (192 + q)" "d = char_of (128 + m)" using q by (metis char_of_code_unit)+
    moreover have "code_unit (char_of (q * 64 + m)) = q * 64 + m" using q unfolding code_unit_char_of by (auto intro: mod_less)
    ultimately have "utf8Char (char_of (q * 64 + m)) = [b, d]" using q by (auto simp: utf8Char_def)
    moreover have "s = char_of (q * 64 + m) # t" using bs q by simp
    moreover have "utf8Encode t = ds" using 2(2) False bs by auto
    ultimately show ?thesis using bs(1) by simp
  qed
qed simp

lemma length_utf8Encode: "length (utf8Encode s) = utf8Length s"
  by (induction s) (auto simp: utf8Length_def utf8Char_def)

text \<open>A newline byte is a newline character.\<close>

lemma newline_unit: "code_unit newline = 10"
  by (simp add: code_unit_def)

lemma newline_utf8: "newline \<in> set (utf8Encode s) \<longleftrightarrow> newline \<in> set s"
proof -
  have "newline \<in> set (utf8Char c) \<longleftrightarrow> c = newline" for c
  proof (cases "code_unit c < 128")
    case False
    then obtain q m where q: "q = 2 \<or> q = 3" "m < 64" "code_unit c = q * 64 + m"
      "utf8Char c = [char_of (192 + q), char_of (128 + m)]"
      by (rule high_char [OF leI]) simp
    then have "code_unit (char_of (192 + q)) \<noteq> 10" "code_unit (char_of (128 + m)) \<noteq> 10" "code_unit c \<noteq> 10"
      unfolding code_unit_char_of by (auto simp: mod_less)
    then have "newline \<noteq> char_of (192 + q)" "newline \<noteq> char_of (128 + m)" "c \<noteq> newline"
      by (metis newline_unit)+
    with q show ?thesis by simp
  qed (auto simp: utf8Char_def)
  then show ?thesis by (auto simp: utf8Encode_def)
qed

section \<open>\<open>JSON.parse\<close>\<close>

definition jsonWs :: "char \<Rightarrow> bool" where
  "jsonWs c = (c \<in> {CHR 0x09, CHR 0x0A, CHR 0x0D, CHR 0x20})"

definition skipWs :: "string \<Rightarrow> string" where
  "skipWs = dropWhile jsonWs"

definition hexVal :: "char \<Rightarrow> nat option" where
  "hexVal c = (let k = code_unit c in
     if 48 \<le> k \<and> k \<le> 57 then Some (k - 48)
     else if 97 \<le> k \<and> k \<le> 102 then Some (k - 87)
     else if 65 \<le> k \<and> k \<le> 70 then Some (k - 55) else None)"

definition unescape :: "char \<Rightarrow> char option" where
  "unescape c = (if c \<in> {CHR 0x22, CHR 0x5C, CHR ''/''} then Some c
     else if c = CHR ''b'' then Some (CHR 0x08) else if c = CHR ''f'' then Some (CHR 0x0C)
     else if c = CHR ''n'' then Some (CHR 0x0A) else if c = CHR ''r'' then Some (CHR 0x0D)
     else if c = CHR ''t'' then Some (CHR 0x09) else None)"

text \<open>Four hexadecimal digits of a character of the model.\<close>

definition hexUnit :: "char \<Rightarrow> char \<Rightarrow> char \<Rightarrow> char \<Rightarrow> char option" where
  "hexUnit a b c d = (case (hexVal a, hexVal b, hexVal c, hexVal d) of
     (Some w, Some x, Some y, Some z) \<Rightarrow> if w = 0 \<and> x = 0 then Some (char_of (16 * y + z)) else None
   | _ \<Rightarrow> None)"

definition consTo :: "char \<Rightarrow> (string \<times> string) option \<Rightarrow> (string \<times> string) option" where
  "consTo c p = map_option (\<lambda>(t, r). (c # t, r)) p"

text \<open>The characters of a string literal after its opening quote, with what follows the closing one.\<close>

fun pString :: "string \<Rightarrow> (string \<times> string) option" where
  "pString [] = None"
| "pString (c # r) =
     (if c = CHR 0x22 then Some ([], r)
      else if c = CHR 0x5C then (case r of
          [] \<Rightarrow> None
        | e # r1 \<Rightarrow>
            if e = CHR ''u'' then (case r1 of
                h1 # h2 # h3 # h4 # r2 \<Rightarrow> (case hexUnit h1 h2 h3 h4 of None \<Rightarrow> None | Some d \<Rightarrow> consTo d (pString r2))
              | _ \<Rightarrow> None)
            else (case unescape e of None \<Rightarrow> None | Some d \<Rightarrow> consTo d (pString r1)))
      else if code_unit c < 32 then None
      else consTo c (pString r))"

text \<open>
  Number literals.  A plain integer literal of the safe range is exact; what the language rounds
  another literal to (a fraction, an exponent, a magnitude above \<open>2^53 - 1\<close>) is the argument
  \<open>numberOf\<close>.
\<close>

definition numberChar :: "char \<Rightarrow> bool" where
  "numberChar = cls_or isDigit (one_of ''+-.eE'')"

definition plainNumber :: regex where
  "plainNumber = Seq (opt (one_of ''-'')) (Alt (Lit ''0'') (Seq (Cls (rng (CHR ''1'') (CHR ''9''))) (star isDigit)))"

definition JSON_NUMBER :: regex where
  "JSON_NUMBER = seqs [Bol, plainNumber,
     Alt (Lit []) (Seq (Lit ''.'') (Rep 1 None isDigit)),
     Alt (Lit []) (seqs [Cls (one_of ''eE''), opt (one_of ''+-''), Rep 1 None isDigit]), Eol]"

definition INTEGER_LITERAL :: regex where
  "INTEGER_LITERAL = seqs [Bol, plainNumber, Eol]"

definition integerValue :: "string \<Rightarrow> int" where
  "integerValue s = (case s of
     c # r \<Rightarrow> if c = CHR ''-'' then - int (text_val r) else int (text_val s) | [] \<Rightarrow> 0)"

definition pNumber :: "(string \<Rightarrow> js_number) \<Rightarrow> string \<Rightarrow> (json \<times> string) option" where
  "pNumber numberOf s =
     (let lit = takeWhile numberChar s; rest = dropWhile numberChar s
      in if \<not> regex_test JSON_NUMBER lit then None
         else if regex_test INTEGER_LITERAL lit \<and> isSafeInteger (integerValue lit)
         then Some (JNum (SafeInt (integerValue lit)), rest)
         else Some (JNum (numberOf lit), rest))"

definition startsWith :: "string \<Rightarrow> string \<Rightarrow> bool" where
  "startsWith w s = (take (length w) s = w)"

text \<open>
  A value that starts at the first character; elements and members after an opening bracket.  A
  repeated property name overwrites the value and keeps the position.
\<close>

fun pValue :: "(string \<Rightarrow> js_number) \<Rightarrow> nat \<Rightarrow> string \<Rightarrow> (json \<times> string) option"
  and pElems :: "(string \<Rightarrow> js_number) \<Rightarrow> nat \<Rightarrow> json list \<Rightarrow> string \<Rightarrow> (json \<times> string) option"
  and pMembers :: "(string \<Rightarrow> js_number) \<Rightarrow> nat \<Rightarrow> json_record \<Rightarrow> string \<Rightarrow> (json \<times> string) option" where
  "pValue num 0 s = None"
| "pValue num (Suc n) s = (case s of
     [] \<Rightarrow> None
   | c # r \<Rightarrow>
       if c = CHR 0x22 then map_option (\<lambda>(t, r'). (JStr t, r')) (pString r)
       else if c = CHR ''['' then
         (if startsWith '']'' (skipWs r) then Some (JArr [], tl (skipWs r)) else pElems num n [] (skipWs r))
       else if c = CHR ''{'' then
         (if startsWith ''}'' (skipWs r) then Some (JObj [], tl (skipWs r)) else pMembers num n [] (skipWs r))
       else if startsWith ''null'' s then Some (JNull, drop 4 s)
       else if startsWith ''true'' s then Some (JBool True, drop 4 s)
       else if startsWith ''false'' s then Some (JBool False, drop 5 s)
       else pNumber num s)"
| "pElems num 0 acc s = None"
| "pElems num (Suc n) acc s = (case pValue num n s of
     None \<Rightarrow> None
   | Some (v, r) \<Rightarrow> (case skipWs r of
       [] \<Rightarrow> None
     | d # r' \<Rightarrow>
         if d = CHR '','' then pElems num n (acc @ [v]) (skipWs r')
         else if d = CHR '']'' then Some (JArr (acc @ [v]), r') else None))"
| "pMembers num 0 acc s = None"
| "pMembers num (Suc n) acc s = (if \<not> startsWith [CHR 0x22] s then None else (case pString (tl s) of
     None \<Rightarrow> None
   | Some (k, r) \<Rightarrow> if \<not> startsWith '':'' (skipWs r) then None else (case pValue num n (skipWs (tl (skipWs r))) of
       None \<Rightarrow> None
     | Some (v, r1) \<Rightarrow> (case skipWs r1 of
         [] \<Rightarrow> None
       | d # r2 \<Rightarrow>
           if d = CHR '','' then pMembers num n (mset_at acc k v) (skipWs r2)
           else if d = CHR ''}'' then Some (JObj (mset_at acc k v), r2) else None))))"

definition jsonParse :: "(string \<Rightarrow> js_number) \<Rightarrow> string \<Rightarrow> json option" where
  "jsonParse numberOf s = (case pValue numberOf (2 * length s + 2) (skipWs s) of
     None \<Rightarrow> None
   | Some (v, r) \<Rightarrow> if skipWs r = [] then Some v else None)"

section \<open>Enough fuel\<close>

lemma length_skipWs: "length (skipWs s) \<le> length s"
  by (simp add: skipWs_def length_dropWhile_le)

lemma pString_shorter: "pString s = Some (t, r) \<Longrightarrow> length r < length s"
proof (induction s arbitrary: t r rule: pString.induct)
  case (2 c s)
  then show ?case
    by (fastforce simp: consTo_def split: if_splits list.splits option.splits)
qed simp

lemma JSON_NUMBER_nonempty: "\<not> regex_test JSON_NUMBER []"
  by code_simp

lemma pNumber_shorter: "pNumber num s = Some (v, r) \<Longrightarrow> length r < length s"
proof -
  assume a: "pNumber num s = Some (v, r)"
  then have "takeWhile numberChar s \<noteq> []" using JSON_NUMBER_nonempty
    by (auto simp: pNumber_def Let_def split: if_splits)
  moreover have "length (takeWhile numberChar s) + length (dropWhile numberChar s) = length s"
    by (metis length_append takeWhile_dropWhile_id)
  moreover have "r = dropWhile numberChar s" using a by (auto simp: pNumber_def Let_def split: if_splits)
  ultimately show ?thesis by (cases "takeWhile numberChar s") auto
qed

lemma length_tl_skipWs: "startsWith [c] (skipWs s) \<Longrightarrow> length (tl (skipWs s)) < length s"
  using length_skipWs [of s] by (cases "skipWs s") (auto simp: startsWith_def)

lemma skipWs_Cons_shorter: "skipWs s = c # r \<Longrightarrow> length r < length s"
  using length_skipWs [of s] by simp

lemma parse_shorter:
  "pValue num n s = Some (v, r) \<Longrightarrow> length r < length s"
  "pElems num n xs s = Some (v, r) \<Longrightarrow> length r < length s"
  "pMembers num n kvs s = Some (v, r) \<Longrightarrow> length r < length s"
proof (induction num n s and num n xs s and num n kvs s arbitrary: v r and v r and v r rule: pValue_pElems_pMembers.induct)
  case (2 num n s)
  then obtain c t where s: "s = c # t" by (cases s) auto
  show ?case
  proof (cases "c = CHR ''['' \<or> c = CHR ''{''")
    case True
    then show ?thesis using 2 s length_skipWs [of t]
      by (fastforce dest: length_tl_skipWs split: if_splits)
  next
    case False
    then show ?thesis using 2(3) s
      by (auto dest: pString_shorter pNumber_shorter split: if_splits)
  qed
next
  case (4 num n acc s)
  obtain w t d u where p: "pValue num n s = Some (w, t)" "skipWs t = d # u" "d = CHR '','' \<or> d = CHR '']''"
    using 4(3) by (auto split: option.splits list.splits if_splits)
  have l: "length t < length s" "length u < length t" using 4(1) p skipWs_Cons_shorter by auto
  show ?case
  proof (cases "d = CHR '',''")
    case True
    then have "length r < length (skipWs u)" using 4 p by simp
    then show ?thesis using l length_skipWs [of u] by simp
  next
    case False
    then show ?thesis using 4(3) p l by simp
  qed
next
  case (6 num n acc s)
  obtain k t w u d x where p: "startsWith [CHR 0x22] s" "pString (tl s) = Some (k, t)" "startsWith '':'' (skipWs t)"
    "pValue num n (skipWs (tl (skipWs t))) = Some (w, u)" "skipWs u = d # x" "d = CHR '','' \<or> d = CHR ''}''"
    using 6(3) by (auto split: option.splits list.splits if_splits)
  have "length u < length (skipWs (tl (skipWs t)))" using 6(1) p by simp
  moreover have "length (skipWs (tl (skipWs t))) \<le> length (tl (skipWs t))" by (rule length_skipWs)
  moreover have "length (tl (skipWs t)) < length t" using length_tl_skipWs p(3) by blast
  moreover have "length t \<le> length s" using pString_shorter [OF p(2)] by simp
  moreover have "length x < length u" using p skipWs_Cons_shorter by auto
  ultimately have l: "length x < length s" by linarith
  show ?case
  proof (cases "d = CHR '',''")
    case True
    then have "length r < length (skipWs x)" using 6 p by simp
    then show ?thesis using l length_skipWs [of x] by simp
  next
    case False
    then show ?thesis using 6(3) p l by simp
  qed
qed simp_all

text \<open>With twice the length of the text, more fuel changes nothing.\<close>

lemma parse_enough:
  "2 * length s < n \<Longrightarrow> n \<le> m \<Longrightarrow> pValue num m s = pValue num n s"
  "2 * length s + 1 < n \<Longrightarrow> n \<le> m \<Longrightarrow> pElems num m xs s = pElems num n xs s"
  "2 * length s + 1 < n \<Longrightarrow> n \<le> m \<Longrightarrow> pMembers num m kvs s = pMembers num n kvs s"
proof (induction num n s and num n xs s and num n kvs s arbitrary: m and m and m rule: pValue_pElems_pMembers.induct)
  case (2 num n s)
  from 2(4) obtain m' where m: "m = Suc m'" "n \<le> m'" by (cases m) auto
  show ?case
  proof (cases s)
    case (Cons c t)
    have "2 * length (skipWs t) + 1 < n" using length_skipWs [of t] 2(3) Cons by simp
    then have e: "c = CHR ''['' \<Longrightarrow> \<not> startsWith '']'' (skipWs t) \<Longrightarrow> pElems num m' [] (skipWs t) = pElems num n [] (skipWs t)"
      "c = CHR ''{'' \<Longrightarrow> \<not> startsWith ''}'' (skipWs t) \<Longrightarrow> pMembers num m' [] (skipWs t) = pMembers num n [] (skipWs t)"
      using 2(1) [OF Cons, of m'] 2(2) [OF Cons, of m'] m(2) by simp_all
    show ?thesis unfolding m(1) pValue.simps(2) Cons list.case using e by (simp cong: if_cong)
  qed (use m in simp)
next
  case (4 num n acc s)
  from 4(4) obtain m' where m: "m = Suc m'" "n \<le> m'" by (cases m) auto
  have e: "pValue num m' s = pValue num n s" using 4(1) [of m'] 4(3) m by simp
  show ?case
  proof (cases "\<exists>w t d u. pValue num n s = Some (w, t) \<and> skipWs t = d # u")
    case True
    then obtain w t d u where p: "pValue num n s = Some (w, t)" "skipWs t = d # u" by blast
    have "length (skipWs u) < length s"
      using parse_shorter(1) [OF p(1)] skipWs_Cons_shorter [OF p(2)] length_skipWs [of u] by simp
    then have "pElems num m' (acc @ [w]) (skipWs u) = pElems num n (acc @ [w]) (skipWs u)" if "d = CHR '',''"
      using 4(2) [OF p(1) refl p(2) that, of m'] 4(3) m by simp
    with p m e show ?thesis by simp
  qed (use m e in \<open>auto split: option.splits list.splits\<close>)
next
  case (6 num n acc s)
  from 6(4) obtain m' where m: "m = Suc m'" "n \<le> m'" by (cases m) auto
  show ?case
  proof (cases "startsWith [CHR 0x22] s \<and> (\<exists>k t. pString (tl s) = Some (k, t) \<and> startsWith '':'' (skipWs t))")
    case True
    then obtain k t where p: "startsWith [CHR 0x22] s" "pString (tl s) = Some (k, t)" "startsWith '':'' (skipWs t)" by blast
    have l: "length (skipWs (tl (skipWs t))) < length t" "length t < length s"
      using length_skipWs [of "tl (skipWs t)"] length_tl_skipWs [OF p(3)] pString_shorter [OF p(2)] by auto
    then have e: "pValue num m' (skipWs (tl (skipWs t))) = pValue num n (skipWs (tl (skipWs t)))"
      using 6(1) [OF _ p(2) refl, of m'] p 6(3) m by simp
    show ?thesis
    proof (cases "\<exists>w x d u. pValue num n (skipWs (tl (skipWs t))) = Some (w, x) \<and> skipWs x = d # u")
      case True
      then obtain w x d u where q: "pValue num n (skipWs (tl (skipWs t))) = Some (w, x)" "skipWs x = d # u" by blast
      have "length (skipWs u) < length s"
        using l parse_shorter(1) [OF q(1)] skipWs_Cons_shorter [OF q(2)] length_skipWs [of u] by simp
      then have "pMembers num m' (mset_at acc k w) (skipWs u) = pMembers num n (mset_at acc k w) (skipWs u)" if "d = CHR '',''"
        using 6(2) [OF _ p(2) refl _ q(1) refl q(2) that, of m'] p 6(3) m by simp
      with p q m e show ?thesis by simp
    qed (use p m e in \<open>auto split: option.splits list.splits\<close>)
  qed (use m in \<open>auto split: option.splits list.splits\<close>)
qed simp_all

section \<open>Reading back what was written\<close>

lemma jsonWs_not:
  "\<not> jsonWs (CHR '','')" "\<not> jsonWs (CHR '']'')" "\<not> jsonWs (CHR ''}'')" "\<not> jsonWs (CHR '':'')"
  "\<not> jsonWs (CHR 0x22)"
  by (simp_all add: jsonWs_def)

lemma skipWs_Cons [simp]: "skipWs (c # r) = (if jsonWs c then skipWs r else c # r)"
  by (simp add: skipWs_def)

lemma skipWs_Nil [simp]: "skipWs [] = []"
  by (simp add: skipWs_def)

lemma skipWs_stop: "jsonStop r \<Longrightarrow> skipWs r = r"
  by (cases r) (auto simp: jsonStop_def jsonWs_not)

lemma startsWith_Cons [simp]: "startsWith (a # w) (c # s) \<longleftrightarrow> a = c \<and> startsWith w s" "startsWith [] s" "\<not> startsWith (a # w) []"
  by (auto simp: startsWith_def)

lemma hexVal_digit: "n < 16 \<Longrightarrow> hexVal (hex_digit n) = Some n"
proof -
  have "\<forall>n \<in> set [0..<16]. hexVal (hex_digit n) = Some n" by code_simp
  then show "n < 16 \<Longrightarrow> hexVal (hex_digit n) = Some n" by simp
qed

lemma pString_escape: "pString (json_escape c @ r) = consTo c (pString r)"
proof (cases "code_unit c < 32")
  case True
  have z: "hexVal (CHR ''0'') = Some 0" by code_simp
  have "hexUnit (CHR ''0'') (CHR ''0'') (hex_digit (code_unit c div 16)) (hex_digit (code_unit c mod 16)) = Some c"
    using True by (simp add: hexUnit_def z hexVal_digit)
  with True show ?thesis by (simp add: json_escape_def unescape_def)
next
  case False
  then show ?thesis by (auto simp: json_escape_def unescape_def code_unit_def)
qed

lemma pString_quote: "pString (concat (map json_escape s) @ CHR 0x22 # r) = Some (s, r)"
  by (induction s) (simp_all add: pString_escape consTo_def)

lemma digit_isDigit: "digit_val c \<noteq> None \<longleftrightarrow> isDigit c"
  by (auto simp: digit_val_def isDigit_def rng_def Let_def less_eq_char_def code_unit_def)

lemma nat_text_zero: "nat_text 0 = ''0''"
  by code_simp

lemma nat_text_shape: "nat_text n = ''0'' \<or> (\<exists>c cs. nat_text n = c # cs \<and> rng (CHR ''1'') (CHR ''9'') c \<and> (\<forall>d \<in> set cs. isDigit d))"
proof (induction n rule: nat_text.induct)
  case (1 n)
  have d: "isDigit (digit_char k)" if "k < 10" for k using that by (simp flip: digit_isDigit)
  have nz: "rng (CHR ''1'') (CHR ''9'') (digit_char k)" if "0 < k" "k < 10" for k
  proof -
    have "\<forall>k \<in> set [1..<10]. rng (CHR ''1'') (CHR ''9'') (digit_char k)" by code_simp
    with that show ?thesis by simp
  qed
  show ?case
  proof (cases "n < 10")
    case True
    then show ?thesis using nz [of n] by (cases "n = 0") (auto simp: nat_text_zero nat_text.simps [of n])
  next
    case False
    then have "nat_text n = nat_text (n div 10) @ [digit_char (n mod 10)]" by (simp add: nat_text.simps [of n])
    moreover have "nat_text (n div 10) \<noteq> ''0''"
    proof
      assume "nat_text (n div 10) = ''0''"
      then have "n div 10 = 0" by (metis nat_text_inj nat_text_zero)
      with False show False by simp
    qed
    ultimately show ?thesis using 1 False d [of "n mod 10"] by auto
  qed
qed

lemma ends_plainNumber: "\<exists>b. (b, t) \<in> set (ends plainNumber (None, int_text i @ t))"
proof -
  have nat: "\<exists>b'. (b', t) \<in> set (ends (Alt (Lit ''0'') (Seq (Cls (rng (CHR ''1'') (CHR ''9''))) (star isDigit))) (b, nat_text n @ t))" for b n
    using nat_text_shape [of n]
  proof
    assume "\<exists>c cs. nat_text n = c # cs \<and> rng (CHR ''1'') (CHR ''9'') c \<and> (\<forall>d \<in> set cs. isDigit d)"
    then obtain c cs where c: "nat_text n = c # cs" "rng (CHR ''1'') (CHR ''9'') c" "\<forall>d \<in> set cs. isDigit d" by blast
    have "(Some c, cs @ t) \<in> set (rep_ends 1 (Some 1) (rng (CHR ''1'') (CHR ''9'')) b (nat_text n @ t))"
      unfolding ends_class_iff using c by simp
    moreover have "(if cs = [] then Some c else Some (last cs), t) \<in> set (rep_ends 0 None isDigit (Some c) (cs @ t))"
      using c by (simp add: rep_ends_iff)
    ultimately show ?thesis by fastforce
  qed auto
  define b where "b = (if i < 0 then Some (CHR ''-'') else None)"
  have "(b, nat_text (nat \<bar>i\<bar>) @ t) \<in> set (rep_ends 0 (Some 1) (one_of ''-'') None (int_text i @ t))"
    by (auto simp: rep_ends_iff int_text_def b_def one_of_def abs_if intro: exI [of _ "''-''"])
  with nat [of b "nat \<bar>i\<bar>"] show ?thesis unfolding plainNumber_def by fastforce
qed

lemma integerValue_text: "integerValue (int_text i) = i"
proof (cases "i < 0")
  case False
  then show ?thesis using nat_text_not_minus [of "nat i"] text_val_nat_text [of "nat i"]
    by (cases "nat_text (nat i)") (auto simp: integerValue_def int_text_def)
qed (simp add: integerValue_def int_text_def)

lemma pNumber_text:
  assumes "isSafeInteger i" "jsonStop r"
  shows "pNumber num (int_text i @ r) = Some (JNum (SafeInt i), r)"
proof -
  have c: "\<forall>c \<in> set (int_text i). numberChar c"
    using int_text_chars [of _ i] unfolding digit_isDigit by (auto simp: numberChar_def cls_or_def one_of_def)
  have s: "r = [] \<or> \<not> numberChar (hd r)"
    using assms(2) by (cases r) (auto simp: jsonStop_def numberChar_def class_defs less_eq_char_def)
  have span: "takeWhile numberChar (int_text i @ r) = int_text i" "dropWhile numberChar (int_text i @ r) = r"
    using c s by (cases r; auto simp: takeWhile_append2 dropWhile_append2)+
  obtain b where b: "(b, []) \<in> set (ends plainNumber (None, int_text i))"
    using ends_plainNumber [of "[]" i] by auto
  have seq: "ends (Seq plainNumber q) (None, int_text i) \<noteq> []" if "ends q (b, []) \<noteq> []" for q
    using that b by force
  have "regex_test INTEGER_LITERAL (int_text i)" "regex_test JSON_NUMBER (int_text i)"
    unfolding regex_test_def INTEGER_LITERAL_def JSON_NUMBER_def seqs.simps search_from_Bol by (rule seq, simp)+
  with assms(1) show ?thesis by (simp add: pNumber_def span integerValue_text Let_def)
qed

text \<open>
  The values a JSON text holds exactly: as \<open>jsonClean\<close>, with the integers in the safe range and no
  property name repeated in an object.
\<close>

fun jsonExact :: "json \<Rightarrow> bool" where
  "jsonExact JNull = True"
| "jsonExact (JBool b) = True"
| "jsonExact (JNum (SafeInt i)) = isSafeInteger i"
| "jsonExact (JNum (OtherFinite t)) = False"
| "jsonExact (JNum NonFinite) = False"
| "jsonExact (JStr s) = True"
| "jsonExact (JArr xs) = (\<forall>x \<in> set xs. jsonExact x)"
| "jsonExact (JObj kvs) = (distinct (map fst kvs) \<and> (\<forall>kv \<in> set kvs. jsonExact (snd kv)))"
| "jsonExact JUndefined = False"
| "jsonExact JOpaque = False"

lemma jsonExact_clean: "jsonExact v \<Longrightarrow> jsonClean v"
proof (induction v rule: jsonClean.induct)
  case (8 kvs)
  then show ?case by (cases kvs) auto
qed auto

lemma pValue_fuel: "0 < n \<Longrightarrow> \<exists>m. n = Suc m"
  by (cases n) auto

lemma json_text_skipWs: "jsonClean v \<Longrightarrow> skipWs (json_text v @ r) = json_text v @ r"
proof -
  assume "jsonClean v"
  then obtain c cs where "json_text v = c # cs" "startsLike v c" using json_text_start by blast
  moreover have "\<not> jsonWs c" if "startsLike v c"
    using that by (cases v) (auto simp: startsLike_def jsonWs_def digit_val_def code_unit_def split: if_splits)
  ultimately show ?thesis by simp
qed

text \<open>What stands between an element and the end of the list.\<close>

lemma pElems_text:
  assumes "\<And>x n r. x \<in> set xs \<Longrightarrow> 2 * length (json_text x) < n \<Longrightarrow> jsonStop r \<Longrightarrow> pValue num n (json_text x @ r) = Some (x, r)"
    and "\<forall>x \<in> set xs. jsonClean x" "xs \<noteq> []"
    and "2 * length (join_with '','' (map json_text xs)) + 1 < n"
  shows "pElems num n acc (join_with '','' (map json_text xs) @ CHR '']'' # r) = Some (JArr (acc @ xs), r)"
  using assms
proof (induction xs arbitrary: acc n)
  case (Cons x xs)
  from Cons.prems(4) obtain m where n: "n = Suc m" by (cases n) auto
  define rest where "rest = (if xs = [] then CHR '']'' # r else CHR '','' # join_with '','' (map json_text xs) @ CHR '']'' # r)"
  have t: "join_with '','' (map json_text (x # xs)) @ CHR '']'' # r = json_text x @ rest"
    by (simp add: join_with_Cons rest_def)
  have p: "pValue num m (json_text x @ rest) = Some (x, rest)"
    by (rule Cons.prems(1)) (use Cons.prems(4) n in \<open>auto simp: rest_def join_with_Cons split: if_splits\<close>)
  show ?case
  proof (cases xs)
    case Nil
    with p n show ?thesis unfolding t by (simp add: rest_def jsonWs_not)
  next
    case (Cons y ys)
    have "skipWs (join_with '','' (map json_text xs) @ CHR '']'' # r) = join_with '','' (map json_text xs) @ CHR '']'' # r"
      using Cons Cons.prems(2) json_text_skipWs [of y] by (simp add: join_with_Cons)
    moreover have "pElems num m (acc @ [x]) (join_with '','' (map json_text xs) @ CHR '']'' # r) = Some (JArr ((acc @ [x]) @ xs), r)"
      by (rule Cons.IH) (use Cons Cons.prems n in \<open>auto simp: join_with_Cons\<close>)
    ultimately show ?thesis unfolding t using p n Cons by (simp add: rest_def jsonWs_not)
  qed
qed simp

lemma mset_at_new: "k \<notin> fst ` set kvs \<Longrightarrow> mset_at kvs k v = kvs @ [(k, v)]"
  by (rule mset_at_fresh) (auto simp: mhas_def map_of_eq_None_iff)

lemma pMembers_text:
  assumes "\<And>kv n r. kv \<in> set kvs \<Longrightarrow> 2 * length (json_text (snd kv)) < n \<Longrightarrow> jsonStop r \<Longrightarrow> pValue num n (json_text (snd kv) @ r) = Some (snd kv, r)"
    and "\<forall>kv \<in> set kvs. jsonClean (snd kv)" "kvs \<noteq> []" "distinct (map fst (acc @ kvs))"
    and "2 * length (join_with '','' (map member_text kvs)) + 1 < n"
  shows "pMembers num n acc (join_with '','' (map member_text kvs) @ CHR ''}'' # r) = Some (JObj (acc @ kvs), r)"
  using assms
proof (induction kvs arbitrary: acc n)
  case (Cons kv kvs)
  from Cons.prems(5) obtain m where n: "n = Suc m" by (cases n) auto
  obtain k v where kv: "kv = (k, v)" by (cases kv)
  define rest where "rest = (if kvs = [] then CHR ''}'' # r else CHR '','' # join_with '','' (map member_text kvs) @ CHR ''}'' # r)"
  have t: "join_with '','' (map member_text (kv # kvs)) @ CHR ''}'' # r =
      CHR 0x22 # concat (map json_escape k) @ CHR 0x22 # CHR '':'' # json_text v @ rest"
    by (simp add: join_with_Cons rest_def member_text_def kv json_quote_def)
  have p: "pValue num m (json_text v @ rest) = Some (v, rest)"
    using Cons.prems(1) [of kv m rest] Cons.prems(5) n kv by (auto simp: rest_def join_with_Cons member_text_def split: if_splits)
  have w: "skipWs (json_text v @ rest) = json_text v @ rest" using Cons.prems(2) kv json_text_skipWs by simp
  have a: "mset_at acc k v = acc @ [kv]" using Cons.prems(4) kv by (auto intro: mset_at_new)
  show ?case
  proof (cases kvs)
    case Nil
    with p n w a show ?thesis unfolding t by (simp add: rest_def jsonWs_not pString_quote)
  next
    case (Cons y ys)
    have "skipWs (join_with '','' (map member_text kvs) @ CHR ''}'' # r) = join_with '','' (map member_text kvs) @ CHR ''}'' # r"
      using Cons by (simp add: join_with_Cons member_text_def json_quote_def jsonWs_not)
    moreover have "pMembers num m (acc @ [kv]) (join_with '','' (map member_text kvs) @ CHR ''}'' # r) = Some (JObj ((acc @ [kv]) @ kvs), r)"
      by (rule Cons.IH) (use Cons Cons.prems n in \<open>auto simp: join_with_Cons\<close>)
    ultimately show ?thesis unfolding t using p n w a Cons by (simp add: rest_def jsonWs_not pString_quote)
  qed
qed simp


lemma pValue_text:
  "jsonExact v \<Longrightarrow> 2 * length (json_text v) < n \<Longrightarrow> jsonStop r \<Longrightarrow> pValue num n (json_text v @ r) = Some (v, r)"
proof (induction v arbitrary: n r)
  case (JNum k)
  then obtain i m where k: "k = SafeInt i" "isSafeInteger i" "n = Suc m" by (cases k; cases n) auto
  obtain c cs where c: "int_text i = c # cs" "digit_val c \<noteq> None \<or> c = CHR ''-''" using int_text_start by blast
  then have "c \<notin> {CHR 0x22, CHR ''['', CHR ''{'', CHR ''n'', CHR ''t'', CHR ''f''}"
    by (auto simp: digit_val_def code_unit_def)
  with pNumber_text [OF k(2) JNum.prems(3), of num] show ?case by (auto simp: k c(1))
next
  case (JArr xs)
  from JArr.prems(2) obtain m where n: "n = Suc m" by (cases n) auto
  show ?case
  proof (cases xs)
    case (Cons y ys)
    let ?t = "join_with '','' (map json_text xs)"
    have c: "jsonClean y" using JArr.prems(1) Cons jsonExact_clean by simp
    then obtain d ds where "json_text y = d # ds" "d \<noteq> CHR '']''"
      using json_text_start startsLike_not_stop by blast
    then have "\<not> startsWith '']'' (?t @ CHR '']'' # r)" using Cons by (simp add: join_with_Cons)
    moreover have "skipWs (?t @ CHR '']'' # r) = ?t @ CHR '']'' # r"
      using Cons c json_text_skipWs [of y] by (simp add: join_with_Cons)
    moreover have "pElems num m [] (?t @ CHR '']'' # r) = Some (JArr ([] @ xs), r)"
      by (rule pElems_text) (use JArr n Cons jsonExact_clean in auto)
    ultimately show ?thesis by (simp add: n)
  qed (simp add: n jsonWs_not)
next
  case (JObj kvs)
  from JObj.prems(2) obtain m where n: "n = Suc m" by (cases n) auto
  have t: "json_text (JObj kvs) = CHR ''{'' # join_with '','' (map member_text kvs) @ ''}''"
    by (rule json_text_JObj) (rule jsonExact_clean [OF JObj.prems(1)])
  show ?case
  proof (cases kvs)
    case (Cons y ys)
    let ?t = "join_with '','' (map member_text kvs)"
    have "\<not> startsWith ''}'' (?t @ CHR ''}'' # r)" "skipWs (?t @ CHR ''}'' # r) = ?t @ CHR ''}'' # r"
      using Cons by (simp_all add: join_with_Cons member_text_def json_quote_def jsonWs_not)
    moreover have "pMembers num m [] (?t @ CHR ''}'' # r) = Some (JObj ([] @ kvs), r)"
    proof (rule pMembers_text)
      show "pValue num n' (json_text (snd kv) @ r') = Some (snd kv, r')"
        if "kv \<in> set kvs" "2 * length (json_text (snd kv)) < n'" "jsonStop r'" for kv n' r'
        using JObj.IH [OF that(1), of "snd kv" n' r'] JObj.prems(1) that
        by (cases kv) (auto simp: Basic_BNFs.snds.simps)
    qed (use JObj.prems n Cons t jsonExact_clean in auto)
    ultimately show ?thesis unfolding t n by simp
  qed (simp add: n jsonWs_not)
next
  case JNull
  then show ?case by (cases n) auto
next
  case (JBool b)
  then show ?case by (cases n) auto
next
  case (JStr s)
  then show ?case by (cases n) (auto simp: json_quote_def pString_quote)
qed simp_all

theorem jsonParse_text:
  assumes "jsonExact v"
  shows "jsonParse num (json_text v) = Some v"
proof -
  have "skipWs (json_text v) = json_text v" using json_text_skipWs [of v "[]"] jsonExact_clean assms by simp
  moreover have "pValue num (2 * length (json_text v) + 2) (json_text v) = Some (v, [])"
    using pValue_text [OF assms, of "2 * length (json_text v) + 2" "[]" num] by simp
  ultimately show ?thesis unfolding jsonParse_def by simp
qed

text \<open>A parsed object repeats no property name, at any depth.\<close>

fun distinctKeys :: "json \<Rightarrow> bool" where
  "distinctKeys (JArr xs) = (\<forall>x \<in> set xs. distinctKeys x)"
| "distinctKeys (JObj kvs) = (distinct (map fst kvs) \<and> (\<forall>kv \<in> set kvs. distinctKeys (snd kv)))"
| "distinctKeys _ = True"

lemma distinctKeys_update:
  assumes "distinctKeys (JObj kvs)" "distinctKeys v"
  shows "distinctKeys (JObj (mset_at kvs k v))"
proof -
  have "snd ` set (mset_at kvs k v) \<subseteq> insert v (snd ` set kvs)"
    by (induction kvs) (auto simp: mset_at_def)
  moreover have "distinct (map fst (mset_at kvs k v))"
    using assms(1) by (simp add: mset_at_def distinct_update)
  moreover have "\<forall>w \<in> insert v (snd ` set kvs). distinctKeys w" using assms by auto
  ultimately show ?thesis by (metis (no_types, lifting) distinctKeys.simps(2) image_subset_iff)
qed

lemma pNumber_kind: "pNumber num s = Some (v, r) \<Longrightarrow> distinctKeys v"
  by (auto simp: pNumber_def Let_def split: if_splits)

lemma parse_distinctKeys:
  "pValue num n s = Some (v, r) \<Longrightarrow> distinctKeys v"
  "pElems num n xs s = Some (v, r) \<Longrightarrow> distinctKeys (JArr xs) \<Longrightarrow> distinctKeys v"
  "pMembers num n kvs s = Some (v, r) \<Longrightarrow> distinctKeys (JObj kvs) \<Longrightarrow> distinctKeys v"
proof (induction num n s and num n xs s and num n kvs s arbitrary: v r and v r and v r rule: pValue_pElems_pMembers.induct)
  case (2 num n s)
  from 2(3) obtain c t where s: "s = c # t" by (cases s) auto
  show ?case
  proof (cases "c = CHR ''['' \<or> c = CHR ''{''")
    case True
    then have "distinctKeys v \<or> v = JArr [] \<or> v = JObj []"
      using 2(3) 2(1) [OF s, of v r] 2(2) [OF s, of v r] unfolding s by (simp split: if_split_asm)
    then show ?thesis by auto
  next
    case False
    then have "v = JNull \<or> (\<exists>b. v = JBool b) \<or> (\<exists>t. v = JStr t) \<or> pNumber num s = Some (v, r)"
      using 2(3) unfolding s by (auto simp del: startsWith_Cons split: if_splits)
    then show ?thesis using pNumber_kind by fastforce
  qed
next
  case (4 num n acc s)
  obtain w t d u where p: "pValue num n s = Some (w, t)" "skipWs t = d # u" "d = CHR '','' \<or> d = CHR '']''"
    using 4(3) by (auto split: option.splits list.splits if_splits)
  have w: "distinctKeys w" using 4(1) p(1) by simp
  show ?case using 4(2) [OF p(1) refl p(2), of v r] 4(3,4) p w by (auto split: if_splits)
next
  case (6 num n acc s)
  obtain k t w u d x where p: "startsWith [CHR 0x22] s" "pString (tl s) = Some (k, t)" "startsWith '':'' (skipWs t)"
    "pValue num n (skipWs (tl (skipWs t))) = Some (w, u)" "skipWs u = d # x" "d = CHR '','' \<or> d = CHR ''}''"
    using 6(3) by (auto split: option.splits list.splits if_splits)
  have "distinctKeys w" using 6(1) [OF _ p(2) refl] p by blast
  then have "distinctKeys (JObj (mset_at acc k w))"
    by (rule distinctKeys_update [OF 6(4)])
  then show ?case using 6(2) [OF _ p(2) refl _ p(4) refl p(5), of v r] 6(3) p by (auto split: if_split_asm)
qed simp_all

lemma jsonParse_distinctKeys: "jsonParse num s = Some v \<Longrightarrow> distinctKeys v"
  by (auto simp: jsonParse_def simp del: pValue.simps dest: parse_distinctKeys(1) split: option.splits if_splits)

end
