(* ===== verification/Bridge_Codec.thy ===== *)
theory Bridge_Codec
  imports Js_Parse Task_Run_Policy
begin

text \<open>
  \<open>packages/agent-bridge/src/protocol.ts\<close>, \<open>policy.ts\<close> and \<open>codec.ts\<close>: the frames a runtime and the control
  plane exchange, one canonical JSON text on a line.  Values of type \<open>unknown\<close> are of type \<open>json\<close>, an
  envelope stays the JSON object it is.  The argument \<open>num\<close> is what the language rounds number literals to
  that are no safe integers, \<open>engine\<close> what \<open>Date.parse\<close> gives outside the canonical format.
\<close>

section \<open>\<open>protocol.ts\<close>\<close>

definition BRIDGE_PROTOCOL_VERSION :: string where "BRIDGE_PROTOCOL_VERSION = ''ventureos.bridge.v1''"
definition MAX_BRIDGE_LINE_BYTES :: nat where "MAX_BRIDGE_LINE_BYTES = 65536"
definition MAX_BRIDGE_BUFFER_BYTES :: nat where "MAX_BRIDGE_BUFFER_BYTES = 131072"
definition MAX_BRIDGE_BATCH_FRAMES :: nat where "MAX_BRIDGE_BATCH_FRAMES = 32"

datatype BridgeSessionState = BS_CHALLENGED | BS_AUTHENTICATED | BS_CAPABILITIES_VERIFIED | BS_PARTIAL | BS_CLOSED

datatype BridgeDispatchState =
    BD_PREPARED | BD_ACCEPTED | BD_CANCEL_REQUESTED | BD_CANCELLED | BD_COMPLETED | BD_FAILED

fun BRIDGE_SESSION_TRANSITIONS :: "BridgeSessionState \<Rightarrow> BridgeSessionState list" where
  "BRIDGE_SESSION_TRANSITIONS BS_CHALLENGED = [BS_AUTHENTICATED, BS_CLOSED]"
| "BRIDGE_SESSION_TRANSITIONS BS_AUTHENTICATED = [BS_CAPABILITIES_VERIFIED, BS_CLOSED]"
| "BRIDGE_SESSION_TRANSITIONS BS_CAPABILITIES_VERIFIED = [BS_PARTIAL, BS_CLOSED]"
| "BRIDGE_SESSION_TRANSITIONS BS_PARTIAL = [BS_CLOSED]"
| "BRIDGE_SESSION_TRANSITIONS BS_CLOSED = []"

fun BRIDGE_DISPATCH_TRANSITIONS :: "BridgeDispatchState \<Rightarrow> BridgeDispatchState list" where
  "BRIDGE_DISPATCH_TRANSITIONS BD_PREPARED = [BD_ACCEPTED, BD_FAILED]"
| "BRIDGE_DISPATCH_TRANSITIONS BD_ACCEPTED = [BD_CANCEL_REQUESTED, BD_COMPLETED, BD_FAILED]"
| "BRIDGE_DISPATCH_TRANSITIONS BD_CANCEL_REQUESTED = [BD_CANCELLED]"
| "BRIDGE_DISPATCH_TRANSITIONS BD_CANCELLED = []"
| "BRIDGE_DISPATCH_TRANSITIONS BD_COMPLETED = []"
| "BRIDGE_DISPATCH_TRANSITIONS BD_FAILED = []"

interpretation bridge_sessions: status_table BRIDGE_SESSION_TRANSITIONS "\<lambda>s. s \<noteq> BS_CLOSED"
proof
  show "x \<noteq> BS_CLOSED \<longleftrightarrow> BRIDGE_SESSION_TRANSITIONS x \<noteq> []" for x by (cases x) auto
qed

interpretation bridge_dispatches: status_table BRIDGE_DISPATCH_TRANSITIONS "\<lambda>s. s \<notin> {BD_CANCELLED, BD_COMPLETED, BD_FAILED}"
proof
  show "x \<notin> {BD_CANCELLED, BD_COMPLETED, BD_FAILED} \<longleftrightarrow> BRIDGE_DISPATCH_TRANSITIONS x \<noteq> []" for x by (cases x) auto
qed

section \<open>\<open>policy.ts\<close>\<close>

datatype bridge_error = BridgeProtocolError string

fun sessionStateText :: "BridgeSessionState \<Rightarrow> string" where
  "sessionStateText BS_CHALLENGED = ''CHALLENGED''"
| "sessionStateText BS_AUTHENTICATED = ''AUTHENTICATED''"
| "sessionStateText BS_CAPABILITIES_VERIFIED = ''CAPABILITIES_VERIFIED''"
| "sessionStateText BS_PARTIAL = ''PARTIAL''"
| "sessionStateText BS_CLOSED = ''CLOSED''"

fun dispatchStateText :: "BridgeDispatchState \<Rightarrow> string" where
  "dispatchStateText BD_PREPARED = ''PREPARED''"
| "dispatchStateText BD_ACCEPTED = ''ACCEPTED''"
| "dispatchStateText BD_CANCEL_REQUESTED = ''CANCEL_REQUESTED''"
| "dispatchStateText BD_CANCELLED = ''CANCELLED''"
| "dispatchStateText BD_COMPLETED = ''COMPLETED''"
| "dispatchStateText BD_FAILED = ''FAILED''"

definition assertBridgeTransition :: "BridgeSessionState \<Rightarrow> BridgeSessionState \<Rightarrow> bridge_error + unit" where
  "assertBridgeTransition cur nxt = ensure (nxt \<in> set (BRIDGE_SESSION_TRANSITIONS cur))
     (BridgeProtocolError (''Illegal bridge session transition '' @ sessionStateText cur @ '' -> '' @ sessionStateText nxt))"

definition assertDispatchTransition :: "BridgeDispatchState \<Rightarrow> BridgeDispatchState \<Rightarrow> bridge_error + unit" where
  "assertDispatchTransition cur nxt = ensure (nxt \<in> set (BRIDGE_DISPATCH_TRANSITIONS cur))
     (BridgeProtocolError (''Illegal bridge dispatch transition '' @ dispatchStateText cur @ '' -> '' @ dispatchStateText nxt))"

record BridgeUsageDelta =
  bu_computeUnits :: int
  bu_costMinorUnits :: int
  bu_currency :: string

definition validateUsageDelta :: "BridgeUsageDelta \<Rightarrow> bridge_error + unit" where
  "validateUsageDelta delta = checks
    [ensure (isSafeInteger (bu_computeUnits delta) \<and> 0 \<le> bu_computeUnits delta)
       (BridgeProtocolError ''Compute usage must be a non-negative safe integer''),
     ensure (isSafeInteger (bu_costMinorUnits delta) \<and> 0 \<le> bu_costMinorUnits delta)
       (BridgeProtocolError ''Cost usage must be a non-negative safe integer''),
     ensure (regex_test ISO_CURRENCY (bu_currency delta)) (BridgeProtocolError ''Currency must be ISO-like'')]"

definition denyLaunch :: "json \<Rightarrow> bridge_error + unit" where
  "denyLaunch handoff = Inl (BridgeProtocolError ''Runtime process launching is not enabled'')"

section \<open>\<open>codec.ts\<close>: canonical values\<close>

definition BRIDGE_REFERENCE :: regex where
  "BRIDGE_REFERENCE = anchored isAlnum (cls_or isAlnum (one_of '':._/-'')) 0 255"

definition MAC :: regex where
  "MAC = exactly 43 (cls_or isAlnum (one_of ''_-''))"

definition PAYLOAD_KEY :: regex where
  "PAYLOAD_KEY = anchored (cls_or isUpper isLower) isAlnum 0 63"

text \<open>With the flag \<open>i\<close>: literals and classes match letters of either case.\<close>

definition BRIDGE_SENSITIVE :: regex where
  "BRIDGE_SENSITIVE = (let tokenChar = cls_or isAlnum (one_of ''_-'') in alts
    [seqs [LitI ''chain'', opt isDot, LitI ''of'', opt isDot, LitI ''thought''],
     seqs [LitI ''private'', opt isDot, LitI ''reasoning''],
     LitI ''password'', LitI ''credential'', seqs [LitI ''api'', opt isDot, LitI ''key''],
     seqs [LitI ''-----BEGIN '', star (cls_or isUpper (cls_or isLower (one_of '' ''))), LitI ''PRIVATE KEY-----''],
     seqs [WordBoundary, LitI ''Bearer'', Rep 1 None isWhiteSpace],
     seqs [WordBoundary,
           alts [LitI ''sk'', seqs [LitI ''gh'', Cls (one_of ''opusrOPUSR'')], LitI ''github_pat'', LitI ''glpat'',
                 seqs [LitI ''xox'', Cls (one_of ''baprsBAPRS'')]],
           Cls (one_of ''_-''), Rep 8 None tokenChar],
     seqs [WordBoundary, LitI ''eyJ'', Rep 8 None tokenChar, Lit ''.'', Rep 8 None tokenChar, Lit ''.'', Rep 8 None tokenChar]])"

definition TYPES :: "string list" where
  "TYPES = [''CHALLENGE'', ''AUTHENTICATE'', ''CAPABILITIES'', ''HEARTBEAT'', ''DISPATCH'', ''DISPATCH_ACCEPTED'',
     ''PROGRESS'', ''ARTIFACT'', ''USAGE'', ''CANCELLED'', ''RESULT'', ''FAILED'']"

definition ENVELOPE_KEYS :: "string list" where
  "ENVELOPE_KEYS = [''connectionId'', ''expiresAt'', ''issuedAt'', ''mac'', ''messageId'', ''payload'', ''payloadDigest'',
     ''principalReference'', ''protocolVersion'', ''runtimeId'', ''sequence'', ''sessionId'', ''type'', ''workspaceId'']"

text \<open>The comparator of the entries, \<open>left === right ? 0 : left < right ? -1 : 1\<close>.\<close>

definition sortedEntries :: "json_record \<Rightarrow> json_record" where
  "sortedEntries = sortWith (\<lambda>l r. compareText (fst l) (fst r))"

lemma set_sortedEntries [simp]: "set (sortedEntries kvs) = set kvs"
  by (simp add: sortedEntries_def)

lemma member_size: "kv \<in> set kvs \<Longrightarrow> size (snd kv) < size (JObj kvs)"
  by (induction kvs) (auto simp: prod.size_neq)

lemma element_size: "x \<in> set xs \<Longrightarrow> size x < size (JArr xs)"
  by (induction xs) auto

function canonicalize :: "json \<Rightarrow> bridge_error + json" where
  "canonicalize value = (case value of
     JNull \<Rightarrow> Inr value
   | JBool _ \<Rightarrow> Inr value
   | JStr s \<Rightarrow> if 2048 < length s \<or> regex_test BRIDGE_SENSITIVE s
       then Inl (BridgeProtocolError ''Sensitive or oversized payload text is forbidden'') else Inr value
   | JNum n \<Rightarrow> (case n of
       SafeInt i \<Rightarrow> if isSafeInteger i then Inr value else Inl (BridgeProtocolError ''Numbers must be safe integers'')
     | _ \<Rightarrow> Inl (BridgeProtocolError ''Numbers must be safe integers''))
   | JArr xs \<Rightarrow> if 256 < length xs then Inl (BridgeProtocolError ''Arrays are bounded'')
       else ebind (emap canonicalize xs) (\<lambda>ys. Inr (JArr ys))
   | JObj kvs \<Rightarrow> if 64 < length kvs then Inl (BridgeProtocolError ''Objects are bounded'')
       else ebind (emap (\<lambda>kv.
           if \<not> regex_test PAYLOAD_KEY (fst kv) \<or> regex_test BRIDGE_SENSITIVE (fst kv)
           then Inl (BridgeProtocolError ''Unsafe payload field'')
           else ebind (canonicalize (snd kv)) (\<lambda>nested. Inr (fst kv, nested))) (sortedEntries kvs)) (\<lambda>entries. Inr (JObj entries))
   | _ \<Rightarrow> Inl (BridgeProtocolError ''Only plain JSON records are allowed''))"
  by auto
termination
  by (relation "measure size") (auto dest: element_size member_size)

declare canonicalize.simps [simp del]

definition canonicalJson :: "json \<Rightarrow> bridge_error + string" where
  "canonicalJson value = ebind (canonicalize value) (\<lambda>canonical. Inr (json_text canonical))"

section \<open>\<open>codec.ts\<close>: envelopes\<close>

definition bridgeDemand :: "bool \<Rightarrow> string \<Rightarrow> bridge_error + unit" where
  "bridgeDemand b message = ensure b (BridgeProtocolError message)"

definition isBridgeReference :: "json \<Rightarrow> bool" where
  "isBridgeReference v = (case v of JStr s \<Rightarrow> regex_test BRIDGE_REFERENCE s \<and> \<not> regex_test BRIDGE_SENSITIVE s | _ \<Rightarrow> False)"

definition bridgeReference :: "json \<Rightarrow> string \<Rightarrow> bridge_error + unit" where
  "bridgeReference v fld = bridgeDemand (isBridgeReference v) (fld @ '' is not a safe reference'')"

definition REFERENCE_FIELDS :: "string list" where
  "REFERENCE_FIELDS = [''workspaceId'', ''runtimeId'', ''connectionId'', ''sessionId'', ''principalReference'', ''messageId'']"

definition isPositiveInteger :: "json \<Rightarrow> bool" where
  "isPositiveInteger v = (case v of JNum (SafeInt i) \<Rightarrow> isSafeInteger i \<and> 1 \<le> i | _ \<Rightarrow> False)"

definition isTimestamp :: "(string \<Rightarrow> int option) \<Rightarrow> json \<Rightarrow> bool" where
  "isTimestamp engine v = (case v of JStr s \<Rightarrow> canonicalTimestamp engine s | _ \<Rightarrow> False)"

definition matches :: "regex \<Rightarrow> json \<Rightarrow> bool" where
  "matches r v = (case v of JStr s \<Rightarrow> regex_test r s | _ \<Rightarrow> False)"

text \<open>\<open>Date.parse(value.field)\<close>; the field has been found to be a canonical timestamp.\<close>

definition timeOf :: "(string \<Rightarrow> int option) \<Rightarrow> json \<Rightarrow> string \<Rightarrow> int" where
  "timeOf engine v fld = (case dateParse engine (textOf (getProp v fld)) of None \<Rightarrow> 0 | Some t \<Rightarrow> t)"

definition validateBridgeEnvelope :: "(string \<Rightarrow> int option) \<Rightarrow> json \<Rightarrow> bridge_error + unit" where
  "validateBridgeEnvelope engine value = checks
    ([bridgeDemand (isRecord value) ''Envelope must be a plain record'',
      bridgeDemand (sort_by (\<le>) (map fst (members value)) = ENVELOPE_KEYS) ''Envelope fields must match the protocol exactly'',
      bridgeDemand (getProp value ''protocolVersion'' = JStr BRIDGE_PROTOCOL_VERSION) ''Unsupported protocol version''] @
     map (\<lambda>fld. bridgeReference (getProp value fld) fld) REFERENCE_FIELDS @
     [bridgeDemand (isPositiveInteger (getProp value ''sequence'')) ''Sequence must be a positive safe integer'',
      bridgeDemand (case getProp value ''type'' of JStr s \<Rightarrow> s \<in> set TYPES | _ \<Rightarrow> False) ''Unknown message type''] @
     map (\<lambda>fld. bridgeDemand (isTimestamp engine (getProp value fld)) (fld @ '' must be a canonical UTC timestamp''))
       [''issuedAt'', ''expiresAt''] @
     [let issuedAt = timeOf engine value ''issuedAt''; expiresAt = timeOf engine value ''expiresAt''
      in bridgeDemand (\<not> (expiresAt \<le> issuedAt \<or> 5 * 60000 < expiresAt - issuedAt))
           ''Frame expiry must follow issuance by at most five minutes'',
      bridgeDemand (matches SHA256 (getProp value ''payloadDigest'')) ''Invalid payload digest'',
      bridgeDemand (matches MAC (getProp value ''mac'')) ''Invalid message authenticator'',
      ebind (canonicalize (getProp value ''payload'')) (\<lambda>_. Inr ())])"

section \<open>\<open>codec.ts\<close>: lines, batches and the line buffer\<close>

definition encodeBridgeLine :: "(string \<Rightarrow> int option) \<Rightarrow> json \<Rightarrow> bridge_error + bytes" where
  "encodeBridgeLine engine envelope =
     ebind (validateBridgeEnvelope engine envelope) (\<lambda>_.
     ebind (canonicalJson envelope) (\<lambda>json.
     (let encoded = utf8Encode (json @ [newline])
      in if MAX_BRIDGE_LINE_BYTES < length encoded then Inl (BridgeProtocolError ''Frame is too large'') else Inr encoded)))"

definition decodeBridgeLine :: "(string \<Rightarrow> js_number) \<Rightarrow> (string \<Rightarrow> int option) \<Rightarrow> bytes \<Rightarrow> bridge_error + json" where
  "decodeBridgeLine num engine input =
     (if length input = 0 \<or> MAX_BRIDGE_LINE_BYTES < length input then Inl (BridgeProtocolError ''Frame length is invalid'')
      else case utf8Decode input of
        None \<Rightarrow> Inl (BridgeProtocolError ''Frame is not valid UTF-8'')
      | Some raw \<Rightarrow>
          if last raw \<noteq> newline \<or> newline \<in> set (butlast raw)
          then Inl (BridgeProtocolError ''Frame must contain exactly one JSON line'')
          else (case jsonParse num (butlast raw) of
            None \<Rightarrow> Inl (BridgeProtocolError ''Frame is not valid JSON'')
          | Some parsed \<Rightarrow>
              ebind (validateBridgeEnvelope engine parsed) (\<lambda>_.
              ebind (canonicalJson parsed) (\<lambda>canonical.
              if canonical \<noteq> butlast raw
              then Inl (BridgeProtocolError ''Frame must use canonical JSON without duplicate fields'')
              else Inr parsed))))"

text \<open>\<open>indexOf(10)\<close> and the two \<open>subarray\<close>s at it: the first line with its newline, and the rest.\<close>

definition cutLine :: "bytes \<Rightarrow> (bytes \<times> bytes) option" where
  "cutLine bs = (if newline \<in> set bs
     then Some (takeWhile (\<lambda>b. b \<noteq> newline) bs @ [newline], tl (dropWhile (\<lambda>b. b \<noteq> newline) bs)) else None)"

lemma cutLine_Some: "cutLine bs = Some (line, rest) \<longleftrightarrow> (\<exists>u. newline \<notin> set u \<and> line = u @ [newline] \<and> bs = line @ rest)"
proof
  assume "cutLine bs = Some (line, rest)"
  then have n: "newline \<in> set bs" "line = takeWhile (\<lambda>b. b \<noteq> newline) bs @ [newline]" "rest = tl (dropWhile (\<lambda>b. b \<noteq> newline) bs)"
    by (auto simp: cutLine_def split: if_splits)
  then have "dropWhile (\<lambda>b. b \<noteq> newline) bs \<noteq> []" by auto
  with n(3) hd_dropWhile [OF this] have "dropWhile (\<lambda>b. b \<noteq> newline) bs = newline # rest"
    by (cases "dropWhile (\<lambda>b. b \<noteq> newline) bs") auto
  then have "bs = takeWhile (\<lambda>b. b \<noteq> newline) bs @ newline # rest"
    using takeWhile_dropWhile_id [of "\<lambda>b. b \<noteq> newline" bs] by simp
  moreover have "newline \<notin> set (takeWhile (\<lambda>b. b \<noteq> newline) bs)" by (auto dest: set_takeWhileD)
  ultimately show "\<exists>u. newline \<notin> set u \<and> line = u @ [newline] \<and> bs = line @ rest"
    using n(2) by (intro exI [of _ "takeWhile (\<lambda>b. b \<noteq> newline) bs"]) simp
next
  assume "\<exists>u. newline \<notin> set u \<and> line = u @ [newline] \<and> bs = line @ rest"
  then obtain u where u: "newline \<notin> set u" "line = u @ [newline]" "bs = u @ newline # rest" by auto
  have "takeWhile (\<lambda>b. b \<noteq> newline) (u @ newline # rest) = u" "dropWhile (\<lambda>b. b \<noteq> newline) (u @ newline # rest) = newline # rest"
    using u(1) by (induction u) auto
  with u show "cutLine bs = Some (line, rest)" by (simp add: cutLine_def)
qed

lemma cutLine_shorter: "cutLine bs = Some (line, rest) \<Longrightarrow> length rest < length bs"
  by (auto simp: cutLine_Some)

text \<open>The loop of \<open>decodeBridgeBatch\<close> over the bytes from the offset on.\<close>

function batchLoop :: "(string \<Rightarrow> js_number) \<Rightarrow> (string \<Rightarrow> int option) \<Rightarrow> json list \<Rightarrow> bytes \<Rightarrow> bridge_error + json list" where
  "batchLoop num engine messages rest =
     (if rest = [] then Inr messages
      else case cutLine rest of
        None \<Rightarrow> Inl (BridgeProtocolError ''Bridge batch contains a partial line'')
      | Some (line, rest') \<Rightarrow>
          ebind (decodeBridgeLine num engine line) (\<lambda>m.
          if MAX_BRIDGE_BATCH_FRAMES < length (messages @ [m])
          then Inl (BridgeProtocolError ''Bridge batch contains too many frames'')
          else batchLoop num engine (messages @ [m]) rest'))"
  by auto
termination
  by (relation "measure (\<lambda>(_, _, _, rest). length rest)") (auto dest: cutLine_shorter)

declare batchLoop.simps [simp del]

definition decodeBridgeBatch :: "(string \<Rightarrow> js_number) \<Rightarrow> (string \<Rightarrow> int option) \<Rightarrow> bytes \<Rightarrow> bridge_error + json list" where
  "decodeBridgeBatch num engine input =
     (if input = [] then Inl (BridgeProtocolError ''Bridge batch is empty'')
      else if MAX_BRIDGE_BUFFER_BYTES < length input then Inl (BridgeProtocolError ''Bridge batch exceeded its bound'')
      else if last input \<noteq> newline then Inl (BridgeProtocolError ''Bridge batch must end with a complete JSON line'')
      else batchLoop num engine [] input)"

text \<open>\<open>BoundedBridgeLineBuffer\<close>: its state is the bytes it has buffered.\<close>

function pushLoop :: "(string \<Rightarrow> js_number) \<Rightarrow> (string \<Rightarrow> int option) \<Rightarrow> json list \<Rightarrow> (bytes, bridge_error, json list) method" where
  "pushLoop num engine messages buffered = (case cutLine buffered of
     None \<Rightarrow> (Inr messages, buffered)
   | Some (line, rest) \<Rightarrow> (case decodeBridgeLine num engine line of
       Inl e \<Rightarrow> (Inl e, rest)
     | Inr m \<Rightarrow> pushLoop num engine (messages @ [m]) rest))"
  by auto
termination
  by (relation "measure (\<lambda>(_, _, _, rest). length rest)") (auto dest: cutLine_shorter)

declare pushLoop.simps [simp del]

definition push :: "(string \<Rightarrow> js_number) \<Rightarrow> (string \<Rightarrow> int option) \<Rightarrow> bytes \<Rightarrow> (bytes, bridge_error, json list) method" where
  "push num engine chunk buffered =
     (if int (length chunk) > int MAX_BRIDGE_BUFFER_BYTES - int (length buffered)
      then (Inl (BridgeProtocolError ''Bridge buffer exceeded its bound''), [])
      else (case pushLoop num engine [] (buffered @ chunk) of
        (Inl e, rest) \<Rightarrow> (Inl e, rest)
      | (Inr messages, rest) \<Rightarrow>
          if MAX_BRIDGE_LINE_BYTES \<le> length rest
          then (Inl (BridgeProtocolError ''Bridge line exceeded its bound''), [])
          else (Inr messages, rest)))"

end
