(* ===== verification/Bridge_Codec_Properties.thy ===== *)
theory Bridge_Codec_Properties
  imports Bridge_Codec
begin

text \<open>
  What the codec of the bridge guarantees: \<open>canonicalize\<close> sorts the properties and changes nothing else,
  a line and the envelope it carries determine each other, and a stream of lines is cut into the same
  frames however it is divided into chunks.
\<close>

section \<open>Canonical values\<close>

text \<open>The values \<open>canonicalize\<close> lets pass.\<close>

fun bridgeable :: "json \<Rightarrow> bool" where
  "bridgeable JNull = True"
| "bridgeable (JBool b) = True"
| "bridgeable (JNum (SafeInt i)) = isSafeInteger i"
| "bridgeable (JNum (OtherFinite t)) = False"
| "bridgeable (JNum NonFinite) = False"
| "bridgeable (JStr s) = (length s \<le> 2048 \<and> \<not> regex_test BRIDGE_SENSITIVE s)"
| "bridgeable (JArr xs) = (length xs \<le> 256 \<and> (\<forall>x \<in> set xs. bridgeable x))"
| "bridgeable (JObj kvs) = (length kvs \<le> 64 \<and> (\<forall>kv \<in> set kvs.
     regex_test PAYLOAD_KEY (fst kv) \<and> \<not> regex_test BRIDGE_SENSITIVE (fst kv) \<and> bridgeable (snd kv)))"
| "bridgeable JUndefined = False"
| "bridgeable JOpaque = False"

lemma normalizeJson_JObj: "normalizeJson (JObj kvs) = JObj (map (\<lambda>kv. (fst kv, normalizeJson (snd kv))) (sortedEntries kvs))"
  unfolding normalizeJson.simps sortedEntries_def sortWith_def by (subst sort_by_map) (auto simp: case_prod_unfold)

lemma canonicalize_iff: "canonicalize v = Inr w \<longleftrightarrow> bridgeable v \<and> w = normalizeJson v"
proof (induction v arbitrary: w rule: canonicalize.induct)
  case (1 v)
  show ?case
  proof (cases v)
    case (JNum n)
    then show ?thesis using canonicalize.simps [of v] by (cases n) (auto split: if_splits)
  next
    case (JArr xs)
    have IH: "canonicalize x = Inr y \<longleftrightarrow> bridgeable x \<and> y = normalizeJson x" if "x \<in> set xs" "length xs \<le> 256" for x y
      using 1(1) [OF JArr _ that(1)] that by simp
    have c: "canonicalize v = (if 256 < length xs then Inl (BridgeProtocolError ''Arrays are bounded'')
       else ebind (emap canonicalize xs) (\<lambda>ys. Inr (JArr ys)))"
      by (subst canonicalize.simps) (simp add: JArr)
    show ?thesis
    proof
      assume "canonicalize v = Inr w"
      then obtain ys where "length xs \<le> 256" "emap canonicalize xs = Inr ys" "w = JArr ys"
        by (auto simp: c ebind_Inr split: if_splits)
      then show "bridgeable v \<and> w = normalizeJson v"
        using IH emap_Inr_map [of canonicalize xs ys normalizeJson] emap_Inr_mem [of canonicalize xs ys] JArr by auto
    next
      assume "bridgeable v \<and> w = normalizeJson v"
      then show "canonicalize v = Inr w" unfolding c
        using IH JArr emap_all [of xs canonicalize normalizeJson] by auto
    qed
  next
    case (JObj kvs)
    define f where "f kv = (if \<not> regex_test PAYLOAD_KEY (fst kv) \<or> regex_test BRIDGE_SENSITIVE (fst kv)
           then Inl (BridgeProtocolError ''Unsafe payload field'')
           else ebind (canonicalize (snd kv)) (\<lambda>nested. Inr (fst kv, nested)))" for kv
    have IH: "canonicalize (snd kv) = Inr y \<longleftrightarrow> bridgeable (snd kv) \<and> y = normalizeJson (snd kv)"
      if "kv \<in> set kvs" "length kvs \<le> 64" "regex_test PAYLOAD_KEY (fst kv)" "\<not> regex_test BRIDGE_SENSITIVE (fst kv)" for kv y
      using 1(2) [OF JObj, of kv] that by simp
    have f: "f kv = Inr p \<longleftrightarrow> regex_test PAYLOAD_KEY (fst kv) \<and> \<not> regex_test BRIDGE_SENSITIVE (fst kv) \<and> bridgeable (snd kv)
        \<and> p = (fst kv, normalizeJson (snd kv))" if "kv \<in> set kvs" "length kvs \<le> 64" for kv p
      using IH [OF that] by (auto simp: f_def ebind_Inr)
    have c: "canonicalize v = (if 64 < length kvs then Inl (BridgeProtocolError ''Objects are bounded'')
       else ebind (emap f (sortedEntries kvs)) (\<lambda>entries. Inr (JObj entries)))"
      by (subst canonicalize.simps) (simp add: JObj f_def [abs_def])
    show ?thesis
    proof
      assume "canonicalize v = Inr w"
      then obtain ys where "length kvs \<le> 64" "emap f (sortedEntries kvs) = Inr ys" "w = JObj ys"
        by (auto simp: c ebind_Inr split: if_splits)
      then show "bridgeable v \<and> w = normalizeJson v"
        using f emap_Inr_map [of f "sortedEntries kvs" ys "\<lambda>kv. (fst kv, normalizeJson (snd kv))"] emap_Inr_mem [of f "sortedEntries kvs" ys]
        by (auto simp: JObj normalizeJson_JObj simp del: normalizeJson.simps)
    next
      assume "bridgeable v \<and> w = normalizeJson v"
      then show "canonicalize v = Inr w" unfolding c
        using f emap_all [of "sortedEntries kvs" f "\<lambda>kv. (fst kv, normalizeJson (snd kv))"]
        by (auto simp: JObj normalizeJson_JObj simp del: normalizeJson.simps)
    qed
  qed (use canonicalize.simps [of v] in \<open>auto split: if_splits\<close>)
qed

lemma canonicalJson_iff: "canonicalJson v = Inr t \<longleftrightarrow> bridgeable v \<and> t = json_text (normalizeJson v)"
  by (auto simp: canonicalJson_def ebind_Inr canonicalize_iff)

lemma length_sortedEntries [simp]: "length (sortedEntries kvs) = length kvs"
  by (simp add: sortedEntries_def sortWith_def)

lemma distinct_sortedEntries [simp]: "distinct (map fst (sortedEntries kvs)) \<longleftrightarrow> distinct (map fst kvs)"
proof -
  have "mset (map fst (sortedEntries kvs)) = mset (map fst kvs)" by (simp add: sortedEntries_def)
  then show ?thesis by (metis mset_eq_imp_distinct_iff)
qed

lemma bridgeable_normalize: "bridgeable v \<Longrightarrow> bridgeable (normalizeJson v)"
proof (induction v rule: bridgeable.induct)
  case (8 kvs)
  then show ?case unfolding normalizeJson_JObj by (fastforce simp del: normalizeJson.simps)
qed auto

lemma bridgeable_exact: "bridgeable v \<Longrightarrow> distinctKeys v \<Longrightarrow> jsonExact v"
  by (induction v rule: bridgeable.induct) auto

lemma distinctKeys_normalize: "distinctKeys v \<Longrightarrow> distinctKeys (normalizeJson v)"
proof (induction v rule: distinctKeys.induct)
  case (2 kvs)
  then show ?case unfolding normalizeJson_JObj by (fastforce simp: comp_def simp del: normalizeJson.simps)
qed auto

lemma sortedEntries_map: "(\<And>kv. fst (f kv) = fst kv) \<Longrightarrow> sortedEntries (map f kvs) = map f (sortedEntries kvs)"
  unfolding sortedEntries_def sortWith_def by (rule sort_by_map) simp

lemma sortedEntries_idem [simp]: "sortedEntries (sortedEntries kvs) = sortedEntries kvs"
  using sorted_sortWith [OF comparator_compareText, of fst kvs] by (simp add: sortedEntries_def sortWith_def sort_by_id)

lemma normalize_idem [simp]: "normalizeJson (normalizeJson v) = normalizeJson v"
proof (induction v)
  case (JObj kvs)
  have "normalizeJson (normalizeJson (snd kv)) = normalizeJson (snd kv)" if "kv \<in> set kvs" for kv
    using JObj [OF that, of "snd kv"] by (cases kv) (simp add: Basic_BNFs.snds.simps)
  then show ?case
    unfolding normalizeJson_JObj by (simp add: sortedEntries_map)
qed auto

section \<open>Lines and envelopes\<close>

lemma getProp_normalize:
  assumes "distinctKeys v"
  shows "getProp (normalizeJson v) fld = normalizeJson (getProp v fld)"
proof (cases v)
  case (JObj kvs)
  have "map_of (sortedEntries kvs) = map_of kvs"
    unfolding sortedEntries_def by (rule map_of_sortWith) (use assms JObj in simp)
  moreover have "map_of (map (\<lambda>kv. (fst kv, normalizeJson (snd kv))) xs) fld = map_option normalizeJson (map_of xs fld)" for xs
    using map_of_normalized [of xs fld] by (simp add: case_prod_unfold)
  ultimately show ?thesis
    unfolding JObj normalizeJson_JObj by (simp add: getProp_def split: option.split)
qed (auto simp: getProp_def)

lemma normalize_scalar [simp]:
  "normalizeJson v = JStr s \<longleftrightarrow> v = JStr s" "normalizeJson v = JNum n \<longleftrightarrow> v = JNum n"
  "textOf (normalizeJson v) = textOf v" "isRecord (normalizeJson v) = isRecord v"
  by (cases v; simp)+

lemma normalize_checks [simp]:
  "isBridgeReference (normalizeJson v) = isBridgeReference v" "isPositiveInteger (normalizeJson v) = isPositiveInteger v"
  "isTimestamp engine (normalizeJson v) = isTimestamp engine v" "matches r (normalizeJson v) = matches r v"
  "(case normalizeJson v of JStr s \<Rightarrow> P s | _ \<Rightarrow> False) = (case v of JStr s \<Rightarrow> P s | _ \<Rightarrow> False)"
  by (cases v; simp add: isBridgeReference_def isPositiveInteger_def isTimestamp_def matches_def)+

lemma sort_text: "sort_by (\<le>) xs = sort (xs :: string list)"
proof -
  have "insert_by (\<le>) x ys = insort x ys" for x and ys :: "string list" by (induction ys) auto
  then show ?thesis by (induction xs) auto
qed

lemma keys_normalize: "sort_by (\<le>) (map fst (members (normalizeJson v))) = sort_by (\<le>) (map fst (members v))"
proof (cases v)
  case (JObj kvs)
  have "map fst (members (normalizeJson v)) = map fst (sortedEntries kvs)"
    unfolding JObj normalizeJson_JObj by (simp add: comp_def)
  moreover have "mset (map fst (sortedEntries kvs)) = mset (map fst kvs)" by (simp add: sortedEntries_def)
  ultimately show ?thesis unfolding sort_text JObj by (metis members.simps(1) properties_for_sort sorted_sort mset_sort)
qed simp_all

lemma bridgeDemand_Inr [simp]: "bridgeDemand b m = Inr u \<longleftrightarrow> b"
  by (simp add: bridgeDemand_def)

lemma validate_normalize:
  assumes "validateBridgeEnvelope engine e = Inr ()" "distinctKeys e"
  shows "validateBridgeEnvelope engine (normalizeJson e) = Inr ()"
  using assms bridgeable_normalize
  by (auto simp: validateBridgeEnvelope_def outcome_simps getProp_normalize keys_normalize bridgeReference_def
      timeOf_def canonicalize_iff)

lemma json_quote_printable: "newline \<notin> set (json_quote s)"
proof -
  have "newline \<notin> set (json_escape c)" for c
  proof -
    have "\<forall>n \<in> set [0..<16]. hex_digit n \<noteq> newline" by code_simp
    then have "hex_digit n \<noteq> newline" if "n < 16" for n using that by simp
    moreover have "code_unit c div 16 < 16" using code_unit_less [of c] by linarith
    ultimately have "hex_digit (code_unit c div 16) \<noteq> newline" "hex_digit (code_unit c mod 16) \<noteq> newline" by simp_all
    then show ?thesis
      by (auto simp: json_escape_def)
  qed
  then show ?thesis by (auto simp: json_quote_def)
qed

lemma set_join_with: "set (join_with sep xs) \<subseteq> set sep \<union> \<Union> (set ` set xs)"
  by (induction sep xs rule: join_with.induct) auto

lemma json_text_one_line: "jsonClean v \<Longrightarrow> newline \<notin> set (json_text v)"
proof (induction v)
  case (JNum n)
  have "newline \<notin> set (int_text i)" for i
    using int_text_chars [of newline i] by (auto simp: digit_val_def code_unit_def)
  with JNum show ?case by (cases n) auto
next
  case (JArr xs)
  then show ?case using set_join_with [of "'',''" "map json_text xs"] by auto
next
  case (JObj kvs)
  have "newline \<notin> set (member_text kv)" if "kv \<in> set kvs" for kv
    using JObj.IH [OF that, of "snd kv"] that JObj.prems json_quote_printable
    by (cases kv) (auto simp: member_text_def Basic_BNFs.snds.simps)
  then show ?case unfolding json_text_JObj [OF JObj.prems]
    using set_join_with [of "'',''" "map member_text kvs"] by auto
qed (auto simp: json_quote_printable)

lemma encode_iff:
  "encodeBridgeLine engine e = Inr l \<longleftrightarrow>
   validateBridgeEnvelope engine e = Inr () \<and> bridgeable e \<and> l = utf8Encode (json_text (normalizeJson e) @ [newline]) \<and>
   length l \<le> MAX_BRIDGE_LINE_BYTES"
  by (auto simp: encodeBridgeLine_def ebind_Inr canonicalJson_iff Let_def split: if_splits)

text \<open>Sending: what the peer decodes is the canonical form of the envelope.\<close>

theorem encode_then_decode:
  assumes "encodeBridgeLine engine e = Inr l" "distinctKeys e"
  shows "decodeBridgeLine num engine l = Inr (normalizeJson e)"
proof -
  let ?c = "normalizeJson e"
  have v: "validateBridgeEnvelope engine ?c = Inr ()" and b: "bridgeable ?c" and l: "l = utf8Encode (json_text ?c @ [newline])"
    and n: "length l \<le> MAX_BRIDGE_LINE_BYTES"
    using assms validate_normalize bridgeable_normalize by (auto simp: encode_iff)
  have x: "jsonExact ?c" using b bridgeable_exact distinctKeys_normalize assms(2) by blast
  have "newline \<notin> set (json_text ?c)" using x json_text_one_line jsonExact_clean by blast
  moreover have "l \<noteq> []" using l by (simp add: utf8Char_def)
  moreover have "utf8Decode l = Some (json_text ?c @ [newline])" unfolding l by (rule utf8_roundtrip)
  ultimately show ?thesis
    using v b n by (simp add: decodeBridgeLine_def jsonParse_text [OF x] canonicalJson_iff [THEN iffD2])
qed

text \<open>Receiving: an envelope is accepted from one line only, the one that encodes it.\<close>

theorem decode_then_encode:
  assumes "decodeBridgeLine num engine l = Inr e"
  shows "encodeBridgeLine engine e = Inr l" "normalizeJson e = e" "distinctKeys e"
proof -
  obtain raw where raw: "utf8Decode l = Some raw" "l \<noteq> []" "length l \<le> MAX_BRIDGE_LINE_BYTES" "last raw = newline"
    using assms by (cases "utf8Decode l") (auto simp: decodeBridgeLine_def split: if_split_asm)
  then have "(case jsonParse num (butlast raw) of None \<Rightarrow> Inl (BridgeProtocolError ''Frame is not valid JSON'')
    | Some parsed \<Rightarrow> ebind (validateBridgeEnvelope engine parsed) (\<lambda>_. ebind (canonicalJson parsed) (\<lambda>canonical.
        if canonical \<noteq> butlast raw then Inl (BridgeProtocolError ''Frame must use canonical JSON without duplicate fields'')
        else Inr parsed))) = Inr e"
    using assms by (simp add: decodeBridgeLine_def split: if_split_asm)
  then have p: "jsonParse num (butlast raw) = Some e" "validateBridgeEnvelope engine e = Inr ()" "canonicalJson e = Inr (butlast raw)"
    by (cases "jsonParse num (butlast raw)"; auto simp: ebind_Inr split: if_split_asm)+
  then have r: "bridgeable e" "butlast raw = json_text (normalizeJson e)" by (simp_all add: canonicalJson_iff)
  show d: "distinctKeys e" by (rule jsonParse_distinctKeys [OF p(1)])
  have "jsonExact (normalizeJson e)" using r(1) d bridgeable_exact distinctKeys_normalize bridgeable_normalize by blast
  from jsonParse_text [OF this, of num] p(1) r(2) show c: "normalizeJson e = e" by simp
  have u: "utf8Encode raw = l" by (rule utf8Decode_encode [OF raw(1)])
  have "raw \<noteq> []" using u raw(2) by auto
  then have "raw = json_text (normalizeJson e) @ [newline]" using raw(4) r(2) by (metis append_butlast_last_id)
  with u have "l = utf8Encode (json_text (normalizeJson e) @ [newline])" by metis
  then show "encodeBridgeLine engine e = Inr l" unfolding encode_iff using p(2) r(1) raw(3) by blast
qed

end
