(* ===== verification/Bridge_Stream.thy ===== *)
theory Bridge_Stream
  imports Bridge_Codec_Properties
begin

text \<open>
  Streams of frames.  \<open>decodeBridgeBatch\<close> reads a whole batch, \<open>BoundedBridgeLineBuffer.push\<close> reads what
  arrives chunk by chunk; both deliver the frames whose encodings make up the bytes.
\<close>

section \<open>Lines of a stream\<close>

lemma decode_line:
  assumes "decodeBridgeLine num engine l = Inr e"
  obtains u where "l = u @ [newline]" "newline \<notin> set u" "length l \<le> MAX_BRIDGE_LINE_BYTES"
proof -
  have e: "encodeBridgeLine engine e = Inr l" and d: "distinctKeys e" using decode_then_encode [OF assms] by auto
  then have l: "l = utf8Encode (json_text (normalizeJson e)) @ [newline]" "bridgeable e" "length l \<le> MAX_BRIDGE_LINE_BYTES"
    by (auto simp: encode_iff utf8Char_def newline_unit)
  have "jsonClean (normalizeJson e)"
    using l(2) d jsonExact_clean bridgeable_exact distinctKeys_normalize bridgeable_normalize by blast
  then have "newline \<notin> set (utf8Encode (json_text (normalizeJson e)))"
    unfolding newline_utf8 by (rule json_text_one_line)
  with l that show thesis by blast
qed

lemma cutLine_frame:
  assumes "decodeBridgeLine num engine l = Inr e"
  shows "cutLine (l @ r) = Some (l, r)"
  using assms by (rule decode_line) (auto simp: cutLine_Some)

lemma cutLine_None: "cutLine r = None \<longleftrightarrow> newline \<notin> set r"
  by (simp add: cutLine_def)

lemma frames_nonempty: "emap (decodeBridgeLine num engine) lines = Inr fs \<Longrightarrow> concat lines = [] \<longleftrightarrow> fs = []"
  by (cases lines) (auto simp: emap_Cons_Inr simp del: emap.simps(2) elim: decode_line)

lemma pushLoop_iff:
  "pushLoop num engine ms bs = (Inr fs, r) \<longleftrightarrow>
   (\<exists>lines ns. fs = ms @ ns \<and> emap (decodeBridgeLine num engine) lines = Inr ns \<and> bs = concat lines @ r \<and> newline \<notin> set r)"
proof (induction num engine ms bs rule: pushLoop.induct)
  case (1 num engine ms bs)
  show ?case (is "?l \<longleftrightarrow> ?r")
  proof
    assume l: ?l
    show ?r
    proof (cases "cutLine bs")
      case None
      with l have "fs = ms" "r = bs" by (auto simp: pushLoop.simps [of _ _ _ bs])
      with None show ?thesis by (intro exI [of _ "[]"]) (auto simp: cutLine_None)
    next
      case (Some p)
      then obtain line rest m where p: "cutLine bs = Some (line, rest)" "decodeBridgeLine num engine line = Inr m"
        "pushLoop num engine (ms @ [m]) rest = (Inr fs, r)"
        using l by (cases p) (auto simp: pushLoop.simps [of _ _ _ bs] split: sum.splits)
      then obtain lines ns where n: "fs = (ms @ [m]) @ ns" "emap (decodeBridgeLine num engine) lines = Inr ns"
        "rest = concat lines @ r" "newline \<notin> set r"
        using 1(1) [OF p(1) refl p(2)] by auto
      then show ?thesis using p by (intro exI [of _ "line # lines"] exI [of _ "m # ns"]) (auto simp: cutLine_Some)
    qed
  next
    assume ?r
    then obtain lines ns where n: "fs = ms @ ns" "emap (decodeBridgeLine num engine) lines = Inr ns" "bs = concat lines @ r" "newline \<notin> set r"
      by blast
    show ?l
    proof (cases lines)
      case Nil
      with n show ?thesis by (subst pushLoop.simps) (simp add: cutLine_None [THEN iffD2])
    next
      case (Cons line lines')
      then obtain m ms' where m: "decodeBridgeLine num engine line = Inr m" "emap (decodeBridgeLine num engine) lines' = Inr ms'" "ns = m # ms'"
        using n(2) by (auto simp: emap_Cons_Inr simp del: emap.simps(2))
      then have c: "cutLine bs = Some (line, concat lines' @ r)" using cutLine_frame n(3) Cons by simp
      then have "pushLoop num engine (ms @ [m]) (concat lines' @ r) = (Inr fs, r)"
        using 1(1) [OF c refl m(1)] m n by auto
      then show ?thesis using c m by (simp add: pushLoop.simps [of _ _ _ bs])
    qed
  qed
qed

lemma batchLoop_Inr:
  "batchLoop num engine ms bs = Inr fs \<Longrightarrow>
   \<exists>lines ns. fs = ms @ ns \<and> emap (decodeBridgeLine num engine) lines = Inr ns \<and> bs = concat lines \<and> (length ms \<le> 32 \<longrightarrow> length fs \<le> 32)"
proof (induction num engine ms bs rule: batchLoop.induct)
  case (1 num engine ms bs)
  show ?case
  proof (cases "bs = []")
    case True
    with 1(2) have "fs = ms" using batchLoop.simps [of num engine ms "[]"] by simp
    with True show ?thesis by (intro exI [of _ "[]"]) auto
  next
    case False
    then obtain line rest m where p: "cutLine bs = Some (line, rest)" "decodeBridgeLine num engine line = Inr m"
      "\<not> MAX_BRIDGE_BATCH_FRAMES < length (ms @ [m])" "batchLoop num engine (ms @ [m]) rest = Inr fs"
      using 1(2) by (auto simp: batchLoop.simps [of _ _ _ bs] ebind_Inr split: option.splits if_splits)
    then obtain lines ns where "fs = (ms @ [m]) @ ns" "emap (decodeBridgeLine num engine) lines = Inr ns" "rest = concat lines" "length fs \<le> 32"
      using 1(1) [OF False p(1) refl p(3)] by (auto simp: MAX_BRIDGE_BATCH_FRAMES_def)
    then show ?thesis using p by (intro exI [of _ "line # lines"] exI [of _ "m # ns"]) (auto simp: cutLine_Some)
  qed
qed

lemma batchLoop_frames:
  "emap (decodeBridgeLine num engine) lines = Inr ns \<Longrightarrow> length ms + length ns \<le> 32 \<Longrightarrow>
   batchLoop num engine ms (concat lines) = Inr (ms @ ns)"
proof (induction lines arbitrary: ms ns)
  case (Cons line lines)
  then obtain m ns' where m: "decodeBridgeLine num engine line = Inr m" "emap (decodeBridgeLine num engine) lines = Inr ns'" "ns = m # ns'"
    by (auto simp: emap_Cons_Inr simp del: emap.simps(2))
  then have "batchLoop num engine (ms @ [m]) (concat lines) = Inr ((ms @ [m]) @ ns')"
    using Cons.IH [of ns' "ms @ [m]"] Cons.prems by auto
  moreover have "line \<noteq> []" using m(1) by (auto elim: decode_line)
  ultimately show ?case
    using m Cons.prems(2) cutLine_frame [OF m(1), of "concat lines"]
    by (subst batchLoop.simps) (simp add: MAX_BRIDGE_BATCH_FRAMES_def)
qed (simp add: batchLoop.simps)

section \<open>Chunks\<close>

fun pushAll :: "(string \<Rightarrow> js_number) \<Rightarrow> (string \<Rightarrow> int option) \<Rightarrow> bytes list \<Rightarrow> (bytes, bridge_error, json list) method" where
  "pushAll num engine [] buffered = (Inr [], buffered)"
| "pushAll num engine (chunk # chunks) buffered = (case push num engine chunk buffered of
     (Inl e, b) \<Rightarrow> (Inl e, b)
   | (Inr ms, b) \<Rightarrow> (case pushAll num engine chunks b of
       (Inl e, b') \<Rightarrow> (Inl e, b') | (Inr ns, b') \<Rightarrow> (Inr (ms @ ns), b')))"

lemma push_Inr:
  "push num engine chunk b = (Inr ms, b') \<longleftrightarrow>
   length chunk + length b \<le> MAX_BRIDGE_BUFFER_BYTES \<and> length b' < MAX_BRIDGE_LINE_BYTES \<and> newline \<notin> set b' \<and>
   (\<exists>lines. emap (decodeBridgeLine num engine) lines = Inr ms \<and> b @ chunk = concat lines @ b')"
  (is "?l \<longleftrightarrow> ?r")
proof -
  have "?l \<longleftrightarrow> length chunk + length b \<le> MAX_BRIDGE_BUFFER_BYTES \<and> length b' < MAX_BRIDGE_LINE_BYTES \<and>
      pushLoop num engine [] (b @ chunk) = (Inr ms, b')"
    by (auto simp: push_def split: prod.splits sum.splits)
  then show ?thesis unfolding pushLoop_iff by auto
qed

lemma frames_prefix:
  assumes "emap (decodeBridgeLine num engine) lines = Inr fs" "concat lines = x @ t"
  obtains ls1 ls2 b where "lines = ls1 @ ls2" "x = concat ls1 @ b" "concat ls2 = b @ t" "newline \<notin> set b" "length b < MAX_BRIDGE_LINE_BYTES"
  using assms
proof (induction lines arbitrary: x fs thesis)
  case Nil
  show ?case by (rule Nil(1) [of "[]" "[]" "[]"]) (use Nil in \<open>auto simp: MAX_BRIDGE_LINE_BYTES_def\<close>)
next
  case (Cons line lines)
  then obtain m ns where m: "decodeBridgeLine num engine line = Inr m" "emap (decodeBridgeLine num engine) lines = Inr ns"
    by (auto simp: emap_Cons_Inr simp del: emap.simps(2))
  obtain u where u: "line = u @ [newline]" "newline \<notin> set u" "length line \<le> MAX_BRIDGE_LINE_BYTES"
    using m(1) by (rule decode_line)
  show ?case
  proof (cases "length line \<le> length x")
    case True
    then obtain y where y: "x = line @ y" using Cons.prems(3) by (auto simp: append_eq_append_conv2)
    then have "concat lines = y @ t" using Cons.prems(3) by simp
    from Cons.IH [OF _ m(2) this] obtain ls1 ls2 b where "lines = ls1 @ ls2" "y = concat ls1 @ b" "concat ls2 = b @ t" "newline \<notin> set b" "length b < MAX_BRIDGE_LINE_BYTES"
      by blast
    then show ?thesis using y by (intro Cons.prems(1) [of "line # ls1" ls2 b]) auto
  next
    case False
    then have "x = take (length x) line" using Cons.prems(3) by (metis (no_types) append_eq_conv_conj concat.simps(2) nat_le_linear take_append diff_is_0_eq append_Nil2 take0)
    then have "x = take (length x) u" using False u(1) by (simp add: less_Suc_eq_le)
    then have "newline \<notin> set x" using u(2) by (metis in_set_takeD)
    then show ?thesis using False u(3) Cons.prems(3) by (intro Cons.prems(1) [of "[]" "line # lines" x]) auto
  qed
qed

lemma pushAll_frames:
  assumes "emap (decodeBridgeLine num engine) lines = Inr fs" "b @ concat chunks = concat lines" "newline \<notin> set b"
    and "length (concat lines) \<le> MAX_BRIDGE_BUFFER_BYTES"
  shows "pushAll num engine chunks b = (Inr fs, [])"
  using assms
proof (induction chunks arbitrary: b lines fs)
  case Nil
  have "concat lines = []"
  proof (cases lines)
    case (Cons l ls)
    then obtain m where "decodeBridgeLine num engine l = Inr m" using Nil.prems(1) by (auto simp: emap_Cons_Inr simp del: emap.simps(2))
    then have "newline \<in> set l" by (auto elim: decode_line)
    with Nil.prems(2,3) Cons show ?thesis by auto
  qed simp
  with Nil.prems frames_nonempty show ?case by auto
next
  case (Cons chunk chunks)
  have "concat lines = (b @ chunk) @ concat chunks" using Cons.prems(2) by simp
  from frames_prefix [OF Cons.prems(1) this] obtain ls1 ls2 b' where s: "lines = ls1 @ ls2" "b @ chunk = concat ls1 @ b'"
    "concat ls2 = b' @ concat chunks" "newline \<notin> set b'" "length b' < MAX_BRIDGE_LINE_BYTES" by blast
  then obtain ms ns where f: "emap (decodeBridgeLine num engine) ls1 = Inr ms" "emap (decodeBridgeLine num engine) ls2 = Inr ns" "fs = ms @ ns"
    using Cons.prems(1) by (auto simp: emap_append_Inr)
  have l: "length (b @ chunk) \<le> length (concat lines)" "length (concat ls2) \<le> length (concat lines)"
    using Cons.prems(2) s(1) by (metis append_assoc concat.simps(2) length_append le_add1) (simp add: s(1))
  have k: "length chunk + length b \<le> MAX_BRIDGE_BUFFER_BYTES" using l(1) Cons.prems(4) by simp
  have "push num engine chunk b = (Inr ms, b')"
    unfolding push_Inr using s(2,4,5) f(1) k by blast
  moreover have "pushAll num engine chunks b' = (Inr ns, [])"
    by (rule Cons.IH [OF f(2)]) (use s l Cons.prems(4) in auto)
  ultimately show ?case using f by simp
qed

lemma pushAll_Inr:
  "pushAll num engine chunks b = (Inr fs, b') \<Longrightarrow>
   \<exists>lines. emap (decodeBridgeLine num engine) lines = Inr fs \<and> b @ concat chunks = concat lines @ b'"
proof (induction chunks arbitrary: b fs)
  case Nil
  then show ?case by (intro exI [of _ "[]"]) auto
next
  case (Cons chunk chunks)
  then obtain ms c ns where p: "push num engine chunk b = (Inr ms, c)" "pushAll num engine chunks c = (Inr ns, b')" "fs = ms @ ns"
    by (auto split: prod.splits sum.splits)
  from Cons.IH [OF p(2)] obtain ls2 where l: "emap (decodeBridgeLine num engine) ls2 = Inr ns" "c @ concat chunks = concat ls2 @ b'" by blast
  from p(1) obtain ls1 where "emap (decodeBridgeLine num engine) ls1 = Inr ms" "b @ chunk = concat ls1 @ c"
    unfolding push_Inr by blast
  moreover from this(2) l(2) have "b @ chunk @ concat chunks = concat ls1 @ concat ls2 @ b'" by (metis append_assoc)
  ultimately show ?case using l(1) p(3) by (intro exI [of _ "ls1 @ ls2"]) (auto simp: emap_append_Inr)
qed

section \<open>Batches and chunks agree\<close>

theorem batch_frames:
  "decodeBridgeBatch num engine input = Inr fs \<longleftrightarrow>
   input \<noteq> [] \<and> length input \<le> MAX_BRIDGE_BUFFER_BYTES \<and> length fs \<le> 32 \<and>
   (\<exists>lines. emap (decodeBridgeLine num engine) lines = Inr fs \<and> input = concat lines)"
  (is "?l \<longleftrightarrow> ?r")
proof
  assume l: ?l
  then have "input \<noteq> []" "length input \<le> MAX_BRIDGE_BUFFER_BYTES" "batchLoop num engine [] input = Inr fs"
    by (auto simp: decodeBridgeBatch_def split: if_splits)
  with batchLoop_Inr [OF this(3)] show ?r by auto
next
  assume ?r
  then obtain lines where r: "input \<noteq> []" "length input \<le> MAX_BRIDGE_BUFFER_BYTES" "length fs \<le> 32"
    "emap (decodeBridgeLine num engine) lines = Inr fs" "input = concat lines" by blast
  have "lines \<noteq> []" using r by auto
  then obtain ls l where ls: "lines = ls @ [l]" by (metis rev_exhaust)
  then obtain m where "decodeBridgeLine num engine l = Inr m"
    using r(4) by (auto simp: emap_append_Inr emap_Cons_Inr simp del: emap.simps(2))
  then have "last input = newline" using r(5) ls by (auto elim: decode_line)
  with r batchLoop_frames [OF r(4), of "[]"] show ?l by (simp add: decodeBridgeBatch_def)
qed

lemma decodes_encode:
  "emap (decodeBridgeLine num engine) lines = Inr fs \<Longrightarrow> emap (encodeBridgeLine engine) fs = Inr lines"
  by (induction lines arbitrary: fs) (auto simp: emap_Cons_Inr decode_then_encode simp del: emap.simps(2))

end
