(* ===== verification/Bridge_Auth.thy ===== *)
theory Bridge_Auth
  imports Bridge_Stream
begin

text \<open>
  \<open>packages/agent-bridge/src/auth.ts\<close>: directional session keys, payload digests and the message
  authentication code of an envelope.  SHA-256, HMAC-SHA-256 and HKDF of \<open>node:crypto\<close> are the fields of
  an argument of type \<open>crypto\<close>; hexadecimal and base64url texts are modelled.
\<close>

section \<open>Hexadecimal and base64url\<close>

definition hexText :: "bytes \<Rightarrow> string" where
  "hexText bs = concat (map (\<lambda>b. [hex_digit (code_unit b div 16), hex_digit (code_unit b mod 16)]) bs)"

text \<open>\<open>A-Z\<close>, \<open>a-z\<close>, \<open>0-9\<close>, \<open>-\<close>, \<open>_\<close>\<close>

definition sextetChar :: "nat \<Rightarrow> char" where
  "sextetChar n = char_of (if n < 26 then 65 + n else if n < 52 then 71 + n else if n < 62 then n - 4
     else if n = 62 then 45 else 95)"

definition sextet :: "char \<Rightarrow> nat option" where
  "sextet c = (let k = code_unit c in
     if 65 \<le> k \<and> k \<le> 90 then Some (k - 65)
     else if 97 \<le> k \<and> k \<le> 122 then Some (k - 71)
     else if 48 \<le> k \<and> k \<le> 57 then Some (k + 4)
     else if k = 45 then Some 62 else if k = 95 then Some 63 else None)"

text \<open>\<open>digest('base64url')\<close>: three bytes are four characters, without padding.\<close>

fun sextets :: "bytes \<Rightarrow> nat list" where
  "sextets [] = []"
| "sextets [a] = [code_unit a div 4, code_unit a mod 4 * 16]"
| "sextets [a, b] = [code_unit a div 4, code_unit a mod 4 * 16 + code_unit b div 16, code_unit b mod 16 * 4]"
| "sextets (a # b # c # r) = [code_unit a div 4, code_unit a mod 4 * 16 + code_unit b div 16,
     code_unit b mod 16 * 4 + code_unit c div 64, code_unit c mod 64] @ sextets r"

definition base64url :: "bytes \<Rightarrow> string" where
  "base64url bs = map sextetChar (sextets bs)"

text \<open>
  \<open>Buffer.from(text, 'base64url')\<close>: characters outside the alphabet are skipped, the bits that do not fill
  a byte are dropped.
\<close>

fun unsextets :: "nat list \<Rightarrow> bytes" where
  "unsextets (w # x # y # z # r) =
     [char_of (w * 4 + x div 16), char_of (x mod 16 * 16 + y div 4), char_of (y mod 4 * 64 + z)] @ unsextets r"
| "unsextets [w, x, y] = [char_of (w * 4 + x div 16), char_of (x mod 16 * 16 + y div 4)]"
| "unsextets [w, x] = [char_of (w * 4 + x div 16)]"
| "unsextets _ = []"

definition base64urlDecode :: "string \<Rightarrow> bytes" where
  "base64urlDecode s = unsextets (List.map_filter sextet s)"

lemma sextet_char: "n < 64 \<Longrightarrow> sextet (sextetChar n) = Some n"
  by (auto simp: sextet_def sextetChar_def Let_def)

lemma code_unit_parts: "code_unit a div 4 < 64" "code_unit a div 16 < 16" "code_unit a div 64 < 4" "code_unit a mod 4 \<le> 3" "code_unit a mod 16 \<le> 15"
  using code_unit_less [of a] by linarith+

text \<open>Joining the low bits of a byte with the high bits of the next.\<close>

lemma join_bits:
  fixes x y :: nat
  shows "x \<le> 3 \<Longrightarrow> y < 16 \<Longrightarrow> x * 16 + y < 64" "x \<le> 15 \<Longrightarrow> y < 4 \<Longrightarrow> x * 4 + y < 64"
    "y < 16 \<Longrightarrow> (x * 16 + y) div 16 = x" "y < 16 \<Longrightarrow> (x * 16 + y) mod 16 = y"
    "y < 4 \<Longrightarrow> (x * 4 + y) div 4 = x" "y < 4 \<Longrightarrow> (x * 4 + y) mod 4 = y"
  by simp_all

lemma sextets_bound: "n \<in> set (sextets bs) \<Longrightarrow> n < 64"
proof (induction bs rule: sextets.induct)
  case (2 a)
  then show ?case using join_bits(1) [OF code_unit_parts(4) [of a], of 0] code_unit_parts(1) [of a] by auto
next
  case (3 a b)
  then have "n = code_unit a div 4 \<or> n = code_unit a mod 4 * 16 + code_unit b div 16 \<or> n = code_unit b mod 16 * 4 + 0" by simp
  then show ?case
    using code_unit_parts(1) [of a] join_bits(1) [OF code_unit_parts(4) [of a] code_unit_parts(2) [of b]]
      join_bits(2) [OF code_unit_parts(5) [of b], of 0] by auto
next
  case (4 a b c r)
  then have "n \<in> set (sextets r) \<or> n = code_unit a div 4 \<or> n = code_unit a mod 4 * 16 + code_unit b div 16 \<or>
      n = code_unit b mod 16 * 4 + code_unit c div 64 \<or> n = code_unit c mod 64" by auto
  then show ?case
    using 4(1) code_unit_parts(1) [of a] join_bits(1) [OF code_unit_parts(4) [of a] code_unit_parts(2) [of b]]
      join_bits(2) [OF code_unit_parts(5) [of b] code_unit_parts(3) [of c]] mod_less_divisor [of 64 "code_unit c"] by auto
qed simp

lemma unsextets_sextets: "unsextets (sextets bs) = bs"
  by (induction bs rule: sextets.induct) (simp_all add: join_bits code_unit_parts)

lemma map_filter_sextets: "(\<And>n. n \<in> set ns \<Longrightarrow> n < 64) \<Longrightarrow> List.map_filter sextet (map sextetChar ns) = ns"
  by (induction ns) (auto simp: sextet_char List.map_filter_simps)

theorem base64url_roundtrip: "base64urlDecode (base64url bs) = bs"
  using map_filter_sextets [OF sextets_bound] by (simp add: base64urlDecode_def base64url_def unsextets_sextets)

lemma hexText_inj [simp]: "hexText bs = hexText cs \<longleftrightarrow> bs = cs"
proof
  have pair: "a = b" if "hex_digit (code_unit a div 16) = hex_digit (code_unit b div 16)"
    "hex_digit (code_unit a mod 16) = hex_digit (code_unit b mod 16)" for a b
  proof -
    have "code_unit a div 16 = code_unit b div 16" "code_unit a mod 16 = code_unit b mod 16"
      using that code_unit_parts by (auto simp: hex_digit_inj)
    then show "a = b" by (metis code_unit_inject div_mult_mod_eq)
  qed
  show "hexText bs = hexText cs \<Longrightarrow> bs = cs"
  proof (induction bs arbitrary: cs)
    case Nil
    then show ?case by (cases cs) (auto simp: hexText_def)
  next
    case (Cons b bs)
    then show ?case by (cases cs) (auto simp: hexText_def intro: pair)
  qed
qed simp

section \<open>Keys\<close>

record crypto =
  sha256 :: "bytes \<Rightarrow> bytes"
  hmac :: "bytes \<Rightarrow> bytes \<Rightarrow> bytes"
  hkdf :: "bytes \<Rightarrow> bytes \<Rightarrow> bytes \<Rightarrow> nat \<Rightarrow> bytes"

record BridgeScope =
  bc_workspaceId :: string
  bc_runtimeId :: string
  bc_connectionId :: string
  bc_sessionId :: string
  bc_principalReference :: string

record BridgeKeyContext = BridgeScope +
  bc_parentNonce :: string
  bc_runtimeNonce :: string

record BridgeDirectionalKeys =
  parentToRuntime :: bytes
  runtimeToParent :: bytes

definition keyContextJson :: "'a BridgeKeyContext_scheme \<Rightarrow> json" where
  "keyContextJson cx = JObj
    [(''workspaceId'', JStr (bc_workspaceId cx)), (''runtimeId'', JStr (bc_runtimeId cx)),
     (''connectionId'', JStr (bc_connectionId cx)), (''sessionId'', JStr (bc_sessionId cx)),
     (''principalReference'', JStr (bc_principalReference cx)), (''parentNonce'', JStr (bc_parentNonce cx)),
     (''runtimeNonce'', JStr (bc_runtimeNonce cx))]"

definition assertBridgeSecretStrength :: "bytes \<Rightarrow> bridge_error + unit" where
  "assertBridgeSecretStrength secret = bridgeDemand (32 \<le> length secret) ''Bridge secret must contain at least 256 bits''"

definition deriveKey :: "crypto \<Rightarrow> bytes \<Rightarrow> bytes \<Rightarrow> string \<Rightarrow> bytes" where
  "deriveKey cr secret salt direction = hkdf cr secret salt (utf8Encode (''ventureos.bridge.v1:'' @ direction)) 32"

definition deriveBridgeKeys :: "crypto \<Rightarrow> bytes \<Rightarrow> 'a BridgeKeyContext_scheme \<Rightarrow> bridge_error + BridgeDirectionalKeys" where
  "deriveBridgeKeys cr secret cx =
     ebind (assertBridgeSecretStrength secret) (\<lambda>_.
     ebind (canonicalJson (keyContextJson cx)) (\<lambda>t.
     (let salt = sha256 cr (utf8Encode t)
      in Inr \<lparr>parentToRuntime = deriveKey cr secret salt ''parent-to-runtime'',
              runtimeToParent = deriveKey cr secret salt ''runtime-to-parent''\<rparr>)))"

section \<open>Digests and authenticators\<close>

definition digestBridgePayload :: "crypto \<Rightarrow> json \<Rightarrow> bridge_error + string" where
  "digestBridgePayload cr payload = ebind (canonicalJson payload) (\<lambda>t. Inr (hexText (sha256 cr (utf8Encode t))))"

definition unsignedEnvelope :: "json \<Rightarrow> json" where
  "unsignedEnvelope envelope = JObj (filter (\<lambda>kv. fst kv \<noteq> ''mac'') (members envelope))"

definition signBridgeEnvelope :: "crypto \<Rightarrow> (string \<Rightarrow> int option) \<Rightarrow> json \<Rightarrow> bytes \<Rightarrow> bridge_error + json" where
  "signBridgeEnvelope cr engine envelope k =
     ebind (digestBridgePayload cr (getProp envelope ''payload'')) (\<lambda>digest.
     ebind (bridgeDemand (JStr digest = getProp envelope ''payloadDigest'') ''Payload digest does not match payload'') (\<lambda>_.
     ebind (canonicalJson envelope) (\<lambda>t.
     (let mac = base64url (hmac cr k (utf8Encode t)); signed = JObj (mset_at (members envelope) ''mac'' (JStr mac))
      in ebind (validateBridgeEnvelope engine signed) (\<lambda>_. Inr signed)))))"

definition scopeFields :: "'a BridgeScope_scheme \<Rightarrow> (string \<times> string) list" where
  "scopeFields cx = [(''workspaceId'', bc_workspaceId cx), (''runtimeId'', bc_runtimeId cx), (''connectionId'', bc_connectionId cx),
     (''sessionId'', bc_sessionId cx), (''principalReference'', bc_principalReference cx)]"

definition verifyBridgeEnvelope ::
    "crypto \<Rightarrow> (string \<Rightarrow> int option) \<Rightarrow> json \<Rightarrow> bytes \<Rightarrow> 'a BridgeScope_scheme \<Rightarrow> int \<Rightarrow> bridge_error + unit" where
  "verifyBridgeEnvelope cr engine envelope k expected now =
     ebind (checks ([validateBridgeEnvelope engine envelope] @
       map (\<lambda>(fld, v). bridgeDemand (getProp envelope fld = JStr v) (''Envelope '' @ fld @ '' mismatch'')) (scopeFields expected) @
       [bridgeDemand (\<not> now + 30000 < timeOf engine envelope ''issuedAt'') ''Envelope is issued too far in the future'',
        bridgeDemand (\<not> timeOf engine envelope ''expiresAt'' \<le> now) ''Envelope expired''])) (\<lambda>_.
     ebind (digestBridgePayload cr (getProp envelope ''payload'')) (\<lambda>digest.
     ebind (bridgeDemand (JStr digest = getProp envelope ''payloadDigest'') ''Payload digest mismatch'') (\<lambda>_.
     ebind (canonicalJson (unsignedEnvelope envelope)) (\<lambda>t.
     (let expectedMac = hmac cr k (utf8Encode t); actualMac = base64urlDecode (textOf (getProp envelope ''mac''))
      in bridgeDemand (actualMac = expectedMac) ''Envelope authentication failed'')))))"

definition digestSecretReference :: "crypto \<Rightarrow> bytes \<Rightarrow> string" where
  "digestSecretReference cr secret = hexText (sha256 cr secret)"

end
