(* ===== verification/Bridge_Auth_Properties.thy ===== *)
theory Bridge_Auth_Properties
  imports Bridge_Auth
begin

text \<open>
  What the authenticators guarantee: a signed envelope that is sent is accepted by the other side, and an
  accepted authenticator belongs to one message, up to a collision of the keyed hash.
\<close>

lemma verify_iff:
  "verifyBridgeEnvelope cr engine e k expected now = Inr () \<longleftrightarrow>
   validateBridgeEnvelope engine e = Inr () \<and> (\<forall>(fld, v) \<in> set (scopeFields expected). getProp e fld = JStr v) \<and>
   timeOf engine e ''issuedAt'' \<le> now + 30000 \<and> now < timeOf engine e ''expiresAt'' \<and>
   bridgeable (getProp e ''payload'') \<and>
   getProp e ''payloadDigest'' = JStr (hexText (sha256 cr (utf8Encode (json_text (normalizeJson (getProp e ''payload'')))))) \<and>
   bridgeable (unsignedEnvelope e) \<and>
   base64urlDecode (textOf (getProp e ''mac'')) = hmac cr k (utf8Encode (json_text (normalizeJson (unsignedEnvelope e))))"
  by (auto simp: verifyBridgeEnvelope_def outcome_simps ebind_Inr canonicalJson_iff digestBridgePayload_def Let_def case_prod_unfold)

section \<open>Envelopes\<close>

lemma ENVELOPE_KEYS_distinct: "distinct ENVELOPE_KEYS"
  by (simp add: ENVELOPE_KEYS_def)

lemma validate_keys:
  assumes "validateBridgeEnvelope engine e = Inr ()"
  shows "e = JObj (members e)" "distinct (map fst (members e))" "fst ` set (members e) = set ENVELOPE_KEYS"
proof -
  have r: "isRecord e" and k: "sort (map fst (members e)) = ENVELOPE_KEYS"
    using assms by (auto simp: validateBridgeEnvelope_def outcome_simps simp flip: sort_text)
  show "e = JObj (members e)" using r by (cases e) auto
  show "distinct (map fst (members e))" using k ENVELOPE_KEYS_distinct by (metis distinct_sort)
  show "fst ` set (members e) = set ENVELOPE_KEYS" using k by (metis set_sort set_map)
qed

lemma getProp_member: "distinct (map fst (members e)) \<Longrightarrow> (k, v) \<in> set (members e) \<Longrightarrow> getProp e k = v"
  by (simp add: getProp_def map_of_is_SomeI)

lemma getProp_mset_at: "getProp (JObj (mset_at kvs k v)) fld = (if fld = k then v else getProp (JObj kvs) fld)"
  by (simp add: getProp_def)

lemma mset_at_filter: "map_of kvs k = None \<Longrightarrow> filter (\<lambda>kv. fst kv \<noteq> k) (mset_at kvs k v) = kvs"
proof -
  assume n: "map_of kvs k = None"
  then have "filter (\<lambda>kv. fst kv \<noteq> k) kvs = kvs" by (auto simp: filter_id_conv map_of_eq_None_iff)
  moreover have "mset_at kvs k v = kvs @ [(k, v)]" using n by (intro mset_at_fresh) (simp add: mhas_def)
  ultimately show ?thesis by simp
qed

lemma unsigned_normalize:
  assumes "distinct (map fst (members e))"
  shows "normalizeJson (unsignedEnvelope (normalizeJson e)) = normalizeJson (unsignedEnvelope e)"
proof (cases e)
  case (JObj kvs)
  let ?P = "\<lambda>kv. fst kv \<noteq> ''mac''" and ?n = "\<lambda>kv. (fst kv, normalizeJson (snd kv))" and ?c = "\<lambda>l r. compareText (fst l) (fst r)"
  have d: "distinct (map fst kvs)" using assms JObj by simp
  have "sortedEntries (filter ?P kvs) = sortedEntries (filter ?P (sortedEntries kvs))"
    unfolding sortedEntries_def
  proof (rule sortWith_permute [OF comparator_compareText])
    show "mset (filter ?P kvs) = mset (filter ?P (sortWith ?c kvs))" by (simp add: mset_filter)
    show "x = y" if "x \<in> set (filter ?P kvs)" "y \<in> set (filter ?P kvs)" "compareText (fst x) (fst y) = 0" for x y
    proof -
      have "x \<in> set kvs" "y \<in> set kvs" "fst x = fst y" using that by auto
      with d show ?thesis by (metis eq_key_imp_eq_value prod.collapse)
    qed
  qed
  also have "\<dots> = filter ?P (sortedEntries kvs)"
    using sorted_wrt_filter [OF sorted_sortWith [OF comparator_compareText, of fst kvs], of ?P]
    by (simp add: sortedEntries_def sortWith_def sort_by_id)
  finally have s: "sortedEntries (filter ?P kvs) = filter ?P (sortedEntries kvs)" .
  have f: "filter ?P (map ?n xs) = map ?n (filter ?P xs)" for xs by (simp add: filter_map comp_def)
  show ?thesis
    unfolding JObj normalizeJson_JObj unsignedEnvelope_def members.simps f
    by (simp add: sortedEntries_map s normalizeJson_JObj) (simp flip: s)
qed (simp_all add: unsignedEnvelope_def)

lemma bridgeable_unsigned: "bridgeable (JObj kvs) \<Longrightarrow> bridgeable (unsignedEnvelope (JObj kvs))"
  by (auto simp: unsignedEnvelope_def intro: le_trans [OF length_filter_le])

text \<open>Verification looks at the canonical form only.\<close>

lemma verify_normalize:
  assumes "verifyBridgeEnvelope cr engine e k expected now = Inr ()" "distinctKeys e"
  shows "verifyBridgeEnvelope cr engine (normalizeJson e) k expected now = Inr ()"
proof -
  have v: "validateBridgeEnvelope engine e = Inr ()" using assms(1) by (simp add: verify_iff)
  have "bridgeable (unsignedEnvelope (normalizeJson e))"
  proof -
    obtain kvs where e: "e = JObj kvs" using validate_keys(1) [OF v] by metis
    have "bridgeable (unsignedEnvelope e)" using assms(1) by (simp add: verify_iff)
    moreover have "mset (filter P (sortedEntries kvs)) = mset (filter P kvs)" for P
      by (simp add: sortedEntries_def mset_filter)
    then have "length (filter P (sortedEntries kvs)) = length (filter P kvs)" for P by (metis size_mset)
    ultimately show ?thesis
      using bridgeable_normalize unfolding e unsignedEnvelope_def normalizeJson_JObj
      by (auto simp: filter_map comp_def)
  qed
  then show ?thesis
    using assms validate_normalize [OF v assms(2)] bridgeable_normalize unsigned_normalize [OF validate_keys(2) [OF v]]
    by (auto simp: verify_iff getProp_normalize timeOf_def)
qed

section \<open>Signing\<close>

lemma sign_Inr:
  "signBridgeEnvelope cr engine e k = Inr s \<longleftrightarrow>
   validateBridgeEnvelope engine s = Inr () \<and> bridgeable (getProp e ''payload'') \<and> bridgeable e \<and>
   getProp e ''payloadDigest'' = JStr (hexText (sha256 cr (utf8Encode (json_text (normalizeJson (getProp e ''payload'')))))) \<and>
   s = JObj (mset_at (members e) ''mac'' (JStr (base64url (hmac cr k (utf8Encode (json_text (normalizeJson e)))))))"
  unfolding signBridgeEnvelope_def ebind_Inr digestBridgePayload_def canonicalJson_iff Let_def bridgeDemand_Inr
  by (auto simp: canonicalJson_iff ebind_Inr)

lemma sign_verify:
  assumes "signBridgeEnvelope cr engine e k = Inr s" "map_of (members e) ''mac'' = None"
    and "\<forall>(fld, v) \<in> set (scopeFields expected). getProp e fld = JStr v"
    and "timeOf engine e ''issuedAt'' \<le> now + 30000" "now < timeOf engine e ''expiresAt''"
  shows "verifyBridgeEnvelope cr engine s k expected now = Inr ()"
proof -
  define t where "t = base64url (hmac cr k (utf8Encode (json_text (normalizeJson e))))"
  have s: "validateBridgeEnvelope engine s = Inr ()" "bridgeable (getProp e ''payload'')" "bridgeable e"
    "getProp e ''payloadDigest'' = JStr (hexText (sha256 cr (utf8Encode (json_text (normalizeJson (getProp e ''payload''))))))"
    "base64urlDecode t = hmac cr k (utf8Encode (json_text (normalizeJson e)))" "s = JObj (mset_at (members e) ''mac'' (JStr t))"
    using assms(1) unfolding sign_Inr t_def by (blast | simp add: base64url_roundtrip)+
  have "''payload'' \<in> fst ` set (members s)" using validate_keys(3) [OF s(1)] by (simp add: ENVELOPE_KEYS_def)
  then have "members e \<noteq> []" using s(6) assms(2) by (auto simp: mset_at_def)
  then have e: "JObj (members e) = e" by (cases e) auto
  then have p: "getProp s fld = (if fld = ''mac'' then JStr t else getProp e fld)" for fld
    using getProp_mset_at [of "members e"] by (simp add: s(6))
  have "unsignedEnvelope s = e" using mset_at_filter [OF assms(2)] e by (simp add: unsignedEnvelope_def s(6))
  then show ?thesis
    using s(1-5) assms(3-5) unfolding verify_iff by (simp add: p timeOf_def scopeFields_def)
qed

lemma sign_distinctKeys:
  assumes "signBridgeEnvelope cr engine e k = Inr s" "distinctKeys e"
  shows "distinctKeys s"
proof -
  from assms(1) obtain t where s: "s = JObj (mset_at (members e) ''mac'' (JStr t))" unfolding sign_Inr by blast
  have d: "distinctKeys (JObj (members e))" using assms(2) by (cases e) auto
  show ?thesis unfolding s by (rule distinctKeys_update [OF d]) simp
qed

section \<open>What a signature says\<close>

lemma distinctKeys_unsigned: "distinctKeys w \<Longrightarrow> distinctKeys (unsignedEnvelope w)"
  by (cases w) (auto simp: unsignedEnvelope_def distinct_map_filter)

lemma getProp_unsigned: "fld \<noteq> ''mac'' \<Longrightarrow> getProp (unsignedEnvelope w) fld = getProp w fld"
proof -
  assume "fld \<noteq> ''mac''"
  then have "map_of (filter (\<lambda>kv. fst kv \<noteq> ''mac'') kvs) fld = map_of kvs fld" for kvs :: json_record
    by (induction kvs) auto
  then show ?thesis by (simp add: getProp_def unsignedEnvelope_def)
qed

lemma object_props: "distinct (map fst kvs) \<Longrightarrow> kvs = map (\<lambda>k. (k, getProp (JObj kvs) k)) (map fst kvs)"
proof (rule nth_equalityI)
  assume d: "distinct (map fst kvs)"
  fix i assume i: "i < length kvs"
  have "getProp (JObj kvs) (fst (kvs ! i)) = snd (kvs ! i)"
    by (rule getProp_member) (use d i nth_mem [OF i] in simp_all)
  with i show "kvs ! i = map (\<lambda>k. (k, getProp (JObj kvs) k)) (map fst kvs) ! i" by (simp add: prod_eq_iff)
qed simp

text \<open>A canonical envelope is determined by its properties.\<close>

lemma envelope_props:
  assumes "validateBridgeEnvelope engine e = Inr ()" "distinctKeys e"
  shows "normalizeJson e = JObj (map (\<lambda>k. (k, getProp (normalizeJson e) k)) ENVELOPE_KEYS)"
proof -
  obtain kvs where e: "e = JObj kvs" using validate_keys(1) [OF assms(1)] by metis
  obtain nvs where n: "normalizeJson e = JObj nvs" "map fst nvs = map fst (sortedEntries kvs)"
    unfolding e normalizeJson_JObj by (simp add: comp_def)
  have "sorted (map fst (sortedEntries kvs))"
    using sorted_sortWith [OF comparator_compareText, of fst kvs] by (simp add: sortedEntries_def sorted_map)
  moreover have "sort (map fst nvs) = ENVELOPE_KEYS"
    using validate_normalize [OF assms] n by (auto simp: validateBridgeEnvelope_def outcome_simps simp flip: sort_text)
  ultimately have "map fst nvs = ENVELOPE_KEYS" using n(2) by (simp add: sorted_sort_id)
  moreover have "nvs = map (\<lambda>k. (k, getProp (JObj nvs) k)) (map fst nvs)"
    by (rule object_props) (use calculation ENVELOPE_KEYS_distinct in simp)
  ultimately show ?thesis unfolding n(1) by simp
qed

text \<open>
  Two envelopes with one authenticator that are both accepted under a key are the same message, or the keyed
  hash collides on the texts that were signed.
\<close>

definition signedText :: "json \<Rightarrow> bytes" where
  "signedText e = utf8Encode (json_text (normalizeJson (unsignedEnvelope e)))"

lemma verified_same_mac:
  assumes "verifyBridgeEnvelope cr engine e k expected now = Inr ()" "verifyBridgeEnvelope cr engine e' k expected' now' = Inr ()"
    and "distinctKeys e" "distinctKeys e'" "getProp e ''mac'' = getProp e' ''mac''"
    and "hmac cr k (signedText e) = hmac cr k (signedText e') \<longrightarrow> signedText e = signedText e'"
  shows "normalizeJson e = normalizeJson e'"
proof -
  let ?u = unsignedEnvelope
  have v: "validateBridgeEnvelope engine e = Inr ()" "validateBridgeEnvelope engine e' = Inr ()"
    using assms(1,2) by (simp_all add: verify_iff)
  have x: "jsonExact (normalizeJson (?u w))" if "bridgeable (?u w)" "distinctKeys w" for w
    using that distinctKeys_unsigned bridgeable_exact bridgeable_normalize distinctKeys_normalize by blast
  have b: "bridgeable (?u e)" "bridgeable (?u e')" using assms(1,2) unfolding verify_iff by blast+
  have "hmac cr k (signedText e) = hmac cr k (signedText e')"
    using assms(1,2,5) unfolding verify_iff signedText_def by metis
  then have "json_text (normalizeJson (?u e)) = json_text (normalizeJson (?u e'))"
    using assms(6) utf8_roundtrip unfolding signedText_def by (metis option.inject)
  then have u: "normalizeJson (?u e) = normalizeJson (?u e')"
    using x b assms(3,4) json_text_inj jsonExact_clean by blast
  have "normalizeJson (getProp e fld) = normalizeJson (getProp e' fld)" for fld
  proof (cases "fld = ''mac''")
    case False
    have "normalizeJson (getProp (?u w) fld) = getProp (normalizeJson (?u w)) fld" if "distinctKeys w" for w
      by (rule getProp_normalize [symmetric]) (use that distinctKeys_unsigned in blast)
    with False u assms(3,4) show ?thesis using getProp_unsigned by metis
  qed (simp add: assms(5))
  then have "getProp (normalizeJson e) = getProp (normalizeJson e')" using assms(3,4) by (auto simp: getProp_normalize)
  then show ?thesis using envelope_props [OF v(1) assms(3)] envelope_props [OF v(2) assms(4)] by simp
qed

end
