(* ===== verification/Bridge_Session.thy ===== *)
theory Bridge_Session
  imports Bridge_Auth_Properties
begin

text \<open>
  \<open>packages/agent-bridge/src/secret-lease.ts\<close> and \<open>authenticated-jsonl-session.ts\<close>: the lease of a
  session secret to a consumer, and the session that takes a stream of bytes from a runtime and delivers the
  authenticated frames in it.  \<open>ingest\<close> awaits the lease, so it is split where the code yields: what runs when
  it is called (\<open>ingestBegin\<close>), what runs when the resolver has answered (\<open>ingestLease\<close>), what runs after the
  lease (\<open>ingestCommit\<close>) and the \<open>catch\<close> and \<open>finally\<close> clauses (\<open>ingestConclude\<close>).
\<close>

section \<open>\<open>secret-lease.ts\<close>\<close>

definition MIN_BRIDGE_SECRET_BYTES :: nat where "MIN_BRIDGE_SECRET_BYTES = 32"
definition MAX_BRIDGE_SECRET_BYTES :: nat where "MAX_BRIDGE_SECRET_BYTES = 4096"

definition LEASE_PRIVATE_TEXT :: regex where
  "LEASE_PRIVATE_TEXT = (let sep = opt (one_of ''-_. '') in alts
    [seqs [LitI ''chain'', sep, LitI ''of'', sep, LitI ''thought''],
     seqs [LitI ''private'', sep, LitI ''reasoning''],
     LitI ''password'', LitI ''credential'', seqs [LitI ''api'', sep, LitI ''key''], LitI ''transcript'', LitI ''prompt''])"

definition LEASE_SECRET_LIKE :: regex where
  "LEASE_SECRET_LIKE = (let tokenChar = cls_or isAlnum (one_of ''_-'') in alts
    [seqs [Lit ''-----BEGIN '', star (cls_or isUpper (one_of '' '')), Lit ''PRIVATE KEY-----''],
     seqs [WordBoundary, Lit ''Bearer'', Rep 1 None isWhiteSpace, Rep 12 None (cls_or isAlnum (one_of ''._~+/=-''))],
     seqs [WordBoundary,
           alts [Lit ''sk'', seqs [Lit ''gh'', Cls (one_of ''opusr'')], Lit ''github_pat'', Lit ''glpat'',
                 seqs [Lit ''xox'', Cls (one_of ''baprs'')], Lit ''AKIA''],
           opt (one_of ''_-''), Rep 12 None tokenChar],
     seqs [WordBoundary, Lit ''eyJ'', Rep 8 None tokenChar, Lit ''.'', Rep 8 None tokenChar, Lit ''.'', Rep 8 None tokenChar]])"

datatype BridgeSecretLeasePurpose = PROVISION | AUTHENTICATE | VERIFY_FRAME | SIGN_FRAME

record BridgeSecretLeaseRequest =
  lr_workspaceId :: string
  lr_runtimeId :: string
  lr_connectionId :: string
  lr_secretReference :: string
  lr_expectedDigest :: "string option"
  lr_authGeneration :: int
  lr_purpose :: BridgeSecretLeasePurpose

datatype BridgeSecretLeaseErrorCode = INVALID_REQUEST | SOURCE_UNAVAILABLE | INVALID_MATERIAL | DIGEST_MISMATCH | NOT_CONFIGURED

definition leaseReference :: "string \<Rightarrow> BridgeSecretLeaseErrorCode + unit" where
  "leaseReference v = ensure (\<not> (\<not> regex_test BRIDGE_REFERENCE v \<or> regex_test LEASE_PRIVATE_TEXT v \<or> regex_test LEASE_SECRET_LIKE v)) INVALID_REQUEST"

definition validateLeaseRequest :: "BridgeSecretLeaseRequest \<Rightarrow> BridgeSecretLeaseErrorCode + unit" where
  "validateLeaseRequest request = checks
    (map leaseReference [lr_workspaceId request, lr_runtimeId request, lr_connectionId request, lr_secretReference request] @
     [ensure (isSafeInteger (lr_authGeneration request) \<and> 1 \<le> lr_authGeneration request) INVALID_REQUEST,
      if lr_purpose request = PROVISION then ensure (lr_expectedDigest request = None) INVALID_REQUEST
      else ensure (case lr_expectedDigest request of None \<Rightarrow> False | Some d \<Rightarrow> regex_test SHA256 d) INVALID_REQUEST])"

text \<open>\<open>Buffer.from(text, 'hex')\<close>: pairs of digits, up to the first character that is none.\<close>

fun hexDecode :: "string \<Rightarrow> bytes" where
  "hexDecode (a # b # r) = (case (hexVal a, hexVal b) of
     (Some x, Some y) \<Rightarrow> char_of (16 * x + y) # hexDecode r | _ \<Rightarrow> [])"
| "hexDecode _ = []"

text \<open>What may be thrown: a lease error, an error of the session, or any other exception.\<close>

datatype AuthenticatedJsonlSessionErrorCode =
    INVALID_CONTEXT | INVALID_INGEST | SESSION_EXPIRED | SESSION_LIMIT | FRAME_INVALID | AUTHENTICATION_DENIED
  | SEQUENCE_MISMATCH | PROTOCOL_STATE | FORBIDDEN_MESSAGE | CONCURRENT_INGEST | TERMINAL

datatype thrown = LeaseError BridgeSecretLeaseErrorCode | SessionError AuthenticatedJsonlSessionErrorCode | OtherError

definition liftError :: "('e \<Rightarrow> 'f) \<Rightarrow> 'e + 'a \<Rightarrow> 'f + 'a" where
  "liftError f m = (case m of Inl e \<Rightarrow> Inl (f e) | Inr x \<Rightarrow> Inr x)"

text \<open>\<open>timingSafeEqual\<close> throws when the lengths differ.\<close>

definition exactDigestMatch :: "string \<Rightarrow> string \<Rightarrow> thrown + bool" where
  "exactDigestMatch actual expected =
     (let a = hexDecode actual; b = hexDecode expected
      in if length a \<noteq> length b then Inl OtherError else Inr (a = b))"

text \<open>The answer of the byte source: a rejection, something that is no byte array, or bytes.\<close>

datatype SourceAnswer = SourceFailed | SourceOther | SourceBytes bytes

text \<open>The outcome and the leased copy as it is left, if one was made.\<close>

definition withSecret :: "crypto \<Rightarrow> BridgeSecretLeaseRequest \<Rightarrow> SourceAnswer \<Rightarrow> (bytes \<Rightarrow> thrown + 'a) \<Rightarrow> (thrown + 'a) \<times> bytes option" where
  "withSecret cr request answer consumer =
     (case validateLeaseRequest request of
        Inl e \<Rightarrow> (Inl (LeaseError e), None)
      | Inr _ \<Rightarrow> (case answer of
          SourceFailed \<Rightarrow> (Inl (LeaseError SOURCE_UNAVAILABLE), None)
        | SourceOther \<Rightarrow> (Inl (LeaseError INVALID_MATERIAL), None)
        | SourceBytes resolved \<Rightarrow>
            if length resolved < MIN_BRIDGE_SECRET_BYTES \<or> MAX_BRIDGE_SECRET_BYTES < length resolved
            then (Inl (LeaseError INVALID_MATERIAL), None)
            else (let leased = resolved in
              (ebind (case lr_expectedDigest request of
                  None \<Rightarrow> Inr True | Some d \<Rightarrow> exactDigestMatch (digestSecretReference cr leased) d) (\<lambda>same.
               if same then consumer leased else Inl (LeaseError DIGEST_MISMATCH)),
               Some (replicate (length leased) (CHR 0x00))))))"

definition denyWithSecret :: "BridgeSecretLeaseRequest \<Rightarrow> (bytes \<Rightarrow> thrown + 'a) \<Rightarrow> thrown + 'a" where
  "denyWithSecret request consumer = Inl (LeaseError NOT_CONFIGURED)"

section \<open>\<open>authenticated-jsonl-session.ts\<close>: contexts\<close>

definition MAX_AUTHENTICATED_SESSION_FRAMES :: nat where "MAX_AUTHENTICATED_SESSION_FRAMES = 256"
definition MAX_AUTHENTICATED_INGEST_BYTES :: nat where "MAX_AUTHENTICATED_INGEST_BYTES = 131072"
definition MAX_AUTHENTICATED_BUFFER_BYTES :: nat where "MAX_AUTHENTICATED_BUFFER_BYTES = 131072"
definition MAX_AUTHENTICATED_BATCH_FRAMES :: nat where "MAX_AUTHENTICATED_BATCH_FRAMES = 32"
definition MAX_AUTHENTICATED_SESSION_BYTES :: nat where "MAX_AUTHENTICATED_SESSION_BYTES = 8 * 1024 * 1024"
definition MAX_SESSION_LIFETIME_MS :: int where "MAX_SESSION_LIFETIME_MS = 15 * 60000"
definition MAX_PAYLOAD_DEPTH :: nat where "MAX_PAYLOAD_DEPTH = 8"
definition MAX_PAYLOAD_NODES :: nat where "MAX_PAYLOAD_NODES = 1024"

text \<open>With the flag \<open>i\<close>: literals and classes match letters of either case.\<close>

definition SESSION_SENSITIVE :: regex where
  "SESSION_SENSITIVE = (let sep = opt (one_of ''-_. ''); tokenChar = cls_or isAlnum (one_of ''_-'') in alts
    [seqs [LitI ''chain'', sep, LitI ''of'', sep, LitI ''thought''],
     seqs [LitI ''private'', sep, LitI ''reasoning''],
     LitI ''password'', LitI ''credential'', seqs [LitI ''api'', sep, LitI ''key''],
     seqs [LitI ''access'', sep, LitI ''token''],
     seqs [LitI ''auth'', alts [Lit [], LitI ''orization''], sep, LitI ''token''],
     seqs [LitI ''session'', sep, LitI ''token''],
     LitI ''secret'', LitI ''transcript'', LitI ''prompt'',
     seqs [LitI ''-----BEGIN '', star (cls_or isUpper (cls_or isLower (one_of '' ''))), LitI ''PRIVATE KEY-----''],
     seqs [WordBoundary, LitI ''Bearer'', Rep 1 None isWhiteSpace],
     seqs [WordBoundary,
           alts [LitI ''sk'', seqs [LitI ''gh'', Cls (one_of ''opusrOPUSR'')], LitI ''github_pat'', LitI ''glpat'',
                 seqs [LitI ''xox'', Cls (one_of ''baprsBAPRS'')], LitI ''AKIA''],
           opt (one_of ''_-''), Rep 8 None tokenChar],
     seqs [WordBoundary, LitI ''eyJ'', Rep 8 None tokenChar, Lit ''.'', Rep 8 None tokenChar, Lit ''.'', Rep 8 None tokenChar]])"

text \<open>\<open>/[\p{Cc}\p{Cf}]/u\<close>; the soft hyphen is the only format character up to U+00FF.\<close>

definition hasControl :: "string \<Rightarrow> bool" where
  "hasControl s = (\<exists>c \<in> set s. isControl c \<or> c = CHR 0xAD)"

definition FORBIDDEN_PAYLOAD_KEYS :: "string list" where
  "FORBIDDEN_PAYLOAD_KEYS = [''constructor'', ''prototype'', ''__proto__'']"

definition POST_AUTH_TYPES :: "string list" where
  "POST_AUTH_TYPES = [''CAPABILITIES'', ''HEARTBEAT'', ''DISPATCH_ACCEPTED'', ''PROGRESS'', ''ARTIFACT'', ''USAGE'', ''CANCELLED'', ''RESULT'', ''FAILED'']"

record AuthenticatedJsonlSessionContext = BridgeKeyContext +
  bx_secretReference :: string
  bx_expectedSecretDigest :: string
  bx_authGeneration :: int
  bx_authenticatedAt :: string
  bx_expiresAt :: string

definition CONTEXT_KEYS :: "string list" where
  "CONTEXT_KEYS = [''authGeneration'', ''authenticatedAt'', ''connectionId'', ''expectedSecretDigest'', ''expiresAt'', ''parentNonce'',
     ''principalReference'', ''runtimeId'', ''runtimeNonce'', ''schemaVersion'', ''secretReference'', ''sessionId'', ''workspaceId'']"

definition isContextReference :: "json \<Rightarrow> bool" where
  "isContextReference v = (case v of
     JStr s \<Rightarrow> regex_test BRIDGE_REFERENCE s \<and> \<not> regex_test SESSION_SENSITIVE s \<and> \<not> hasControl s | _ \<Rightarrow> False)"

definition CONTEXT_REFERENCES :: "string list" where
  "CONTEXT_REFERENCES = [''workspaceId'', ''runtimeId'', ''connectionId'', ''sessionId'', ''principalReference'', ''parentNonce'',
     ''runtimeNonce'', ''secretReference'']"

definition contextTime :: "(string \<Rightarrow> int option) \<Rightarrow> string \<Rightarrow> int" where
  "contextTime engine s = (case dateParse engine s of None \<Rightarrow> 0 | Some t \<Rightarrow> t)"

definition integerOf :: "json \<Rightarrow> int" where
  "integerOf v = (case v of JNum (SafeInt i) \<Rightarrow> i | _ \<Rightarrow> 0)"

definition contextOf :: "json \<Rightarrow> AuthenticatedJsonlSessionContext" where
  "contextOf record = (let t = \<lambda>fld. textOf (getProp record fld) in
     \<lparr>bc_workspaceId = t ''workspaceId'', bc_runtimeId = t ''runtimeId'', bc_connectionId = t ''connectionId'',
      bc_sessionId = t ''sessionId'', bc_principalReference = t ''principalReference'', bc_parentNonce = t ''parentNonce'',
      bc_runtimeNonce = t ''runtimeNonce'', bx_secretReference = t ''secretReference'',
      bx_expectedSecretDigest = t ''expectedSecretDigest'', bx_authGeneration = integerOf (getProp record ''authGeneration''),
      bx_authenticatedAt = t ''authenticatedAt'', bx_expiresAt = t ''expiresAt''\<rparr>)"

text \<open>Every refusal of \<open>exactObject\<close>, \<open>reference\<close>, \<open>timestamp\<close> and \<open>validateContext\<close> is \<open>INVALID_CONTEXT\<close>.\<close>

definition validateContext :: "(string \<Rightarrow> int option) \<Rightarrow> int \<Rightarrow> json \<Rightarrow> AuthenticatedJsonlSessionErrorCode + AuthenticatedJsonlSessionContext" where
  "validateContext engine now input =
     (let context = contextOf input; authenticatedAt = contextTime engine (bx_authenticatedAt context);
          expiresAt = contextTime engine (bx_expiresAt context)
      in ebind (checks
       ([ensure (isRecord input) INVALID_CONTEXT,
         ensure (sort_by (\<le>) (map fst (members input)) = CONTEXT_KEYS) INVALID_CONTEXT,
         ensure (getProp input ''schemaVersion'' = JNum (SafeInt 1)) INVALID_CONTEXT,
         ensure (isPositiveInteger (getProp input ''authGeneration'')) INVALID_CONTEXT,
         ensure (matches SHA256 (getProp input ''expectedSecretDigest'')) INVALID_CONTEXT] @
        map (\<lambda>fld. ensure (isContextReference (getProp input fld)) INVALID_CONTEXT) CONTEXT_REFERENCES @
        map (\<lambda>fld. ensure (isTimestamp engine (getProp input fld)) INVALID_CONTEXT) [''authenticatedAt'', ''expiresAt''] @
        [ensure (\<not> (now + 30000 < authenticatedAt \<or> expiresAt \<le> now \<or> expiresAt \<le> authenticatedAt \<or>
           MAX_SESSION_LIFETIME_MS < expiresAt - authenticatedAt)) INVALID_CONTEXT])) (\<lambda>_. Inr context))"

section \<open>Payloads\<close>

definition safePayloadKey :: "string \<Rightarrow> bool" where
  "safePayloadKey k = (\<not> (k \<in> set FORBIDDEN_PAYLOAD_KEYS \<or> hasControl k \<or> regex_test SESSION_SENSITIVE k))"

text \<open>
  The loop of \<open>validatePayload\<close>; the stack \<open>pending\<close> has its top at the head.  It ends because no more than
  \<open>MAX_PAYLOAD_NODES\<close> nodes are visited.
\<close>

function payloadLoop :: "nat \<Rightarrow> (json \<times> nat) list \<Rightarrow> AuthenticatedJsonlSessionErrorCode + unit" where
  "payloadLoop nodes [] = Inr ()"
| "payloadLoop nodes ((value, depth) # pending) =
     (if MAX_PAYLOAD_NODES < nodes + 1 \<or> MAX_PAYLOAD_DEPTH < depth then Inl FRAME_INVALID
      else (case value of
        JStr s \<Rightarrow> if hasControl s \<or> regex_test SESSION_SENSITIVE s then Inl FRAME_INVALID else payloadLoop (nodes + 1) pending
      | JNull \<Rightarrow> payloadLoop (nodes + 1) pending
      | JBool _ \<Rightarrow> payloadLoop (nodes + 1) pending
      | JNum (SafeInt i) \<Rightarrow> if isSafeInteger i then payloadLoop (nodes + 1) pending else Inl FRAME_INVALID
      | JArr xs \<Rightarrow> payloadLoop (nodes + 1) (rev (map (\<lambda>x. (x, depth + 1)) xs) @ pending)
      | JObj kvs \<Rightarrow> if \<exists>kv \<in> set kvs. \<not> safePayloadKey (fst kv) then Inl FRAME_INVALID
          else payloadLoop (nodes + 1) (rev (map (\<lambda>kv. (snd kv, depth + 1)) kvs) @ pending)
      | _ \<Rightarrow> Inl FRAME_INVALID))"
  by pat_completeness auto
termination
  by (relation "measure (\<lambda>(nodes, pending). Suc MAX_PAYLOAD_NODES - nodes)") auto

definition validatePayload :: "json \<Rightarrow> AuthenticatedJsonlSessionErrorCode + unit" where
  "validatePayload payload = payloadLoop 0 [(payload, 0)]"

definition preflightPayload :: "(string \<Rightarrow> js_number) \<Rightarrow> bytes \<Rightarrow> AuthenticatedJsonlSessionErrorCode + unit" where
  "preflightPayload num line = (case utf8Decode line of
     None \<Rightarrow> Inl FRAME_INVALID
   | Some raw \<Rightarrow>
       if raw = [] \<or> last raw \<noteq> newline then Inl FRAME_INVALID
       else (case jsonParse num (butlast raw) of
         None \<Rightarrow> Inl FRAME_INVALID
       | Some parsed \<Rightarrow>
           if \<not> isRecord parsed \<or> map_of (members parsed) ''payload'' = None then Inl FRAME_INVALID
           else validatePayload (getProp parsed ''payload'')))"

section \<open>Sessions\<close>

datatype SessionState = SESSION_ACTIVE | SESSION_FAILED

record BridgeSession =
  se_context :: AuthenticatedJsonlSessionContext
  se_state :: SessionState
  se_buffer :: bytes
  se_nextSequence :: int
  se_acceptedFrames :: nat
  se_ingestedBytes :: nat
  se_capabilitiesAccepted :: bool
  se_ingesting :: bool

definition newSession :: "(string \<Rightarrow> int option) \<Rightarrow> int \<Rightarrow> json \<Rightarrow> AuthenticatedJsonlSessionErrorCode + BridgeSession" where
  "newSession engine now input = ebind (validateContext engine now input) (\<lambda>context. Inr
     \<lparr>se_context = context, se_state = SESSION_ACTIVE, se_buffer = [], se_nextSequence = 1, se_acceptedFrames = 0,
      se_ingestedBytes = 0, se_capabilitiesAccepted = False, se_ingesting = False\<rparr>)"

record SessionSnapshot =
  sn_state :: SessionState
  sn_nextSequence :: int
  sn_acceptedFrames :: nat
  sn_ingestedBytes :: nat
  sn_bufferedBytes :: nat
  sn_capabilitiesAccepted :: bool

definition snapshot :: "BridgeSession \<Rightarrow> SessionSnapshot" where
  "snapshot s = \<lparr>sn_state = se_state s, sn_nextSequence = se_nextSequence s, sn_acceptedFrames = se_acceptedFrames s,
     sn_ingestedBytes = se_ingestedBytes s, sn_bufferedBytes = length (se_buffer s),
     sn_capabilitiesAccepted = se_capabilitiesAccepted s\<rparr>"

text \<open>The loop over \<open>candidate.indexOf(10, cursor)\<close>.\<close>

function splitLines :: "bytes list \<Rightarrow> bytes \<Rightarrow> AuthenticatedJsonlSessionErrorCode + bytes list \<times> bytes" where
  "splitLines lines rest = (case cutLine rest of
     None \<Rightarrow> Inr (lines, rest)
   | Some (line, rest') \<Rightarrow>
       if MAX_AUTHENTICATED_BATCH_FRAMES < length (lines @ [line]) then Inl SESSION_LIMIT else splitLines (lines @ [line]) rest')"
  by auto
termination
  by (relation "measure (\<lambda>(_, rest). length rest)") (auto dest: cutLine_shorter)

declare splitLines.simps [simp del]

text \<open>
  The loop over the lines: preflight, decoding, type, sequence number, the place of the capabilities, payload.
  Errors of the codec become \<open>FRAME_INVALID\<close>.
\<close>

fun frameLoop :: "(string \<Rightarrow> js_number) \<Rightarrow> (string \<Rightarrow> int option) \<Rightarrow> json list \<Rightarrow> int \<Rightarrow> bool \<Rightarrow> bytes list \<Rightarrow>
    AuthenticatedJsonlSessionErrorCode + json list \<times> int \<times> bool" where
  "frameLoop num engine envelopes expectedSequence capabilitiesAccepted [] = Inr (envelopes, expectedSequence, capabilitiesAccepted)"
| "frameLoop num engine envelopes expectedSequence capabilitiesAccepted (line # lines) =
     ebind (preflightPayload num line) (\<lambda>_.
     ebind (liftError (\<lambda>_. FRAME_INVALID) (decodeBridgeLine num engine line)) (\<lambda>envelope.
     (let kind = textOf (getProp envelope ''type'')
      in if kind \<notin> set POST_AUTH_TYPES then Inl FORBIDDEN_MESSAGE
         else if getProp envelope ''sequence'' \<noteq> JNum (SafeInt expectedSequence) then Inl SEQUENCE_MISMATCH
         else if (kind = ''CAPABILITIES'') = capabilitiesAccepted then Inl PROTOCOL_STATE
         else ebind (validatePayload (getProp envelope ''payload'')) (\<lambda>_.
              frameLoop num engine (envelopes @ [envelope]) (expectedSequence + 1) True lines))))"

text \<open>What \<open>ingest\<close> has found when it asks for the lease.\<close>

record Candidate =
  ca_envelopes :: "json list"
  ca_remainder :: bytes
  ca_chunkLength :: nat
  ca_expectedSequence :: int
  ca_capabilitiesAccepted :: bool

definition sessionExpired :: "(string \<Rightarrow> int option) \<Rightarrow> BridgeSession \<Rightarrow> int \<Rightarrow> bool" where
  "sessionExpired engine s now = (now \<ge> contextTime engine (bx_expiresAt (se_context s)))"

text \<open>
  \<open>#ingestActive\<close> up to the lease.  A chunk without a complete line is taken at once, \<open>Inr None\<close>; otherwise
  there is a candidate.  A chunk that is no byte array is \<open>None\<close>.
\<close>

definition ingestScan :: "(string \<Rightarrow> js_number) \<Rightarrow> (string \<Rightarrow> int option) \<Rightarrow> int \<Rightarrow> bytes option \<Rightarrow>
    (BridgeSession, AuthenticatedJsonlSessionErrorCode, Candidate option) method" where
  "ingestScan num engine now chunk s = (case chunk of
     None \<Rightarrow> (Inl INVALID_INGEST, s)
   | Some bs \<Rightarrow>
       if bs = [] then (Inl INVALID_INGEST, s)
       else if MAX_AUTHENTICATED_INGEST_BYTES < length bs \<or> MAX_AUTHENTICATED_SESSION_BYTES < se_ingestedBytes s + length bs \<or>
         int (length bs) > int MAX_AUTHENTICATED_BUFFER_BYTES - int (length (se_buffer s)) then (Inl SESSION_LIMIT, s)
       else if sessionExpired engine s now then (Inl SESSION_EXPIRED, s)
       else (case splitLines [] (se_buffer s @ bs) of
         Inl e \<Rightarrow> (Inl e, s)
       | Inr (lines, remainder) \<Rightarrow>
           if 65536 \<le> length remainder then (Inl SESSION_LIMIT, s)
           else if lines = [] then (Inr None, s\<lparr>se_buffer := remainder, se_ingestedBytes := se_ingestedBytes s + length bs\<rparr>)
           else if MAX_AUTHENTICATED_SESSION_FRAMES < se_acceptedFrames s + length lines then (Inl SESSION_LIMIT, s)
           else (case frameLoop num engine [] (se_nextSequence s) (se_capabilitiesAccepted s) lines of
             Inl e \<Rightarrow> (Inl e, s)
           | Inr (envelopes, expectedSequence, capabilitiesAccepted) \<Rightarrow> (Inr (Some
               \<lparr>ca_envelopes = envelopes, ca_remainder = remainder, ca_chunkLength = length bs,
                ca_expectedSequence = expectedSequence, ca_capabilitiesAccepted = capabilitiesAccepted\<rparr>), s))))"

text \<open>How far the call in flight has come.\<close>

datatype Pending =
    Leasing Candidate
  | Committing Candidate "thrown + unit"
  | Concluding "thrown + json list"

text \<open>The call: an immediate rejection, or the state it leaves while it is in flight.\<close>

definition ingestBegin :: "(string \<Rightarrow> js_number) \<Rightarrow> (string \<Rightarrow> int option) \<Rightarrow> int \<Rightarrow> bytes option \<Rightarrow>
    (BridgeSession, AuthenticatedJsonlSessionErrorCode, Pending) method" where
  "ingestBegin num engine now chunk s =
     (if se_state s \<noteq> SESSION_ACTIVE then (Inl TERMINAL, s)
      else if se_ingesting s then (Inl CONCURRENT_INGEST, s\<lparr>se_state := SESSION_FAILED, se_buffer := []\<rparr>)
      else (case ingestScan num engine now chunk (s\<lparr>se_ingesting := True\<rparr>) of
        (Inl e, s') \<Rightarrow> (Inr (Concluding (Inl (SessionError e))), s')
      | (Inr None, s') \<Rightarrow> (Inr (Concluding (Inr [])), s')
      | (Inr (Some c), s') \<Rightarrow> (Inr (Leasing c), s')))"

definition leaseRequestOf :: "AuthenticatedJsonlSessionContext \<Rightarrow> BridgeSecretLeaseRequest" where
  "leaseRequestOf cx = \<lparr>lr_workspaceId = bc_workspaceId cx, lr_runtimeId = bc_runtimeId cx, lr_connectionId = bc_connectionId cx,
     lr_secretReference = bx_secretReference cx, lr_expectedDigest = Some (bx_expectedSecretDigest cx),
     lr_authGeneration = bx_authGeneration cx, lr_purpose = VERIFY_FRAME\<rparr>"

definition verifyFrame :: "crypto \<Rightarrow> (string \<Rightarrow> int option) \<Rightarrow> AuthenticatedJsonlSessionContext \<Rightarrow> bytes \<Rightarrow> int \<Rightarrow> json \<Rightarrow> thrown + unit" where
  "verifyFrame cr engine cx k observedAt envelope =
     (if timeOf engine envelope ''issuedAt'' < contextTime engine (bx_authenticatedAt cx) \<or>
         timeOf engine envelope ''expiresAt'' > contextTime engine (bx_expiresAt cx) then Inl (SessionError FRAME_INVALID)
      else liftError (\<lambda>_. OtherError) (verifyBridgeEnvelope cr engine envelope k cx observedAt))"

text \<open>The consumer of the lease.\<close>

definition verifyFrames :: "crypto \<Rightarrow> (string \<Rightarrow> int option) \<Rightarrow> AuthenticatedJsonlSessionContext \<Rightarrow> int \<Rightarrow> json list \<Rightarrow> bytes \<Rightarrow> thrown + unit" where
  "verifyFrames cr engine cx observedAt envelopes secret =
     ebind (liftError (\<lambda>_. OtherError) (deriveBridgeKeys cr secret cx)) (\<lambda>ks.
     if observedAt \<ge> contextTime engine (bx_expiresAt cx) then Inl (SessionError SESSION_EXPIRED)
     else checks (map (verifyFrame cr engine cx (runtimeToParent ks) observedAt) envelopes))"

text \<open>
  The resolver of the session: the scoped one with the answer of its source, the one that denies, or one that
  returns without calling the consumer, which leaves \<open>verificationCompleted\<close> false.
\<close>

datatype Resolution = ScopedLease SourceAnswer | DeniedLease | UnservedLease

definition ingestLease :: "crypto \<Rightarrow> (string \<Rightarrow> int option) \<Rightarrow> int \<Rightarrow> Resolution \<Rightarrow> BridgeSession \<Rightarrow> Candidate \<Rightarrow> Pending" where
  "ingestLease cr engine observedAt resolution s c =
     (let request = leaseRequestOf (se_context s); consumer = verifyFrames cr engine (se_context s) observedAt (ca_envelopes c)
      in Committing c (case resolution of
        ScopedLease answer \<Rightarrow> fst (withSecret cr request answer consumer)
      | DeniedLease \<Rightarrow> denyWithSecret request consumer
      | UnservedLease \<Rightarrow> Inl (SessionError AUTHENTICATION_DENIED)))"

text \<open>What follows the lease.\<close>

definition ingestCommit :: "(string \<Rightarrow> int option) \<Rightarrow> int \<Rightarrow> Candidate \<Rightarrow> thrown + unit \<Rightarrow> (BridgeSession, thrown, json list) method" where
  "ingestCommit engine commitObservedAt c lease s = (case lease of
     Inl e \<Rightarrow> (Inl e, s)
   | Inr _ \<Rightarrow>
       if se_state s \<noteq> SESSION_ACTIVE then (Inl (SessionError TERMINAL), s)
       else if sessionExpired engine s commitObservedAt then (Inl (SessionError SESSION_EXPIRED), s)
       else if \<exists>e \<in> set (ca_envelopes c). commitObservedAt \<ge> timeOf engine e ''expiresAt'' then (Inl (SessionError FRAME_INVALID), s)
       else (Inr (ca_envelopes c), s\<lparr>se_buffer := ca_remainder c, se_ingestedBytes := se_ingestedBytes s + ca_chunkLength c,
         se_acceptedFrames := se_acceptedFrames s + length (ca_envelopes c), se_nextSequence := ca_expectedSequence c,
         se_capabilitiesAccepted := ca_capabilitiesAccepted c\<rparr>))"

definition sanitized :: "thrown \<Rightarrow> AuthenticatedJsonlSessionErrorCode" where
  "sanitized e = (case e of SessionError c \<Rightarrow> c | LeaseError _ \<Rightarrow> AUTHENTICATION_DENIED | OtherError \<Rightarrow> FRAME_INVALID)"

text \<open>The \<open>catch\<close> and \<open>finally\<close> clauses of \<open>ingest\<close>.\<close>

definition ingestConclude :: "thrown + json list \<Rightarrow> (BridgeSession, AuthenticatedJsonlSessionErrorCode, json list) method" where
  "ingestConclude r s = (case r of
     Inl e \<Rightarrow> (Inl (sanitized e), s\<lparr>se_state := SESSION_FAILED, se_buffer := [], se_ingesting := False\<rparr>)
   | Inr frames \<Rightarrow> (Inr frames, s\<lparr>se_ingesting := False\<rparr>))"

end
