(* ===== verification/Bridge_Session_Invariants.thy ===== *)
theory Bridge_Session_Invariants
  imports Bridge_Session
begin

text \<open>
  A session under any sequence of calls, answers of the resolver and readings of the clock.  The system state
  adds to the session the call in flight with its chunk, and what has been taken so far: the delivered frames
  and the bytes they and the buffer came from.  The invariant relates the two.
\<close>

section \<open>The transition system\<close>

record SessionSystem =
  sy_session :: BridgeSession
  sy_pending :: "Pending option"
  sy_chunk :: bytes
  sy_frames :: "json list"
  sy_stream :: bytes

definition bytesOf :: "bytes option \<Rightarrow> bytes" where
  "bytesOf chunk = (case chunk of None \<Rightarrow> [] | Some bs \<Rightarrow> bs)"

inductive sstep :: "crypto \<Rightarrow> (string \<Rightarrow> js_number) \<Rightarrow> (string \<Rightarrow> int option) \<Rightarrow> SessionSystem \<Rightarrow> SessionSystem \<Rightarrow> bool"
  for cr num engine where
  call_refused: "ingestBegin num engine now chunk (sy_session y) = (Inl e, s) \<Longrightarrow> sstep cr num engine y (y\<lparr>sy_session := s\<rparr>)"
| call_failed: "ingestBegin num engine now chunk (sy_session y) = (Inr (Concluding (Inl e)), s) \<Longrightarrow>
    sstep cr num engine y (y\<lparr>sy_session := s, sy_pending := Some (Concluding (Inl e))\<rparr>)"
| call_taken: "ingestBegin num engine now chunk (sy_session y) = (Inr (Concluding (Inr fs)), s) \<Longrightarrow>
    sstep cr num engine y (y\<lparr>sy_session := s, sy_pending := Some (Concluding (Inr fs)), sy_stream := sy_stream y @ bytesOf chunk\<rparr>)"
| call_leasing: "ingestBegin num engine now chunk (sy_session y) = (Inr (Leasing c), s) \<Longrightarrow>
    sstep cr num engine y (y\<lparr>sy_session := s, sy_pending := Some (Leasing c), sy_chunk := bytesOf chunk\<rparr>)"
| leased: "sy_pending y = Some (Leasing c) \<Longrightarrow>
    sstep cr num engine y (y\<lparr>sy_pending := Some (ingestLease cr engine now resolution (sy_session y) c)\<rparr>)"
| commit_failed: "sy_pending y = Some (Committing c l) \<Longrightarrow> ingestCommit engine now c l (sy_session y) = (Inl e, s) \<Longrightarrow>
    sstep cr num engine y (y\<lparr>sy_session := s, sy_pending := Some (Concluding (Inl e))\<rparr>)"
| committed: "sy_pending y = Some (Committing c l) \<Longrightarrow> ingestCommit engine now c l (sy_session y) = (Inr fs, s) \<Longrightarrow>
    sstep cr num engine y (y\<lparr>sy_session := s, sy_pending := Some (Concluding (Inr fs)), sy_frames := sy_frames y @ fs,
      sy_stream := sy_stream y @ sy_chunk y\<rparr>)"
| concluded: "sy_pending y = Some (Concluding r) \<Longrightarrow> ingestConclude r (sy_session y) = (q, s) \<Longrightarrow>
    sstep cr num engine y (y\<lparr>sy_session := s, sy_pending := None\<rparr>)"

definition sstart :: "(string \<Rightarrow> int option) \<Rightarrow> SessionSystem \<Rightarrow> bool" where
  "sstart engine y = (\<exists>now input. newSession engine now input = Inr (sy_session y) \<and> sy_pending y = None \<and> sy_frames y = [] \<and> sy_stream y = [])"

section \<open>Frames in order, and authentic frames\<close>

abbreviation kindOf :: "json \<Rightarrow> string" where
  "kindOf f \<equiv> textOf (getProp f ''type'')"

text \<open>Numbered from \<open>k\<close> on, with the capabilities at the first place and nowhere else, and safe payloads.\<close>

fun orderly :: "int \<Rightarrow> bool \<Rightarrow> json list \<Rightarrow> bool" where
  "orderly k caps [] = True"
| "orderly k caps (f # fs) = (getProp f ''sequence'' = JNum (SafeInt k) \<and> kindOf f \<in> set POST_AUTH_TYPES \<and>
     (kindOf f = ''CAPABILITIES'') = (\<not> caps) \<and> validatePayload (getProp f ''payload'') = Inr () \<and> orderly (k + 1) True fs)"

lemma orderly_append: "orderly k caps (fs @ gs) \<longleftrightarrow> orderly k caps fs \<and> orderly (k + int (length fs)) (caps \<or> fs \<noteq> []) gs"
  by (induction fs arbitrary: k caps) (auto simp: algebra_simps)

lemma orderly_nth:
  "orderly k caps fs \<Longrightarrow> i < length fs \<Longrightarrow> getProp (fs ! i) ''sequence'' = JNum (SafeInt (k + int i)) \<and>
   kindOf (fs ! i) \<in> set POST_AUTH_TYPES \<and> (kindOf (fs ! i) = ''CAPABILITIES'') = (i = 0 \<and> \<not> caps) \<and>
   validatePayload (getProp (fs ! i) ''payload'') = Inr ()"
proof (induction fs arbitrary: k caps i)
  case (Cons f fs)
  then show ?case
    using Cons.IH [of "k + 1" True "i - 1"] by (cases i) (auto simp: algebra_simps)
qed simp

definition authentic :: "crypto \<Rightarrow> (string \<Rightarrow> int option) \<Rightarrow> AuthenticatedJsonlSessionContext \<Rightarrow> json \<Rightarrow> bool" where
  "authentic cr engine cx f = (\<exists>secret ks now.
     exactDigestMatch (digestSecretReference cr secret) (bx_expectedSecretDigest cx) = Inr True \<and>
     deriveBridgeKeys cr secret cx = Inr ks \<and> now < contextTime engine (bx_expiresAt cx) \<and>
     contextTime engine (bx_authenticatedAt cx) \<le> timeOf engine f ''issuedAt'' \<and>
     timeOf engine f ''expiresAt'' \<le> contextTime engine (bx_expiresAt cx) \<and>
     verifyBridgeEnvelope cr engine f (runtimeToParent ks) cx now = Inr ())"

section \<open>The parts of a call\<close>

lemma splitLines_Inr:
  "splitLines ls bs = Inr (lines, r) \<Longrightarrow>
   newline \<notin> set r \<and> (\<exists>ms. lines = ls @ ms \<and> bs = concat ms @ r) \<and> (length ls \<le> 32 \<longrightarrow> length lines \<le> 32)"
proof (induction ls bs rule: splitLines.induct)
  case (1 ls bs)
  show ?case
  proof (cases "cutLine bs")
    case None
    with 1(2) show ?thesis by (simp add: splitLines.simps [of _ bs] cutLine_None)
  next
    case (Some p)
    then obtain line rest where p: "cutLine bs = Some (line, rest)" by (cases p) auto
    with 1(2) have "\<not> MAX_AUTHENTICATED_BATCH_FRAMES < length (ls @ [line])" "splitLines (ls @ [line]) rest = Inr (lines, r)"
      by (auto simp: splitLines.simps [of _ bs] split: if_splits)
    with 1(1) [OF p refl] p show ?thesis
      by (auto simp: MAX_AUTHENTICATED_BATCH_FRAMES_def cutLine_Some)
  qed
qed

lemma liftError_Inr [simp]: "liftError f m = Inr x \<longleftrightarrow> m = Inr x"
  by (cases m) (auto simp: liftError_def)

lemma frameLoop_Inr:
  "frameLoop num engine es k caps lines = Inr (fs, k', caps') \<Longrightarrow>
   \<exists>gs. emap (decodeBridgeLine num engine) lines = Inr gs \<and> fs = es @ gs \<and> orderly k caps gs \<and>
     k' = k + int (length gs) \<and> caps' = (caps \<or> gs \<noteq> [])"
proof (induction lines arbitrary: es k caps)
  case (Cons line lines)
  then obtain f where f: "decodeBridgeLine num engine line = Inr f" "kindOf f \<in> set POST_AUTH_TYPES"
    "getProp f ''sequence'' = JNum (SafeInt k)" "(kindOf f = ''CAPABILITIES'') = (\<not> caps)" "validatePayload (getProp f ''payload'') = Inr ()"
    "frameLoop num engine (es @ [f]) (k + 1) True lines = Inr (fs, k', caps')"
    by (auto simp: ebind_Inr Let_def split: if_split_asm)
  from Cons.IH [OF f(6)] f show ?case by auto
qed simp

lemma verifyFrames_authentic:
  assumes "fst (withSecret cr (leaseRequestOf cx) answer (verifyFrames cr engine cx now fs)) = Inr ()" "f \<in> set fs"
  shows "authentic cr engine cx f"
proof -
  obtain secret where s: "exactDigestMatch (digestSecretReference cr secret) (bx_expectedSecretDigest cx) = Inr True"
    "verifyFrames cr engine cx now fs secret = Inr ()"
    using assms(1) by (auto simp: withSecret_def leaseRequestOf_def ebind_Inr Let_def split: sum.splits SourceAnswer.splits if_split_asm)
  then obtain ks where "deriveBridgeKeys cr secret cx = Inr ks" "now < contextTime engine (bx_expiresAt cx)"
    "verifyFrame cr engine cx (runtimeToParent ks) now f = Inr ()"
    using assms(2) by (auto simp: verifyFrames_def ebind_Inr checks_map_Inr split: if_split_asm)
  with s(1) show ?thesis
    by (auto simp: authentic_def verifyFrame_def split: if_split_asm)
qed

text \<open>What a candidate says about the session it was found in.\<close>

definition candidateOk :: "(string \<Rightarrow> js_number) \<Rightarrow> (string \<Rightarrow> int option) \<Rightarrow> BridgeSession \<Rightarrow> bytes \<Rightarrow> Candidate \<Rightarrow> bool" where
  "candidateOk num engine s chunk c =
     ((\<exists>lines. emap (decodeBridgeLine num engine) lines = Inr (ca_envelopes c) \<and>
        (se_state s = SESSION_ACTIVE \<longrightarrow> se_buffer s @ chunk = concat lines @ ca_remainder c)) \<and>
      ca_envelopes c \<noteq> [] \<and> orderly (se_nextSequence s) (se_capabilitiesAccepted s) (ca_envelopes c) \<and>
      ca_expectedSequence c = se_nextSequence s + int (length (ca_envelopes c)) \<and> ca_capabilitiesAccepted c \<and>
      ca_chunkLength c = length chunk \<and> newline \<notin> set (ca_remainder c) \<and> length (ca_remainder c) < 65536 \<and>
      se_acceptedFrames s + length (ca_envelopes c) \<le> MAX_AUTHENTICATED_SESSION_FRAMES \<and>
      se_ingestedBytes s + length chunk \<le> MAX_AUTHENTICATED_SESSION_BYTES)"

lemma ingestScan_error: "ingestScan num engine now chunk s = (Inl e, t) \<Longrightarrow> t = s"
  by (auto simp: ingestScan_def split: option.splits if_splits sum.splits)

lemma ingestScan_scanned:
  assumes "ingestScan num engine now chunk s = (Inr r, t)"
  obtains bs lines remainder where "chunk = Some bs" "splitLines [] (se_buffer s @ bs) = Inr (lines, remainder)"
    "length remainder < 65536" "se_ingestedBytes s + length bs \<le> MAX_AUTHENTICATED_SESSION_BYTES"
    "lines = [] \<and> r = None \<and> t = s\<lparr>se_buffer := remainder, se_ingestedBytes := se_ingestedBytes s + length bs\<rparr> \<or>
     lines \<noteq> [] \<and> t = s \<and> se_acceptedFrames s + length lines \<le> MAX_AUTHENTICATED_SESSION_FRAMES \<and>
     (\<exists>fs k caps. frameLoop num engine [] (se_nextSequence s) (se_capabilitiesAccepted s) lines = Inr (fs, k, caps) \<and>
       r = Some \<lparr>ca_envelopes = fs, ca_remainder = remainder, ca_chunkLength = length bs, ca_expectedSequence = k, ca_capabilitiesAccepted = caps\<rparr>)"
proof -
  obtain bs where b: "chunk = Some bs" using assms by (cases chunk) (auto simp: ingestScan_def)
  obtain lines remainder where l: "splitLines [] (se_buffer s @ bs) = Inr (lines, remainder)"
    using assms b by (cases "splitLines [] (se_buffer s @ bs)") (auto simp: ingestScan_def split: if_split_asm)
  show thesis
  proof (cases "lines = []")
    case True
    then show ?thesis using assms b l by (intro that [OF b l]) (auto simp: ingestScan_def split: if_split_asm)
  next
    case False
    then obtain p where f: "frameLoop num engine [] (se_nextSequence s) (se_capabilitiesAccepted s) lines = Inr p"
      using assms b l by (cases "frameLoop num engine [] (se_nextSequence s) (se_capabilitiesAccepted s) lines")
        (auto simp: ingestScan_def split: if_split_asm)
    with False show ?thesis using assms b l
      by (intro that [OF b l]; cases p) (auto simp: ingestScan_def split: if_split_asm)
  qed
qed

lemma ingestScan_taken:
  assumes "ingestScan num engine now chunk s = (Inr None, t)"
  obtains bs where "chunk = Some bs" "t = s\<lparr>se_buffer := se_buffer s @ bs, se_ingestedBytes := se_ingestedBytes s + length bs\<rparr>"
    "newline \<notin> set (se_buffer s @ bs)" "length (se_buffer s @ bs) < 65536" "se_ingestedBytes s + length bs \<le> MAX_AUTHENTICATED_SESSION_BYTES"
  using assms
proof (rule ingestScan_scanned)
  fix bs lines remainder
  assume a: "chunk = Some bs" "splitLines [] (se_buffer s @ bs) = Inr (lines, remainder)" "length remainder < 65536"
    "se_ingestedBytes s + length bs \<le> MAX_AUTHENTICATED_SESSION_BYTES"
    "lines = [] \<and> None = (None :: Candidate option) \<and> t = s\<lparr>se_buffer := remainder, se_ingestedBytes := se_ingestedBytes s + length bs\<rparr> \<or>
     lines \<noteq> [] \<and> t = s \<and> se_acceptedFrames s + length lines \<le> MAX_AUTHENTICATED_SESSION_FRAMES \<and>
     (\<exists>fs k caps. frameLoop num engine [] (se_nextSequence s) (se_capabilitiesAccepted s) lines = Inr (fs, k, caps) \<and>
       None = Some \<lparr>ca_envelopes = fs, ca_remainder = remainder, ca_chunkLength = length bs, ca_expectedSequence = k, ca_capabilitiesAccepted = caps\<rparr>)"
  then have "remainder = se_buffer s @ bs" "newline \<notin> set remainder" using splitLines_Inr [OF a(2)] by auto
  with a that show thesis by auto
qed

lemma ingestScan_candidate:
  assumes "ingestScan num engine now chunk s = (Inr (Some c), t)"
  shows "t = s \<and> candidateOk num engine s (bytesOf chunk) c"
  using assms
proof (rule ingestScan_scanned)
  fix bs lines remainder
  assume a: "chunk = Some bs" "splitLines [] (se_buffer s @ bs) = Inr (lines, remainder)" "length remainder < 65536"
    "se_ingestedBytes s + length bs \<le> MAX_AUTHENTICATED_SESSION_BYTES"
    "lines = [] \<and> Some c = None \<and> t = s\<lparr>se_buffer := remainder, se_ingestedBytes := se_ingestedBytes s + length bs\<rparr> \<or>
     lines \<noteq> [] \<and> t = s \<and> se_acceptedFrames s + length lines \<le> MAX_AUTHENTICATED_SESSION_FRAMES \<and>
     (\<exists>fs k caps. frameLoop num engine [] (se_nextSequence s) (se_capabilitiesAccepted s) lines = Inr (fs, k, caps) \<and>
       Some c = Some \<lparr>ca_envelopes = fs, ca_remainder = remainder, ca_chunkLength = length bs, ca_expectedSequence = k, ca_capabilitiesAccepted = caps\<rparr>)"
  then obtain fs k caps where f: "lines \<noteq> []" "t = s" "se_acceptedFrames s + length lines \<le> MAX_AUTHENTICATED_SESSION_FRAMES"
    "frameLoop num engine [] (se_nextSequence s) (se_capabilitiesAccepted s) lines = Inr (fs, k, caps)"
    "c = \<lparr>ca_envelopes = fs, ca_remainder = remainder, ca_chunkLength = length bs, ca_expectedSequence = k, ca_capabilitiesAccepted = caps\<rparr>" by auto
  have g: "emap (decodeBridgeLine num engine) lines = Inr fs" "orderly (se_nextSequence s) (se_capabilitiesAccepted s) fs"
    "k = se_nextSequence s + int (length fs)" "caps = (se_capabilitiesAccepted s \<or> fs \<noteq> [])"
    using frameLoop_Inr [OF f(4)] by auto
  have "fs \<noteq> []" "length fs = length lines" using emap_length [OF g(1)] f(1) by auto
  then show ?thesis
    using a(1,3,4) f g splitLines_Inr [OF a(2)] by (auto simp: candidateOk_def bytesOf_def)
qed

section \<open>The invariant\<close>

definition historyOk :: "crypto \<Rightarrow> (string \<Rightarrow> js_number) \<Rightarrow> (string \<Rightarrow> int option) \<Rightarrow> SessionSystem \<Rightarrow> bool" where
  "historyOk cr num engine y =
     ((\<exists>lines r. emap (decodeBridgeLine num engine) lines = Inr (sy_frames y) \<and> sy_stream y = concat lines @ r \<and>
        (se_state (sy_session y) = SESSION_ACTIVE \<longrightarrow> r = se_buffer (sy_session y))) \<and>
      orderly 1 False (sy_frames y) \<and> (\<forall>f \<in> set (sy_frames y). authentic cr engine (se_context (sy_session y)) f))"

definition countersOk :: "SessionSystem \<Rightarrow> bool" where
  "countersOk y = (let s = sy_session y in
     se_nextSequence s = int (length (sy_frames y)) + 1 \<and> se_acceptedFrames s = length (sy_frames y) \<and>
     se_acceptedFrames s \<le> MAX_AUTHENTICATED_SESSION_FRAMES \<and> se_ingestedBytes s = length (sy_stream y) \<and>
     se_ingestedBytes s \<le> MAX_AUTHENTICATED_SESSION_BYTES \<and> se_capabilitiesAccepted s = (sy_frames y \<noteq> []) \<and>
     newline \<notin> set (se_buffer s) \<and> length (se_buffer s) < 65536)"

definition pendingOk :: "crypto \<Rightarrow> (string \<Rightarrow> js_number) \<Rightarrow> (string \<Rightarrow> int option) \<Rightarrow> SessionSystem \<Rightarrow> bool" where
  "pendingOk cr num engine y = (se_ingesting (sy_session y) = (sy_pending y \<noteq> None) \<and> (case sy_pending y of
     Some (Leasing c) \<Rightarrow> candidateOk num engine (sy_session y) (sy_chunk y) c
   | Some (Committing c l) \<Rightarrow> candidateOk num engine (sy_session y) (sy_chunk y) c \<and>
       (l = Inr () \<longrightarrow> (\<forall>f \<in> set (ca_envelopes c). authentic cr engine (se_context (sy_session y)) f))
   | _ \<Rightarrow> True))"

definition sessionInv :: "crypto \<Rightarrow> (string \<Rightarrow> js_number) \<Rightarrow> (string \<Rightarrow> int option) \<Rightarrow> SessionSystem \<Rightarrow> bool" where
  "sessionInv cr num engine y = (historyOk cr num engine y \<and> countersOk y \<and> pendingOk cr num engine y)"

lemma session_start_inv:
  assumes "sstart engine y"
  shows "sessionInv cr num engine y"
proof -
  obtain x where "sy_session y = \<lparr>se_context = x, se_state = SESSION_ACTIVE, se_buffer = [], se_nextSequence = 1, se_acceptedFrames = 0,
      se_ingestedBytes = 0, se_capabilitiesAccepted = False, se_ingesting = False\<rparr>" "sy_pending y = None" "sy_frames y = []" "sy_stream y = []"
    using assms by (auto simp: sstart_def newSession_def ebind_Inr dest!: sym [of _ "sy_session y"])
  then show ?thesis
    by (auto simp: sessionInv_def historyOk_def countersOk_def pendingOk_def
      MAX_AUTHENTICATED_SESSION_FRAMES_def MAX_AUTHENTICATED_SESSION_BYTES_def Let_def intro!: exI [of _ "[]"])
qed

lemma begin_refused:
  "ingestBegin num engine now chunk s = (Inl e, t) \<Longrightarrow> t = s \<or> t = s\<lparr>se_state := SESSION_FAILED, se_buffer := []\<rparr>"
  by (auto simp: ingestBegin_def split: if_splits prod.splits sum.splits option.splits)

lemma begin_started:
  assumes "ingestBegin num engine now chunk s = (Inr p, t)"
  shows "se_state s = SESSION_ACTIVE" "\<not> se_ingesting s"
    "p = Leasing c \<Longrightarrow> ingestScan num engine now chunk (s\<lparr>se_ingesting := True\<rparr>) = (Inr (Some c), t)"
    "p = Concluding (Inl e) \<Longrightarrow> t = s\<lparr>se_ingesting := True\<rparr>"
    "p = Concluding (Inr fs) \<Longrightarrow> fs = [] \<and> ingestScan num engine now chunk (s\<lparr>se_ingesting := True\<rparr>) = (Inr None, t)"
  using assms ingestScan_error
  by (auto simp: ingestBegin_def split: if_splits prod.splits sum.splits option.splits)

lemma begin_not_committing: "ingestBegin num engine now chunk s \<noteq> (Inr (Committing c l), t)"
  by (auto simp: ingestBegin_def split: if_splits prod.splits sum.splits option.splits)

text \<open>Failing the session keeps what has been delivered.\<close>

lemma fail_inv:
  assumes "sessionInv cr num engine y"
  shows "sessionInv cr num engine (y\<lparr>sy_session := sy_session y\<lparr>se_state := SESSION_FAILED, se_buffer := []\<rparr>\<rparr>)"
proof -
  have "pendingOk cr num engine (y\<lparr>sy_session := sy_session y\<lparr>se_state := SESSION_FAILED, se_buffer := []\<rparr>\<rparr>)"
    using assms by (auto simp: sessionInv_def pendingOk_def candidateOk_def split: option.splits Pending.splits)
  moreover have "historyOk cr num engine (y\<lparr>sy_session := sy_session y\<lparr>se_state := SESSION_FAILED, se_buffer := []\<rparr>\<rparr>)"
    using assms by (auto simp: sessionInv_def historyOk_def)
  ultimately show ?thesis using assms by (simp add: sessionInv_def countersOk_def Let_def)
qed

lemma begun_inv:
  assumes "sessionInv cr num engine y" "\<not> se_ingesting (sy_session y)"
    and "case p of Leasing c \<Rightarrow> candidateOk num engine (sy_session y) chunk c | Committing c l \<Rightarrow> False | Concluding r \<Rightarrow> True"
  shows "sessionInv cr num engine (y\<lparr>sy_session := sy_session y\<lparr>se_ingesting := True\<rparr>, sy_pending := Some p, sy_chunk := chunk\<rparr>)"
  using assms by (cases p) (auto simp: sessionInv_def pendingOk_def historyOk_def countersOk_def candidateOk_def Let_def)

lemma taken_inv:
  assumes "sessionInv cr num engine y" "se_state (sy_session y) = SESSION_ACTIVE" "\<not> se_ingesting (sy_session y)"
    and "ingestScan num engine now chunk ((sy_session y)\<lparr>se_ingesting := True\<rparr>) = (Inr None, t)"
  shows "sessionInv cr num engine (y\<lparr>sy_session := t, sy_pending := Some (Concluding (Inr [])), sy_stream := sy_stream y @ bytesOf chunk\<rparr>)"
  using assms(4)
proof (rule ingestScan_taken)
  let ?s = "sy_session y"
  fix bs assume b: "chunk = Some bs" "t = ?s\<lparr>se_ingesting := True\<rparr>\<lparr>se_buffer := se_buffer (?s\<lparr>se_ingesting := True\<rparr>) @ bs,
      se_ingestedBytes := se_ingestedBytes (?s\<lparr>se_ingesting := True\<rparr>) + length bs\<rparr>"
    "newline \<notin> set (se_buffer (?s\<lparr>se_ingesting := True\<rparr>) @ bs)" "length (se_buffer (?s\<lparr>se_ingesting := True\<rparr>) @ bs) < 65536"
    "se_ingestedBytes (?s\<lparr>se_ingesting := True\<rparr>) + length bs \<le> MAX_AUTHENTICATED_SESSION_BYTES"
  have "historyOk cr num engine y" "countersOk y" using assms(1) by (simp_all add: sessionInv_def)
  then obtain lines where "emap (decodeBridgeLine num engine) lines = Inr (sy_frames y)" "sy_stream y = concat lines @ se_buffer ?s"
    using assms(2) by (auto simp: historyOk_def)
  with b assms show ?thesis
    by (auto simp: sessionInv_def pendingOk_def historyOk_def countersOk_def Let_def bytesOf_def)
qed

lemma leased_inv:
  assumes "sessionInv cr num engine y" "sy_pending y = Some (Leasing c)"
  shows "sessionInv cr num engine (y\<lparr>sy_pending := Some (ingestLease cr engine now resolution (sy_session y) c)\<rparr>)"
proof -
  have "\<forall>f \<in> set (ca_envelopes c). authentic cr engine (se_context (sy_session y)) f"
    if "ingestLease cr engine now resolution (sy_session y) c = Committing c (Inr ())"
    using that verifyFrames_authentic by (auto simp: ingestLease_def denyWithSecret_def Let_def split: Resolution.splits)
  moreover obtain l where "ingestLease cr engine now resolution (sy_session y) c = Committing c l"
    by (simp add: ingestLease_def Let_def)
  ultimately show ?thesis
    using assms by (auto simp: sessionInv_def pendingOk_def historyOk_def countersOk_def)
qed

lemma committed_inv:
  assumes "sessionInv cr num engine y" "sy_pending y = Some (Committing c l)"
    and "ingestCommit engine now c l (sy_session y) = (Inr fs, t)"
  shows "sessionInv cr num engine (y\<lparr>sy_session := t, sy_pending := Some (Concluding (Inr fs)), sy_frames := sy_frames y @ fs,
      sy_stream := sy_stream y @ sy_chunk y\<rparr>)"
proof -
  let ?s = "sy_session y"
  have c: "l = Inr ()" "se_state ?s = SESSION_ACTIVE" "fs = ca_envelopes c"
    "t = ?s\<lparr>se_buffer := ca_remainder c, se_ingestedBytes := se_ingestedBytes ?s + ca_chunkLength c,
         se_acceptedFrames := se_acceptedFrames ?s + length fs, se_nextSequence := ca_expectedSequence c,
         se_capabilitiesAccepted := ca_capabilitiesAccepted c\<rparr>"
    using assms(3) by (auto simp: ingestCommit_def split: sum.splits if_split_asm)
  have k: "candidateOk num engine ?s (sy_chunk y) c" "\<forall>f \<in> set fs. authentic cr engine (se_context ?s) f" "se_ingesting ?s"
    using assms(1,2) c by (auto simp: sessionInv_def pendingOk_def)
  have h: "historyOk cr num engine y" "countersOk y" using assms(1) by (simp_all add: sessionInv_def)
  obtain l1 l2 where l: "emap (decodeBridgeLine num engine) l1 = Inr (sy_frames y)" "sy_stream y = concat l1 @ se_buffer ?s"
    "emap (decodeBridgeLine num engine) l2 = Inr fs" "se_buffer ?s @ sy_chunk y = concat l2 @ ca_remainder c"
    using h(1) k(1) c(2,3) by (auto simp: historyOk_def candidateOk_def)
  have "historyOk cr num engine (y\<lparr>sy_session := t, sy_pending := Some (Concluding (Inr fs)), sy_frames := sy_frames y @ fs,
      sy_stream := sy_stream y @ sy_chunk y\<rparr>)"
    unfolding historyOk_def
  proof (intro conjI exI [of _ "l1 @ l2"] exI [of _ "ca_remainder c"])
    show "orderly 1 False (sy_frames (y\<lparr>sy_session := t, sy_pending := Some (Concluding (Inr fs)), sy_frames := sy_frames y @ fs,
      sy_stream := sy_stream y @ sy_chunk y\<rparr>))"
      using h k(1) c(3) by (simp add: orderly_append historyOk_def candidateOk_def countersOk_def Let_def add.commute)
  qed (use l h(1) k(2) c(4) in \<open>auto simp: emap_append_Inr historyOk_def\<close>)
  moreover have "countersOk (y\<lparr>sy_session := t, sy_pending := Some (Concluding (Inr fs)), sy_frames := sy_frames y @ fs,
      sy_stream := sy_stream y @ sy_chunk y\<rparr>)"
    using h(2) k(1) c by (auto simp: countersOk_def candidateOk_def Let_def)
  ultimately show ?thesis using k(3) c(4) by (simp add: sessionInv_def pendingOk_def)
qed

lemma concluded_inv:
  assumes "sessionInv cr num engine y" "ingestConclude r (sy_session y) = (q, t)"
  shows "sessionInv cr num engine (y\<lparr>sy_session := t, sy_pending := None\<rparr>)"
proof (cases r)
  case (Inl e)
  then show ?thesis using assms(2) fail_inv [OF assms(1)]
    by (auto simp: ingestConclude_def sessionInv_def pendingOk_def historyOk_def countersOk_def)
next
  case (Inr fs)
  then have "t = (sy_session y)\<lparr>se_ingesting := False\<rparr>" using assms(2) by (simp add: ingestConclude_def)
  then show ?thesis using assms(1) by (simp add: sessionInv_def pendingOk_def historyOk_def countersOk_def Let_def)
qed

lemma session_step_inv: "sstep cr num engine y z \<Longrightarrow> sessionInv cr num engine y \<Longrightarrow> sessionInv cr num engine z"
proof (induction rule: sstep.induct)
  case (call_refused now chunk y e s)
  then show ?case using begin_refused [OF call_refused(1)] fail_inv by auto
next
  case (call_failed now chunk y e s)
  then show ?case
    using begin_started(2,4) [OF call_failed(1)] begun_inv [of cr num engine y "sy_chunk y" "Concluding (Inl e)"] by simp
next
  case (call_taken now chunk y fs s)
  then show ?case using begin_started(1,2,5) [OF call_taken(1)] taken_inv [of cr num engine y now chunk s] by auto
next
  case (call_leasing now chunk y c s)
  then have "s = (sy_session y)\<lparr>se_ingesting := True\<rparr>" "candidateOk num engine ((sy_session y)\<lparr>se_ingesting := True\<rparr>) (bytesOf chunk) c"
    using ingestScan_candidate [OF begin_started(3) [OF call_leasing(1) refl]] by auto
  then show ?case
    using call_leasing(2) begin_started(2) [OF call_leasing(1)] begun_inv [of cr num engine y "bytesOf chunk" "Leasing c"]
    by (simp add: candidateOk_def)
next
  case (leased y c now resolution)
  then show ?case using leased_inv by blast
next
  case (commit_failed y c l now e s)
  have "s = sy_session y" using commit_failed(2) by (auto simp: ingestCommit_def split: sum.splits if_split_asm)
  then show ?case using commit_failed(1,3) by (auto simp: sessionInv_def pendingOk_def historyOk_def countersOk_def)
next
  case (committed y c l now fs s)
  then show ?case using committed_inv by blast
next
  case (concluded y r q s)
  then show ?case using concluded_inv by blast
qed

interpretation bridge_stream: invariant_system "sstart engine" "sstep cr num engine" "sessionInv cr num engine" for cr num engine
  by unfold_locales (auto intro: session_start_inv session_step_inv)

end
