(* ===== verification/Bridge_Progress.thy ===== *)
theory Bridge_Progress
  imports Bridge_Session_Invariants
begin

text \<open>
  Honest traffic gets through: a chunk made of encoded frames in order, verified under the leased secret
  before anything expires, is delivered as it is, and the session is ready for the next call.
\<close>

lemma decode_parsed:
  assumes "decodeBridgeLine num engine l = Inr e"
  obtains raw where "utf8Decode l = Some raw" "raw \<noteq> []" "last raw = newline" "jsonParse num (butlast raw) = Some e"
    "validateBridgeEnvelope engine e = Inr ()"
proof -
  obtain raw where raw: "utf8Decode l = Some raw" "last raw = newline" "l \<noteq> []"
    using assms by (cases "utf8Decode l") (auto simp: decodeBridgeLine_def split: if_split_asm)
  then have "jsonParse num (butlast raw) = Some e \<and> validateBridgeEnvelope engine e = Inr ()"
    using assms by (cases "jsonParse num (butlast raw)") (auto simp: decodeBridgeLine_def ebind_Inr split: if_split_asm)
  moreover have "raw \<noteq> []" using utf8Decode_encode [OF raw(1)] raw(3) by auto
  ultimately show thesis using raw that by blast
qed

lemma preflight_frame:
  assumes "decodeBridgeLine num engine l = Inr e" "validatePayload (getProp e ''payload'') = Inr ()"
  shows "preflightPayload num l = Inr ()"
  using assms(1)
proof (rule decode_parsed)
  fix raw assume r: "utf8Decode l = Some raw" "raw \<noteq> []" "last raw = newline" "jsonParse num (butlast raw) = Some e"
    "validateBridgeEnvelope engine e = Inr ()"
  have "''payload'' \<in> fst ` set (members e)" "isRecord e"
    using validate_keys [OF r(5)] by (simp add: ENVELOPE_KEYS_def, metis isRecord.simps(1))
  then show ?thesis using r assms(2) by (auto simp: preflightPayload_def map_of_eq_None_iff)
qed

lemma splitLines_frames:
  "emap (decodeBridgeLine num engine) lines = Inr fs \<Longrightarrow> newline \<notin> set r \<Longrightarrow> length ls + length lines \<le> 32 \<Longrightarrow>
   splitLines ls (concat lines @ r) = Inr (ls @ lines, r)"
proof (induction lines arbitrary: ls fs)
  case Nil
  then show ?case by (subst splitLines.simps) (simp add: cutLine_None [THEN iffD2])
next
  case (Cons l lines)
  then obtain f gs where f: "decodeBridgeLine num engine l = Inr f" "emap (decodeBridgeLine num engine) lines = Inr gs"
    by (auto simp: emap_Cons_Inr simp del: emap.simps(2))
  show ?case
    using Cons.IH [OF f(2) Cons.prems(2), of "ls @ [l]"] Cons.prems(3) cutLine_frame [OF f(1), of "concat lines @ r"]
    by (subst splitLines.simps) (simp add: MAX_AUTHENTICATED_BATCH_FRAMES_def)
qed

lemma frameLoop_frames:
  "emap (decodeBridgeLine num engine) lines = Inr fs \<Longrightarrow> orderly k caps fs \<Longrightarrow>
   frameLoop num engine es k caps lines = Inr (es @ fs, k + int (length fs), caps \<or> fs \<noteq> [])"
proof (induction lines arbitrary: es k caps fs)
  case (Cons l lines)
  then obtain f gs where f: "decodeBridgeLine num engine l = Inr f" "emap (decodeBridgeLine num engine) lines = Inr gs" "fs = f # gs"
    by (auto simp: emap_Cons_Inr simp del: emap.simps(2))
  with Cons.prems(2) have o: "orderly (k + 1) True gs" "preflightPayload num l = Inr ()" "kindOf f \<in> set POST_AUTH_TYPES"
    "getProp f ''sequence'' = JNum (SafeInt k)" "(kindOf f = ''CAPABILITIES'') = (\<not> caps)" "validatePayload (getProp f ''payload'') = Inr ()"
    using preflight_frame by auto
  show ?case
    using Cons.IH [OF f(2) o(1), of "es @ [f]"] f(1,3) o by (simp add: liftError_def Let_def)
qed simp

text \<open>The source of the resolver knows the secret of the session.\<close>

definition goodSecret :: "crypto \<Rightarrow> AuthenticatedJsonlSessionContext \<Rightarrow> bytes \<Rightarrow> bool" where
  "goodSecret cr cx secret = (validateLeaseRequest (leaseRequestOf cx) = Inr () \<and>
     MIN_BRIDGE_SECRET_BYTES \<le> length secret \<and> length secret \<le> MAX_BRIDGE_SECRET_BYTES \<and>
     exactDigestMatch (digestSecretReference cr secret) (bx_expectedSecretDigest cx) = Inr True)"

text \<open>The frame is signed with the key of the secret, inside the window of the session, and not expired.\<close>

definition honestFrame :: "crypto \<Rightarrow> (string \<Rightarrow> int option) \<Rightarrow> AuthenticatedJsonlSessionContext \<Rightarrow> bytes \<Rightarrow> int \<Rightarrow> int \<Rightarrow> json \<Rightarrow> bool" where
  "honestFrame cr engine cx secret observedAt commitAt f = (case deriveBridgeKeys cr secret cx of
     Inl _ \<Rightarrow> False
   | Inr ks \<Rightarrow> verifyFrame cr engine cx (runtimeToParent ks) observedAt f = Inr () \<and> commitAt < timeOf engine f ''expiresAt'')"

lemma honest_begin:
  assumes "se_state s = SESSION_ACTIVE" "\<not> se_ingesting s" "se_buffer s = []" "fs \<noteq> []"
    and "emap (encodeBridgeLine engine) fs = Inr lines" "\<forall>f \<in> set fs. distinctKeys f \<and> normalizeJson f = f"
    and "orderly (se_nextSequence s) (se_capabilitiesAccepted s) fs" "length fs \<le> MAX_AUTHENTICATED_BATCH_FRAMES"
    and "length (concat lines) \<le> MAX_AUTHENTICATED_INGEST_BYTES"
    and "se_ingestedBytes s + length (concat lines) \<le> MAX_AUTHENTICATED_SESSION_BYTES"
    and "se_acceptedFrames s + length fs \<le> MAX_AUTHENTICATED_SESSION_FRAMES"
    and "now < contextTime engine (bx_expiresAt (se_context s))"
  shows "ingestBegin num engine now (Some (concat lines)) s =
    (Inr (Leasing \<lparr>ca_envelopes = fs, ca_remainder = [], ca_chunkLength = length (concat lines),
       ca_expectedSequence = se_nextSequence s + int (length fs), ca_capabilitiesAccepted = True\<rparr>), s\<lparr>se_ingesting := True\<rparr>)"
proof -
  have d: "emap (decodeBridgeLine num engine) lines = Inr fs"
    using assms(5,6) encode_then_decode
    by (induction fs arbitrary: lines) (fastforce simp: emap_Cons_Inr simp del: emap.simps(2))+
  have n: "length lines = length fs" using emap_length [OF d] by simp
  have "concat lines \<noteq> []" using frames_nonempty [OF d] assms(4) by simp
  moreover have "splitLines [] (concat lines) = Inr (lines, [])"
    using splitLines_frames [OF d, of "[]" "[]"] n assms(8) by (simp add: MAX_AUTHENTICATED_BATCH_FRAMES_def)
  moreover have "lines \<noteq> []" using n assms(4) by auto
  ultimately show ?thesis
    using assms(1-3,9-12) n frameLoop_frames [OF d assms(7), of "[]"] assms(4)
    by (simp add: ingestBegin_def ingestScan_def sessionExpired_def MAX_AUTHENTICATED_BUFFER_BYTES_def MAX_AUTHENTICATED_INGEST_BYTES_def)
qed

lemma honest_lease:
  assumes "goodSecret cr (se_context s) secret" "observedAt < contextTime engine (bx_expiresAt (se_context s))"
    and "ca_envelopes c \<noteq> []" "\<forall>f \<in> set (ca_envelopes c). honestFrame cr engine (se_context s) secret observedAt commitAt f"
  shows "ingestLease cr engine observedAt (ScopedLease (SourceBytes secret)) s c = Committing c (Inr ())"
proof -
  obtain ks where "deriveBridgeKeys cr secret (se_context s) = Inr ks"
    "\<forall>f \<in> set (ca_envelopes c). verifyFrame cr engine (se_context s) (runtimeToParent ks) observedAt f = Inr ()"
    using assms(3,4) by (cases "deriveBridgeKeys cr secret (se_context s)") (auto simp: honestFrame_def neq_Nil_conv)
  then have "verifyFrames cr engine (se_context s) observedAt (ca_envelopes c) secret = Inr ()"
    using assms(2) by (simp add: verifyFrames_def liftError_def checks_map_Inr)
  then show ?thesis
    using assms(1) by (auto simp: ingestLease_def withSecret_def goodSecret_def leaseRequestOf_def Let_def)
qed

lemma honest_commit:
  assumes "se_state s = SESSION_ACTIVE" "commitAt < contextTime engine (bx_expiresAt (se_context s))"
    and "\<forall>f \<in> set (ca_envelopes c). honestFrame cr engine (se_context s) secret observedAt commitAt f"
  shows "\<exists>t. ingestCommit engine commitAt c (Inr ()) s = (Inr (ca_envelopes c), t) \<and> se_state t = SESSION_ACTIVE \<and>
    se_buffer t = ca_remainder c \<and> se_nextSequence t = ca_expectedSequence c \<and> se_ingesting t = se_ingesting s \<and> se_context t = se_context s"
proof -
  have "\<forall>f \<in> set (ca_envelopes c). commitAt < timeOf engine f ''expiresAt''"
    using assms(3) by (cases "deriveBridgeKeys cr secret (se_context s)") (auto simp: honestFrame_def)
  then show ?thesis using assms(1,2) by (auto simp: ingestCommit_def sessionExpired_def)
qed

end
