(* ===== verification/Bridge_Scenario.thy ===== *)
theory Bridge_Scenario
  imports Bridge_Progress
begin

text \<open>A small session for the witnesses: a runtime announces its capabilities and sends a heartbeat.\<close>

definition toyCrypto :: crypto where
  "toyCrypto = \<lparr>sha256 = (\<lambda>_. replicate 32 (CHR 0x00)), hmac = (\<lambda>_ _. replicate 32 (CHR 0x00)), hkdf = (\<lambda>_ _ _ n. replicate n (CHR 0x07))\<rparr>"

abbreviation plainNum :: "string \<Rightarrow> js_number" where "plainNum \<equiv> \<lambda>_. NonFinite"
abbreviation plainEngine :: "string \<Rightarrow> int option" where "plainEngine \<equiv> \<lambda>_. None"

definition toySecret :: bytes where "toySecret = replicate 32 (CHR ''k'')"

definition toyInput :: json where
  "toyInput = JObj
    [(''schemaVersion'', JNum (SafeInt 1)), (''workspaceId'', JStr ''ws''), (''runtimeId'', JStr ''rt''), (''connectionId'', JStr ''cn''),
     (''sessionId'', JStr ''s1''), (''principalReference'', JStr ''pr''), (''parentNonce'', JStr ''n1''), (''runtimeNonce'', JStr ''n2''),
     (''secretReference'', JStr ''ref''), (''expectedSecretDigest'', JStr (replicate 64 (CHR ''0''))), (''authGeneration'', JNum (SafeInt 1)),
     (''authenticatedAt'', JStr ''2026-01-01T00:00:00.000Z''), (''expiresAt'', JStr ''2026-01-01T00:10:00.000Z'')]"

definition toyNow :: int where "toyNow = 1767225660000"

definition toyUnsigned :: json where
  "toyUnsigned = JObj
    [(''connectionId'', JStr ''cn''), (''expiresAt'', JStr ''2026-01-01T00:05:00.000Z''), (''issuedAt'', JStr ''2026-01-01T00:01:00.000Z''),
     (''messageId'', JStr ''m''), (''payload'', JObj [(''tools'', JArr [JStr ''ls''])]),
     (''payloadDigest'', JStr (replicate 64 (CHR ''0''))), (''principalReference'', JStr ''pr''),
     (''protocolVersion'', JStr ''ventureos.bridge.v1''), (''runtimeId'', JStr ''rt''), (''sequence'', JNum (SafeInt 1)),
     (''sessionId'', JStr ''s1''), (''type'', JStr ''CAPABILITIES''), (''workspaceId'', JStr ''ws'')]"

definition toySigned :: json where
  "toySigned = JObj (members toyUnsigned @ [(''mac'', JStr (replicate 43 (CHR ''A'')))])"

definition toyFrame :: json where
  "toyFrame = normalizeJson toySigned"

definition toySession :: BridgeSession where
  "toySession = \<lparr>se_context = contextOf toyInput, se_state = SESSION_ACTIVE, se_buffer = [], se_nextSequence = 1, se_acceptedFrames = 0,
     se_ingestedBytes = 0, se_capabilitiesAccepted = False, se_ingesting = False\<rparr>"

lemma toy_start: "newSession plainEngine toyNow toyInput = Inr toySession"
  by code_simp

lemma toy_keys: "deriveBridgeKeys toyCrypto toySecret (contextOf toyInput) =
    Inr \<lparr>parentToRuntime = replicate 32 (CHR 0x07), runtimeToParent = replicate 32 (CHR 0x07)\<rparr>"
  by code_simp

lemma toy_valid: "validateBridgeEnvelope plainEngine toySigned = Inr ()"
  by code_simp

lemma toy_bridgeable: "bridgeable toySigned"
  by code_simp

lemma toy_unsigned_bridgeable: "bridgeable toyUnsigned" "bridgeable (getProp toyUnsigned ''payload'')"
  using toy_bridgeable by (simp_all add: toySigned_def toyUnsigned_def getProp_def)

lemma toy_digest: "hexText (sha256 toyCrypto t) = replicate 64 (CHR ''0'')"
proof -
  have "sha256 toyCrypto t = replicate 32 (CHR 0x00)" by (simp add: toyCrypto_def)
  moreover have "hexText (replicate 32 (CHR 0x00)) = replicate 64 (CHR ''0'')" by code_simp
  ultimately show ?thesis by simp
qed

lemma toy_mac: "base64url (hmac toyCrypto k t) = replicate 43 (CHR ''A'')"
proof -
  have "hmac toyCrypto k t = replicate 32 (CHR 0x00)" by (simp add: toyCrypto_def)
  moreover have "base64url (replicate 32 (CHR 0x00)) = replicate 43 (CHR ''A'')" by code_simp
  ultimately show ?thesis by simp
qed

lemma toy_props: "members toySigned = mset_at (members toyUnsigned) ''mac'' (JStr (replicate 43 (CHR ''A'')))"
  "getProp toyUnsigned ''payloadDigest'' = JStr (replicate 64 (CHR ''0''))"
  by (simp_all add: toySigned_def toyUnsigned_def getProp_def mset_at_def)

lemma toy_signed: "signBridgeEnvelope toyCrypto plainEngine toyUnsigned k = Inr toySigned"
  unfolding sign_Inr toy_digest toy_mac using toy_valid toy_unsigned_bridgeable toy_props
  by (simp add: toySigned_def)

lemma toy_sent: "\<exists>l. encodeBridgeLine plainEngine toySigned = Inr l \<and> length l \<le> 1000"
proof -
  have "length (utf8Encode (json_text (normalizeJson toySigned) @ [newline])) \<le> 1000" by code_simp
  then show ?thesis using toy_valid toy_bridgeable by (simp add: encode_iff MAX_BRIDGE_LINE_BYTES_def)
qed

lemma toy_distinct: "distinctKeys toyUnsigned" "distinctKeys toySigned" "map_of (members toyUnsigned) ''mac'' = None"
  by (simp_all add: toyUnsigned_def toySigned_def)

lemma toy_orderly: "orderly 1 False [toyFrame]"
  by code_simp

lemma toy_secret: "goodSecret toyCrypto (contextOf toyInput) toySecret"
  by code_simp

lemma toy_times: "toyNow < contextTime plainEngine (bx_expiresAt (contextOf toyInput))"
  "timeOf plainEngine toyUnsigned ''issuedAt'' = toyNow" "timeOf plainEngine toyUnsigned ''expiresAt'' = toyNow + 240000"
  "contextTime plainEngine (bx_authenticatedAt (contextOf toyInput)) \<le> toyNow"
  "toyNow + 240000 \<le> contextTime plainEngine (bx_expiresAt (contextOf toyInput))"
  by code_simp+

lemma toy_scope: "\<forall>(fld, v) \<in> set (scopeFields (contextOf toyInput)). getProp toyUnsigned fld = JStr v"
  by (simp add: scopeFields_def contextOf_def toyInput_def toyUnsigned_def getProp_def Let_def)

section \<open>The frame on the wire\<close>

text \<open>The canonical form of a signed envelope has the same encoding as the envelope.\<close>

lemma encode_normalized:
  assumes "encodeBridgeLine engine e = Inr l" "distinctKeys e"
  shows "encodeBridgeLine engine (normalizeJson e) = Inr l"
  using assms validate_normalize bridgeable_normalize by (auto simp: encode_iff)

lemma toy_verified: "verifyBridgeEnvelope toyCrypto plainEngine toySigned (replicate 32 (CHR 0x07)) (contextOf toyInput) toyNow = Inr ()"
  by (rule sign_verify [OF toy_signed]) (use toy_distinct toy_scope toy_times in simp_all)

lemma toy_times_frame: "timeOf plainEngine toyFrame fld = timeOf plainEngine toySigned fld"
  by (simp add: timeOf_def toyFrame_def getProp_normalize [OF toy_distinct(2)])

lemma toy_times_signed: "timeOf plainEngine toySigned ''issuedAt'' = toyNow" "timeOf plainEngine toySigned ''expiresAt'' = toyNow + 240000"
  using toy_times by (simp_all add: timeOf_def toySigned_def toyUnsigned_def getProp_def)

lemma toy_honest: "honestFrame toyCrypto plainEngine (contextOf toyInput) toySecret toyNow toyNow toyFrame"
  using verify_normalize [OF toy_verified toy_distinct(2)] toy_times toy_times_signed
  by (simp add: honestFrame_def toy_keys verifyFrame_def toy_times_frame liftError_def) (simp add: toyFrame_def)

section \<open>A signature that cannot be sent\<close>

text \<open>
  The authenticator is base64url text, and may look like an access token.  \<open>signBridgeEnvelope\<close> then returns an
  envelope that \<open>encodeBridgeLine\<close> refuses as sensitive.
\<close>

definition unluckyCrypto :: crypto where
  "unluckyCrypto = toyCrypto\<lparr>hmac := (\<lambda>_ _. base64urlDecode (''sk-'' @ replicate 40 (CHR ''A'')))\<rparr>"

lemma validate_mac:
  assumes "validateBridgeEnvelope engine (JObj (kvs @ [(''mac'', v)])) = Inr ()" "map_of kvs ''mac'' = None" "matches MAC w"
  shows "validateBridgeEnvelope engine (JObj (kvs @ [(''mac'', w)])) = Inr ()"
proof -
  have p: "getProp (JObj (kvs @ [(''mac'', u)])) fld = (if fld = ''mac'' then u else getProp (JObj kvs) fld)" for u fld
    using assms(2) by (auto simp: getProp_def map_add_def split: option.split)
  show ?thesis using assms(1,3) by (simp add: validateBridgeEnvelope_def outcome_simps p timeOf_def REFERENCE_FIELDS_def)
qed

lemma signed_frame_refused:
  "\<exists>signed. signBridgeEnvelope unluckyCrypto plainEngine toyUnsigned k = Inr signed \<and> \<not> succeeds (encodeBridgeLine plainEngine signed)"
proof -
  let ?m = "base64url (base64urlDecode (''sk-'' @ replicate 40 (CHR ''A'')))"
  have m: "regex_test MAC ?m" "regex_test BRIDGE_SENSITIVE ?m" by code_simp+
  have u: "hmac unluckyCrypto k t = base64urlDecode (''sk-'' @ replicate 40 (CHR ''A''))" "sha256 unluckyCrypto t = sha256 toyCrypto t" for t
    by (simp_all add: unluckyCrypto_def)
  have e: "mset_at (members toyUnsigned) ''mac'' (JStr ?m) = members toyUnsigned @ [(''mac'', JStr ?m)]"
    by (rule mset_at_fresh) (simp add: mhas_def toy_distinct)
  have "validateBridgeEnvelope plainEngine (JObj (members toyUnsigned @ [(''mac'', JStr ?m)])) = Inr ()"
    by (rule validate_mac [OF toy_valid [unfolded toySigned_def]]) (use toy_distinct(3) m in \<open>simp_all add: matches_def\<close>)
  then have "signBridgeEnvelope unluckyCrypto plainEngine toyUnsigned k = Inr (JObj (members toyUnsigned @ [(''mac'', JStr ?m)]))"
    unfolding sign_Inr u toy_digest e using toy_unsigned_bridgeable toy_props by simp
  moreover have "\<not> bridgeable (JObj (members toyUnsigned @ [(''mac'', JStr ?m)]))" using m(2) by simp
  ultimately show ?thesis by (auto simp: succeeds_iff encode_iff)
qed

end
