(* ===== verification/Bridge_Properties.thy ===== *)
theory Bridge_Properties
  imports Bridge_Scenario
begin

text \<open>The properties of the agent bridge: its codec, its signatures and its sessions.\<close>

section \<open>Codec\<close>

text \<open>
  C10.  A line and the envelope it carries determine each other.  What an encoded envelope decodes to is its
  canonical form, and an envelope is decoded from a line exactly if it is canonical and the line is its
  encoding: no second byte sequence is accepted for it.
\<close>

theorem bridge_lines_roundtrip:
  assumes "distinctKeys e"
  shows "(encodeBridgeLine engine e = Inr l \<longrightarrow> decodeBridgeLine num engine l = canonicalize e) \<and>
    (decodeBridgeLine num engine l = Inr e \<longleftrightarrow> encodeBridgeLine engine e = Inr l \<and> canonicalize e = Inr e)"
proof -
  have c: "canonicalize e = Inr (normalizeJson e)" if "encodeBridgeLine engine e = Inr l"
    using that by (simp add: encode_iff canonicalize_iff)
  then show ?thesis
    using encode_then_decode [OF _ assms, of engine l num] decode_then_encode [of num engine l e] by auto
qed

theorem bridge_lines_roundtrip_witness:
  "\<exists>l. encodeBridgeLine plainEngine toySigned = Inr l \<and> decodeBridgeLine plainNum plainEngine l = canonicalize toySigned"
  using toy_sent bridge_lines_roundtrip [OF toy_distinct(2), of plainEngine _ plainNum] by blast

text \<open>
  C11.  \<open>BoundedBridgeLineBuffer\<close> and \<open>decodeBridgeBatch\<close> agree.  A byte sequence is accepted as a batch exactly
  if it is accepted chunk by chunk, however it is divided, with the same frames and nothing left over, and
  the batch limits hold.  Whatever was pushed is the encodings of the delivered frames and the buffer.
\<close>

theorem bridge_chunks_equal_batch:
  "(decodeBridgeBatch num engine (concat chunks) = Inr fs \<longleftrightarrow>
     pushAll num engine chunks [] = (Inr fs, []) \<and> fs \<noteq> [] \<and> length fs \<le> MAX_BRIDGE_BATCH_FRAMES \<and>
     length (concat chunks) \<le> MAX_BRIDGE_BUFFER_BYTES) \<and>
   (pushAll num engine chunks [] = (Inr fs, b) \<longrightarrow>
     (\<exists>lines. emap (encodeBridgeLine engine) fs = Inr lines \<and> concat chunks = concat lines @ b))"
proof (intro conjI impI iffI)
  assume "decodeBridgeBatch num engine (concat chunks) = Inr fs"
  then obtain lines where l: "concat chunks \<noteq> []" "length (concat chunks) \<le> MAX_BRIDGE_BUFFER_BYTES" "length fs \<le> 32"
    "emap (decodeBridgeLine num engine) lines = Inr fs" "concat chunks = concat lines"
    unfolding batch_frames by blast
  show "pushAll num engine chunks [] = (Inr fs, [])"
    by (rule pushAll_frames [OF l(4)]) (use l in auto)
  show "fs \<noteq> []" using frames_nonempty [OF l(4)] l(1,5) by auto
  show "length fs \<le> MAX_BRIDGE_BATCH_FRAMES" "length (concat chunks) \<le> MAX_BRIDGE_BUFFER_BYTES"
    using l by (simp_all add: MAX_BRIDGE_BATCH_FRAMES_def)
next
  assume a: "pushAll num engine chunks [] = (Inr fs, []) \<and> fs \<noteq> [] \<and> length fs \<le> MAX_BRIDGE_BATCH_FRAMES \<and>
     length (concat chunks) \<le> MAX_BRIDGE_BUFFER_BYTES"
  then obtain lines where l: "emap (decodeBridgeLine num engine) lines = Inr fs" "concat chunks = concat lines"
    using pushAll_Inr [of num engine chunks "[]" fs "[]"] by auto
  then show "decodeBridgeBatch num engine (concat chunks) = Inr fs"
    unfolding batch_frames using a frames_nonempty [OF l(1)] by (auto simp: MAX_BRIDGE_BATCH_FRAMES_def)
next
  assume "pushAll num engine chunks [] = (Inr fs, b)"
  from pushAll_Inr [OF this] show "\<exists>lines. emap (encodeBridgeLine engine) fs = Inr lines \<and> concat chunks = concat lines @ b"
    using decodes_encode by auto
qed

theorem bridge_chunks_equal_batch_witness:
  "\<exists>l. decodeBridgeBatch plainNum plainEngine (concat [take 99 l, drop 99 l]) = Inr [toyFrame] \<and>
     pushAll plainNum plainEngine [take 99 l, drop 99 l] [] = (Inr [toyFrame], []) \<and>
     (\<exists>lines. emap (encodeBridgeLine plainEngine) [toyFrame] = Inr lines \<and> l = concat lines @ [])"
proof -
  obtain l where l: "encodeBridgeLine plainEngine toySigned = Inr l" "length l \<le> 1000" using toy_sent by blast
  have d: "decodeBridgeLine plainNum plainEngine l = Inr toyFrame"
    using encode_then_decode [OF l(1) toy_distinct(2)] by (simp add: toyFrame_def)
  then have "l \<noteq> []" by (auto elim: decode_line)
  with d l(2) have "decodeBridgeBatch plainNum plainEngine (concat [take 99 l, drop 99 l]) = Inr [toyFrame]"
    unfolding batch_frames by (auto simp: MAX_BRIDGE_BUFFER_BYTES_def intro!: exI [of _ "[l]"])
  with bridge_chunks_equal_batch [of plainNum plainEngine "[take 99 l, drop 99 l]" "[toyFrame]" "[]"]
  show ?thesis by (intro exI [of _ l]) simp
qed

section \<open>Signatures\<close>

text \<open>
  C18.  A signed envelope that can be sent is accepted: what the receiver decodes from the line verifies under
  the same key, for the scope it was made for and while its window is open.  And an authenticator speaks for
  one message: if another envelope with it is accepted under the key, it is the same message, unless the
  keyed hash collides.
\<close>

theorem signed_envelope_accepted:
  assumes "signBridgeEnvelope cr engine e k = Inr signed" "encodeBridgeLine engine signed = Inr l"
    and "distinctKeys e" "map_of (members e) ''mac'' = None" "\<forall>(fld, v) \<in> set (scopeFields expected). getProp e fld = JStr v"
    and "timeOf engine e ''issuedAt'' \<le> now + 30000" "now < timeOf engine e ''expiresAt''"
  shows "\<exists>r. decodeBridgeLine num engine l = Inr r \<and> canonicalize signed = Inr r \<and>
    verifyBridgeEnvelope cr engine r k expected now = Inr () \<and>
    (\<forall>r' expected' now'. verifyBridgeEnvelope cr engine r' k expected' now' = Inr () \<and> distinctKeys r' \<and> getProp r' ''mac'' = getProp r ''mac'' \<longrightarrow>
       normalizeJson r' = r \<or> signedText r' \<noteq> signedText r \<and> hmac cr k (signedText r') = hmac cr k (signedText r))"
proof (intro exI [of _ "normalizeJson signed"] conjI allI impI)
  have d: "distinctKeys signed" by (rule sign_distinctKeys [OF assms(1,3)])
  show "decodeBridgeLine num engine l = Inr (normalizeJson signed)" by (rule encode_then_decode [OF assms(2) d])
  show "canonicalize signed = Inr (normalizeJson signed)" using assms(2) by (simp add: encode_iff canonicalize_iff)
  have "verifyBridgeEnvelope cr engine signed k expected now = Inr ()" by (rule sign_verify) (use assms in auto)
  then show v: "verifyBridgeEnvelope cr engine (normalizeJson signed) k expected now = Inr ()" by (rule verify_normalize [OF _ d])
  fix r' :: json and expected' :: "'b BridgeScope_scheme" and now'
  assume "verifyBridgeEnvelope cr engine r' k expected' now' = Inr () \<and> distinctKeys r' \<and> getProp r' ''mac'' = getProp (normalizeJson signed) ''mac''"
  then show "normalizeJson r' = normalizeJson signed \<or>
      signedText r' \<noteq> signedText (normalizeJson signed) \<and> hmac cr k (signedText r') = hmac cr k (signedText (normalizeJson signed))"
    using verified_same_mac [of cr engine r' k expected' now' "normalizeJson signed" expected now] v distinctKeys_normalize [OF d] by auto
qed

theorem signed_envelope_accepted_witness:
  "\<exists>l r. encodeBridgeLine plainEngine toySigned = Inr l \<and> decodeBridgeLine plainNum plainEngine l = Inr r \<and>
     verifyBridgeEnvelope toyCrypto plainEngine r toySecret (contextOf toyInput) toyNow = Inr ()"
proof -
  obtain l where l: "encodeBridgeLine plainEngine toySigned = Inr l" using toy_sent by blast
  have "timeOf plainEngine toyUnsigned ''issuedAt'' \<le> toyNow + 30000" "toyNow < timeOf plainEngine toyUnsigned ''expiresAt''"
    using toy_times by simp_all
  with signed_envelope_accepted [OF toy_signed l toy_distinct(1,3) toy_scope, of toyNow plainNum toySecret] l show ?thesis by blast
qed

section \<open>Sessions\<close>

text \<open>
  C12.  In every reachable state of a session the frames it has delivered are in order: they are numbered
  1, 2, 3 and so on, the first one and only the first announces capabilities, every payload is safe, and the bytes the
  session has taken are the encodings of these frames followed by what it has buffered.  The counters of the
  snapshot say so, and no limit is exceeded.
\<close>

theorem session_delivers_in_order:
  assumes "reach (sstart engine) (sstep cr num engine) y"
  shows "(\<exists>lines r. emap (encodeBridgeLine engine) (sy_frames y) = Inr lines \<and> sy_stream y = concat lines @ r \<and>
      (se_state (sy_session y) = SESSION_ACTIVE \<longrightarrow> r = se_buffer (sy_session y))) \<and>
    (\<forall>i < length (sy_frames y). getProp (sy_frames y ! i) ''sequence'' = JNum (SafeInt (int i + 1)) \<and>
      (getProp (sy_frames y ! i) ''type'' = JStr ''CAPABILITIES'') = (i = 0) \<and>
      validatePayload (getProp (sy_frames y ! i) ''payload'') = Inr ()) \<and>
    sn_nextSequence (snapshot (sy_session y)) = int (length (sy_frames y)) + 1 \<and>
    sn_acceptedFrames (snapshot (sy_session y)) = length (sy_frames y) \<and> length (sy_frames y) \<le> 256 \<and>
    sn_ingestedBytes (snapshot (sy_session y)) = length (sy_stream y) \<and> length (sy_stream y) \<le> 8 * 1024 * 1024 \<and>
    sn_bufferedBytes (snapshot (sy_session y)) < 65536"
proof -
  have i: "historyOk cr num engine y" "countersOk y" using bridge_stream.reach_inv [OF assms] by (simp_all add: sessionInv_def)
  have k: "(getProp f ''type'' = JStr ''CAPABILITIES'') = (kindOf f = ''CAPABILITIES'')" for f
    by (cases "getProp f ''type''") auto
  have "orderly 1 False (sy_frames y)" using i(1) by (simp add: historyOk_def)
  from orderly_nth [OF this] i show ?thesis
    using decodes_encode
    by (fastforce simp: historyOk_def countersOk_def snapshot_def k Let_def add.commute
        MAX_AUTHENTICATED_SESSION_FRAMES_def MAX_AUTHENTICATED_SESSION_BYTES_def)
qed

text \<open>
  C34.  Honest traffic is delivered.  If a chunk consists of canonical frames in order, within the limits, and
  the resolver answers with the secret of the session before session and frames expire, then the call runs
  through to the end, returns exactly these frames, and leaves the session active, idle and ready for the
  next sequence number.
\<close>

theorem honest_traffic_delivered:
  assumes "se_state s = SESSION_ACTIVE" "\<not> se_ingesting s" "se_buffer s = []" "fs \<noteq> []"
    and "emap (encodeBridgeLine engine) fs = Inr lines" "\<forall>f \<in> set fs. distinctKeys f \<and> normalizeJson f = f"
    and "orderly (se_nextSequence s) (se_capabilitiesAccepted s) fs" "length fs \<le> MAX_AUTHENTICATED_BATCH_FRAMES"
    and "length (concat lines) \<le> MAX_AUTHENTICATED_INGEST_BYTES"
    and "se_ingestedBytes s + length (concat lines) \<le> MAX_AUTHENTICATED_SESSION_BYTES"
    and "se_acceptedFrames s + length fs \<le> MAX_AUTHENTICATED_SESSION_FRAMES"
    and "now < contextTime engine (bx_expiresAt (se_context s))" "observedAt < contextTime engine (bx_expiresAt (se_context s))"
    and "commitAt < contextTime engine (bx_expiresAt (se_context s))"
    and "goodSecret cr (se_context s) secret" "\<forall>f \<in> set fs. honestFrame cr engine (se_context s) secret observedAt commitAt f"
  shows "\<exists>c s1 s2 s3. ingestBegin num engine now (Some (concat lines)) s = (Inr (Leasing c), s1) \<and>
    ingestLease cr engine observedAt (ScopedLease (SourceBytes secret)) s1 c = Committing c (Inr ()) \<and>
    ingestCommit engine commitAt c (Inr ()) s1 = (Inr fs, s2) \<and> ingestConclude (Inr fs) s2 = (Inr fs, s3) \<and>
    se_state s3 = SESSION_ACTIVE \<and> \<not> se_ingesting s3 \<and> se_buffer s3 = [] \<and>
    se_nextSequence s3 = se_nextSequence s + int (length fs)"
proof -
  let ?c = "\<lparr>ca_envelopes = fs, ca_remainder = [], ca_chunkLength = length (concat lines),
       ca_expectedSequence = se_nextSequence s + int (length fs), ca_capabilitiesAccepted = True\<rparr>"
  let ?s = "s\<lparr>se_ingesting := True\<rparr>"
  have b: "ingestBegin num engine now (Some (concat lines)) s = (Inr (Leasing ?c), ?s)"
    by (rule honest_begin) (fact assms)+
  have l: "ingestLease cr engine observedAt (ScopedLease (SourceBytes secret)) ?s ?c = Committing ?c (Inr ())"
    by (rule honest_lease) (use assms in simp_all)
  obtain t where t: "ingestCommit engine commitAt ?c (Inr ()) ?s = (Inr fs, t)" "se_state t = SESSION_ACTIVE" "se_buffer t = []"
    "se_nextSequence t = se_nextSequence s + int (length fs)"
    using honest_commit [of ?s commitAt engine ?c cr secret observedAt] assms by auto
  show ?thesis using b l t
    by (intro exI [of _ ?c] exI [of _ ?s] exI [of _ t] exI [of _ "t\<lparr>se_ingesting := False\<rparr>"]) (simp add: ingestConclude_def)
qed

text \<open>The steps of the small session.\<close>

definition toySystem :: SessionSystem where
  "toySystem = \<lparr>sy_session = toySession, sy_pending = None, sy_chunk = [], sy_frames = [], sy_stream = []\<rparr>"

lemma toySystem_start: "reach (sstart plainEngine) (sstep toyCrypto plainNum plainEngine) toySystem"
  by (rule reach_init) (use toy_start in \<open>auto simp: sstart_def toySystem_def\<close>)

lemma toy_hypotheses:
  "\<forall>f \<in> set [toyFrame]. distinctKeys f \<and> normalizeJson f = f" "length [toyFrame] \<le> MAX_AUTHENTICATED_BATCH_FRAMES"
  "se_acceptedFrames toySession + length [toyFrame] \<le> MAX_AUTHENTICATED_SESSION_FRAMES"
  "\<forall>f \<in> set [toyFrame]. honestFrame toyCrypto plainEngine (se_context toySession) toySecret toyNow toyNow f"
  "goodSecret toyCrypto (se_context toySession) toySecret" "toyNow < contextTime plainEngine (bx_expiresAt (se_context toySession))"
  "orderly (se_nextSequence toySession) (se_capabilitiesAccepted toySession) [toyFrame]"
  "se_state toySession = SESSION_ACTIVE" "\<not> se_ingesting toySession" "se_buffer toySession = []"
  using toy_honest toy_secret toy_times(1) toy_orderly distinctKeys_normalize [OF toy_distinct(2)]
  by (simp_all add: toySession_def toyFrame_def POST_AUTH_TYPES_def MAX_AUTHENTICATED_BATCH_FRAMES_def MAX_AUTHENTICATED_SESSION_FRAMES_def)

lemma toy_line:
  obtains l where "emap (encodeBridgeLine plainEngine) [toyFrame] = Inr [l]" "length (concat [l]) \<le> MAX_AUTHENTICATED_INGEST_BYTES"
    "se_ingestedBytes toySession + length (concat [l]) \<le> MAX_AUTHENTICATED_SESSION_BYTES"
proof -
  obtain l where l: "encodeBridgeLine plainEngine toySigned = Inr l" "length l \<le> 1000" using toy_sent by blast
  show thesis
    by (rule that [of l]) (use l(2) encode_normalized [OF l(1) toy_distinct(2)] in
      \<open>simp_all add: toyFrame_def toySession_def MAX_AUTHENTICATED_INGEST_BYTES_def MAX_AUTHENTICATED_SESSION_BYTES_def\<close>)
qed

theorem honest_traffic_delivered_witness:
  "\<exists>l c s1 s2 s3. ingestBegin plainNum plainEngine toyNow (Some l) toySession = (Inr (Leasing c), s1) \<and>
    ingestLease toyCrypto plainEngine toyNow (ScopedLease (SourceBytes toySecret)) s1 c = Committing c (Inr ()) \<and>
    ingestCommit plainEngine toyNow c (Inr ()) s1 = (Inr [toyFrame], s2) \<and> ingestConclude (Inr [toyFrame]) s2 = (Inr [toyFrame], s3) \<and>
    se_state s3 = SESSION_ACTIVE"
proof -
  obtain l where l: "emap (encodeBridgeLine plainEngine) [toyFrame] = Inr [l]" "length (concat [l]) \<le> MAX_AUTHENTICATED_INGEST_BYTES"
    "se_ingestedBytes toySession + length (concat [l]) \<le> MAX_AUTHENTICATED_SESSION_BYTES" by (rule toy_line)
  from honest_traffic_delivered [OF toy_hypotheses(8-10) not_Cons_self2 l(1) toy_hypotheses(1,7,2) l(2,3) toy_hypotheses(3,6,6,6,5,4), of plainNum]
  show ?thesis by blast
qed

lemma toy_delivered:
  "\<exists>y. reach (sstart plainEngine) (sstep toyCrypto plainNum plainEngine) y \<and> sy_frames y = [toyFrame] \<and> se_state (sy_session y) = SESSION_ACTIVE"
proof -
  let ?S = "sstep toyCrypto plainNum plainEngine" and ?R = "reach (sstart plainEngine) (sstep toyCrypto plainNum plainEngine)"
  obtain l where l: "emap (encodeBridgeLine plainEngine) [toyFrame] = Inr [l]" "length (concat [l]) \<le> MAX_AUTHENTICATED_INGEST_BYTES"
    "se_ingestedBytes toySession + length (concat [l]) \<le> MAX_AUTHENTICATED_SESSION_BYTES" by (rule toy_line)
  define c where "c = \<lparr>ca_envelopes = [toyFrame], ca_remainder = [], ca_chunkLength = length (concat [l]),
       ca_expectedSequence = se_nextSequence toySession + int (length [toyFrame]), ca_capabilitiesAccepted = True\<rparr>"
  have b: "ingestBegin plainNum plainEngine toyNow (Some (concat [l])) toySession = (Inr (Leasing c), toySession\<lparr>se_ingesting := True\<rparr>)"
    unfolding c_def by (rule honest_begin [OF toy_hypotheses(8-10) not_Cons_self2 l(1) toy_hypotheses(1,7,2) l(2,3) toy_hypotheses(3,6)])
  let ?y1 = "toySystem\<lparr>sy_session := toySession\<lparr>se_ingesting := True\<rparr>, sy_pending := Some (Leasing c), sy_chunk := bytesOf (Some (concat [l]))\<rparr>"
  have 1: "?R ?y1"
    by (rule reach_step [OF toySystem_start]) (rule sstep.call_leasing, use b in \<open>simp add: toySystem_def\<close>)
  have v: "ingestLease toyCrypto plainEngine toyNow (ScopedLease (SourceBytes toySecret)) (sy_session ?y1) c = Committing c (Inr ())"
    by (rule honest_lease [where commitAt = toyNow]) (use toy_hypotheses in \<open>simp_all add: c_def\<close>)
  let ?y2 = "?y1\<lparr>sy_pending := Some (Committing c (Inr ()))\<rparr>"
  have 2: "?R ?y2"
    using reach_step [OF 1 sstep.leased [of ?y1 c toyCrypto plainNum plainEngine toyNow "ScopedLease (SourceBytes toySecret)"]] v by simp
  obtain t where t: "ingestCommit plainEngine toyNow c (Inr ()) (sy_session ?y2) = (Inr [toyFrame], t)" "se_state t = SESSION_ACTIVE"
    using honest_commit [of "sy_session ?y2" toyNow plainEngine c toyCrypto toySecret toyNow] toy_hypotheses by (auto simp: c_def)
  have "?S ?y2 (?y2\<lparr>sy_session := t, sy_pending := Some (Concluding (Inr [toyFrame])), sy_frames := sy_frames ?y2 @ [toyFrame],
      sy_stream := sy_stream ?y2 @ sy_chunk ?y2\<rparr>)"
    by (rule sstep.committed [OF _ t(1)]) simp
  from reach_step [OF 2 this] show ?thesis using t(2) by (intro exI conjI) (assumption, simp_all add: toySystem_def)
qed

theorem session_delivers_in_order_witness:
  "\<exists>y. reach (sstart plainEngine) (sstep toyCrypto plainNum plainEngine) y \<and> sy_frames y = [toyFrame] \<and>
     sn_nextSequence (snapshot (sy_session y)) = 2 \<and> sn_acceptedFrames (snapshot (sy_session y)) = 1"
proof -
  obtain y where y: "reach (sstart plainEngine) (sstep toyCrypto plainNum plainEngine) y" "sy_frames y = [toyFrame]" using toy_delivered by blast
  then show ?thesis using session_delivers_in_order [OF y(1)] by (intro exI [of _ y]) auto
qed

text \<open>
  C15.  Every frame a session ever delivers is authentic: it was verified with the key derived, for this
  context, from a secret with the digest the context names; it carries the identities of the session, its
  payload matches its digest, its authenticator is the keyed hash of the rest of the frame, and its window lies
  inside the lifetime of the session.
\<close>

theorem session_frames_authentic:
  assumes "reach (sstart engine) (sstep cr num engine) y" "f \<in> set (sy_frames y)"
  shows "\<exists>secret ks now. (let cx = se_context (sy_session y) in
    exactDigestMatch (digestSecretReference cr secret) (bx_expectedSecretDigest cx) = Inr True \<and> deriveBridgeKeys cr secret cx = Inr ks \<and>
    verifyBridgeEnvelope cr engine f (runtimeToParent ks) cx now = Inr () \<and>
    getProp f ''workspaceId'' = JStr (bc_workspaceId cx) \<and> getProp f ''sessionId'' = JStr (bc_sessionId cx) \<and>
    digestBridgePayload cr (getProp f ''payload'') = Inr (textOf (getProp f ''payloadDigest'')) \<and>
    base64urlDecode (textOf (getProp f ''mac'')) = hmac cr (runtimeToParent ks) (signedText f) \<and>
    contextTime engine (bx_authenticatedAt cx) \<le> timeOf engine f ''issuedAt'' \<and>
    timeOf engine f ''expiresAt'' \<le> contextTime engine (bx_expiresAt cx) \<and>
    now < timeOf engine f ''expiresAt'' \<and> now < contextTime engine (bx_expiresAt cx))"
proof -
  have "historyOk cr num engine y" using bridge_stream.reach_inv [OF assms(1)] by (simp add: sessionInv_def)
  then have "authentic cr engine (se_context (sy_session y)) f" using assms(2) by (simp add: historyOk_def)
  then obtain secret ks now where a: "exactDigestMatch (digestSecretReference cr secret) (bx_expectedSecretDigest (se_context (sy_session y))) = Inr True"
    "deriveBridgeKeys cr secret (se_context (sy_session y)) = Inr ks" "now < contextTime engine (bx_expiresAt (se_context (sy_session y)))"
    "contextTime engine (bx_authenticatedAt (se_context (sy_session y))) \<le> timeOf engine f ''issuedAt''"
    "timeOf engine f ''expiresAt'' \<le> contextTime engine (bx_expiresAt (se_context (sy_session y)))"
    "verifyBridgeEnvelope cr engine f (runtimeToParent ks) (se_context (sy_session y)) now = Inr ()"
    unfolding authentic_def by blast
  then show ?thesis
    by (intro exI [of _ secret] exI [of _ ks] exI [of _ now])
      (simp add: Let_def verify_iff scopeFields_def signedText_def digestBridgePayload_def canonicalJson_iff [THEN iffD2])
qed

theorem session_frames_authentic_witness:
  "\<exists>y secret ks now. reach (sstart plainEngine) (sstep toyCrypto plainNum plainEngine) y \<and> toyFrame \<in> set (sy_frames y) \<and>
     deriveBridgeKeys toyCrypto secret (se_context (sy_session y)) = Inr ks \<and>
     verifyBridgeEnvelope toyCrypto plainEngine (toyFrame) (runtimeToParent ks) (se_context (sy_session y)) now = Inr ()"
proof -
  obtain y where y: "reach (sstart plainEngine) (sstep toyCrypto plainNum plainEngine) y" "toyFrame \<in> set (sy_frames y)"
    using toy_delivered by auto
  then show ?thesis using session_frames_authentic [OF y] unfolding Let_def by blast
qed

lemma failed_step:
  assumes "sstep cr num engine y z" "se_state (sy_session y) = SESSION_FAILED"
  shows "se_state (sy_session z) = SESSION_FAILED \<and> sy_frames z = sy_frames y \<and> sy_stream z = sy_stream y"
  using assms
  by (induction rule: sstep.induct)
    (auto simp: ingestBegin_def ingestCommit_def ingestConclude_def split: sum.splits if_split_asm)

lemma failed_steps:
  "(sstep cr num engine)\<^sup>*\<^sup>* y z \<Longrightarrow> se_state (sy_session y) = SESSION_FAILED \<Longrightarrow>
   se_state (sy_session z) = SESSION_FAILED \<and> sy_frames z = sy_frames y \<and> sy_stream z = sy_stream y"
  by (induction rule: rtranclp_induct) (auto dest: failed_step)

text \<open>
  C17.  Failure is final.  A call that ends in an error, and a call that overlaps another one, fails the session
  and drops its buffer; a failed session stays failed whatever happens, delivers nothing more, and refuses
  every call without changing.
\<close>

theorem failed_session_final:
  assumes "(sstep cr num engine)\<^sup>*\<^sup>* y z"
  shows "(ingestConclude (Inl e) s = (r, t) \<longrightarrow> r = Inl (sanitized e) \<and> se_state t = SESSION_FAILED \<and> se_buffer t = []) \<and>
    (se_state s = SESSION_ACTIVE \<and> se_ingesting s \<longrightarrow>
      ingestBegin num engine now chunk s = (Inl CONCURRENT_INGEST, s\<lparr>se_state := SESSION_FAILED, se_buffer := []\<rparr>)) \<and>
    (se_state (sy_session y) = SESSION_FAILED \<longrightarrow>
      se_state (sy_session z) = SESSION_FAILED \<and> sy_frames z = sy_frames y \<and> sy_stream z = sy_stream y \<and>
      ingestBegin num engine now chunk (sy_session z) = (Inl TERMINAL, sy_session z))"
  using failed_steps [OF assms] by (auto simp: ingestConclude_def ingestBegin_def)

theorem failed_session_final_witness:
  "\<exists>s. ingestBegin plainNum plainEngine toyNow (Some ''x'') (toySession\<lparr>se_ingesting := True\<rparr>) = (Inl CONCURRENT_INGEST, s) \<and>
     se_state s = SESSION_FAILED \<and> ingestBegin plainNum plainEngine toyNow (Some ''x'') s = (Inl TERMINAL, s)"
proof -
  let ?s = "toySession\<lparr>se_ingesting := True, se_state := SESSION_FAILED, se_buffer := []\<rparr>"
  have "(sstep toyCrypto plainNum plainEngine)\<^sup>*\<^sup>* (toySystem\<lparr>sy_session := ?s\<rparr>) (toySystem\<lparr>sy_session := ?s\<rparr>)" by simp
  from failed_session_final [OF this, of OtherError "toySession\<lparr>se_ingesting := True\<rparr>" "Inr []" ?s toyNow "Some ''x''"]
  show ?thesis by (intro exI [of _ ?s]) (simp add: toySession_def)
qed

end
