(* ===== verification/Policy_Engine.thy ===== *)
theory Policy_Engine
  imports Complex_Main Js_Regex Js_Date Js_Array
begin

text \<open>
  \<open>packages/policy-engine/src\<close>: the core publication policies (\<open>policies.ts\<close>), the vote of the board
  (\<open>board-voting.ts\<close>) and the compliance gate of an opportunity (\<open>opportunity-compliance.ts\<close>).  Amounts,
  weights and scores are rational numbers: the whole default weights, their halves and sums are exact in
  double precision; custom weights are those whose halves and sums are.  A date is its time value, valid
  within \<open>MAX_TIME\<close>.
\<close>

datatype policy_error = PolicyRangeError string

section \<open>\<open>policies.ts\<close>\<close>

datatype PolicyResult = POLICY_PASS | POLICY_FAIL | POLICY_WARN

datatype policy_input = InBool bool | InNumber rat

record PolicyEvaluation =
  pe_policyId :: string
  pe_policyVersion :: string
  pe_result :: PolicyResult
  pe_explanation :: string
  pe_inputs :: "(string \<times> policy_input) list"
  pe_blocking :: bool
  pe_remediation :: "string option"
  pe_evaluatedAt :: string

record PolicyContext =
  pc_now :: int
  pc_approvalExists :: bool
  pc_approvalMatchesVersion :: bool
  pc_approvalMatchesHash :: bool
  pc_approvalExpired :: bool
  pc_requestedCostEur :: rat
  pc_approvedMaxCostEur :: rat
  pc_hasCriticalComplianceRisk :: bool
  pc_hasCriticalSecurityRisk :: bool
  pc_hasCriticalQualityIssue :: bool
  pc_hasMissingLicence :: bool
  pc_marketplacePolicyPackExpired :: bool
  pc_evidenceComplete :: bool
  pc_financialDataValid :: bool

definition evalResult :: "string \<Rightarrow> string \<Rightarrow> bool \<Rightarrow> string \<Rightarrow> (string \<times> policy_input) list \<Rightarrow> bool \<Rightarrow> string \<Rightarrow> string option \<Rightarrow> PolicyEvaluation" where
  "evalResult i version pass explanation inputs blocking evaluatedAt remediation =
     \<lparr>pe_policyId = i, pe_policyVersion = version, pe_result = (if pass then POLICY_PASS else POLICY_FAIL), pe_explanation = explanation,
      pe_inputs = inputs, pe_blocking = (\<not> pass \<and> blocking), pe_remediation = (if pass then None else remediation),
      pe_evaluatedAt = evaluatedAt\<rparr>"

text \<open>\<open>toISOString\<close> throws for an invalid date, in the first evaluation already.\<close>

definition evaluateCorePolicies :: "PolicyContext \<Rightarrow> policy_error + PolicyEvaluation list" where
  "evaluateCorePolicies ctx = (case toISOString (pc_now ctx) of
     None \<Rightarrow> Inl (PolicyRangeError ''Invalid time value'')
   | Some now \<Rightarrow> (let v = ''v1'' in Inr
      [evalResult ''POL-001-external-publication-requires-approval'' v (pc_approvalExists ctx)
         ''External publication requires a valid founder approval record.''
         [(''approvalExists'', InBool (pc_approvalExists ctx))] True now
         (Some ''Create and obtain a founder approval before publishing.''),
       evalResult ''POL-002-approval-matches-version'' v (pc_approvalMatchesVersion ctx)
         ''Approval must reference the exact current artefact version.''
         [(''approvalMatchesVersion'', InBool (pc_approvalMatchesVersion ctx))] True now
         (Some ''Re-request approval for the current artefact version.''),
       evalResult ''POL-003-approval-matches-hash'' v (pc_approvalMatchesHash ctx)
         ''Approval must reference the exact current package hash.''
         [(''approvalMatchesHash'', InBool (pc_approvalMatchesHash ctx))] True now
         (Some ''Re-request approval; the package has changed since approval was granted.''),
       evalResult ''POL-004-approval-not-expired'' v (\<not> pc_approvalExpired ctx)
         ''Approval must not be expired.''
         [(''approvalExpired'', InBool (pc_approvalExpired ctx))] True now
         (Some ''Request a fresh approval.''),
       evalResult ''POL-005-spending-within-max'' v (pc_requestedCostEur ctx \<le> pc_approvedMaxCostEur ctx)
         ''Spending must not exceed the approved maximum.''
         [(''requestedCostEur'', InNumber (pc_requestedCostEur ctx)), (''approvedMaxCostEur'', InNumber (pc_approvedMaxCostEur ctx))] True now
         (Some ''Reduce spend or request a higher approved maximum.''),
       evalResult ''POL-006-no-critical-compliance-risk'' v (\<not> pc_hasCriticalComplianceRisk ctx)
         ''Critical compliance risk blocks publication.''
         [(''hasCriticalComplianceRisk'', InBool (pc_hasCriticalComplianceRisk ctx))] True now
         (Some ''Resolve the compliance veto before proceeding.''),
       evalResult ''POL-007-no-critical-security-risk'' v (\<not> pc_hasCriticalSecurityRisk ctx)
         ''Critical security risk blocks execution.''
         [(''hasCriticalSecurityRisk'', InBool (pc_hasCriticalSecurityRisk ctx))] True now
         (Some ''Resolve the security veto before proceeding.''),
       evalResult ''POL-008-no-critical-quality-issue'' v (\<not> pc_hasCriticalQualityIssue ctx)
         ''Critical quality issue blocks publication.''
         [(''hasCriticalQualityIssue'', InBool (pc_hasCriticalQualityIssue ctx))] True now
         (Some ''Resolve the quality veto before proceeding.''),
       evalResult ''POL-009-no-missing-licence'' v (\<not> pc_hasMissingLicence ctx)
         ''Missing licence blocks publication.''
         [(''hasMissingLicence'', InBool (pc_hasMissingLicence ctx))] True now
         (Some ''Attach all required licence records.''),
       evalResult ''POL-010-marketplace-pack-not-expired'' v (\<not> pc_marketplacePolicyPackExpired ctx)
         ''Expired marketplace policy pack blocks publication.''
         [(''marketplacePolicyPackExpired'', InBool (pc_marketplacePolicyPackExpired ctx))] True now
         (Some ''Refresh/re-verify the marketplace policy pack.''),
       evalResult ''POL-011-financial-data-valid'' v (pc_financialDataValid ctx)
         ''Invalid financial data blocks founder submission.''
         [(''financialDataValid'', InBool (pc_financialDataValid ctx))] True now
         (Some ''Fix financial assumptions/calculations before submitting.''),
       evalResult ''POL-012-evidence-complete'' v (pc_evidenceComplete ctx)
         ''Missing evidence blocks board completion.''
         [(''evidenceComplete'', InBool (pc_evidenceComplete ctx))] True now
         (Some ''Attach required evidence records.'')]))"

definition hasBlockingFailure :: "PolicyEvaluation list \<Rightarrow> bool" where
  "hasBlockingFailure evaluations = (\<exists>e \<in> set evaluations. pe_result e = POLICY_FAIL \<and> pe_blocking e)"

section \<open>\<open>board-voting.ts\<close>\<close>

datatype VetoType = VETO_NONE | VETO_FINANCE | VETO_COMPLIANCE | VETO_SECURITY | VETO_QUALITY

datatype BoardDecision = APPROVE | REVISE | REJECT

text \<open>The fields of an agent output that the vote reads.\<close>

record AgentOutput =
  ao_agentRole :: string
  ao_decision :: BoardDecision
  ao_vetoActive :: bool
  ao_vetoType :: VetoType
  ao_vetoReason :: string

definition BOARD_AGENT_ROLES :: "string list" where
  "BOARD_AGENT_ROLES = [''MARKET_INTELLIGENCE_DIRECTOR'', ''PRODUCT_STRATEGY_DIRECTOR'', ''CREATIVE_AND_PRODUCTION_DIRECTOR'',
     ''FINANCE_AND_RISK_OFFICER'', ''GROWTH_DIRECTOR'', ''COMPLIANCE_AND_MARKETPLACE_POLICY_OFFICER'',
     ''OPERATIONS_AND_QUALITY_OFFICER'', ''RED_TEAM_AND_SECURITY_OFFICER'']"

definition CRITICAL_VETO_ROLES :: "VetoType jsmap" where
  "CRITICAL_VETO_ROLES = [(''FINANCE_AND_RISK_OFFICER'', VETO_FINANCE), (''COMPLIANCE_AND_MARKETPLACE_POLICY_OFFICER'', VETO_COMPLIANCE),
     (''OPERATIONS_AND_QUALITY_OFFICER'', VETO_QUALITY), (''RED_TEAM_AND_SECURITY_OFFICER'', VETO_SECURITY)]"

definition DEFAULT_AGENT_WEIGHTS :: "rat jsmap" where
  "DEFAULT_AGENT_WEIGHTS = [(''MARKET_INTELLIGENCE_DIRECTOR'', 15), (''PRODUCT_STRATEGY_DIRECTOR'', 15), (''CREATIVE_AND_PRODUCTION_DIRECTOR'', 10),
     (''FINANCE_AND_RISK_OFFICER'', 15), (''GROWTH_DIRECTOR'', 10), (''COMPLIANCE_AND_MARKETPLACE_POLICY_OFFICER'', 15),
     (''OPERATIONS_AND_QUALITY_OFFICER'', 10), (''RED_TEAM_AND_SECURITY_OFFICER'', 10)]"

record VotingOptions =
  vo_weights :: "rat jsmap option"
  vo_approvalThreshold :: "rat option"
  vo_requiredRoles :: "string list option"
  vo_evidenceQualityScore :: "rat option"
  vo_evidenceQualityMinimum :: "rat option"

text \<open>Why a vote is blocked; the source builds a sentence from each.\<close>

datatype BlockingReason = MissingReviews "string list" | CriticalVetoes "(string \<times> VetoType \<times> string) list" | WeakEvidence rat rat

text \<open>The weighted score is \<open>None\<close> where the source computes \<open>NaN\<close>.\<close>

record BoardVotingResult =
  bv_weightedScore :: "rat option"
  bv_approvalThreshold :: rat
  bv_meetsThreshold :: bool
  bv_activeCriticalVetoes :: "(string \<times> VetoType \<times> string) list"
  bv_blocked :: bool
  bv_blockingReasons :: "BlockingReason list"
  bv_missingReviews :: "string list"

definition orDefault :: "'a option \<Rightarrow> 'a \<Rightarrow> 'a" where
  "orDefault v d = (case v of None \<Rightarrow> d | Some x \<Rightarrow> x)"

text \<open>\<open>Math.round(x * 100) / 100\<close>: halves are rounded up.\<close>

definition round2 :: "rat \<Rightarrow> rat" where
  "round2 x = of_int \<lfloor>x * 100 + 1 / 2\<rfloor> / 100"

text \<open>
  \<open>weights[role] ?? 0\<close>: a role without a weight that names a property of \<open>Object.prototype\<close> yields a function or an
  object instead of a number (\<open>None\<close>).  Adding it turns the sum into a text, halving it into \<open>NaN\<close>; either way the
  rounded score is \<open>NaN\<close>.
\<close>

definition roleWeight :: "rat jsmap \<Rightarrow> string \<Rightarrow> rat option" where
  "roleWeight weights r = (case mget weights r of Some w \<Rightarrow> Some w | None \<Rightarrow> if r \<in> set OBJECT_PROTOTYPE then None else Some 0)"

definition outputScore :: "rat jsmap \<Rightarrow> AgentOutput \<Rightarrow> rat option" where
  "outputScore weights p = (case ao_decision p of
     APPROVE \<Rightarrow> roleWeight weights (ao_agentRole p)
   | REVISE \<Rightarrow> map_option (\<lambda>weight. weight / 2) (roleWeight weights (ao_agentRole p))
   | REJECT \<Rightarrow> Some 0)"

definition addScore :: "rat option \<Rightarrow> rat option \<Rightarrow> rat option" where
  "addScore a b = (case (a, b) of (Some x, Some y) \<Rightarrow> Some (x + y) | _ \<Rightarrow> None)"

definition isCriticalVeto :: "AgentOutput \<Rightarrow> bool" where
  "isCriticalVeto p = (ao_vetoActive p \<and> mget CRITICAL_VETO_ROLES (ao_agentRole p) = Some (ao_vetoType p))"

definition calculateBoardVotingResult :: "AgentOutput list \<Rightarrow> VotingOptions \<Rightarrow> BoardVotingResult" where
  "calculateBoardVotingResult outputs options =
     (let weights = orDefault (vo_weights options) DEFAULT_AGENT_WEIGHTS;
          approvalThreshold = orDefault (vo_approvalThreshold options) 75;
          requiredRoles = orDefault (vo_requiredRoles options) (map fst DEFAULT_AGENT_WEIGHTS);
          evidenceMinimum = orDefault (vo_evidenceQualityMinimum options) 70;
          missingReviews = filter (\<lambda>r. r \<notin> ao_agentRole ` set outputs) requiredRoles;
          activeCriticalVetoes = map (\<lambda>p. (ao_agentRole p, ao_vetoType p, ao_vetoReason p)) (filter isCriticalVeto outputs);
          blockingReasons = (if missingReviews \<noteq> [] then [MissingReviews missingReviews] else []) @
            (if activeCriticalVetoes \<noteq> [] then [CriticalVetoes activeCriticalVetoes] else []) @
            (case vo_evidenceQualityScore options of None \<Rightarrow> []
             | Some score \<Rightarrow> if score < evidenceMinimum then [WeakEvidence score evidenceMinimum] else []);
          weightedScore = map_option round2 (foldl (\<lambda>sum p. addScore sum (outputScore weights p)) (Some 0) outputs);
          meetsThreshold = (case weightedScore of None \<Rightarrow> False | Some score \<Rightarrow> score \<ge> approvalThreshold)
      in \<lparr>bv_weightedScore = weightedScore, bv_approvalThreshold = approvalThreshold, bv_meetsThreshold = meetsThreshold,
          bv_activeCriticalVetoes = activeCriticalVetoes, bv_blocked = (blockingReasons \<noteq> [] \<or> \<not> meetsThreshold),
          bv_blockingReasons = blockingReasons, bv_missingReviews = missingReviews\<rparr>)"

section \<open>\<open>opportunity-compliance.ts\<close>: tokens\<close>

text \<open>\<open>replace(/[p]+/g, ' ')\<close>\<close>

function replaceRuns :: "char_class \<Rightarrow> string \<Rightarrow> string" where
  "replaceRuns p [] = []"
| "replaceRuns p (c # cs) = (if p c then CHR '' '' # replaceRuns p (dropWhile p cs) else c # replaceRuns p cs)"
  by pat_completeness auto
termination
  by (relation "measure (\<lambda>(p, s). length s)") (auto simp: less_Suc_eq_le length_dropWhile_le)

definition tokenChar :: char_class where
  "tokenChar = cls_or isLower isDigit"

text \<open>
  Code units are below 256.  Those of them that \<open>toLowerCase\<close> changes outside \<open>A-Z\<close> become letters outside
  \<open>a-z\<close>, which are replaced anyway.
\<close>

definition normalizeComplianceToken :: "string \<Rightarrow> string" where
  "normalizeComplianceToken v =
     replaceRuns isWhiteSpace (trim (replaceRuns (\<lambda>c. \<not> tokenChar c) (map ascii_lower (trim v))))"

definition ascii_upper :: "char \<Rightarrow> char" where
  "ascii_upper c = (if CHR ''a'' \<le> c \<and> c \<le> CHR ''z'' then char_of (code_unit c - 32) else c)"

definition normalizeProductType :: "string \<Rightarrow> string" where
  "normalizeProductType v = map ascii_upper (map (\<lambda>c. if c = CHR '' '' then CHR ''_'' else c) (normalizeComplianceToken v))"

section \<open>\<open>opportunity-compliance.ts\<close>: the assessment\<close>

datatype OpportunityComplianceBlockerCode =
    MARKETPLACE_MISSING | POLICY_PACK_MISSING | POLICY_PACK_MARKETPLACE_MISMATCH | POLICY_PACK_INACTIVE | POLICY_PACK_EXPIRED
  | PRODUCT_TYPE_MISSING | PRODUCT_TYPE_UNSUPPORTED | CATEGORY_DECLARATION_MISSING | RESTRICTED_CATEGORY | THIRD_PARTY_TRADEMARK
  | UNLICENSED_COPYRIGHTED_STOCK | EVIDENCE_MISSING

text \<open>A \<open>Date\<close>, by its time value, or a text.\<close>

datatype DateInput = DateValue int | DateText string

record OpportunityCompliancePolicyPack =
  pk_marketplace :: string
  pk_version :: string
  pk_isActive :: bool
  pk_reviewDueAt :: DateInput
  pk_supportedProductTypes :: "string list"
  pk_restrictedCategories :: "string list"
  pk_ipChecks :: "string list"

record OpportunityComplianceInput =
  oi_marketplace :: "string option"
  oi_productType :: "string option"
  oi_declaredCategories :: "string list"
  oi_thirdPartyTrademarksPresent :: bool
  oi_copyrightedStockWithoutLicence :: bool
  oi_evidenceClaimIds :: "string list"
  oi_policyPack :: "OpportunityCompliancePolicyPack option"

type_synonym Blocker = "OpportunityComplianceBlockerCode \<times> string"

record OpportunityComplianceResult =
  or_passed :: bool
  or_hasCriticalBlocker :: bool
  or_blockers :: "Blocker list"
  or_normalizedProductType :: "string option"
  or_evaluatedAt :: string

definition validDate :: "(string \<Rightarrow> int option) \<Rightarrow> DateInput \<Rightarrow> policy_error + int" where
  "validDate engine value = (let refused = Inl (PolicyRangeError ''policyPack.reviewDueAt must be valid'') in case value of
     DateValue t \<Rightarrow> if \<bar>t\<bar> \<le> MAX_TIME then Inr t else refused
   | DateText s \<Rightarrow> (case dateParse engine s of None \<Rightarrow> refused | Some t \<Rightarrow> Inr t))"

text \<open>\<open>value?.trim() || null\<close>\<close>

definition trimmedOrNull :: "string option \<Rightarrow> string option" where
  "trimmedOrNull v = (case v of None \<Rightarrow> None | Some s \<Rightarrow> if trim s = [] then None else Some (trim s))"

definition includesText :: "string \<Rightarrow> string \<Rightarrow> bool" where
  "includesText s w = regex_test (Lit w) s"

definition blockIf :: "bool \<Rightarrow> OpportunityComplianceBlockerCode \<Rightarrow> string \<Rightarrow> Blocker list" where
  "blockIf b code reason = (if b then [(code, reason)] else [])"

definition marketplaceBlockers :: "string option \<Rightarrow> OpportunityCompliancePolicyPack \<Rightarrow> Blocker list" where
  "marketplaceBlockers marketplace pack =
     (let packMarketplace = normalizeComplianceToken (pk_marketplace pack); requestedMarketplace = map_option normalizeComplianceToken marketplace
      in blockIf (truthy requestedMarketplace \<and> Some packMarketplace \<noteq> requestedMarketplace) POLICY_PACK_MARKETPLACE_MISMATCH
           ''The loaded policy pack does not match the opportunity marketplace.'' @
         blockIf (\<not> pk_isActive pack) POLICY_PACK_INACTIVE ''The marketplace policy pack is inactive.'')"

definition productBlockers :: "string option \<Rightarrow> OpportunityCompliancePolicyPack \<Rightarrow> Blocker list" where
  "productBlockers normalizedProductType pack =
     (if \<not> truthy normalizedProductType
      then [(PRODUCT_TYPE_MISSING, ''A product type is required to evaluate marketplace support.'')]
      else blockIf (the normalizedProductType \<notin> normalizeProductType ` set (pk_supportedProductTypes pack)) PRODUCT_TYPE_UNSUPPORTED
        (''Product type '' @ the normalizedProductType @ '' is not supported by policy pack '' @ pk_version pack @ ''.''))"

definition categoryBlockers :: "string list \<Rightarrow> OpportunityCompliancePolicyPack \<Rightarrow> Blocker list" where
  "categoryBlockers declared pack =
     (let declaredCategories = filter (\<lambda>s. s \<noteq> []) (map normalizeComplianceToken declared)
      in if declaredCategories = [] then [(CATEGORY_DECLARATION_MISSING, ''At least one product/category declaration is required.'')]
         else (let restricted = filter (\<lambda>s. s \<noteq> []) (map normalizeComplianceToken (pk_restrictedCategories pack));
                   hits = filter (\<lambda>category. \<exists>blockedCategory \<in> set restricted.
                     category = blockedCategory \<or> includesText category blockedCategory) declaredCategories
               in blockIf (hits \<noteq> []) RESTRICTED_CATEGORY (''Restricted marketplace category declared: '' @ join_with '', '' hits @ ''.'')))"

definition rightsBlockers :: "OpportunityComplianceInput \<Rightarrow> OpportunityCompliancePolicyPack \<Rightarrow> Blocker list" where
  "rightsBlockers input pack =
     (let ipChecks = map normalizeComplianceToken (pk_ipChecks pack)
      in blockIf (oi_thirdPartyTrademarksPresent input \<and> (\<exists>check \<in> set ipChecks. includesText check ''trademark'')) THIRD_PARTY_TRADEMARK
           ''Third-party trademark use conflicts with the current marketplace IP policy check.'' @
         blockIf (oi_copyrightedStockWithoutLicence input \<and>
             (\<exists>check \<in> set ipChecks. includesText check ''copyright'' \<or> includesText check ''stock'' \<or> includesText check ''licence''))
           UNLICENSED_COPYRIGHTED_STOCK ''Copyrighted stock content without a licence conflicts with the current IP policy check.'')"

definition evaluateOpportunityCompliance ::
    "(string \<Rightarrow> int option) \<Rightarrow> int \<Rightarrow> OpportunityComplianceInput \<Rightarrow> policy_error + OpportunityComplianceResult" where
  "evaluateOpportunityCompliance engine now input =
     (if MAX_TIME < \<bar>now\<bar> then Inl (PolicyRangeError ''now must be valid'')
      else (let marketplace = trimmedOrNull (oi_marketplace input); productType = trimmedOrNull (oi_productType input);
                normalizedProductType = map_option normalizeProductType productType
        in ebind (case oi_policyPack input of
             None \<Rightarrow> Inr [(POLICY_PACK_MISSING, ''No active marketplace policy pack is available for assessment.'')]
           | Some pack \<Rightarrow> ebind (validDate engine (pk_reviewDueAt pack)) (\<lambda>due. Inr
               (marketplaceBlockers marketplace pack @
                blockIf (due < now) POLICY_PACK_EXPIRED ''The marketplace policy pack is past its review-due date.'' @
                productBlockers normalizedProductType pack @ categoryBlockers (oi_declaredCategories input) pack @
                rightsBlockers input pack))) (\<lambda>packBlockers.
           (let blockers = blockIf (marketplace = None) MARKETPLACE_MISSING ''A target marketplace is required for the compliance assessment.'' @
                  packBlockers @
                  blockIf (newSet (oi_evidenceClaimIds input) = []) EVIDENCE_MISSING
                    ''At least one opportunity evidence claim is required for compliance review.''
            in Inr \<lparr>or_passed = (blockers = []), or_hasCriticalBlocker = (blockers \<noteq> []), or_blockers = blockers,
                 or_normalizedProductType = normalizedProductType, or_evaluatedAt = isoText now\<rparr>))))"

end
