(* ===== verification/Policy_Properties.thy ===== *)
theory Policy_Properties
  imports Policy_Engine "HOL-Library.Sublist"
begin

text \<open>
  What the policy engine promises: a compliance token is the list of the words of a text, joined by single blanks;
  an opportunity for a marketplace with words in its name passes exactly under the conditions of the gate; with the
  default weights a board vote is blocked exactly by a missing review, a critical veto, weak evidence, a score that
  is no number or a low one, and a score that is a number is exact and bounded; a publication is free of blocking
  failures exactly when every core policy holds.
\<close>

section \<open>Words\<close>



lemma blank_white [simp]: "isWhiteSpace (CHR '' '')"
  by (simp add: isWhiteSpace_def)







section \<open>Compliance tokens\<close>















section \<open>The compliance gate\<close>



lemma blockIf_Nil [simp]: "blockIf b code reason = [] \<longleftrightarrow> \<not> b"
  by (simp add: blockIf_def)

lemma truthy_map: "truthy (map_option f v) \<longleftrightarrow> (\<exists>x. v = Some x \<and> f x \<noteq> [])"
  by (cases v) (auto simp: truthy_def)





section \<open>The vote\<close>

lemma vote_blocked_iff:
  "bv_blocked (calculateBoardVotingResult outputs options) \<longleftrightarrow>
     (\<exists>r. r \<in> set (orDefault (vo_requiredRoles options) (map fst DEFAULT_AGENT_WEIGHTS)) \<and> r \<notin> ao_agentRole ` set outputs) \<or>
     (\<exists>p. p \<in> set outputs \<and> isCriticalVeto p) \<or>
     (\<exists>s. vo_evidenceQualityScore options = Some s \<and> s < orDefault (vo_evidenceQualityMinimum options) 70) \<or>
     (case bv_weightedScore (calculateBoardVotingResult outputs options) of
        None \<Rightarrow> True | Some score \<Rightarrow> score < orDefault (vo_approvalThreshold options) 75)"
  by (auto simp: calculateBoardVotingResult_def Let_def filter_empty_conv not_le split: option.splits)

definition defaultWeight :: "string \<Rightarrow> rat" where
  "defaultWeight r = orDefault (mget DEFAULT_AGENT_WEIGHTS r) 0"

abbreviation boardRoles :: "string set" where
  "boardRoles \<equiv> set (map fst DEFAULT_AGENT_WEIGHTS)"

lemma defaultWeight_nonneg: "0 \<le> defaultWeight r"
  by (simp add: defaultWeight_def orDefault_def DEFAULT_AGENT_WEIGHTS_def)

lemma defaultWeight_pos_iff: "0 < defaultWeight r \<longleftrightarrow> r \<in> boardRoles"
  by (auto simp: defaultWeight_def orDefault_def DEFAULT_AGENT_WEIGHTS_def)

lemma defaultWeight_total: "(\<Sum>r \<in> boardRoles. defaultWeight r) = 100"
proof -
  have "distinct (map fst DEFAULT_AGENT_WEIGHTS)" by code_simp
  then have "(\<Sum>r \<in> boardRoles. defaultWeight r) = sum_list (map defaultWeight (map fst DEFAULT_AGENT_WEIGHTS))"
    by (rule sum.distinct_set_conv_list)
  also have "\<dots> = 100" by code_simp
  finally show ?thesis .
qed

lemma round2_halves: "round2 (of_int n / 2) = of_int n / 2"
proof -
  have "\<lfloor>of_int n / 2 * 100 + 1 / 2 :: rat\<rfloor> = 50 * n" by (rule floor_unique) simp_all
  then show ?thesis by (simp add: round2_def)
qed

text \<open>What the documentation gives a vote: its full weight, half of it, or nothing.\<close>

definition voteShare :: "AgentOutput \<Rightarrow> rat" where
  "voteShare p = (case ao_decision p of APPROVE \<Rightarrow> defaultWeight (ao_agentRole p) | REVISE \<Rightarrow> defaultWeight (ao_agentRole p) / 2 | REJECT \<Rightarrow> 0)"

text \<open>A vote that counts, under the name of an inherited property.\<close>

definition inheritedVote :: "AgentOutput \<Rightarrow> bool" where
  "inheritedVote p = (ao_agentRole p \<in> set OBJECT_PROTOTYPE \<and> ao_decision p \<noteq> REJECT)"

lemma board_not_inherited: "r \<in> set OBJECT_PROTOTYPE \<Longrightarrow> mget DEFAULT_AGENT_WEIGHTS r = None"
proof -
  have "list_all (\<lambda>r. mget DEFAULT_AGENT_WEIGHTS r = None) OBJECT_PROTOTYPE" by code_simp
  then show "r \<in> set OBJECT_PROTOTYPE \<Longrightarrow> mget DEFAULT_AGENT_WEIGHTS r = None" by (simp add: list_all_iff)
qed

lemma outputScore_default: "outputScore DEFAULT_AGENT_WEIGHTS p = (if inheritedVote p then None else Some (voteShare p))"
  using board_not_inherited [of "ao_agentRole p"]
  by (auto simp: outputScore_def roleWeight_def voteShare_def inheritedVote_def defaultWeight_def orDefault_def
      split: BoardDecision.splits option.splits)

lemma foldl_scores:
  "foldl (\<lambda>sum p. addScore sum (outputScore DEFAULT_AGENT_WEIGHTS p)) (Some a) outputs =
     (if \<exists>p \<in> set outputs. inheritedVote p then None else Some (a + sum_list (map voteShare outputs)))"
proof -
  have "foldl (\<lambda>sum p. addScore sum (outputScore DEFAULT_AGENT_WEIGHTS p)) None outputs = None" for outputs
    by (induction outputs) (simp_all add: addScore_def)
  then show ?thesis by (induction outputs arbitrary: a) (auto simp: outputScore_default addScore_def add.assoc)
qed

lemma voteShare_bounds:
  "0 \<le> voteShare p" "voteShare p \<le> defaultWeight (ao_agentRole p)"
  "0 < defaultWeight (ao_agentRole p) \<Longrightarrow> voteShare p = defaultWeight (ao_agentRole p) \<longleftrightarrow> ao_decision p = APPROVE"
  using defaultWeight_nonneg [of "ao_agentRole p"] by (auto simp: voteShare_def split: BoardDecision.splits)

lemma voteShare_half: "\<exists>n. voteShare p = of_int n / 2"
proof -
  have "\<exists>n. defaultWeight (ao_agentRole p) = of_int n"
    by (simp add: defaultWeight_def orDefault_def DEFAULT_AGENT_WEIGHTS_def)
  then obtain n where "defaultWeight (ao_agentRole p) = of_int n" ..
  then have "voteShare p \<in> {of_int (2 * n) / 2, of_int n / 2, of_int 0 / 2}"
    by (auto simp: voteShare_def split: BoardDecision.splits)
  then show ?thesis by blast
qed

lemma shares_half: "\<exists>n. sum_list (map voteShare outputs) = of_int n / 2"
proof (induction outputs)
  case Nil
  show ?case by (rule exI [of _ 0]) simp
next
  case (Cons p outputs)
  then obtain n k where "sum_list (map voteShare outputs) = of_int n / 2" "voteShare p = of_int k / 2" using voteShare_half by blast
  then show ?case by (intro exI [of _ "k + n"]) (simp add: add_divide_distrib)
qed

lemma default_score:
  assumes "vo_weights options = None"
  shows "bv_weightedScore (calculateBoardVotingResult outputs options) =
    (if \<exists>p \<in> set outputs. inheritedVote p then None else Some (sum_list (map voteShare outputs)))"
proof -
  obtain n where n: "sum_list (map voteShare outputs) = of_int n / 2" using shares_half by blast
  have "round2 (sum_list (map voteShare outputs)) = sum_list (map voteShare outputs)" unfolding n by (rule round2_halves)
  then show ?thesis using assms by (simp add: calculateBoardVotingResult_def Let_def orDefault_def foldl_scores)
qed

text \<open>One vote per role: the score is a sum over the roles of the board.\<close>

definition roleScore :: "AgentOutput list \<Rightarrow> string \<Rightarrow> rat" where
  "roleScore outputs r = (case find (\<lambda>p. ao_agentRole p = r) outputs of None \<Rightarrow> 0 | Some p \<Rightarrow> voteShare p)"

lemma roleScore_le: "roleScore outputs r \<le> defaultWeight r"
  using voteShare_bounds(2) defaultWeight_nonneg
  by (auto simp: roleScore_def find_Some_iff split: option.splits)

lemma scores_by_role:
  assumes "distinct (map ao_agentRole outputs)"
  shows "sum_list (map voteShare outputs) = (\<Sum>r \<in> boardRoles. roleScore outputs r)"
  using assms
proof (induction outputs)
  case (Cons p outputs)
  let ?r = "ao_agentRole p" and ?s = "voteShare p"
  have "find (\<lambda>q. ao_agentRole q = ?r) outputs = None" using Cons.prems unfolding find_None_iff by (auto intro: rev_image_eqI)
  then have split: "roleScore (p # outputs) r = (if r = ?r then ?s else 0) + roleScore outputs r" for r
    by (simp add: roleScore_def)
  have "?s = 0" if "?r \<notin> boardRoles"
    using that defaultWeight_pos_iff [of ?r] voteShare_bounds(1,2) [of p] by linarith
  then have "(\<Sum>r \<in> boardRoles. if r = ?r then ?s else 0) = ?s" by (simp add: sum.delta del: set_map)
  then show ?case using Cons by (simp add: split sum.distrib del: set_map)
qed (simp add: roleScore_def)


lemma full_score_iff:
  assumes "distinct (map ao_agentRole outputs)"
  shows "(\<Sum>r \<in> boardRoles. roleScore outputs r) = 100 \<longleftrightarrow>
    (\<forall>r. r \<in> boardRoles \<longrightarrow> (\<exists>p. p \<in> set outputs \<and> ao_agentRole p = r \<and> ao_decision p = APPROVE))"
proof -
  have role: "roleScore outputs r = defaultWeight r \<longleftrightarrow> (\<exists>p. p \<in> set outputs \<and> ao_agentRole p = r \<and> ao_decision p = APPROVE)"
    if r: "r \<in> boardRoles" for r
  proof (cases "find (\<lambda>p. ao_agentRole p = r) outputs")
    case None
    then have "roleScore outputs r = 0" by (simp add: roleScore_def)
    then show ?thesis using None r defaultWeight_pos_iff [of r] by (auto simp: find_None_iff simp del: set_map)
  next
    case (Some p)
    then have p: "p \<in> set outputs" "ao_agentRole p = r" by (auto simp: find_Some_iff)
    have "q = p" if "q \<in> set outputs" "ao_agentRole q = r" for q
      using assms p that by (auto simp: distinct_map inj_on_def)
    then have "(\<exists>p. p \<in> set outputs \<and> ao_agentRole p = r \<and> ao_decision p = APPROVE) \<longleftrightarrow> ao_decision p = APPROVE" using p by metis
    moreover have "roleScore outputs r = defaultWeight r \<longleftrightarrow> ao_decision p = APPROVE"
      using voteShare_bounds(3) [of p] defaultWeight_pos_iff [of r] r Some p(2) by (simp add: roleScore_def del: set_map)
    ultimately show ?thesis by simp
  qed
  have "(\<Sum>r \<in> boardRoles. roleScore outputs r) = 100 \<longleftrightarrow> (\<forall>r \<in> boardRoles. roleScore outputs r = defaultWeight r)"
    using sum_mono_inv [of "roleScore outputs" boardRoles defaultWeight] roleScore_le defaultWeight_total
    by (auto simp del: set_map)
  with role show ?thesis by blast
qed

lemma score_bounds: "0 \<le> (\<Sum>r \<in> boardRoles. roleScore outputs r)" "(\<Sum>r \<in> boardRoles. roleScore outputs r) \<le> 100"
proof -
  have "0 \<le> roleScore outputs r" for r using voteShare_bounds(1) by (auto simp: roleScore_def split: option.splits)
  then show "0 \<le> (\<Sum>r \<in> boardRoles. roleScore outputs r)" by (rule sum_nonneg)
  show "(\<Sum>r \<in> boardRoles. roleScore outputs r) \<le> 100"
    using sum_mono [of boardRoles "roleScore outputs" defaultWeight] roleScore_le defaultWeight_total by metis
qed

section \<open>Spellings\<close>















section \<open>The core policies\<close>

lemma blocking_Nil: "\<not> hasBlockingFailure []"
  by (simp add: hasBlockingFailure_def)

lemma blocking_Cons: "hasBlockingFailure (evalResult i v pass e ins blocking t rem # es) \<longleftrightarrow> \<not> pass \<and> blocking \<or> hasBlockingFailure es"
  by (auto simp: hasBlockingFailure_def evalResult_def)

lemma publication_blocked_iff:
  assumes "evaluateCorePolicies ctx = Inr evaluations"
  shows "\<not> hasBlockingFailure evaluations \<longleftrightarrow>
      pc_approvalExists ctx \<and> pc_approvalMatchesVersion ctx \<and> pc_approvalMatchesHash ctx \<and> \<not> pc_approvalExpired ctx \<and>
      pc_requestedCostEur ctx \<le> pc_approvedMaxCostEur ctx \<and> \<not> pc_hasCriticalComplianceRisk ctx \<and>
      \<not> pc_hasCriticalSecurityRisk ctx \<and> \<not> pc_hasCriticalQualityIssue ctx \<and> \<not> pc_hasMissingLicence ctx \<and>
      \<not> pc_marketplacePolicyPackExpired ctx \<and> pc_financialDataValid ctx \<and> pc_evidenceComplete ctx"
proof (cases "toISOString (pc_now ctx)")
  case None
  then show ?thesis using assms by (simp only: evaluateCorePolicies_def option.case sum.distinct)
next
  case (Some now)
  have "hasBlockingFailure evaluations \<longleftrightarrow> \<not> pc_approvalExists ctx \<or> \<not> pc_approvalMatchesVersion ctx \<or> \<not> pc_approvalMatchesHash ctx \<or>
      pc_approvalExpired ctx \<or> \<not> pc_requestedCostEur ctx \<le> pc_approvedMaxCostEur ctx \<or> pc_hasCriticalComplianceRisk ctx \<or>
      pc_hasCriticalSecurityRisk ctx \<or> pc_hasCriticalQualityIssue ctx \<or> pc_hasMissingLicence ctx \<or>
      pc_marketplacePolicyPackExpired ctx \<or> \<not> pc_financialDataValid ctx \<or> \<not> pc_evidenceComplete ctx"
    using assms unfolding evaluateCorePolicies_def Some option.case Let_def sum.inject
    by - (drule sym, simp only: blocking_Cons blocking_Nil simp_thms)
  then show ?thesis by blast
qed

section \<open>Properties\<close>


definition exampleOpportunity :: OpportunityComplianceInput where
  "exampleOpportunity = \<lparr>oi_marketplace = Some '' Etsy '', oi_productType = Some ''digital-planner'', oi_declaredCategories = [''Paper goods''],
     oi_thirdPartyTrademarksPresent = False, oi_copyrightedStockWithoutLicence = True, oi_evidenceClaimIds = [''claim-1''],
     oi_policyPack = Some \<lparr>pk_marketplace = ''ETSY'', pk_version = ''v1'', pk_isActive = True, pk_reviewDueAt = DateValue 2000,
       pk_supportedProductTypes = [''Digital Planner''], pk_restrictedCategories = [''weapons''], pk_ipChecks = [''Third-party trademarks'']\<rparr>\<rparr>"


text \<open>
  C21.  The vote with the default weights, one output per role.  The score is no number exactly when a role named like a
  property of \<open>Object.prototype\<close> approves or asks for a revision.  Otherwise it is the exact sum of the full weights of
  approvals and the half weights of revisions, lies between 0 and 100, and is 100 exactly when all eight roles of the
  board approve.  The vote is blocked exactly when a required role has not voted, a critical veto is active, the
  evidence is below its minimum, the score is no number, or it is below the threshold.
\<close>

theorem board_vote_sound:
  assumes "vo_weights options = None" "distinct (map ao_agentRole outputs)" and "result = calculateBoardVotingResult outputs options"
  shows "(bv_weightedScore result = None \<longleftrightarrow> (\<exists>p. p \<in> set outputs \<and> ao_agentRole p \<in> set OBJECT_PROTOTYPE \<and> ao_decision p \<noteq> REJECT)) \<and>
    (\<forall>score. bv_weightedScore result = Some score \<longrightarrow> score = sum_list (map voteShare outputs) \<and> 0 \<le> score \<and> score \<le> 100 \<and>
       (score = 100 \<longleftrightarrow> (\<forall>r. r \<in> set BOARD_AGENT_ROLES \<longrightarrow> (\<exists>p. p \<in> set outputs \<and> ao_agentRole p = r \<and> ao_decision p = APPROVE)))) \<and>
    (bv_blocked result \<longleftrightarrow>
       (\<exists>r. r \<in> set (orDefault (vo_requiredRoles options) BOARD_AGENT_ROLES) \<and> r \<notin> ao_agentRole ` set outputs) \<or>
       (\<exists>p. p \<in> set outputs \<and> ao_vetoActive p \<and> (ao_agentRole p, ao_vetoType p) \<in> set CRITICAL_VETO_ROLES) \<or>
       (\<exists>s. vo_evidenceQualityScore options = Some s \<and> s < orDefault (vo_evidenceQualityMinimum options) 70) \<or>
       bv_weightedScore result = None \<or> sum_list (map voteShare outputs) < orDefault (vo_approvalThreshold options) 75)"
proof -
  have roles: "map fst DEFAULT_AGENT_WEIGHTS = BOARD_AGENT_ROLES" by code_simp
  have "distinct (map fst CRITICAL_VETO_ROLES)" by code_simp
  then have veto: "isCriticalVeto p \<longleftrightarrow> ao_vetoActive p \<and> (ao_agentRole p, ao_vetoType p) \<in> set CRITICAL_VETO_ROLES" for p
    by (simp add: isCriticalVeto_def)
  have score: "bv_weightedScore result = (if \<exists>p \<in> set outputs. inheritedVote p then None else Some (sum_list (map voteShare outputs)))"
    unfolding assms(3) by (rule default_score [OF assms(1)])
  note sums = scores_by_role [OF assms(2)]
  note blocked = vote_blocked_iff [of outputs options, folded assms(3), unfolded veto score roles]
  have full: "sum_list (map voteShare outputs) = 100 \<longleftrightarrow>
      (\<forall>r. r \<in> set BOARD_AGENT_ROLES \<longrightarrow> (\<exists>p. p \<in> set outputs \<and> ao_agentRole p = r \<and> ao_decision p = APPROVE))"
    using full_score_iff [OF assms(2)] unfolding sums roles by simp
  have bounds: "0 \<le> sum_list (map voteShare outputs)" "sum_list (map voteShare outputs) \<le> 100"
    unfolding sums by (rule score_bounds)+
  show ?thesis
    unfolding blocked score using full bounds by (auto simp: inheritedVote_def)
qed

definition fullBoard :: "AgentOutput list" where
  "fullBoard = map (\<lambda>r. \<lparr>ao_agentRole = r, ao_decision = (if r = ''GROWTH_DIRECTOR'' then REVISE else APPROVE), ao_vetoActive = False,
     ao_vetoType = VETO_NONE, ao_vetoReason = []\<rparr>) BOARD_AGENT_ROLES"

definition defaultOptions :: VotingOptions where
  "defaultOptions = \<lparr>vo_weights = None, vo_approvalThreshold = None, vo_requiredRoles = None, vo_evidenceQualityScore = Some 80, vo_evidenceQualityMinimum = None\<rparr>"

text \<open>A board of eight with one revision: the score is a number below 100 and the vote is not blocked.\<close>

theorem board_vote_sound_witness:
  "vo_weights defaultOptions = None \<and> distinct (map ao_agentRole fullBoard) \<and>
   (\<exists>score. bv_weightedScore (calculateBoardVotingResult fullBoard defaultOptions) = Some score \<and> 0 \<le> score \<and> score < 100) \<and>
   \<not> bv_blocked (calculateBoardVotingResult fullBoard defaultOptions)"
proof -
  let ?r = "calculateBoardVotingResult fullBoard defaultOptions"
  have weights: "vo_weights defaultOptions = None" and roles: "distinct (map ao_agentRole fullBoard)" by code_simp+
  note sound = board_vote_sound [OF weights roles refl]
  have "list_all (\<lambda>p. \<not> inheritedVote p) fullBoard" by code_simp
  then have "bv_weightedScore ?r \<noteq> None" using sound by (auto simp: list_all_iff inheritedVote_def)
  then obtain score where score: "bv_weightedScore ?r = Some score" by blast
  have "\<not> (\<exists>p. p \<in> set fullBoard \<and> ao_agentRole p = ''GROWTH_DIRECTOR'' \<and> ao_decision p = APPROVE)" by (auto simp: fullBoard_def)
  moreover have "''GROWTH_DIRECTOR'' \<in> set BOARD_AGENT_ROLES" by code_simp
  ultimately have "0 \<le> score" "score < 100" using sound score by (force simp: less_le)+
  moreover have "sum_list (map voteShare fullBoard) = 95" by code_simp
  moreover have "ao_agentRole ` set fullBoard = set BOARD_AGENT_ROLES" by (force simp: fullBoard_def)
  ultimately show ?thesis
    using sound score weights roles by (auto simp: defaultOptions_def orDefault_def fullBoard_def)
qed

section \<open>A marketplace without words\<close>

text \<open>The pack of one marketplace clears an opportunity for another whose name has no letter of \<open>a-z\<close> and no digit.\<close>

lemma wordless_marketplace_passes:
  "\<exists>r. evaluateOpportunityCompliance (\<lambda>_. None) 1000 (exampleOpportunity\<lparr>oi_marketplace := Some ''***''\<rparr>) = Inr r \<and> or_passed r"
proof -
  have "\<not> isl (evaluateOpportunityCompliance (\<lambda>_. None) 1000 (exampleOpportunity\<lparr>oi_marketplace := Some ''***''\<rparr>)) \<and>
    or_passed (projr (evaluateOpportunityCompliance (\<lambda>_. None) 1000 (exampleOpportunity\<lparr>oi_marketplace := Some ''***''\<rparr>)))"
    by code_simp
  then show ?thesis by (metis sum.collapse(2))
qed

end
