(* ===== verification/Findings.thy ===== *)
theory Findings
  imports Control_Plane Ai_Coo_Scenario
begin

text \<open>
  Places where the code does something other than it means to, each shown on the model.  The acceptance of
  inherited property names as task kinds is shown with the plan checks in \<open>Task_Plan_Properties\<close>.
\<close>

text \<open>
  \<open>transitionTask\<close> records \<open>task.status.changed\<close> before it looks the transition up: a refused transition
  leaves an event that says it took place.
\<close>

lemma refused_transition_recorded:
  assumes "require (cp_tasks s) cx i ''Task'' = Inr task" "assertTaskOperator s (ce_now env) cx task = Inr ()"
    and "next \<noteq> T_RUNNING" "next \<noteq> T_COMPLETED" "\<not> taskHasActiveRun s (task_workspaceId task) (task_id task)"
    and "next \<notin> set (TASK_TRANSITIONS (task_status task))"
    and "emitOperationalEvent env cx TaskStatusChanged ''Task'' (task_id task)
      [(''previousStatus'', FText (taskStatusText (task_status task))), (''nextStatus'', FText (taskStatusText next))] (Some (task_id task)) s = (Inr (), t)"
  shows "transitionTask env cx i next s = (Inl (illegalTaskTransition (task_status task) next), t)"
  using assms by (simp add: transitionTask_def transitionTaskRecord_def andThen_def reads_def ensure_def)

text \<open>
  The clock guard of the broker admits safe integers for which no date exists: \<open>toISOString\<close> then throws a
  \<open>RangeError\<close>, not the policy error of the guard.
\<close>

lemma clock_guard_incomplete:
  assumes "validateRequest cx request = Inr ()" "length (workspaceCandidates s (cx_workspaceId cx)) \<le> 1000"
  shows "route engine 8640000000000001 s cx request = Inl (BrokerRangeError ''Invalid time value'')"
proof -
  have "toISOString 8640000000000001 = None" "isSafeInteger 8640000000000001" by code_simp+
  with assms show ?thesis by (simp add: route_def Let_def ensure_def)
qed

text \<open>The two tables of task kinds disagree on health checks: on the authority they need and on the scope of their tool.\<close>

lemma health_check_tables_differ:
  "tkp_authorityLevel (TASK_POLICIES RuntimeHealthCheck) = 0" "km_authority (TASK_KIND_MINIMUMS RuntimeHealthCheck) = 1"
  "tkp_tools (TASK_POLICIES RuntimeHealthCheck) = [(''runtime.health'', ''observe'')]"
  "km_toolId (TASK_KIND_MINIMUMS RuntimeHealthCheck) = ''runtime.health''" "km_scope (TASK_KIND_MINIMUMS RuntimeHealthCheck) = ''read''"
  by simp_all

text \<open>
  \<open>createPlan\<close> stores the plan before it emits its events.  A task id with a space passes the checks of the
  plan and the factory, but not those of the event sink: the call fails, the task is stored without its
  events, and the same plan is refused from then on because its objective exists.
\<close>

definition spacedPlan :: ObjectivePlan where
  "spacedPlan = teamPlan\<lparr>op_tasks := [planTask ''code review'' [] 1 1000]\<rparr>"

definition observedStart :: AiCoo where
  "observedStart = teamStart\<lparr>ac_sink := Some (emptyLog, newCapability AI_COO
     [\<lparr>pb_workspaceId = ''ws'', pb_principalId = ''coo'', pb_actorKind = AGENT, pb_authorityLevel = None\<rparr>])\<rparr>"

lemma failed_plan_stays:
  "(case createPlan teamEnv planner spacedPlan observedStart of
     (r, t) \<Rightarrow> \<not> succeeds r \<and> map ct_id (mvalues (ac_tasks t)) = [''code review''] \<and>
       map ev_type (ac_events t) = [CE_objective_created, CE_project_created] \<and>
       fst (createPlan teamEnv planner spacedPlan t) = Inl (AiCooPolicyError ''Objective already exists''))"
  by code_simp

end
