(* ===== verification/Spec2Isabelle.thy ===== *)
theory Spec2Isabelle
  imports Control_Plane_Refinement Control_Plane_Tenancy Runtime_Routing_Properties Governance_Properties Reservation_Properties
    Agent_Factory_Properties Ai_Coo_Properties Voice_Properties Bridge_Properties Policy_Properties Findings
begin

text \<open>
  Verification of the agent control plane of VentureOS, the package
  \<open>src/packages/agent-control-plane/src\<close> of the repository: the in-memory components that decide which
  agent may do which work, with which authority and budget, on which runtime; and of the wire protocol of
  \<open>src/packages/agent-bridge/src\<close>, over which a runtime talks to it, and the decisions of \<open>src/packages/policy-engine/src\<close>.

  \<^bold>\<open>The program and the theories\<close>

  \<^item> \<open>contracts.ts\<close>, the data shared by all components: \<open>Contracts\<close>.
  \<^item> \<open>events.ts\<close>, the operational event log with its capabilities and fact policies: \<open>Events\<close>.  The state is
    \<open>EventLog\<close>, the operations are \<open>issue\<close>, \<open>appendBatch\<close>, \<open>appendEvents\<close> and the listing.
  \<^item> \<open>control-plane.ts\<close>, \<open>InMemoryControlPlane\<close>: \<open>Control_Plane_Policy\<close> (payload checks, task kinds,
    transition tables, proofs, grants, the record \<open>ControlPlane\<close> of its maps) and \<open>Control_Plane\<close> (one
    definition for every public method).  \<open>executeDispatch\<close> and \<open>cancelRun\<close> await an adapter; each is split
    into what runs before the await and what runs with the answer (\<open>settleDispatch\<close>, \<open>settleCancellation\<close>).
    \<open>Control_Plane_System\<close> is the transition system of all calls, all adapter answers and all other users of
    the event log, in any order; \<open>Control_Plane_Effects\<close> the relation of permitted effects that every call
    refines; \<open>Control_Plane_Invariants\<close> and \<open>Control_Plane_Permits\<close> the invariants of the effects;
    \<open>Control_Plane_Refinement\<close> the refinement of the abstract job ledger; \<open>Control_Plane_Tenancy\<close> the
    isolation of workspaces; \<open>Control_Plane_Scenario\<close> a concrete session for the witnesses.
  \<^item> \<open>runtime-broker.ts\<close>, \<open>RuntimeBroker\<close>: \<open>Runtime_Broker\<close>, with \<open>Runtime_Routing\<close> for the facts about
    ranking.
  \<^item> \<open>approval-bridge.ts\<close>, \<open>cost-governance.ts\<close>, \<open>broker-reservation.ts\<close>, the hashes that bind approvals,
    budgets, ledger entries and reservations: \<open>Approval_Bridge\<close>, \<open>Cost_Governance\<close>, \<open>Broker_Reservation\<close>,
    with \<open>Governance_Properties\<close> and \<open>Reservation_Properties\<close>.
  \<^item> \<open>agent-factory.ts\<close>, \<open>DynamicAgentFactory\<close>: \<open>Agent_Factory\<close>, with \<open>Agent_Factory_Invariants\<close> over all
    sequences of calls.
  \<^item> \<open>task-run-policy.ts\<close>, the validation of durable plans from untrusted JSON values, their policy snapshots
    and hashes: \<open>Task_Run_Policy\<close>, \<open>Task_Plan_Properties\<close>.
  \<^item> \<open>ai-coo.ts\<close>, \<open>GovernedAiCoo\<close>, the planner on top of broker and factory: \<open>Coo_Graph\<close> (the ready queue and
    the longest path over the dependency graph), \<open>Ai_Coo\<close> (the record \<open>AiCoo\<close> of its maps with the broker and
    the factory it calls, and every public method), \<open>Ai_Coo_Moves\<close> (every call as a sequence of elementary
    moves, errors included), \<open>Ai_Coo_Invariants\<close>, \<open>Ai_Coo_Progress\<close> (calls that pass their checks succeed),
    \<open>Ai_Coo_Scenario\<close>.
  \<^item> \<open>voice-gateway.ts\<close>, \<open>GovernedVoiceGateway\<close>: \<open>Voice_Gateway\<close> (adapters, sessions, the routing of final
    transcripts, redaction, history), \<open>Voice_Redaction\<close>, \<open>Voice_Invariants\<close>, \<open>Voice_System\<close>.
  \<^item> \<open>agent-bridge/src/protocol.ts\<close>, \<open>policy.ts\<close>, \<open>codec.ts\<close>: \<open>Bridge_Codec\<close> (canonical values, envelopes,
    lines, batches, the line buffer), with \<open>Bridge_Codec_Properties\<close> and \<open>Bridge_Stream\<close>.
  \<^item> \<open>agent-bridge/src/auth.ts\<close>: \<open>Bridge_Auth\<close> (keys, digests, signatures), with \<open>Bridge_Auth_Properties\<close>.
  \<^item> \<open>agent-bridge/src/secret-lease.ts\<close>, \<open>authenticated-jsonl-session.ts\<close>: \<open>Bridge_Session\<close> (the lease and the
    session; \<open>ingest\<close> is split where it yields), \<open>Bridge_Session_Invariants\<close> (all calls, answers of the
    resolver and clock readings in any order), \<open>Bridge_Progress\<close>, \<open>Bridge_Scenario\<close>, \<open>Bridge_Properties\<close>.
  \<^item> \<open>policy-engine/src/policies.ts\<close>, \<open>board-voting.ts\<close>, \<open>opportunity-compliance.ts\<close>: \<open>Policy_Engine\<close>, with
    \<open>Policy_Properties\<close>.
  \<^item> The JavaScript library as far as the sources use it: \<open>Js_Text\<close> (strings, numbers, JSON values,
    \<open>JSON.stringify\<close>, keys), \<open>Js_Array\<close> (\<open>Set\<close>, stable \<open>sort\<close>), \<open>Js_Regex\<close> (regular expressions),
    \<open>Js_Date\<close> (\<open>toISOString\<close>, \<open>Date.parse\<close>), \<open>Js_Json\<close> (canonical JSON and its injectivity), \<open>Js_Parse\<close>
    (bytes, UTF-8 and \<open>JSON.parse\<close>, the inverse of \<open>JSON.stringify\<close>).
  \<^item> \<open>Prelude\<close>: errors as sums, methods as state transformers that keep the state they reached when they
    throw, their weakest preconditions, maps with insertion order, reachability, and the locales
    \<open>invariant_system\<close>, \<open>append_only_log\<close>, \<open>status_table\<close> that the components interpret.

  \<^bold>\<open>How the components interact\<close>

  The control plane, the factory and the planner append to event logs under capabilities.  The planner calls
  \<open>route\<close> of the broker and \<open>registerPlan\<close> and \<open>instantiate\<close> of the factory on the models of those components;
  its surroundings may change factory, broker and log between calls in any way.  A reservation is built from
  a decision of the broker.  The planner and the durable plans check dependencies with different algorithms,
  which are shown to agree.  A session of the bridge leases the secret, derives the key and verifies with the
  functions of the codec and of \<open>auth.ts\<close>.

  \<^bold>\<open>What is shown\<close>

  \<^item> Control plane (C1 to C6, C27 to C30): budgets, agreement of runs and tasks, one active run for a
    task, dispatch at most once and only with a claimed permit, progress of legal transitions and of pending
    adapter calls, refinement of the job ledger, isolation of workspaces, well-formed stores.
  \<^item> Runtime broker (C7 to C9): the selected runtime is eligible and best, the decision does not depend on
    the order of registration, refusals name every reason.
  \<^item> Agent bridge (C10 to C12, C15, C17, C18, C34): a line and its envelope determine each other, chunks and
    batches give the same frames, a session delivers authentic frames only, each once and in order, failure
    is final, signed envelopes are accepted and honest traffic is delivered.
  \<^item> Approvals, costs, reservations (C14, C20, C22): the digests bind every field up to a
    collision of SHA-256, canonical texts are sorted JSON, a decision of the broker over a valid snapshot is reservable within the capacity bound.
  \<^item> Agent factory (C23 to C26): delegation attenuates, limits hold, requests are consumed once, refused calls
    change nothing.
  \<^item> Durable plans (C31 to C33): the dependency check is right and ends, accepted plans are consistent, policy
    hashes identify policies.
  \<^item> Planner (C35 to C40): the two dependency checks agree, the ready queue ends, the critical path is longest,
    budgets and attempts are bounded, work follows its dependencies, assignments are governed and used once.
  \<^item> Voice gateway (C16, C19): what is kept is redacted and bounded, commands are governed and transcripts are
    spent once.
  \<^item> Policy engine (C13, C21): for a marketplace with words in its name the compliance gate passes exactly under its
    conditions, stated over the words of the texts; with the default weights the score of a board is exact and bounded
    where it is a number, and what blocks a vote.
  \<^item> \<open>Findings\<close>: where the code does something else than it means to.

  \<^bold>\<open>Conventions\<close>

  Strings are lists of UTF-16 code units below 256, so \<open>length\<close> is the length JavaScript reports; texts with
  other code units are outside the model.  Typed numbers are \<open>int\<close>, with the range checks of the code;
  \<open>double_round\<close> is applied where the code adds numbers that may leave the safe integers, and \<open>bigint\<close>
  arithmetic is exact.  Parameters typed \<open>unknown\<close> are JSON values; for parameters with a declared type the
  checks of their dynamic shape (plain object, exact keys, dense array, member of a union) have no
  counterpart.  \<open>structuredClone\<close> and freezing are the identity, because model values are not shared.
  Comparisons of \<open>JSON.stringify\<close> texts of typed data are equality of the data.  The amounts, weights and scores of
  the policy engine are rational numbers.

  \<^bold>\<open>Parameters\<close>

  SHA-256, HMAC, HKDF, the rounding of number literals that are no safe integers, \<open>localeCompare\<close>, \<open>Date.parse\<close> outside the canonical format, clocks, id factories, verifiers,
  transcript hashers, authority evaluators, routers and runtime adapters are arguments of the definitions
  that use them.  In the planner and in the voice gateway every reading of the clock and every id may differ;
  in the other components a call sees one clock value.  The ports of the voice gateway are functions: they do not
  call the gateway back, and the hasher gives the same hash for the same transcript within a call.

  \<^bold>\<open>Termination\<close>

  All loops are total functions: the depth-first check by the tasks not yet visited, the ready
  queue by the queue and the tasks with open dependencies (at most as many rounds as tasks, C36), the
  replacement of matches by the length of the remaining text, the loops over the lines of a stream by the bytes
  left, the payload check by the 1,024 nodes it visits at most.  Only \<open>JSON.parse\<close> runs on fuel, twice the length
  of the text and two more; \<open>parse_enough\<close> shows that more fuel changes nothing.

  \<^bold>\<open>Not modelled\<close>

  In the bridge, characters above U+00FF (a frame with one is refused by the model) and the physical erasure of
  keys.  The speech adapters, verifiers and stores that the package only declares as interfaces.  Of the other
  packages: \<open>evidence-quality.ts\<close> of the policy engine, \<open>scoring-engine\<close> and the calculations of
  \<open>finance-engine\<close> weigh and round fractions in double precision, which needs a model of floating point; the rest of
  \<open>agent-bridge\<close> supervises native processes, with signatures, file descriptors and module loading; \<open>agent-runtime\<close>, \<open>billing\<close>, \<open>product-studio\<close>,
  \<open>marketplace-connectors\<close>, \<open>database\<close> and the services of \<open>apps/api\<close> and \<open>apps/worker\<close> are transactions of
  the Prisma client, whose behaviour is not part of the repository; \<open>apps/web\<close> is a user interface.
\<close>

end
